(* ===== verification/Prelude.thy ===== *)
theory Prelude
  imports Main "HOL-Library.AList"
begin

section \<open>Shared vocabulary of the development\<close>

text \<open>
  Bounded integers, error results, association lists standing for hash maps, and the
  named fact collections that the component theories share.

  Rust's unsigned integers are modelled as naturals; every operation of the code that
  saturates or is checked at a width is written with its bound here, so a width occurs in
  the model exactly where it occurs in the code.  Rust's \<open>saturating_sub\<close> on
  unsigned integers is subtraction on \<^typ>\<open>nat\<close>, which also stops at zero.
\<close>

named_theorems model_simps \<open>unfolding rules for the model's small helper functions\<close>
named_theorems model_intros \<open>introduction rules for the model's invariants\<close>

subsection \<open>Bounded integers\<close>

definition u8_max :: nat where "u8_max = 2 ^ 8 - 1"
definition u32_max :: nat where "u32_max = 2 ^ 32 - 1"
definition u64_max :: nat where "u64_max = 2 ^ 64 - 1"
definition u128_max :: nat where "u128_max = 2 ^ 128 - 1"

definition saturating_add :: "nat \<Rightarrow> nat \<Rightarrow> nat \<Rightarrow> nat" where
  "saturating_add m a b = min (a + b) m"

definition saturating_mul :: "nat \<Rightarrow> nat \<Rightarrow> nat \<Rightarrow> nat" where
  "saturating_mul m a b = min (a * b) m"

definition checked_add :: "nat \<Rightarrow> nat \<Rightarrow> nat \<Rightarrow> nat option" where
  "checked_add m a b = (if a + b \<le> m then Some (a + b) else None)"

definition checked_mul :: "nat \<Rightarrow> nat \<Rightarrow> nat \<Rightarrow> nat option" where
  "checked_mul m a b = (if a * b \<le> m then Some (a * b) else None)"

lemma saturating_add_le [simp]: "saturating_add m a b \<le> m"
  by (simp add: saturating_add_def)

lemma saturating_mul_le [simp]: "saturating_mul m a b \<le> m"
  by (simp add: saturating_mul_def)

lemma saturating_add_exact [simp]: "a + b \<le> m \<Longrightarrow> saturating_add m a b = a + b"
  by (simp add: saturating_add_def)

lemma saturating_add_mono: "a \<le> m \<Longrightarrow> a \<le> saturating_add m a b"
  by (simp add: saturating_add_def)

lemma checked_add_Some [simp]: "checked_add m a b = Some c \<longleftrightarrow> a + b \<le> m \<and> c = a + b"
  by (auto simp: checked_add_def)

lemma checked_add_None [simp]: "checked_add m a b = None \<longleftrightarrow> m < a + b"
  by (auto simp: checked_add_def)

lemma checked_mul_Some [simp]: "checked_mul m a b = Some c \<longleftrightarrow> a * b \<le> m \<and> c = a * b"
  by (auto simp: checked_mul_def)

lemma checked_mul_None [simp]: "checked_mul m a b = None \<longleftrightarrow> m < a * b"
  by (auto simp: checked_mul_def)

subsection \<open>Error results\<close>

text \<open>
  A \<open>Result\<close> of the code is a sum, the error on the left.  \<open>ok_or\<close> is
  \<open>Option::ok_or\<close>.
\<close>

definition ok_or :: "'e \<Rightarrow> 'a option \<Rightarrow> 'e + 'a" where
  "ok_or e x = (case x of None \<Rightarrow> Inl e | Some v \<Rightarrow> Inr v)"

definition result_bind :: "'e + 'a \<Rightarrow> ('a \<Rightarrow> 'e + 'b) \<Rightarrow> 'e + 'b" where
  "result_bind r f = (case r of Inl e \<Rightarrow> Inl e | Inr v \<Rightarrow> f v)"

lemma ok_or_simps [simp]: "ok_or e None = Inl e" "ok_or e (Some v) = Inr v"
  by (simp_all add: ok_or_def)

lemma ok_or_Inr [simp]: "ok_or e x = Inr v \<longleftrightarrow> x = Some v"
  by (cases x) auto

lemma result_bind_simps [simp]:
  "result_bind (Inl e) f = Inl e" "result_bind (Inr v) f = f v"
  by (simp_all add: result_bind_def)

lemma result_bind_Inr [simp]:
  "result_bind r f = Inr v \<longleftrightarrow> (\<exists>a. r = Inr a \<and> f a = Inr v)"
  by (cases r) auto

declare bind_eq_Some_conv [simp]

definition option_filter :: "('a \<Rightarrow> bool) \<Rightarrow> 'a option \<Rightarrow> 'a option" where
  "option_filter P x = (case x of None \<Rightarrow> None | Some v \<Rightarrow> if P v then Some v else None)"

lemma option_filter_Some [simp]: "option_filter P x = Some v \<longleftrightarrow> x = Some v \<and> P v"
  by (cases x) (auto simp: option_filter_def)

lemma option_filter_simps [simp]:
  "option_filter P None = None" "option_filter P (Some v) = (if P v then Some v else None)"
  by (simp_all add: option_filter_def)

subsection \<open>Association lists\<close>

text \<open>
  A \<open>HashMap\<close> is an association list with distinct keys.  The iteration order of
  a hash map is unspecified; a property proved for every such list holds for every order.
\<close>

abbreviation aget :: "('k \<times> 'v) list \<Rightarrow> 'k \<Rightarrow> 'v option" where
  "aget m k \<equiv> map_of m k"

abbreviation aput :: "'k \<Rightarrow> 'v \<Rightarrow> ('k \<times> 'v) list \<Rightarrow> ('k \<times> 'v) list" where
  "aput \<equiv> AList.update"

abbreviation adel :: "'k \<Rightarrow> ('k \<times> 'v) list \<Rightarrow> ('k \<times> 'v) list" where
  "adel \<equiv> AList.delete"

definition adistinct :: "('k \<times> 'v) list \<Rightarrow> bool" where
  "adistinct m \<longleftrightarrow> distinct (map fst m)"

lemma adistinct_Nil [simp]: "adistinct []"
  by (simp add: adistinct_def)

lemma adistinct_aput [simp]: "adistinct m \<Longrightarrow> adistinct (aput k v m)"
  by (simp add: adistinct_def distinct_update)

lemma adistinct_adel [simp]: "adistinct m \<Longrightarrow> adistinct (adel k m)"
  by (simp add: adistinct_def distinct_delete)

lemma adistinct_filter [simp]: "adistinct m \<Longrightarrow> adistinct (filter P m)"
  by (simp add: adistinct_def distinct_map_filter)

lemma aget_aput: "aget (aput k v m) k' = (if k' = k then Some v else aget m k')"
  by (simp add: update_conv')

lemma aget_aput_same [simp]: "aget (aput k v m) k = Some v"
  by (simp add: aget_aput)

lemma aget_aput_other [simp]: "k' \<noteq> k \<Longrightarrow> aget (aput k v m) k' = aget m k'"
  by (simp add: aget_aput)

lemma aget_adel: "aget (adel k m) k' = (if k' = k then None else aget m k')"
  by (simp add: delete_conv')

lemma aget_filter:
  assumes "adistinct m"
  shows "aget (filter P m) k = option_filter (\<lambda>v. P (k, v)) (aget m k)"
  using assms
proof (induction m)
  case (Cons x m)
  obtain k' v' where x: "x = (k', v')" by (cases x)
  with Cons.prems have "k' \<notin> fst ` set m" and "adistinct m"
    by (auto simp: adistinct_def)
  then have "aget m k' = None" by (simp add: map_of_eq_None_iff)
  with x Cons.IH \<open>adistinct m\<close> show ?case by auto
qed simp

text \<open>Sums over an association list, the value at one key split off.\<close>

definition asum :: "('k \<Rightarrow> 'v \<Rightarrow> int) \<Rightarrow> ('k \<times> 'v) list \<Rightarrow> int" where
  "asum f m = (\<Sum>(k, v) \<leftarrow> m. f k v)"

lemma asum_simps [simp]: "asum f [] = 0" "asum f ((k, v) # m) = f k v + asum f m"
  by (simp_all add: asum_def)

lemma asum_aput_None: "aget m k = None \<Longrightarrow> asum f (aput k v m) = asum f m + f k v"
  by (induction m) (auto split: if_splits)

lemma asum_aput_Some: "aget m k = Some w \<Longrightarrow> asum f (aput k v m) = asum f m - f k w + f k v"
  by (induction m) (auto split: if_splits)

lemma asum_aput:
  "asum f (aput k v m) = asum f m + f k v - (case aget m k of None \<Rightarrow> 0 | Some w \<Rightarrow> f k w)"
  by (cases "aget m k") (simp_all add: asum_aput_None asum_aput_Some)

subsection \<open>Finding and rewriting one element of a list\<close>

text \<open>
  \<open>iter_mut().find(p)\<close> followed by a write through the reference: the first element
  that satisfies the predicate is rewritten, the others stay.
\<close>

fun update_first :: "('a \<Rightarrow> bool) \<Rightarrow> ('a \<Rightarrow> 'a) \<Rightarrow> 'a list \<Rightarrow> 'a list" where
  "update_first p f [] = []"
| "update_first p f (x # xs) = (if p x then f x # xs else x # update_first p f xs)"

lemma length_update_first [simp]: "length (update_first p f xs) = length xs"
  by (induction xs) auto

lemma map_update_first: "(\<And>x. g (f x) = g x) \<Longrightarrow> map g (update_first p f xs) = map g xs"
  by (induction xs) auto

lemma find_eq_None_iff: "find p xs = None \<longleftrightarrow> (\<forall>x \<in> set xs. \<not> p x)"
  by (induction xs) auto

lemma update_first_no: "find p xs = None \<Longrightarrow> update_first p f xs = xs"
  by (induction xs) (auto split: if_splits)

lemma sum_list_update_first:
  fixes g :: "'a \<Rightarrow> int"
  assumes "find p xs = Some x"
  shows "sum_list (map g (update_first p f xs)) = sum_list (map g xs) - g x + g (f x)"
  using assms by (induction xs) (auto split: if_splits)

subsection \<open>Splitting a string at a separator\<close>

text \<open>\<open>str::split\<close> at one ASCII character; the result is never empty.\<close>

fun split_on :: "'a \<Rightarrow> 'a list \<Rightarrow> 'a list list" where
  "split_on c [] = [[]]"
| "split_on c (x # xs) =
     (if x = c then [] # split_on c xs
      else (case split_on c xs of [] \<Rightarrow> [[x]] | s # ss \<Rightarrow> (x # s) # ss))"

lemma split_on_not_Nil [simp]: "split_on c xs \<noteq> []"
  by (induction xs) (auto split: list.splits)

lemma split_on_no_sep [simp]: "c \<notin> set xs \<Longrightarrow> split_on c xs = [xs]"
  by (induction xs) auto

lemma split_on_append: "c \<notin> set xs \<Longrightarrow> split_on c (xs @ c # ys) = xs # split_on c ys"
  by (induction xs) auto

fun join_with :: "'a \<Rightarrow> 'a list list \<Rightarrow> 'a list" where
  "join_with c [] = []"
| "join_with c [s] = s"
| "join_with c (s # t # ss) = s @ c # join_with c (t # ss)"

lemma join_split: "join_with c (split_on c xs) = xs"
proof (induction xs)
  case (Cons x xs)
  obtain s ss where "split_on c xs = s # ss" by (cases "split_on c xs") auto
  with Cons show ?case by (cases ss) auto
qed simp

lemma find_SomeD: "find p xs = Some x \<Longrightarrow> x \<in> set xs \<and> p x"
  by (induction xs) (auto split: if_splits)

end
