(* ===== verification/Access.thy ===== *)
theory Access
  imports Prelude
begin

section \<open>Principals, scopes, capabilities and ceilings\<close>

text \<open>
  The access-control vocabulary of \<open>crates/owlrora-server/src/domain\<close>: the closed
  vocabularies of management scopes, LLM scopes and capabilities with their textual names
  (\<open>authorization.rs\<close>, \<open>gateway_key.rs\<close>), scope sets and ceilings,
  principals and actors (\<open>principal.rs\<close>), and the ceilings an external issuer
  puts on a token (\<open>external_identity.rs\<close>).  A \<open>BTreeSet\<close> is a set; an
  identifier is the 128-bit number of its UUID.
\<close>

type_synonym uuid = nat

subsection \<open>Closed vocabularies\<close>

text \<open>
  The interface of an enumeration with a textual form: the list of its members is
  complete and their names are different.  A vocabulary can also be parsed.
\<close>

locale closed_names =
  fixes members :: "'a list" and as_str :: "'a \<Rightarrow> string"
  assumes members_complete: "x \<in> set members"
    and names_distinct: "distinct (map as_str members)"
begin

lemma as_str_eq_iff: "as_str x = as_str y \<longleftrightarrow> x = y"
  using members_complete names_distinct by (auto simp: distinct_map dest: inj_onD)

lemma find_as_str: "find (\<lambda>y. as_str y = as_str x) members = Some x"
proof -
  have "\<exists>y. find (\<lambda>y. as_str y = as_str x) members = Some y"
    using members_complete [of x] by (auto simp: not_None_eq [symmetric] find_eq_None_iff)
  then show ?thesis using as_str_eq_iff by (auto dest: find_SomeD)
qed

end

locale closed_vocabulary = closed_names members as_str
  for members :: "'a list" and as_str :: "'a \<Rightarrow> string" +
  fixes from_str :: "string \<Rightarrow> string + 'a" and unknown :: "string \<Rightarrow> string"
  assumes from_str_find:
    "from_str s = (case find (\<lambda>x. as_str x = s) members of None \<Rightarrow> Inl (unknown s) | Some x \<Rightarrow> Inr x)"
begin

lemma from_str_as_str: "from_str (as_str x) = Inr x"
  by (simp add: from_str_find find_as_str)

lemma from_str_Inr: "from_str s = Inr x \<longleftrightarrow> s = as_str x"
proof
  assume "from_str s = Inr x"
  then show "s = as_str x" by (auto simp: from_str_find split: option.splits dest: find_SomeD)
qed (simp add: from_str_as_str)

lemma from_str_Inl: "from_str s = Inl e \<longleftrightarrow> e = unknown s \<and> (\<forall>x. as_str x \<noteq> s)"
  using members_complete
  by (auto simp: from_str_find find_eq_None_iff split: option.splits dest: find_SomeD)

end

subsection \<open>Management authorization\<close>

datatype OrganizationRole = Owner | Admin | Member

datatype ManagementScope = MgmtRead | MgmtWrite | MgmtSecrets | MgmtOperations | MgmtAuthority

definition ManagementScope_ALL :: "ManagementScope list" where
  "ManagementScope_ALL = [MgmtRead, MgmtWrite, MgmtSecrets, MgmtOperations, MgmtAuthority]"

fun ManagementScope_as_str :: "ManagementScope \<Rightarrow> string" where
  "ManagementScope_as_str MgmtRead = ''management:read''"
| "ManagementScope_as_str MgmtWrite = ''management:write''"
| "ManagementScope_as_str MgmtSecrets = ''management:secrets''"
| "ManagementScope_as_str MgmtOperations = ''management:operations''"
| "ManagementScope_as_str MgmtAuthority = ''management:authority''"

definition ManagementScope_from_str :: "string \<Rightarrow> string + ManagementScope" where
  "ManagementScope_from_str s =
     (if s = ''management:read'' then Inr MgmtRead
      else if s = ''management:write'' then Inr MgmtWrite
      else if s = ''management:secrets'' then Inr MgmtSecrets
      else if s = ''management:operations'' then Inr MgmtOperations
      else if s = ''management:authority'' then Inr MgmtAuthority
      else Inl (''unknown management scope: '' @ s))"

lemma ManagementScope_ALL_complete: "x \<in> set ManagementScope_ALL"
  by (cases x) (simp_all add: ManagementScope_ALL_def)

interpretation management_scope:
  closed_vocabulary ManagementScope_ALL ManagementScope_as_str ManagementScope_from_str
    "\<lambda>s. ''unknown management scope: '' @ s"
proof unfold_locales
  show "x \<in> set ManagementScope_ALL" for x by (rule ManagementScope_ALL_complete)
  show "distinct (map ManagementScope_as_str ManagementScope_ALL)"
    by (simp add: ManagementScope_ALL_def)
  show "ManagementScope_from_str s =
      (case find (\<lambda>x. ManagementScope_as_str x = s) ManagementScope_ALL of
        None \<Rightarrow> Inl (''unknown management scope: '' @ s) | Some x \<Rightarrow> Inr x)" for s
    by (simp add: ManagementScope_from_str_def ManagementScope_ALL_def eq_commute [of _ s])
qed

text \<open>\<open>ManagementScopeSet\<close>: the constructor rejects the empty set.\<close>

type_synonym ManagementScopeSet = "ManagementScope set"

definition ManagementScopeSet_all :: ManagementScopeSet where
  "ManagementScopeSet_all = set ManagementScope_ALL"

definition ManagementScopeSet_empty :: ManagementScopeSet where
  "ManagementScopeSet_empty = {}"

definition ManagementScopeSet_new :: "ManagementScope list \<Rightarrow> string + ManagementScopeSet" where
  "ManagementScopeSet_new scopes =
     (if set scopes = {} then Inl ''at least one management scope is required''
      else Inr (set scopes))"

definition ManagementScopeSet_contains :: "ManagementScopeSet \<Rightarrow> ManagementScope \<Rightarrow> bool" where
  "ManagementScopeSet_contains self scope \<longleftrightarrow> scope \<in> self"

definition ManagementScopeSet_is_superset :: "ManagementScopeSet \<Rightarrow> ManagementScopeSet \<Rightarrow> bool" where
  "ManagementScopeSet_is_superset self other \<longleftrightarrow> other \<subseteq> self"

definition ManagementScopeSet_intersection ::
    "ManagementScopeSet \<Rightarrow> ManagementScopeSet \<Rightarrow> ManagementScopeSet" where
  "ManagementScopeSet_intersection self other = self \<inter> other"

datatype ResourceScope = ResourceDeployment | ResourceOrganization uuid

datatype Capability =
  SystemAdministration | ReadOrganization | UpdateOrganization | ReadMembers | ManageMembers
  | ManageOwners | ReadManagementKeys | CreateManagementKeys | ManageManagementKeys
  | UpdateApiKeyPolicy | ReadAudit | ManageIdentity | ManageSystemKeys
  | ManageSystemOrganizations | ManageSystemUsers | ManageAdministrators | ManageGatewayCatalog
  | ReadGatewayKeys | CreateGatewayKeys | ManageGatewayKeys | ManageByok | ConfigureRoutes
  | ConfigureBudgets | ReadUsage | ReadOperations | RecoverOperations

definition Capability_ALL :: "Capability list" where
  "Capability_ALL =
    [SystemAdministration, ReadOrganization, UpdateOrganization, ReadMembers, ManageMembers,
     ManageOwners, ReadManagementKeys, CreateManagementKeys, ManageManagementKeys,
     UpdateApiKeyPolicy, ReadAudit, ManageIdentity, ManageSystemKeys,
     ManageSystemOrganizations, ManageSystemUsers, ManageAdministrators, ManageGatewayCatalog,
     ReadGatewayKeys, CreateGatewayKeys, ManageGatewayKeys, ManageByok, ConfigureRoutes,
     ConfigureBudgets, ReadUsage, ReadOperations, RecoverOperations]"

fun Capability_as_str :: "Capability \<Rightarrow> string" where
  "Capability_as_str SystemAdministration = ''system_administration''"
| "Capability_as_str ReadOrganization = ''read_organization''"
| "Capability_as_str UpdateOrganization = ''update_organization''"
| "Capability_as_str ReadMembers = ''read_members''"
| "Capability_as_str ManageMembers = ''manage_members''"
| "Capability_as_str ManageOwners = ''manage_owners''"
| "Capability_as_str ReadManagementKeys = ''read_management_keys''"
| "Capability_as_str CreateManagementKeys = ''create_management_keys''"
| "Capability_as_str ManageManagementKeys = ''manage_management_keys''"
| "Capability_as_str UpdateApiKeyPolicy = ''update_api_key_policy''"
| "Capability_as_str ReadAudit = ''read_audit''"
| "Capability_as_str ManageIdentity = ''manage_identity''"
| "Capability_as_str ManageSystemKeys = ''manage_system_keys''"
| "Capability_as_str ManageSystemOrganizations = ''manage_system_organizations''"
| "Capability_as_str ManageSystemUsers = ''manage_system_users''"
| "Capability_as_str ManageAdministrators = ''manage_administrators''"
| "Capability_as_str ManageGatewayCatalog = ''manage_gateway_catalog''"
| "Capability_as_str ReadGatewayKeys = ''read_gateway_keys''"
| "Capability_as_str CreateGatewayKeys = ''create_gateway_keys''"
| "Capability_as_str ManageGatewayKeys = ''manage_gateway_keys''"
| "Capability_as_str ManageByok = ''manage_byok''"
| "Capability_as_str ConfigureRoutes = ''configure_routes''"
| "Capability_as_str ConfigureBudgets = ''configure_budgets''"
| "Capability_as_str ReadUsage = ''read_usage''"
| "Capability_as_str ReadOperations = ''read_operations''"
| "Capability_as_str RecoverOperations = ''recover_operations''"

definition Capability_from_str :: "string \<Rightarrow> string + Capability" where
  "Capability_from_str s =
     ok_or (''unknown capability: '' @ s) (find (\<lambda>c. Capability_as_str c = s) Capability_ALL)"

lemma Capability_ALL_complete: "x \<in> set Capability_ALL"
  by (cases x) (simp_all add: Capability_ALL_def)

interpretation capability:
  closed_vocabulary Capability_ALL Capability_as_str Capability_from_str
    "\<lambda>s. ''unknown capability: '' @ s"
proof unfold_locales
  show "x \<in> set Capability_ALL" for x by (rule Capability_ALL_complete)
  show "distinct (map Capability_as_str Capability_ALL)"
    by code_simp
  show "Capability_from_str s =
      (case find (\<lambda>x. Capability_as_str x = s) Capability_ALL of
        None \<Rightarrow> Inl (''unknown capability: '' @ s) | Some x \<Rightarrow> Inr x)" for s
    unfolding Capability_from_str_def ok_or_def by (rule refl)
qed

subsection \<open>LLM scopes and feature capabilities\<close>

datatype LlmScope = LlmInvoke | LlmStream | LlmTools | LlmMultimodalInput | LlmStructuredOutput

definition LlmScope_ALL :: "LlmScope list" where
  "LlmScope_ALL = [LlmInvoke, LlmStream, LlmTools, LlmMultimodalInput, LlmStructuredOutput]"

fun LlmScope_as_str :: "LlmScope \<Rightarrow> string" where
  "LlmScope_as_str LlmInvoke = ''llm:invoke''"
| "LlmScope_as_str LlmStream = ''llm:stream''"
| "LlmScope_as_str LlmTools = ''llm:tools''"
| "LlmScope_as_str LlmMultimodalInput = ''llm:multimodal-input''"
| "LlmScope_as_str LlmStructuredOutput = ''llm:structured-output''"

definition LlmScope_from_str :: "string \<Rightarrow> string + LlmScope" where
  "LlmScope_from_str s =
     ok_or (''unknown LLM scope: '' @ s) (find (\<lambda>c. LlmScope_as_str c = s) LlmScope_ALL)"

lemma LlmScope_ALL_complete: "x \<in> set LlmScope_ALL"
  by (cases x) (simp_all add: LlmScope_ALL_def)

interpretation llm_scope:
  closed_vocabulary LlmScope_ALL LlmScope_as_str LlmScope_from_str
    "\<lambda>s. ''unknown LLM scope: '' @ s"
proof unfold_locales
  show "x \<in> set LlmScope_ALL" for x by (rule LlmScope_ALL_complete)
  show "distinct (map LlmScope_as_str LlmScope_ALL)" by code_simp
  show "LlmScope_from_str s =
      (case find (\<lambda>x. LlmScope_as_str x = s) LlmScope_ALL of
        None \<Rightarrow> Inl (''unknown LLM scope: '' @ s) | Some x \<Rightarrow> Inr x)" for s
    unfolding LlmScope_from_str_def ok_or_def by (rule refl)
qed

text \<open>
  \<open>LlmScopeSet\<close>: every constructor demands \<open>llm:invoke\<close>, and the
  intersection of two sets exists only where it keeps \<open>llm:invoke\<close>.
\<close>

type_synonym LlmScopeSet = "LlmScope set"

definition LlmScopeSet_new :: "LlmScope set \<Rightarrow> string + LlmScopeSet" where
  "LlmScopeSet_new scopes =
     (if LlmInvoke \<notin> scopes then Inl ''llm:invoke is required'' else Inr scopes)"

definition LlmScopeSet_deserialize :: "LlmScope list \<Rightarrow> string + LlmScopeSet" where
  "LlmScopeSet_deserialize values =
     (let scopes = set values in
      if card scopes \<noteq> length values then Inl ''duplicate LLM scope''
      else LlmScopeSet_new scopes)"

definition LlmScopeSet_contains :: "LlmScopeSet \<Rightarrow> LlmScope \<Rightarrow> bool" where
  "LlmScopeSet_contains self scope \<longleftrightarrow> scope \<in> self"

definition LlmScopeSet_is_superset :: "LlmScopeSet \<Rightarrow> LlmScopeSet \<Rightarrow> bool" where
  "LlmScopeSet_is_superset self other \<longleftrightarrow> other \<subseteq> self"

definition LlmScopeSet_intersection :: "LlmScopeSet \<Rightarrow> LlmScopeSet \<Rightarrow> LlmScopeSet option" where
  "LlmScopeSet_intersection self other =
     (let scopes = self \<inter> other in if LlmInvoke \<in> scopes then Some scopes else None)"

type_synonym LlmScopeCeiling = "LlmScopeSet option"

definition LlmScopeCeiling_deserialize :: "LlmScope list \<Rightarrow> string + LlmScopeCeiling" where
  "LlmScopeCeiling_deserialize values =
     (let scopes = set values in
      if card scopes \<noteq> length values then Inl ''duplicate LLM scope''
      else if scopes = {} then Inr None
      else result_bind (LlmScopeSet_new scopes) (\<lambda>scopes. Inr (Some scopes)))"

definition LlmScopeCeiling_denied :: LlmScopeCeiling where
  "LlmScopeCeiling_denied = None"

definition LlmScopeCeiling_from_scopes :: "LlmScopeSet \<Rightarrow> LlmScopeCeiling" where
  "LlmScopeCeiling_from_scopes scopes = Some scopes"

definition LlmScopeCeiling_as_scopes :: "LlmScopeCeiling \<Rightarrow> LlmScopeSet option" where
  "LlmScopeCeiling_as_scopes self = self"

definition LlmScopeCeiling_allows :: "LlmScopeCeiling \<Rightarrow> LlmScopeSet \<Rightarrow> bool" where
  "LlmScopeCeiling_allows self required =
     (case self of None \<Rightarrow> False | Some ceiling \<Rightarrow> LlmScopeSet_is_superset ceiling required)"

datatype LlmFeatureCapability =
  FeatStreaming | FeatTools | FeatParallelTools | FeatImageInput | FeatAudioInput
  | FeatDocumentInput | FeatStructuredOutput | FeatJsonSchema | FeatPromptCaching
  | FeatSystemInstructions | FeatDeveloperInstructions | FeatReasoningControls
  | FeatOpaqueReasoningState

text \<open>The names of the derived serializers.\<close>

definition LlmFeatureCapability_ALL :: "LlmFeatureCapability list" where
  "LlmFeatureCapability_ALL =
     [FeatStreaming, FeatTools, FeatParallelTools, FeatImageInput, FeatAudioInput, FeatDocumentInput,
      FeatStructuredOutput, FeatJsonSchema, FeatPromptCaching, FeatSystemInstructions,
      FeatDeveloperInstructions, FeatReasoningControls, FeatOpaqueReasoningState]"

fun LlmFeatureCapability_as_str :: "LlmFeatureCapability \<Rightarrow> string" where
  "LlmFeatureCapability_as_str FeatStreaming = ''streaming''"
| "LlmFeatureCapability_as_str FeatTools = ''tools''"
| "LlmFeatureCapability_as_str FeatParallelTools = ''parallel_tools''"
| "LlmFeatureCapability_as_str FeatImageInput = ''image_input''"
| "LlmFeatureCapability_as_str FeatAudioInput = ''audio_input''"
| "LlmFeatureCapability_as_str FeatDocumentInput = ''document_input''"
| "LlmFeatureCapability_as_str FeatStructuredOutput = ''structured_output''"
| "LlmFeatureCapability_as_str FeatJsonSchema = ''json_schema''"
| "LlmFeatureCapability_as_str FeatPromptCaching = ''prompt_caching''"
| "LlmFeatureCapability_as_str FeatSystemInstructions = ''system_instructions''"
| "LlmFeatureCapability_as_str FeatDeveloperInstructions = ''developer_instructions''"
| "LlmFeatureCapability_as_str FeatReasoningControls = ''reasoning_controls''"
| "LlmFeatureCapability_as_str FeatOpaqueReasoningState = ''opaque_reasoning_state''"

definition LlmFeatureCapability_from_str :: "string \<Rightarrow> LlmFeatureCapability option" where
  "LlmFeatureCapability_from_str s =
     find (\<lambda>c. LlmFeatureCapability_as_str c = s) LlmFeatureCapability_ALL"

subsection \<open>Principals and actors\<close>

datatype Principal =
  SeedAdmin
  | LocalUser uuid
  | DeploymentManagementApiKey uuid
  | OrganizationManagementApiKey uuid uuid
  | OrganizationGatewayApiKey uuid uuid

text \<open>
  \<open>stable_id\<close> prints the identifier with the UUID library's \<open>Display\<close>,
  the parameter \<open>uuid_str\<close>.
\<close>

fun Principal_stable_id :: "(uuid \<Rightarrow> string) \<Rightarrow> Principal \<Rightarrow> string" where
  "Principal_stable_id uuid_str SeedAdmin = ''seed_admin''"
| "Principal_stable_id uuid_str (LocalUser user_id) = uuid_str user_id"
| "Principal_stable_id uuid_str (DeploymentManagementApiKey key_id) = uuid_str key_id"
| "Principal_stable_id uuid_str (OrganizationManagementApiKey organization_id key_id) = uuid_str key_id"
| "Principal_stable_id uuid_str (OrganizationGatewayApiKey organization_id key_id) = uuid_str key_id"

datatype AuthenticationMethod =
  MethodManagementApiKey | MethodManagementApiKeySession | MethodExternalSession
  | MethodExternalJwt | MethodGatewayApiKey

record AuthenticatedPrincipal =
  ap_principal :: Principal
  ap_authentication_method :: AuthenticationMethod
  ap_effective_management_scopes :: ManagementScopeSet
  ap_credential_capability_ceiling :: "Capability set"
  ap_effective_system_administrator :: bool
  ap_effective_organization_capabilities :: "(uuid \<times> Capability set) list"
  ap_resource_scope :: ResourceScope
  ap_session_id :: "uuid option"
  ap_accepted_key_version_id :: "string option"
  ap_external_issuer_id :: "uuid option"
  ap_external_subject :: "string option"
  ap_management_organization_ceiling :: "uuid list option"

record Actor =
  actor_principal :: Principal
  actor_authentication_method :: AuthenticationMethod
  actor_session_id :: "uuid option"
  actor_external_issuer_id :: "uuid option"

definition Actor_from :: "AuthenticatedPrincipal \<Rightarrow> Actor" where
  "Actor_from v =
     \<lparr>actor_principal = ap_principal v,
      actor_authentication_method = ap_authentication_method v,
      actor_session_id = ap_session_id v,
      actor_external_issuer_id = ap_external_issuer_id v\<rparr>"

subsection \<open>External issuers and their ceilings\<close>

datatype IssuerStatus = IssuerActive | IssuerDisabled

fun IssuerStatus_as_str :: "IssuerStatus \<Rightarrow> string" where
  "IssuerStatus_as_str IssuerActive = ''active''"
| "IssuerStatus_as_str IssuerDisabled = ''disabled''"

datatype CapabilityClaimPolicy = Ignore | OptionalNarrowing | RequiredNarrowing

fun CapabilityClaimPolicy_as_str :: "CapabilityClaimPolicy \<Rightarrow> string" where
  "CapabilityClaimPolicy_as_str Ignore = ''ignore''"
| "CapabilityClaimPolicy_as_str OptionalNarrowing = ''optional_narrowing''"
| "CapabilityClaimPolicy_as_str RequiredNarrowing = ''required_narrowing''"

interpretation issuer_status: closed_names "[IssuerActive, IssuerDisabled]" IssuerStatus_as_str
proof unfold_locales
  show "x \<in> set [IssuerActive, IssuerDisabled]" for x by (cases x) simp_all
qed simp

interpretation claim_policy:
  closed_names "[Ignore, OptionalNarrowing, RequiredNarrowing]" CapabilityClaimPolicy_as_str
proof unfold_locales
  show "x \<in> set [Ignore, OptionalNarrowing, RequiredNarrowing]" for x by (cases x) simp_all
qed simp

record ClaimMapping =
  management_scopes_claim :: "string option"
  management_capabilities_claim :: "string option"
  llm_scopes_claim :: "string option"
  llm_capabilities_claim :: "string option"
  routes_claim :: "string option"
  organizations_claim :: "string option"
  display_name_claim :: "string option"
  email_claim :: "string option"

datatype ManagementOrganizationCeiling = NoOrganizations | AllAuthorized | Organizations "uuid set"

fun ManagementOrganizationCeiling_allows :: "ManagementOrganizationCeiling \<Rightarrow> uuid \<Rightarrow> bool" where
  "ManagementOrganizationCeiling_allows AllAuthorized organization_id = True"
| "ManagementOrganizationCeiling_allows (Organizations ids) organization_id = (organization_id \<in> ids)"
| "ManagementOrganizationCeiling_allows NoOrganizations organization_id = False"

fun ManagementOrganizationCeiling_as_optional_vec ::
    "ManagementOrganizationCeiling \<Rightarrow> uuid list option" where
  "ManagementOrganizationCeiling_as_optional_vec AllAuthorized = None"
| "ManagementOrganizationCeiling_as_optional_vec (Organizations ids) = Some (sorted_list_of_set ids)"
| "ManagementOrganizationCeiling_as_optional_vec NoOrganizations = Some []"

datatype JwtRouteCeiling = NoRoutes | AllOrganizationGranted | Routes "string set"

datatype OrganizationSelector =
  SelectorNone | SignedClaim string | SelectorHeader | SelectorEither string

datatype BrowserClientAuthentication = PublicClient | ProtectedClientSecret

record KeyCachePolicy =
  refresh_interval_seconds :: nat
  material_acceptance_seconds :: nat
  max_keys :: nat
  max_token_bytes :: nat

definition KeyCachePolicy_default :: KeyCachePolicy where
  "KeyCachePolicy_default =
     \<lparr>refresh_interval_seconds = 3600, material_acceptance_seconds = 86400, max_keys = 32,
      max_token_bytes = 16384\<rparr>"

record ExternalAccessCeiling =
  management_access :: bool
  management_scopes :: ManagementScopeSet
  management_capabilities :: "Capability set"
  management_organizations :: ManagementOrganizationCeiling
  llm_access :: bool
  llm_scopes :: LlmScopeCeiling
  llm_capabilities :: "LlmFeatureCapability set"
  llm_routes :: JwtRouteCeiling
  organization_selector :: OrganizationSelector

definition ExternalAccessCeiling_denied :: ExternalAccessCeiling where
  "ExternalAccessCeiling_denied =
     \<lparr>management_access = False,
      management_scopes = ManagementScopeSet_empty,
      management_capabilities = {},
      management_organizations = NoOrganizations,
      llm_access = False,
      llm_scopes = LlmScopeCeiling_denied,
      llm_capabilities = {},
      llm_routes = NoRoutes,
      organization_selector = SelectorNone\<rparr>"

subsection \<open>Facts about scope sets and ceilings\<close>

text \<open>
  The invariant of the private field of \<open>LlmScopeSet\<close>: a value of the type holds
  \<open>llm:invoke\<close>.  Every operation that builds one establishes it.
\<close>

definition llm_scope_set_ok :: "LlmScopeSet \<Rightarrow> bool" where
  "llm_scope_set_ok s \<longleftrightarrow> LlmInvoke \<in> s"

lemma LlmScopeSet_new_ok [model_intros]: "LlmScopeSet_new s = Inr t \<Longrightarrow> llm_scope_set_ok t"
  by (auto simp: LlmScopeSet_new_def llm_scope_set_ok_def split: if_splits)

lemma LlmScopeSet_deserialize_ok [model_intros]:
  "LlmScopeSet_deserialize vs = Inr t \<Longrightarrow> llm_scope_set_ok t \<and> t = set vs \<and> distinct vs"
  by (auto simp: LlmScopeSet_deserialize_def LlmScopeSet_new_def llm_scope_set_ok_def Let_def
      card_distinct split: if_splits)

lemma LlmScopeSet_intersection_ok [model_intros]:
  "LlmScopeSet_intersection a b = Some t \<Longrightarrow> llm_scope_set_ok t"
  by (auto simp: LlmScopeSet_intersection_def llm_scope_set_ok_def Let_def split: if_splits)

lemma LlmScopeSet_intersection_narrows:
  "LlmScopeSet_intersection a b = Some t \<Longrightarrow>
     LlmScopeSet_is_superset a t \<and> LlmScopeSet_is_superset b t"
  by (auto simp: LlmScopeSet_intersection_def LlmScopeSet_is_superset_def Let_def split: if_splits)

lemma LlmScopeCeiling_allows_mono:
  "LlmScopeCeiling_allows c required \<Longrightarrow> LlmScopeSet_is_superset required required'
     \<Longrightarrow> LlmScopeCeiling_allows c required'"
  by (auto simp: LlmScopeCeiling_allows_def LlmScopeSet_is_superset_def split: option.splits)

lemma as_optional_vec_allows:
  assumes "\<And>ids. c = Organizations ids \<Longrightarrow> finite ids"
  shows "ManagementOrganizationCeiling_allows c i \<longleftrightarrow>
    (case ManagementOrganizationCeiling_as_optional_vec c of None \<Rightarrow> True | Some v \<Rightarrow> i \<in> set v)"
  using assms by (cases c) auto

subsection \<open>The properties\<close>

text \<open>
  the textual names of management scopes, capabilities and LLM scopes are
  read back as the value they were printed from, and nothing else is read as that value: no
  two values share a name and no other text is accepted.
\<close>

theorem vocabularies_closed:
  "(ManagementScope_from_str s = Inr ms) = (s = ManagementScope_as_str ms)
   \<and> (Capability_from_str s = Inr c) = (s = Capability_as_str c)
   \<and> (LlmScope_from_str s = Inr l) = (s = LlmScope_as_str l)"
  by (simp add: management_scope.from_str_Inr capability.from_str_Inr llm_scope.from_str_Inr)

text \<open>
  the intersection of two LLM scope sets, when there is one, still holds the
  mandatory invoke scope and grants no scope that either of the two withholds; a ceiling
  that allows one of the two allows it.
\<close>

theorem llm_scopes_narrow:
  assumes "LlmScopeSet_intersection a b = Some t"
  shows "llm_scope_set_ok t \<and> t = a \<inter> b
    \<and> (\<forall>ceiling. LlmScopeCeiling_allows ceiling a \<longrightarrow> LlmScopeCeiling_allows ceiling t)"
proof -
  have "t = a \<inter> b" using assms by (auto simp: LlmScopeSet_intersection_def Let_def split: if_splits)
  then show ?thesis
    using LlmScopeSet_intersection_ok [OF assms] LlmScopeSet_intersection_narrows [OF assms]
      LlmScopeCeiling_allows_mono by blast
qed

lemma llm_scopes_narrow_witness: "llm_scope_set_ok {LlmInvoke}"
  using llm_scopes_narrow [of "{LlmInvoke}" "{LlmInvoke}" "{LlmInvoke}"]
  by (simp add: LlmScopeSet_intersection_def)

end
