(* ===== verification/Catalog.thy ===== *)
theory Catalog
  imports Access
begin

section \<open>The provider catalogue\<close>

text \<open>
  \<open>crates/owlrora-server/src/domain/catalog.rs\<close>: the closed kinds of credential,
  endpoint, transport and ingress protocol with their names, the registry of supported
  combinations, and the policies a route, a target, a grant and an egress network carry,
  with the checks and the narrowing the code applies to them.  The defaults of the
  \<open>serde\<close> attributes and of the \<open>Default\<close> instances are constants.
\<close>

subsection \<open>Kinds and their names\<close>

datatype StateIsolationMode =
  IsolationShared | IsolationOrganizationDedicated

datatype CatalogScopeKind =
  ScopeDeployment | ScopeOrganization

datatype CredentialKind =
  StaticApiKey | OauthOpenaiCodex | AwsDefaultChain | AwsAssumeRole
  | GoogleApplicationDefault | GoogleServiceAccount | AzureApiKey | AzureWorkloadIdentity

fun CredentialKind_as_str :: "CredentialKind \<Rightarrow> string" where
  "CredentialKind_as_str StaticApiKey = ''static_api_key''"
| "CredentialKind_as_str OauthOpenaiCodex = ''oauth_openai_codex''"
| "CredentialKind_as_str AwsDefaultChain = ''aws_default_chain''"
| "CredentialKind_as_str AwsAssumeRole = ''aws_assume_role''"
| "CredentialKind_as_str GoogleApplicationDefault = ''google_application_default''"
| "CredentialKind_as_str GoogleServiceAccount = ''google_service_account''"
| "CredentialKind_as_str AzureApiKey = ''azure_api_key''"
| "CredentialKind_as_str AzureWorkloadIdentity = ''azure_workload_identity''"

definition CredentialKind_members :: "CredentialKind list" where
  "CredentialKind_members =
    [StaticApiKey, OauthOpenaiCodex, AwsDefaultChain, AwsAssumeRole,
     GoogleApplicationDefault, GoogleServiceAccount, AzureApiKey, AzureWorkloadIdentity]"

interpretation credential_kind: closed_names CredentialKind_members CredentialKind_as_str
proof unfold_locales
  show "x \<in> set CredentialKind_members" for x by (cases x) (simp_all add: CredentialKind_members_def)
qed (simp add: CredentialKind_members_def)

datatype CredentialSourceKind =
  SourceEncryptedDatabase | SourceEnvironmentReference | SourceMountedFileReference
  | SourceWorkloadIdentity

fun CredentialSourceKind_as_str :: "CredentialSourceKind \<Rightarrow> string" where
  "CredentialSourceKind_as_str SourceEncryptedDatabase = ''encrypted_database''"
| "CredentialSourceKind_as_str SourceEnvironmentReference = ''environment_reference''"
| "CredentialSourceKind_as_str SourceMountedFileReference = ''mounted_file_reference''"
| "CredentialSourceKind_as_str SourceWorkloadIdentity = ''workload_identity''"

definition CredentialSourceKind_members :: "CredentialSourceKind list" where
  "CredentialSourceKind_members =
    [SourceEncryptedDatabase, SourceEnvironmentReference, SourceMountedFileReference,
     SourceWorkloadIdentity]"

interpretation credential_source: closed_names CredentialSourceKind_members CredentialSourceKind_as_str
proof unfold_locales
  show "x \<in> set CredentialSourceKind_members" for x by (cases x) (simp_all add: CredentialSourceKind_members_def)
qed (simp add: CredentialSourceKind_members_def)

datatype EndpointAdapterKind =
  AdapterAnthropicApi | AdapterAwsBedrockRuntime | AdapterGoogleVertex
  | AdapterGoogleGeminiApi | AdapterOpenaiApi | AdapterOpenaiCodex | AdapterAzureOpenai

fun EndpointAdapterKind_as_str :: "EndpointAdapterKind \<Rightarrow> string" where
  "EndpointAdapterKind_as_str AdapterAnthropicApi = ''anthropic_api''"
| "EndpointAdapterKind_as_str AdapterAwsBedrockRuntime = ''aws_bedrock_runtime''"
| "EndpointAdapterKind_as_str AdapterGoogleVertex = ''google_vertex''"
| "EndpointAdapterKind_as_str AdapterGoogleGeminiApi = ''google_gemini_api''"
| "EndpointAdapterKind_as_str AdapterOpenaiApi = ''openai_api''"
| "EndpointAdapterKind_as_str AdapterOpenaiCodex = ''openai_codex''"
| "EndpointAdapterKind_as_str AdapterAzureOpenai = ''azure_openai''"

definition EndpointAdapterKind_members :: "EndpointAdapterKind list" where
  "EndpointAdapterKind_members =
    [AdapterAnthropicApi, AdapterAwsBedrockRuntime, AdapterGoogleVertex,
     AdapterGoogleGeminiApi, AdapterOpenaiApi, AdapterOpenaiCodex, AdapterAzureOpenai]"

interpretation endpoint_adapter: closed_names EndpointAdapterKind_members EndpointAdapterKind_as_str
proof unfold_locales
  show "x \<in> set EndpointAdapterKind_members" for x by (cases x) (simp_all add: EndpointAdapterKind_members_def)
qed (simp add: EndpointAdapterKind_members_def)

datatype TransportKind =
  TransportAnthropicMessagesNative | TransportAnthropicMessagesBedrock
  | TransportAnthropicMessagesVertex | TransportOpenaiChatCompletions
  | TransportOpenaiResponsesHttp | TransportOpenaiResponsesWebsocket
  | TransportOpenaiCodexResponses | TransportAzureOpenaiChatCompletions
  | TransportAzureOpenaiResponses | TransportGoogleGeminiGenerateContent
  | TransportGoogleVertexGenerateContent

fun TransportKind_as_str :: "TransportKind \<Rightarrow> string" where
  "TransportKind_as_str TransportAnthropicMessagesNative = ''anthropic_messages_native''"
| "TransportKind_as_str TransportAnthropicMessagesBedrock = ''anthropic_messages_bedrock''"
| "TransportKind_as_str TransportAnthropicMessagesVertex = ''anthropic_messages_vertex''"
| "TransportKind_as_str TransportOpenaiChatCompletions = ''openai_chat_completions''"
| "TransportKind_as_str TransportOpenaiResponsesHttp = ''openai_responses_http''"
| "TransportKind_as_str TransportOpenaiResponsesWebsocket = ''openai_responses_websocket''"
| "TransportKind_as_str TransportOpenaiCodexResponses = ''openai_codex_responses''"
| "TransportKind_as_str TransportAzureOpenaiChatCompletions = ''azure_openai_chat_completions''"
| "TransportKind_as_str TransportAzureOpenaiResponses = ''azure_openai_responses''"
| "TransportKind_as_str TransportGoogleGeminiGenerateContent = ''google_gemini_generate_content''"
| "TransportKind_as_str TransportGoogleVertexGenerateContent = ''google_vertex_generate_content''"

definition TransportKind_members :: "TransportKind list" where
  "TransportKind_members =
    [TransportAnthropicMessagesNative, TransportAnthropicMessagesBedrock,
     TransportAnthropicMessagesVertex, TransportOpenaiChatCompletions,
     TransportOpenaiResponsesHttp, TransportOpenaiResponsesWebsocket,
     TransportOpenaiCodexResponses, TransportAzureOpenaiChatCompletions,
     TransportAzureOpenaiResponses, TransportGoogleGeminiGenerateContent,
     TransportGoogleVertexGenerateContent]"

interpretation transport_kind: closed_names TransportKind_members TransportKind_as_str
proof unfold_locales
  show "x \<in> set TransportKind_members" for x by (cases x) (simp_all add: TransportKind_members_def)
qed (simp add: TransportKind_members_def)

datatype IngressProtocolFamily =
  IngressAnthropicMessages | IngressOpenaiChatCompletions | IngressOpenaiResponses
  | IngressGoogleGemini

fun IngressProtocolFamily_as_str :: "IngressProtocolFamily \<Rightarrow> string" where
  "IngressProtocolFamily_as_str IngressAnthropicMessages = ''anthropic_messages''"
| "IngressProtocolFamily_as_str IngressOpenaiChatCompletions = ''openai_chat_completions''"
| "IngressProtocolFamily_as_str IngressOpenaiResponses = ''openai_responses''"
| "IngressProtocolFamily_as_str IngressGoogleGemini = ''google_gemini''"

definition IngressProtocolFamily_members :: "IngressProtocolFamily list" where
  "IngressProtocolFamily_members =
    [IngressAnthropicMessages, IngressOpenaiChatCompletions, IngressOpenaiResponses,
     IngressGoogleGemini]"

interpretation ingress_family: closed_names IngressProtocolFamily_members IngressProtocolFamily_as_str
proof unfold_locales
  show "x \<in> set IngressProtocolFamily_members" for x by (cases x) (simp_all add: IngressProtocolFamily_members_def)
qed (simp add: IngressProtocolFamily_members_def)

datatype AccountingOrigin =
  SystemProvided | OrganizationByok

fun AccountingOrigin_as_str :: "AccountingOrigin \<Rightarrow> string" where
  "AccountingOrigin_as_str SystemProvided = ''system_provided''"
| "AccountingOrigin_as_str OrganizationByok = ''organization_byok''"

definition AccountingOrigin_members :: "AccountingOrigin list" where
  "AccountingOrigin_members =
    [SystemProvided, OrganizationByok]"

interpretation accounting_origin: closed_names AccountingOrigin_members AccountingOrigin_as_str
proof unfold_locales
  show "x \<in> set AccountingOrigin_members" for x by (cases x) (simp_all add: AccountingOrigin_members_def)
qed (simp add: AccountingOrigin_members_def)

datatype BudgetMode =
  Enforce | RecordOnly

datatype PolicyKind =
  GatewayKeyBudget | OrganizationOriginBudget | GatewayKeyRequestLimits

fun PolicyKind_as_str :: "PolicyKind \<Rightarrow> string" where
  "PolicyKind_as_str GatewayKeyBudget = ''gateway_key_budget''"
| "PolicyKind_as_str OrganizationOriginBudget = ''organization_origin_budget''"
| "PolicyKind_as_str GatewayKeyRequestLimits = ''gateway_key_request_limits''"

definition PolicyKind_members :: "PolicyKind list" where
  "PolicyKind_members =
    [GatewayKeyBudget, OrganizationOriginBudget, GatewayKeyRequestLimits]"

interpretation policy_kind: closed_names PolicyKind_members PolicyKind_as_str
proof unfold_locales
  show "x \<in> set PolicyKind_members" for x by (cases x) (simp_all add: PolicyKind_members_def)
qed (simp add: PolicyKind_members_def)

datatype RouteAffinityMode =
  AffinityNone | AffinityPreferred

datatype UnknownEstimateMode =
  RequireEstimate | FixedUnknownReservation

datatype CoordinationFailureMode =
  CoordinationDeny | CoordinationBoundedLocal

datatype PricingRoundingMode =
  RoundUp | RoundNearest

subsection \<open>Scopes and isolation\<close>

record StateIsolationProfile =
  isolation_mode :: StateIsolationMode

definition StateIsolationProfile_valid_for :: "StateIsolationProfile \<Rightarrow> CatalogScopeKind \<Rightarrow> bool" where
  "StateIsolationProfile_valid_for self scope \<longleftrightarrow>
     isolation_mode self = IsolationShared \<or> scope = ScopeOrganization"

definition CredentialSourceKind_organization_self_service_allowed :: "CredentialSourceKind \<Rightarrow> bool" where
  "CredentialSourceKind_organization_self_service_allowed self \<longleftrightarrow> self = SourceEncryptedDatabase"

definition CredentialKind_organization_self_service_allowed :: "CredentialKind \<Rightarrow> bool" where
  "CredentialKind_organization_self_service_allowed self \<longleftrightarrow> self \<in> {StaticApiKey, AzureApiKey}"

fun CatalogScopeKind_accounting_origin :: "CatalogScopeKind \<Rightarrow> AccountingOrigin" where
  "CatalogScopeKind_accounting_origin ScopeDeployment = SystemProvided"
| "CatalogScopeKind_accounting_origin ScopeOrganization = OrganizationByok"

subsection \<open>The compatibility registry\<close>

record CompatibilityTuple =
  ct_ingress :: IngressProtocolFamily
  ct_endpoint :: EndpointAdapterKind
  ct_credential :: CredentialKind
  ct_transport :: TransportKind
  supports_http :: bool
  supports_streaming :: bool
  supports_websocket :: bool

definition compat_tuple ::
    "IngressProtocolFamily \<Rightarrow> EndpointAdapterKind \<Rightarrow> CredentialKind \<Rightarrow> TransportKind
      \<Rightarrow> bool \<Rightarrow> bool \<Rightarrow> bool \<Rightarrow> CompatibilityTuple" where
  "compat_tuple ingress endpoint credential transport http streaming websocket =
     \<lparr>ct_ingress = ingress, ct_endpoint = endpoint, ct_credential = credential,
      ct_transport = transport, supports_http = http, supports_streaming = streaming,
      supports_websocket = websocket\<rparr>"

definition COMPATIBILITY_REGISTRY_V1 :: "CompatibilityTuple list" where
  "COMPATIBILITY_REGISTRY_V1 =
    [compat_tuple IngressAnthropicMessages AdapterAnthropicApi StaticApiKey TransportAnthropicMessagesNative True True False,
     compat_tuple IngressAnthropicMessages AdapterAwsBedrockRuntime AwsDefaultChain TransportAnthropicMessagesBedrock True True False,
     compat_tuple IngressAnthropicMessages AdapterAwsBedrockRuntime AwsAssumeRole TransportAnthropicMessagesBedrock True True False,
     compat_tuple IngressAnthropicMessages AdapterGoogleVertex GoogleApplicationDefault TransportAnthropicMessagesVertex True True False,
     compat_tuple IngressAnthropicMessages AdapterGoogleVertex GoogleServiceAccount TransportAnthropicMessagesVertex True True False,
     compat_tuple IngressOpenaiChatCompletions AdapterOpenaiApi StaticApiKey TransportOpenaiChatCompletions True True False,
     compat_tuple IngressOpenaiChatCompletions AdapterAzureOpenai AzureApiKey TransportAzureOpenaiChatCompletions True True False,
     compat_tuple IngressOpenaiChatCompletions AdapterAzureOpenai AzureWorkloadIdentity TransportAzureOpenaiChatCompletions True True False,
     compat_tuple IngressOpenaiResponses AdapterOpenaiApi StaticApiKey TransportOpenaiResponsesHttp True True False,
     compat_tuple IngressOpenaiResponses AdapterOpenaiApi StaticApiKey TransportOpenaiResponsesWebsocket False False True,
     compat_tuple IngressOpenaiResponses AdapterOpenaiCodex OauthOpenaiCodex TransportOpenaiCodexResponses True True False,
     compat_tuple IngressOpenaiResponses AdapterAzureOpenai AzureApiKey TransportAzureOpenaiResponses True True False,
     compat_tuple IngressOpenaiResponses AdapterAzureOpenai AzureWorkloadIdentity TransportAzureOpenaiResponses True True False,
     compat_tuple IngressGoogleGemini AdapterGoogleGeminiApi StaticApiKey TransportGoogleGeminiGenerateContent True True False,
     compat_tuple IngressGoogleGemini AdapterGoogleGeminiApi GoogleApplicationDefault TransportGoogleGeminiGenerateContent True True False,
     compat_tuple IngressGoogleGemini AdapterGoogleGeminiApi GoogleServiceAccount TransportGoogleGeminiGenerateContent True True False,
     compat_tuple IngressGoogleGemini AdapterGoogleVertex GoogleApplicationDefault TransportGoogleVertexGenerateContent True True False,
     compat_tuple IngressGoogleGemini AdapterGoogleVertex GoogleServiceAccount TransportGoogleVertexGenerateContent True True False]"

definition compatibility ::
    "IngressProtocolFamily \<Rightarrow> EndpointAdapterKind \<Rightarrow> CredentialKind \<Rightarrow> TransportKind
      \<Rightarrow> CompatibilityTuple option" where
  "compatibility ingress endpoint credential transport =
     find (\<lambda>entry. ct_ingress entry = ingress \<and> ct_endpoint entry = endpoint
         \<and> ct_credential entry = credential \<and> ct_transport entry = transport)
       COMPATIBILITY_REGISTRY_V1"

subsection \<open>Route policies\<close>

definition default_routing_algorithm :: string where
  "default_routing_algorithm = ''replicated-wrh-v1''"

record RouteSelectionPolicy =
  selection_algorithm :: string
  affinity_mode :: RouteAffinityMode

definition RouteSelectionPolicy_default :: RouteSelectionPolicy where
  "RouteSelectionPolicy_default =
     \<lparr>selection_algorithm = default_routing_algorithm, affinity_mode = AffinityNone\<rparr>"

definition RouteSelectionPolicy_is_valid :: "RouteSelectionPolicy \<Rightarrow> bool" where
  "RouteSelectionPolicy_is_valid self \<longleftrightarrow> selection_algorithm self = ''replicated-wrh-v1''"

record RouteRequestPolicy =
  max_header_bytes :: nat
  max_request_body_bytes :: nat
  max_response_body_bytes :: nat
  max_output_units :: nat
  max_stream_seconds :: nat
  state_origin_ttl_seconds :: nat

definition default_max_header_bytes :: nat where "default_max_header_bytes = 64 * 1024"
definition default_max_output_units :: nat where "default_max_output_units = 16384"
definition default_max_stream_seconds :: nat where "default_max_stream_seconds = 3600"
definition default_state_origin_ttl_seconds :: nat where "default_state_origin_ttl_seconds = 86400"
definition default_max_request_body_bytes :: nat where
  "default_max_request_body_bytes = 16 * 1024 * 1024"
definition default_max_response_body_bytes :: nat where
  "default_max_response_body_bytes = 64 * 1024 * 1024"

lemmas route_policy_defaults = default_max_header_bytes_def default_max_output_units_def
  default_max_stream_seconds_def default_state_origin_ttl_seconds_def
  default_max_request_body_bytes_def default_max_response_body_bytes_def

definition RouteRequestPolicy_default :: RouteRequestPolicy where
  "RouteRequestPolicy_default =
     \<lparr>max_header_bytes = default_max_header_bytes,
      max_request_body_bytes = default_max_request_body_bytes,
      max_response_body_bytes = default_max_response_body_bytes,
      max_output_units = default_max_output_units,
      max_stream_seconds = default_max_stream_seconds,
      state_origin_ttl_seconds = default_state_origin_ttl_seconds\<rparr>"

definition RouteRequestPolicy_is_valid :: "RouteRequestPolicy \<Rightarrow> bool" where
  "RouteRequestPolicy_is_valid self \<longleftrightarrow>
     max_header_bytes self > 0 \<and> max_request_body_bytes self > 0
     \<and> max_response_body_bytes self > 0 \<and> max_output_units self > 0
     \<and> max_stream_seconds self > 0 \<and> state_origin_ttl_seconds self > 0"

definition deserialize_unique_capabilities_option ::
    "LlmFeatureCapability list \<Rightarrow> string + LlmFeatureCapability set option" where
  "deserialize_unique_capabilities_option capabilities =
     (let unique = set capabilities in
      if card unique \<noteq> length capabilities
      then Inl ''allowed_capabilities must not contain duplicates''
      else Inr (Some unique))"

record RouteGrantRequestPolicyCeilings =
  ceil_max_header_bytes :: "nat option"
  ceil_max_request_body_bytes :: "nat option"
  ceil_max_response_body_bytes :: "nat option"
  ceil_max_stream_seconds :: "nat option"
  ceil_state_origin_ttl_seconds :: "nat option"

record SystemRouteGrantCeilings =
  allowed_capabilities :: "LlmFeatureCapability set option"
  ceil_max_context_bytes :: "nat option"
  ceil_max_output_units :: "nat option"
  request_policy_ceilings :: RouteGrantRequestPolicyCeilings

definition SystemRouteGrantCeilings_default :: SystemRouteGrantCeilings where
  "SystemRouteGrantCeilings_default =
     \<lparr>allowed_capabilities = None, ceil_max_context_bytes = None, ceil_max_output_units = None,
      request_policy_ceilings =
        \<lparr>ceil_max_header_bytes = None, ceil_max_request_body_bytes = None,
         ceil_max_response_body_bytes = None, ceil_max_stream_seconds = None,
         ceil_state_origin_ttl_seconds = None\<rparr>\<rparr>"

definition is_none_or :: "('a \<Rightarrow> bool) \<Rightarrow> 'a option \<Rightarrow> bool" where
  "is_none_or P x = (case x of None \<Rightarrow> True | Some v \<Rightarrow> P v)"

lemma is_none_or_simps [simp]: "is_none_or P None" "is_none_or P (Some v) = P v"
  by (simp_all add: is_none_or_def)

definition SystemRouteGrantCeilings_allows_capabilities ::
    "SystemRouteGrantCeilings \<Rightarrow> LlmFeatureCapability set \<Rightarrow> bool" where
  "SystemRouteGrantCeilings_allows_capabilities self required =
     is_none_or (\<lambda>allowed. required \<subseteq> allowed) (allowed_capabilities self)"

text \<open>\<open>map_or(limit, |value| value.min(limit))\<close>.\<close>

definition capped :: "nat option \<Rightarrow> nat \<Rightarrow> nat" where
  "capped ceiling limit = (case ceiling of None \<Rightarrow> limit | Some value \<Rightarrow> min value limit)"

text \<open>\<open>a.into_iter().chain(b).min()\<close> on two options.\<close>

definition option_min :: "nat option \<Rightarrow> nat option \<Rightarrow> nat option" where
  "option_min a b =
     (case a of None \<Rightarrow> b | Some x \<Rightarrow> (case b of None \<Rightarrow> Some x | Some y \<Rightarrow> Some (min x y)))"

definition SystemRouteGrantCeilings_narrow_request_policy ::
    "SystemRouteGrantCeilings \<Rightarrow> RouteRequestPolicy \<Rightarrow> RouteRequestPolicy" where
  "SystemRouteGrantCeilings_narrow_request_policy self policy =
     (let rp = request_policy_ceilings self in
     \<lparr>max_header_bytes = capped (ceil_max_header_bytes rp) (max_header_bytes policy),
      max_request_body_bytes =
        capped (option_min (ceil_max_request_body_bytes rp) (ceil_max_context_bytes self))
          (max_request_body_bytes policy),
      max_response_body_bytes =
        capped (ceil_max_response_body_bytes rp) (max_response_body_bytes policy),
      max_output_units = capped (ceil_max_output_units self) (max_output_units policy),
      max_stream_seconds = capped (ceil_max_stream_seconds rp) (max_stream_seconds policy),
      state_origin_ttl_seconds =
        capped (ceil_state_origin_ttl_seconds rp) (state_origin_ttl_seconds policy)\<rparr>)"

definition SystemRouteGrantCeilings_is_valid :: "SystemRouteGrantCeilings \<Rightarrow> bool" where
  "SystemRouteGrantCeilings_is_valid self =
     (let rp = request_policy_ceilings self in
      is_none_or (\<lambda>v. v > 0) (ceil_max_context_bytes self)
      \<and> is_none_or (\<lambda>v. v > 0) (ceil_max_output_units self)
      \<and> list_all (is_none_or (\<lambda>v. v > 0))
          [ceil_max_header_bytes rp, ceil_max_request_body_bytes rp,
           ceil_max_response_body_bytes rp, ceil_max_stream_seconds rp,
           ceil_state_origin_ttl_seconds rp])"

subsection \<open>Target constraints\<close>

record TargetNarrowingConstraints =
  narrow_max_output_units :: "nat option"
  narrow_max_context_units :: "nat option"

definition TargetNarrowingConstraints_is_valid :: "TargetNarrowingConstraints \<Rightarrow> bool" where
  "TargetNarrowingConstraints_is_valid self \<longleftrightarrow>
     is_none_or (\<lambda>value. value > 0) (narrow_max_output_units self)
     \<and> narrow_max_context_units self = None"

record TargetTimeoutOverrides =
  connect_timeout_override_ms :: "nat option"
  response_header_timeout_override_ms :: "nat option"
  body_timeout_override_ms :: "nat option"
  stream_idle_timeout_override_ms :: "nat option"

definition TargetTimeoutOverrides_is_valid :: "TargetTimeoutOverrides \<Rightarrow> bool" where
  "TargetTimeoutOverrides_is_valid self \<longleftrightarrow>
     is_none_or (\<lambda>v. 10 \<le> v \<and> v \<le> 120000) (connect_timeout_override_ms self)
     \<and> is_none_or (\<lambda>v. 10 \<le> v \<and> v \<le> 3600000) (response_header_timeout_override_ms self)
     \<and> is_none_or (\<lambda>v. 10 \<le> v \<and> v \<le> 3600000) (body_timeout_override_ms self)
     \<and> is_none_or (\<lambda>v. 100 \<le> v \<and> v \<le> 3600000) (stream_idle_timeout_override_ms self)"

subsection \<open>Budget and rate policies\<close>

record BudgetEstimatePolicy =
  unknown_mode :: UnknownEstimateMode
  fixed_unknown_reservation_nanos :: "nat option"
  input_units_per_byte :: nat

definition BudgetEstimatePolicy_default :: BudgetEstimatePolicy where
  "BudgetEstimatePolicy_default =
     \<lparr>unknown_mode = RequireEstimate, fixed_unknown_reservation_nanos = None,
      input_units_per_byte = 1\<rparr>"

record BudgetAllowancePolicy =
  max_slice_nanos :: nat
  low_watermark_nanos :: nat
  allowance_grant_seconds :: nat
  emergency_reserve_nanos :: nat

definition BudgetAllowancePolicy_default :: BudgetAllowancePolicy where
  "BudgetAllowancePolicy_default =
     \<lparr>max_slice_nanos = 100000000, low_watermark_nanos = 10000000,
      allowance_grant_seconds = 30, emergency_reserve_nanos = 0\<rparr>"

record BudgetFailurePolicy =
  coordination_failure_mode :: CoordinationFailureMode

record BudgetRecoveryPolicy =
  require_verified_state_loss :: bool

record RateGrantPolicy =
  max_request_tokens :: nat
  rate_grant_seconds :: nat

definition RateGrantPolicy_default :: RateGrantPolicy where
  "RateGrantPolicy_default = \<lparr>max_request_tokens = 32, rate_grant_seconds = 10\<rparr>"

subsection \<open>Egress networks\<close>

record EgressDnsPolicy =
  revalidate_on_connect :: bool
  max_resolved_addresses :: nat

record EgressAddressPolicy =
  allow_private :: bool
  allow_loopback :: bool
  allow_link_local :: bool
  allow_metadata :: bool
  allowed_cidrs :: "string list"
  denied_cidrs :: "string list"

record EgressTlsPolicy =
  verify_hostname :: bool
  verify_certificate :: bool
  minimum_version :: string

record EgressRedirectPolicy =
  max_redirects :: nat

record EgressConnectionPolicy =
  egress_connect_timeout_ms :: nat
  egress_request_timeout_ms :: nat
  pool_idle_timeout_ms :: nat
  max_idle_connections_per_host :: nat

record EgressBodyPolicy =
  egress_max_request_body_bytes :: nat
  egress_max_response_body_bytes :: nat

record EgressNetworkConfiguration =
  egress_dns :: EgressDnsPolicy
  egress_address :: EgressAddressPolicy
  egress_proxy_url :: "string option"
  egress_tls :: EgressTlsPolicy
  egress_redirect :: EgressRedirectPolicy
  egress_connection :: EgressConnectionPolicy
  egress_body :: EgressBodyPolicy
  custom_ca_secret_id :: "uuid option"
  custom_ca_generation :: nat
  egress_config_version :: nat

definition EgressDnsPolicy_default :: EgressDnsPolicy where
  "EgressDnsPolicy_default = \<lparr>revalidate_on_connect = True, max_resolved_addresses = 16\<rparr>"

definition EgressAddressPolicy_default :: EgressAddressPolicy where
  "EgressAddressPolicy_default =
     \<lparr>allow_private = False, allow_loopback = False, allow_link_local = False,
      allow_metadata = False, allowed_cidrs = [], denied_cidrs = []\<rparr>"

definition EgressTlsPolicy_default :: EgressTlsPolicy where
  "EgressTlsPolicy_default =
     \<lparr>verify_hostname = True, verify_certificate = True, minimum_version = ''1.2''\<rparr>"

definition EgressConnectionPolicy_default :: EgressConnectionPolicy where
  "EgressConnectionPolicy_default =
     \<lparr>egress_connect_timeout_ms = 10000, egress_request_timeout_ms = 120000,
      pool_idle_timeout_ms = 90000, max_idle_connections_per_host = 16\<rparr>"

definition EgressBodyPolicy_default :: EgressBodyPolicy where
  "EgressBodyPolicy_default =
     \<lparr>egress_max_request_body_bytes = default_max_request_body_bytes,
      egress_max_response_body_bytes = default_max_response_body_bytes\<rparr>"

subsection \<open>Pricing policies\<close>

record PricingRates =
  currency :: string
  cost_nanos_per_unit :: "(string \<times> nat) list"

record PricingRoundingPolicy =
  rounding_mode :: PricingRoundingMode
  quantum_units :: nat

subsection \<open>Facts about the registry and the narrowing\<close>

definition tuple_key ::
    "CompatibilityTuple \<Rightarrow> IngressProtocolFamily \<times> EndpointAdapterKind \<times> CredentialKind \<times> TransportKind"
  where "tuple_key e = (ct_ingress e, ct_endpoint e, ct_credential e, ct_transport e)"

lemma registry_keys_distinct: "distinct (map tuple_key COMPATIBILITY_REGISTRY_V1)"
  by (simp add: COMPATIBILITY_REGISTRY_V1_def compat_tuple_def tuple_key_def)

lemma compatibility_iff:
  "compatibility i e c t = Some x \<longleftrightarrow>
     x \<in> set COMPATIBILITY_REGISTRY_V1 \<and> tuple_key x = (i, e, c, t)"
proof (rule iffI)
  assume "compatibility i e c t = Some x"
  then show "x \<in> set COMPATIBILITY_REGISTRY_V1 \<and> tuple_key x = (i, e, c, t)"
    by (auto simp: compatibility_def tuple_key_def dest: find_SomeD)
next
  assume x: "x \<in> set COMPATIBILITY_REGISTRY_V1 \<and> tuple_key x = (i, e, c, t)"
  then have "compatibility i e c t \<noteq> None"
    by (auto simp: compatibility_def tuple_key_def find_eq_None_iff)
  then obtain y where y: "compatibility i e c t = Some y" by blast
  then have "y \<in> set COMPATIBILITY_REGISTRY_V1" "tuple_key y = tuple_key x"
    using x by (auto simp: compatibility_def tuple_key_def dest: find_SomeD)
  moreover have "inj_on tuple_key (set COMPATIBILITY_REGISTRY_V1)"
    using registry_keys_distinct by (simp add: distinct_map)
  ultimately have "y = x" using x by (meson inj_onD)
  with y show "compatibility i e c t = Some x" by simp
qed

lemma registry_modes:
  "list_all (\<lambda>e. supports_streaming e = supports_http e
      \<and> supports_websocket e = (ct_transport e = TransportOpenaiResponsesWebsocket)
      \<and> supports_http e = (\<not> supports_websocket e)) COMPATIBILITY_REGISTRY_V1"
  by (simp add: COMPATIBILITY_REGISTRY_V1_def compat_tuple_def)

lemma capped_le: "capped c n \<le> n"
  by (simp add: capped_def split: option.splits)

lemma capped_le_ceiling: "c = Some v \<Longrightarrow> capped c n \<le> v"
  by (simp add: capped_def)

lemma capped_pos: "0 < n \<Longrightarrow> is_none_or (\<lambda>v. v > 0) c \<Longrightarrow> 0 < capped c n"
  by (cases c) (simp_all add: capped_def)

lemma capped_idem: "capped c (capped c n) = capped c n"
  by (simp add: capped_def split: option.splits)

lemma option_min_pos:
  "is_none_or (\<lambda>v. v > 0) a \<Longrightarrow> is_none_or (\<lambda>v. v > 0) b
     \<Longrightarrow> is_none_or (\<lambda>v. v > (0::nat)) (option_min a b)"
  by (cases a; cases b) (simp_all add: option_min_def)

definition request_policy_le :: "RouteRequestPolicy \<Rightarrow> RouteRequestPolicy \<Rightarrow> bool" where
  "request_policy_le p q \<longleftrightarrow>
     max_header_bytes p \<le> max_header_bytes q
     \<and> max_request_body_bytes p \<le> max_request_body_bytes q
     \<and> max_response_body_bytes p \<le> max_response_body_bytes q
     \<and> max_output_units p \<le> max_output_units q
     \<and> max_stream_seconds p \<le> max_stream_seconds q
     \<and> state_origin_ttl_seconds p \<le> state_origin_ttl_seconds q"

lemma narrow_le: "request_policy_le (SystemRouteGrantCeilings_narrow_request_policy c p) p"
  by (simp add: request_policy_le_def SystemRouteGrantCeilings_narrow_request_policy_def Let_def
      capped_le)

lemma narrow_valid:
  assumes "SystemRouteGrantCeilings_is_valid c" "RouteRequestPolicy_is_valid p"
  shows "RouteRequestPolicy_is_valid (SystemRouteGrantCeilings_narrow_request_policy c p)"
  using assms
  by (simp add: RouteRequestPolicy_is_valid_def SystemRouteGrantCeilings_narrow_request_policy_def
      SystemRouteGrantCeilings_is_valid_def Let_def capped_pos option_min_pos)

lemma narrow_idem:
  "SystemRouteGrantCeilings_narrow_request_policy c (SystemRouteGrantCeilings_narrow_request_policy c p)
     = SystemRouteGrantCeilings_narrow_request_policy c p"
  by (simp add: SystemRouteGrantCeilings_narrow_request_policy_def Let_def capped_idem)

subsection \<open>The properties\<close>

text \<open>
  a combination of ingress protocol, endpoint adapter, credential kind and
  transport is compatible exactly when the registry lists it, at most once; a tuple supports
  WebSocket when its transport is the Responses WebSocket and HTTP otherwise.
\<close>

theorem compatibility_exact:
  "(compatibility i e c t = Some x) = (x \<in> set COMPATIBILITY_REGISTRY_V1 \<and> tuple_key x = (i, e, c, t))
   \<and> distinct (map tuple_key COMPATIBILITY_REGISTRY_V1)
   \<and> list_all (\<lambda>e. supports_websocket e = (ct_transport e = TransportOpenaiResponsesWebsocket)
      \<and> supports_http e = (\<not> supports_websocket e)) COMPATIBILITY_REGISTRY_V1"
proof -
  have "list_all (\<lambda>e. supports_websocket e = (ct_transport e = TransportOpenaiResponsesWebsocket)
      \<and> supports_http e = (\<not> supports_websocket e)) COMPATIBILITY_REGISTRY_V1"
    using registry_modes by (simp add: list_all_iff)
  then show ?thesis using compatibility_iff registry_keys_distinct by blast
qed

text \<open>
  applying the ceilings of a system route grant to a valid request policy
  gives a valid policy that is nowhere larger; applying them again changes nothing.
\<close>

theorem grant_ceilings_narrow:
  assumes "SystemRouteGrantCeilings_is_valid c" "RouteRequestPolicy_is_valid p"
  shows "let q = SystemRouteGrantCeilings_narrow_request_policy c p in
    RouteRequestPolicy_is_valid q \<and> request_policy_le q p
    \<and> SystemRouteGrantCeilings_narrow_request_policy c q = q"
  by (simp add: Let_def narrow_valid [OF assms] narrow_le narrow_idem)

lemma grant_ceilings_narrow_witness:
  "RouteRequestPolicy_is_valid (SystemRouteGrantCeilings_narrow_request_policy
     (SystemRouteGrantCeilings_default\<lparr>ceil_max_output_units := Some 5\<rparr>)
     \<lparr>max_header_bytes = 1, max_request_body_bytes = 2, max_response_body_bytes = 3,
      max_output_units = 9, max_stream_seconds = 4, state_origin_ttl_seconds = 6\<rparr>)"
  using grant_ceilings_narrow [of "SystemRouteGrantCeilings_default\<lparr>ceil_max_output_units := Some 5\<rparr>"
     "\<lparr>max_header_bytes = 1, max_request_body_bytes = 2, max_response_body_bytes = 3,
      max_output_units = 9, max_stream_seconds = 4, state_origin_ttl_seconds = 6\<rparr>"]
  by (simp add: SystemRouteGrantCeilings_is_valid_def SystemRouteGrantCeilings_default_def
      RouteRequestPolicy_is_valid_def Let_def)

end
