(* ===== verification/Pricing.thy ===== *)
theory Pricing
  imports Catalog
begin

section \<open>Pricing of usage\<close>

text \<open>
  \<open>PricingPolicyVersionSnapshot::price\<close> of
  \<open>crates/owlrora-server/src/runtime/generation.rs\<close>: the cost of a usage record
  under a rate card, with rounding to a quantum and every 128-bit operation checked.
  A zero quantum makes the code panic (\<open>quantum - 1\<close> underflows, the division has
  a zero divisor); the panic is the result \<^term>\<open>None\<close>.  The runtime builder
  rejects a zero quantum.  Money is counted in nanos of the currency.
\<close>

record PricingPolicyVersionSnapshot =
  pv_id :: uuid
  pricing_policy_id :: uuid
  pv_generation :: nat
  pv_rates :: PricingRates
  rounding_policy :: PricingRoundingPolicy
  organization_usable :: bool
  policy_active :: bool

datatype PricingOutcome = Known nat | Unknown "string set" | Overflow

text \<open>The rounding of one amount: add an offset, divide, multiply, each step checked.\<close>

definition round_amount :: "PricingRoundingMode \<Rightarrow> nat \<Rightarrow> nat \<Rightarrow> nat option" where
  "round_amount mode quantum raw =
     (case mode of
        RoundUp \<Rightarrow>
          Option.bind (checked_add u128_max raw (quantum - 1))
            (\<lambda>value. checked_mul u128_max (value div quantum) quantum)
      | RoundNearest \<Rightarrow>
          Option.bind (checked_add u128_max raw (quantum div 2))
            (\<lambda>value. checked_mul u128_max (value div quantum) quantum))"

text \<open>
  The loop over the rate card.  \<open>Inl\<close> is a return from inside the loop (or the
  panic), \<open>Inr\<close> the total and the missing dimensions after it.
\<close>

fun price_rates ::
    "PricingRoundingPolicy \<Rightarrow> (string \<times> nat) list \<Rightarrow> (string \<times> nat) list \<Rightarrow> nat \<Rightarrow> string set
      \<Rightarrow> PricingOutcome option + nat \<times> string set" where
  "price_rates rp usage [] sum_nanos missing = Inr (sum_nanos, missing)"
| "price_rates rp usage ((dimension, rate) # rates) sum_nanos missing =
     (case aget usage dimension of
        None \<Rightarrow> price_rates rp usage rates sum_nanos (insert dimension missing)
      | Some quantity \<Rightarrow>
          if quantity = 0 then price_rates rp usage rates sum_nanos missing
          else (case checked_mul u128_max quantity rate of
             None \<Rightarrow> Inl (Some Overflow)
           | Some raw \<Rightarrow>
               if quantum_units rp = 0 then Inl None
               else (case round_amount (rounding_mode rp) (quantum_units rp) raw of
                  None \<Rightarrow> Inl (Some Overflow)
                | Some rounded \<Rightarrow>
                    (case checked_add u128_max sum_nanos rounded of
                       None \<Rightarrow> Inl (Some Overflow)
                     | Some next \<Rightarrow> price_rates rp usage rates next missing))))"

definition price ::
    "PricingPolicyVersionSnapshot \<Rightarrow> (string \<times> nat) list \<Rightarrow> PricingOutcome option" where
  "price self usage =
     (let rates = cost_nanos_per_unit (pv_rates self) in
      case price_rates (rounding_policy self) usage rates 0 {} of
        Inl outcome \<Rightarrow> outcome
      | Inr (sum_nanos, missing) \<Rightarrow>
          (let missing = missing \<union> {dimension. \<exists>quantity. (dimension, quantity) \<in> set usage
                  \<and> quantity > 0 \<and> aget rates dimension = None}
           in if missing = {} then Some (Known sum_nanos) else Some (Unknown missing)))"

text \<open>The second loop, as the code writes it, for evaluation.\<close>

fun unpriced_dimensions :: "(string \<times> nat) list \<Rightarrow> (string \<times> nat) list \<Rightarrow> string set" where
  "unpriced_dimensions rates [] = {}"
| "unpriced_dimensions rates ((dimension, quantity) # usage) =
     (if quantity > 0 \<and> aget rates dimension = None
      then insert dimension (unpriced_dimensions rates usage)
      else unpriced_dimensions rates usage)"

lemma unpriced_dimensions_eq:
  "unpriced_dimensions rates usage = {dimension. \<exists>quantity. (dimension, quantity) \<in> set usage
      \<and> quantity > 0 \<and> aget rates dimension = None}"
  by (induction usage) (auto split: if_splits)

lemma price_code [code]:
  "price self usage =
     (let rates = cost_nanos_per_unit (pv_rates self) in
      case price_rates (rounding_policy self) usage rates 0 {} of
        Inl outcome \<Rightarrow> outcome
      | Inr (sum_nanos, missing) \<Rightarrow>
          (let missing = missing \<union> unpriced_dimensions rates usage
           in if missing = {} then Some (Known sum_nanos) else Some (Unknown missing)))"
  unfolding price_def unpriced_dimensions_eq by (rule refl)

subsection \<open>Rounding\<close>

lemma round_up_bounds:
  assumes "round_amount RoundUp q raw = Some r" "0 < q"
  shows "raw \<le> r" "r < raw + q" "q dvd r"
proof -
  have r: "r = (raw + (q - 1)) div q * q"
    using assms by (auto simp: round_amount_def mult.commute)
  show "q dvd r" by (simp add: r)
  have split: "(raw + (q - 1)) div q * q + (raw + (q - 1)) mod q = raw + (q - 1)" by simp
  have "(raw + (q - 1)) mod q \<le> q - 1" using assms(2) by (simp add: Suc_leI less_Suc_eq_le [symmetric])
  then show "raw \<le> r" using r split by linarith
  show "r < raw + q" using r split assms(2) by linarith
qed

lemma round_nearest_bounds:
  assumes "round_amount RoundNearest q raw = Some r" "0 < q"
  shows "raw \<le> r + q div 2" "r \<le> raw + q div 2" "q dvd r"
proof -
  have r: "r = (raw + q div 2) div q * q" using assms by (auto simp: round_amount_def)
  show "q dvd r" by (simp add: r)
  have split: "(raw + q div 2) div q * q + (raw + q div 2) mod q = raw + q div 2" by simp
  have "(raw + q div 2) mod q < q" using assms(2) by simp
  then show "r \<le> raw + q div 2" "raw \<le> r + q div 2" using r split by linarith+
qed

lemma round_amount_le: "round_amount m q raw = Some r \<Longrightarrow> r \<le> u128_max"
  by (cases m) (auto simp: round_amount_def)

subsection \<open>The cost of a priced usage\<close>

text \<open>
  The amount one dimension adds to a known cost, and the exact amount before rounding.
\<close>

definition rounded_charge :: "PricingRoundingPolicy \<Rightarrow> (string \<times> nat) list \<Rightarrow> string \<times> nat \<Rightarrow> nat" where
  "rounded_charge rp usage dr =
     (case aget usage (fst dr) of None \<Rightarrow> 0
      | Some q \<Rightarrow> if q = 0 then 0
          else (case round_amount (rounding_mode rp) (quantum_units rp) (q * snd dr) of
                  None \<Rightarrow> 0 | Some r \<Rightarrow> r))"

definition exact_charge :: "(string \<times> nat) list \<Rightarrow> string \<times> nat \<Rightarrow> nat" where
  "exact_charge usage dr = (case aget usage (fst dr) of None \<Rightarrow> 0 | Some q \<Rightarrow> q * snd dr)"

text \<open>One iteration of the loop that does not return: what it adds, and where it goes on.\<close>

lemma price_rates_Cons_Inr:
  assumes "price_rates rp usage ((d, rate) # rates) sum_nanos missing = Inr res"
  obtains (Missing) "aget usage d = None"
      "price_rates rp usage rates sum_nanos (insert d missing) = Inr res"
    | (Zero) "aget usage d = Some 0" "price_rates rp usage rates sum_nanos missing = Inr res"
    | (Charge) q r where "aget usage d = Some q" "q \<noteq> 0" "quantum_units rp > 0"
      "round_amount (rounding_mode rp) (quantum_units rp) (q * rate) = Some r"
      "sum_nanos + r \<le> u128_max"
      "price_rates rp usage rates (sum_nanos + r) missing = Inr res"
proof (cases "aget usage d")
  case None
  with assms show ?thesis by (intro Missing) simp_all
next
  case (Some q)
  show ?thesis
  proof (cases "q = 0")
    case True
    with Some assms show ?thesis by (intro Zero) simp_all
  next
    case False
    with Some assms show ?thesis
      by (auto intro: Charge simp del: One_nat_def split: if_splits option.splits)
  qed
qed

lemma price_rates_Inr:
  assumes "price_rates rp usage rates sum_nanos missing = Inr (res_nanos, missing')"
  shows "res_nanos = sum_nanos + sum_list (map (rounded_charge rp usage) rates)
    \<and> missing' = missing \<union> {d \<in> fst ` set rates. aget usage d = None}
    \<and> (sum_nanos \<le> u128_max \<longrightarrow> res_nanos \<le> u128_max)"
  using assms
proof (induction rates arbitrary: sum_nanos missing)
  case (Cons dr rates)
  obtain d rate where dr: "dr = (d, rate)" by (cases dr)
  from Cons.prems dr have "price_rates rp usage ((d, rate) # rates) sum_nanos missing = Inr (res_nanos, missing')"
    by simp
  then show ?case
  proof (cases rule: price_rates_Cons_Inr)
    case Missing
    from Cons.IH [OF Missing(2)] Missing(1) dr show ?thesis by (auto simp: rounded_charge_def)
  next
    case Zero
    from Cons.IH [OF Zero(2)] Zero(1) dr show ?thesis by (auto simp: rounded_charge_def)
  next
    case (Charge q r)
    from Cons.IH [OF Charge(6)] Charge dr show ?thesis by (auto simp: rounded_charge_def)
  qed
qed simp

lemma price_rates_Inl:
  "price_rates rp usage rates sum_nanos missing = Inl outcome \<Longrightarrow> outcome = None \<or> outcome = Some Overflow"
proof (induction rates arbitrary: sum_nanos missing)
  case (Cons x rates)
  obtain d rate where x: "x = (d, rate)" by (cases x)
  show ?case
  proof (cases "aget usage d")
    case None
    with Cons x show ?thesis by simp
  next
    case (Some q)
    with Cons.prems x Cons.IH show ?thesis
      by (simp split: if_split_asm option.split_asm)
  qed
qed simp

lemma price_KnownD:
  assumes "price self usage = Some (Known cost)"
  defines "rates \<equiv> cost_nanos_per_unit (pv_rates self)"
  shows "cost = sum_list (map (rounded_charge (rounding_policy self) usage) rates)"
    "\<And>d. d \<in> fst ` set rates \<Longrightarrow> aget usage d \<noteq> None"
    "\<And>d q. (d, q) \<in> set usage \<Longrightarrow> 0 < q \<Longrightarrow> aget rates d \<noteq> None"
    "cost \<le> u128_max"
proof -
  obtain m where pr: "price_rates (rounding_policy self) usage rates 0 {} = Inr (cost, m)"
    and m: "m = {}" and u: "{dimension. \<exists>quantity. (dimension, quantity) \<in> set usage
          \<and> quantity > 0 \<and> aget rates dimension = None} = {}"
  proof (cases "price_rates (rounding_policy self) usage rates 0 {}")
    case (Inl outcome)
    then have "price self usage = outcome" by (simp add: price_def rates_def)
    with price_rates_Inl [OF Inl] assms(1) show ?thesis by simp
  next
    case (Inr p)
    then show ?thesis
      using assms(1) that
      by (cases p) (simp add: price_def rates_def [symmetric] Let_def split: if_split_asm)
  qed
  note inr = price_rates_Inr [OF pr]
  from inr show "cost = sum_list (map (rounded_charge (rounding_policy self) usage) rates)"
    by (simp only: add_0)
  from inr show "cost \<le> u128_max" by blast
  show "aget usage d \<noteq> None" if "d \<in> fst ` set rates" for d
  proof
    assume "aget usage d = None"
    with that have "d \<in> {d \<in> fst ` set rates. aget usage d = None}" by simp
    with inr m show False by blast
  qed
  show "aget rates d \<noteq> None" if "(d, q) \<in> set usage" "0 < q" for d q
  proof
    assume "aget rates d = None"
    with that u show False by blast
  qed
qed

lemma price_rates_rounds:
  assumes "price_rates rp usage rates sum_nanos missing = Inr res" "dr \<in> set rates"
    "aget usage (fst dr) = Some q" "q \<noteq> 0"
  shows "quantum_units rp > 0
    \<and> (\<exists>r. round_amount (rounding_mode rp) (quantum_units rp) (q * snd dr) = Some r)"
  using assms(1,2)
proof (induction rates arbitrary: sum_nanos missing)
  case (Cons x rates)
  obtain d rate where x: "x = (d, rate)" by (cases x)
  from Cons.prems(1) x have "price_rates rp usage ((d, rate) # rates) sum_nanos missing = Inr res"
    by simp
  then show ?case
  proof (cases rule: price_rates_Cons_Inr)
    case Missing
    from Cons.IH [OF Missing(2)] Cons.prems(2) Missing(1) x assms(3) show ?thesis by auto
  next
    case Zero
    from Cons.IH [OF Zero(2)] Cons.prems(2) Zero(1) x assms(3,4) show ?thesis by auto
  next
    case (Charge q' r)
    from Cons.IH [OF Charge(6)] Cons.prems(2) Charge x assms(3) show ?thesis by auto
  qed
qed simp

lemma sum_list_pointwise:
  fixes f g h :: "'a \<Rightarrow> nat"
  assumes "\<And>x. x \<in> set xs \<Longrightarrow> f x \<le> g x" "\<And>x. x \<in> set xs \<Longrightarrow> g x \<le> f x + c"
  shows "sum_list (map f xs) \<le> sum_list (map g xs)"
    "sum_list (map g xs) \<le> sum_list (map f xs) + length xs * c"
  using assms by (induction xs) (auto simp: add_mono algebra_simps, fastforce+)

lemma rounded_charge_up:
  assumes "price_rates rp usage rates 0 {} = Inr res" "rounding_mode rp = RoundUp" "dr \<in> set rates"
  shows "exact_charge usage dr \<le> rounded_charge rp usage dr"
    "rounded_charge rp usage dr \<le> exact_charge usage dr + (quantum_units rp - 1)"
proof -
  have "exact_charge usage dr \<le> rounded_charge rp usage dr
      \<and> rounded_charge rp usage dr \<le> exact_charge usage dr + (quantum_units rp - 1)"
  proof (cases "aget usage (fst dr)")
    case None
    then show ?thesis by (simp add: exact_charge_def rounded_charge_def)
  next
    case (Some q)
    show ?thesis
    proof (cases "q = 0")
      case True
      with Some show ?thesis by (simp add: exact_charge_def rounded_charge_def)
    next
      case False
      from price_rates_rounds [OF assms(1,3) Some False] obtain r where
        pos: "0 < quantum_units rp" and r: "round_amount RoundUp (quantum_units rp) (q * snd dr) = Some r"
        using assms(2) by auto
      with Some False assms(2) round_up_bounds [OF r pos] show ?thesis
        by (simp add: exact_charge_def rounded_charge_def)
    qed
  qed
  then show "exact_charge usage dr \<le> rounded_charge rp usage dr"
    "rounded_charge rp usage dr \<le> exact_charge usage dr + (quantum_units rp - 1)" by simp_all
qed

subsection \<open>The property\<close>

text \<open>
  C34: a known cost is the sum over the rate card of the rounded charges, fits 128
  bits, and is only given when every dimension of the card was measured and every used
  dimension has a rate.  With rounding up it is at least the exact cost and exceeds it by less
  than a quantum for each dimension of the card.
\<close>

theorem price_known_exact:
  assumes "price self usage = Some (Known cost)"
  shows "cost = sum_list (map (rounded_charge (rounding_policy self) usage) (cost_nanos_per_unit (pv_rates self)))
    \<and> cost \<le> u128_max
    \<and> (\<forall>d \<in> fst ` set (cost_nanos_per_unit (pv_rates self)). aget usage d \<noteq> None)
    \<and> (\<forall>(d, q) \<in> set usage. q = 0 \<or> aget (cost_nanos_per_unit (pv_rates self)) d \<noteq> None)
    \<and> (rounding_mode (rounding_policy self) = RoundUp \<longrightarrow>
        sum_list (map (exact_charge usage) (cost_nanos_per_unit (pv_rates self))) \<le> cost
        \<and> cost \<le> sum_list (map (exact_charge usage) (cost_nanos_per_unit (pv_rates self)))
            + length (cost_nanos_per_unit (pv_rates self)) * (quantum_units (rounding_policy self) - 1))"
proof -
  let ?rates = "cost_nanos_per_unit (pv_rates self)" and ?rp = "rounding_policy self"
  note known = price_KnownD [OF assms]
  obtain res where pr: "price_rates ?rp usage ?rates 0 {} = Inr res"
  proof (cases "price_rates ?rp usage ?rates 0 {}")
    case (Inl outcome)
    then have "price self usage = outcome" by (simp add: price_def)
    with price_rates_Inl [OF Inl] assms show ?thesis by simp
  qed
  have "sum_list (map (exact_charge usage) ?rates) \<le> cost"
    "cost \<le> sum_list (map (exact_charge usage) ?rates) + length ?rates * (quantum_units ?rp - 1)"
    if "rounding_mode ?rp = RoundUp"
    using sum_list_pointwise [of ?rates "exact_charge usage" "rounded_charge ?rp usage" "quantum_units ?rp - 1"]
      rounded_charge_up [OF pr that] known(1) by simp_all
  then show ?thesis using known by blast
qed

definition sample_pricing :: PricingPolicyVersionSnapshot where
  "sample_pricing =
     \<lparr>pv_id = 1, pricing_policy_id = 2, pv_generation = 1,
      pv_rates = \<lparr>currency = ''USD'', cost_nanos_per_unit = [(''input_tokens'', 3)]\<rparr>,
      rounding_policy = \<lparr>rounding_mode = RoundUp, quantum_units = 10\<rparr>,
      organization_usable = True, policy_active = True\<rparr>"

lemma price_known_exact_witness:
  "(20 :: nat) = sum_list (map (rounded_charge (rounding_policy sample_pricing) [(''input_tokens'', 5)])
     (cost_nanos_per_unit (pv_rates sample_pricing)))"
  using price_known_exact [of sample_pricing "[(''input_tokens'', 5)]" 20]
  by (simp add: price_code sample_pricing_def round_amount_def checked_add_def checked_mul_def
      u128_max_def)

end
