(* ===== verification/KeyMaterial.thy ===== *)
theory KeyMaterial
  imports Access "HOL-Library.Word"
begin

section \<open>API key material\<close>

text \<open>
  The two API key classes, \<open>domain/gateway_key.rs\<close> and
  \<open>domain/management_key.rs\<close>: parsing and printing of the textual form
  \<open>prefix.lookup.secret\<close>, the canonical bytes that are hashed, and the digests.
  The base64url codec and SHA-256 are third-party code: \<open>dec\<close>, \<open>enc\<close>
  and \<open>sha\<close> are parameters.  Text is a list of bytes, written as characters.
\<close>

type_synonym byte = "8 word"

definition ascii :: "string \<Rightarrow> byte list" where
  "ascii s = map of_char s"

definition LOOKUP_BYTES :: nat where "LOOKUP_BYTES = 16"
definition SECRET_BYTES :: nat where "SECRET_BYTES = 32"
definition MAX_LOOKUP_BYTES :: nat where "MAX_LOOKUP_BYTES = 32"
definition MAX_SECRET_BYTES :: nat where "MAX_SECRET_BYTES = 64"

lemmas key_bounds = LOOKUP_BYTES_def SECRET_BYTES_def MAX_LOOKUP_BYTES_def MAX_SECRET_BYTES_def

record key_material =
  km_lookup :: "byte list"
  km_secret :: "byte list"

datatype KeyParseError = InvalidFormat | InvalidEncoding | NonCanonicalEncoding | InsufficientEntropy

text \<open>
  \<open>parse\<close> is the same text in both files but for the constant \<open>PREFIX\<close>;
  \<open>nth\<close>-th calls of \<open>segments.next()\<close> are the elements of the split.
\<close>

definition next_segment :: "string list \<Rightarrow> nat \<Rightarrow> string option" where
  "next_segment segments i = (if i < length segments then Some (segments ! i) else None)"

definition key_parse ::
    "string \<Rightarrow> (string \<Rightarrow> byte list option) \<Rightarrow> (byte list \<Rightarrow> string) \<Rightarrow> string
       \<Rightarrow> KeyParseError + key_material" where
  "key_parse PREFIX dec enc value =
     (let segments = split_on CHR ''.'' value;
          prefix = next_segment segments 0;
          lookup = next_segment segments 1;
          secret = next_segment segments 2
      in if next_segment segments 3 \<noteq> None \<or> prefix \<noteq> Some PREFIX then Inl InvalidFormat
      else result_bind (ok_or InvalidFormat lookup) (\<lambda>lookup_text.
      result_bind (ok_or InvalidFormat secret) (\<lambda>secret_text.
        if CHR ''='' \<in> set lookup_text \<or> CHR ''='' \<in> set secret_text
        then Inl NonCanonicalEncoding
        else
      result_bind (ok_or InvalidEncoding (dec lookup_text)) (\<lambda>lookup.
      result_bind (ok_or InvalidEncoding (dec secret_text)) (\<lambda>secret.
        if \<not> (LOOKUP_BYTES \<le> length lookup \<and> length lookup \<le> MAX_LOOKUP_BYTES)
           \<or> \<not> (SECRET_BYTES \<le> length secret \<and> length secret \<le> MAX_SECRET_BYTES)
        then Inl InsufficientEntropy
        else if enc lookup \<noteq> lookup_text \<or> enc secret \<noteq> secret_text
        then Inl NonCanonicalEncoding
        else Inr \<lparr>km_lookup = lookup, km_secret = secret\<rparr>)))))"

definition key_expose :: "string \<Rightarrow> (byte list \<Rightarrow> string) \<Rightarrow> key_material \<Rightarrow> string" where
  "key_expose PREFIX enc self = PREFIX @ ''.'' @ enc (km_lookup self) @ ''.'' @ enc (km_secret self)"

text \<open>\<open>u16::to_be_bytes\<close> and the length-prefixed canonical bytes.\<close>

definition u16_to_be_bytes :: "nat \<Rightarrow> byte list" where
  "u16_to_be_bytes n = [of_nat (n div 256), of_nat n]"

definition canonical_decoded_bytes :: "key_material \<Rightarrow> byte list" where
  "canonical_decoded_bytes self =
     u16_to_be_bytes (length (km_lookup self)) @ km_lookup self
     @ u16_to_be_bytes (length (km_secret self)) @ km_secret self"

definition key_bounds_ok :: "key_material \<Rightarrow> bool" where
  "key_bounds_ok m \<longleftrightarrow>
     LOOKUP_BYTES \<le> length (km_lookup m) \<and> length (km_lookup m) \<le> MAX_LOOKUP_BYTES
     \<and> SECRET_BYTES \<le> length (km_secret m) \<and> length (km_secret m) \<le> MAX_SECRET_BYTES"

subsection \<open>The two key classes\<close>

definition GATEWAY_PREFIX :: string where "GATEWAY_PREFIX = ''owlrora_llm_v1''"

definition GatewayKeyMaterial_parse ::
    "(string \<Rightarrow> byte list option) \<Rightarrow> (byte list \<Rightarrow> string) \<Rightarrow> string \<Rightarrow> KeyParseError + key_material"
  where "GatewayKeyMaterial_parse dec enc value = key_parse GATEWAY_PREFIX dec enc value"

definition GatewayKeyMaterial_expose_once :: "(byte list \<Rightarrow> string) \<Rightarrow> key_material \<Rightarrow> string" where
  "GatewayKeyMaterial_expose_once enc self = key_expose GATEWAY_PREFIX enc self"

definition GatewayKeyMaterial_lookup_text :: "(byte list \<Rightarrow> string) \<Rightarrow> key_material \<Rightarrow> string" where
  "GatewayKeyMaterial_lookup_text enc self = enc (km_lookup self)"

definition gateway_key_digest :: "(byte list \<Rightarrow> byte list) \<Rightarrow> key_material \<Rightarrow> byte list" where
  "gateway_key_digest sha material =
     sha (ascii ''owlrora/gateway-api-key/durable/v1'' @ [0] @ canonical_decoded_bytes material)"

definition generate_gateway_key :: "(nat \<Rightarrow> byte list) \<Rightarrow> (nat \<Rightarrow> byte list) \<Rightarrow> key_material" where
  \<comment> \<open>the two random sources fill buffers of the given length\<close>
  "generate_gateway_key fill1 fill2 =
     \<lparr>km_lookup = fill1 LOOKUP_BYTES, km_secret = fill2 SECRET_BYTES\<rparr>"

definition digest_matches :: "byte list \<Rightarrow> byte list \<Rightarrow> bool" where
  "digest_matches left right \<longleftrightarrow> left = right"

definition MANAGEMENT_PREFIX :: string where "MANAGEMENT_PREFIX = ''owlrora_mgmt_v1''"

definition ManagementKeyMaterial_parse ::
    "(string \<Rightarrow> byte list option) \<Rightarrow> (byte list \<Rightarrow> string) \<Rightarrow> string \<Rightarrow> KeyParseError + key_material"
  where "ManagementKeyMaterial_parse dec enc value = key_parse MANAGEMENT_PREFIX dec enc value"

definition ManagementKeyMaterial_expose_once :: "(byte list \<Rightarrow> string) \<Rightarrow> key_material \<Rightarrow> string" where
  "ManagementKeyMaterial_expose_once enc self = key_expose MANAGEMENT_PREFIX enc self"

definition ManagementKeyMaterial_lookup_text :: "(byte list \<Rightarrow> string) \<Rightarrow> key_material \<Rightarrow> string" where
  "ManagementKeyMaterial_lookup_text enc self = enc (km_lookup self)"

definition seed_admin_key_version_id :: "(byte list \<Rightarrow> byte list) \<Rightarrow> key_material \<Rightarrow> byte list" where
  "seed_admin_key_version_id sha material =
     sha (ascii ''owlrora/management-api-key/seed-admin/v1'' @ [0] @ canonical_decoded_bytes material)"

definition management_key_digest :: "(byte list \<Rightarrow> byte list) \<Rightarrow> key_material \<Rightarrow> byte list" where
  "management_key_digest sha material =
     sha (ascii ''owlrora/management-api-key/durable/v1'' @ [0] @ canonical_decoded_bytes material)"

subsection \<open>What parsing and printing promise\<close>

lemma three_segments:
  assumes "next_segment segs 3 = None" "next_segment segs 0 = Some p"
    "next_segment segs 1 = Some l" "next_segment segs 2 = Some s"
  shows "segs = [p, l, s]"
proof -
  have "length segs = 3" using assms by (auto simp: next_segment_def split: if_splits)
  then obtain a b c where "segs = [a, b, c]"
    by (auto simp: numeral_3_eq_3 length_Suc_conv)
  with assms show ?thesis by (simp add: next_segment_def)
qed

lemma key_parse_InrD:
  assumes "key_parse P dec enc v = Inr m"
  shows "v = key_expose P enc m \<and> key_bounds_ok m
    \<and> dec (enc (km_lookup m)) = Some (km_lookup m)
    \<and> dec (enc (km_secret m)) = Some (km_secret m)"
proof -
  let ?l = "enc (km_lookup m)" and ?s = "enc (km_secret m)"
  have seg: "split_on CHR ''.'' v = [P, ?l, ?s]"
    using assms
    by (intro three_segments) (auto simp: key_parse_def Let_def split: if_splits)
  have dec: "dec ?l = Some (km_lookup m)" "dec ?s = Some (km_secret m)" and "key_bounds_ok m"
    using assms by (auto simp: key_parse_def Let_def key_bounds_ok_def split: if_splits)
  have "v = join_with CHR ''.'' [P, ?l, ?s]" using join_split [of "CHR ''.''" v] seg by simp
  with dec \<open>key_bounds_ok m\<close> show ?thesis by (simp add: key_expose_def)
qed

lemma key_parse_expose:
  assumes "CHR ''.'' \<notin> set P" "key_bounds_ok m"
    and "\<And>b. dec (enc b) = Some b" "\<And>b. CHR ''.'' \<notin> set (enc b) \<and> CHR ''='' \<notin> set (enc b)"
  shows "key_parse P dec enc (key_expose P enc m) = Inr m"
  using assms
  by (simp add: key_parse_def key_expose_def split_on_append next_segment_def key_bounds_ok_def Let_def)

lemma key_parse_wrong_prefix:
  assumes "CHR ''.'' \<notin> set Q" "P \<noteq> Q"
  shows "key_parse P dec enc (key_expose Q enc' m) = Inl InvalidFormat"
  using assms by (simp add: key_parse_def key_expose_def split_on_append next_segment_def Let_def)

lemma u16_to_be_bytes_inject:
  assumes "n < 65536" "k < 65536" "u16_to_be_bytes n = u16_to_be_bytes k"
  shows "n = k"
proof -
  have "unat (of_nat (n div 256) :: byte) = unat (of_nat (k div 256) :: byte)"
    "unat (of_nat n :: byte) = unat (of_nat k :: byte)"
    using assms(3) by (simp_all add: u16_to_be_bytes_def)
  then have "n div 256 mod 256 = k div 256 mod 256" "n mod 256 = k mod 256"
    by (simp_all add: unat_of_nat)
  moreover have "n div 256 < 256" "k div 256 < 256" using assms(1,2) by simp_all
  ultimately have "n div 256 = k div 256" "n mod 256 = k mod 256" by simp_all
  then show ?thesis by (metis div_mult_mod_eq)
qed

lemma length_u16 [simp]: "length (u16_to_be_bytes n) = 2"
  by (simp add: u16_to_be_bytes_def)

lemma canonical_decoded_bytes_inject_lookup:
  assumes "key_bounds_ok m" "key_bounds_ok k"
    and "canonical_decoded_bytes m = canonical_decoded_bytes k"
  shows "m = k"
proof -
  have len: "length (km_lookup m) < 65536" "length (km_lookup k) < 65536"
    "length (km_secret m) < 65536" "length (km_secret k) < 65536"
    using assms(1,2) by (auto simp: key_bounds_ok_def key_bounds)
  have "u16_to_be_bytes (length (km_lookup m)) = u16_to_be_bytes (length (km_lookup k))"
    and rest: "km_lookup m @ u16_to_be_bytes (length (km_secret m)) @ km_secret m
        = km_lookup k @ u16_to_be_bytes (length (km_secret k)) @ km_secret k"
    using assms(3) by (simp_all add: canonical_decoded_bytes_def append_eq_append_conv)
  then have "length (km_lookup m) = length (km_lookup k)"
    using u16_to_be_bytes_inject len by blast
  with rest have "km_lookup m = km_lookup k" "km_secret m = km_secret k"
    by (simp_all add: append_eq_append_conv)
  then show ?thesis by simp
qed

subsection \<open>The properties\<close>

lemma prefix_no_dot: "CHR ''.'' \<notin> set GATEWAY_PREFIX" "CHR ''.'' \<notin> set MANAGEMENT_PREFIX"
  "GATEWAY_PREFIX \<noteq> MANAGEMENT_PREFIX"
  by (simp_all add: GATEWAY_PREFIX_def MANAGEMENT_PREFIX_def)

text \<open>
  with a codec that reads its own output back and prints neither a dot
  nor padding, a text parses as a gateway key exactly when it is that key's printed form and
  the key's parts have the allowed lengths: parsing accepts one text per key.  The printed
  form of a management key is refused.
\<close>

theorem gateway_key_roundtrip:
  assumes "\<And>b. dec (enc b) = Some b" "\<And>b. CHR ''.'' \<notin> set (enc b) \<and> CHR ''='' \<notin> set (enc b)"
  shows "(GatewayKeyMaterial_parse dec enc v = Inr m)
      = (v = GatewayKeyMaterial_expose_once enc m \<and> key_bounds_ok m)
    \<and> GatewayKeyMaterial_parse dec enc (ManagementKeyMaterial_expose_once enc m) = Inl InvalidFormat"
  using key_parse_InrD [of GATEWAY_PREFIX dec enc v m] prefix_no_dot
    key_parse_expose [OF prefix_no_dot(1) _ assms] key_parse_wrong_prefix [of MANAGEMENT_PREFIX]
  by (auto simp: GatewayKeyMaterial_parse_def GatewayKeyMaterial_expose_once_def
      ManagementKeyMaterial_expose_once_def)

text \<open>A codec of that kind: two letters for a byte.\<close>

definition letters_of :: "byte \<Rightarrow> string" where
  "letters_of b = [char_of (65 + unat b div 16), char_of (65 + unat b mod 16)]"

fun letters_enc :: "byte list \<Rightarrow> string" where
  "letters_enc [] = []"
| "letters_enc (b # bs) = letters_of b @ letters_enc bs"

fun letters_dec :: "string \<Rightarrow> byte list option" where
  "letters_dec [] = Some []"
| "letters_dec (c # d # cs) =
     map_option (\<lambda>bs. of_nat ((of_char c - 65) * 16 + (of_char d - 65)) # bs) (letters_dec cs)"
| "letters_dec _ = None"

lemma unat_byte: "unat (x :: byte) < 256"
proof -
  have "unat x < 2 ^ LENGTH(8)" by (rule unsigned_less)
  then show ?thesis by simp
qed

lemma letters_dec_enc: "letters_dec (letters_enc b) = Some b"
proof (induction b)
  case (Cons x b)
  have "unat x < 256" by (rule unat_byte)
  then have "unat x div 16 < 16" "unat x mod 16 < 16" by simp_all
  with Cons show ?case by (simp add: letters_of_def div_mult_mod_eq)
qed simp

lemma letters_enc_chars: "c \<in> set (letters_enc b) \<Longrightarrow> 65 \<le> (of_char c :: nat) \<and> (of_char c :: nat) \<le> 80"
proof (induction b)
  case (Cons x b)
  have "unat x < 256" by (rule unat_byte)
  then have "unat x div 16 < 16" "unat x mod 16 < 16" by simp_all
  with Cons show ?case by (auto simp: letters_of_def)
qed simp

lemma letters_enc_plain: "CHR ''.'' \<notin> set (letters_enc b) \<and> CHR ''='' \<notin> set (letters_enc b)"
  using letters_enc_chars [of "CHR ''.''" b] letters_enc_chars [of "CHR ''=''" b] by auto

lemma gateway_key_roundtrip_witness:
  "GatewayKeyMaterial_parse letters_dec letters_enc
     (GatewayKeyMaterial_expose_once letters_enc
        \<lparr>km_lookup = replicate 16 7, km_secret = replicate 32 9\<rparr>)
   = Inr \<lparr>km_lookup = replicate 16 7, km_secret = replicate 32 9\<rparr>"
  using gateway_key_roundtrip [OF letters_dec_enc letters_enc_plain,
      of "GatewayKeyMaterial_expose_once letters_enc
        \<lparr>km_lookup = replicate 16 7, km_secret = replicate 32 9\<rparr>"
      "\<lparr>km_lookup = replicate 16 7, km_secret = replicate 32 9\<rparr>"]
  by (simp add: key_bounds_ok_def key_bounds)

text \<open>
  two keys of allowed lengths with the same canonical bytes are the same
  key, so a digest of a gateway key stands for one key as long as the hash has no collision.
\<close>

theorem key_digest_input_injective:
  assumes "key_bounds_ok m" "key_bounds_ok k" "inj sha" "gateway_key_digest sha m = gateway_key_digest sha k"
  shows "m = k"
  using assms canonical_decoded_bytes_inject_lookup [OF assms(1,2)]
  by (simp add: gateway_key_digest_def inj_eq)

lemma key_digest_input_injective_witness:
  "gateway_key_digest (\<lambda>b. b) \<lparr>km_lookup = replicate 16 7, km_secret = replicate 32 9\<rparr>
    \<noteq> gateway_key_digest (\<lambda>b. b) \<lparr>km_lookup = replicate 16 8, km_secret = replicate 32 9\<rparr>"
  using key_digest_input_injective [of "\<lparr>km_lookup = replicate 16 7, km_secret = replicate 32 9\<rparr>"
      "\<lparr>km_lookup = replicate 16 8, km_secret = replicate 32 9\<rparr>" "\<lambda>b. b"]
  by (auto simp: key_bounds_ok_def key_bounds inj_on_def replicate_eq_replicate)

end
