(* ===== verification/Reliability.thy ===== *)
theory Reliability
  imports Pricing KeyMaterial
begin

section \<open>Reliability policies\<close>

text \<open>
  The reliability policy of a route, \<open>ReliabilityPolicySnapshot\<close> of
  \<open>crates/owlrora-server/src/runtime/generation.rs\<close>: its eight components and the
  validation \<open>from_json\<close> runs over them when a runtime generation is built.
  Decoding one JSON component is \<open>serde_json\<close>; \<open>from_json\<close> takes its
  result, with \<^term>\<open>None\<close> for a value that does not decode.
\<close>

record AttemptPolicySnapshot =
  max_total_attempts :: nat
  max_same_target_retries :: nat
  max_distinct_failover_targets :: nat

record DeadlinePolicySnapshot =
  overall_timeout_ms :: nat
  connect_timeout_ms :: nat
  response_header_timeout_ms :: nat
  body_timeout_ms :: nat
  stream_idle_timeout_ms :: nat
  pre_commit_classification_timeout_ms :: nat

datatype RetryCondition =
  ConnectFailure | ConnectTimeout | ResponseHeaderTimeout | ProviderOverloaded
  | ProviderRateLimited | Provider5xx

record RetryPolicySnapshot =
  conditions :: "RetryCondition set"
  initial_backoff_ms :: nat
  max_backoff_ms :: nat
  jitter_ratio_millis :: nat
  honor_retry_after :: bool

record RetryPolicyInput =
  in_conditions :: "RetryCondition list"
  in_initial_backoff_ms :: nat
  in_max_backoff_ms :: nat
  in_jitter_ratio_millis :: nat
  in_honor_retry_after :: bool

record FailoverPolicySnapshot =
  failover_enabled :: bool
  require_replay_safe_request :: bool

record CommitmentPolicySnapshot =
  stream_precommit_buffer_bytes :: nat
  stream_precommit_buffer_events :: nat

record HealthPolicySnapshot =
  shared_summary_ttl_ms :: nat
  stale_after_ms :: nat

record CircuitPolicySnapshot =
  failure_threshold :: nat
  success_threshold :: nat
  open_duration_ms :: nat
  max_open_duration_ms :: nat
  half_open_max_requests :: nat
  recovery_duration_ms :: nat

record ProbePolicySnapshot =
  probe_enabled :: bool
  interval_ms :: nat
  timeout_ms :: nat
  probe_path :: string

record ReliabilityPolicySnapshot =
  rp_id :: uuid
  attempt_policy :: AttemptPolicySnapshot
  deadline_policy :: DeadlinePolicySnapshot
  retry_policy :: RetryPolicySnapshot
  failover_policy :: FailoverPolicySnapshot
  commitment_policy :: CommitmentPolicySnapshot
  health_policy :: HealthPolicySnapshot
  circuit_policy :: CircuitPolicySnapshot
  probe_policy :: ProbePolicySnapshot
  rp_config_version :: nat
  rp_active :: bool

text \<open>
  \<open>char::is_control\<close> on UTF-8 text: the bytes below 32, the byte 127, and the pairs
  \<open>C2 80\<close> to \<open>C2 9F\<close>.
\<close>

fun has_control :: "string \<Rightarrow> bool" where
  "has_control [] = False"
| "has_control (c # cs) =
     (of_char c < (32::nat) \<or> of_char c = (127::nat)
      \<or> (of_char c = (194::nat)
          \<and> (case cs of [] \<Rightarrow> False | d # _ \<Rightarrow> 128 \<le> (of_char d :: nat) \<and> of_char d \<le> (159::nat)))
      \<or> has_control cs)"

definition starts_with :: "string \<Rightarrow> string \<Rightarrow> bool" where
  "starts_with p s \<longleftrightarrow> take (length p) s = p"

definition in_range :: "nat \<Rightarrow> nat \<Rightarrow> nat \<Rightarrow> bool" where
  "in_range lo hi v \<longleftrightarrow> lo \<le> v \<and> v \<le> hi"

subsection \<open>The checks of the components\<close>

definition attempt_policy_invalid :: "AttemptPolicySnapshot \<Rightarrow> bool" where
  "attempt_policy_invalid p \<longleftrightarrow>
     \<not> in_range 1 16 (max_total_attempts p)
     \<or> max_same_target_retries p > 8
     \<or> max_same_target_retries p \<ge> max_total_attempts p
     \<or> max_distinct_failover_targets p > 15
     \<or> max_distinct_failover_targets p \<ge> max_total_attempts p"

definition deadline_policy_invalid :: "DeadlinePolicySnapshot \<Rightarrow> bool" where
  "deadline_policy_invalid p \<longleftrightarrow>
     \<not> in_range 100 3600000 (overall_timeout_ms p)
     \<or> \<not> in_range 10 120000 (connect_timeout_ms p)
     \<or> \<not> in_range 10 3600000 (response_header_timeout_ms p)
     \<or> \<not> in_range 10 3600000 (body_timeout_ms p)
     \<or> \<not> in_range 100 3600000 (stream_idle_timeout_ms p)
     \<or> \<not> in_range 10 120000 (pre_commit_classification_timeout_ms p)
     \<or> list_ex (\<lambda>timeout. timeout > overall_timeout_ms p)
         [connect_timeout_ms p, response_header_timeout_ms p, body_timeout_ms p,
          stream_idle_timeout_ms p, pre_commit_classification_timeout_ms p]"

definition retry_input_invalid :: "RetryPolicyInput \<Rightarrow> bool" where
  "retry_input_invalid p \<longleftrightarrow>
     card (set (in_conditions p)) \<noteq> length (in_conditions p)
     \<or> length (in_conditions p) > 6
     \<or> in_initial_backoff_ms p > 60000
     \<or> in_max_backoff_ms p > 300000
     \<or> in_initial_backoff_ms p > in_max_backoff_ms p
     \<or> in_jitter_ratio_millis p > 1000"

definition commitment_policy_invalid :: "CommitmentPolicySnapshot \<Rightarrow> bool" where
  "commitment_policy_invalid p \<longleftrightarrow>
     \<not> in_range 1 (16 * 1024 * 1024) (stream_precommit_buffer_bytes p)
     \<or> \<not> in_range 1 4096 (stream_precommit_buffer_events p)"

definition health_policy_invalid :: "HealthPolicySnapshot \<Rightarrow> bool" where
  "health_policy_invalid p \<longleftrightarrow>
     \<not> in_range 100 300000 (shared_summary_ttl_ms p) \<or> \<not> in_range 100 300000 (stale_after_ms p)"

definition circuit_policy_invalid :: "CircuitPolicySnapshot \<Rightarrow> bool" where
  "circuit_policy_invalid p \<longleftrightarrow>
     \<not> in_range 1 1000 (failure_threshold p)
     \<or> \<not> in_range 1 1000 (success_threshold p)
     \<or> \<not> in_range 100 3600000 (open_duration_ms p)
     \<or> \<not> in_range 100 3600000 (max_open_duration_ms p)
     \<or> max_open_duration_ms p < open_duration_ms p
     \<or> \<not> in_range 1 128 (half_open_max_requests p)
     \<or> \<not> in_range 100 3600000 (recovery_duration_ms p)"

definition probe_policy_invalid :: "ProbePolicySnapshot \<Rightarrow> bool" where
  "probe_policy_invalid p \<longleftrightarrow>
     \<not> in_range 1000 3600000 (interval_ms p)
     \<or> \<not> in_range 10 120000 (timeout_ms p)
     \<or> timeout_ms p \<ge> interval_ms p
     \<or> probe_path p = []
     \<or> length (probe_path p) > 1024
     \<or> \<not> starts_with ''/'' (probe_path p)
     \<or> starts_with ''//'' (probe_path p)
     \<or> CHR ''?'' \<in> set (probe_path p)
     \<or> CHR ''#'' \<in> set (probe_path p)
     \<or> has_control (probe_path p)"

definition RetryPolicySnapshot_from_input :: "RetryPolicyInput \<Rightarrow> RetryPolicySnapshot" where
  "RetryPolicySnapshot_from_input p =
     \<lparr>conditions = set (in_conditions p),
      initial_backoff_ms = in_initial_backoff_ms p,
      max_backoff_ms = in_max_backoff_ms p,
      jitter_ratio_millis = in_jitter_ratio_millis p,
      honor_retry_after = in_honor_retry_after p\<rparr>"

text \<open>\<open>parse_reliability_component(value, invariant)?\<close> followed by its check.\<close>

definition checked_component :: "string \<Rightarrow> ('a \<Rightarrow> bool) \<Rightarrow> 'a option \<Rightarrow> string + 'a" where
  "checked_component message invalid parsed =
     result_bind (ok_or message parsed) (\<lambda>p. if invalid p then Inl message else Inr p)"

lemma checked_component_Inr [simp]:
  "checked_component message invalid parsed = Inr p \<longleftrightarrow> parsed = Some p \<and> \<not> invalid p"
  by (cases parsed) (auto simp: checked_component_def)

definition ReliabilityPolicySnapshot_from_json ::
    "uuid \<Rightarrow> AttemptPolicySnapshot option \<Rightarrow> DeadlinePolicySnapshot option
      \<Rightarrow> RetryPolicyInput option \<Rightarrow> FailoverPolicySnapshot option
      \<Rightarrow> CommitmentPolicySnapshot option \<Rightarrow> HealthPolicySnapshot option
      \<Rightarrow> CircuitPolicySnapshot option \<Rightarrow> ProbePolicySnapshot option \<Rightarrow> nat \<Rightarrow> bool
      \<Rightarrow> string + ReliabilityPolicySnapshot" where
  "ReliabilityPolicySnapshot_from_json policy_id attempt deadline retry failover commitment health
      circuit probe config_version active =
     result_bind (checked_component ''invalid attempt policy'' attempt_policy_invalid attempt) (\<lambda>attempt.
     result_bind (checked_component ''invalid deadline policy'' deadline_policy_invalid deadline) (\<lambda>deadline.
     result_bind (checked_component ''invalid retry policy'' retry_input_invalid retry) (\<lambda>retry.
     result_bind (checked_component ''invalid failover policy'' (\<lambda>_. False) failover) (\<lambda>failover.
     result_bind (checked_component ''invalid commitment policy'' commitment_policy_invalid commitment) (\<lambda>commitment.
     result_bind (checked_component ''invalid health policy'' health_policy_invalid health) (\<lambda>health.
     result_bind (checked_component ''invalid circuit policy'' circuit_policy_invalid circuit) (\<lambda>circuit.
     result_bind (checked_component ''invalid probe policy'' probe_policy_invalid probe) (\<lambda>probe.
       Inr \<lparr>rp_id = policy_id, attempt_policy = attempt, deadline_policy = deadline,
            retry_policy = RetryPolicySnapshot_from_input retry, failover_policy = failover,
            commitment_policy = commitment, health_policy = health, circuit_policy = circuit,
            probe_policy = probe, rp_config_version = config_version, rp_active = active\<rparr>))))))))"

subsection \<open>What a validated policy guarantees\<close>

text \<open>
  The circuit policy that the protection of targets relies on, and the path and the timing of a probe.
  \<^theory_text>\<open>PolicyLaws\<close> has what an accepted policy means for the code that runs on it.
\<close>

definition circuit_policy_ok :: "CircuitPolicySnapshot \<Rightarrow> bool" where
  "circuit_policy_ok p \<longleftrightarrow>
     0 < failure_threshold p \<and> 0 < success_threshold p
     \<and> 0 < open_duration_ms p \<and> open_duration_ms p \<le> max_open_duration_ms p
     \<and> max_open_duration_ms p \<le> 3600000
     \<and> 0 < half_open_max_requests p \<and> half_open_max_requests p \<le> 128
     \<and> 0 < recovery_duration_ms p"

lemma circuit_policy_valid_ok: "\<not> circuit_policy_invalid p \<Longrightarrow> circuit_policy_ok p"
  by (simp add: circuit_policy_invalid_def circuit_policy_ok_def in_range_def)

lemma probe_policy_valid_ok:
  "\<not> probe_policy_invalid p \<Longrightarrow>
     timeout_ms p < interval_ms p \<and> probe_path p \<noteq> [] \<and> hd (probe_path p) = CHR ''/''
     \<and> CHR ''?'' \<notin> set (probe_path p) \<and> CHR ''#'' \<notin> set (probe_path p)"
  by (cases "probe_path p") (auto simp: probe_policy_invalid_def starts_with_def)

end
