(* ===== verification/Runtime.thy ===== *)
theory Runtime
  imports Reliability
begin

section \<open>Runtime generations\<close>

text \<open>
  The immutable snapshot a request is served from
  (\<open>crates/owlrora-server/src/runtime/generation.rs\<close>): the records a published
  runtime generation consists of, the resolution of a model key to a route, the readiness
  of a required route and the readiness of an activated policy.  Instants of the wall
  clock are integers (milliseconds since the epoch), hash maps are association lists and
  B-tree sets are sets.  URLs and algorithm names are strings and a JWK set is its JSON
  document.  Left out of \<open>CredentialClient\<close>, because no modelled operation
  reads them: its HTTP client and the secret it holds.
\<close>

subsection \<open>JSON values\<close>

text \<open>
  \<open>serde_json::Value\<close>.  A number is a non-negative or a negative integer or a
  64-bit float, kept as its bit pattern; an object lists its fields in key order.
\<close>

datatype json_number = PosInt nat | NegInt int | FloatBits nat

datatype json =
  JNull
| JBool bool
| JNumber json_number
| JString string
| JArray "json list"
| JObject "(string \<times> json) list"

fun json_get :: "json \<Rightarrow> string \<Rightarrow> json option" where
  "json_get (JObject members) key = aget members key"
| "json_get _ key = None"

fun json_as_str :: "json \<Rightarrow> string option" where
  "json_as_str (JString s) = Some s"
| "json_as_str _ = None"

fun json_as_u64 :: "json \<Rightarrow> nat option" where
  "json_as_u64 (JNumber (PosInt n)) = Some n"
| "json_as_u64 _ = None"

subsection \<open>Identity\<close>

record MembershipSnapshot =
  membership_id :: uuid
  member_role :: OrganizationRole
  member_llm_scopes :: LlmScopeCeiling
  member_llm_capabilities :: "LlmFeatureCapability set"
  member_llm_routes :: JwtRouteCeiling

record GatewayKeyVerifier =
  gk_key_id :: uuid
  gk_organization_id :: uuid
  gk_scopes :: "LlmScopeSet option"
  gk_capabilities :: "LlmFeatureCapability set"
  gk_route_ids :: "uuid set"
  gk_budget_policy_id :: uuid
  gk_rate_policy_id :: "uuid option"
  gk_current_digest :: "byte list"
  gk_overlap_digest :: "byte list option"
  gk_overlap_until :: "int option"
  gk_expires_at :: "int option"
  gk_active :: bool

record ManagementKeyVerifier =
  mk_key_id :: uuid
  mk_resource_scope :: ResourceScope
  issuance_policy_class :: string
  mk_scopes :: ManagementScopeSet
  mk_capability_ceiling :: json
  mk_current_digest :: "byte list"
  accepted_version_id :: string
  mk_overlap_digest :: "byte list option"
  overlap_version_id :: "string option"
  mk_overlap_until :: "int option"
  mk_expires_at :: "int option"
  mk_active :: bool

datatype JwksSource = JwksHttps string | JwksStatic json

record BrowserLoginProfile =
  authorization_endpoint :: string
  token_endpoint :: string
  client_id :: string
  client_authentication :: BrowserClientAuthentication
  browser_scopes :: "string set"
  browser_status :: IssuerStatus

record IssuerVerifierMaterial =
  ivm_id :: uuid
  ivm_version :: int
  jwks :: json
  fetched_at :: int
  accepted_until :: int

record ExternalIssuerSnapshot =
  issuer_id :: uuid
  issuer_name :: string
  issuer_url :: string
  issuer_active :: bool
  allowed_algorithms :: "string list"
  accepted_audiences :: "string set"
  subject_claim :: string
  claim_mapping :: ClaimMapping
  jwt_capability_ceiling :: "string set"
  issuer_management_scopes :: ManagementScopeSet
  issuer_management_capabilities :: "Capability set"
  management_organization_ceiling :: ManagementOrganizationCeiling
  issuer_llm_access :: bool
  issuer_llm_scopes :: LlmScopeCeiling
  issuer_llm_capabilities :: "LlmFeatureCapability set"
  issuer_llm_routes :: JwtRouteCeiling
  issuer_organization_selector :: OrganizationSelector
  capability_claim_policy :: CapabilityClaimPolicy
  browser_login :: "BrowserLoginProfile option"
  provisioning_policy_id :: "uuid option"
  clock_skew_seconds :: nat
  key_cache_policy :: KeyCachePolicy
  jwks_source :: JwksSource
  policy_version :: int
  verifier_material :: "IssuerVerifierMaterial option"

record IdentitySnapshot =
  active_users :: "(uuid \<times> bool) list"
  active_organizations :: "(uuid \<times> bool) list"
  memberships :: "((uuid \<times> uuid) \<times> MembershipSnapshot) list"
  management_keys :: "(string \<times> ManagementKeyVerifier) list"
  management_keys_by_id :: "(uuid \<times> ManagementKeyVerifier) list"
  system_administrator_users :: "(uuid \<times> bool) list"
  system_administrator_keys :: "(uuid \<times> bool) list"
  external_issuers_by_issuer :: "(string \<times> ExternalIssuerSnapshot) list"
  external_issuers_by_id :: "(uuid \<times> ExternalIssuerSnapshot) list"
  external_bindings :: "((uuid \<times> string) \<times> uuid) list"

record GatewayPolicyCeilingsSnapshot =
  key_budget_max_limit_cost_nanos :: nat
  byok_origin_budget_max_limit_cost_nanos :: nat
  max_recovery_incident_cap_nanos :: nat
  max_recovery_epoch_cap_nanos :: nat
  max_requests_per_minute :: nat
  max_input_units_per_minute :: nat
  max_concurrency :: nat
  gpc_max_stream_seconds :: nat
  allowed_budget_modes :: "BudgetMode set"
  allowed_rate_grant_modes :: "string set"
  allowed_concurrency_modes :: "string set"

subsection \<open>Policies and their activation\<close>

record BudgetPolicyVersionSnapshot =
  bv_id :: uuid
  bv_generation :: nat
  bv_recovery_generation :: nat
  bv_epoch :: string
  bv_mode :: BudgetMode
  bv_limit_cost_nanos :: nat
  bv_recovery_incident_cap_nanos :: nat
  bv_recovery_epoch_cap_nanos :: nat
  bv_estimate_policy :: BudgetEstimatePolicy
  bv_allowance_policy :: BudgetAllowancePolicy
  bv_failure_policy :: BudgetFailurePolicy
  bv_recovery_policy :: BudgetRecoveryPolicy

record BudgetPolicySnapshot =
  bp_id :: uuid
  bp_active :: bool
  bp_active_version :: "BudgetPolicyVersionSnapshot option"

record RatePolicyVersionSnapshot =
  rv_id :: uuid
  rv_generation :: nat
  rv_epoch :: string
  requests_per_minute :: nat
  input_units_per_minute :: "nat option"
  grant_mode :: string
  grant_policy :: RateGrantPolicy
  concurrency_mode :: "string option"
  concurrency_limit :: "nat option"
  lease_seconds :: "nat option"
  rv_max_stream_seconds :: nat

record RatePolicySnapshot =
  rtp_id :: uuid
  rtp_active :: bool
  rtp_active_version :: "RatePolicyVersionSnapshot option"

record PolicyActivationKey =
  pak_kind :: PolicyKind
  pak_policy_id :: uuid

datatype PolicyActivationState = Desired | CoordinatorStaged | CoordinatorArmed | ActivationActive

record PolicyActivationSnapshot =
  pa_id :: uuid
  pa_organization_id :: uuid
  pa_key :: PolicyActivationKey
  desired_epoch :: string
  desired_version_id :: uuid
  desired_generation :: nat
  active_epoch :: "string option"
  active_version_id :: "uuid option"
  active_generation :: "nat option"
  prior_epoch :: "string option"
  prior_version_id :: "uuid option"
  prior_generation :: "nat option"
  candidate_fence :: uuid
  pa_state :: PolicyActivationState
  tightening_deadline :: "int option"
  prior_cutoff_at :: "int option"

subsection \<open>Organizations and the catalog\<close>

record SystemRouteGrantSnapshot =
  srg_identity_id :: uuid
  srg_ceilings :: SystemRouteGrantCeilings

record OrganizationSnapshot =
  org_id :: uuid
  org_active :: bool
  api_key_policy :: json
  system_route_grants :: "(uuid \<times> SystemRouteGrantSnapshot) list"
  endpoint_grants :: "uuid set"
  deployment_grants :: "uuid set"
  reliability_policy_grants :: "uuid set"
  origin_budgets :: "(AccountingOrigin \<times> BudgetPolicySnapshot) list"

record TargetSnapshot =
  target_id :: uuid
  target_deployment_id :: uuid
  affinity_identity :: "byte list"
  priority :: nat
  weight :: nat
  narrowing_constraints :: TargetNarrowingConstraints
  timeout_overrides :: TargetTimeoutOverrides

record RouteSnapshot =
  route_id :: uuid
  route_scope :: CatalogScopeKind
  route_organization_id :: "uuid option"
  route_model_key :: string
  ingress_protocol_family :: IngressProtocolFamily
  required_base_capabilities :: "LlmFeatureCapability set"
  selection_policy :: RouteSelectionPolicy
  reliability_policy_id :: uuid
  request_policy :: RouteRequestPolicy
  route_config_version :: nat
  route_active :: bool
  route_targets :: "TargetSnapshot list"

record DeploymentSnapshot =
  dep_id :: uuid
  dep_scope :: CatalogScopeKind
  dep_organization_id :: "uuid option"
  dep_endpoint_id :: uuid
  dep_endpoint_adapter :: EndpointAdapterKind
  dep_endpoint_config_version :: int
  dep_credential_id :: uuid
  dep_credential_state_identity_version :: nat
  dep_credential_secret_version_id :: uuid
  dep_credential_secret_version :: int
  dep_credential_kind :: CredentialKind
  dep_transport_kind :: TransportKind
  upstream_model_id :: string
  dep_capabilities :: "LlmFeatureCapability set"
  context_limits :: json
  state_isolation_profile :: json
  pricing_policy_version_id :: "uuid option"
  dep_pricing :: "PricingPolicyVersionSnapshot option"
  dep_config_version :: nat
  dep_origin :: AccountingOrigin
  operational :: bool

record CredentialClientKey =
  cck_credential_id :: uuid
  cck_secret_version :: int
  cck_endpoint_id :: uuid
  cck_endpoint_config_version :: int
  cck_transport_kind :: TransportKind

record EndpointSnapshot =
  ep_id :: uuid
  ep_adapter :: EndpointAdapterKind
  ep_base_url :: string
  region :: "string option"
  api_version :: "string option"
  network_policy_id :: uuid
  safe_headers :: "(string \<times> string) list"
  ep_config_version :: nat
  ep_active :: bool

record CredentialClient =
  client_credential_key :: CredentialClientKey
  client_base_url :: string
  client_adapter :: EndpointAdapterKind
  endpoint_connect_timeout_ms :: nat
  client_max_request_body_bytes :: nat
  client_max_response_body_bytes :: nat
  build_fingerprint :: "byte list"

record CatalogSnapshot =
  routes_by_namespace :: "((uuid option \<times> IngressProtocolFamily \<times> string) \<times> uuid) list"
  routes :: "(uuid \<times> RouteSnapshot) list"
  deployments :: "(uuid \<times> DeploymentSnapshot) list"
  endpoints :: "(uuid \<times> EndpointSnapshot) list"
  reliability_policies :: "(uuid \<times> ReliabilityPolicySnapshot) list"
  pricing_policy_versions :: "(uuid \<times> PricingPolicyVersionSnapshot) list"
  key_budget_policies :: "(uuid \<times> BudgetPolicySnapshot) list"
  rate_policies :: "(uuid \<times> RatePolicySnapshot) list"

record RuntimeSnapshot =
  revision :: int
  security_revision :: int
  built_at :: int
  compatibility_registry_version :: nat
  gateway_policy_ceilings :: GatewayPolicyCeilingsSnapshot
  identity :: IdentitySnapshot
  gateway_keys :: "(string \<times> GatewayKeyVerifier) list"
  organizations :: "(uuid \<times> OrganizationSnapshot) list"
  policy_activations :: "(PolicyActivationKey \<times> PolicyActivationSnapshot) list"
  catalog :: CatalogSnapshot

record RuntimeGeneration =
  build_id :: uuid
  snapshot :: RuntimeSnapshot
  credential_clients :: "(CredentialClientKey \<times> CredentialClient) list"

subsection \<open>Operations\<close>

definition client_key :: "DeploymentSnapshot \<Rightarrow> CredentialClientKey" where
  "client_key self =
     \<lparr>cck_credential_id = dep_credential_id self,
      cck_secret_version = dep_credential_secret_version self,
      cck_endpoint_id = dep_endpoint_id self,
      cck_endpoint_config_version = dep_endpoint_config_version self,
      cck_transport_kind = dep_transport_kind self\<rparr>"

definition deployment_price :: "DeploymentSnapshot \<Rightarrow> (string \<times> nat) list \<Rightarrow> PricingOutcome option option" where
  "deployment_price self usage = map_option (\<lambda>pricing. price pricing usage) (dep_pricing self)"

definition request_body_allowed :: "CredentialClient \<Rightarrow> nat \<Rightarrow> bool" where
  "request_body_allowed self n \<longleftrightarrow> n \<le> client_max_request_body_bytes self"

definition response_body_allowed :: "CredentialClient \<Rightarrow> nat \<Rightarrow> bool" where
  "response_body_allowed self n \<longleftrightarrow> n \<le> client_max_response_body_bytes self"

definition attempt_connect_timeout :: "CredentialClient \<Rightarrow> nat \<Rightarrow> nat" where
  "attempt_connect_timeout self connect_timeout = min connect_timeout (endpoint_connect_timeout_ms self)"

definition policy_admission_ready :: "RuntimeSnapshot \<Rightarrow> PolicyKind \<Rightarrow> uuid \<Rightarrow> int \<Rightarrow> bool" where
  "policy_admission_ready self kind policy_id now \<longleftrightarrow>
     is_none_or
       (\<lambda>activation. pa_state activation = ActivationActive
          \<or> is_none_or (\<lambda>deadline. now < deadline) (tightening_deadline activation))
       (aget (policy_activations self) \<lparr>pak_kind = kind, pak_policy_id = policy_id\<rparr>)"

definition resolve_route ::
    "CatalogSnapshot \<Rightarrow> OrganizationSnapshot \<Rightarrow> IngressProtocolFamily \<Rightarrow> string \<Rightarrow> RouteSnapshot option"
  where
  "resolve_route self organization ingress model_key =
     (case Option.bind (aget (routes_by_namespace self) (Some (org_id organization), ingress, model_key))
             (\<lambda>rid. option_filter route_active (aget (routes self) rid)) of
        Some route \<Rightarrow> Some route
      | None \<Rightarrow>
          Option.bind (aget (routes_by_namespace self) (None, ingress, model_key)) (\<lambda>rid.
            option_filter route_active
              (if aget (system_route_grants organization) rid \<noteq> None
               then aget (routes self) rid else None)))"

definition deployment_granted :: "OrganizationSnapshot \<Rightarrow> DeploymentSnapshot \<Rightarrow> bool" where
  "deployment_granted organization deployment \<longleftrightarrow>
     (if dep_scope deployment = ScopeDeployment
      then dep_id deployment \<in> deployment_grants organization
      else dep_organization_id deployment = Some (org_id organization)
           \<and> dep_endpoint_id deployment \<in> endpoint_grants organization)"

definition required_route_ready :: "RuntimeGeneration \<Rightarrow> uuid \<Rightarrow> bool" where
  "required_route_ready self rid =
     (let cat = catalog (snapshot self) in
      case option_filter route_active (aget (routes cat) rid) of
        None \<Rightarrow> False
      | Some route \<Rightarrow>
          let organization =
                Option.bind (route_organization_id route) (aget (organizations (snapshot self))) in
          if route_scope route = ScopeOrganization
             \<and> is_none_or (\<lambda>organization. \<not> org_active organization) organization
          then False
          else list_ex (\<lambda>target.
                 case aget (deployments cat) (target_deployment_id target) of
                   None \<Rightarrow> False
                 | Some deployment \<Rightarrow>
                     operational deployment
                     \<and> required_base_capabilities route \<subseteq> dep_capabilities deployment
                     \<and> aget (credential_clients self) (client_key deployment) \<noteq> None
                     \<and> is_none_or (\<lambda>organization. deployment_granted organization deployment)
                         organization)
               (route_targets route))"

subsection \<open>What resolution guarantees\<close>

lemma resolve_route_own:
  assumes "aget (routes_by_namespace c) (Some (org_id organization), ingress, key) = Some rid"
    and "aget (routes c) rid = Some route" and "route_active route"
  shows "resolve_route c organization ingress key = Some route"
  using assms by (simp add: resolve_route_def)

lemma resolve_route_SomeD:
  assumes "resolve_route c organization ingress key = Some route"
  shows "route_active route
    \<and> (\<exists>rid. aget (routes c) rid = Some route
        \<and> (aget (routes_by_namespace c) (Some (org_id organization), ingress, key) = Some rid
           \<or> aget (routes_by_namespace c) (None, ingress, key) = Some rid
             \<and> aget (system_route_grants organization) rid \<noteq> None))"
proof (cases "Option.bind
    (aget (routes_by_namespace c) (Some (org_id organization), ingress, key))
    (\<lambda>rid. option_filter route_active (aget (routes c) rid))")
  case None
  with assms show ?thesis by (auto simp: resolve_route_def split: if_splits)
next
  case (Some r)
  with assms show ?thesis by (auto simp: resolve_route_def)
qed

text \<open>
  Namespaces name the routes of the organization, or shared routes, when the builder has
  filed each route under its own scope.
\<close>

definition namespaces_ok :: "CatalogSnapshot \<Rightarrow> bool" where
  "namespaces_ok c \<longleftrightarrow>
     list_all (\<lambda>((scope, ingress, key), rid).
       case aget (routes c) rid of
         None \<Rightarrow> True
       | Some route \<Rightarrow> route_organization_id route = scope
           \<and> ingress_protocol_family route = ingress \<and> route_model_key route = key)
     (routes_by_namespace c)"

lemma namespaces_okD:
  assumes "namespaces_ok c" "aget (routes_by_namespace c) (scope, ingress, key) = Some rid"
    and "aget (routes c) rid = Some route"
  shows "route_organization_id route = scope \<and> ingress_protocol_family route = ingress
    \<and> route_model_key route = key"
proof -
  from assms(2) have "((scope, ingress, key), rid) \<in> set (routes_by_namespace c)"
    by (rule map_of_SomeD)
  with assms show ?thesis by (fastforce simp: namespaces_ok_def list_all_iff)
qed

subsection \<open>The property\<close>

text \<open>
  a resolved route is active, serves the requested protocol and model, and
  is the organization's own or a shared one the organization holds a grant for; an
  organization's own active route takes precedence over any shared one.
\<close>

theorem route_resolution_scoped:
  assumes "resolve_route c organization ingress key = Some route" "namespaces_ok c"
  shows "route_active route \<and> ingress_protocol_family route = ingress \<and> route_model_key route = key
    \<and> (route_organization_id route = Some (org_id organization)
       \<or> route_organization_id route = None
         \<and> (\<exists>rid. aget (routes c) rid = Some route \<and> aget (system_route_grants organization) rid \<noteq> None))"
proof -
  obtain rid where rid: "aget (routes c) rid = Some route" and active: "route_active route"
    and ns: "aget (routes_by_namespace c) (Some (org_id organization), ingress, key) = Some rid
      \<or> aget (routes_by_namespace c) (None, ingress, key) = Some rid
        \<and> aget (system_route_grants organization) rid \<noteq> None"
    using resolve_route_SomeD [OF assms(1)] by blast
  from ns show ?thesis
  proof
    assume "aget (routes_by_namespace c) (Some (org_id organization), ingress, key) = Some rid"
    with namespaces_okD [OF assms(2) _ rid] active show ?thesis by blast
  next
    assume "aget (routes_by_namespace c) (None, ingress, key) = Some rid
        \<and> aget (system_route_grants organization) rid \<noteq> None"
    with namespaces_okD [OF assms(2) _ rid] active rid show ?thesis by blast
  qed
qed

definition sample_route :: RouteSnapshot where
  "sample_route =
     \<lparr>route_id = 5, route_scope = ScopeDeployment, route_organization_id = None, route_model_key = ''m'',
      ingress_protocol_family = IngressAnthropicMessages, required_base_capabilities = {},
      selection_policy = RouteSelectionPolicy_default, reliability_policy_id = 1,
      request_policy = \<lparr>max_header_bytes = 1, max_request_body_bytes = 1, max_response_body_bytes = 1,
        max_output_units = 1, max_stream_seconds = 1, state_origin_ttl_seconds = 1\<rparr>,
      route_config_version = 1, route_active = True, route_targets = []\<rparr>"

definition sample_catalog :: CatalogSnapshot where
  "sample_catalog =
     \<lparr>routes_by_namespace = [((None, IngressAnthropicMessages, ''m''), 5)], routes = [(5, sample_route)],
      deployments = [], endpoints = [], reliability_policies = [], pricing_policy_versions = [],
      key_budget_policies = [], rate_policies = []\<rparr>"

definition sample_organization :: OrganizationSnapshot where
  "sample_organization =
     \<lparr>org_id = 1, org_active = True, api_key_policy = JNull,
      system_route_grants = [(5, \<lparr>srg_identity_id = 1, srg_ceilings = SystemRouteGrantCeilings_default\<rparr>)],
      endpoint_grants = {}, deployment_grants = {}, reliability_policy_grants = {}, origin_budgets = []\<rparr>"

lemma route_resolution_scoped_witness:
  "route_active sample_route \<and> aget (system_route_grants sample_organization) 5 \<noteq> None"
  using route_resolution_scoped [of sample_catalog sample_organization IngressAnthropicMessages "''m''"
      sample_route]
  by (simp add: resolve_route_def namespaces_ok_def sample_catalog_def sample_organization_def
      sample_route_def)

end
