(* ===== verification/Protection.thy ===== *)
theory Protection
  imports Runtime "HOL-Library.Multiset"
begin

section \<open>Target protection: circuits and capacity\<close>

text \<open>
  \<open>crates/owlrora-server/src/gateway/protection.rs\<close>.  Every attempt at an upstream
  target holds a permit: one token per circuit it went through half open, and one capacity
  permit for the endpoint, the credential and the deployment.  The circuit of a domain
  opens after repeated failures, lets a bounded number of probes through once its cooldown
  has passed, and closes into a recovery period.

  A monotonic instant is a natural number of nanoseconds.  Each function of the code reads
  the clock, takes the mutex of the circuit states, and runs to the end under it: it is one
  function of the states and the instant read.  A semaphore is the number of permits taken
  from it; \<open>Arc::strong_count(semaphore) > 1\<close> says that some permit is still held.
\<close>

type_synonym instant = nat

definition duration_from_millis :: "nat \<Rightarrow> nat" where
  "duration_from_millis ms = ms * 1000000"

definition MAX_TRACKED_DOMAINS :: nat where "MAX_TRACKED_DOMAINS = 65536"

datatype TargetProtectionError = CircuitOpen | CapacityExhausted

datatype TargetHealthCategory =
  HealthHealthy | HealthDegraded | HealthOpen | HealthRecovering | HealthUnavailable

record Candidate =
  cand_target :: TargetSnapshot
  cand_deployment :: DeploymentSnapshot
  client_build_fingerprint :: "byte list"

datatype CircuitDomain =
  DomainEndpoint uuid "byte list"
| DomainCredential uuid nat int "byte list"
| DomainDeployment uuid nat "byte list"

record CircuitEntry =
  consecutive_failures :: nat
  consecutive_successes :: nat
  open_until :: "instant option"
  half_open_in_flight :: nat
  recovery_started_at :: "instant option"
  recovery_until :: "instant option"
  reopen_count :: nat
  health_epoch :: uuid
  last_touched :: instant

type_synonym CircuitStates = "(CircuitDomain \<times> CircuitEntry) list"

record CapacityDomain =
  cap_limit :: nat
  cap_entries :: "(uuid \<times> nat) list"

record TargetProtectionState =
  global_limit :: nat
  global_in_use :: nat
  cap_endpoint :: CapacityDomain
  cap_credential :: CapacityDomain
  cap_deployment :: CapacityDomain
  circuits :: CircuitStates

record TargetAttemptPermit =
  permit_domains :: "CircuitDomain list"
  permit_tokens :: "instant option list"
  permit_policy :: CircuitPolicySnapshot
  permit_capacity :: "uuid \<times> uuid \<times> uuid"

record LocalTargetHealth =
  lth_category :: TargetHealthCategory
  cooldown_remaining :: "nat option"
  recovery_elapsed :: "nat option"
  lth_health_epoch :: uuid

definition TargetProtectionState_new :: "nat \<Rightarrow> nat \<Rightarrow> nat \<Rightarrow> nat \<Rightarrow> TargetProtectionState" where
  "TargetProtectionState_new global endpoint credential deployment =
     \<lparr>global_limit = global, global_in_use = 0,
      cap_endpoint = \<lparr>cap_limit = endpoint, cap_entries = []\<rparr>,
      cap_credential = \<lparr>cap_limit = credential, cap_entries = []\<rparr>,
      cap_deployment = \<lparr>cap_limit = deployment, cap_entries = []\<rparr>,
      circuits = []\<rparr>"

definition candidate_circuit_domains :: "Candidate \<Rightarrow> CircuitDomain list" where
  "candidate_circuit_domains candidate =
     (let d = cand_deployment candidate; b = client_build_fingerprint candidate in
      [DomainEndpoint (dep_endpoint_id d) b,
       DomainCredential (dep_credential_id d) (dep_credential_state_identity_version d)
         (dep_credential_secret_version d) b,
       DomainDeployment (dep_id d) (dep_config_version d) b])"

subsection \<open>Capacity\<close>

text \<open>A domain at its tracking limit forgets the semaphores nobody holds a permit of.\<close>

definition capacity_evict :: "uuid \<Rightarrow> (uuid \<times> nat) list \<Rightarrow> (uuid \<times> nat) list" where
  "capacity_evict key es =
     (if aget es key = None \<and> length es \<ge> MAX_TRACKED_DOMAINS
      then filter (\<lambda>(_, in_use). in_use > 0) es else es)"

definition CapacityDomain_try_acquire ::
    "CapacityDomain \<Rightarrow> uuid \<Rightarrow> CapacityDomain \<times> (TargetProtectionError + unit)" where
  "CapacityDomain_try_acquire self key =
     (let es = capacity_evict key (cap_entries self) in
      if aget es key = None \<and> length es \<ge> MAX_TRACKED_DOMAINS
      then (self\<lparr>cap_entries := es\<rparr>, Inl CapacityExhausted)
      else
        let in_use = (case aget es key of None \<Rightarrow> 0 | Some n \<Rightarrow> n) in
        if in_use < cap_limit self
        then (self\<lparr>cap_entries := aput key (in_use + 1) es\<rparr>, Inr ())
        else (self\<lparr>cap_entries := aput key in_use es\<rparr>, Inl CapacityExhausted))"

text \<open>Dropping an \<open>OwnedSemaphorePermit\<close>.\<close>

definition CapacityDomain_release :: "uuid \<Rightarrow> CapacityDomain \<Rightarrow> CapacityDomain" where
  "CapacityDomain_release key self =
     (case aget (cap_entries self) key of
        None \<Rightarrow> self
      | Some n \<Rightarrow> self\<lparr>cap_entries := aput key (n - 1) (cap_entries self)\<rparr>)"

definition try_acquire_global ::
    "TargetProtectionState \<Rightarrow> TargetProtectionState \<times> (TargetProtectionError + unit)" where
  "try_acquire_global self =
     (if global_in_use self < global_limit self
      then (self\<lparr>global_in_use := global_in_use self + 1\<rparr>, Inr ())
      else (self, Inl CapacityExhausted))"

subsection \<open>Circuits\<close>

definition finish_recovery_if_elapsed :: "CircuitEntry \<Rightarrow> instant \<Rightarrow> CircuitEntry" where
  "finish_recovery_if_elapsed entry now =
     (case recovery_until entry of
        None \<Rightarrow> entry
      | Some until \<Rightarrow>
          if until \<le> now
          then entry\<lparr>recovery_started_at := None, recovery_until := None, reopen_count := 0\<rparr>
          else entry)"

text \<open>
  The cooldown before a reopened circuit admits a probe: the open duration doubled for
  every reopening, capped, in 128-bit arithmetic.
\<close>

definition circuit_cooldown_ms :: "CircuitPolicySnapshot \<Rightarrow> nat \<Rightarrow> nat" where
  "circuit_cooldown_ms policy reopens =
     min (saturating_mul u128_max (open_duration_ms policy) (2 ^ min reopens 63))
         (max_open_duration_ms policy)"

definition circuit_cooldown :: "CircuitPolicySnapshot \<Rightarrow> nat \<Rightarrow> nat" where
  "circuit_cooldown policy reopens = duration_from_millis (circuit_cooldown_ms policy reopens)"

definition new_circuit_entry :: "uuid \<Rightarrow> instant \<Rightarrow> CircuitEntry" where
  "new_circuit_entry epoch now =
     \<lparr>consecutive_failures = 0, consecutive_successes = 0, open_until = None,
      half_open_in_flight = 0, recovery_started_at = None, recovery_until = None,
      reopen_count = 0, health_epoch = epoch, last_touched = now\<rparr>"

definition release_circuit_token ::
    "instant \<Rightarrow> CircuitDomain \<Rightarrow> instant option \<Rightarrow> CircuitStates \<Rightarrow> CircuitStates" where
  "release_circuit_token now domain token states =
     (case aget states domain of
        None \<Rightarrow> states
      | Some entry \<Rightarrow>
          let entry = entry\<lparr>last_touched := now\<rparr> in
          aput domain
            (if token \<noteq> None \<and> open_until entry = token
             then entry\<lparr>half_open_in_flight := half_open_in_flight entry - 1\<rparr> else entry)
            states)"

fun release_circuit_tokens ::
    "instant \<Rightarrow> (CircuitDomain \<times> instant option) list \<Rightarrow> CircuitStates \<Rightarrow> CircuitStates" where
  "release_circuit_tokens now [] states = states"
| "release_circuit_tokens now ((domain, token) # rest) states =
     release_circuit_tokens now rest (release_circuit_token now domain token states)"

text \<open>The loop of \<open>acquire_circuits\<close> over the domains, at index \<open>i\<close>.\<close>

fun acquire_loop ::
    "CircuitPolicySnapshot \<Rightarrow> instant \<Rightarrow> uuid \<Rightarrow> CircuitDomain list \<Rightarrow> nat \<Rightarrow> CircuitDomain list
      \<Rightarrow> CircuitStates \<Rightarrow> instant option list
      \<Rightarrow> CircuitStates \<times> (TargetProtectionError + instant option list)" where
  "acquire_loop policy now epoch domains i [] states tokens = (states, Inr tokens)"
| "acquire_loop policy now epoch domains i (domain # rest) states tokens =
     (let entry = (case aget states domain of None \<Rightarrow> new_circuit_entry epoch now | Some e \<Rightarrow> e);
          entry = (finish_recovery_if_elapsed entry now)\<lparr>last_touched := now\<rparr> in
      case open_until entry of
        None \<Rightarrow>
          acquire_loop policy now epoch domains (Suc i) rest (aput domain entry states) tokens
      | Some until \<Rightarrow>
          if until > now \<or> half_open_in_flight entry \<ge> half_open_max_requests policy
          then (release_circuit_tokens now (zip domains tokens) (aput domain entry states),
                Inl CircuitOpen)
          else
            acquire_loop policy now epoch domains (Suc i) rest
              (aput domain
                 (entry\<lparr>half_open_in_flight :=
                          saturating_add u64_max (half_open_in_flight entry) 1\<rparr>) states)
              (tokens[i := Some until]))"

definition circuits_evict :: "instant \<Rightarrow> CircuitStates \<Rightarrow> CircuitStates" where
  "circuits_evict now states =
     (if length states \<ge> MAX_TRACKED_DOMAINS
      then filter (\<lambda>(_, entry).
             half_open_in_flight entry > 0
             \<or> (case open_until entry of None \<Rightarrow> False | Some until \<Rightarrow> until > now)
             \<or> now - last_touched entry < duration_from_millis 300000) states
      else states)"

definition acquire_circuits ::
    "CircuitPolicySnapshot \<Rightarrow> instant \<Rightarrow> uuid \<Rightarrow> CircuitDomain list \<Rightarrow> CircuitStates
      \<Rightarrow> CircuitStates \<times> (TargetProtectionError + instant option list)" where
  "acquire_circuits policy now epoch domains states =
     (let states = circuits_evict now states in
      if list_ex (\<lambda>domain. aget states domain = None) domains
         \<and> length states + length domains > MAX_TRACKED_DOMAINS
      then (states, Inl CircuitOpen)
      else acquire_loop policy now epoch domains 0 domains states
             (replicate (length domains) None))"

text \<open>What one observed outcome does to the entry of one domain.\<close>

definition observe_success :: "CircuitPolicySnapshot \<Rightarrow> instant \<Rightarrow> bool \<Rightarrow> CircuitEntry \<Rightarrow> CircuitEntry" where
  "observe_success policy now half_open entry =
     (let entry = entry\<lparr>consecutive_failures := 0,
            consecutive_successes := saturating_add u64_max (consecutive_successes entry) 1\<rparr> in
      if half_open \<and> consecutive_successes entry \<ge> success_threshold policy
      then entry\<lparr>open_until := None, half_open_in_flight := 0, consecutive_successes := 0,
             recovery_started_at := Some now,
             recovery_until := Some (now + duration_from_millis (recovery_duration_ms policy))\<rparr>
      else if \<not> half_open then entry\<lparr>consecutive_successes := 0\<rparr>
      else entry)"

definition observe_failure ::
    "CircuitPolicySnapshot \<Rightarrow> instant \<Rightarrow> uuid \<Rightarrow> bool \<Rightarrow> CircuitEntry \<Rightarrow> CircuitEntry" where
  "observe_failure policy now failure_epoch half_open entry =
     (let recovering = (case recovery_until entry of None \<Rightarrow> False | Some until \<Rightarrow> until > now);
          entry = entry\<lparr>consecutive_successes := 0,
            consecutive_failures := saturating_add u64_max (consecutive_failures entry) 1\<rparr> in
      if half_open \<or> recovering \<or> consecutive_failures entry \<ge> failure_threshold policy
      then entry\<lparr>open_until := Some (now + circuit_cooldown policy (reopen_count entry)),
             half_open_in_flight := 0, recovery_started_at := None, recovery_until := None,
             reopen_count := saturating_add u32_max (reopen_count entry) 1,
             health_epoch := failure_epoch, consecutive_failures := 0\<rparr>
      else entry)"

definition observe_entry ::
    "CircuitPolicySnapshot \<Rightarrow> bool \<Rightarrow> instant \<Rightarrow> uuid \<Rightarrow> instant option \<Rightarrow> CircuitEntry \<Rightarrow> CircuitEntry" where
  "observe_entry policy success now failure_epoch token entry =
     (let entry = (finish_recovery_if_elapsed entry now)\<lparr>last_touched := now\<rparr>;
          half_open = token \<noteq> None;
          outcome = (\<lambda>e. if success then observe_success policy now half_open e
                         else observe_failure policy now failure_epoch half_open e) in
      if half_open
      then (if open_until entry \<noteq> token then entry
            else outcome (entry\<lparr>half_open_in_flight := half_open_in_flight entry - 1\<rparr>))
      else if open_until entry \<noteq> None then entry
      else outcome entry)"

fun observe_circuits ::
    "CircuitPolicySnapshot \<Rightarrow> bool \<Rightarrow> instant \<Rightarrow> uuid \<Rightarrow> (CircuitDomain \<times> instant option) list
      \<Rightarrow> CircuitStates \<Rightarrow> CircuitStates" where
  "observe_circuits policy success now failure_epoch [] states = states"
| "observe_circuits policy success now failure_epoch ((domain, token) # rest) states =
     observe_circuits policy success now failure_epoch rest
       (case aget states domain of
          None \<Rightarrow> states
        | Some entry \<Rightarrow>
            aput domain (observe_entry policy success now failure_epoch token entry) states)"

subsection \<open>Permits\<close>

definition permit_zip :: "TargetAttemptPermit \<Rightarrow> (CircuitDomain \<times> instant option) list" where
  "permit_zip p = zip (permit_domains p) (permit_tokens p)"

definition release_capacity :: "uuid \<times> uuid \<times> uuid \<Rightarrow> TargetProtectionState \<Rightarrow> TargetProtectionState" where
  "release_capacity ids self =
     self\<lparr>cap_endpoint := CapacityDomain_release (fst ids) (cap_endpoint self),
          cap_credential := CapacityDomain_release (fst (snd ids)) (cap_credential self),
          cap_deployment := CapacityDomain_release (snd (snd ids)) (cap_deployment self)\<rparr>"

text \<open>
  The three capacity permits are requested before the first failure is looked at, so a
  failing one leaves the others to be dropped.
\<close>

definition try_acquire_target ::
    "Candidate \<Rightarrow> CircuitPolicySnapshot \<Rightarrow> instant \<Rightarrow> uuid \<Rightarrow> instant \<Rightarrow> TargetProtectionState
      \<Rightarrow> TargetProtectionState \<times> (TargetProtectionError + TargetAttemptPermit)" where
  "try_acquire_target candidate policy now epoch release_now self =
     (let domains = candidate_circuit_domains candidate;
          (states, acquired) = acquire_circuits policy now epoch domains (circuits self) in
      case acquired of
        Inl e \<Rightarrow> (self\<lparr>circuits := states\<rparr>, Inl e)
      | Inr tokens \<Rightarrow>
          let d = cand_deployment candidate;
              (endpoint, r1) = CapacityDomain_try_acquire (cap_endpoint self) (dep_endpoint_id d);
              (credential, r2) =
                CapacityDomain_try_acquire (cap_credential self) (dep_credential_id d);
              (deployment, r3) = CapacityDomain_try_acquire (cap_deployment self) (dep_id d) in
          (case result_bind r1 (\<lambda>_. result_bind r2 (\<lambda>_. r3)) of
             Inl e \<Rightarrow>
               (self\<lparr>circuits := release_circuit_tokens release_now (zip domains tokens) states,
                  cap_endpoint :=
                    (if isl r1 then endpoint
                     else CapacityDomain_release (dep_endpoint_id d) endpoint),
                  cap_credential :=
                    (if isl r2 then credential
                     else CapacityDomain_release (dep_credential_id d) credential),
                  cap_deployment :=
                    (if isl r3 then deployment
                     else CapacityDomain_release (dep_id d) deployment)\<rparr>, Inl e)
           | Inr _ \<Rightarrow>
               (self\<lparr>circuits := states, cap_endpoint := endpoint,
                  cap_credential := credential, cap_deployment := deployment\<rparr>,
                Inr \<lparr>permit_domains = domains, permit_tokens = tokens, permit_policy = policy,
                     permit_capacity = (dep_endpoint_id d, dep_credential_id d, dep_id d)\<rparr>)))"

definition permit_success :: "instant \<Rightarrow> TargetAttemptPermit \<Rightarrow> TargetProtectionState \<Rightarrow> TargetProtectionState" where
  "permit_success now p self =
     release_capacity (permit_capacity p)
       (self\<lparr>circuits := observe_circuits (permit_policy p) True now 0 (permit_zip p) (circuits self)\<rparr>)"

definition permit_failure ::
    "instant \<Rightarrow> uuid \<Rightarrow> TargetAttemptPermit \<Rightarrow> TargetProtectionState \<Rightarrow> TargetProtectionState" where
  "permit_failure now failure_epoch p self =
     release_capacity (permit_capacity p)
       (self\<lparr>circuits :=
          observe_circuits (permit_policy p) False now failure_epoch (permit_zip p) (circuits self)\<rparr>)"

definition permit_drop :: "instant \<Rightarrow> TargetAttemptPermit \<Rightarrow> TargetProtectionState \<Rightarrow> TargetProtectionState" where
  "permit_drop now p self =
     release_capacity (permit_capacity p)
       (self\<lparr>circuits := release_circuit_tokens now (permit_zip p) (circuits self)\<rparr>)"

subsection \<open>Local health\<close>

definition max_by_key_last :: "('a \<Rightarrow> nat) \<Rightarrow> 'a list \<Rightarrow> 'a option" where
  "max_by_key_last f xs =
     fold (\<lambda>x acc. case acc of None \<Rightarrow> Some x | Some y \<Rightarrow> if f y \<le> f x then Some x else acc)
       xs None"

fun finish_recoveries :: "instant \<Rightarrow> CircuitDomain list \<Rightarrow> CircuitStates \<Rightarrow> CircuitStates" where
  "finish_recoveries now [] states = states"
| "finish_recoveries now (domain # rest) states =
     finish_recoveries now rest
       (case aget states domain of
          None \<Rightarrow> states
        | Some entry \<Rightarrow> aput domain (finish_recovery_if_elapsed entry now) states)"

definition local_health ::
    "instant \<Rightarrow> Candidate \<Rightarrow> TargetProtectionState \<Rightarrow> TargetProtectionState \<times> LocalTargetHealth" where
  "local_health now candidate self =
     (let domains = candidate_circuit_domains candidate;
          states = finish_recoveries now domains (circuits self);
          es = List.map_filter (aget states) domains;
          cooldown = max_by_key_last (\<lambda>d. d)
            (map (\<lambda>until. until - now)
               (filter (\<lambda>until. until > now) (List.map_filter open_until es)));
          recovery = max_by_key_last fst
            (List.map_filter (\<lambda>entry. map_option (\<lambda>started. (started, health_epoch entry))
               (recovery_started_at entry)) es);
          category =
            (if cooldown \<noteq> None then HealthOpen
             else if list_ex (\<lambda>entry. open_until entry \<noteq> None) es \<or> recovery \<noteq> None
             then HealthRecovering
             else if list_ex (\<lambda>entry. consecutive_failures entry > 0) es then HealthDegraded
             else if es = [] then HealthUnavailable
             else HealthHealthy) in
      (self\<lparr>circuits := states\<rparr>,
       \<lparr>lth_category = category, cooldown_remaining = cooldown,
        recovery_elapsed = map_option (\<lambda>(started, _). now - started) recovery,
        lth_health_epoch =
          (case recovery of
             Some (_, epoch) \<Rightarrow> epoch
           | None \<Rightarrow> (case max_by_key_last (\<lambda>e. e) (map health_epoch es) of
                 None \<Rightarrow> 0 | Some e \<Rightarrow> e))\<rparr>))"

subsection \<open>The contract of a pool of permits\<close>

text \<open>
  What the gateway relies on wherever it takes and gives back permits: a state accounts
  for exactly the multiset of permits that are held, a refused request changes nothing of
  that account, and giving a permit back removes it.
\<close>

locale permit_pool =
  fixes holds :: "'s \<Rightarrow> 'k multiset \<Rightarrow> bool"
    and acquire :: "'s \<Rightarrow> 'k \<Rightarrow> 's \<times> ('e + unit)"
    and release :: "'k \<Rightarrow> 's \<Rightarrow> 's"
  assumes acquire_Inr: "holds s M \<Longrightarrow> acquire s k = (s', Inr u) \<Longrightarrow> holds s' (add_mset k M)"
    and acquire_Inl: "holds s M \<Longrightarrow> acquire s k = (s', Inl e) \<Longrightarrow> holds s' M"
    and release_held: "holds s (add_mset k M) \<Longrightarrow> holds (release k s) M"
begin

lemma acquire_cases:
  assumes "holds s M"
  shows "holds (fst (acquire s k)) (if isl (snd (acquire s k)) then M else add_mset k M)"
proof (cases "snd (acquire s k)")
  case (Inl e)
  then have "acquire s k = (fst (acquire s k), Inl e)" by (simp add: prod_eq_iff)
  from acquire_Inl [OF assms this] Inl show ?thesis by simp
next
  case (Inr u)
  then have "acquire s k = (fst (acquire s k), Inr u)" by (simp add: prod_eq_iff)
  from acquire_Inr [OF assms this] Inr show ?thesis by simp
qed

lemma acquire_dropped:
  assumes "holds s M"
  shows "holds (if isl (snd (acquire s k)) then fst (acquire s k)
                else release k (fst (acquire s k))) M"
  using acquire_cases [OF assms, of k] by (auto intro: release_held)

lemma release_one_of:
  assumes "holds s M" "k \<in># M"
  shows "holds (release k s) (M - {#k#})"
  using assms by (auto intro: release_held dest!: multi_member_split)

lemma release_all: "holds s (mset ks + M) \<Longrightarrow> holds (fold release ks s) M"
  by (induction ks arbitrary: s) (auto intro: release_held)

end

definition capacity_in_use :: "CapacityDomain \<Rightarrow> uuid \<Rightarrow> nat" where
  "capacity_in_use self key = (case aget (cap_entries self) key of None \<Rightarrow> 0 | Some n \<Rightarrow> n)"

definition capacity_holds :: "CapacityDomain \<Rightarrow> uuid multiset \<Rightarrow> bool" where
  "capacity_holds self held \<longleftrightarrow>
     adistinct (cap_entries self)
     \<and> (\<forall>key. capacity_in_use self key = count held key \<and> count held key \<le> cap_limit self)"

lemma aget_capacity_evict:
  assumes "adistinct es"
  shows "(case aget (capacity_evict key es) k of None \<Rightarrow> 0 | Some n \<Rightarrow> n)
    = (case aget es k of None \<Rightarrow> 0 | Some n \<Rightarrow> n)"
  using assms by (simp add: capacity_evict_def aget_filter option_filter_def split: option.split)

lemma adistinct_capacity_evict: "adistinct es \<Longrightarrow> adistinct (capacity_evict key es)"
  by (simp add: capacity_evict_def)

lemma capacity_holds_aput:
  assumes "adistinct es" "n \<le> cap_limit self"
    and "\<And>k. k \<noteq> key \<Longrightarrow> (case aget es k of None \<Rightarrow> 0 | Some n \<Rightarrow> n) = count held k"
    and "\<And>k. k \<noteq> key \<Longrightarrow> count held k \<le> cap_limit self" "n = count held key"
  shows "capacity_holds (self\<lparr>cap_entries := aput key n es\<rparr>) held"
  using assms by (auto simp: capacity_holds_def capacity_in_use_def aget_aput)

interpretation capacity: permit_pool capacity_holds CapacityDomain_try_acquire CapacityDomain_release
proof
  fix s M k s' u
  assume h: "capacity_holds s M" and a: "CapacityDomain_try_acquire s k = (s', Inr u)"
  let ?es = "capacity_evict k (cap_entries s)"
  from h have d: "adistinct (cap_entries s)" by (simp add: capacity_holds_def)
  from h have c: "\<And>k'. (case aget ?es k' of None \<Rightarrow> 0 | Some n \<Rightarrow> n) = count M k'"
    and l: "\<And>k'. count M k' \<le> cap_limit s"
    by (simp_all add: capacity_holds_def capacity_in_use_def aget_capacity_evict [OF d])
  from a have "count M k < cap_limit s"
    and "s' = s\<lparr>cap_entries := aput k (count M k + 1) ?es\<rparr>"
    by (auto simp: CapacityDomain_try_acquire_def Let_def c split: if_split_asm)
  then show "capacity_holds s' (add_mset k M)"
    using c l d by (auto intro!: capacity_holds_aput adistinct_capacity_evict)
next
  fix s M k s' e
  assume h: "capacity_holds s M" and a: "CapacityDomain_try_acquire s k = (s', Inl e)"
  let ?es = "capacity_evict k (cap_entries s)"
  from h have d: "adistinct (cap_entries s)" by (simp add: capacity_holds_def)
  from h have c: "\<And>k'. (case aget ?es k' of None \<Rightarrow> 0 | Some n \<Rightarrow> n) = count M k'"
    and l: "\<And>k'. count M k' \<le> cap_limit s"
    by (simp_all add: capacity_holds_def capacity_in_use_def aget_capacity_evict [OF d])
  from a consider "s' = s\<lparr>cap_entries := ?es\<rparr>"
    | "s' = s\<lparr>cap_entries := aput k (count M k) ?es\<rparr>"
    by (auto simp: CapacityDomain_try_acquire_def Let_def c split: if_split_asm)
  then show "capacity_holds s' M"
  proof cases
    case 1
    with c l d show ?thesis
      by (simp add: capacity_holds_def capacity_in_use_def adistinct_capacity_evict)
  next
    case 2
    with c l d show ?thesis by (auto intro!: capacity_holds_aput adistinct_capacity_evict)
  qed
next
  fix s k M
  assume h: "capacity_holds s (add_mset k M)"
  then have "capacity_in_use s k = Suc (count M k)" by (simp add: capacity_holds_def)
  then have g: "aget (cap_entries s) k = Some (Suc (count M k))"
    by (simp add: capacity_in_use_def split: option.split_asm)
  then have r: "CapacityDomain_release k s = s\<lparr>cap_entries := aput k (count M k) (cap_entries s)\<rparr>"
    by (simp add: CapacityDomain_release_def)
  have c: "\<And>k'. (case aget (cap_entries s) k' of None \<Rightarrow> 0 | Some n \<Rightarrow> n) = count (add_mset k M) k'"
    and l: "\<And>k'. count (add_mset k M) k' \<le> cap_limit s"
    and d: "adistinct (cap_entries s)"
    using h by (simp_all add: capacity_holds_def capacity_in_use_def)
  have "count M k \<le> cap_limit s" using l [of k] by simp
  moreover have "count M k' \<le> cap_limit s" if "k' \<noteq> k" for k' using l [of k'] that by simp
  ultimately show "capacity_holds (CapacityDomain_release k s) M"
    unfolding r by (intro capacity_holds_aput d) (simp_all add: c)
qed

definition global_holds :: "TargetProtectionState \<Rightarrow> unit multiset \<Rightarrow> bool" where
  "global_holds self held \<longleftrightarrow> global_in_use self = size held \<and> size held \<le> global_limit self"

definition release_global :: "unit \<Rightarrow> TargetProtectionState \<Rightarrow> TargetProtectionState" where
  "release_global u self = self\<lparr>global_in_use := global_in_use self - 1\<rparr>"

interpretation global_pool: permit_pool global_holds "\<lambda>s _. try_acquire_global s" release_global
  by unfold_locales
    (auto simp: global_holds_def try_acquire_global_def release_global_def split: if_split_asm)

end
