(* ===== verification/Circuits.thy ===== *)
theory Circuits
  imports Protection
begin

section \<open>The accounting of half-open circuits\<close>

text \<open>
  The states the protection of \<^theory_text>\<open>Protection\<close> goes through while permits are
  acquired, observed and dropped in any order.  The number of requests a half-open circuit
  counts in flight is the number of live permits that went through it since it last
  opened; tokens of an earlier opening never match again, because a circuit reopens
  strictly later than every instant a token was taken at.
\<close>

text \<open>The counter of every circuit is the number of held tokens that name its current opening.\<close>

definition circuits_hold :: "CircuitStates \<Rightarrow> (CircuitDomain \<times> instant option) multiset \<Rightarrow> bool" where
  "circuits_hold states held \<longleftrightarrow>
     adistinct states
     \<and> (\<forall>domain entry. aget states domain = Some entry \<longrightarrow>
          half_open_in_flight entry =
            (case open_until entry of None \<Rightarrow> 0 | Some t \<Rightarrow> count held (domain, Some t)))"

definition in_flight_le :: "nat \<Rightarrow> CircuitStates \<Rightarrow> bool" where
  "in_flight_le b states \<longleftrightarrow>
     (\<forall>domain entry. aget states domain = Some entry \<longrightarrow> half_open_in_flight entry \<le> b)"

lemma circuits_holdD:
  assumes "circuits_hold states held" "aget states domain = Some entry"
  shows "half_open_in_flight entry =
    (case open_until entry of None \<Rightarrow> 0 | Some t \<Rightarrow> count held (domain, Some t))"
  using assms by (simp add: circuits_hold_def)

lemma circuits_hold_aput:
  assumes "circuits_hold states held"
    and "\<And>d t. d \<noteq> domain \<Longrightarrow> count held' (d, Some t) = count held (d, Some t)"
    and "half_open_in_flight entry =
      (case open_until entry of None \<Rightarrow> 0 | Some t \<Rightarrow> count held' (domain, Some t))"
  shows "circuits_hold (aput domain entry states) held'"
  using assms by (auto simp: circuits_hold_def aget_aput split: option.splits)

lemma circuits_hold_other:
  assumes "circuits_hold states held"
    and "\<And>d t. aget states d \<noteq> None \<Longrightarrow> count held' (d, Some t) = count held (d, Some t)"
  shows "circuits_hold states held'"
  using assms by (fastforce simp: circuits_hold_def split: option.splits)

lemma in_flight_le_aput:
  "in_flight_le b states \<Longrightarrow> half_open_in_flight entry \<le> b \<Longrightarrow> in_flight_le b (aput domain entry states)"
  by (auto simp: in_flight_le_def aget_aput)

lemma finish_recovery_keeps [simp]:
  "open_until (finish_recovery_if_elapsed e now) = open_until e"
  "half_open_in_flight (finish_recovery_if_elapsed e now) = half_open_in_flight e"
  by (auto simp: finish_recovery_if_elapsed_def split: option.split)

subsection \<open>Giving tokens back\<close>

lemma release_token_holds:
  assumes "circuits_hold states (add_mset (domain, token) held)"
  shows "circuits_hold (release_circuit_token now domain token states) held"
proof (cases "aget states domain")
  case None
  with assms have "circuits_hold states held"
    by (elim circuits_hold_other) (auto split: if_splits)
  with None show ?thesis by (simp add: release_circuit_token_def)
next
  case (Some entry)
  note n = circuits_holdD [OF assms Some]
  have touched: "circuits_hold (aput domain (entry\<lparr>last_touched := now\<rparr>) states) held"
    if "\<not> (token \<noteq> None \<and> open_until entry = token)"
    using assms
    by (rule circuits_hold_aput) (use that n in \<open>auto split: option.splits if_splits\<close>)
  have given: "circuits_hold (aput domain (entry\<lparr>last_touched := now,
      half_open_in_flight := half_open_in_flight entry - 1\<rparr>) states) held"
    if "token \<noteq> None" "open_until entry = token"
    using assms
    by (rule circuits_hold_aput) (use that n in \<open>auto split: option.splits if_splits\<close>)
  from touched given Some show ?thesis by (auto simp: release_circuit_token_def Let_def)
qed

lemma release_token_le:
  assumes "in_flight_le b states"
  shows "in_flight_le b (release_circuit_token now domain token states)"
proof (cases "aget states domain")
  case None
  with assms show ?thesis by (simp add: release_circuit_token_def)
next
  case (Some entry)
  with assms have "half_open_in_flight entry \<le> b" by (simp add: in_flight_le_def)
  with assms Some show ?thesis
    by (simp add: release_circuit_token_def Let_def in_flight_le_aput)
qed

lemma release_tokens_hold:
  "circuits_hold states (mset zs + held) \<Longrightarrow> circuits_hold (release_circuit_tokens now zs states) held"
proof (induction zs arbitrary: states)
  case (Cons z zs)
  obtain d t where "z = (d, t)" by (cases z)
  with Cons show ?case by (simp add: release_token_holds)
qed simp

lemma release_tokens_le:
  "in_flight_le b states \<Longrightarrow> in_flight_le b (release_circuit_tokens now zs states)"
  by (induction zs arbitrary: states) (auto simp: release_token_le)

subsection \<open>Taking tokens\<close>

lemma circuits_evict_holds:
  assumes "circuits_hold states held"
  shows "circuits_hold (circuits_evict now states) held"
proof -
  from assms have d: "adistinct states" by (simp add: circuits_hold_def)
  with assms show ?thesis
    by (auto simp: circuits_hold_def circuits_evict_def aget_filter [OF d])
qed

lemma circuits_evict_le:
  assumes "adistinct states" "in_flight_le b states"
  shows "in_flight_le b (circuits_evict now states)"
  using assms by (auto simp: in_flight_le_def circuits_evict_def aget_filter)

lemma zip_update_Suc:
  assumes "length domains = length tokens" "i < length tokens" "tokens ! i = None"
  shows "mset (zip domains (tokens[i := Some t]))
    = add_mset (domains ! i, Some t) (mset (zip domains tokens) - {#(domains ! i, None)#})"
proof -
  have "zip domains (tokens[i := Some t]) = (zip domains tokens)[i := (domains ! i, Some t)]"
    using assms by (intro nth_equalityI) (auto simp: nth_list_update)
  with assms show ?thesis by (simp add: mset_update)
qed

lemma count_zip_update:
  assumes "length domains = length tokens" "i < length tokens" "tokens ! i = None"
  shows "count (mset (zip domains (tokens[i := Some t]))) (d, Some u)
    = count (mset (zip domains tokens)) (d, Some u) + of_bool (d = domains ! i \<and> u = t)"
  by (auto simp: zip_update_Suc [OF assms])

text \<open>
  One pass of the loop: whatever it returns, the tokens held afterwards are accounted for,
  every counter stays below the bound on the policies, and no token lies in the future.
\<close>

lemma acquire_loop_holds:
  assumes "acquire_loop policy now epoch domains i rest states tokens = (states', r)"
    and "circuits_hold states (mset (zip domains tokens) + held)" "in_flight_le b states"
    and "rest = drop i domains" "length tokens = length domains"
    and "\<And>j. i \<le> j \<Longrightarrow> j < length domains \<Longrightarrow> tokens ! j = None"
    and "\<And>t. Some t \<in> set tokens \<Longrightarrow> t \<le> now"
    and "half_open_max_requests policy \<le> b" "b \<le> u64_max"
  shows "in_flight_le b states' \<and>
    (case r of Inl e \<Rightarrow> circuits_hold states' held
     | Inr tokens' \<Rightarrow> circuits_hold states' (mset (zip domains tokens') + held)
         \<and> length tokens' = length domains \<and> (\<forall>t. Some t \<in> set tokens' \<longrightarrow> t \<le> now))"
  using assms
proof (induction rest arbitrary: i states tokens)
  case Nil
  then show ?case by auto
next
  case (Cons domain rest)
  let ?old = "case aget states domain of None \<Rightarrow> new_circuit_entry epoch now | Some e \<Rightarrow> e"
  let ?e = "(finish_recovery_if_elapsed ?old now)\<lparr>last_touched := now\<rparr>"
  let ?M = "mset (zip domains tokens) + held"
  from Cons.prems(4) have i: "i < length domains" and dom: "domain = domains ! i"
    and rest: "rest = drop (Suc i) domains"
    by (metis Cons_nth_drop_Suc drop_all list.distinct(1) not_le)
      (metis Cons.prems(4) Cons_nth_drop_Suc drop_all list.distinct(1) list.inject not_le)+
  have n: "half_open_in_flight ?old
      = (case open_until ?old of None \<Rightarrow> 0 | Some t \<Rightarrow> count ?M (domain, Some t))"
    using circuits_holdD [OF Cons.prems(2)]
    by (auto simp: new_circuit_entry_def split: option.split)
  have le: "half_open_in_flight ?old \<le> b"
    using Cons.prems(3) by (auto simp: new_circuit_entry_def in_flight_le_def split: option.split)
  have h': "circuits_hold (aput domain ?e states) ?M"
    using Cons.prems(2) by (rule circuits_hold_aput) (use n in simp_all)
  have b': "in_flight_le b (aput domain ?e states)"
    using Cons.prems(3) le by (simp add: in_flight_le_aput)
  show ?case
  proof (cases "open_until ?old")
    case None
    with Cons.prems(1)
    have "acquire_loop policy now epoch domains (Suc i) rest (aput domain ?e states) tokens
        = (states', r)"
      by (simp add: Let_def)
    from Cons.IH [OF this h' b' rest Cons.prems(5)] Cons.prems(6-9) show ?thesis by simp
  next
    case (Some until)
    show ?thesis
    proof (cases "until > now \<or> half_open_in_flight ?old \<ge> half_open_max_requests policy")
      case True
      with Cons.prems(1) Some
      have "states' = release_circuit_tokens now (zip domains tokens) (aput domain ?e states)"
        and "r = Inl CircuitOpen"
        by (simp_all add: Let_def)
      with release_tokens_hold [OF h'] release_tokens_le [OF b'] show ?thesis by simp
    next
      case False
      let ?e' = "?e\<lparr>half_open_in_flight := half_open_in_flight ?old + 1\<rparr>"
      let ?tokens = "tokens[i := Some until]"
      from False Cons.prems(8,9) have lt: "half_open_in_flight ?old + 1 \<le> b" by simp
      with Cons.prems(9) have "half_open_in_flight ?old + 1 \<le> u64_max" by simp
      with False Cons.prems(1) Some
      have loop: "acquire_loop policy now epoch domains (Suc i) rest (aput domain ?e' states) ?tokens
          = (states', r)"
        by (simp add: Let_def)
      have none: "tokens ! i = None" using Cons.prems(6) i by simp
      note cz = count_zip_update [OF Cons.prems(5) [symmetric], unfolded Cons.prems(5), OF i none]
      have "circuits_hold (aput domain ?e' states) (mset (zip domains ?tokens) + held)"
        using Cons.prems(2)
        by (rule circuits_hold_aput) (use n Some dom in \<open>simp_all add: cz\<close>)
      moreover have "in_flight_le b (aput domain ?e' states)"
        using Cons.prems(3) lt by (simp add: in_flight_le_aput)
      moreover have "?tokens ! j = None" if "Suc i \<le> j" "j < length domains" for j
        using Cons.prems(6) [of j] that by simp
      moreover have "t \<le> now" if "Some t \<in> set ?tokens" for t
        using that False Cons.prems(7) set_update_subset_insert [of tokens i "Some until"] by fastforce
      ultimately show ?thesis
        using Cons.IH [OF loop _ _ rest] Cons.prems(5,8,9) by simp
    qed
  qed
qed

lemma acquire_circuits_holds:
  assumes "acquire_circuits policy now epoch domains states = (states', r)"
    and "circuits_hold states held" "in_flight_le b states"
    and "half_open_max_requests policy \<le> b" "b \<le> u64_max"
  shows "in_flight_le b states' \<and>
    (case r of Inl e \<Rightarrow> circuits_hold states' held
     | Inr tokens \<Rightarrow> circuits_hold states' (mset (zip domains tokens) + held)
         \<and> (\<forall>t. Some t \<in> set tokens \<longrightarrow> t \<le> now))"
proof -
  let ?s = "circuits_evict now states"
  let ?none = "replicate (length domains) None"
  have h: "circuits_hold ?s held" using assms(2) by (rule circuits_evict_holds)
  have b: "in_flight_le b ?s"
    using assms(2,3) by (simp add: circuits_evict_le circuits_hold_def)
  have "count (mset (zip domains (replicate n None))) (d, Some t) = 0" for n d and t :: instant
    by (auto simp: count_eq_zero_iff dest: set_zip_rightD)
  then have h0: "circuits_hold ?s (mset (zip domains ?none) + held)"
    using h by (elim circuits_hold_other) simp
  show ?thesis
  proof (cases "list_ex (\<lambda>domain. aget ?s domain = None) domains
      \<and> length ?s + length domains > MAX_TRACKED_DOMAINS")
    case True
    with assms(1) have "states' = ?s" "r = Inl CircuitOpen"
      by (simp_all add: acquire_circuits_def Let_def)
    with h b show ?thesis by simp
  next
    case False
    with assms(1)
    have "acquire_loop policy now epoch domains 0 domains ?s ?none = (states', r)"
      by (simp only: acquire_circuits_def Let_def if_False)
    from acquire_loop_holds [OF this h0 b _ _ _ _ assms(4,5)] show ?thesis
      by (cases r) simp_all
  qed
qed

subsection \<open>Observing an outcome\<close>

lemma observe_entry_count:
  assumes "half_open_in_flight entry
      = (case open_until entry of None \<Rightarrow> 0 | Some t \<Rightarrow> f t + of_bool (token = Some t))"
    and "\<And>t. 0 < f t \<Longrightarrow> t \<le> now" and "\<And>n. 0 < circuit_cooldown policy n"
    and "e' = observe_entry policy success now epoch token entry"
  shows "half_open_in_flight e' = (case open_until e' of None \<Rightarrow> 0 | Some t \<Rightarrow> f t)"
proof -
  have opened: "f (now + circuit_cooldown policy n) = 0" for n
    using assms(2) [of "now + circuit_cooldown policy n"] assms(3) [of n]
    by (metis add_le_same_cancel1 gr0I leD)
  show ?thesis
  proof (cases token)
    case None
    then show ?thesis
      using assms(1,4) opened
      by (cases "open_until entry")
        (simp_all add: observe_entry_def Let_def observe_success_def observe_failure_def)
  next
    case (Some t)
    then show ?thesis
      using assms(1,4) opened
      by (cases "open_until entry = Some t")
        (auto simp: observe_entry_def Let_def observe_success_def observe_failure_def
          split: option.splits)
  qed
qed

lemma observe_entry_le:
  assumes "half_open_in_flight entry \<le> b"
  shows "half_open_in_flight (observe_entry policy success now epoch token entry) \<le> b"
  using assms le_trans [OF diff_le_self assms]
  by (simp add: observe_entry_def Let_def observe_success_def observe_failure_def)

lemma observe_circuits_hold:
  assumes "circuits_hold states (mset zs + held)"
    and "\<And>d t. (d, Some t) \<in># mset zs + held \<Longrightarrow> t \<le> now"
    and "\<And>n. 0 < circuit_cooldown policy n"
  shows "circuits_hold (observe_circuits policy success now epoch zs states) held"
  using assms
proof (induction zs arbitrary: states)
  case (Cons z zs)
  obtain d token where z: "z = (d, token)" by (cases z)
  let ?held = "mset zs + held"
  let ?states = "case aget states d of None \<Rightarrow> states
    | Some entry \<Rightarrow> aput d (observe_entry policy success now epoch token entry) states"
  from Cons.prems(1) z have h: "circuits_hold states (add_mset (d, token) ?held)" by simp
  have "circuits_hold ?states ?held"
  proof (cases "aget states d")
    case None
    with h have "circuits_hold states ?held"
      by (elim circuits_hold_other) (auto split: if_splits)
    with None show ?thesis by simp
  next
    case (Some entry)
    let ?e = "observe_entry policy success now epoch token entry"
    have "half_open_in_flight entry = (case open_until entry of None \<Rightarrow> 0
        | Some t \<Rightarrow> count ?held (d, Some t) + of_bool (token = Some t))"
      using circuits_holdD [OF h Some] by (auto split: option.split)
    moreover have "t \<le> now" if "0 < count ?held (d, Some t)" for t
      using that Cons.prems(2) [of d t] z by (simp only: count_greater_zero_iff) simp
    ultimately have "half_open_in_flight ?e = (case open_until ?e of None \<Rightarrow> 0
        | Some t \<Rightarrow> count ?held (d, Some t))"
      by (rule observe_entry_count [OF _ _ Cons.prems(3) refl])
    with h have "circuits_hold (aput d ?e states) ?held"
      by (elim circuits_hold_aput) auto
    with Some show ?thesis by simp
  qed
  moreover have "t \<le> now" if "(d', Some t) \<in># ?held" for d' t
    using Cons.prems(2) [of d' t] that by simp
  ultimately have "circuits_hold (observe_circuits policy success now epoch zs ?states) held"
    using Cons.prems(3) by (rule Cons.IH)
  with z show ?case by simp
qed simp

lemma observe_circuits_le:
  "in_flight_le b states \<Longrightarrow> in_flight_le b (observe_circuits policy success now epoch zs states)"
proof (induction zs arbitrary: states)
  case (Cons z zs)
  obtain d token where z: "z = (d, token)" by (cases z)
  have "in_flight_le b (case aget states d of None \<Rightarrow> states
    | Some entry \<Rightarrow> aput d (observe_entry policy success now epoch token entry) states)"
    using Cons.prems
    by (auto simp: in_flight_le_def aget_aput split: option.split intro: observe_entry_le)
  with Cons.IH z show ?case by simp
qed simp

lemma finish_recoveries_hold:
  assumes "circuits_hold states held" "in_flight_le b states"
  shows "circuits_hold (finish_recoveries now domains states) held
    \<and> in_flight_le b (finish_recoveries now domains states)"
  using assms
proof (induction domains arbitrary: states)
  case (Cons d ds)
  let ?states = "case aget states d of None \<Rightarrow> states
    | Some entry \<Rightarrow> aput d (finish_recovery_if_elapsed entry now) states"
  have "circuits_hold ?states held"
  proof (cases "aget states d")
    case (Some entry)
    with circuits_holdD [OF Cons.prems(1) Some] Cons.prems(1)
    have "circuits_hold (aput d (finish_recovery_if_elapsed entry now) states) held"
      by (elim circuits_hold_aput) auto
    with Some show ?thesis by simp
  qed (simp add: Cons.prems)
  moreover have "in_flight_le b ?states"
    using Cons.prems(2) by (auto simp: in_flight_le_def aget_aput split: option.split)
  ultimately show ?case using Cons.IH by simp
qed simp

subsection \<open>The whole protection state\<close>

lemma try_acquire_target_circuits:
  assumes "try_acquire_target candidate policy now epoch release_now self = (self', r)"
    and "circuits_hold (circuits self) held" "in_flight_le b (circuits self)"
    and "half_open_max_requests policy \<le> b" "b \<le> u64_max"
  shows "in_flight_le b (circuits self') \<and>
    (case r of Inl e \<Rightarrow> circuits_hold (circuits self') held
     | Inr p \<Rightarrow> circuits_hold (circuits self') (mset (permit_zip p) + held)
         \<and> permit_policy p = policy \<and> (\<forall>t. Some t \<in> set (permit_tokens p) \<longrightarrow> t \<le> now))"
proof -
  let ?d = "candidate_circuit_domains candidate"
  obtain states acquired where
    a: "acquire_circuits policy now epoch ?d (circuits self) = (states, acquired)"
    by (cases "acquire_circuits policy now epoch ?d (circuits self)")
  note acq = acquire_circuits_holds [OF a assms(2-5)]
  show ?thesis
  proof (cases acquired)
    case (Inl e)
    with assms(1) a acq show ?thesis by (auto simp: try_acquire_target_def Let_def)
  next
    case (Inr tokens)
    with acq have h: "circuits_hold states (mset (zip ?d tokens) + held)"
      and b: "in_flight_le b states" and t: "\<forall>t. Some t \<in> set tokens \<longrightarrow> t \<le> now"
      by simp_all
    from assms(1) a Inr show ?thesis
      using h b t release_tokens_hold [OF h, of release_now]
        release_tokens_le [OF b, of release_now "zip ?d tokens"]
      by (auto simp: try_acquire_target_def Let_def permit_zip_def split: prod.splits sum.splits)
  qed
qed

definition capacity_ids :: "Candidate \<Rightarrow> uuid \<times> uuid \<times> uuid" where
  "capacity_ids candidate =
     (let d = cand_deployment candidate in (dep_endpoint_id d, dep_credential_id d, dep_id d))"

text \<open>The three capacity domains together, holding the permits of a multiset of identities.\<close>

definition capacities_hold :: "TargetProtectionState \<Rightarrow> (uuid \<times> uuid \<times> uuid) multiset \<Rightarrow> bool" where
  "capacities_hold self held \<longleftrightarrow>
     capacity_holds (cap_endpoint self) (image_mset fst held)
     \<and> capacity_holds (cap_credential self) (image_mset (fst \<circ> snd) held)
     \<and> capacity_holds (cap_deployment self) (image_mset (snd \<circ> snd) held)"

lemma try_acquire_target_capacity:
  assumes "try_acquire_target candidate policy now epoch release_now self = (self', r)"
    and "capacities_hold self held"
  shows "case r of Inl e \<Rightarrow> capacities_hold self' held
    | Inr p \<Rightarrow> permit_capacity p = capacity_ids candidate
        \<and> capacities_hold self' (add_mset (capacity_ids candidate) held)"
proof -
  let ?D = "cand_deployment candidate"
  obtain states acquired where
    a: "acquire_circuits policy now epoch (candidate_circuit_domains candidate) (circuits self)
      = (states, acquired)"
    by (cases "acquire_circuits policy now epoch (candidate_circuit_domains candidate) (circuits self)")
  obtain s1 r1 where e1: "CapacityDomain_try_acquire (cap_endpoint self) (dep_endpoint_id ?D) = (s1, r1)"
    by fastforce
  obtain s2 r2 where
    e2: "CapacityDomain_try_acquire (cap_credential self) (dep_credential_id ?D) = (s2, r2)"
    by fastforce
  obtain s3 r3 where e3: "CapacityDomain_try_acquire (cap_deployment self) (dep_id ?D) = (s3, r3)"
    by fastforce
  from assms(2) have h1: "capacity_holds (cap_endpoint self) (image_mset fst held)"
    and h2: "capacity_holds (cap_credential self) (image_mset (fst \<circ> snd) held)"
    and h3: "capacity_holds (cap_deployment self) (image_mset (snd \<circ> snd) held)"
    by (simp_all add: capacities_hold_def)
  note c = capacity.acquire_cases [OF h1, of "dep_endpoint_id ?D", unfolded e1]
    capacity.acquire_cases [OF h2, of "dep_credential_id ?D", unfolded e2]
    capacity.acquire_cases [OF h3, of "dep_id ?D", unfolded e3]
  note d = capacity.acquire_dropped [OF h1, of "dep_endpoint_id ?D", unfolded e1]
    capacity.acquire_dropped [OF h2, of "dep_credential_id ?D", unfolded e2]
    capacity.acquire_dropped [OF h3, of "dep_id ?D", unfolded e3]
  show ?thesis
  proof (cases acquired)
    case (Inl e)
    with assms a show ?thesis by (auto simp: try_acquire_target_def Let_def capacities_hold_def)
  next
    case (Inr tokens)
    show ?thesis
    proof (cases "result_bind r1 (\<lambda>_. result_bind r2 (\<lambda>_. r3))")
      case (Inl e)
      with assms(1) a Inr e1 e2 e3 d show ?thesis
        by (auto simp: try_acquire_target_def Let_def capacities_hold_def)
    next
      case (Inr u)
      then have "\<not> isl r1" "\<not> isl r2" "\<not> isl r3"
        by (auto simp: result_bind_def split: sum.splits)
      with assms(1) a \<open>acquired = Inr tokens\<close> Inr e1 e2 e3 c show ?thesis
        by (auto simp: try_acquire_target_def Let_def capacities_hold_def capacity_ids_def)
    qed
  qed
qed

lemma release_capacity_holds:
  "capacities_hold self (add_mset ids held) \<Longrightarrow> capacities_hold (release_capacity ids self) held"
  by (auto simp: capacities_hold_def release_capacity_def intro: capacity.release_held)

lemma capacities_hold_circuits [simp]:
  "capacities_hold (self\<lparr>circuits := c\<rparr>) held = capacities_hold self held"
  by (simp add: capacities_hold_def)

lemma circuits_release_capacity [simp]: "circuits (release_capacity ids self) = circuits self"
  by (simp add: release_capacity_def)

text \<open>
  A step takes the protection state, the latest instant read so far and the permits that
  are alive to their successors.  \<open>P\<close> is the set of the circuit policies in use.
\<close>

type_synonym protection_run = "TargetProtectionState \<times> instant \<times> TargetAttemptPermit multiset"

inductive protection_step :: "CircuitPolicySnapshot set \<Rightarrow> protection_run \<Rightarrow> protection_run \<Rightarrow> bool"
  for P :: "CircuitPolicySnapshot set" where
  acquired: "protection_step P (s, clk, live) (s', release_now, add_mset p live)"
    if "clk \<le> now" "now \<le> release_now" "policy \<in> P"
      "try_acquire_target candidate policy now epoch release_now s = (s', Inr p)"
| refused: "protection_step P (s, clk, live) (s', release_now, live)"
    if "clk \<le> now" "now \<le> release_now" "policy \<in> P"
      "try_acquire_target candidate policy now epoch release_now s = (s', Inl e)"
| succeeded: "protection_step P (s, clk, add_mset p live) (permit_success now p s, now, live)"
    if "clk \<le> now"
| failed: "protection_step P (s, clk, add_mset p live) (permit_failure now epoch p s, now, live)"
    if "clk \<le> now"
| dropped: "protection_step P (s, clk, add_mset p live) (permit_drop now p s, now, live)"
    if "clk \<le> now"
| inspected: "protection_step P (s, clk, live) (fst (local_health now candidate s), now, live)"
    if "clk \<le> now"

definition held_tokens :: "TargetAttemptPermit multiset \<Rightarrow> (CircuitDomain \<times> instant option) multiset" where
  "held_tokens live = (\<Sum>p \<in># live. mset (permit_zip p))"

lemma held_tokens_simps [simp]:
  "held_tokens {#} = {#}" "held_tokens (add_mset p live) = mset (permit_zip p) + held_tokens live"
  by (simp_all add: held_tokens_def)

definition policies_ok :: "nat \<Rightarrow> CircuitPolicySnapshot set \<Rightarrow> bool" where
  "policies_ok b P \<longleftrightarrow> b \<le> u64_max
     \<and> (\<forall>policy \<in> P. circuit_policy_ok policy \<and> half_open_max_requests policy \<le> b)"

definition protection_inv :: "nat \<Rightarrow> CircuitPolicySnapshot set \<Rightarrow> protection_run \<Rightarrow> bool" where
  "protection_inv b P run \<longleftrightarrow> (case run of (s, clk, live) \<Rightarrow>
     circuits_hold (circuits s) (held_tokens live) \<and> in_flight_le b (circuits s)
     \<and> capacities_hold s (image_mset permit_capacity live)
     \<and> (\<forall>p \<in># live. permit_policy p \<in> P \<and> (\<forall>t. Some t \<in> set (permit_tokens p) \<longrightarrow> t \<le> clk)))"

lemma circuit_cooldown_pos: "circuit_policy_ok policy \<Longrightarrow> 0 < circuit_cooldown policy n"
  by (simp add: circuit_cooldown_def circuit_cooldown_ms_def duration_from_millis_def
      saturating_mul_def circuit_policy_ok_def u128_max_def)

lemma held_tokens_times:
  assumes "\<And>p. p \<in># live \<Longrightarrow> (\<forall>t. Some t \<in> set (permit_tokens p) \<longrightarrow> t \<le> clk)"
    and "(d, Some t) \<in># held_tokens live"
  shows "t \<le> clk"
  using assms by (auto simp: held_tokens_def permit_zip_def dest: set_zip_rightD)

lemma observe_holds:
  assumes "protection_inv b P (s, clk, add_mset p live)" "policies_ok b P" "clk \<le> now"
    and c: "c = observe_circuits (permit_policy p) success now epoch (permit_zip p) (circuits s)"
  shows "circuits_hold c (held_tokens live) \<and> in_flight_le b c"
proof -
  from assms have h: "circuits_hold (circuits s) (mset (permit_zip p) + held_tokens live)"
    and le: "in_flight_le b (circuits s)" and "permit_policy p \<in> P"
    and times: "\<And>q. q \<in># add_mset p live \<Longrightarrow> (\<forall>t. Some t \<in> set (permit_tokens q) \<longrightarrow> t \<le> clk)"
    by (auto simp: protection_inv_def)
  with assms(2) have "circuit_policy_ok (permit_policy p)" by (simp add: policies_ok_def)
  moreover have "t \<le> now" if "(d, Some t) \<in># mset (permit_zip p) + held_tokens live" for d t
    using held_tokens_times [of "add_mset p live" clk d t] times that assms(3) by force
  ultimately show ?thesis
    unfolding c using observe_circuits_hold [OF h] observe_circuits_le [OF le]
    by (blast intro: circuit_cooldown_pos)
qed

lemma protection_inv_later:
  "protection_inv b P (s, clk, live) \<Longrightarrow> clk \<le> clk' \<Longrightarrow> protection_inv b P (s, clk', live)"
  by (fastforce simp: protection_inv_def)

lemma permit_done_inv:
  assumes "protection_inv b P (s, clk, add_mset p live)" "clk \<le> now"
    and "circuits_hold c (held_tokens live)" "in_flight_le b c"
  shows "protection_inv b P (release_capacity (permit_capacity p) (s\<lparr>circuits := c\<rparr>), now, live)"
  using assms by (fastforce simp: protection_inv_def intro: release_capacity_holds)

lemma protection_step_inv:
  assumes "protection_step P run run'" "protection_inv b P run" "policies_ok b P"
  shows "protection_inv b P run'"
  using assms
proof (induction rule: protection_step.induct)
  case (acquired clk now release_now policy candidate epoch s s' p live)
  then have pol: "half_open_max_requests policy \<le> b" "b \<le> u64_max"
    by (auto simp: policies_ok_def)
  from acquired(5) have h: "circuits_hold (circuits s) (held_tokens live)"
    "in_flight_le b (circuits s)" "capacities_hold s (image_mset permit_capacity live)"
    by (auto simp: protection_inv_def)
  from try_acquire_target_circuits [OF acquired(4) h(1,2) pol]
    try_acquire_target_capacity [OF acquired(4) h(3)] acquired
  show ?case by (fastforce simp: protection_inv_def)
next
  case (refused clk now release_now policy candidate epoch s s' e live)
  then have pol: "half_open_max_requests policy \<le> b" "b \<le> u64_max"
    by (auto simp: policies_ok_def)
  from refused(5) have h: "circuits_hold (circuits s) (held_tokens live)"
    "in_flight_le b (circuits s)" "capacities_hold s (image_mset permit_capacity live)"
    by (auto simp: protection_inv_def)
  from try_acquire_target_circuits [OF refused(4) h(1,2) pol]
    try_acquire_target_capacity [OF refused(4) h(3)] refused
  show ?case by (fastforce simp: protection_inv_def)
next
  case (succeeded clk now s p live)
  then show ?case
    using observe_holds [OF succeeded(2,3,1) refl]
    by (auto simp: permit_success_def intro: permit_done_inv)
next
  case (failed clk now s p live epoch)
  then show ?case
    using observe_holds [OF failed(2,3,1) refl]
    by (auto simp: permit_failure_def intro: permit_done_inv)
next
  case (dropped clk now s p live)
  then have "circuits_hold (circuits s) (mset (permit_zip p) + held_tokens live)"
    "in_flight_le b (circuits s)"
    by (auto simp: protection_inv_def)
  with dropped show ?case
    by (auto simp: permit_drop_def intro!: permit_done_inv release_tokens_hold release_tokens_le)
next
  case (inspected clk now s live candidate)
  then have "circuits_hold (circuits s) (held_tokens live)" "in_flight_le b (circuits s)"
    by (auto simp: protection_inv_def)
  from finish_recoveries_hold [OF this]
  have "protection_inv b P (fst (local_health now candidate s), clk, live)"
    using inspected(2) by (simp add: protection_inv_def local_health_def Let_def)
  then show ?case using inspected(1) by (rule protection_inv_later)
qed

lemma protection_new_inv: "protection_inv b P (TargetProtectionState_new g e c d, clk, {#})"
  by (simp add: protection_inv_def TargetProtectionState_new_def circuits_hold_def in_flight_le_def
      capacities_hold_def capacity_holds_def capacity_in_use_def)

lemma protection_reachable_inv:
  assumes "(protection_step P)\<^sup>*\<^sup>* (TargetProtectionState_new g e c d, clk0, {#}) run"
    and "policies_ok b P"
  shows "protection_inv b P run"
  using assms(1)
  by (induction rule: rtranclp_induct)
    (auto intro: protection_new_inv protection_step_inv assms(2))

subsection \<open>Admission and opening\<close>

definition circuit_admits :: "CircuitPolicySnapshot \<Rightarrow> instant \<Rightarrow> CircuitEntry option \<Rightarrow> bool" where
  "circuit_admits policy now entry \<longleftrightarrow>
     (case Option.bind entry open_until of
        None \<Rightarrow> True
      | Some until \<Rightarrow> until \<le> now
          \<and> (case entry of None \<Rightarrow> True
             | Some e \<Rightarrow> half_open_in_flight e < half_open_max_requests policy))"

lemma acquire_loop_admits:
  assumes "distinct rest"
  shows "isl (snd (acquire_loop policy now epoch domains i rest states tokens))
    \<longleftrightarrow> (\<exists>d \<in> set rest. \<not> circuit_admits policy now (aget states d))"
  using assms
proof (induction rest arbitrary: i states tokens)
  case (Cons d rest)
  have other: "aget (aput d e states) d' = aget states d'" if "d' \<in> set rest" for d' e
    by (rule aget_aput_other) (use that Cons.prems in auto)
  from Cons.prems have "distinct rest" by simp
  note IH = Cons.IH [OF this]
  show ?case
  proof (cases "aget states d")
    case None
    then show ?thesis
      by (auto simp: Let_def new_circuit_entry_def IH other circuit_admits_def cong: bex_cong)
  next
    case (Some e)
    then show ?thesis
      by (cases "open_until e")
        (auto simp: Let_def IH other circuit_admits_def not_less not_le cong: bex_cong)
  qed
qed simp

lemma distinct_circuit_domains: "distinct (candidate_circuit_domains candidate)"
  by (simp add: candidate_circuit_domains_def Let_def)

lemma length_circuit_domains [simp]: "length (candidate_circuit_domains candidate) = 3"
  by (simp add: candidate_circuit_domains_def Let_def)

lemma acquire_circuits_admits:
  assumes "length states + 3 \<le> MAX_TRACKED_DOMAINS"
  shows "isl (snd (acquire_circuits policy now epoch (candidate_circuit_domains candidate) states))
    \<longleftrightarrow> (\<exists>d \<in> set (candidate_circuit_domains candidate). \<not> circuit_admits policy now (aget states d))"
proof -
  from assms have "circuits_evict now states = states" by (simp add: circuits_evict_def)
  with assms show ?thesis
    by (simp add: acquire_circuits_def Let_def acquire_loop_admits distinct_circuit_domains)
qed

text \<open>A run of failures observed at the given instants, without a token, on one circuit.\<close>

fun observe_failures :: "CircuitPolicySnapshot \<Rightarrow> uuid \<Rightarrow> instant list \<Rightarrow> CircuitEntry \<Rightarrow> CircuitEntry" where
  "observe_failures policy epoch [] entry = entry"
| "observe_failures policy epoch (now # nows) entry =
     observe_failures policy epoch nows (observe_entry policy False now epoch None entry)"

lemma observe_failures_append:
  "observe_failures policy epoch (xs @ ys) e
    = observe_failures policy epoch ys (observe_failures policy epoch xs e)"
  by (induction xs arbitrary: e) auto

lemma observe_failures_below:
  assumes "open_until e = None" "recovery_until e = None"
    and "consecutive_failures e + length nows < failure_threshold policy"
    and "failure_threshold policy \<le> u64_max"
  shows "let e' = observe_failures policy epoch nows e in
    open_until e' = None \<and> recovery_until e' = None \<and> reopen_count e' = reopen_count e
    \<and> consecutive_failures e' = consecutive_failures e + length nows"
  using assms
proof (induction nows arbitrary: e)
  case (Cons now nows)
  let ?e = "observe_entry policy False now epoch None e"
  have "consecutive_failures e + 1 \<le> u64_max" using Cons.prems by simp
  then have "open_until ?e = None" "recovery_until ?e = None" "reopen_count ?e = reopen_count e"
    "consecutive_failures ?e = consecutive_failures e + 1"
    using Cons.prems
    by (simp_all add: observe_entry_def Let_def observe_failure_def finish_recovery_if_elapsed_def)
  with Cons.IH [of ?e] Cons.prems show ?case by (simp add: Let_def)
qed simp

subsection \<open>A concrete run\<close>

text \<open>
  One candidate, a circuit policy that opens on the first failure, and the states of a run
  that fails once, waits for the cooldown and probes the half-open circuits.
\<close>

definition sample_deployment :: DeploymentSnapshot where
  "sample_deployment =
     \<lparr>dep_id = 3, dep_scope = ScopeDeployment, dep_organization_id = None, dep_endpoint_id = 1,
      dep_endpoint_adapter = AdapterOpenaiApi, dep_endpoint_config_version = 1,
      dep_credential_id = 2, dep_credential_state_identity_version = 1,
      dep_credential_secret_version_id = 4, dep_credential_secret_version = 1,
      dep_credential_kind = StaticApiKey, dep_transport_kind = TransportOpenaiResponsesHttp,
      upstream_model_id = ''m'', dep_capabilities = {}, context_limits = JNull,
      state_isolation_profile = JNull, pricing_policy_version_id = None, dep_pricing = None,
      dep_config_version = 1, dep_origin = SystemProvided, operational = True\<rparr>"

definition sample_target :: TargetSnapshot where
  "sample_target =
     \<lparr>target_id = 5, target_deployment_id = 3, affinity_identity = [], priority = 0, weight = 1,
      narrowing_constraints = \<lparr>narrow_max_output_units = None, narrow_max_context_units = None\<rparr>,
      timeout_overrides = \<lparr>connect_timeout_override_ms = None,
        response_header_timeout_override_ms = None, body_timeout_override_ms = None,
        stream_idle_timeout_override_ms = None\<rparr>\<rparr>"

definition sample_candidate :: Candidate where
  "sample_candidate = \<lparr>cand_target = sample_target, cand_deployment = sample_deployment,
     client_build_fingerprint = []\<rparr>"

definition sample_circuit_policy :: CircuitPolicySnapshot where
  "sample_circuit_policy = \<lparr>failure_threshold = 1, success_threshold = 1, open_duration_ms = 100,
     max_open_duration_ms = 200, half_open_max_requests = 1, recovery_duration_ms = 100\<rparr>"

definition sample_permit :: "instant option \<Rightarrow> TargetAttemptPermit" where
  "sample_permit token =
     \<lparr>permit_domains = candidate_circuit_domains sample_candidate,
      permit_tokens = replicate 3 token, permit_policy = sample_circuit_policy,
      permit_capacity = (1, 2, 3)\<rparr>"

definition sample_acquired :: TargetProtectionState where
  "sample_acquired = fst (try_acquire_target sample_candidate sample_circuit_policy 0 7 0
     (TargetProtectionState_new 4 4 4 4))"

definition sample_failed :: TargetProtectionState where
  "sample_failed = permit_failure 0 8 (sample_permit None) sample_acquired"

definition sample_probing :: TargetProtectionState where
  "sample_probing = fst (try_acquire_target sample_candidate sample_circuit_policy 200000000 9
     200000000 sample_failed)"

definition sample_entry :: CircuitEntry where
  "sample_entry = \<lparr>consecutive_failures = 0, consecutive_successes = 0,
     open_until = Some 100000000, half_open_in_flight = 1, recovery_started_at = None,
     recovery_until = None, reopen_count = 1, health_epoch = 8, last_touched = 200000000\<rparr>"

lemmas sample_defs = sample_candidate_def sample_target_def sample_deployment_def
  sample_circuit_policy_def sample_permit_def candidate_circuit_domains_def

lemmas protection_eval = TargetProtectionState_new_def try_acquire_target_def
  acquire_circuits_def circuits_evict_def MAX_TRACKED_DOMAINS_def new_circuit_entry_def
  finish_recovery_if_elapsed_def CapacityDomain_try_acquire_def capacity_evict_def
  CapacityDomain_release_def release_capacity_def permit_failure_def permit_zip_def
  observe_entry_def observe_failure_def circuit_cooldown_def circuit_cooldown_ms_def
  duration_from_millis_def saturating_add_def saturating_mul_def u64_max_def u32_max_def
  u128_max_def Let_def

lemma sample_first: "try_acquire_target sample_candidate sample_circuit_policy 0 7 0
    (TargetProtectionState_new 4 4 4 4) = (sample_acquired, Inr (sample_permit None))"
  by (simp add: sample_acquired_def sample_defs protection_eval numeral_3_eq_3)

lemma sample_second: "try_acquire_target sample_candidate sample_circuit_policy 200000000 9
    200000000 sample_failed = (sample_probing, Inr (sample_permit (Some 100000000)))"
  by (simp add: sample_probing_def sample_failed_def sample_acquired_def sample_defs
      protection_eval numeral_3_eq_3)

lemma sample_open: "aget (circuits sample_probing) (DomainEndpoint 1 []) = Some sample_entry"
  by (simp add: sample_entry_def sample_probing_def sample_failed_def sample_acquired_def
      sample_defs protection_eval numeral_3_eq_3)

lemma sample_policies: "policies_ok 1 {sample_circuit_policy}"
  by (simp add: policies_ok_def circuit_policy_ok_def sample_circuit_policy_def u64_max_def)

lemma sample_reachable:
  "(protection_step {sample_circuit_policy})\<^sup>*\<^sup>* (TargetProtectionState_new 4 4 4 4, 0, {#})
     (sample_probing, 200000000, {#sample_permit (Some 100000000)#})"
proof -
  let ?R = "protection_step {sample_circuit_policy}"
  have "?R (TargetProtectionState_new 4 4 4 4, 0, {#}) (sample_acquired, 0, {#sample_permit None#})"
    by (rule protection_step.acquired [OF _ _ _ sample_first]) simp_all
  moreover have "?R (sample_acquired, 0, {#sample_permit None#}) (sample_failed, 0, {#})"
    unfolding sample_failed_def by (rule protection_step.failed) simp
  moreover have "?R (sample_failed, 0, {#})
      (sample_probing, 200000000, {#sample_permit (Some 100000000)#})"
    by (rule protection_step.acquired [OF _ _ _ sample_second]) simp_all
  ultimately show ?thesis by (meson rtranclp.rtrancl_into_rtrancl rtranclp.rtrancl_refl)
qed

subsection \<open>Properties\<close>

text \<open>
  C16: in every state the gateway reaches, whatever permits were
  acquired, observed or dropped and in whatever order, the in-flight count of each circuit
  is exactly the number of live permits holding a token of its current opening, and it
  never exceeds the half-open limit of the policies in use.
\<close>

theorem half_open_accounting:
  assumes "policies_ok b P"
    and "(protection_step P)\<^sup>*\<^sup>* (TargetProtectionState_new g e c d, clk0, {#}) (s, clk, live)"
    and "aget (circuits s) domain = Some entry"
  shows "half_open_in_flight entry \<le> b
    \<and> half_open_in_flight entry =
      (case open_until entry of None \<Rightarrow> 0 | Some t \<Rightarrow> count (held_tokens live) (domain, Some t))"
  using protection_reachable_inv [OF assms(2,1)] assms(3)
  by (auto simp: protection_inv_def in_flight_le_def circuits_hold_def)

lemma half_open_accounting_witness:
  "half_open_in_flight sample_entry \<le> 1
    \<and> half_open_in_flight sample_entry
      = count (held_tokens {#sample_permit (Some 100000000)#}) (DomainEndpoint 1 [], Some 100000000)"
  using half_open_accounting [OF sample_policies sample_reachable sample_open]
  by (simp add: sample_entry_def)

lemma try_acquire_target_limits:
  assumes "try_acquire_target candidate policy now epoch release_now self = (self', r)"
  shows "cap_limit (cap_endpoint self') = cap_limit (cap_endpoint self)
    \<and> cap_limit (cap_credential self') = cap_limit (cap_credential self)
    \<and> cap_limit (cap_deployment self') = cap_limit (cap_deployment self)"
proof -
  have a: "cap_limit (fst (CapacityDomain_try_acquire x k)) = cap_limit x" for x k
    by (simp add: CapacityDomain_try_acquire_def Let_def)
  have a': "CapacityDomain_try_acquire x k = (y, r) \<Longrightarrow> cap_limit y = cap_limit x" for x k y r
    using a [of x k] by simp
  have d: "cap_limit (CapacityDomain_release k x) = cap_limit x" for x k
    by (simp add: CapacityDomain_release_def split: option.split)
  from assms show ?thesis
    by (auto simp: try_acquire_target_def Let_def d dest!: a' split: prod.splits sum.splits if_splits)
qed

lemma protection_step_limits:
  assumes "protection_step P run run'"
  shows "cap_limit (cap_endpoint (fst run')) = cap_limit (cap_endpoint (fst run))
    \<and> cap_limit (cap_credential (fst run')) = cap_limit (cap_credential (fst run))
    \<and> cap_limit (cap_deployment (fst run')) = cap_limit (cap_deployment (fst run))"
  using assms
  by (induction rule: protection_step.induct)
    (auto dest!: try_acquire_target_limits
      simp: permit_success_def permit_failure_def permit_drop_def release_capacity_def
        CapacityDomain_release_def local_health_def Let_def split: option.split)

lemma protection_reachable_limits:
  assumes "(protection_step P)\<^sup>*\<^sup>* (TargetProtectionState_new g e c d, clk0, {#}) run"
  shows "cap_limit (cap_endpoint (fst run)) = e \<and> cap_limit (cap_credential (fst run)) = c
    \<and> cap_limit (cap_deployment (fst run)) = d"
  using assms
  by (induction rule: rtranclp_induct)
    (auto simp: TargetProtectionState_new_def dest!: protection_step_limits)

text \<open>
  C17: in every reachable state the capacity in use for an endpoint, a
  credential or a deployment is the number of live permits for it, never above the
  configured limit; permits taken by a failing acquisition are back.
\<close>

theorem capacity_accounting:
  assumes "policies_ok b P"
    and "(protection_step P)\<^sup>*\<^sup>* (TargetProtectionState_new g e c d, clk0, {#}) (s, clk, live)"
  shows "capacity_in_use (cap_endpoint s) k = count (image_mset (fst \<circ> permit_capacity) live) k
    \<and> capacity_in_use (cap_endpoint s) k \<le> e
    \<and> capacity_in_use (cap_credential s) k
        = count (image_mset (fst \<circ> snd \<circ> permit_capacity) live) k
    \<and> capacity_in_use (cap_credential s) k \<le> c
    \<and> capacity_in_use (cap_deployment s) k
        = count (image_mset (snd \<circ> snd \<circ> permit_capacity) live) k
    \<and> capacity_in_use (cap_deployment s) k \<le> d"
  using protection_reachable_inv [OF assms(2,1)] protection_reachable_limits [OF assms(2)]
  by (simp add: protection_inv_def capacities_hold_def capacity_holds_def
      multiset.map_comp comp_assoc)

lemma capacity_accounting_witness: "capacity_in_use (cap_credential sample_probing) 2 = 1"
  using capacity_accounting [OF sample_policies sample_reachable, of 2]
  by (simp add: sample_permit_def)

text \<open>
  while the gateway tracks fewer circuits than its limit, the
  circuits of a candidate admit an attempt exactly when each of its three domains is
  closed, or past its cooldown with a half-open slot free.
\<close>

theorem circuit_admission_iff:
  assumes "length states + 3 \<le> MAX_TRACKED_DOMAINS"
  shows "(\<exists>states' tokens. acquire_circuits policy now epoch
            (candidate_circuit_domains candidate) states = (states', Inr tokens))
    \<longleftrightarrow> (\<forall>domain \<in> set (candidate_circuit_domains candidate).
          circuit_admits policy now (aget states domain))"
proof -
  have "(\<exists>s' t. x = (s', Inr t)) \<longleftrightarrow> \<not> isl (snd x)"
    for x :: "CircuitStates \<times> (TargetProtectionError + instant option list)"
    by (cases x; cases "snd x") auto
  then show ?thesis by (simp add: acquire_circuits_admits [OF assms])
qed

lemma circuit_admission_iff_witness:
  "\<nexists>states' tokens. acquire_circuits sample_circuit_policy 200000000 0
      (candidate_circuit_domains sample_candidate) (circuits sample_probing) = (states', Inr tokens)"
proof -
  have "length (circuits sample_probing) + 3 \<le> MAX_TRACKED_DOMAINS"
    by (simp add: sample_probing_def sample_failed_def sample_acquired_def
        sample_defs protection_eval numeral_3_eq_3)
  moreover have "DomainEndpoint 1 [] \<in> set (candidate_circuit_domains sample_candidate)"
    by (simp add: sample_defs)
  moreover have "\<not> circuit_admits sample_circuit_policy 200000000 (Some sample_entry)"
    by (simp add: circuit_admits_def sample_entry_def sample_circuit_policy_def)
  ultimately show ?thesis
    using circuit_admission_iff [of "circuits sample_probing" sample_circuit_policy 200000000 0
        sample_candidate] sample_open by metis
qed

text \<open>
  the cooldown of a valid policy starts at its open duration,
  doubles with every reopening, never decreases, and never exceeds the maximum open
  duration, so the conversion to 64 bits cannot fail.
\<close>

theorem circuit_cooldown_bounds:
  assumes "circuit_policy_ok policy" "m \<le> n"
  shows "open_duration_ms policy \<le> circuit_cooldown_ms policy m
    \<and> circuit_cooldown_ms policy m \<le> circuit_cooldown_ms policy n
    \<and> circuit_cooldown_ms policy n \<le> max_open_duration_ms policy
    \<and> circuit_cooldown_ms policy n \<le> u64_max
    \<and> circuit_cooldown_ms policy n
        = min (open_duration_ms policy * 2 ^ min n 63) (max_open_duration_ms policy)"
proof -
  let ?o = "open_duration_ms policy" and ?m = "max_open_duration_ms policy"
  from assms have m: "?m \<le> u64_max" "?m \<le> u128_max" "?o \<le> ?m"
    by (simp_all add: circuit_policy_ok_def u64_max_def u128_max_def)
  have ex: "circuit_cooldown_ms policy k = min (?o * 2 ^ min k 63) ?m" for k
    using m(2) by (simp add: circuit_cooldown_ms_def saturating_mul_def)
  have "?o * 2 ^ min m 63 \<le> ?o * 2 ^ min n 63"
    using assms(2) by (intro mult_le_mono2 power_increasing) auto
  moreover have "?o * 1 \<le> ?o * 2 ^ min m 63" by (rule mult_le_mono2) simp
  ultimately show ?thesis using m unfolding ex by (simp add: min_le_iff_disj)
qed

lemma circuit_cooldown_bounds_witness:
  "circuit_cooldown_ms sample_circuit_policy 0 = 100 \<and> circuit_cooldown_ms sample_circuit_policy 5 = 200"
  using circuit_cooldown_bounds [of sample_circuit_policy 0 0]
    circuit_cooldown_bounds [of sample_circuit_policy 0 5]
  by (simp add: circuit_policy_ok_def sample_circuit_policy_def)

text \<open>
  a fresh circuit stays closed through fewer consecutive
  failures than the policy's threshold, and the failure that reaches the threshold opens
  it for the initial cooldown, counted from the instant of that failure.
\<close>

theorem circuit_opens_at_threshold:
  assumes "circuit_policy_ok policy" "failure_threshold policy \<le> u64_max"
  shows "(length nows < failure_threshold policy \<longrightarrow>
      open_until (observe_failures policy epoch nows (new_circuit_entry epoch0 t0)) = None)
    \<and> (length nows + 1 = failure_threshold policy \<longrightarrow>
      open_until (observe_failures policy epoch (nows @ [now]) (new_circuit_entry epoch0 t0))
        = Some (now + duration_from_millis (open_duration_ms policy)))"
proof -
  let ?old = "new_circuit_entry epoch0 t0"
  let ?e = "observe_failures policy epoch nows ?old"
  have start: "open_until ?old = None" "recovery_until ?old = None" "consecutive_failures ?old = 0"
    "reopen_count ?old = 0"
    by (simp_all add: new_circuit_entry_def)
  have below: "open_until ?e = None \<and> recovery_until ?e = None \<and> reopen_count ?e = 0
      \<and> consecutive_failures ?e = length nows" if "length nows < failure_threshold policy"
    using observe_failures_below [of ?old nows policy epoch] that assms(2) start by (simp add: Let_def)
  have "circuit_cooldown policy 0 = duration_from_millis (open_duration_ms policy)"
    using assms(1)
    by (simp add: circuit_cooldown_def circuit_cooldown_ms_def saturating_mul_def
        circuit_policy_ok_def u128_max_def min_absorb1)
  moreover have "open_until (observe_entry policy False now epoch None ?e)
      = Some (now + circuit_cooldown policy 0)" if "length nows + 1 = failure_threshold policy"
    using below that assms(2)
    by (simp add: observe_entry_def Let_def observe_failure_def finish_recovery_if_elapsed_def)
  ultimately show ?thesis using below by (simp add: observe_failures_append)
qed

lemma circuit_opens_at_threshold_witness:
  "open_until (observe_failures sample_circuit_policy 8 [40] (new_circuit_entry 7 0))
    = Some 100000040"
  using circuit_opens_at_threshold [of sample_circuit_policy "[]" 8 7 0 40]
  by (simp add: circuit_policy_ok_def sample_circuit_policy_def u64_max_def duration_from_millis_def)

end
