(* ===== verification/Decimal.thy ===== *)
theory Decimal
  imports Prelude
begin

section \<open>Decimal strings\<close>

text \<open>
  The Lua functions \<open>norm\<close>, \<open>cmp\<close>, \<open>add\<close> and \<open>sub\<close> of
  \<open>DECIMAL_FUNCTIONS\<close> in \<open>crates/owlrora-server/src/adapters/coordinator.rs\<close>:
  the arithmetic the coordinator's scripts do on 128-bit amounts, digit by digit on decimal
  strings because Lua's numbers are doubles.  A loop over string indices from the last
  to the first is a recursion over the reversed string; \<open>string.byte\<close> minus 48 is
  an integer, so that a character that is no digit would not be cut off at zero.
\<close>

definition digit_of :: "char \<Rightarrow> int" where
  "digit_of c = of_char c - 48"

definition digit_char :: "int \<Rightarrow> char" where
  "digit_char n = char_of (nat (n + 48))"

definition dec_norm :: "string \<Rightarrow> string" where
  "dec_norm value =
     (let value = dropWhile (\<lambda>c. c = CHR ''0'') value in if value = [] then ''0'' else value)"

text \<open>Lua compares strings byte by byte.\<close>

fun string_less :: "string \<Rightarrow> string \<Rightarrow> bool" where
  "string_less _ [] = False"
| "string_less [] (_ # _) = True"
| "string_less (c # cs) (d # ds) =
     ((of_char c :: nat) < of_char d \<or> (c = d \<and> string_less cs ds))"

definition dec_cmp :: "string \<Rightarrow> string \<Rightarrow> int" where
  "dec_cmp left right =
     (let left = dec_norm left; right = dec_norm right in
      if length left < length right then -1
      else if length left > length right then 1
      else if string_less left right then -1
      else if string_less right left then 1
      else 0)"

text \<open>The loops of \<open>add\<close> and \<open>sub\<close>, on reversed strings, with the output so far.\<close>

fun dec_add_loop :: "string \<Rightarrow> string \<Rightarrow> int \<Rightarrow> string \<Rightarrow> string" where
  "dec_add_loop [] [] carry out =
     (if carry > 0 then digit_char (carry mod 10) # out else out)"
| "dec_add_loop (a # as) [] carry out =
     (let sum_digits = digit_of a + carry in
      dec_add_loop as [] (sum_digits div 10) (digit_char (sum_digits mod 10) # out))"
| "dec_add_loop [] (b # bs) carry out =
     (let sum_digits = digit_of b + carry in
      dec_add_loop [] bs (sum_digits div 10) (digit_char (sum_digits mod 10) # out))"
| "dec_add_loop (a # as) (b # bs) carry out =
     (let sum_digits = digit_of a + digit_of b + carry in
      dec_add_loop as bs (sum_digits div 10) (digit_char (sum_digits mod 10) # out))"

definition dec_add :: "string \<Rightarrow> string \<Rightarrow> string" where
  "dec_add left right = dec_norm (dec_add_loop (rev left) (rev right) 0 [])"

fun dec_sub_loop :: "string \<Rightarrow> string \<Rightarrow> int \<Rightarrow> string \<Rightarrow> string" where
  "dec_sub_loop [] bs borrow out = out"
| "dec_sub_loop (a # as) bs borrow out =
     (let x = digit_of a - borrow;
          (b, bs) = (case bs of [] \<Rightarrow> (0, []) | b # bs \<Rightarrow> (digit_of b, bs)) in
      if x < b then dec_sub_loop as bs 1 (digit_char (x + 10 - b) # out)
      else dec_sub_loop as bs 0 (digit_char (x - b) # out))"

definition dec_sub :: "string \<Rightarrow> string \<Rightarrow> string" where
  "dec_sub left right = dec_norm (dec_sub_loop (rev left) (rev right) 0 [])"

subsection \<open>What they compute\<close>

definition is_digit :: "char \<Rightarrow> bool" where
  "is_digit c \<longleftrightarrow> 0 \<le> digit_of c \<and> digit_of c \<le> 9"

definition is_decimal :: "string \<Rightarrow> bool" where
  "is_decimal s \<longleftrightarrow> list_all is_digit s"

text \<open>The value of a reversed and of a plain decimal string.\<close>

fun rev_value :: "string \<Rightarrow> int" where
  "rev_value [] = 0"
| "rev_value (c # cs) = digit_of c + 10 * rev_value cs"

definition dec_value :: "string \<Rightarrow> int" where
  "dec_value s = rev_value (rev s)"

lemma is_decimal_simps [simp]:
  "is_decimal []" "is_decimal (c # s) \<longleftrightarrow> is_digit c \<and> is_decimal s"
  "is_decimal (s @ t) \<longleftrightarrow> is_decimal s \<and> is_decimal t" "is_decimal (rev s) \<longleftrightarrow> is_decimal s"
  by (simp_all add: is_decimal_def)

lemma digit_of_nat: "digit_of c = int (of_char c) - 48"
  unfolding digit_of_def by (simp only: of_nat_of_char)

lemma digit_of_char: "0 \<le> n \<Longrightarrow> n \<le> 9 \<Longrightarrow> digit_of (digit_char n) = n"
  unfolding digit_of_nat digit_char_def by (simp only: of_char_of) simp

lemma digit_char_of: "digit_char (digit_of c) = c"
  unfolding digit_of_nat digit_char_def by (simp only: diff_add_cancel nat_int char_of_char)

lemma is_digit_char [simp]: "0 \<le> n \<Longrightarrow> n \<le> 9 \<Longrightarrow> is_digit (digit_char n)"
  by (simp add: is_digit_def digit_of_char)

lemma digit_of_inject: "digit_of c = digit_of d \<longleftrightarrow> c = d"
  by (simp add: digit_of_def)

lemma digit_zero [simp]: "digit_of CHR ''0'' = 0" "is_digit CHR ''0''"
  by (simp_all add: digit_of_def is_digit_def)

lemma rev_value_append:
  "rev_value (s @ t) = rev_value s + 10 ^ length s * rev_value t"
  by (induction s) (simp_all add: algebra_simps)

lemma dec_value_simps [simp]:
  "dec_value [] = 0" "dec_value (c # s) = digit_of c * 10 ^ length s + dec_value s"
  by (simp_all add: dec_value_def rev_value_append)

lemma dec_value_append: "dec_value (s @ t) = dec_value s * 10 ^ length t + dec_value t"
  by (simp add: dec_value_def rev_value_append)

lemma dec_value_bounds: "is_decimal s \<Longrightarrow> 0 \<le> dec_value s \<and> dec_value s < 10 ^ length s"
proof (induction s)
  case (Cons c s)
  then have d: "0 \<le> digit_of c" "digit_of c \<le> 9" and "0 \<le> dec_value s" "dec_value s < 10 ^ length s"
    by (auto simp: is_digit_def)
  moreover have "digit_of c * 10 ^ length s \<le> 9 * 10 ^ length s"
    using d by (intro mult_right_mono) auto
  moreover have "0 \<le> digit_of c * 10 ^ length s" using d by simp
  ultimately show ?case
    by (simp only: dec_value_simps length_Cons power_Suc) (intro conjI; linarith)
qed simp

definition normalized :: "string \<Rightarrow> bool" where
  "normalized s \<longleftrightarrow> is_decimal s \<and> s \<noteq> [] \<and> (hd s = CHR ''0'' \<longrightarrow> s = ''0'')"

lemma dropWhile_value: "dec_value (dropWhile (\<lambda>c. c = CHR ''0'') s) = dec_value s"
  by (induction s) auto

lemma is_decimal_dropWhile: "is_decimal s \<Longrightarrow> is_decimal (dropWhile P s)"
  by (induction s) auto

lemma dec_norm_value [simp]: "dec_value (dec_norm s) = dec_value s"
  using dropWhile_value [of s]
  by (cases "dropWhile (\<lambda>c. c = CHR ''0'') s") (simp_all add: dec_norm_def)

lemma dec_norm_normalized: "is_decimal s \<Longrightarrow> normalized (dec_norm s)"
proof (cases "dropWhile (\<lambda>c. c = CHR ''0'') s")
  case Nil
  then show ?thesis by (simp add: dec_norm_def normalized_def)
next
  case (Cons c t)
  assume "is_decimal s"
  then have "is_decimal (c # t)" using is_decimal_dropWhile [of s] Cons by metis
  moreover have "c \<noteq> CHR ''0''" using hd_dropWhile [of "\<lambda>c. c = CHR ''0''" s] Cons by auto
  ultimately show ?thesis using Cons by (simp add: dec_norm_def normalized_def)
qed

lemma normalized_decimal: "normalized s \<Longrightarrow> is_decimal s"
  by (simp add: normalized_def)

lemma normalized_norm [simp]: "normalized s \<Longrightarrow> dec_norm s = s"
  by (cases s) (auto simp: normalized_def dec_norm_def)

lemma normalized_length:
  assumes "normalized s" "normalized t" "length s < length t"
  shows "dec_value s < dec_value t"
proof -
  obtain c u where t: "t = c # u" using assms(2) by (cases t) (auto simp: normalized_def)
  with assms have "c \<noteq> CHR ''0''" "is_digit c" "is_decimal u" by (auto simp: normalized_def)
  then have "1 \<le> digit_of c" using digit_of_inject [of c "CHR ''0''"] by (auto simp: is_digit_def)
  have "(10::int) ^ length s \<le> 10 ^ length u" using assms(3) t by (intro power_increasing) auto
  also have "\<dots> \<le> digit_of c * 10 ^ length u" using \<open>1 \<le> digit_of c\<close> by simp
  also have "\<dots> \<le> dec_value t" using dec_value_bounds [OF \<open>is_decimal u\<close>] t by simp
  finally show ?thesis using dec_value_bounds [of s] assms(1) by (simp add: normalized_decimal)
qed

lemma string_less_value:
  assumes "length s = length t" "is_decimal s" "is_decimal t"
  shows "string_less s t \<longleftrightarrow> dec_value s < dec_value t"
  using assms
proof (induction s t rule: list_induct2)
  case (Cons c s d t)
  then have b: "0 \<le> dec_value s" "dec_value s < 10 ^ length s" "0 \<le> dec_value t"
    "dec_value t < 10 ^ length s" and ih: "string_less s t \<longleftrightarrow> dec_value s < dec_value t"
    using dec_value_bounds [of s] dec_value_bounds [of t] by simp_all
  have cd: "(of_char c :: nat) < of_char d \<longleftrightarrow> digit_of c < digit_of d"
    unfolding digit_of_nat by (rule iffI; linarith)
  consider "digit_of c < digit_of d" | "c = d" | "digit_of d < digit_of c"
    using digit_of_inject [of c d] by linarith
  then show ?case
  proof cases
    case 1
    then have "(digit_of c + 1) * 10 ^ length s \<le> digit_of d * 10 ^ length s"
      by (intro mult_right_mono) auto
    with 1 b Cons.hyps cd show ?thesis by (simp add: algebra_simps)
  next
    case 2
    with ih cd Cons.hyps show ?thesis by simp
  next
    case 3
    then have "(digit_of d + 1) * 10 ^ length s \<le> digit_of c * 10 ^ length s"
      by (intro mult_right_mono) auto
    with 3 b Cons.hyps cd show ?thesis by (auto simp: algebra_simps)
  qed
qed simp

lemma normalized_inject:
  assumes "normalized s" "normalized t" "dec_value s = dec_value t"
  shows "s = t"
proof -
  have len: "length s = length t"
    using normalized_length [OF assms(1,2)] normalized_length [OF assms(2,1)] assms(3)
    by (metis less_irrefl nat_neq_iff)
  have "dec_value s = dec_value t \<Longrightarrow> is_decimal s \<Longrightarrow> is_decimal t \<Longrightarrow> s = t"
    using len
  proof (induction s t rule: list_induct2)
    case (Cons c s d t)
    have e: "digit_of c * 10 ^ length s + dec_value s = digit_of d * 10 ^ length s + dec_value t"
      using Cons.prems(1) Cons.hyps by simp
    have b: "0 \<le> dec_value s" "dec_value s < 10 ^ length s" "0 \<le> dec_value t"
      "dec_value t < 10 ^ length s"
      using Cons dec_value_bounds [of s] dec_value_bounds [of t] by simp_all
    have "digit_of c = (digit_of c * 10 ^ length s + dec_value s) div 10 ^ length s"
      using b by (simp add: div_pos_pos_trivial)
    also have "\<dots> = digit_of d" unfolding e using b by (simp add: div_pos_pos_trivial)
    finally have "c = d" by (simp add: digit_of_inject)
    with e Cons show ?case by simp
  qed simp
  with assms show ?thesis by (simp add: normalized_decimal)
qed

lemma dec_cmp_value:
  assumes "is_decimal s" "is_decimal t"
  shows "dec_cmp s t = sgn (dec_value s - dec_value t)"
proof -
  let ?s = "dec_norm s" and ?t = "dec_norm t"
  have n: "normalized ?s" "normalized ?t" using assms by (simp_all add: dec_norm_normalized)
  then have d: "is_decimal ?s" "is_decimal ?t" by (simp_all add: normalized_decimal)
  consider "length ?s < length ?t" | "length ?t < length ?s" | "length ?s = length ?t" by linarith
  then show ?thesis
  proof cases
    case 1
    with normalized_length [OF n 1] show ?thesis by (simp add: dec_cmp_def Let_def)
  next
    case 2
    with normalized_length [OF n(2,1) 2] show ?thesis by (simp add: dec_cmp_def Let_def)
  next
    case 3
    then show ?thesis
      using string_less_value [OF 3 d] string_less_value [OF 3 [symmetric] d(2,1)]
      by (simp add: dec_cmp_def Let_def sgn_if)
  qed
qed

lemma carry_step: "(r + x div 10) * (10 * p) + x mod 10 * p = (x + 10 * r) * (p :: int)"
proof -
  have "x * p = (10 * (x div 10) + x mod 10) * p" by simp
  then show ?thesis by (simp only: distrib_left distrib_right mult.assoc mult.left_commute add_ac)
qed

lemma dec_add_loop_value:
  assumes "is_decimal as" "is_decimal bs" "0 \<le> carry" "carry \<le> 1" "is_decimal out"
  shows "is_decimal (dec_add_loop as bs carry out)
    \<and> dec_value (dec_add_loop as bs carry out)
      = (rev_value as + rev_value bs + carry) * 10 ^ length out + dec_value out"
  using assms
proof (induction as bs carry out rule: dec_add_loop.induct)
  case (1 carry out)
  then show ?case by (auto simp: digit_of_char)
next
  case (2 a as carry out)
  let ?x = "digit_of a + carry"
  from 2 have "0 \<le> ?x" "?x \<le> 10" by (auto simp: is_digit_def)
  then have "0 \<le> ?x div 10" "?x div 10 \<le> 1" "0 \<le> ?x mod 10" "?x mod 10 \<le> 9" by auto
  with 2 show ?case
    using carry_step [of "rev_value as" ?x "10 ^ length out"]
    by (simp add: Let_def digit_of_char)
next
  case (3 b bs carry out)
  let ?x = "digit_of b + carry"
  from 3 have "0 \<le> ?x" "?x \<le> 10" by (auto simp: is_digit_def)
  then have "0 \<le> ?x div 10" "?x div 10 \<le> 1" "0 \<le> ?x mod 10" "?x mod 10 \<le> 9" by auto
  with 3 show ?case
    using carry_step [of "rev_value bs" ?x "10 ^ length out"]
    by (simp add: Let_def digit_of_char)
next
  case (4 a as b bs carry out)
  let ?x = "digit_of a + digit_of b + carry"
  from 4 have "0 \<le> ?x" "?x \<le> 19" by (auto simp: is_digit_def)
  then have "0 \<le> ?x div 10" "?x div 10 \<le> 1" "0 \<le> ?x mod 10" "?x mod 10 \<le> 9" by auto
  with 4 show ?case
    using carry_step [of "rev_value as + rev_value bs" ?x "10 ^ length out"]
    by (simp add: Let_def digit_of_char)
qed

lemma dec_add_value:
  assumes "is_decimal s" "is_decimal t"
  shows "normalized (dec_add s t) \<and> dec_value (dec_add s t) = dec_value s + dec_value t"
  using dec_add_loop_value [of "rev s" "rev t" 0 "[]"] assms
  by (simp add: dec_add_def dec_norm_normalized dec_value_def [symmetric])

lemma rev_value_nonneg: "is_decimal s \<Longrightarrow> 0 \<le> rev_value s"
  using dec_value_bounds [of "rev s"] by (simp add: dec_value_def)

lemma dec_sub_loop_value:
  assumes "is_decimal as" "is_decimal bs" "0 \<le> borrow" "borrow \<le> 1" "is_decimal out"
    and "rev_value bs + borrow \<le> rev_value as"
  shows "is_decimal (dec_sub_loop as bs borrow out)
    \<and> dec_value (dec_sub_loop as bs borrow out)
      = (rev_value as - rev_value bs - borrow) * 10 ^ length out + dec_value out"
  using assms
proof (induction as arbitrary: bs borrow out)
  case Nil
  with rev_value_nonneg [of bs] show ?case by simp
next
  case (Cons a as)
  define x where "x = digit_of a - borrow"
  obtain b bs' where b: "(case bs of [] \<Rightarrow> (0, []) | b # bs \<Rightarrow> (digit_of b, bs)) = (b, bs')"
    by fastforce
  have bd: "0 \<le> b" "b \<le> 9" "is_decimal bs'" "rev_value bs = b + 10 * rev_value bs'"
    using b Cons.prems(2) by (auto simp: is_digit_def split: list.splits)
  have ad: "0 \<le> digit_of a" "digit_of a \<le> 9" "is_decimal as"
    using Cons.prems(1) by (auto simp: is_digit_def)
  have le: "b + 10 * rev_value bs' \<le> x + 10 * rev_value as"
    using Cons.prems(6) bd by (simp add: x_def)
  have xb: "-1 \<le> x" "x \<le> 9" using ad Cons.prems(3,4) by (simp_all add: x_def)
  let ?v = "\<lambda>d w. (rev_value as - rev_value bs' - w) * (10 * 10 ^ length out)
      + (d * 10 ^ length out + dec_value out)"
  show ?case
  proof (cases "x < b")
    case True
    have d: "0 \<le> x + 10 - b" "x + 10 - b \<le> 9" using True xb bd by simp_all
    have "rev_value bs' + 1 \<le> rev_value as" using le True by simp
    with Cons.IH [of bs' 1 "digit_char (x + 10 - b) # out"] ad bd d Cons.prems(5)
    have "is_decimal (dec_sub_loop as bs' 1 (digit_char (x + 10 - b) # out))
        \<and> dec_value (dec_sub_loop as bs' 1 (digit_char (x + 10 - b) # out)) = ?v (x + 10 - b) 1"
      by (simp add: digit_of_char)
    with True b show ?thesis
      by (simp add: Let_def x_def [symmetric]) (simp add: x_def bd(4) algebra_simps)
  next
    case False
    have d: "0 \<le> x - b" "x - b \<le> 9" using False xb bd by simp_all
    have "rev_value bs' + 0 \<le> rev_value as" using le d by simp
    with Cons.IH [of bs' 0 "digit_char (x - b) # out"] ad bd d Cons.prems(5)
    have "is_decimal (dec_sub_loop as bs' 0 (digit_char (x - b) # out))
        \<and> dec_value (dec_sub_loop as bs' 0 (digit_char (x - b) # out)) = ?v (x - b) 0"
      by (simp add: digit_of_char)
    with False b show ?thesis
      by (simp add: Let_def x_def [symmetric]) (simp add: x_def bd(4) algebra_simps)
  qed
qed

lemma dec_sub_value:
  assumes "is_decimal s" "is_decimal t" "dec_value t \<le> dec_value s"
  shows "normalized (dec_sub s t) \<and> dec_value (dec_sub s t) = dec_value s - dec_value t"
  using dec_sub_loop_value [of "rev s" "rev t" 0 "[]"] assms
  by (simp add: dec_sub_def dec_norm_normalized dec_value_def [symmetric])

subsection \<open>Printing and parsing naturals\<close>

text \<open>
  \<open>to_string\<close> of an unsigned integer, and \<open>parse\<close> to a width (which also
  accepts a leading plus sign that no script writes).
\<close>

fun dec_of_nat :: "nat \<Rightarrow> string" where
  "dec_of_nat n =
     (if n < 10 then [digit_char (int n)]
      else dec_of_nat (n div 10) @ [digit_char (int (n mod 10))])"

declare dec_of_nat.simps [simp del]

definition parse_unsigned :: "nat \<Rightarrow> string \<Rightarrow> nat option" where
  "parse_unsigned m s =
     (if s \<noteq> [] \<and> is_decimal s \<and> nat (dec_value s) \<le> m then Some (nat (dec_value s)) else None)"

lemma dec_of_nat_spec: "normalized (dec_of_nat n) \<and> dec_value (dec_of_nat n) = int n"
proof (induction n rule: dec_of_nat.induct)
  case (1 n)
  show ?case
  proof (cases "n < 10")
    case True
    then show ?thesis by (simp add: dec_of_nat.simps [of n] normalized_def digit_of_char)
  next
    case False
    let ?q = "dec_of_nat (n div 10)"
    from False 1 have q: "normalized ?q" "dec_value ?q = int (n div 10)" by simp_all
    have "n div 10 \<noteq> 0" using False by simp
    with q have "hd ?q \<noteq> CHR ''0''" by (auto simp: normalized_def)
    moreover have d: "0 \<le> int (n mod 10)" "int (n mod 10) \<le> 9" by simp_all
    moreover have "dec_value (?q @ [digit_char (int (n mod 10))]) = int (n div 10) * 10 + int (n mod 10)"
      using d q by (simp only: dec_value_append dec_value_simps digit_of_char) simp
    moreover have "int (n div 10) * 10 + int (n mod 10) = int n" by presburger
    ultimately show ?thesis
      using q False
      by (simp add: dec_of_nat.simps [of n] normalized_def hd_append del: of_nat_div of_nat_mod zdiv_int zmod_int)
  qed
qed

lemma dec_of_nat_normalized [simp]: "normalized (dec_of_nat n)"
  and dec_of_nat_decimal [simp]: "is_decimal (dec_of_nat n)"
  and dec_of_nat_value [simp]: "dec_value (dec_of_nat n) = int n"
  using dec_of_nat_spec [of n] by (simp_all add: normalized_def)

lemma dec_of_nat_not_Nil [simp]: "dec_of_nat n \<noteq> []"
  using dec_of_nat_spec [of n] by (simp add: normalized_def)

lemma dec_of_nat_inject [simp]: "dec_of_nat m = dec_of_nat n \<longleftrightarrow> m = n"
  by (metis dec_of_nat_value of_nat_eq_iff)

lemma normalized_eq_dec: "normalized s \<Longrightarrow> dec_value s = int n \<Longrightarrow> s = dec_of_nat n"
  by (simp add: normalized_inject)

lemma parse_dec_of_nat [simp]: "n \<le> m \<Longrightarrow> parse_unsigned m (dec_of_nat n) = Some n"
  by (simp add: parse_unsigned_def)

text \<open>The refinement the scripts rest on: on printed naturals the Lua functions are those of the naturals.\<close>

lemma dec_add_nat [simp]: "dec_add (dec_of_nat a) (dec_of_nat b) = dec_of_nat (a + b)"
  using dec_add_value [of "dec_of_nat a" "dec_of_nat b"] by (intro normalized_eq_dec) simp_all

lemma dec_sub_nat [simp]: "b \<le> a \<Longrightarrow> dec_sub (dec_of_nat a) (dec_of_nat b) = dec_of_nat (a - b)"
  using dec_sub_value [of "dec_of_nat a" "dec_of_nat b"] by (intro normalized_eq_dec) simp_all

lemma dec_cmp_nat [simp]:
  "dec_cmp (dec_of_nat a) (dec_of_nat b) > 0 \<longleftrightarrow> b < a"
  "dec_cmp (dec_of_nat a) (dec_of_nat b) < 0 \<longleftrightarrow> a < b"
  by (simp_all add: dec_cmp_value)

text \<open>
  C18: on the decimal strings of naturals of any size, the Lua
  functions the coordinator's scripts account with compare, add and subtract exactly, so
  128-bit amounts never pass through a floating-point number.
\<close>

theorem lua_decimal_refines_nat:
  "dec_cmp (dec_of_nat a) (dec_of_nat b) = sgn (int a - int b)
   \<and> dec_add (dec_of_nat a) (dec_of_nat b) = dec_of_nat (a + b)
   \<and> (a < b \<or> dec_sub (dec_of_nat a) (dec_of_nat b) = dec_of_nat (a - b))"
  by (cases "a < b") (simp_all add: dec_cmp_value)

end
