(* ===== verification/Store.thy ===== *)
theory Store
  imports Decimal
begin

section \<open>The coordinator's store as an interface\<close>

text \<open>
  The scripts of \<open>crates/owlrora-server/src/adapters/coordinator.rs\<close> run inside
  Redis, a service that is not part of the repository.  \<open>'s Redis\<close> is the record of
  the commands the scripts call, on a state of the service's own; the locale \<open>redis\<close>
  is what its documentation promises of them and all the proofs use.  A script runs as one
  atomic step at one instant, so the scripts are functions of the state; a key past its
  expiry disappears between scripts (\<open>lapse\<close>).  The keys of hashes, sorted sets and
  strings have different formats, so no command meets a key of the wrong kind.
  The second half of the theory is a store that keeps the promises.
\<close>

record 's Redis =
  redis_time :: "'s \<Rightarrow> nat \<times> nat" \<comment> \<open>seconds and microseconds\<close>
  hget :: "'s \<Rightarrow> string \<Rightarrow> string \<Rightarrow> string option"
  hset :: "'s \<Rightarrow> string \<Rightarrow> (string \<times> string) list \<Rightarrow> 's"
  hdel :: "'s \<Rightarrow> string \<Rightarrow> string list \<Rightarrow> 's"
  zscore :: "'s \<Rightarrow> string \<Rightarrow> string \<Rightarrow> nat option"
  zcard :: "'s \<Rightarrow> string \<Rightarrow> nat"
  zadd :: "'s \<Rightarrow> string \<Rightarrow> nat \<Rightarrow> string \<Rightarrow> 's"
  zrem :: "'s \<Rightarrow> string \<Rightarrow> string \<Rightarrow> 's"
  zrange_to :: "'s \<Rightarrow> string \<Rightarrow> nat \<Rightarrow> string list" \<comment> \<open>ZRANGEBYSCORE from -inf\<close>
  zrem_to :: "'s \<Rightarrow> string \<Rightarrow> nat \<Rightarrow> 's" \<comment> \<open>ZREMRANGEBYSCORE from -inf\<close>
  get_string :: "'s \<Rightarrow> string \<Rightarrow> string option"
  set_px :: "'s \<Rightarrow> string \<Rightarrow> string \<Rightarrow> nat \<Rightarrow> 's"
  pexpire :: "'s \<Rightarrow> string \<Rightarrow> nat \<Rightarrow> 's"
  deadline :: "'s \<Rightarrow> string \<Rightarrow> nat option" \<comment> \<open>PEXPIRETIME\<close>

text \<open>\<open>now[1] * 1000 + math.floor(now[2] / 1000)\<close>\<close>

definition now_ms :: "'s Redis \<Rightarrow> 's \<Rightarrow> nat" where
  "now_ms R s = fst (redis_time R s) * 1000 + snd (redis_time R s) div 1000"

definition written :: "(string \<times> string) list \<Rightarrow> string \<Rightarrow> string option \<Rightarrow> string option" where
  "written fvs f old = (case aget (rev fvs) f of None \<Rightarrow> old | Some v \<Rightarrow> Some v)"

locale redis =
  fixes R :: "'s Redis"
  assumes hget_hset: "hget R (hset R s k fvs) k' f =
      (if k' = k then written fvs f (hget R s k f) else hget R s k' f)"
    and hget_hdel: "hget R (hdel R s k fs) k' f =
      (if k' = k \<and> f \<in> set fs then None else hget R s k' f)"
    and hget_zadd: "hget R (zadd R s k n m) = hget R s"
    and hget_zrem: "hget R (zrem R s k m) = hget R s"
    and hget_zrem_to: "hget R (zrem_to R s k n) = hget R s"
    and hget_set_px: "hget R (set_px R s k v ms) = hget R s"
    and hget_pexpire: "hget R (pexpire R s k ms) = hget R s"
    and zscore_zadd: "zscore R (zadd R s k n m) k' m' =
      (if k' = k \<and> m' = m then Some n else zscore R s k' m')"
    and zscore_zrem: "zscore R (zrem R s k m) k' m' =
      (if k' = k \<and> m' = m then None else zscore R s k' m')"
    and zscore_zrem_to: "zscore R (zrem_to R s k n) k' m' =
      (if k' = k then option_filter (\<lambda>score. n < score) (zscore R s k m') else zscore R s k' m')"
    and zscore_hset: "zscore R (hset R s k fvs) = zscore R s"
    and zscore_hdel: "zscore R (hdel R s k fs) = zscore R s"
    and zscore_pexpire: "zscore R (pexpire R s k ms) = zscore R s"
    and zcard_members: "zcard R s k = card {m. zscore R s k m \<noteq> None}"
    and finite_members: "finite {m. zscore R s k m \<noteq> None}"
    and zrange_members: "set (zrange_to R s k n) = {m. \<exists>score. zscore R s k m = Some score \<and> score \<le> n}"
    and zrange_distinct: "distinct (zrange_to R s k n)"
    and string_set_px: "get_string R (set_px R s k v ms) k' = (if k' = k then Some v else get_string R s k')"
    and time_hset: "redis_time R (hset R s k fvs) = redis_time R s"
    and time_hdel: "redis_time R (hdel R s k fs) = redis_time R s"
    and time_zadd: "redis_time R (zadd R s k n m) = redis_time R s"
    and time_zrem: "redis_time R (zrem R s k m) = redis_time R s"
    and time_zrem_to: "redis_time R (zrem_to R s k n) = redis_time R s"
    and time_set_px: "redis_time R (set_px R s k v ms) = redis_time R s"
    and time_pexpire: "redis_time R (pexpire R s k ms) = redis_time R s"
    and deadline_pexpire: "zscore R s k m \<noteq> None \<Longrightarrow>
      deadline R (pexpire R s k ms) k = Some (now_ms R s + ms)"
    and deadline_pexpire_other: "k' \<noteq> k \<Longrightarrow> deadline R (pexpire R s k ms) k' = deadline R s k'"
    and deadline_hset: "deadline R (hset R s k fvs) k' = deadline R s k'"
    and deadline_hdel: "zscore R s k' m' \<noteq> None \<Longrightarrow> deadline R (hdel R s k fs) k' = deadline R s k'"
    and deadline_zadd: "deadline R (zadd R s k n m) k' = deadline R s k'"
    and deadline_zrem: "zscore R (zrem R s k m) k' m' \<noteq> None \<Longrightarrow>
      deadline R (zrem R s k m) k' = deadline R s k'"
    and deadline_zrem_to: "zscore R (zrem_to R s k n) k' m' \<noteq> None \<Longrightarrow>
      deadline R (zrem_to R s k n) k' = deadline R s k'"
begin

lemmas hash_reads = hget_hset hget_hdel hget_zadd hget_zrem hget_zrem_to hget_set_px hget_pexpire

lemmas zset_reads = zscore_zadd zscore_zrem zscore_zrem_to zscore_hset zscore_hdel zscore_pexpire

lemma now_ms_writes:
  "now_ms R (hset R s k fvs) = now_ms R s" "now_ms R (hdel R s k fs) = now_ms R s"
  "now_ms R (zadd R s k n m) = now_ms R s" "now_ms R (zrem R s k m) = now_ms R s"
  "now_ms R (zrem_to R s k n) = now_ms R s" "now_ms R (set_px R s k v ms) = now_ms R s"
  "now_ms R (pexpire R s k ms) = now_ms R s"
  by (simp_all add: now_ms_def time_hset time_hdel time_zadd time_zrem time_zrem_to time_set_px
      time_pexpire)

lemma zcard_zadd:
  assumes "zscore R s k m = None"
  shows "zcard R (zadd R s k n m) k = Suc (zcard R s k)"
proof -
  have "{m'. zscore R (zadd R s k n m) k m' \<noteq> None} = insert m {m'. zscore R s k m' \<noteq> None}"
    by (auto simp: zscore_zadd)
  then show ?thesis using assms finite_members [of s k] by (simp add: zcard_members)
qed

lemma zcard_mono:
  assumes "\<And>m. zscore R s' k m \<noteq> None \<Longrightarrow> zscore R s k m \<noteq> None"
  shows "zcard R s' k \<le> zcard R s k"
proof -
  have "{m. zscore R s' k m \<noteq> None} \<subseteq> {m. zscore R s k m \<noteq> None}" using assms by auto
  then show ?thesis by (simp only: zcard_members card_mono finite_members)
qed

lemma zcard_same: "zscore R s' k = zscore R s k \<Longrightarrow> zcard R s' k = zcard R s k"
  by (simp add: zcard_members)

end

text \<open>
  The passing of time between two scripts: the clock does not run backwards, and a key's
  content stays unless its deadline has come, when all of it is gone.
\<close>

definition same_key :: "'s Redis \<Rightarrow> 's \<Rightarrow> 's \<Rightarrow> string \<Rightarrow> bool" where
  "same_key R s s' k \<longleftrightarrow>
     hget R s' k = hget R s k \<and> zscore R s' k = zscore R s k \<and> get_string R s' k = get_string R s k
     \<and> deadline R s' k = deadline R s k"

definition gone_key :: "'s Redis \<Rightarrow> 's \<Rightarrow> string \<Rightarrow> bool" where
  "gone_key R s k \<longleftrightarrow>
     hget R s k = (\<lambda>_. None) \<and> zscore R s k = (\<lambda>_. None) \<and> get_string R s k = None"

definition lapse :: "'s Redis \<Rightarrow> 's \<Rightarrow> 's \<Rightarrow> bool" where
  "lapse R s s' \<longleftrightarrow>
     now_ms R s \<le> now_ms R s'
     \<and> (\<forall>k. same_key R s s' k
          \<or> gone_key R s' k \<and> (\<exists>t. deadline R s k = Some t \<and> t \<le> now_ms R s'))"

subsection \<open>A store that keeps the promises\<close>

record Store =
  clock_us :: nat
  hashes :: "string \<Rightarrow> (string \<times> string) list"
  zsets :: "string \<Rightarrow> (string \<times> nat) list"
  strings :: "string \<Rightarrow> string option"
  expiry :: "string \<Rightarrow> nat option"

definition key_exists :: "Store \<Rightarrow> string \<Rightarrow> bool" where
  "key_exists s k \<longleftrightarrow> hashes s k \<noteq> [] \<or> zsets s k \<noteq> [] \<or> strings s k \<noteq> None"

definition tidy :: "string \<Rightarrow> Store \<Rightarrow> Store" where
  "tidy k s = (if key_exists s k then s else s\<lparr>expiry := (expiry s)(k := None)\<rparr>)"

definition zset_of :: "Store \<Rightarrow> string \<Rightarrow> (string \<times> nat) list" where
  "zset_of s k = AList.clearjunk (zsets s k)"

definition store_ops :: "Store Redis" where
  "store_ops =
     \<lparr>redis_time = (\<lambda>s. (clock_us s div 1000000, clock_us s mod 1000000)),
      hget = (\<lambda>s k. aget (hashes s k)),
      hset = (\<lambda>s k fvs.
        s\<lparr>hashes := (hashes s)(k := fold (\<lambda>(f, v) h. aput f v h) fvs (hashes s k))\<rparr>),
      hdel = (\<lambda>s k fs.
        tidy k (s\<lparr>hashes := (hashes s)(k := filter (\<lambda>(f, _). f \<notin> set fs) (hashes s k))\<rparr>)),
      zscore = (\<lambda>s k. aget (zset_of s k)),
      zcard = (\<lambda>s k. length (zset_of s k)),
      zadd = (\<lambda>s k n m. s\<lparr>zsets := (zsets s)(k := aput m n (zset_of s k))\<rparr>),
      zrem = (\<lambda>s k m. tidy k (s\<lparr>zsets := (zsets s)(k := adel m (zset_of s k))\<rparr>)),
      zrange_to = (\<lambda>s k n. map fst (filter (\<lambda>(_, score). score \<le> n) (zset_of s k))),
      zrem_to = (\<lambda>s k n.
        tidy k (s\<lparr>zsets := (zsets s)(k := filter (\<lambda>(_, score). n < score) (zset_of s k))\<rparr>)),
      get_string = strings,
      set_px = (\<lambda>s k v ms.
        s\<lparr>strings := (strings s)(k := Some v),
          expiry := (expiry s)(k := Some (clock_us s div 1000 + ms))\<rparr>),
      pexpire = (\<lambda>s k ms.
        if key_exists s k then s\<lparr>expiry := (expiry s)(k := Some (clock_us s div 1000 + ms))\<rparr> else s),
      deadline = expiry\<rparr>"

definition store_at :: "nat \<Rightarrow> Store" where
  "store_at ms = \<lparr>clock_us = ms * 1000, hashes = (\<lambda>_. []), zsets = (\<lambda>_. []), strings = (\<lambda>_. None),
     expiry = (\<lambda>_. None)\<rparr>"

lemma tidy_simps [simp]:
  "hashes (tidy k s) = hashes s" "zsets (tidy k s) = zsets s" "strings (tidy k s) = strings s"
  "clock_us (tidy k s) = clock_us s" "zset_of (tidy k s) = zset_of s"
  by (simp_all add: tidy_def zset_of_def fun_eq_iff)

lemma zset_of_simps [simp]:
  "adistinct (zset_of s k)" "zset_of (s\<lparr>hashes := h\<rparr>) = zset_of s" "zset_of (s\<lparr>expiry := e\<rparr>) = zset_of s"
  by (simp_all add: zset_of_def adistinct_def fun_eq_iff)

lemma clearjunk_distinct: "adistinct m \<Longrightarrow> AList.clearjunk m = m"
  by (simp add: adistinct_def distinct_clearjunk_id)

lemma zset_of_update [simp]:
  "adistinct m \<Longrightarrow> zset_of (s\<lparr>zsets := (zsets s)(k := m)\<rparr>) k' = (if k' = k then m else zset_of s k')"
  by (simp add: zset_of_def clearjunk_distinct)

lemma aget_fold_aput: "aget (fold (\<lambda>(f, v) h. aput f v h) fvs h) f = written fvs f (aget h f)"
proof (induction fvs arbitrary: h)
  case (Cons x fvs)
  obtain g v where x: "x = (g, v)" by (cases x)
  show ?case
    unfolding x fold_simps
    by (simp add: Cons.IH written_def map_add_def aget_aput split: option.splits)
qed (simp add: written_def)

lemma aget_filter_fst: "aget (filter (\<lambda>(f, _). P f) m) f = (if P f then aget m f else None)"
  by (induction m) auto

lemma zset_finite: "finite {m. aget (zset_of s k) m \<noteq> None}"
  using finite_dom_map_of [of "zset_of s k"] by (simp add: dom_def)

lemma zset_card: "length (zset_of s k) = card {m. aget (zset_of s k) m \<noteq> None}"
proof -
  have "{m. aget (zset_of s k) m \<noteq> None} = set (map fst (zset_of s k))"
    by (simp only: dom_def [symmetric] dom_map_of_conv_image_fst set_map)
  then show ?thesis
    using zset_of_simps(1) [of s k] distinct_card [of "map fst (zset_of s k)"] by (simp add: adistinct_def)
qed

lemma zset_range:
  "set (map fst (filter (\<lambda>(_, score). score \<le> n) (zset_of s k)))
     = {m. \<exists>score. aget (zset_of s k) m = Some score \<and> score \<le> n}"
  using zset_of_simps(1) [of s k] by (force simp: adistinct_def intro: rev_image_eqI)

lemma store_ops_simps:
  "redis_time store_ops = (\<lambda>s. (clock_us s div 1000000, clock_us s mod 1000000))"
  "hget store_ops = (\<lambda>s k. aget (hashes s k))"
  "hset store_ops s k fvs =
     s\<lparr>hashes := (hashes s)(k := fold (\<lambda>(f, v) h. aput f v h) fvs (hashes s k))\<rparr>"
  "hdel store_ops s k fs =
     tidy k (s\<lparr>hashes := (hashes s)(k := filter (\<lambda>(f, _). f \<notin> set fs) (hashes s k))\<rparr>)"
  "zscore store_ops = (\<lambda>s k. aget (zset_of s k))"
  "zcard store_ops s k = length (zset_of s k)"
  "zadd store_ops s k n m = s\<lparr>zsets := (zsets s)(k := aput m n (zset_of s k))\<rparr>"
  "zrem store_ops s k m = tidy k (s\<lparr>zsets := (zsets s)(k := adel m (zset_of s k))\<rparr>)"
  "zrange_to store_ops s k n = map fst (filter (\<lambda>(_, score). score \<le> n) (zset_of s k))"
  "zrem_to store_ops s k n =
     tidy k (s\<lparr>zsets := (zsets s)(k := filter (\<lambda>(_, score). n < score) (zset_of s k))\<rparr>)"
  "get_string store_ops s = strings s"
  "set_px store_ops s k v ms = s\<lparr>strings := (strings s)(k := Some v),
     expiry := (expiry s)(k := Some (clock_us s div 1000 + ms))\<rparr>"
  "pexpire store_ops s k ms =
     (if key_exists s k then s\<lparr>expiry := (expiry s)(k := Some (clock_us s div 1000 + ms))\<rparr> else s)"
  "deadline store_ops s = expiry s"
  by (simp_all add: store_ops_def)

lemma div_square: "0 < (m :: nat) \<Longrightarrow> x div (m * m) * m + x mod (m * m) div m = x div m"
  by (simp add: div_mult2_eq mod_mult2_eq)

lemma now_ms_store [simp]: "now_ms store_ops s = clock_us s div 1000"
  using div_square [of 1000 "clock_us s"] by (simp add: now_ms_def store_ops_simps)

lemma zset_of_exists: "aget (zset_of s k) m \<noteq> None \<Longrightarrow> key_exists s k"
  by (auto simp: key_exists_def zset_of_def)

lemma expiry_tidy: "aget (zset_of s k') m \<noteq> None \<Longrightarrow> expiry (tidy k s) k' = expiry s k'"
  using zset_of_exists [of s k' m] by (auto simp: tidy_def)

lemma hashes_simps [simp]:
  "hashes (s\<lparr>zsets := z\<rparr>) = hashes s" "hashes (s\<lparr>strings := t\<rparr>) = hashes s" "hashes (s\<lparr>expiry := e\<rparr>) = hashes s"
  by simp_all

lemma zset_of_strings [simp]: "zset_of (s\<lparr>strings := t\<rparr>) = zset_of s"
  by (simp add: zset_of_def fun_eq_iff)

interpretation store: redis store_ops
proof (unfold_locales, goal_cases)
  case 1 show ?case by (simp add: store_ops_simps aget_fold_aput)
next
  case 2 show ?case by (simp add: store_ops_simps aget_filter_fst)
next
  case 7 show ?case by (simp add: store_ops_simps)
next
  case 8 show ?case by (simp add: store_ops_simps aget_aput)
next
  case 9 show ?case by (simp add: store_ops_simps aget_adel)
next
  case 10 show ?case by (simp add: store_ops_simps aget_filter)
next
  case 14 show ?case by (simp only: store_ops_simps zset_card)
next
  case 15 show ?case by (simp only: store_ops_simps zset_finite)
next
  case 16 show ?case by (simp only: store_ops_simps zset_range)
next
  case (17 s k n) show ?case
    using zset_of_simps(1) [of s k] by (simp add: store_ops_simps adistinct_def distinct_map_filter)
next
  case (26 s k m ms) then show ?case using zset_of_exists [of s k m] by (simp add: store_ops_simps)
next
  case (27 k' k s ms) then show ?case by (simp add: store_ops_simps)
next
  case (29 s k' m' k fs) then show ?case
    using expiry_tidy [of "s\<lparr>hashes := (hashes s)(k := filter (\<lambda>(f, _). f \<notin> set fs) (hashes s k))\<rparr>" k' m' k]
    by (simp only: store_ops_simps tidy_simps) simp
next
  case (31 s k m k' m') then show ?case
    using expiry_tidy [of "s\<lparr>zsets := (zsets s)(k := adel m (zset_of s k))\<rparr>" k' m' k]
    by (simp only: store_ops_simps tidy_simps) simp
next
  case (32 s k n k' m') then show ?case
    using expiry_tidy [of "s\<lparr>zsets := (zsets s)(k := filter (\<lambda>(_, score). n < score) (zset_of s k))\<rparr>" k' m' k]
    by (simp only: store_ops_simps tidy_simps) simp
qed (simp_all add: store_ops_simps)

end
