(* ===== verification/Policies.thy ===== *)
theory Policies
  imports Protection
begin

section \<open>Policy references and grants\<close>

text \<open>
  The values that pass between the gateway's admission and the coordinator:
  \<open>PolicyReference\<close>, the paired budget request, the grants and the errors of
  \<open>crates/owlrora-server/src/adapters/coordinator.rs\<close>.  A \<open>Duration\<close> is
  its number of milliseconds.
\<close>

datatype CoordinatorError =
  PoolConfiguration | PoolUnavailable | CoordTimeout | CoordCommand | CoordConflict | CoordDenied
  | CoordNotFound | InvalidResponse

datatype PolicyCoordinatorConfig =
  BudgetConfig (config_version_id: uuid) (config_mode: string) (config_limit_cost_nanos: string)
    (config_max_slice_nanos: string) (config_grant_seconds: nat)
| RequestLimitsConfig (config_version_id: uuid) (config_requests_per_minute: nat)
    (config_input_units_per_minute: "nat option") (config_grant_mode: string)
    (config_max_request_tokens: nat) (config_grant_seconds: nat)
    (config_concurrency_mode: "string option") (config_concurrency_limit: "nat option")
    (config_lease_seconds: "nat option") (config_max_stream_seconds: nat)

record PolicyCandidate =
  pc_organization_id :: uuid
  pc_kind :: PolicyKind
  pc_policy_id :: uuid
  pc_desired_epoch :: string
  pc_desired_version_id :: uuid
  pc_desired_generation :: nat
  pc_desired_recovery_generation :: nat
  pc_fence :: uuid
  pc_config :: PolicyCoordinatorConfig

record PriorGeneration =
  prior_generation_epoch :: string
  prior_generation_number :: nat

record PolicyReference =
  pr_organization_id :: uuid
  pr_kind :: PolicyKind
  pr_policy_id :: uuid
  pr_version_id :: uuid
  pr_epoch :: string
  pr_generation :: nat
  pr_recovery_generation :: nat

record CoordinatorRecoveryInstall =
  cri_recovery_id :: uuid
  cri_organization_id :: uuid
  cri_kind :: PolicyKind
  cri_policy_id :: uuid
  cri_version_id :: uuid
  cri_epoch :: string
  cri_policy_generation :: nat
  cri_recovery_generation :: nat
  authorized_allowance_nanos :: nat
  cri_limit_cost_nanos :: nat
  cri_config :: PolicyCoordinatorConfig

record BudgetGrantSide =
  side_policy :: PolicyReference
  side_amount_nanos :: nat

record PairedBudgetGrantRequest =
  pbg_organization_id :: uuid
  pbg_grant_id :: uuid
  pbg_key :: "BudgetGrantSide option"
  pbg_origin :: "BudgetGrantSide option"
  requested_ttl_ms :: nat
  one_shot :: bool

record AllowanceGrant =
  ag_id :: uuid
  ag_expires_at_unix_ms :: nat
  key_amount_nanos :: "nat option"
  origin_amount_nanos :: "nat option"

record RateTokenGrant =
  rtg_id :: uuid
  rtg_expires_at_unix_ms :: nat
  request_tokens :: nat
  input_tokens :: nat

record ConcurrencySlotGrant =
  csg_id :: uuid
  csg_slots :: nat
  csg_expires_at_unix_ms :: nat

end
