(* ===== verification/Scripts.thy ===== *)
theory Scripts
  imports Store Policies
begin

section \<open>The coordinator's scripts\<close>

text \<open>
  The Lua scripts of \<open>crates/owlrora-server/src/adapters/coordinator.rs\<close>, each a
  function of the store's state.  \<open>KEYS\<close> and \<open>ARGV\<close> have the names of what the
  callers pass; an argument a script only uses as a number is a natural.  The reply is the
  array of strings the script returns, \<^const>\<open>None\<close> when the script stops with an
  error (its earlier writes stay).  A nil or false of a read is \<^const>\<open>None\<close>.
  \<open>decode\<close> stands for \<open>cjson.decode\<close> of the text serde wrote for a
  \<open>PolicyCoordinatorConfig\<close>.  Lua's numbers are doubles; the ones kept here are
  milliseconds, seconds and slots, far below the 10^14 up to which \<open>tostring\<close> prints
  them exactly.  The token-bucket script \<open>RATE_GRANT_SCRIPT\<close>, which computes with
  fractions of tokens, is not modelled.
\<close>

type_synonym arg = string \<comment> \<open>a key or an argument of a script\<close>
type_synonym reply = "string list option"

definition tonumber :: "arg \<Rightarrow> nat option" where
  "tonumber s = (if s \<noteq> [] \<and> is_decimal s then Some (nat (dec_value s)) else None)"

definition or_zero :: "string option \<Rightarrow> string" where
  "or_zero v = (case v of None \<Rightarrow> ''0'' | Some s \<Rightarrow> s)"

definition or_empty :: "string option \<Rightarrow> string" where
  "or_empty v = (case v of None \<Rightarrow> [] | Some s \<Rightarrow> s)"

lemma tonumber_dec_of_nat [simp]: "tonumber (dec_of_nat n) = Some n"
  by (simp add: tonumber_def)

lemma or_simps [simp]:
  "or_zero None = ''0''" "or_zero (Some s) = s" "or_empty None = []" "or_empty (Some s) = s"
  by (simp_all add: or_zero_def or_empty_def)

subsection \<open>The life cycle of a policy generation\<close>

definition staged_reply :: "'s Redis \<Rightarrow> 's \<Rightarrow> arg \<Rightarrow> string list" where
  "staged_reply R s policy =
     [''staged'', or_empty (hget R s policy ''active_epoch''),
      or_empty (hget R s policy ''active_generation'')]"

definition stage_write ::
    "'s Redis \<Rightarrow> arg \<Rightarrow> arg \<Rightarrow> arg \<Rightarrow> arg \<Rightarrow> arg \<Rightarrow> arg \<Rightarrow> arg \<Rightarrow> nat \<Rightarrow> arg
      \<Rightarrow> 's \<Rightarrow> 's \<times> reply" where
  "stage_write R policy ledger epoch generation version fence config ttl recovery s =
     (let s = hset R s policy
            [(''desired_epoch'', epoch), (''desired_generation'', generation),
             (''desired_version'', version), (''staged_fence'', fence),
             (''desired_config'', config), (''desired_recovery_generation'', recovery),
             (''state'', ''staged'')];
          s = pexpire R s policy ttl;
          s = pexpire R s ledger ttl in
      (s, Some (staged_reply R s policy)))"

definition stage_script ::
    "'s Redis \<Rightarrow> arg \<Rightarrow> arg \<Rightarrow> arg \<Rightarrow> arg \<Rightarrow> arg \<Rightarrow> arg \<Rightarrow> arg \<Rightarrow> arg \<Rightarrow> arg
      \<Rightarrow> nat \<Rightarrow> arg \<Rightarrow> 's \<Rightarrow> 's \<times> reply" where
  "stage_script R policy ledger epoch generation version fence config kind policy_id ttl recovery s =
     (let state = hget R s policy; old = hget R s ledger in
      if state ''staged_fence'' \<noteq> None then
        (if state ''staged_fence'' \<noteq> Some fence \<or> state ''desired_epoch'' \<noteq> Some epoch
            \<or> state ''desired_generation'' \<noteq> Some generation \<or> state ''desired_version'' \<noteq> Some version
            \<or> state ''desired_config'' \<noteq> Some config
            \<or> or_zero (state ''desired_recovery_generation'') \<noteq> recovery
         then (s, Some [''conflict''])
         else if state ''state'' \<noteq> Some ''staged'' \<and> state ''state'' \<noteq> Some ''armed''
         then (s, Some [''conflict''])
         else (s, Some (staged_reply R s policy)))
      else if old ''policy_kind'' \<noteq> None then
        (if old ''policy_kind'' \<noteq> Some kind \<or> old ''policy_id'' \<noteq> Some policy_id
            \<or> old ''epoch'' \<noteq> Some epoch
         then (s, Some [''conflict''])
         else stage_write R policy ledger epoch generation version fence config ttl recovery s)
      else
        stage_write R policy ledger epoch generation version fence config ttl recovery
          (hset R s ledger
             [(''policy_kind'', kind), (''policy_id'', policy_id), (''epoch'', epoch),
              (''charged_nanos'', ''0''), (''returned_nanos'', ''0''),
              (''recovery_generation'', recovery), (''rate_request_tokens'', ''''),
              (''rate_input_tokens'', ''''), (''rate_refill_ms'', '''')]))"

definition arm_script ::
    "'s Redis \<Rightarrow> arg \<Rightarrow> arg \<Rightarrow> arg \<Rightarrow> arg \<Rightarrow> arg \<Rightarrow> nat \<Rightarrow> 's \<Rightarrow> 's \<times> reply" where
  "arm_script R policy epoch generation version fence ttl s =
     (let v = hget R s policy in
      if v ''desired_epoch'' \<noteq> Some epoch \<or> v ''desired_generation'' \<noteq> Some generation
         \<or> v ''desired_version'' \<noteq> Some version \<or> v ''staged_fence'' \<noteq> Some fence
      then (s, Some [''conflict''])
      else if v ''state'' \<noteq> Some ''staged'' \<and> v ''state'' \<noteq> Some ''armed''
      then (s, Some [''conflict''])
      else (pexpire R (hset R s policy [(''state'', ''armed'')]) policy ttl, Some [''armed'']))"

text \<open>
  \<open>values[4]\<close>, the staged configuration, is always present with a fence; HSET of a nil
  would stop the script.
\<close>

definition activate_script ::
    "'s Redis \<Rightarrow> arg \<Rightarrow> arg \<Rightarrow> arg \<Rightarrow> arg \<Rightarrow> arg \<Rightarrow> nat \<Rightarrow> arg \<Rightarrow> 's \<Rightarrow> 's \<times> reply" where
  "activate_script R policy epoch generation version fence ttl recovery s =
     (let v = hget R s policy in
      if v ''desired_epoch'' \<noteq> Some epoch \<or> v ''desired_generation'' \<noteq> Some generation
         \<or> v ''desired_version'' \<noteq> Some version \<or> v ''staged_fence'' \<noteq> Some fence
         \<or> or_zero (v ''desired_recovery_generation'') \<noteq> recovery
      then (s, Some [''conflict''])
      else if v ''state'' = Some ''active'' \<and> v ''active_epoch'' = Some epoch
         \<and> v ''active_generation'' = Some generation \<and> v ''active_version'' = Some version
         \<and> or_zero (v ''active_recovery_generation'') = recovery
      then (s, Some [''active'', or_empty (v ''prior_epoch''), or_empty (v ''prior_generation'')])
      else if v ''state'' \<noteq> Some ''armed'' then (s, Some [''conflict''])
      else (case v ''desired_config'' of
          None \<Rightarrow> (s, None)
        | Some config \<Rightarrow>
            let prior_epoch = or_empty (v ''active_epoch'');
                prior_generation = or_empty (v ''active_generation'');
                s = hset R s policy
                  [(''prior_epoch'', prior_epoch), (''prior_generation'', prior_generation),
                   (''prior_version'', or_empty (v ''active_version'')),
                   (''prior_config'', or_empty (v ''active_config'')),
                   (''prior_recovery_generation'', or_zero (v ''active_recovery_generation'')),
                   (''prior_cutoff_ms'', ''''), (''active_epoch'', epoch),
                   (''active_generation'', generation), (''active_version'', version),
                   (''active_config'', config), (''active_recovery_generation'', recovery),
                   (''state'', ''active'')] in
            (pexpire R s policy ttl, Some [''active'', prior_epoch, prior_generation])))"

definition retire_script ::
    "'s Redis \<Rightarrow> arg \<Rightarrow> arg \<Rightarrow> arg \<Rightarrow> arg \<Rightarrow> arg \<Rightarrow> arg \<Rightarrow> nat \<Rightarrow> 's \<Rightarrow> 's \<times> reply" where
  "retire_script R policy epoch generation version fence cutoff ttl s =
     (let v = hget R s policy in
      if v ''active_epoch'' \<noteq> Some epoch \<or> v ''active_generation'' \<noteq> Some generation
         \<or> v ''active_version'' \<noteq> Some version \<or> v ''staged_fence'' \<noteq> Some fence
         \<or> v ''state'' \<noteq> Some ''active''
      then (s, Some [''conflict''])
      else if v ''prior_cutoff_ms'' \<noteq> None \<and> v ''prior_cutoff_ms'' \<noteq> Some ''''
         \<and> v ''prior_cutoff_ms'' \<noteq> Some cutoff
      then (s, Some [''conflict''])
      else (pexpire R (hset R s policy [(''prior_cutoff_ms'', cutoff)]) policy ttl, Some [''retiring'']))"

definition finalize_script ::
    "'s Redis \<Rightarrow> arg \<Rightarrow> arg \<Rightarrow> arg \<Rightarrow> arg \<Rightarrow> arg \<Rightarrow> nat \<Rightarrow> 's \<Rightarrow> 's \<times> reply" where
  "finalize_script R policy epoch generation version fence ttl s =
     (let v = hget R s policy in
      if v ''active_epoch'' \<noteq> Some epoch \<or> v ''active_generation'' \<noteq> Some generation
         \<or> v ''active_version'' \<noteq> Some version \<or> v ''staged_fence'' \<noteq> Some fence
      then (s, Some [''conflict''])
      else if v ''state'' \<noteq> Some ''active'' \<and> v ''state'' \<noteq> Some ''finalized''
      then (s, Some [''conflict''])
      else
        let s = hset R s policy [(''state'', ''finalized'')];
            s = hdel R s policy
              [''staged_fence'', ''desired_epoch'', ''desired_generation'', ''desired_version'',
               ''desired_config'', ''desired_recovery_generation'', ''prior_epoch'',
               ''prior_generation'', ''prior_version'', ''prior_config'',
               ''prior_recovery_generation'', ''prior_cutoff_ms''] in
        (pexpire R s policy ttl, Some [''finalized'']))"

text \<open>The check of an initialised policy: \<^const>\<open>None\<close> when the script goes on.\<close>

definition recovery_check ::
    "'s Redis \<Rightarrow> arg \<Rightarrow> arg \<Rightarrow> arg \<Rightarrow> arg \<Rightarrow> arg \<Rightarrow> arg \<Rightarrow> arg \<Rightarrow> 's \<Rightarrow> string option" where
  "recovery_check R policy epoch generation version config recovery fingerprint s =
     (let v = hget R s policy; current = or_zero (v ''active_recovery_generation'') in
      if v ''active_epoch'' = None then None
      else if v ''active_epoch'' \<noteq> Some epoch \<or> v ''active_generation'' \<noteq> Some generation
         \<or> v ''active_version'' \<noteq> Some version \<or> v ''active_config'' \<noteq> Some config
      then Some ''conflict''
      else if current = recovery
      then (if v ''active_recovery_fingerprint'' \<noteq> Some fingerprint then Some ''conflict''
            else Some ''installed'')
      else if dec_add current ''1'' \<noteq> recovery then Some ''conflict''
      else None)"

definition recovery_write ::
    "'s Redis \<Rightarrow> arg \<Rightarrow> arg \<Rightarrow> arg \<Rightarrow> arg \<Rightarrow> arg \<Rightarrow> arg \<Rightarrow> arg \<Rightarrow> arg \<Rightarrow> arg
      \<Rightarrow> arg \<Rightarrow> arg \<Rightarrow> nat \<Rightarrow> 's \<Rightarrow> 's \<times> reply" where
  "recovery_write R policy ledger epoch generation version config recovery allowance limit
       recovery_id fingerprint ttl s =
     (let s = hset R s ledger
            [(''charged_nanos'', dec_sub limit allowance), (''returned_nanos'', ''0''),
             (''recovery_generation'', recovery), (''recovery_id'', recovery_id)];
          s = hset R s policy
            [(''active_epoch'', epoch), (''active_generation'', generation),
             (''active_version'', version), (''active_config'', config),
             (''active_recovery_generation'', recovery), (''active_recovery_id'', recovery_id),
             (''active_recovery_fingerprint'', fingerprint), (''state'', ''finalized'')] in
      (pexpire R (pexpire R s policy ttl) ledger ttl, Some [''installed'']))"

definition recovery_install_script ::
    "(string \<Rightarrow> PolicyCoordinatorConfig option) \<Rightarrow> 's Redis \<Rightarrow> arg \<Rightarrow> arg \<Rightarrow> arg \<Rightarrow> arg \<Rightarrow> arg
      \<Rightarrow> arg \<Rightarrow> arg \<Rightarrow> arg \<Rightarrow> arg \<Rightarrow> arg \<Rightarrow> arg \<Rightarrow> arg \<Rightarrow> arg \<Rightarrow> nat \<Rightarrow> 's \<Rightarrow> 's \<times> reply" where
  "recovery_install_script decode R policy ledger epoch generation version config recovery allowance
       limit recovery_id fingerprint kind policy_id ttl s =
     (case recovery_check R policy epoch generation version config recovery fingerprint s of
        Some answer \<Rightarrow> (s, Some [answer])
      | None \<Rightarrow>
          (case decode config of
             None \<Rightarrow> (s, None)
           | Some (RequestLimitsConfig _ _ _ _ _ _ _ _ _ _) \<Rightarrow> (s, Some [''conflict''])
           | Some (BudgetConfig _ mode limit_cost_nanos _ _) \<Rightarrow>
               if mode \<noteq> ''enforce'' \<or> limit_cost_nanos \<noteq> limit then (s, Some [''conflict''])
               else if dec_cmp allowance limit > 0 then (s, Some [''conflict''])
               else
                 let old = hget R s ledger in
                 if old ''policy_kind'' \<noteq> None then
                   (if old ''policy_kind'' \<noteq> Some kind \<or> old ''policy_id'' \<noteq> Some policy_id
                       \<or> old ''epoch'' \<noteq> Some epoch
                    then (s, Some [''conflict''])
                    else recovery_write R policy ledger epoch generation version config recovery
                      allowance limit recovery_id fingerprint ttl s)
                 else recovery_write R policy ledger epoch generation version config recovery
                   allowance limit recovery_id fingerprint ttl
                   (hset R s ledger
                      [(''policy_kind'', kind), (''policy_id'', policy_id), (''epoch'', epoch),
                       (''rate_request_tokens'', ''''), (''rate_input_tokens'', ''''),
                       (''rate_refill_ms'', '''')])))"

subsection \<open>Budget allowances\<close>

definition select_budget_config ::
    "'s Redis \<Rightarrow> arg \<Rightarrow> arg \<Rightarrow> arg \<Rightarrow> arg \<Rightarrow> arg \<Rightarrow> 's \<Rightarrow> string option" where
  "select_budget_config R policy epoch generation version recovery s =
     (let v = hget R s policy; cutoff = or_empty (v ''prior_cutoff_ms'') in
      if v ''active_epoch'' = Some epoch \<and> v ''active_generation'' = Some generation
         \<and> v ''active_version'' = Some version
         \<and> or_zero (v ''active_recovery_generation'') = recovery
      then v ''active_config''
      else if v ''state'' = Some ''active'' \<and> v ''prior_epoch'' = Some epoch
         \<and> v ''prior_generation'' = Some generation \<and> v ''prior_version'' = Some version
         \<and> or_zero (v ''prior_recovery_generation'') = recovery
      then (if cutoff \<noteq> [] \<and> dec_cmp (dec_of_nat (now_ms R s)) cutoff > 0 then None
            else v ''prior_config'')
      else None)"

datatype side_check = SideAbsent | SideRefused | SideOk string nat

text \<open>\<open>validate_side\<close>: \<^const>\<open>None\<close> is a stop of the script, at a text that does not decode.\<close>

definition validate_side ::
    "(string \<Rightarrow> PolicyCoordinatorConfig option) \<Rightarrow> 's Redis \<Rightarrow> arg \<Rightarrow> arg \<Rightarrow> arg \<Rightarrow> arg \<Rightarrow> arg
      \<Rightarrow> arg \<Rightarrow> arg \<Rightarrow> arg \<Rightarrow> bool \<Rightarrow> 's \<Rightarrow> side_check option" where
  "validate_side decode R policy ledger present epoch generation version recovery amount once s =
     (if present \<noteq> ''1'' then Some SideAbsent
      else (case select_budget_config R policy epoch generation version recovery s of
          None \<Rightarrow> Some SideRefused
        | Some encoded \<Rightarrow>
            (case decode encoded of
               None \<Rightarrow> None
             | Some (RequestLimitsConfig _ _ _ _ _ _ _ _ _ _) \<Rightarrow> Some SideRefused
             | Some (BudgetConfig _ mode limit max_slice grant_seconds) \<Rightarrow>
                 let v = hget R s ledger;
                     next_charge = dec_add (or_zero (v ''charged_nanos'')) amount in
                 if mode \<noteq> ''enforce'' then Some SideRefused
                 else if \<not> once \<and> dec_cmp amount max_slice > 0 then Some SideRefused
                 else if v ''epoch'' \<noteq> Some epoch \<or> or_zero (v ''recovery_generation'') \<noteq> recovery
                 then Some SideRefused
                 else if dec_cmp next_charge limit > 0 then Some SideRefused
                 else Some (SideOk next_charge grant_seconds))))"

definition side_ttl :: "nat \<Rightarrow> side_check \<Rightarrow> nat" where
  "side_ttl ttl side = (case side of SideOk _ seconds \<Rightarrow> min ttl seconds | _ \<Rightarrow> ttl)"

definition charge_side :: "'s Redis \<Rightarrow> arg \<Rightarrow> side_check \<Rightarrow> 's \<Rightarrow> 's" where
  "charge_side R ledger side s =
     (case side of SideOk next_charge _ \<Rightarrow> hset R s ledger [(''charged_nanos'', next_charge)] | _ \<Rightarrow> s)"

text \<open>The six arguments of one side.\<close>

record SideArgs =
  arg_present :: string
  arg_epoch :: string
  arg_generation :: string
  arg_version :: string
  arg_recovery :: string
  arg_amount :: string

definition validate_args ::
    "(string \<Rightarrow> PolicyCoordinatorConfig option) \<Rightarrow> 's Redis \<Rightarrow> arg \<Rightarrow> arg \<Rightarrow> SideArgs \<Rightarrow> bool \<Rightarrow> 's
      \<Rightarrow> side_check option" where
  "validate_args decode R policy ledger a =
     validate_side decode R policy ledger (arg_present a) (arg_epoch a) (arg_generation a)
       (arg_version a) (arg_recovery a) (arg_amount a)"

definition budget_grant_script ::
    "(string \<Rightarrow> PolicyCoordinatorConfig option) \<Rightarrow> 's Redis \<Rightarrow> arg \<Rightarrow> arg \<Rightarrow> arg \<Rightarrow> arg \<Rightarrow> arg
      \<Rightarrow> arg \<Rightarrow> nat \<Rightarrow> bool \<Rightarrow> SideArgs \<Rightarrow> SideArgs \<Rightarrow> nat \<Rightarrow> 's \<Rightarrow> 's \<times> reply" where
  "budget_grant_script decode R key_policy key_ledger origin_policy origin_ledger grant
       fingerprint ttl once key_args origin_args metadata_ttl s =
     (if hget R s grant ''fingerprint'' \<noteq> None then
        (if hget R s grant ''fingerprint'' \<noteq> Some fingerprint then (s, Some [''conflict''])
         else (s, map_option (\<lambda>expires. [''granted'', expires]) (hget R s grant ''expires_ms'')))
      else (case validate_args decode R key_policy key_ledger key_args once s of
          None \<Rightarrow> (s, None)
        | Some key_side \<Rightarrow>
      (case validate_args decode R origin_policy origin_ledger origin_args once s of
          None \<Rightarrow> (s, None)
        | Some origin_side \<Rightarrow>
            if key_side = SideRefused \<or> origin_side = SideRefused
               \<or> key_side = SideAbsent \<and> origin_side = SideAbsent
            then (s, Some [''denied''])
            else
              let ttl_seconds = side_ttl (side_ttl ttl key_side) origin_side;
                  expires_ms = dec_of_nat (now_ms R s + ttl_seconds * 1000) in
              if ttl_seconds < 1 then (s, Some [''denied''])
              else
                let s = charge_side R origin_ledger origin_side (charge_side R key_ledger key_side s);
                    s = hset R s grant
                      [(''fingerprint'', fingerprint), (''expires_ms'', expires_ms),
                       (''key_present'', arg_present key_args), (''key_amount'', arg_amount key_args),
                       (''key_returned'', ''''), (''origin_present'', arg_present origin_args),
                       (''origin_amount'', arg_amount origin_args), (''origin_returned'', '''')] in
                (pexpire R s grant metadata_ttl, Some [''granted'', expires_ms]))))"

text \<open>
  A missing expiry would be a false inside the reply, which the client does not read as a
  string; the script writes both fields together.  In the return script a comparison
  with a missing amount stops the script.
\<close>

definition unused_exceeds :: "string option \<Rightarrow> arg \<Rightarrow> string option \<Rightarrow> bool option" where
  "unused_exceeds present unused amount =
     (if present \<noteq> Some ''1'' then Some False else map_option (\<lambda>a. dec_cmp unused a > 0) amount)"

text \<open>One side's write-back; \<^const>\<open>None\<close> is the conflict of a charge below the unused amount.\<close>

definition return_side :: "'s Redis \<Rightarrow> arg \<Rightarrow> string option \<Rightarrow> arg \<Rightarrow> 's \<Rightarrow> 's option" where
  "return_side R ledger present unused s =
     (if present = Some ''1'' then
        let charged = or_zero (hget R s ledger ''charged_nanos'') in
        if dec_cmp charged unused < 0 then None
        else Some (hset R s ledger
          [(''charged_nanos'', dec_sub charged unused),
           (''returned_nanos'', dec_add (or_zero (hget R s ledger ''returned_nanos'')) unused)])
      else Some s)"

definition budget_return_script ::
    "'s Redis \<Rightarrow> arg \<Rightarrow> arg \<Rightarrow> arg \<Rightarrow> arg \<Rightarrow> arg \<Rightarrow> arg \<Rightarrow> nat \<Rightarrow> 's \<Rightarrow> 's \<times> reply" where
  "budget_return_script R key_ledger origin_ledger grant fingerprint key_unused origin_unused ttl s =
     (let v = hget R s grant in
      if v ''fingerprint'' = None then (s, Some [''not_found''])
      else if v ''fingerprint'' \<noteq> Some fingerprint then (s, Some [''conflict''])
      else if v ''key_returned'' \<noteq> Some '''' \<or> v ''origin_returned'' \<noteq> Some '''' then
        (if v ''key_returned'' = Some key_unused \<and> v ''origin_returned'' = Some origin_unused
         then (s, Some [''returned'']) else (s, Some [''conflict'']))
      else (case unused_exceeds (v ''key_present'') key_unused (v ''key_amount'') of
          None \<Rightarrow> (s, None)
        | Some True \<Rightarrow> (s, Some [''conflict''])
        | Some False \<Rightarrow>
      (case unused_exceeds (v ''origin_present'') origin_unused (v ''origin_amount'') of
          None \<Rightarrow> (s, None)
        | Some True \<Rightarrow> (s, Some [''conflict''])
        | Some False \<Rightarrow>
            if v ''key_present'' \<noteq> Some ''1'' \<and> key_unused \<noteq> ''0'' then (s, Some [''conflict''])
            else if v ''origin_present'' \<noteq> Some ''1'' \<and> origin_unused \<noteq> ''0''
            then (s, Some [''conflict''])
            else (case return_side R key_ledger (v ''key_present'') key_unused s of
                None \<Rightarrow> (s, Some [''conflict''])
              | Some s1 \<Rightarrow>
                  (case return_side R origin_ledger (v ''origin_present'') origin_unused s1 of
                     None \<Rightarrow> (s1, Some [''conflict''])
                   | Some s2 \<Rightarrow>
                       (pexpire R (hset R s2 grant
                          [(''key_returned'', key_unused), (''origin_returned'', origin_unused)])
                          grant ttl, Some [''returned'']))))))"

subsection \<open>Concurrency\<close>

text \<open>The outer \<^const>\<open>None\<close> is a stop of the script, at a cutoff that is no number.\<close>

definition select_plain_config ::
    "'s Redis \<Rightarrow> arg \<Rightarrow> arg \<Rightarrow> arg \<Rightarrow> arg \<Rightarrow> 's \<Rightarrow> string option option" where
  "select_plain_config R policy epoch generation version s =
     (let v = hget R s policy; cutoff = or_empty (v ''prior_cutoff_ms'') in
      if v ''active_epoch'' = Some epoch \<and> v ''active_generation'' = Some generation
         \<and> v ''active_version'' = Some version
      then Some (v ''active_config'')
      else if v ''state'' = Some ''active'' \<and> v ''prior_epoch'' = Some epoch
         \<and> v ''prior_generation'' = Some generation \<and> v ''prior_version'' = Some version
      then (if cutoff = [] then Some (v ''prior_config'')
            else map_option (\<lambda>t. if now_ms R s > t then None else v ''prior_config'') (tonumber cutoff))
      else Some None)"

text \<open>The loop over the expired grants; no amount is a stop at a field that is no number.\<close>

fun drop_expired :: "'s Redis \<Rightarrow> string \<Rightarrow> string list \<Rightarrow> nat \<Rightarrow> 's \<Rightarrow> 's \<times> nat option" where
  "drop_expired R grants [] allocated s = (s, Some allocated)"
| "drop_expired R grants (gid # gids) allocated s =
     (case tonumber (or_zero (hget R s grants gid)) of
        None \<Rightarrow> (s, None)
      | Some slots \<Rightarrow> drop_expired R grants gids (allocated - slots) (hdel R s grants [gid]))"

text \<open>\<open>math.max(0, a - b)\<close> is subtraction of naturals.\<close>

definition approximate_take ::
    "'s Redis \<Rightarrow> arg \<Rightarrow> arg \<Rightarrow> arg \<Rightarrow> nat \<Rightarrow> nat option \<Rightarrow> nat \<Rightarrow> nat \<Rightarrow> nat \<Rightarrow> 's \<Rightarrow> 's \<times> reply" where
  "approximate_take R expiries grants grant_id requested limit max_stream ttl allocated s =
     (case hget R s grants grant_id of
        Some existing \<Rightarrow>
          (s, map_option (\<lambda>t. [''granted'', existing, dec_of_nat t]) (zscore R s expiries grant_id))
      | None \<Rightarrow>
          (case limit of
             None \<Rightarrow> (s, None)
           | Some limit \<Rightarrow>
               let granted = min requested (limit - allocated);
                   expires_ms = now_ms R s + (max_stream + 30) * 1000 in
               if granted < 1 then (s, Some [''denied''])
               else
                 let s = hset R s grants
                       [(''allocated'', dec_of_nat (allocated + granted)),
                        (grant_id, dec_of_nat granted)];
                     s = zadd R s expiries expires_ms grant_id in
                 (pexpire R (pexpire R s expiries ttl) grants ttl,
                  Some [''granted'', dec_of_nat granted, dec_of_nat expires_ms])))"

definition approximate_script ::
    "(string \<Rightarrow> PolicyCoordinatorConfig option) \<Rightarrow> 's Redis \<Rightarrow> arg \<Rightarrow> arg \<Rightarrow> arg \<Rightarrow> arg \<Rightarrow> arg
      \<Rightarrow> arg \<Rightarrow> arg \<Rightarrow> nat \<Rightarrow> nat \<Rightarrow> 's \<Rightarrow> 's \<times> reply" where
  "approximate_script decode R policy expiries grants epoch generation version grant_id requested ttl s =
     (case select_plain_config R policy epoch generation version s of
        None \<Rightarrow> (s, None)
      | Some None \<Rightarrow> (s, Some [''conflict''])
      | Some (Some encoded) \<Rightarrow>
          (case decode encoded of
             None \<Rightarrow> (s, None)
           | Some (BudgetConfig _ _ _ _ _) \<Rightarrow> (s, Some [''conflict''])
           | Some (RequestLimitsConfig _ _ _ _ _ _ mode limit _ max_stream) \<Rightarrow>
               if mode \<noteq> Some ''approximate'' then (s, Some [''conflict''])
               else
                 let now = now_ms R s; expired = zrange_to R s expiries now in
                 (case tonumber (or_zero (hget R s grants ''allocated'')) of
                    None \<Rightarrow> (s, None)
                  | Some allocated \<Rightarrow>
                      (case drop_expired R grants expired allocated s of
                         (s, None) \<Rightarrow> (s, None)
                       | (s, Some allocated) \<Rightarrow>
                           approximate_take R expiries grants grant_id requested limit max_stream ttl
                             allocated (if expired \<noteq> [] then zrem_to R s expiries now else s)))))"

definition strict_script ::
    "(string \<Rightarrow> PolicyCoordinatorConfig option) \<Rightarrow> 's Redis \<Rightarrow> arg \<Rightarrow> arg \<Rightarrow> arg \<Rightarrow> arg \<Rightarrow> arg
      \<Rightarrow> arg \<Rightarrow> nat \<Rightarrow> nat \<Rightarrow> 's \<Rightarrow> 's \<times> reply" where
  "strict_script decode R policy leases epoch generation version lease_id seconds ttl s =
     (case select_plain_config R policy epoch generation version s of
        None \<Rightarrow> (s, None)
      | Some None \<Rightarrow> (s, Some [''conflict''])
      | Some (Some encoded) \<Rightarrow>
          (case decode encoded of
             None \<Rightarrow> (s, None)
           | Some (BudgetConfig _ _ _ _ _) \<Rightarrow> (s, Some [''conflict''])
           | Some (RequestLimitsConfig _ _ _ _ _ _ mode limit lease _) \<Rightarrow>
               if mode \<noteq> Some ''strict'' \<or> lease \<noteq> Some seconds then (s, Some [''conflict''])
               else
                 let now = now_ms R s; s = zrem_to R s leases now in
                 (case zscore R s leases lease_id of
                    Some existing \<Rightarrow> (s, Some [''acquired'', dec_of_nat existing, dec_of_nat now])
                  | None \<Rightarrow>
                      (case limit of
                         None \<Rightarrow> (s, None)
                       | Some limit \<Rightarrow>
                           if zcard R s leases \<ge> limit then (s, Some [''denied''])
                           else
                             let expires = now + seconds * 1000;
                                 s = zadd R s leases expires lease_id in
                             (pexpire R s leases (seconds * 1000 + ttl),
                              Some [''acquired'', dec_of_nat expires, dec_of_nat now])))))"

subsection \<open>State origins and target health\<close>

definition state_origin_put_script ::
    "'s Redis \<Rightarrow> arg \<Rightarrow> arg \<Rightarrow> nat \<Rightarrow> 's \<Rightarrow> 's \<times> reply" where
  "state_origin_put_script R key payload ttl s =
     (case get_string R s key of
        Some existing \<Rightarrow> (s, Some [if existing = payload then ''stored'' else ''conflict''])
      | None \<Rightarrow> (set_px R s key payload ttl, Some [''stored'']))"

definition target_health_put_script ::
    "'s Redis \<Rightarrow> arg \<Rightarrow> arg \<Rightarrow> arg \<Rightarrow> arg \<Rightarrow> nat \<Rightarrow> 's \<Rightarrow> 's \<times> reply" where
  "target_health_put_script R lease_key health_key owner payload ttl s =
     (if get_string R s lease_key \<noteq> Some owner then (s, Some [''not_owner''])
      else (set_px R s health_key payload ttl, Some [''stored'']))"

end
