(* ===== verification/Budget.thy ===== *)
theory Budget
  imports Policies
begin

section \<open>Local budget allowances\<close>

text \<open>
  The budget half of \<open>LocalAdmissionState\<close> in
  \<open>crates/owlrora-server/src/gateway/admission.rs\<close>: allowances granted by the
  coordinator for a pair of policies, the reservations attempts take out of them, the
  settlement of an attempt's actual cost, the debts a settlement leaves behind, and the
  return of unused allowances.  Each function of the code locks the state, runs to its end
  and unlocks: it is a function of the state.  The failure of the lock (poisoning) and of
  the system clock are not modelled.  Amounts are nanos of the currency, kept in 128 bits
  with saturating additions as in the code.
\<close>

record BudgetPairKey =
  bpk_key :: "PolicyReference option"
  bpk_origin :: "PolicyReference option"

record LocalRateGrant =
  lrg_id :: uuid
  lrg_expires_at_unix_ms :: nat
  remaining_requests :: nat
  remaining_input :: nat

record LocalConcurrencyGrant =
  lcg_id :: uuid
  lcg_expires_at_unix_ms :: nat
  slots :: nat
  lcg_in_use :: nat

record LocalBudgetGrant =
  lbg_request :: PairedBudgetGrantRequest
  lbg_expires_at_unix_ms :: nat
  key_remaining_nanos :: nat
  origin_remaining_nanos :: nat
  in_use :: nat
  returning :: bool

record ReturningBudgetGrant =
  ret_pair :: BudgetPairKey
  ret_request :: PairedBudgetGrantRequest
  ret_key_remaining_nanos :: nat
  ret_origin_remaining_nanos :: nat

record BudgetLedgerKey =
  blk_organization_id :: uuid
  blk_kind :: PolicyKind
  blk_policy_id :: uuid
  blk_epoch :: string

record LocalAdmissionState =
  rate_grants :: "(PolicyReference \<times> LocalRateGrant list) list"
  concurrency_grants :: "(PolicyReference \<times> LocalConcurrencyGrant list) list"
  budget_grants :: "(BudgetPairKey \<times> LocalBudgetGrant list) list"
  budget_debts :: "(BudgetLedgerKey \<times> nat) list"

definition LocalAdmissionState_default :: LocalAdmissionState where
  "LocalAdmissionState_default =
     \<lparr>rate_grants = [], concurrency_grants = [], budget_grants = [], budget_debts = []\<rparr>"

text \<open>The state behind a reservation's \<open>Arc\<close> is the one its operations are given.\<close>

record AttemptReservation =
  res_pair :: "BudgetPairKey option"
  res_grant_id :: "uuid option"
  key_reserved_nanos :: nat
  origin_reserved_nanos :: nat
  estimated_cost_nanos :: "nat option"
  dispatched :: bool
  released :: bool

definition BudgetLedgerKey_from :: "PolicyReference \<Rightarrow> BudgetLedgerKey" where
  "BudgetLedgerKey_from policy =
     \<lparr>blk_organization_id = pr_organization_id policy, blk_kind = pr_kind policy,
      blk_policy_id = pr_policy_id policy, blk_epoch = pr_epoch policy\<rparr>"

definition grant_entry :: "BudgetPairKey \<Rightarrow> LocalAdmissionState \<Rightarrow> LocalBudgetGrant list" where
  "grant_entry pair local = (case aget (budget_grants local) pair of None \<Rightarrow> [] | Some gs \<Rightarrow> gs)"

abbreviation grant_id_of :: "LocalBudgetGrant \<Rightarrow> uuid" where
  "grant_id_of g \<equiv> pbg_grant_id (lbg_request g)"

subsection \<open>Debts\<close>

definition pay_budget_debt ::
    "(BudgetLedgerKey \<times> nat) list \<Rightarrow> PolicyReference option \<Rightarrow> nat
      \<Rightarrow> (BudgetLedgerKey \<times> nat) list \<times> nat" where
  "pay_budget_debt debts policy remaining =
     (case policy of
        None \<Rightarrow> (debts, remaining)
      | Some p \<Rightarrow>
          (case aget debts (BudgetLedgerKey_from p) of
             None \<Rightarrow> (debts, remaining)
           | Some debt \<Rightarrow>
               let payment = min remaining debt in
               (if debt - payment = 0 then adel (BudgetLedgerKey_from p) debts
                else aput (BudgetLedgerKey_from p) (debt - payment) debts,
                remaining - payment)))"

definition pay_grant ::
    "BudgetPairKey \<Rightarrow> (BudgetLedgerKey \<times> nat) list \<Rightarrow> LocalBudgetGrant
      \<Rightarrow> (BudgetLedgerKey \<times> nat) list \<times> LocalBudgetGrant" where
  "pay_grant pair debts g =
     (let (debts, k) = pay_budget_debt debts (bpk_key pair) (key_remaining_nanos g);
          (debts, r) = pay_budget_debt debts (bpk_origin pair) (origin_remaining_nanos g) in
      (debts, g\<lparr>key_remaining_nanos := k, origin_remaining_nanos := r\<rparr>))"

fun pay_grants ::
    "BudgetPairKey \<Rightarrow> (BudgetLedgerKey \<times> nat) list \<Rightarrow> LocalBudgetGrant list
      \<Rightarrow> (BudgetLedgerKey \<times> nat) list \<times> LocalBudgetGrant list" where
  "pay_grants pair debts [] = (debts, [])"
| "pay_grants pair debts (g # gs) =
     (let (debts, g) = (if returning g then (debts, g) else pay_grant pair debts g);
          (debts, gs) = pay_grants pair debts gs in
      (debts, g # gs))"

definition pair_policies :: "BudgetPairKey \<Rightarrow> PolicyReference list" where
  "pair_policies pair = List.map_filter (\<lambda>p. p) [bpk_key pair, bpk_origin pair]"

definition pair_in_debt :: "BudgetPairKey \<Rightarrow> (BudgetLedgerKey \<times> nat) list \<Rightarrow> bool" where
  "pair_in_debt pair debts \<longleftrightarrow>
     list_ex (\<lambda>policy. aget debts (BudgetLedgerKey_from policy) \<noteq> None) (pair_policies pair)"

subsection \<open>Reserving\<close>

definition can_reserve :: "nat \<Rightarrow> nat \<Rightarrow> nat \<Rightarrow> LocalBudgetGrant \<Rightarrow> bool" where
  "can_reserve now key_estimate origin_estimate g \<longleftrightarrow>
     \<not> returning g \<and> lbg_expires_at_unix_ms g > now
     \<and> key_remaining_nanos g \<ge> key_estimate \<and> origin_remaining_nanos g \<ge> origin_estimate"

definition take_reservation :: "nat \<Rightarrow> nat \<Rightarrow> LocalBudgetGrant \<Rightarrow> LocalBudgetGrant" where
  "take_reservation key_estimate origin_estimate g =
     g\<lparr>key_remaining_nanos := key_remaining_nanos g - key_estimate,
       origin_remaining_nanos := origin_remaining_nanos g - origin_estimate,
       in_use := saturating_add u32_max (in_use g) 1\<rparr>"

definition try_reserve_budget ::
    "nat \<Rightarrow> BudgetPairKey \<Rightarrow> nat \<Rightarrow> nat \<Rightarrow> nat option \<Rightarrow> LocalAdmissionState
      \<Rightarrow> LocalAdmissionState \<times> AttemptReservation option" where
  "try_reserve_budget now pair key_estimate origin_estimate estimated local =
     (let (debts, gs) = pay_grants pair (budget_debts local) (grant_entry pair local);
          local = local\<lparr>budget_debts := debts\<rparr> in
      if pair_in_debt pair debts
      then (local\<lparr>budget_grants := aput pair gs (budget_grants local)\<rparr>, None)
      else (case find (can_reserve now key_estimate origin_estimate) gs of
          None \<Rightarrow> (local\<lparr>budget_grants := aput pair gs (budget_grants local)\<rparr>, None)
        | Some g \<Rightarrow>
            (local\<lparr>budget_grants :=
               aput pair
                 (update_first (can_reserve now key_estimate origin_estimate)
                    (take_reservation key_estimate origin_estimate) gs)
                 (budget_grants local)\<rparr>,
             Some \<lparr>res_pair = Some pair, res_grant_id = Some (grant_id_of g),
                   key_reserved_nanos = key_estimate, origin_reserved_nanos = origin_estimate,
                   estimated_cost_nanos = estimated, dispatched = False, released = False\<rparr>)))"

definition install_budget_grant ::
    "BudgetPairKey \<Rightarrow> PairedBudgetGrantRequest \<Rightarrow> AllowanceGrant \<Rightarrow> LocalAdmissionState
      \<Rightarrow> LocalAdmissionState" where
  "install_budget_grant pair request grant local =
     (let gs = grant_entry pair local in
      if list_ex (\<lambda>existing. grant_id_of existing = ag_id grant) gs
      then local\<lparr>budget_grants := aput pair gs (budget_grants local)\<rparr>
      else
        let (debts, k) = pay_budget_debt (budget_debts local) (bpk_key pair)
              (case key_amount_nanos grant of None \<Rightarrow> 0 | Some n \<Rightarrow> n);
            (debts, r) = pay_budget_debt debts (bpk_origin pair)
              (case origin_amount_nanos grant of None \<Rightarrow> 0 | Some n \<Rightarrow> n) in
        local\<lparr>budget_debts := debts,
          budget_grants :=
            aput pair
              (gs @ [\<lparr>lbg_request = request, lbg_expires_at_unix_ms = ag_expires_at_unix_ms grant,
                      key_remaining_nanos = k, origin_remaining_nanos = r, in_use = 0,
                      returning = False\<rparr>])
              (budget_grants local)\<rparr>)"

subsection \<open>Ending a reservation\<close>

text \<open>\<open>get_mut(pair)\<close>, \<open>iter_mut().find(grant_id)\<close> and a write through it.\<close>

definition modify_grant ::
    "BudgetPairKey \<Rightarrow> uuid \<Rightarrow> (LocalBudgetGrant \<Rightarrow> LocalBudgetGrant) \<Rightarrow> LocalAdmissionState
      \<Rightarrow> LocalAdmissionState" where
  "modify_grant pair gid f local =
     (case aget (budget_grants local) pair of
        None \<Rightarrow> local
      | Some gs \<Rightarrow> local\<lparr>budget_grants :=
          aput pair (update_first (\<lambda>g. grant_id_of g = gid) f gs) (budget_grants local)\<rparr>)"

definition find_grant :: "BudgetPairKey \<Rightarrow> uuid \<Rightarrow> LocalAdmissionState \<Rightarrow> LocalBudgetGrant option" where
  "find_grant pair gid local =
     Option.bind (aget (budget_grants local) pair) (find (\<lambda>g. grant_id_of g = gid))"

definition abandon_budget_reservation ::
    "BudgetPairKey \<Rightarrow> uuid \<Rightarrow> LocalAdmissionState \<Rightarrow> LocalAdmissionState" where
  "abandon_budget_reservation pair gid =
     modify_grant pair gid (\<lambda>g. g\<lparr>in_use := in_use g - 1\<rparr>)"

definition release_budget_reservation ::
    "BudgetPairKey \<Rightarrow> uuid \<Rightarrow> nat \<Rightarrow> nat \<Rightarrow> LocalAdmissionState \<Rightarrow> LocalAdmissionState" where
  "release_budget_reservation pair gid key_nanos origin_nanos =
     modify_grant pair gid (\<lambda>g.
       g\<lparr>key_remaining_nanos := saturating_add u128_max (key_remaining_nanos g) key_nanos,
         origin_remaining_nanos := saturating_add u128_max (origin_remaining_nanos g) origin_nanos,
         in_use := in_use g - 1\<rparr>)"

text \<open>The new remaining amount and the debt one side of a settlement leaves.\<close>

definition settle_budget_side :: "nat \<Rightarrow> nat \<Rightarrow> nat \<Rightarrow> nat \<times> nat" where
  "settle_budget_side remaining reserved actual =
     (if actual \<le> reserved
      then (saturating_add u128_max remaining (reserved - actual), 0)
      else let excess = actual - reserved; covered = min remaining excess in
           (remaining - covered, excess - covered))"

definition add_debt ::
    "PolicyReference option \<Rightarrow> nat \<Rightarrow> (BudgetLedgerKey \<times> nat) list \<Rightarrow> (BudgetLedgerKey \<times> nat) list"
  where
  "add_debt policy amount debts =
     (case policy of
        None \<Rightarrow> debts
      | Some p \<Rightarrow>
          if amount > 0
          then aput (BudgetLedgerKey_from p)
                 (saturating_add u128_max
                    (case aget debts (BudgetLedgerKey_from p) of None \<Rightarrow> 0 | Some d \<Rightarrow> d) amount)
                 debts
          else debts)"

definition settle_budget_reservation ::
    "BudgetPairKey \<Rightarrow> uuid \<Rightarrow> nat \<Rightarrow> nat \<Rightarrow> nat \<Rightarrow> LocalAdmissionState \<Rightarrow> LocalAdmissionState" where
  "settle_budget_reservation pair gid key_reserved origin_reserved actual local =
     (let key_actual = (if bpk_key pair = None then 0 else actual);
          origin_actual = (if bpk_origin pair = None then 0 else actual);
          (local, key_debt, origin_debt) =
            (case find_grant pair gid local of
               Some g \<Rightarrow>
                 let (k, key_debt) =
                       settle_budget_side (key_remaining_nanos g) key_reserved key_actual;
                     (r, origin_debt) =
                       settle_budget_side (origin_remaining_nanos g) origin_reserved origin_actual in
                 (modify_grant pair gid (\<lambda>g. g\<lparr>key_remaining_nanos := k,
                    origin_remaining_nanos := r, in_use := in_use g - 1\<rparr>) local,
                  key_debt, origin_debt)
             | None \<Rightarrow>
                 (local, if bpk_key pair = None then 0 else actual - key_reserved,
                  if bpk_origin pair = None then 0 else actual - origin_reserved)) in
      local\<lparr>budget_debts :=
        add_debt (bpk_origin pair) origin_debt
          (add_debt (bpk_key pair) key_debt (budget_debts local))\<rparr>)"

subsection \<open>The life of a reservation\<close>

definition AttemptReservation_unconstrained :: "nat option \<Rightarrow> AttemptReservation" where
  "AttemptReservation_unconstrained estimated =
     \<lparr>res_pair = None, res_grant_id = None, key_reserved_nanos = 0, origin_reserved_nanos = 0,
      estimated_cost_nanos = estimated, dispatched = False, released = False\<rparr>"

definition mark_dispatched :: "AttemptReservation \<Rightarrow> AttemptReservation" where
  "mark_dispatched self = self\<lparr>dispatched := True\<rparr>"

definition definitely_not_dispatched ::
    "AttemptReservation \<Rightarrow> LocalAdmissionState \<Rightarrow> AttemptReservation \<times> LocalAdmissionState" where
  "definitely_not_dispatched self local =
     (if released self then (self, local)
      else (self\<lparr>released := True\<rparr>,
            case (res_pair self, res_grant_id self) of
              (Some pair, Some gid) \<Rightarrow>
                release_budget_reservation pair gid (key_reserved_nanos self)
                  (origin_reserved_nanos self) local
            | _ \<Rightarrow> local))"

definition settle_actual_cost ::
    "nat \<Rightarrow> AttemptReservation \<Rightarrow> LocalAdmissionState \<Rightarrow> AttemptReservation \<times> LocalAdmissionState"
  where
  "settle_actual_cost actual self local =
     (if released self then (self, local)
      else (self\<lparr>released := True\<rparr>,
            case (res_pair self, res_grant_id self) of
              (Some pair, Some gid) \<Rightarrow>
                settle_budget_reservation pair gid (key_reserved_nanos self)
                  (origin_reserved_nanos self) actual local
            | _ \<Rightarrow> local))"

definition AttemptReservation_drop ::
    "AttemptReservation \<Rightarrow> LocalAdmissionState \<Rightarrow> AttemptReservation \<times> LocalAdmissionState" where
  "AttemptReservation_drop self local =
     (let (self, local) =
            (if dispatched self then (self, local) else definitely_not_dispatched self local) in
      if released self then (self, local)
      else (self\<lparr>released := True\<rparr>,
            case (res_pair self, res_grant_id self) of
              (Some pair, Some gid) \<Rightarrow> abandon_budget_reservation pair gid local
            | _ \<Rightarrow> local))"

subsection \<open>Returning unused allowances\<close>

definition BUDGET_RETURN_AHEAD_MILLIS :: nat where "BUDGET_RETURN_AHEAD_MILLIS = 30000"

text \<open>
  The first half of \<open>return_budget_grants\<close>, under the lock: the idle grants that
  are due pay their debts, are frozen and put on the list of returns.
\<close>

definition freeze_grant ::
    "BudgetPairKey \<Rightarrow> (BudgetLedgerKey \<times> nat) list \<Rightarrow> LocalBudgetGrant
      \<Rightarrow> (BudgetLedgerKey \<times> nat) list \<times> LocalBudgetGrant" where
  "freeze_grant pair debts g =
     (if returning g then (debts, g)
      else let (debts, g) = pay_grant pair debts g in (debts, g\<lparr>returning := True\<rparr>))"

definition return_due :: "bool \<Rightarrow> nat \<Rightarrow> LocalBudgetGrant \<Rightarrow> bool" where
  "return_due close_all deadline g \<longleftrightarrow>
     in_use g = 0 \<and> (returning g \<or> close_all \<or> lbg_expires_at_unix_ms g \<le> deadline)"

definition returning_of :: "BudgetPairKey \<Rightarrow> LocalBudgetGrant \<Rightarrow> ReturningBudgetGrant" where
  "returning_of pair g =
     \<lparr>ret_pair = pair, ret_request = lbg_request g,
      ret_key_remaining_nanos = key_remaining_nanos g,
      ret_origin_remaining_nanos = origin_remaining_nanos g\<rparr>"

fun freeze_list ::
    "BudgetPairKey \<Rightarrow> bool \<Rightarrow> nat \<Rightarrow> (BudgetLedgerKey \<times> nat) list \<Rightarrow> LocalBudgetGrant list
      \<Rightarrow> (BudgetLedgerKey \<times> nat) list \<times> LocalBudgetGrant list \<times> ReturningBudgetGrant list" where
  "freeze_list pair close_all deadline debts [] = (debts, [], [])"
| "freeze_list pair close_all deadline debts (g # gs) =
     (if return_due close_all deadline g
      then let (debts, g) = freeze_grant pair debts g;
               (debts, gs, rs) = freeze_list pair close_all deadline debts gs in
           (debts, g # gs, returning_of pair g # rs)
      else let (debts, gs, rs) = freeze_list pair close_all deadline debts gs in
           (debts, g # gs, rs))"

fun freeze_pairs ::
    "BudgetPairKey option \<Rightarrow> bool \<Rightarrow> nat \<Rightarrow> (BudgetLedgerKey \<times> nat) list
      \<Rightarrow> (BudgetPairKey \<times> LocalBudgetGrant list) list
      \<Rightarrow> (BudgetLedgerKey \<times> nat) list \<times> (BudgetPairKey \<times> LocalBudgetGrant list) list
         \<times> ReturningBudgetGrant list" where
  "freeze_pairs only_pair close_all deadline debts [] = (debts, [], [])"
| "freeze_pairs only_pair close_all deadline debts ((pair, gs) # rest) =
     (if \<not> is_none_or (\<lambda>selected. selected = pair) only_pair
      then let (debts, rest, rs) = freeze_pairs only_pair close_all deadline debts rest in
           (debts, (pair, gs) # rest, rs)
      else let (debts, gs, rs1) = freeze_list pair close_all deadline debts gs;
               (debts, rest, rs2) = freeze_pairs only_pair close_all deadline debts rest in
           (debts, (pair, gs) # rest, rs1 @ rs2))"

definition freeze_budget_grants ::
    "BudgetPairKey option \<Rightarrow> bool \<Rightarrow> nat \<Rightarrow> LocalAdmissionState
      \<Rightarrow> LocalAdmissionState \<times> ReturningBudgetGrant list" where
  "freeze_budget_grants only_pair close_all deadline local =
     (let (debts, grants, rs) =
            freeze_pairs only_pair close_all deadline (budget_debts local) (budget_grants local) in
      (local\<lparr>budget_debts := debts, budget_grants := grants\<rparr>, rs))"

text \<open>The acknowledgement of one return, and the removal of pairs without grants.\<close>

definition acknowledge_return ::
    "bool \<Rightarrow> ReturningBudgetGrant \<Rightarrow> LocalAdmissionState \<Rightarrow> LocalAdmissionState" where
  "acknowledge_return ok r local =
     (case aget (budget_grants local) (ret_pair r) of
        None \<Rightarrow> local
      | Some gs \<Rightarrow>
          if ok then local\<lparr>budget_grants :=
            aput (ret_pair r)
              (filter (\<lambda>g. grant_id_of g \<noteq> pbg_grant_id (ret_request r)) gs) (budget_grants local)\<rparr>
          else local)"

definition prune_budget_grants :: "LocalAdmissionState \<Rightarrow> LocalAdmissionState" where
  "prune_budget_grants local =
     local\<lparr>budget_grants := filter (\<lambda>(_, gs). gs \<noteq> []) (budget_grants local)\<rparr>"

text \<open>
  The whole of \<open>return_budget_grants\<close> when nothing else runs in between:
  \<open>give_back\<close> is the coordinator's \<open>return_budget_allowance\<close> on its own
  state.
\<close>

fun return_each ::
    "('c \<Rightarrow> PairedBudgetGrantRequest \<Rightarrow> nat \<Rightarrow> nat \<Rightarrow> 'c \<times> (CoordinatorError + unit))
      \<Rightarrow> ReturningBudgetGrant list \<Rightarrow> 'c \<Rightarrow> LocalAdmissionState \<Rightarrow> 'c \<times> LocalAdmissionState" where
  "return_each give_back [] c local = (c, local)"
| "return_each give_back (r # rs) c local =
     (let (c, result) = give_back c (ret_request r) (ret_key_remaining_nanos r)
            (ret_origin_remaining_nanos r) in
      return_each give_back rs c (acknowledge_return (\<not> isl result) r local))"

definition return_budget_grants ::
    "('c \<Rightarrow> PairedBudgetGrantRequest \<Rightarrow> nat \<Rightarrow> nat \<Rightarrow> 'c \<times> (CoordinatorError + unit))
      \<Rightarrow> nat \<Rightarrow> BudgetPairKey option \<Rightarrow> bool \<Rightarrow> nat \<Rightarrow> 'c \<Rightarrow> LocalAdmissionState
      \<Rightarrow> 'c \<times> LocalAdmissionState" where
  "return_budget_grants give_back now only_pair close_all return_ahead c local =
     (let (local, rs) =
            freeze_budget_grants only_pair close_all (saturating_add u64_max now return_ahead) local;
          (c, local) = return_each give_back rs c local in
      (c, prune_budget_grants local))"

end
