(* ===== verification/BudgetLedger.thy ===== *)
theory BudgetLedger
  imports Budget
begin

section \<open>The accounting of local budgets\<close>

text \<open>
  What the operations of \<^theory_text>\<open>Budget\<close> do to the money of a ledger, for any
  interleaving of grants, reservations, settlements, drops and returns.  The value of a
  ledger is what its local allowances still hold, less its debt.
\<close>

definition side_value :: "BudgetLedgerKey \<Rightarrow> PolicyReference option \<Rightarrow> nat \<Rightarrow> int" where
  "side_value L policy n = (if map_option BudgetLedgerKey_from policy = Some L then int n else 0)"

definition grant_value :: "BudgetLedgerKey \<Rightarrow> BudgetPairKey \<Rightarrow> LocalBudgetGrant \<Rightarrow> int" where
  "grant_value L pair g =
     side_value L (bpk_key pair) (key_remaining_nanos g)
     + side_value L (bpk_origin pair) (origin_remaining_nanos g)"

definition grants_value :: "BudgetLedgerKey \<Rightarrow> BudgetPairKey \<Rightarrow> LocalBudgetGrant list \<Rightarrow> int" where
  "grants_value L pair gs = sum_list (map (grant_value L pair) gs)"

definition debt_value :: "BudgetLedgerKey \<Rightarrow> (BudgetLedgerKey \<times> nat) list \<Rightarrow> int" where
  "debt_value L debts = int (case aget debts L of None \<Rightarrow> 0 | Some d \<Rightarrow> d)"

definition ledger_value :: "BudgetLedgerKey \<Rightarrow> LocalAdmissionState \<Rightarrow> int" where
  "ledger_value L local =
     asum (grants_value L) (budget_grants local) - debt_value L (budget_debts local)"

definition reserved_value :: "BudgetLedgerKey \<Rightarrow> AttemptReservation \<Rightarrow> int" where
  "reserved_value L r =
     (case res_pair r of
        None \<Rightarrow> 0
      | Some pair \<Rightarrow> side_value L (bpk_key pair) (key_reserved_nanos r)
          + side_value L (bpk_origin pair) (origin_reserved_nanos r))"

lemma side_value_simps [simp]: "side_value L None n = 0" "side_value L policy 0 = 0"
  by (simp_all add: side_value_def)

lemma side_value_diff:
  "b \<le> a \<Longrightarrow> side_value L policy (a - b) = side_value L policy a - side_value L policy b"
  by (auto simp: side_value_def of_nat_diff)

lemma side_value_add: "side_value L policy (a + b) = side_value L policy a + side_value L policy b"
  by (auto simp: side_value_def)

lemma grants_value_simps [simp]:
  "grants_value L pair [] = 0"
  "grants_value L pair (g # gs) = grant_value L pair g + grants_value L pair gs"
  by (simp_all add: grants_value_def)

lemma grants_value_append: "grants_value L pair (xs @ ys) = grants_value L pair xs + grants_value L pair ys"
  by (simp add: grants_value_def)

lemma grants_value_update_first:
  "find p gs = Some g \<Longrightarrow> grants_value L pair (update_first p f gs)
    = grants_value L pair gs - grant_value L pair g + grant_value L pair (f g)"
  by (simp add: grants_value_def sum_list_update_first)

lemma asum_grant_entry:
  "asum (grants_value L) (aput pair gs (budget_grants local))
    = asum (grants_value L) (budget_grants local)
      + grants_value L pair gs - grants_value L pair (grant_entry pair local)"
  by (simp add: asum_aput grant_entry_def split: option.split)

subsection \<open>Debts\<close>

lemma debt_value_adel: "debt_value L (adel k debts) = (if L = k then 0 else debt_value L debts)"
  by (simp add: debt_value_def aget_adel)

lemma debt_value_aput: "debt_value L (aput k d debts) = (if L = k then int d else debt_value L debts)"
  by (simp add: debt_value_def aget_aput)

lemma pay_budget_debt_exact:
  assumes "pay_budget_debt debts policy n = (debts', n')"
  shows "n' \<le> n \<and> side_value L policy n' - debt_value L debts'
    = side_value L policy n - debt_value L debts"
proof (cases policy)
  case None
  with assms show ?thesis by (simp add: pay_budget_debt_def)
next
  case (Some p)
  show ?thesis
  proof (cases "aget debts (BudgetLedgerKey_from p)")
    case None
    with Some assms show ?thesis by (simp add: pay_budget_debt_def)
  next
    case (Some debt)
    let ?k = "BudgetLedgerKey_from p"
    from assms Some \<open>policy = Some p\<close>
    have "n' = n - min n debt"
      and d: "debt_value L debts' = (if L = ?k then int (debt - min n debt) else debt_value L debts)"
      by (auto simp: pay_budget_debt_def Let_def debt_value_adel debt_value_aput split: if_splits)
    moreover have "debt_value ?k debts = int debt" by (simp add: debt_value_def Some)
    ultimately show ?thesis by (auto simp: side_value_def \<open>policy = Some p\<close> min_def)
  qed
qed

lemma pay_budget_debt_cleared:
  assumes "pay_budget_debt debts policy n = (debts', n')" "aget debts k = None"
  shows "aget debts' k = None"
  using assms
  by (auto simp: pay_budget_debt_def Let_def aget_adel aget_aput split: option.splits if_splits)

text \<open>A grant that has only paid: same identity and use, amounts not larger.\<close>

definition paid_as :: "LocalBudgetGrant \<Rightarrow> LocalBudgetGrant \<Rightarrow> bool" where
  "paid_as g g' \<longleftrightarrow>
     (\<exists>k r. g' = g\<lparr>key_remaining_nanos := k, origin_remaining_nanos := r\<rparr>
        \<and> k \<le> key_remaining_nanos g \<and> r \<le> origin_remaining_nanos g)
     \<and> (returning g \<longrightarrow> g' = g)"

lemma paid_as_refl [simp]: "paid_as g g"
  by (force simp: paid_as_def intro: exI [of _ "key_remaining_nanos g"])

lemma paid_as_simps:
  assumes "paid_as g g'"
  shows "lbg_request g' = lbg_request g" "in_use g' = in_use g" "returning g' = returning g"
    "key_remaining_nanos g' \<le> key_remaining_nanos g"
    "origin_remaining_nanos g' \<le> origin_remaining_nanos g"
    "returning g \<Longrightarrow> g' = g"
  using assms by (auto simp: paid_as_def)

lemma pay_grant_exact:
  assumes "pay_grant pair debts g = (debts', g')"
  shows "grant_value L pair g' - debt_value L debts' = grant_value L pair g - debt_value L debts"
    and "\<not> returning g \<Longrightarrow> paid_as g g'"
proof -
  obtain d1 k where k: "pay_budget_debt debts (bpk_key pair) (key_remaining_nanos g) = (d1, k)"
    by fastforce
  obtain d2 r where r: "pay_budget_debt d1 (bpk_origin pair) (origin_remaining_nanos g) = (d2, r)"
    by fastforce
  from assms k r have g': "g' = g\<lparr>key_remaining_nanos := k, origin_remaining_nanos := r\<rparr>"
    and "debts' = d2"
    by (simp_all add: pay_grant_def)
  with pay_budget_debt_exact [OF k, of L] pay_budget_debt_exact [OF r, of L]
  show "grant_value L pair g' - debt_value L debts' = grant_value L pair g - debt_value L debts"
    by (simp add: grant_value_def)
  show "paid_as g g'" if "\<not> returning g"
    using that pay_budget_debt_exact [OF k] pay_budget_debt_exact [OF r]
    by (auto simp: paid_as_def g')
qed

lemma pay_grants_exact:
  assumes "pay_grants pair debts gs = (debts', gs')"
  shows "list_all2 paid_as gs gs' \<and> grants_value L pair gs' - debt_value L debts'
    = grants_value L pair gs - debt_value L debts"
  using assms
proof (induction gs arbitrary: debts debts' gs')
  case (Cons g gs)
  obtain d1 g1 where 1: "(if returning g then (debts, g) else pay_grant pair debts g) = (d1, g1)"
    by fastforce
  obtain d2 gs2 where 2: "pay_grants pair d1 gs = (d2, gs2)" by fastforce
  from Cons.prems 1 2 have r: "debts' = d2" "gs' = g1 # gs2" by (auto split: if_splits)
  have "paid_as g g1 \<and> grant_value L pair g1 - debt_value L d1
      = grant_value L pair g - debt_value L debts"
    using 1 pay_grant_exact [of pair debts g d1 g1] by (auto split: if_splits)
  with Cons.IH [OF 2] r show ?case by simp
qed simp

subsection \<open>Reservations against grants\<close>

definition reservations_of ::
    "AttemptReservation multiset \<Rightarrow> BudgetPairKey \<Rightarrow> uuid \<Rightarrow> AttemptReservation multiset" where
  "reservations_of live pair gid =
     filter_mset (\<lambda>r. res_pair r = Some pair \<and> res_grant_id r = Some gid) live"

text \<open>
  A grant is in order with its live reservations: it counts them, it has none once it is
  being returned, and giving all of them back would not exceed 128 bits.
\<close>

definition grant_ok :: "AttemptReservation multiset \<Rightarrow> LocalBudgetGrant \<Rightarrow> bool" where
  "grant_ok R g \<longleftrightarrow>
     in_use g = size R \<and> (returning g \<longrightarrow> R = {#})
     \<and> key_remaining_nanos g + (\<Sum>r \<in># R. key_reserved_nanos r) \<le> u128_max
     \<and> origin_remaining_nanos g + (\<Sum>r \<in># R. origin_reserved_nanos r) \<le> u128_max"

definition entry_ok ::
    "AttemptReservation multiset \<Rightarrow> uuid set \<Rightarrow> BudgetPairKey \<Rightarrow> LocalBudgetGrant list \<Rightarrow> bool" where
  "entry_ok live used pair gs \<longleftrightarrow>
     distinct (map grant_id_of gs)
     \<and> (\<forall>g \<in> set gs. grant_id_of g \<in> used \<and> grant_ok (reservations_of live pair (grant_id_of g)) g)"

definition reservation_backed :: "(BudgetPairKey \<times> LocalBudgetGrant list) list \<Rightarrow> AttemptReservation \<Rightarrow> bool" where
  "reservation_backed m r \<longleftrightarrow> \<not> released r
     \<and> (\<exists>pair gid gs g. res_pair r = Some pair \<and> res_grant_id r = Some gid
          \<and> aget m pair = Some gs \<and> g \<in> set gs \<and> grant_id_of g = gid)"

definition grants_ok ::
    "AttemptReservation multiset \<Rightarrow> uuid set \<Rightarrow> (BudgetPairKey \<times> LocalBudgetGrant list) list \<Rightarrow> bool"
  where
  "grants_ok live used m \<longleftrightarrow>
     adistinct m \<and> (\<forall>pair gs. aget m pair = Some gs \<longrightarrow> entry_ok live used pair gs)
     \<and> (\<forall>r \<in># live. reservation_backed m r)"

lemma entry_ok_Nil [simp]: "entry_ok live used pair []"
  by (simp add: entry_ok_def)

lemma grant_entry_ok:
  "grants_ok live used (budget_grants local) \<Longrightarrow> entry_ok live used pair (grant_entry pair local)"
  by (auto simp: grants_ok_def grant_entry_def split: option.split)

lemma grant_ok_paid: "grant_ok R g \<Longrightarrow> paid_as g g' \<Longrightarrow> grant_ok R g'"
  using paid_as_simps [of g g'] by (auto simp: grant_ok_def)

lemma paid_ids: "list_all2 paid_as gs gs' \<Longrightarrow> map grant_id_of gs' = map grant_id_of gs"
  by (induction rule: list_all2_induct) (auto simp: paid_as_simps)

lemma entry_ok_paid:
  assumes "entry_ok live used pair gs" "list_all2 paid_as gs gs'"
  shows "entry_ok live used pair gs'"
proof -
  have "\<exists>g \<in> set gs. paid_as g g'" if "g' \<in> set gs'" for g'
    using assms(2) that by (metis in_set_conv_nth list_all2_conv_all_nth)
  with assms paid_ids [OF assms(2)] show ?thesis
    by (fastforce simp: entry_ok_def paid_as_simps intro: grant_ok_paid)
qed

text \<open>Rewriting the first grant that satisfies a predicate, in a list with distinct identities.\<close>

lemma update_first_ids:
  "find p gs = Some g \<Longrightarrow> grant_id_of (f g) = grant_id_of g
    \<Longrightarrow> map grant_id_of (update_first p f gs) = map grant_id_of gs"
  by (induction gs) (auto split: if_splits)

lemma update_first_cases:
  assumes "find p gs = Some g" "distinct (map grant_id_of gs)" "x \<in> set (update_first p f gs)"
  shows "x = f g \<or> x \<in> set gs \<and> grant_id_of x \<noteq> grant_id_of g"
  using assms
proof (induction gs)
  case (Cons y ys)
  show ?case
  proof (cases "p y")
    case True
    with Cons.prems have "g = y" by simp
    with True Cons.prems show ?thesis by (auto simp: image_iff)
  next
    case False
    with Cons.prems have "find p ys = Some g" by simp
    then have "g \<in> set ys" by (auto dest: find_SomeD)
    with False Cons show ?thesis by (auto simp: image_iff)
  qed
qed simp

lemma reservations_of_add:
  "reservations_of (add_mset r live) pair gid =
    (if res_pair r = Some pair \<and> res_grant_id r = Some gid
     then add_mset r (reservations_of live pair gid) else reservations_of live pair gid)"
  by (simp add: reservations_of_def)

lemma entry_ok_update:
  assumes "entry_ok live used pair gs" "find p gs = Some g" "grant_id_of (f g) = grant_id_of g"
    and "grant_ok (reservations_of live' pair (grant_id_of g)) (f g)"
    and "\<And>gid. gid \<noteq> grant_id_of g \<Longrightarrow>
      reservations_of live' pair gid = reservations_of live pair gid"
  shows "entry_ok live' used pair (update_first p f gs)"
proof -
  from assms(1) have d: "distinct (map grant_id_of gs)" by (simp add: entry_ok_def)
  have "g \<in> set gs" using find_SomeD [OF assms(2)] by simp
  with assms(1) have "grant_id_of g \<in> used" by (simp add: entry_ok_def)
  moreover have "grant_id_of x \<in> used \<and> grant_ok (reservations_of live' pair (grant_id_of x)) x"
    if "x \<in> set gs" "grant_id_of x \<noteq> grant_id_of g" for x
    using assms(1) that assms(5) [of "grant_id_of x"] by (simp add: entry_ok_def)
  ultimately show ?thesis
    using update_first_cases [OF assms(2) d] update_first_ids [of p gs g f, OF assms(2,3)] d assms(3,4)
    by (simp only: entry_ok_def) metis
qed

lemma grants_ok_aput:
  assumes "grants_ok live used m" "entry_ok live' used' pair gs" "used \<subseteq> used'"
    and "\<And>pair' gid. pair' \<noteq> pair \<Longrightarrow> reservations_of live' pair' gid = reservations_of live pair' gid"
    and "\<And>r. r \<in># live' \<Longrightarrow> reservation_backed (aput pair gs m) r"
  shows "grants_ok live' used' (aput pair gs m)"
  using assms by (auto simp: grants_ok_def aget_aput entry_ok_def)

lemma backed_aput:
  assumes "reservation_backed m r"
    and "\<And>old. aget m pair = Some old \<Longrightarrow> grant_id_of ` set old \<subseteq> grant_id_of ` set gs"
  shows "reservation_backed (aput pair gs m) r"
proof -
  from assms(1) obtain p gid gs0 g where r: "\<not> released r" "res_pair r = Some p"
    "res_grant_id r = Some gid" "aget m p = Some gs0" "g \<in> set gs0" "grant_id_of g = gid"
    by (auto simp: reservation_backed_def)
  show ?thesis
  proof (cases "p = pair")
    case True
    with r assms(2) have "gid \<in> grant_id_of ` set gs" by auto
    with r True show ?thesis by (auto simp: reservation_backed_def aget_aput)
  next
    case False
    with r show ?thesis by (auto simp: reservation_backed_def aget_aput)
  qed
qed

text \<open>
  A returned amount on its way to the coordinator: if its grant is still held locally, it is
  frozen with exactly that amount.
\<close>

definition pending_ok ::
    "ReturningBudgetGrant multiset \<Rightarrow> uuid set \<Rightarrow> (BudgetPairKey \<times> LocalBudgetGrant list) list \<Rightarrow> bool"
  where
  "pending_ok pending used m \<longleftrightarrow>
     (\<forall>p \<in># pending. pbg_grant_id (ret_request p) \<in> used
        \<and> (\<forall>gs. aget m (ret_pair p) = Some gs \<longrightarrow> (\<forall>g \<in> set gs.
             grant_id_of g = pbg_grant_id (ret_request p) \<longrightarrow>
               returning g \<and> key_remaining_nanos g = ret_key_remaining_nanos p
               \<and> origin_remaining_nanos g = ret_origin_remaining_nanos p)))"

text \<open>Where a grant of the new list comes from: it is new, or unchanged if it was frozen.\<close>

definition derived :: "uuid set \<Rightarrow> LocalBudgetGrant list \<Rightarrow> LocalBudgetGrant list \<Rightarrow> bool" where
  "derived used gs gs' \<longleftrightarrow>
     (\<forall>g' \<in> set gs'. grant_id_of g' \<notin> used
        \<or> (\<exists>g \<in> set gs. grant_id_of g' = grant_id_of g \<and> (returning g \<longrightarrow> g' = g)))"

lemma pending_ok_aput:
  assumes "pending_ok pending used (budget_grants local)"
    and "derived used (grant_entry pair local) gs'" "used \<subseteq> used'"
  shows "pending_ok pending used' (aput pair gs' (budget_grants local))"
  unfolding pending_ok_def
proof (intro ballI conjI allI impI)
  fix p assume p: "p \<in># pending"
  with assms(1) have u: "pbg_grant_id (ret_request p) \<in> used" by (auto simp: pending_ok_def)
  with assms(3) show "pbg_grant_id (ret_request p) \<in> used'" by auto
  fix gs g
  assume g: "aget (aput pair gs' (budget_grants local)) (ret_pair p) = Some gs" "g \<in> set gs"
    "grant_id_of g = pbg_grant_id (ret_request p)"
  have "\<exists>gs0 g0. aget (budget_grants local) (ret_pair p) = Some gs0 \<and> g0 \<in> set gs0
      \<and> grant_id_of g0 = grant_id_of g \<and> (returning g0 \<longrightarrow> g = g0)"
  proof (cases "ret_pair p = pair")
    case True
    with g have "g \<in> set gs'" by (simp add: aget_aput)
    with assms(2) g(3) u obtain g0 where "g0 \<in> set (grant_entry pair local)"
      "grant_id_of g = grant_id_of g0" "returning g0 \<longrightarrow> g = g0"
      by (fastforce simp: derived_def)
    with True show ?thesis
      by (cases "aget (budget_grants local) pair") (auto simp: grant_entry_def)
  next
    case False
    with g show ?thesis by (auto simp: aget_aput)
  qed
  then obtain gs0 g0 where "aget (budget_grants local) (ret_pair p) = Some gs0" "g0 \<in> set gs0"
    "grant_id_of g0 = grant_id_of g" "returning g0 \<longrightarrow> g = g0"
    by blast
  with assms(1) p g(3) show "returning g" "key_remaining_nanos g = ret_key_remaining_nanos p"
    "origin_remaining_nanos g = ret_origin_remaining_nanos p"
    by (fastforce simp: pending_ok_def)+
qed

lemma derived_paid: "list_all2 paid_as gs gs' \<Longrightarrow> derived used gs gs'"
  unfolding derived_def
  by (metis in_set_conv_nth list_all2_conv_all_nth paid_as_simps(1,6))

lemma derived_update_first:
  assumes "list_all2 paid_as gs0 gs" "find p gs = Some g" "\<not> returning g"
    and "grant_id_of (f g) = grant_id_of g" "distinct (map grant_id_of gs)"
  shows "derived used gs0 (update_first p f gs)"
  unfolding derived_def
proof
  fix x assume x: "x \<in> set (update_first p f gs)"
  have src: "\<exists>h0 \<in> set gs0. paid_as h0 h" if "h \<in> set gs" for h
    using assms(1) that by (metis in_set_conv_nth list_all2_conv_all_nth)
  from update_first_cases [OF assms(2,5) x]
  show "grant_id_of x \<notin> used
      \<or> (\<exists>h \<in> set gs0. grant_id_of x = grant_id_of h \<and> (returning h \<longrightarrow> x = h))"
  proof
    assume "x = f g"
    moreover obtain h where "h \<in> set gs0" "paid_as h g"
      using src [of g] find_SomeD [OF assms(2)] by auto
    ultimately show ?thesis using assms(3,4) by (metis paid_as_simps(1,3))
  next
    assume "x \<in> set gs \<and> grant_id_of x \<noteq> grant_id_of g"
    with src obtain h where "h \<in> set gs0" "paid_as h x" by auto
    then show ?thesis by (metis paid_as_simps(1,6))
  qed
qed

subsection \<open>Each operation\<close>

definition locals_ok ::
    "AttemptReservation multiset \<Rightarrow> ReturningBudgetGrant multiset \<Rightarrow> uuid set \<Rightarrow> LocalAdmissionState \<Rightarrow> bool"
  where
  "locals_ok live pending used local \<longleftrightarrow>
     grants_ok live used (budget_grants local) \<and> pending_ok pending used (budget_grants local)"

lemma paid_backed:
  assumes "grants_ok live used (budget_grants local)" "r \<in># live"
    and "map grant_id_of gs = map grant_id_of (grant_entry pair local)"
  shows "reservation_backed (aput pair gs (budget_grants local)) r"
proof (rule backed_aput)
  show "reservation_backed (budget_grants local) r" using assms(1,2) by (simp add: grants_ok_def)
  fix old assume "aget (budget_grants local) pair = Some old"
  then have "map grant_id_of old = map grant_id_of gs" using assms(3) by (simp add: grant_entry_def)
  then have "set (map grant_id_of old) = set (map grant_id_of gs)" by simp
  then show "grant_id_of ` set old \<subseteq> grant_id_of ` set gs" by simp
qed

lemma try_reserve_refused:
  assumes "try_reserve_budget now pair k r est local = (local', None)"
    and "locals_ok live pending used local"
  shows "locals_ok live pending used local' \<and> ledger_value L local' = ledger_value L local"
proof -
  obtain debts gs where p: "pay_grants pair (budget_debts local) (grant_entry pair local) = (debts, gs)"
    by fastforce
  note paid = pay_grants_exact [OF p]
  from assms(2) have g: "grants_ok live used (budget_grants local)"
    and pend: "pending_ok pending used (budget_grants local)"
    by (simp_all add: locals_ok_def)
  from assms(1) p have l': "local' = local\<lparr>budget_debts := debts,
      budget_grants := aput pair gs (budget_grants local)\<rparr>"
    by (auto simp: try_reserve_budget_def Let_def split: if_splits option.splits)
  have pl: "list_all2 paid_as (grant_entry pair local) gs" using paid by blast
  have "entry_ok live used pair gs" using entry_ok_paid [OF grant_entry_ok [OF g] pl] .
  with g have "grants_ok live used (aput pair gs (budget_grants local))"
    by (rule grants_ok_aput) (auto intro: paid_backed [OF g] paid_ids [OF pl])
  moreover have "pending_ok pending used (aput pair gs (budget_grants local))"
    using pend derived_paid [OF pl] by (rule pending_ok_aput) simp
  ultimately show ?thesis
    using paid [of L] by (simp add: locals_ok_def l' ledger_value_def asum_grant_entry)
qed

lemma take_reservation_ok:
  assumes "grant_ok R g" "can_reserve now k r g" "size R < u32_max"
    and "key_reserved_nanos res = k" "origin_reserved_nanos res = r"
  shows "grant_ok (add_mset res R) (take_reservation k r g)"
  using assms by (auto simp: grant_ok_def take_reservation_def can_reserve_def)

lemma take_reservation_value:
  assumes "can_reserve now k r g"
  shows "grant_value L pair (take_reservation k r g)
    = grant_value L pair g - side_value L (bpk_key pair) k - side_value L (bpk_origin pair) r"
  using assms
  by (simp add: grant_value_def take_reservation_def can_reserve_def side_value_diff)

lemma try_reserve_granted:
  assumes "try_reserve_budget now pair k r est local = (local', Some res)"
    and "locals_ok live pending used local" "size live < u32_max"
  shows "locals_ok (add_mset res live) pending used local'
    \<and> ledger_value L local' + reserved_value L res = ledger_value L local"
proof -
  obtain debts gs where p: "pay_grants pair (budget_debts local) (grant_entry pair local) = (debts, gs)"
    by fastforce
  note paid = pay_grants_exact [OF p]
  let ?p = "can_reserve now k r" and ?f = "take_reservation k r"
  from assms(2) have g: "grants_ok live used (budget_grants local)"
    and pend: "pending_ok pending used (budget_grants local)"
    by (simp_all add: locals_ok_def)
  from assms(1) p obtain h where h: "find ?p gs = Some h"
    and l': "local' = local\<lparr>budget_debts := debts,
        budget_grants := aput pair (update_first ?p ?f gs) (budget_grants local)\<rparr>"
    and res: "res = \<lparr>res_pair = Some pair, res_grant_id = Some (grant_id_of h),
        key_reserved_nanos = k, origin_reserved_nanos = r, estimated_cost_nanos = est,
        dispatched = False, released = False\<rparr>"
    by (auto simp: try_reserve_budget_def Let_def split: if_splits option.splits)
  let ?gs = "update_first ?p ?f gs"
  have pl: "list_all2 paid_as (grant_entry pair local) gs" using paid by blast
  have e: "entry_ok live used pair gs" using entry_ok_paid [OF grant_entry_ok [OF g] pl] .
  have can: "?p h" and hin: "h \<in> set gs" using find_SomeD [OF h] by simp_all
  have idf: "grant_id_of (?f h) = grant_id_of h" by (simp add: take_reservation_def)
  have ids: "map grant_id_of ?gs = map grant_id_of gs" using h idf by (rule update_first_ids)
  have "size (reservations_of live pair (grant_id_of h)) \<le> size live"
    by (simp add: reservations_of_def size_filter_mset_lesseq)
  with assms(3) have small: "size (reservations_of live pair (grant_id_of h)) < u32_max" by simp
  have hok: "grant_ok (reservations_of live pair (grant_id_of h)) h"
    using e hin by (simp add: entry_ok_def)
  have "grant_ok (reservations_of (add_mset res live) pair (grant_id_of h)) (?f h)"
    using take_reservation_ok [OF hok can small, of res] by (simp add: reservations_of_add res)
  with e h idf have e': "entry_ok (add_mset res live) used pair ?gs"
  proof (rule entry_ok_update)
    show "reservations_of (add_mset res live) pair gid = reservations_of live pair gid"
      if "gid \<noteq> grant_id_of h" for gid
      using that by (auto simp: reservations_of_add res)
  qed
  have bres: "reservation_backed (aput pair ?gs (budget_grants local)) res"
  proof -
    have "grant_id_of h \<in> set (map grant_id_of ?gs)" using hin ids by simp
    then show ?thesis by (auto simp: reservation_backed_def res aget_aput)
  qed
  have "grants_ok (add_mset res live) used (aput pair ?gs (budget_grants local))"
    using g e'
  proof (rule grants_ok_aput)
    show "reservation_backed (aput pair ?gs (budget_grants local)) r'"
      if "r' \<in># add_mset res live" for r'
      using that bres paid_backed [OF g, of r' ?gs pair] ids paid_ids [OF pl] by auto
  qed (simp_all add: reservations_of_add res)
  moreover have "pending_ok pending used (aput pair ?gs (budget_grants local))"
    using pend
  proof (rule pending_ok_aput)
    have "\<not> returning h" using can by (simp add: can_reserve_def)
    then show "derived used (grant_entry pair local) ?gs"
      using derived_update_first [where f = ?f, OF pl h _ idf] e by (simp add: entry_ok_def)
  qed simp
  ultimately show ?thesis
    using paid [of L] take_reservation_value [OF can, of L pair]
    by (simp add: locals_ok_def l' ledger_value_def asum_grant_entry
        grants_value_update_first [OF h] reserved_value_def res)
qed

text \<open>Installing a grant under a fresh identity.\<close>

lemma install_ok:
  assumes "locals_ok live pending used local" "pbg_grant_id request = ag_id grant"
    and "ag_id grant \<notin> used"
    and "K = (case key_amount_nanos grant of None \<Rightarrow> 0 | Some n \<Rightarrow> n)" "K \<le> u128_max"
    and "R = (case origin_amount_nanos grant of None \<Rightarrow> 0 | Some n \<Rightarrow> n)" "R \<le> u128_max"
    and l': "local' = install_budget_grant pair request grant local"
  shows "locals_ok live pending (insert (ag_id grant) used) local'
    \<and> ledger_value L local' = ledger_value L local
        + side_value L (bpk_key pair) K + side_value L (bpk_origin pair) R"
proof -
  let ?used = "insert (ag_id grant) used"
  let ?old = "grant_entry pair local"
  from assms(1) have g: "grants_ok live used (budget_grants local)"
    and pend: "pending_ok pending used (budget_grants local)"
    by (simp_all add: locals_ok_def)
  note e = grant_entry_ok [OF g, of pair]
  have fresh: "grant_id_of h \<noteq> ag_id grant" if "h \<in> set ?old" for h
    using e that assms(3) by (auto simp: entry_ok_def)
  obtain d1 k where k: "pay_budget_debt (budget_debts local) (bpk_key pair) K = (d1, k)" by fastforce
  obtain d2 r where r: "pay_budget_debt d1 (bpk_origin pair) R = (d2, r)" by fastforce
  let ?g = "\<lparr>lbg_request = request, lbg_expires_at_unix_ms = ag_expires_at_unix_ms grant,
      key_remaining_nanos = k, origin_remaining_nanos = r, in_use = 0, returning = False\<rparr>"
  let ?gs = "?old @ [?g]"
  have l'': "local' = local\<lparr>budget_debts := d2, budget_grants := aput pair ?gs (budget_grants local)\<rparr>"
    using fresh k r assms(4,6)
    by (auto simp: l' install_budget_grant_def Let_def list_ex_iff split: prod.splits)
  note pk = pay_budget_debt_exact [OF k] and pr = pay_budget_debt_exact [OF r]
  have none: "reservations_of live pair (ag_id grant) = {#}"
  proof (rule ccontr)
    assume "reservations_of live pair (ag_id grant) \<noteq> {#}"
    then obtain s where "s \<in># live" "res_pair s = Some pair" "res_grant_id s = Some (ag_id grant)"
      by (auto simp: reservations_of_def dest!: multiset_nonemptyE)
    with g obtain gs h where "aget (budget_grants local) pair = Some gs" "h \<in> set gs"
      "grant_id_of h = ag_id grant"
      by (fastforce simp: grants_ok_def reservation_backed_def)
    with fresh show False by (simp add: grant_entry_def)
  qed
  have "k \<le> u128_max" "r \<le> u128_max" using pk pr assms(5,7) by (auto intro: le_trans)
  then have gok: "grant_ok {#} ?g" by (simp add: grant_ok_def)
  have new: "ag_id grant \<notin> grant_id_of ` set ?old" using fresh by (metis imageE)
  from e gok none assms(2) new have "entry_ok live ?used pair ?gs"
    by (simp add: entry_ok_def)
  with g have "grants_ok live ?used (aput pair ?gs (budget_grants local))"
  proof (rule grants_ok_aput)
    fix s assume "s \<in># live"
    with g have "reservation_backed (budget_grants local) s" by (simp add: grants_ok_def)
    then show "reservation_backed (aput pair ?gs (budget_grants local)) s"
      by (rule backed_aput) (auto simp: grant_entry_def)
  qed auto
  moreover have "derived used ?old ?gs"
    using assms(2,3) by (auto simp: derived_def)
  then have "pending_ok pending ?used (aput pair ?gs (budget_grants local))"
    using pend by (auto intro: pending_ok_aput)
  ultimately show ?thesis
    using pk [of L] pr [of L]
    by (simp add: locals_ok_def l'' ledger_value_def asum_grant_entry grants_value_append
        grant_value_def)
qed

subsection \<open>Ending a reservation\<close>

lemma find_backed:
  assumes "reservation_backed (budget_grants local) r" "res_pair r = Some pair"
    and "res_grant_id r = Some gid"
  obtains gs g where "aget (budget_grants local) pair = Some gs"
    and "find (\<lambda>g. grant_id_of g = gid) gs = Some g" "grant_id_of g = gid" "g \<in> set gs"
proof -
  from assms obtain gs h where gs: "aget (budget_grants local) pair = Some gs"
    "h \<in> set gs" "grant_id_of h = gid"
    by (auto simp: reservation_backed_def)
  then obtain g where "find (\<lambda>g. grant_id_of g = gid) gs = Some g"
    by (cases "find (\<lambda>g. grant_id_of g = gid) gs") (auto simp: find_eq_None_iff)
  with gs that find_SomeD [OF this] show ?thesis by blast
qed

text \<open>The grant of an ending reservation may be rewritten by anything that keeps it in order.\<close>

definition endable ::
    "AttemptReservation multiset \<Rightarrow> ReturningBudgetGrant multiset \<Rightarrow> uuid set \<Rightarrow> BudgetPairKey \<Rightarrow> uuid
      \<Rightarrow> LocalAdmissionState \<Rightarrow> LocalBudgetGrant \<Rightarrow> bool" where
  "endable live pending used pair gid local g \<longleftrightarrow>
     (\<forall>f. grant_id_of (f g) = gid \<longrightarrow> grant_ok (reservations_of live pair gid) (f g) \<longrightarrow>
        locals_ok live pending used (modify_grant pair gid f local)
        \<and> budget_debts (modify_grant pair gid f local) = budget_debts local
        \<and> (\<forall>L. ledger_value L (modify_grant pair gid f local)
             = ledger_value L local - grant_value L pair g + grant_value L pair (f g)))"

lemma endableD:
  assumes "endable live pending used pair gid local g" "grant_id_of (f g) = gid"
    and "grant_ok (reservations_of live pair gid) (f g)"
  shows "locals_ok live pending used (modify_grant pair gid f local)
    \<and> budget_debts (modify_grant pair gid f local) = budget_debts local
    \<and> ledger_value L (modify_grant pair gid f local)
      = ledger_value L local - grant_value L pair g + grant_value L pair (f g)"
  using assms by (simp add: endable_def)

lemma modify_grant_ok:
  assumes "locals_ok (add_mset r live) pending used local"
    and "res_pair r = Some pair" "res_grant_id r = Some gid"
  obtains g where "find_grant pair gid local = Some g"
    and "grant_ok (add_mset r (reservations_of live pair gid)) g"
    and "endable live pending used pair gid local g"
proof -
  let ?p = "\<lambda>g. grant_id_of g = gid"
  from assms(1) have g: "grants_ok (add_mset r live) used (budget_grants local)"
    and pend: "pending_ok pending used (budget_grants local)"
    by (simp_all add: locals_ok_def)
  then have b: "reservation_backed (budget_grants local) r" by (simp add: grants_ok_def)
  from b assms(2,3) obtain gs h where gs: "aget (budget_grants local) pair = Some gs"
    and h: "find ?p gs = Some h" "grant_id_of h = gid" "h \<in> set gs"
    by (rule find_backed)
  have ge: "grant_entry pair local = gs" by (simp add: grant_entry_def gs)
  from g gs have e: "entry_ok (add_mset r live) used pair gs" by (simp add: grants_ok_def)
  have hok: "grant_ok (add_mset r (reservations_of live pair gid)) h"
    using e h assms(2,3) by (auto simp: entry_ok_def reservations_of_add)
  show ?thesis
  proof (rule that)
    show "find_grant pair gid local = Some h" by (simp add: find_grant_def gs h)
    show "grant_ok (add_mset r (reservations_of live pair gid)) h" by (rule hok)
    show "endable live pending used pair gid local h"
      unfolding endable_def
    proof (intro allI impI)
      fix f :: "LocalBudgetGrant \<Rightarrow> LocalBudgetGrant"
      assume f: "grant_id_of (f h) = gid" "grant_ok (reservations_of live pair gid) (f h)"
      let ?gs = "update_first ?p f gs"
      have idf: "grant_id_of (f h) = grant_id_of h" using f(1) h(2) by simp
      have ids: "map grant_id_of ?gs = map grant_id_of (grant_entry pair local)"
        unfolding ge using h(1) idf by (rule update_first_ids)
      have "entry_ok live used pair ?gs"
        using e h(1) idf
      proof (rule entry_ok_update)
        show "grant_ok (reservations_of live pair (grant_id_of h)) (f h)" using f(2) h(2) by simp
        show "reservations_of live pair gid' = reservations_of (add_mset r live) pair gid'"
          if "gid' \<noteq> grant_id_of h" for gid'
          using that h(2) assms(3) by (simp add: reservations_of_add)
      qed
      with g have "grants_ok live used (aput pair ?gs (budget_grants local))"
      proof (rule grants_ok_aput)
        show "reservation_backed (aput pair ?gs (budget_grants local)) s" if "s \<in># live" for s
          using that by (intro paid_backed [OF g _ ids]) simp
      qed (use assms(2) in \<open>auto simp: reservations_of_add\<close>)
      moreover have "\<not> returning h" using hok by (auto simp: grant_ok_def)
      then have "derived used (grant_entry pair local) ?gs"
        unfolding ge using e h(1) idf
        by (intro derived_update_first [where gs = gs and g = h])
          (auto simp: entry_ok_def list_all2_refl)
      then have "pending_ok pending used (aput pair ?gs (budget_grants local))"
        using pend by (auto intro: pending_ok_aput)
      ultimately show "locals_ok live pending used (modify_grant pair gid f local)
          \<and> budget_debts (modify_grant pair gid f local) = budget_debts local
          \<and> (\<forall>L. ledger_value L (modify_grant pair gid f local)
               = ledger_value L local - grant_value L pair h + grant_value L pair (f h))"
        by (simp add: modify_grant_def gs locals_ok_def ledger_value_def asum_aput
            grants_value_update_first [OF h(1)])
    qed
  qed
qed

lemma abandon_ok:
  assumes "locals_ok (add_mset r live) pending used local"
    and "res_pair r = Some pair" "res_grant_id r = Some gid"
    and l': "local' = abandon_budget_reservation pair gid local"
  shows "locals_ok live pending used local' \<and> ledger_value L local' = ledger_value L local"
proof -
  let ?f = "\<lambda>g. g\<lparr>in_use := in_use g - 1\<rparr>"
  from assms(1-3) obtain g where g: "find_grant pair gid local = Some g"
    and ok: "grant_ok (add_mset r (reservations_of live pair gid)) g"
    and m: "endable live pending used pair gid local g"
    by (rule modify_grant_ok)
  have "grant_id_of (?f g) = gid"
    using g by (auto simp: find_grant_def dest: find_SomeD)
  moreover have "grant_ok (reservations_of live pair gid) (?f g)"
    using ok by (auto simp: grant_ok_def)
  ultimately show ?thesis
    using endableD [OF m, of ?f L] by (simp add: l' abandon_budget_reservation_def grant_value_def)
qed

lemma release_ok:
  assumes "locals_ok (add_mset r live) pending used local"
    and "res_pair r = Some pair" "res_grant_id r = Some gid"
    and l': "local' = release_budget_reservation pair gid (key_reserved_nanos r)
      (origin_reserved_nanos r) local"
  shows "locals_ok live pending used local'
    \<and> ledger_value L local' = ledger_value L local + reserved_value L r"
proof -
  let ?f = "\<lambda>g. g\<lparr>key_remaining_nanos :=
         saturating_add u128_max (key_remaining_nanos g) (key_reserved_nanos r),
       origin_remaining_nanos :=
         saturating_add u128_max (origin_remaining_nanos g) (origin_reserved_nanos r),
       in_use := in_use g - 1\<rparr>"
  from assms(1-3) obtain g where g: "find_grant pair gid local = Some g"
    and ok: "grant_ok (add_mset r (reservations_of live pair gid)) g"
    and m: "endable live pending used pair gid local g"
    by (rule modify_grant_ok)
  have sat: "saturating_add u128_max (key_remaining_nanos g) (key_reserved_nanos r)
      = key_remaining_nanos g + key_reserved_nanos r"
    "saturating_add u128_max (origin_remaining_nanos g) (origin_reserved_nanos r)
      = origin_remaining_nanos g + origin_reserved_nanos r"
    using ok by (simp_all add: grant_ok_def)
  have "grant_id_of (?f g) = gid"
    using g by (auto simp: find_grant_def dest: find_SomeD)
  moreover have "grant_ok (reservations_of live pair gid) (?f g)"
    using ok by (auto simp: grant_ok_def sat add.assoc)
  ultimately show ?thesis
    using endableD [OF m, of ?f L]
    by (simp add: l' release_budget_reservation_def grant_value_def reserved_value_def assms(2)
        sat side_value_add)
qed

lemma settle_budget_side_exact:
  assumes "settle_budget_side remaining reserved actual = (remaining', debt)"
    and "remaining + reserved \<le> u128_max"
  shows "int remaining' - int debt = int remaining + int reserved - int actual
    \<and> remaining' \<le> remaining + reserved \<and> debt \<le> actual"
  using assms by (auto simp: settle_budget_side_def Let_def split: if_splits)

lemma add_debt_exact:
  assumes "\<And>L. debt_value L debts + int n \<le> int u128_max"
  shows "debt_value L (add_debt policy n debts) = debt_value L debts + side_value L policy n"
proof (cases policy)
  case (Some p)
  let ?k = "BudgetLedgerKey_from p"
  let ?d = "case aget debts ?k of None \<Rightarrow> 0 | Some d \<Rightarrow> d"
  have "?d + n \<le> u128_max" using assms [of ?k] by (simp add: debt_value_def)
  then have "saturating_add u128_max ?d n = ?d + n" by simp
  then show ?thesis
    by (auto simp: add_debt_def Some side_value_def debt_value_aput) (simp_all add: debt_value_def)
qed (simp add: add_debt_def)

lemma settle_ok:
  assumes "locals_ok (add_mset r live) pending used local"
    and "res_pair r = Some pair" "res_grant_id r = Some gid"
    and debts: "\<And>L. debt_value L (budget_debts local) + 2 * int actual \<le> int u128_max"
    and l': "local' = settle_budget_reservation pair gid (key_reserved_nanos r)
      (origin_reserved_nanos r) actual local"
  shows "locals_ok live pending used local'
    \<and> ledger_value L local' = ledger_value L local + reserved_value L r
        - side_value L (bpk_key pair) actual - side_value L (bpk_origin pair) actual"
proof -
  let ?ka = "if bpk_key pair = None then 0 else actual"
  let ?oa = "if bpk_origin pair = None then 0 else actual"
  from assms(1-3) obtain g where g: "find_grant pair gid local = Some g"
    and ok: "grant_ok (add_mset r (reservations_of live pair gid)) g"
    and m: "endable live pending used pair gid local g"
    by (rule modify_grant_ok)
  obtain k kd where k: "settle_budget_side (key_remaining_nanos g) (key_reserved_nanos r) ?ka = (k, kd)"
    by fastforce
  obtain o' od where
    o: "settle_budget_side (origin_remaining_nanos g) (origin_reserved_nanos r) ?oa = (o', od)"
    by fastforce
  let ?f = "\<lambda>g. g\<lparr>key_remaining_nanos := k, origin_remaining_nanos := o', in_use := in_use g - 1\<rparr>"
  let ?m = "modify_grant pair gid ?f local"
  have l'': "local' = ?m\<lparr>budget_debts :=
      add_debt (bpk_origin pair) od (add_debt (bpk_key pair) kd (budget_debts ?m))\<rparr>"
    by (simp only: l' settle_budget_reservation_def g Let_def k o option.case prod.case)
  have ke: "int k - int kd = int (key_remaining_nanos g) + int (key_reserved_nanos r) - int ?ka
      \<and> k \<le> key_remaining_nanos g + key_reserved_nanos r \<and> kd \<le> ?ka"
    using k ok by (intro settle_budget_side_exact) (auto simp: grant_ok_def)
  have oe: "int o' - int od = int (origin_remaining_nanos g) + int (origin_reserved_nanos r) - int ?oa
      \<and> o' \<le> origin_remaining_nanos g + origin_reserved_nanos r \<and> od \<le> ?oa"
    using o ok by (intro settle_budget_side_exact) (auto simp: grant_ok_def)
  have "grant_id_of (?f g) = gid"
    using g by (auto simp: find_grant_def dest: find_SomeD)
  moreover have "grant_ok (reservations_of live pair gid) (?f g)"
    using ok ke oe by (auto simp: grant_ok_def)
  ultimately have mok: "locals_ok live pending used ?m" "budget_debts ?m = budget_debts local"
    and mv: "ledger_value L ?m = ledger_value L local - grant_value L pair g + grant_value L pair (?f g)"
    using endableD [OF m, of ?f L] by blast+
  have small: "kd \<le> actual" "od \<le> actual" using ke oe by (auto split: if_splits)
  have d1: "debt_value M (add_debt (bpk_key pair) kd (budget_debts local))
      = debt_value M (budget_debts local) + side_value M (bpk_key pair) kd" for M
  proof (rule add_debt_exact)
    show "debt_value M (budget_debts local) + int kd \<le> int u128_max" for M
      using debts [of M] small by simp
  qed
  have d2: "debt_value M (add_debt (bpk_origin pair) od (add_debt (bpk_key pair) kd (budget_debts local)))
      = debt_value M (budget_debts local) + side_value M (bpk_key pair) kd
        + side_value M (bpk_origin pair) od" for M
  proof -
    have "debt_value M' (add_debt (bpk_key pair) kd (budget_debts local)) + int od \<le> int u128_max" for M'
      using debts [of M'] small by (simp add: d1 side_value_def)
    from add_debt_exact [OF this] show ?thesis by (simp add: d1)
  qed
  have side: "side_value L policy x - side_value L policy y
      = side_value L policy a + side_value L policy b - side_value L policy actual"
    if "int x - int y = int a + int b - int (if policy = None then 0 else actual)"
    for policy x y a b
    using that by (auto simp: side_value_def split: if_splits)
  have "locals_ok live pending used local'" using mok(1) by (simp add: l'' locals_ok_def)
  moreover have "ledger_value L local' = ledger_value L ?m
      - side_value L (bpk_key pair) kd - side_value L (bpk_origin pair) od"
    by (simp add: l'' ledger_value_def mok(2) [unfolded One_nat_def] d2)
  ultimately show ?thesis
    using mv side [OF conjunct1 [OF ke]] side [OF conjunct1 [OF oe]]
    by (simp add: grant_value_def reserved_value_def assms(2))
qed

end
