(* ===== verification/BudgetRuns.thy ===== *)
theory BudgetRuns
  imports BudgetLedger
begin

section \<open>Runs of the local budget\<close>

text \<open>
  Returning allowances, and every interleaving of the operations on the local budget as a
  step relation with the money each step moves in or out of a ledger.
\<close>

subsection \<open>Freezing grants for their return\<close>

definition frozen_as :: "LocalBudgetGrant \<Rightarrow> LocalBudgetGrant \<Rightarrow> bool" where
  "frozen_as g g' \<longleftrightarrow> g' = g \<or> (in_use g = 0 \<and> \<not> returning g \<and> (\<exists>h. paid_as g h \<and> g' = h\<lparr>returning := True\<rparr>))"

lemma frozen_as_simps:
  assumes "frozen_as g g'"
  shows "lbg_request g' = lbg_request g" "in_use g' = in_use g" "returning g \<Longrightarrow> g' = g"
    "key_remaining_nanos g' \<le> key_remaining_nanos g"
    "origin_remaining_nanos g' \<le> origin_remaining_nanos g"
    "returning g' \<Longrightarrow> \<not> returning g \<Longrightarrow> in_use g = 0"
  using assms by (auto simp: frozen_as_def paid_as_simps)

lemma frozen_ids: "list_all2 frozen_as gs gs' \<Longrightarrow> map grant_id_of gs' = map grant_id_of gs"
  by (induction rule: list_all2_induct) (auto simp: frozen_as_simps)

lemma grant_ok_frozen: "grant_ok R g \<Longrightarrow> frozen_as g g' \<Longrightarrow> grant_ok R g'"
  by (auto simp: grant_ok_def frozen_as_def paid_as_simps dest: paid_as_simps(4,5))

lemma freeze_grant_exact:
  assumes "freeze_grant pair debts g = (debts', g')" "return_due close_all deadline g"
  shows "frozen_as g g' \<and> returning g'
    \<and> grant_value L pair g' - debt_value L debts' = grant_value L pair g - debt_value L debts"
proof (cases "returning g")
  case True
  with assms show ?thesis by (simp add: freeze_grant_def frozen_as_def)
next
  case False
  obtain d h where h: "pay_grant pair debts g = (d, h)" by fastforce
  with assms(1) False have g': "debts' = d" "g' = h\<lparr>returning := True\<rparr>"
    by (simp_all add: freeze_grant_def)
  moreover have "in_use g = 0" using assms(2) by (simp add: return_due_def)
  ultimately show ?thesis
    using pay_grant_exact(2) [OF h False] pay_grant_exact(1) [OF h, of L] False
    by (auto simp: frozen_as_def grant_value_def)
qed

lemma freeze_list_exact:
  assumes "freeze_list pair close_all deadline debts gs = (debts', gs', rs)"
  shows "list_all2 frozen_as gs gs'
    \<and> (\<forall>r \<in> set rs. \<exists>g \<in> set gs'. returning g \<and> r = returning_of pair g)
    \<and> grants_value L pair gs' - debt_value L debts' = grants_value L pair gs - debt_value L debts"
  using assms
proof (induction gs arbitrary: debts debts' gs' rs)
  case (Cons g gs)
  show ?case
  proof (cases "return_due close_all deadline g")
    case True
    obtain d1 g1 where 1: "freeze_grant pair debts g = (d1, g1)" by fastforce
    obtain d2 gs2 rs2 where 2: "freeze_list pair close_all deadline d1 gs = (d2, gs2, rs2)"
      by (cases "freeze_list pair close_all deadline d1 gs") auto
    from Cons.prems True 1 2
    have "debts' = d2" "gs' = g1 # gs2" "rs = returning_of pair g1 # rs2" by simp_all
    with freeze_grant_exact [OF 1 True, of L] Cons.IH [OF 2] show ?thesis by auto
  next
    case False
    obtain d2 gs2 rs2 where 2: "freeze_list pair close_all deadline debts gs = (d2, gs2, rs2)"
      by (cases "freeze_list pair close_all deadline debts gs") auto
    from Cons.prems False 2 have "debts' = d2" "gs' = g # gs2" "rs = rs2" by simp_all
    with Cons.IH [OF 2] show ?thesis by (auto simp: frozen_as_def)
  qed
qed simp

definition map_frozen ::
    "(BudgetPairKey \<times> LocalBudgetGrant list) list \<Rightarrow> (BudgetPairKey \<times> LocalBudgetGrant list) list \<Rightarrow> bool"
  where
  "map_frozen m m' \<longleftrightarrow> list_all2 (\<lambda>x y. fst x = fst y \<and> list_all2 frozen_as (snd x) (snd y)) m m'"

lemma frozen_refl: "list_all2 frozen_as gs gs"
  by (rule list_all2_refl) (simp add: frozen_as_def)

lemma freeze_pairs_exact:
  assumes "freeze_pairs only_pair close_all deadline debts m = (debts', m', rs)"
  shows "map_frozen m m'
    \<and> (\<forall>r \<in> set rs. \<exists>gs g. (ret_pair r, gs) \<in> set m' \<and> g \<in> set gs \<and> returning g
         \<and> r = returning_of (ret_pair r) g)
    \<and> asum (grants_value L) m' - debt_value L debts' = asum (grants_value L) m - debt_value L debts"
  using assms
proof (induction m arbitrary: debts debts' m' rs)
  case Nil
  then show ?case by (simp add: map_frozen_def)
next
  case (Cons x m)
  obtain pair gs where x: "x = (pair, gs)" by (cases x)
  show ?case
  proof (cases "is_none_or (\<lambda>selected. selected = pair) only_pair")
    case False
    obtain d2 m2 rs2 where 2: "freeze_pairs only_pair close_all deadline debts m = (d2, m2, rs2)"
      by (cases "freeze_pairs only_pair close_all deadline debts m") auto
    from Cons.prems False 2 x have r: "debts' = d2" "m' = (pair, gs) # m2" "rs = rs2" by simp_all
    from Cons.IH [OF 2] have ih: "map_frozen m m2"
      "\<forall>r \<in> set rs2. \<exists>gs g. (ret_pair r, gs) \<in> set m2 \<and> g \<in> set gs \<and> returning g
         \<and> r = returning_of (ret_pair r) g"
      "asum (grants_value L) m2 - debt_value L d2 = asum (grants_value L) m - debt_value L debts"
      by blast+
    have "map_frozen (x # m) m'" using ih(1) by (simp add: map_frozen_def r x frozen_refl)
    moreover have "\<forall>r \<in> set rs. \<exists>gs g. (ret_pair r, gs) \<in> set m' \<and> g \<in> set gs \<and> returning g
         \<and> r = returning_of (ret_pair r) g"
      using ih(2) unfolding r by (meson list.set_intros(2))
    ultimately show ?thesis using ih(3) by (simp add: r x)
  next
    case True
    obtain d1 gs1 rs1 where 1: "freeze_list pair close_all deadline debts gs = (d1, gs1, rs1)"
      by (cases "freeze_list pair close_all deadline debts gs") auto
    obtain d2 m2 rs2 where 2: "freeze_pairs only_pair close_all deadline d1 m = (d2, m2, rs2)"
      by (cases "freeze_pairs only_pair close_all deadline d1 m") auto
    from Cons.prems True 1 2 x have r: "debts' = d2" "m' = (pair, gs1) # m2" "rs = rs1 @ rs2"
      by simp_all
    from Cons.IH [OF 2] have ih: "map_frozen m m2"
      "\<forall>r \<in> set rs2. \<exists>gs g. (ret_pair r, gs) \<in> set m2 \<and> g \<in> set gs \<and> returning g
         \<and> r = returning_of (ret_pair r) g"
      "asum (grants_value L) m2 - debt_value L d2 = asum (grants_value L) m - debt_value L d1"
      by blast+
    from freeze_list_exact [OF 1] have fl: "list_all2 frozen_as gs gs1"
      "\<forall>r \<in> set rs1. \<exists>g \<in> set gs1. returning g \<and> r = returning_of pair g"
      "grants_value L pair gs1 - debt_value L d1 = grants_value L pair gs - debt_value L debts"
      by blast+
    have "map_frozen (x # m) m'" using ih(1) fl(1) by (simp add: map_frozen_def r x)
    moreover have "\<forall>r \<in> set rs. \<exists>gs g. (ret_pair r, gs) \<in> set m' \<and> g \<in> set gs \<and> returning g
         \<and> r = returning_of (ret_pair r) g"
    proof
      fix q assume "q \<in> set rs"
      then consider "q \<in> set rs1" | "q \<in> set rs2" by (auto simp: r)
      then show "\<exists>gs g. (ret_pair q, gs) \<in> set m' \<and> g \<in> set gs \<and> returning g
         \<and> q = returning_of (ret_pair q) g"
      proof cases
        case 1
        with fl(2) obtain g where g: "g \<in> set gs1" "returning g" "q = returning_of pair g" by blast
        then have "ret_pair q = pair" by (simp add: returning_of_def)
        with g show ?thesis by (auto simp: r)
      next
        case 2
        with ih(2) show ?thesis unfolding r by (meson list.set_intros(2))
      qed
    qed
    ultimately show ?thesis using ih(3) fl(3) by (simp add: r x)
  qed
qed

lemma map_frozen_fst: "map_frozen m m' \<Longrightarrow> map fst m' = map fst m"
  unfolding map_frozen_def by (induction rule: list_all2_induct) auto

lemma map_frozen_aget:
  assumes "map_frozen m m'"
  shows "aget m' k = None \<longleftrightarrow> aget m k = None"
    and "aget m' k = Some gs' \<Longrightarrow> \<exists>gs. aget m k = Some gs \<and> list_all2 frozen_as gs gs'"
    and "aget m k = Some gs \<Longrightarrow> \<exists>gs'. aget m' k = Some gs' \<and> list_all2 frozen_as gs gs'"
  using assms unfolding map_frozen_def
  by (induction arbitrary: gs gs' rule: list_all2_induct) (auto split: if_splits)

lemma entry_ok_frozen:
  assumes "entry_ok live used pair gs" "list_all2 frozen_as gs gs'"
  shows "entry_ok live used pair gs'"
proof -
  have "\<exists>g \<in> set gs. frozen_as g g'" if "g' \<in> set gs'" for g'
    using assms(2) that by (metis in_set_conv_nth list_all2_conv_all_nth)
  with assms frozen_ids [OF assms(2)] show ?thesis
    by (fastforce simp: entry_ok_def frozen_as_simps intro: grant_ok_frozen)
qed

lemma grants_ok_frozen:
  assumes "grants_ok live used m" "map_frozen m m'"
  shows "grants_ok live used m'"
proof -
  have "adistinct m'" using assms map_frozen_fst [OF assms(2)] by (simp add: grants_ok_def adistinct_def)
  moreover have "entry_ok live used pair gs'" if "aget m' pair = Some gs'" for pair gs'
    using map_frozen_aget(2) [OF assms(2) that] assms(1)
    by (auto simp: grants_ok_def intro: entry_ok_frozen)
  moreover have "reservation_backed m' r" if "r \<in># live" for r
  proof -
    from assms(1) that have "reservation_backed m r" by (simp add: grants_ok_def)
    then obtain p gid gs g where r: "\<not> released r" "res_pair r = Some p" "res_grant_id r = Some gid"
      "aget m p = Some gs" "g \<in> set gs" "grant_id_of g = gid"
      by (auto simp: reservation_backed_def)
    from map_frozen_aget(3) [OF assms(2) r(4)] obtain gs' where
      gs': "aget m' p = Some gs'" "list_all2 frozen_as gs gs'" by blast
    have "set (map grant_id_of gs') = set (map grant_id_of gs)" by (simp only: frozen_ids [OF gs'(2)])
    with r gs' have "gid \<in> grant_id_of ` set gs'" by auto
    with r gs' show ?thesis by (auto simp: reservation_backed_def)
  qed
  ultimately show ?thesis by (simp add: grants_ok_def)
qed

lemma pending_ok_frozen:
  assumes "pending_ok pending used m" "map_frozen m m'"
  shows "pending_ok pending used m'"
  unfolding pending_ok_def
proof (intro ballI conjI allI impI)
  fix p assume p: "p \<in># pending"
  with assms(1) show "pbg_grant_id (ret_request p) \<in> used" by (simp add: pending_ok_def)
  fix gs' g' assume g': "aget m' (ret_pair p) = Some gs'" "g' \<in> set gs'"
    "grant_id_of g' = pbg_grant_id (ret_request p)"
  from map_frozen_aget(2) [OF assms(2) g'(1)] obtain gs where
    gs: "aget m (ret_pair p) = Some gs" "list_all2 frozen_as gs gs'" by blast
  then obtain g where g: "g \<in> set gs" "frozen_as g g'"
    using g'(2) by (metis in_set_conv_nth list_all2_conv_all_nth)
  have "returning g \<and> key_remaining_nanos g = ret_key_remaining_nanos p
      \<and> origin_remaining_nanos g = ret_origin_remaining_nanos p"
    using assms(1) p gs(1) g g'(3) by (auto simp: pending_ok_def frozen_as_simps)
  moreover have "g' = g" using g(2) calculation by (simp add: frozen_as_simps)
  ultimately show "returning g'" "key_remaining_nanos g' = ret_key_remaining_nanos p"
    "origin_remaining_nanos g' = ret_origin_remaining_nanos p"
    by simp_all
qed

lemma distinct_ids_eq:
  "distinct (map grant_id_of gs) \<Longrightarrow> g \<in> set gs \<Longrightarrow> h \<in> set gs \<Longrightarrow> grant_id_of g = grant_id_of h \<Longrightarrow> g = h"
  by (induction gs) (auto simp: image_iff)

lemma freeze_ok:
  assumes "freeze_budget_grants only_pair close_all deadline local = (local', rs)"
    and "locals_ok live pending used local"
  shows "locals_ok live (mset rs + pending) used local'
    \<and> ledger_value L local' = ledger_value L local"
proof -
  obtain debts m where f: "freeze_pairs only_pair close_all deadline (budget_debts local)
      (budget_grants local) = (debts, m, rs)" and l': "local' = local\<lparr>budget_debts := debts, budget_grants := m\<rparr>"
    using assms(1)
    by (cases "freeze_pairs only_pair close_all deadline (budget_debts local) (budget_grants local)")
      (auto simp: freeze_budget_grants_def)
  from freeze_pairs_exact [OF f, of L] have fr: "map_frozen (budget_grants local) m"
    and rs: "\<forall>r \<in> set rs. \<exists>gs g. (ret_pair r, gs) \<in> set m \<and> g \<in> set gs \<and> returning g
         \<and> r = returning_of (ret_pair r) g"
    and v: "asum (grants_value L) m - debt_value L debts
      = asum (grants_value L) (budget_grants local) - debt_value L (budget_debts local)"
    by blast+
  from assms(2) have g: "grants_ok live used (budget_grants local)"
    and pend: "pending_ok pending used (budget_grants local)"
    by (simp_all add: locals_ok_def)
  have g': "grants_ok live used m" using g fr by (rule grants_ok_frozen)
  have "pending_ok (mset rs) used m"
    unfolding pending_ok_def
  proof (intro ballI conjI allI impI)
    fix p assume "p \<in># mset rs"
    with rs obtain gs g where p: "(ret_pair p, gs) \<in> set m" "g \<in> set gs" "returning g"
      "p = returning_of (ret_pair p) g"
      by fastforce
    from p(1) g' have a: "aget m (ret_pair p) = Some gs"
      by (simp add: grants_ok_def adistinct_def)
    with g' have e: "entry_ok live used (ret_pair p) gs" by (simp add: grants_ok_def)
    from p(4) have q: "ret_request p = lbg_request g" "ret_key_remaining_nanos p = key_remaining_nanos g"
      "ret_origin_remaining_nanos p = origin_remaining_nanos g"
      by (metis ReturningBudgetGrant.select_convs(2-4) returning_of_def)+
    show "pbg_grant_id (ret_request p) \<in> used" using e p(2) q by (simp add: entry_ok_def)
    fix gs' h assume h: "aget m (ret_pair p) = Some gs'" "h \<in> set gs'"
      "grant_id_of h = pbg_grant_id (ret_request p)"
    with a have "gs' = gs" by simp
    with h e p(2) q have "h = g" by (intro distinct_ids_eq [of gs]) (simp_all add: entry_ok_def)
    with p(3) q show "returning h" "key_remaining_nanos h = ret_key_remaining_nanos p"
      "origin_remaining_nanos h = ret_origin_remaining_nanos p"
      by simp_all
  qed
  with pending_ok_frozen [OF pend fr] have "pending_ok (mset rs + pending) used m"
    by (auto simp: pending_ok_def)
  with g' v show ?thesis by (simp add: l' locals_ok_def ledger_value_def)
qed

subsection \<open>Acknowledged returns and pruning\<close>

definition returned_value :: "BudgetLedgerKey \<Rightarrow> ReturningBudgetGrant \<Rightarrow> int" where
  "returned_value L p =
     side_value L (bpk_key (ret_pair p)) (ret_key_remaining_nanos p)
     + side_value L (bpk_origin (ret_pair p)) (ret_origin_remaining_nanos p)"

lemma filter_other_id: "distinct (map grant_id_of gs) \<Longrightarrow> find (\<lambda>g. grant_id_of g = i) gs = None
    \<Longrightarrow> filter (\<lambda>g. grant_id_of g \<noteq> i) gs = gs"
  by (simp add: find_eq_None_iff)

lemma grants_value_remove:
  "distinct (map grant_id_of gs) \<Longrightarrow>
    grants_value L pair (filter (\<lambda>g. grant_id_of g \<noteq> i) gs) = grants_value L pair gs
      - (case find (\<lambda>g. grant_id_of g = i) gs of None \<Rightarrow> 0 | Some g \<Rightarrow> grant_value L pair g)"
proof (induction gs)
  case (Cons g gs)
  show ?case
  proof (cases "grant_id_of g = i")
    case True
    with Cons.prems have "i \<notin> grant_id_of ` set gs" by simp
    then have "\<forall>h \<in> set gs. grant_id_of h \<noteq> i" by blast
    then have "filter (\<lambda>g. grant_id_of g \<noteq> i) gs = gs" by simp
    with True show ?thesis by simp
  next
    case False
    with Cons show ?thesis by simp
  qed
qed simp

lemma acknowledge_ok:
  assumes "locals_ok live (add_mset p pending) used local"
    and l': "local' = acknowledge_return True p local"
  shows "locals_ok live pending used local'
    \<and> ledger_value L local' = ledger_value L local
      - (if find_grant (ret_pair p) (pbg_grant_id (ret_request p)) local = None then 0
         else returned_value L p)"
proof -
  let ?i = "pbg_grant_id (ret_request p)" and ?pair = "ret_pair p"
  from assms(1) have g: "grants_ok live used (budget_grants local)"
    and pend: "pending_ok (add_mset p pending) used (budget_grants local)"
    by (simp_all add: locals_ok_def)
  then have pend': "pending_ok pending used (budget_grants local)" by (simp add: pending_ok_def)
  show ?thesis
  proof (cases "aget (budget_grants local) ?pair")
    case None
    then have "local' = local" by (simp add: l' acknowledge_return_def)
    with None g pend' show ?thesis by (simp add: locals_ok_def find_grant_def)
  next
    case (Some gs)
    let ?gs = "filter (\<lambda>g. grant_id_of g \<noteq> ?i) gs"
    have l'': "local' = local\<lparr>budget_grants := aput ?pair ?gs (budget_grants local)\<rparr>"
      by (simp add: l' acknowledge_return_def Some)
    from g Some have e: "entry_ok live used ?pair gs" by (simp add: grants_ok_def)
    have frozen: "returning h \<and> grant_value L ?pair h = returned_value L p"
      if "h \<in> set gs" "grant_id_of h = ?i" for h
    proof -
      from pend Some that have "returning h"
        "key_remaining_nanos h = ret_key_remaining_nanos p"
        "origin_remaining_nanos h = ret_origin_remaining_nanos p"
        by (auto simp: pending_ok_def)
      then show ?thesis by (simp add: grant_value_def returned_value_def)
    qed
    have none: "reservations_of live ?pair ?i = {#}" if "h \<in> set gs" "grant_id_of h = ?i" for h
      using e that frozen [OF that] by (auto simp: entry_ok_def grant_ok_def)
    have "entry_ok live used ?pair ?gs"
      using e by (auto simp: entry_ok_def distinct_map_filter)
    with g have "grants_ok live used (aput ?pair ?gs (budget_grants local))"
    proof (rule grants_ok_aput)
      fix r assume r: "r \<in># live"
      with g obtain q gid gs0 h where b: "\<not> released r" "res_pair r = Some q"
        "res_grant_id r = Some gid" "aget (budget_grants local) q = Some gs0" "h \<in> set gs0"
        "grant_id_of h = gid"
        by (fastforce simp: grants_ok_def reservation_backed_def)
      show "reservation_backed (aput ?pair ?gs (budget_grants local)) r"
      proof (cases "q = ?pair")
        case True
        have "grant_id_of h \<noteq> ?i"
        proof
          assume "grant_id_of h = ?i"
          moreover have "h \<in> set gs" using True b Some by simp
          ultimately have "reservations_of live ?pair ?i = {#}" by (intro none)
          moreover have "r \<in># reservations_of live ?pair ?i"
            using r b True \<open>grant_id_of h = ?i\<close> by (simp add: reservations_of_def)
          ultimately show False by simp
        qed
        with True b Some have "h \<in> set ?gs" by simp
        with b True show ?thesis by (auto simp: reservation_backed_def aget_aput)
      next
        case False
        with b show ?thesis by (auto simp: reservation_backed_def aget_aput)
      qed
    qed simp_all
    moreover have "derived used (grant_entry ?pair local) ?gs"
      by (auto simp: derived_def grant_entry_def Some)
    then have "pending_ok pending used (aput ?pair ?gs (budget_grants local))"
      using pend' by (auto intro: pending_ok_aput)
    moreover have "asum (grants_value L) (aput ?pair ?gs (budget_grants local))
      = asum (grants_value L) (budget_grants local)
        - (if find_grant ?pair ?i local = None then 0 else returned_value L p)"
    proof (cases "find (\<lambda>g. grant_id_of g = ?i) gs")
      case None
      with e show ?thesis
        by (simp add: asum_grant_entry grant_entry_def Some grants_value_remove entry_ok_def
            find_grant_def)
    next
      case (Some h)
      with find_SomeD [OF Some] frozen [of h] e \<open>aget (budget_grants local) ?pair = Some gs\<close>
      show ?thesis
        by (simp add: asum_grant_entry grant_entry_def grants_value_remove entry_ok_def
            find_grant_def)
    qed
    ultimately show ?thesis by (simp add: l'' locals_ok_def ledger_value_def)
  qed
qed

lemma asum_filter_zero:
  "(\<And>k v. (k, v) \<in> set m \<Longrightarrow> \<not> P (k, v) \<Longrightarrow> f k v = 0) \<Longrightarrow> asum f (filter P m) = asum f m"
  by (induction m) auto

lemma prune_ok:
  assumes "locals_ok live pending used local" "local' = prune_budget_grants local"
  shows "locals_ok live pending used local' \<and> ledger_value L local' = ledger_value L local"
proof -
  let ?m = "filter (\<lambda>(_, gs). gs \<noteq> []) (budget_grants local)"
  from assms(1) have g: "grants_ok live used (budget_grants local)"
    and pend: "pending_ok pending used (budget_grants local)"
    by (simp_all add: locals_ok_def)
  then have d: "adistinct (budget_grants local)" by (simp add: grants_ok_def)
  note a = aget_filter [OF d, of "\<lambda>(_, gs). gs \<noteq> []"]
  have "reservation_backed ?m r" if "r \<in># live" for r
  proof -
    from g that have "reservation_backed (budget_grants local) r" by (simp add: grants_ok_def)
    then show ?thesis by (fastforce simp: reservation_backed_def a)
  qed
  then have "grants_ok live used ?m" using g d by (auto simp: grants_ok_def a)
  moreover have "pending_ok pending used ?m" using pend by (auto simp: pending_ok_def a)
  moreover have "asum (grants_value L) ?m = asum (grants_value L) (budget_grants local)"
    by (rule asum_filter_zero) auto
  ultimately show ?thesis
    by (simp add: assms(2) prune_budget_grants_def locals_ok_def ledger_value_def)
qed

subsection \<open>The step relation\<close>

text \<open>
  A run keeps the local state, the reservations that are alive, the returns sent to the
  coordinator, the grant identities used so far, and for every ledger the net amount that
  came in: what was granted, less what was charged, forfeited and returned.

  The premises of the rules are what the code relies on: a grant carries the fresh identity
  of its request (\<open>Uuid::now_v7\<close>), amounts are 128-bit values, fewer than
  \<open>2^32\<close> attempts are alive, and a debt does not reach \<open>2^128\<close> nanos.
\<close>

record BudgetRun =
  run_local :: LocalAdmissionState
  run_live :: "AttemptReservation multiset"
  run_pending :: "ReturningBudgetGrant multiset"
  run_used :: "uuid set"
  run_net :: "BudgetLedgerKey \<Rightarrow> int"

definition BudgetRun_start :: BudgetRun where
  "BudgetRun_start = \<lparr>run_local = LocalAdmissionState_default, run_live = {#}, run_pending = {#},
     run_used = {}, run_net = (\<lambda>_. 0)\<rparr>"

definition granted_amount :: "nat option \<Rightarrow> nat" where
  "granted_amount amount = (case amount of None \<Rightarrow> 0 | Some n \<Rightarrow> n)"

definition pair_charge :: "BudgetLedgerKey \<Rightarrow> BudgetPairKey option \<Rightarrow> nat \<Rightarrow> int" where
  "pair_charge L pair actual =
     (case pair of None \<Rightarrow> 0
      | Some q \<Rightarrow> side_value L (bpk_key q) actual + side_value L (bpk_origin q) actual)"

inductive budget_step :: "BudgetRun \<Rightarrow> BudgetRun \<Rightarrow> bool" where
  install: "budget_step run
      (run\<lparr>run_local := install_budget_grant pair request grant (run_local run),
           run_used := insert (ag_id grant) (run_used run),
           run_net := (\<lambda>L. run_net run L
             + side_value L (bpk_key pair) (granted_amount (key_amount_nanos grant))
             + side_value L (bpk_origin pair) (granted_amount (origin_amount_nanos grant)))\<rparr>)"
    if "pbg_grant_id request = ag_id grant" "ag_id grant \<notin> run_used run"
      "granted_amount (key_amount_nanos grant) \<le> u128_max"
      "granted_amount (origin_amount_nanos grant) \<le> u128_max"
| reserve: "budget_step run (run\<lparr>run_local := local', run_live := add_mset r (run_live run)\<rparr>)"
    if "try_reserve_budget now pair k e est (run_local run) = (local', Some r)"
      "size (run_live run) < u32_max"
| refuse: "budget_step run (run\<lparr>run_local := local'\<rparr>)"
    if "try_reserve_budget now pair k e est (run_local run) = (local', None)"
| dispatch: "budget_step run (run\<lparr>run_live := add_mset (mark_dispatched r) live\<rparr>)"
    if "run_live run = add_mset r live"
| cancel: "budget_step run (run\<lparr>run_local := local', run_live := live\<rparr>)"
    if "run_live run = add_mset r live" "definitely_not_dispatched r (run_local run) = (r', local')"
| settle: "budget_step run (run\<lparr>run_local := local', run_live := live,
      run_net := (\<lambda>L. run_net run L - pair_charge L (res_pair r) actual)\<rparr>)"
    if "run_live run = add_mset r live" "settle_actual_cost actual r (run_local run) = (r', local')"
      "\<And>L. debt_value L (budget_debts (run_local run)) + 2 * int actual \<le> int u128_max"
| drop: "budget_step run (run\<lparr>run_local := local', run_live := live,
      run_net := (\<lambda>L. run_net run L - (if dispatched r then reserved_value L r else 0))\<rparr>)"
    if "run_live run = add_mset r live" "AttemptReservation_drop r (run_local run) = (r', local')"
| freeze: "budget_step run
      (run\<lparr>run_local := local', run_pending := mset rs + run_pending run\<rparr>)"
    if "freeze_budget_grants only_pair close_all deadline (run_local run) = (local', rs)"
| acknowledge: "budget_step run
      (run\<lparr>run_local := acknowledge_return True p (run_local run), run_pending := pending,
           run_net := (\<lambda>L. run_net run L
             - (if find_grant (ret_pair p) (pbg_grant_id (ret_request p)) (run_local run) = None
                then 0 else returned_value L p))\<rparr>)"
    if "run_pending run = add_mset p pending"
| lost: "budget_step run
      (run\<lparr>run_local := acknowledge_return False p (run_local run), run_pending := pending\<rparr>)"
    if "run_pending run = add_mset p pending"
| prune: "budget_step run (run\<lparr>run_local := prune_budget_grants (run_local run)\<rparr>)"

definition run_ok :: "BudgetRun \<Rightarrow> bool" where
  "run_ok run \<longleftrightarrow>
     locals_ok (run_live run) (run_pending run) (run_used run) (run_local run)
     \<and> (\<forall>L. ledger_value L (run_local run) + (\<Sum>r \<in># run_live run. reserved_value L r)
          = run_net run L)"

lemma live_reservation:
  assumes "locals_ok (add_mset r live) pending used local"
  obtains pair gid where "\<not> released r" "res_pair r = Some pair" "res_grant_id r = Some gid"
proof -
  from assms have "reservation_backed (budget_grants local) r"
    by (simp add: locals_ok_def grants_ok_def)
  with that show ?thesis by (auto simp: reservation_backed_def)
qed

lemma mark_dispatched_ok:
  assumes "locals_ok (add_mset r live) pending used local"
  shows "locals_ok (add_mset (mark_dispatched r) live) pending used local"
proof -
  have "reservations_of (add_mset (mark_dispatched r) live) pair gid
      = (if res_pair r = Some pair \<and> res_grant_id r = Some gid
         then add_mset (mark_dispatched r) (reservations_of live pair gid)
         else reservations_of live pair gid)" for pair gid
    by (simp add: reservations_of_add mark_dispatched_def)
  moreover have "grant_ok (add_mset (mark_dispatched r) R) g \<longleftrightarrow> grant_ok (add_mset r R) g" for R g
    by (simp add: grant_ok_def mark_dispatched_def)
  ultimately have "entry_ok (add_mset (mark_dispatched r) live) used pair gs
      \<longleftrightarrow> entry_ok (add_mset r live) used pair gs" for pair gs
    by (simp add: entry_ok_def reservations_of_add)
  moreover have "reservation_backed m (mark_dispatched r) = reservation_backed m r" for m
    by (simp add: reservation_backed_def mark_dispatched_def)
  ultimately show ?thesis using assms by (simp add: locals_ok_def grants_ok_def)
qed

lemma reserved_mark [simp]: "reserved_value L (mark_dispatched r) = reserved_value L r"
  by (simp add: reserved_value_def mark_dispatched_def split: option.split)

lemma budget_step_ok:
  assumes "budget_step run run'" "run_ok run"
  shows "run_ok run'"
  using assms
proof (induction rule: budget_step.induct)
  case (install request grant run pair)
  from install(5) have ok: "locals_ok (run_live run) (run_pending run) (run_used run) (run_local run)"
    and v: "ledger_value L (run_local run) + (\<Sum>r \<in># run_live run. reserved_value L r) = run_net run L" for L
    by (simp_all add: run_ok_def)
  note i = install_ok [OF ok install(1,2) granted_amount_def install(3) granted_amount_def
      install(4) refl, where pair = pair]
  have "locals_ok (run_live run) (run_pending run) (insert (ag_id grant) (run_used run))
        (install_budget_grant pair request grant (run_local run))
      \<and> ledger_value L (install_budget_grant pair request grant (run_local run))
        = ledger_value L (run_local run)
          + side_value L (bpk_key pair) (granted_amount (key_amount_nanos grant))
          + side_value L (bpk_origin pair) (granted_amount (origin_amount_nanos grant))" for L
    by (rule i)
  with v show ?case by (simp add: run_ok_def)
next
  case (reserve now pair k e est run local' r)
  from reserve(3) have ok: "locals_ok (run_live run) (run_pending run) (run_used run) (run_local run)"
    by (simp add: run_ok_def)
  from try_reserve_granted [OF reserve(1) ok reserve(2)] reserve(3)
  show ?case by (simp add: run_ok_def) (metis add.assoc add.commute)
next
  case (refuse now pair k e est run local')
  from refuse(2) have ok: "locals_ok (run_live run) (run_pending run) (run_used run) (run_local run)"
    by (simp add: run_ok_def)
  from try_reserve_refused [OF refuse(1) ok] refuse(2) show ?case by (simp add: run_ok_def)
next
  case (dispatch run r live)
  then show ?case by (auto simp: run_ok_def intro: mark_dispatched_ok)
next
  case (cancel run r live r' local')
  then have ok: "locals_ok (add_mset r live) (run_pending run) (run_used run) (run_local run)"
    by (simp add: run_ok_def)
  from ok obtain pair gid where r: "\<not> released r" "res_pair r = Some pair" "res_grant_id r = Some gid"
    by (rule live_reservation)
  with cancel(2) have l': "local' = release_budget_reservation pair gid (key_reserved_nanos r)
      (origin_reserved_nanos r) (run_local run)"
    by (simp add: definitely_not_dispatched_def)
  from release_ok [OF ok r(2,3) l'] cancel(1,3) show ?case by (simp add: run_ok_def algebra_simps)
next
  case (settle run r live actual r' local')
  then have ok: "locals_ok (add_mset r live) (run_pending run) (run_used run) (run_local run)"
    by (simp add: run_ok_def)
  from ok obtain pair gid where r: "\<not> released r" "res_pair r = Some pair" "res_grant_id r = Some gid"
    by (rule live_reservation)
  with settle(2) have l': "local' = settle_budget_reservation pair gid (key_reserved_nanos r)
      (origin_reserved_nanos r) actual (run_local run)"
    by (simp add: settle_actual_cost_def)
  from settle_ok [OF ok r(2,3) settle(3) l'] settle(1,4) show ?case
    by (simp add: run_ok_def pair_charge_def r)
next
  case (drop run r live r' local')
  then have ok: "locals_ok (add_mset r live) (run_pending run) (run_used run) (run_local run)"
    by (simp add: run_ok_def)
  from ok obtain pair gid where r: "\<not> released r" "res_pair r = Some pair" "res_grant_id r = Some gid"
    by (rule live_reservation)
  show ?case
  proof (cases "dispatched r")
    case True
    with drop(2) r have l': "local' = abandon_budget_reservation pair gid (run_local run)"
      by (simp add: AttemptReservation_drop_def)
    from abandon_ok [OF ok r(2,3) l'] drop(1,3) True show ?thesis
      by (simp add: run_ok_def algebra_simps)
  next
    case False
    with drop(2) r have l': "local' = release_budget_reservation pair gid (key_reserved_nanos r)
        (origin_reserved_nanos r) (run_local run)"
      by (simp add: AttemptReservation_drop_def definitely_not_dispatched_def)
    from release_ok [OF ok r(2,3) l'] drop(1,3) False show ?thesis by (simp add: run_ok_def algebra_simps)
  qed
next
  case (freeze only_pair close_all deadline run local' rs)
  then have ok: "locals_ok (run_live run) (run_pending run) (run_used run) (run_local run)"
    by (simp add: run_ok_def)
  from freeze_ok [OF freeze(1) ok] freeze(2) show ?case by (simp add: run_ok_def)
next
  case (acknowledge run p pending)
  then have ok: "locals_ok (run_live run) (add_mset p pending) (run_used run) (run_local run)"
    by (simp add: run_ok_def)
  from acknowledge_ok [OF ok refl] acknowledge(2) show ?case by (simp add: run_ok_def algebra_simps)
next
  case (lost run p pending)
  moreover have "acknowledge_return False p (run_local run) = run_local run"
    by (simp add: acknowledge_return_def split: option.split)
  ultimately show ?case by (auto simp: run_ok_def locals_ok_def pending_ok_def)
next
  case (prune run)
  then have ok: "locals_ok (run_live run) (run_pending run) (run_used run) (run_local run)"
    by (simp add: run_ok_def)
  from prune_ok [OF ok refl] prune show ?case by (simp add: run_ok_def)
qed

lemma budget_start_ok: "run_ok BudgetRun_start"
  by (simp add: run_ok_def BudgetRun_start_def LocalAdmissionState_default_def locals_ok_def
      grants_ok_def pending_ok_def ledger_value_def debt_value_def)

lemma budget_reachable_ok: "budget_step\<^sup>*\<^sup>* BudgetRun_start run \<Longrightarrow> run_ok run"
  by (induction rule: rtranclp_induct) (auto intro: budget_start_ok budget_step_ok)

subsection \<open>A concrete run\<close>

text \<open>
  A grant of 100 nanos, a reservation of 40 that turns out to cost 50, and the freeze of
  the grant for its return.
\<close>

definition sample_policy :: PolicyReference where
  "sample_policy = \<lparr>pr_organization_id = 1, pr_kind = GatewayKeyBudget, pr_policy_id = 2,
     pr_version_id = 3, pr_epoch = ''e'', pr_generation = 1, pr_recovery_generation = 0\<rparr>"

definition sample_pair :: BudgetPairKey where
  "sample_pair = \<lparr>bpk_key = Some sample_policy, bpk_origin = None\<rparr>"

definition sample_request :: PairedBudgetGrantRequest where
  "sample_request = \<lparr>pbg_organization_id = 1, pbg_grant_id = 9,
     pbg_key = Some \<lparr>side_policy = sample_policy, side_amount_nanos = 100\<rparr>, pbg_origin = None,
     requested_ttl_ms = 60000, one_shot = False\<rparr>"

definition sample_grant :: AllowanceGrant where
  "sample_grant = \<lparr>ag_id = 9, ag_expires_at_unix_ms = 1000, key_amount_nanos = Some 100,
     origin_amount_nanos = None\<rparr>"

definition sample_reservation :: AttemptReservation where
  "sample_reservation = \<lparr>res_pair = Some sample_pair, res_grant_id = Some 9,
     key_reserved_nanos = 40, origin_reserved_nanos = 0, estimated_cost_nanos = Some 40,
     dispatched = False, released = False\<rparr>"

definition sample_local_grant :: "nat \<Rightarrow> nat \<Rightarrow> bool \<Rightarrow> LocalBudgetGrant" where
  "sample_local_grant remaining n frozen = \<lparr>lbg_request = sample_request,
     lbg_expires_at_unix_ms = 1000, key_remaining_nanos = remaining, origin_remaining_nanos = 0,
     in_use = n, returning = frozen\<rparr>"

definition sample_local :: "nat \<Rightarrow> nat \<Rightarrow> bool \<Rightarrow> LocalAdmissionState" where
  "sample_local remaining n frozen = \<lparr>rate_grants = [], concurrency_grants = [],
     budget_grants = [(sample_pair, [sample_local_grant remaining n frozen])], budget_debts = []\<rparr>"

definition sample_run ::
    "LocalAdmissionState \<Rightarrow> AttemptReservation multiset \<Rightarrow> ReturningBudgetGrant multiset \<Rightarrow> nat \<Rightarrow> BudgetRun"
  where
  "sample_run local live pending net = \<lparr>run_local = local, run_live = live, run_pending = pending,
     run_used = {9}, run_net = (\<lambda>L. side_value L (Some sample_policy) net)\<rparr>"

lemmas budget_eval = sample_policy_def sample_pair_def sample_request_def sample_grant_def
  sample_reservation_def sample_local_grant_def sample_local_def
  LocalAdmissionState_default_def grant_entry_def pay_budget_debt_def pay_grant_def
  can_reserve_def take_reservation_def pair_in_debt_def pair_policies_def Let_def

lemma sample_installed:
  "budget_step BudgetRun_start (sample_run (sample_local 100 0 False) {#} {#} 100)"
proof -
  have "install_budget_grant sample_pair sample_request sample_grant LocalAdmissionState_default
      = sample_local 100 0 False"
    by (simp add: install_budget_grant_def budget_eval)
  moreover have "granted_amount (key_amount_nanos sample_grant) = 100"
    "granted_amount (origin_amount_nanos sample_grant) = 0"
    by (simp_all add: granted_amount_def sample_grant_def)
  ultimately show ?thesis
    using budget_step.install [of sample_request sample_grant BudgetRun_start sample_pair]
    by (simp add: BudgetRun_start_def sample_run_def u128_max_def)
      (simp add: sample_request_def sample_grant_def sample_pair_def)
qed

lemma sample_try:
  "try_reserve_budget 0 sample_pair 40 0 (Some 40) (sample_local 100 0 False)
    = (sample_local 60 1 False, Some sample_reservation)"
  by (simp add: try_reserve_budget_def budget_eval u32_max_def List.map_filter_def)

lemma sample_reserved:
  "budget_step (sample_run (sample_local 100 0 False) {#} {#} 100)
    (sample_run (sample_local 60 1 False) {#sample_reservation#} {#} 100)"
  using budget_step.reserve [where run = "sample_run (sample_local 100 0 False) {#} {#} 100",
      of 0 sample_pair 40 0 "Some 40" "sample_local 60 1 False" sample_reservation] sample_try
  by (simp add: sample_run_def u32_max_def)

lemma sample_settled:
  "budget_step (sample_run (sample_local 60 1 False) {#sample_reservation#} {#} 100)
    (sample_run (sample_local 50 0 False) {#} {#} 50)"
proof -
  have "settle_actual_cost 50 sample_reservation (sample_local 60 1 False)
      = (sample_reservation\<lparr>released := True\<rparr>, sample_local 50 0 False)"
    by (simp add: settle_actual_cost_def settle_budget_reservation_def find_grant_def
        modify_grant_def settle_budget_side_def add_debt_def budget_eval)
  moreover have "side_value L (Some sample_policy) 100 - pair_charge L (Some sample_pair) 50
      = side_value L (Some sample_policy) 50" for L
    by (simp add: pair_charge_def side_value_def sample_pair_def)
  moreover have "debt_value L (budget_debts (sample_local 60 1 False)) = 0" for L
    by (simp add: debt_value_def sample_local_def)
  moreover have "res_pair sample_reservation = Some sample_pair"
    by (simp add: sample_reservation_def)
  ultimately show ?thesis
    using budget_step.settle [where run = "sample_run (sample_local 60 1 False) {#sample_reservation#} {#} 100",
        of sample_reservation "{#}" 50]
    by (simp add: sample_run_def u128_max_def)
qed

definition sample_return :: ReturningBudgetGrant where
  "sample_return = \<lparr>ret_pair = sample_pair, ret_request = sample_request,
     ret_key_remaining_nanos = 50, ret_origin_remaining_nanos = 0\<rparr>"

lemma sample_frozen:
  "budget_step (sample_run (sample_local 50 0 False) {#} {#} 50)
    (sample_run (sample_local 50 0 True) {#} {#sample_return#} 50)"
proof -
  have "freeze_budget_grants None True 0 (sample_local 50 0 False)
      = (sample_local 50 0 True, [sample_return])"
    by (simp add: freeze_budget_grants_def freeze_grant_def return_due_def returning_of_def
        sample_return_def budget_eval)
  then show ?thesis
    using budget_step.freeze [where run = "sample_run (sample_local 50 0 False) {#} {#} 50",
        of None True 0]
    by (simp add: sample_run_def)
qed

lemmas sample_steps = sample_installed sample_reserved sample_settled sample_frozen

lemma sample_reach_reserved:
  "budget_step\<^sup>*\<^sup>* BudgetRun_start (sample_run (sample_local 60 1 False) {#sample_reservation#} {#} 100)"
  using sample_steps by (meson rtranclp.rtrancl_into_rtrancl rtranclp.rtrancl_refl)

lemma sample_reach_frozen:
  "budget_step\<^sup>*\<^sup>* BudgetRun_start (sample_run (sample_local 50 0 True) {#} {#sample_return#} 50)"
  using sample_steps by (meson rtranclp.rtrancl_into_rtrancl rtranclp.rtrancl_refl)

subsection \<open>Properties\<close>

text \<open>
  C1: at every point of every interleaving of grants, reservations,
  cancellations, settlements, drops, freezes, acknowledged and lost returns, what a ledger
  still holds locally, less its debt, plus what live attempts have reserved, is exactly
  what was granted to it less the actual costs charged, the reservations forfeited by
  attempts of unknown cost, and the amounts the coordinator took back.
\<close>

theorem budget_conservation:
  assumes "budget_step\<^sup>*\<^sup>* BudgetRun_start run"
  shows "ledger_value L (run_local run) + (\<Sum>r \<in># run_live run. reserved_value L r) = run_net run L"
  using budget_reachable_ok [OF assms] by (simp add: run_ok_def)

lemma budget_conservation_witness:
  "ledger_value (BudgetLedgerKey_from sample_policy) (sample_local 60 1 False)
    + reserved_value (BudgetLedgerKey_from sample_policy) sample_reservation = 100"
  using budget_conservation [OF sample_reach_reserved, of "BudgetLedgerKey_from sample_policy"]
  by (simp add: sample_run_def side_value_def)

text \<open>
  in every reachable state a local grant counts exactly its live
  reservations, giving all of them back cannot overflow, a grant on its way back has none,
  and every live reservation finds its grant.
\<close>

theorem budget_grants_backed:
  assumes "budget_step\<^sup>*\<^sup>* BudgetRun_start run"
    and "aget (budget_grants (run_local run)) pair = Some gs"
  shows "(\<forall>g \<in> set gs. grant_ok (reservations_of (run_live run) pair (grant_id_of g)) g)
    \<and> (\<forall>r \<in># run_live run. reservation_backed (budget_grants (run_local run)) r)"
  using budget_reachable_ok [OF assms(1)] assms(2)
  by (simp add: run_ok_def locals_ok_def grants_ok_def entry_ok_def)

lemma budget_grants_backed_witness: "grant_ok {#sample_reservation#} (sample_local_grant 60 1 False)"
  using budget_grants_backed [OF sample_reach_reserved, of sample_pair "[sample_local_grant 60 1 False]"]
  by (simp add: sample_run_def sample_local_def reservations_of_def)
    (simp add: sample_reservation_def sample_local_grant_def sample_request_def)

text \<open>
  while a return is on its way to the coordinator, the grant it
  came from stays frozen at exactly the reported amounts until it is removed, so a lost
  acknowledgement can be retried with the same return.
\<close>

theorem frozen_returns_exact:
  assumes "budget_step\<^sup>*\<^sup>* BudgetRun_start run" "p \<in># run_pending run"
    and "aget (budget_grants (run_local run)) (ret_pair p) = Some gs" "g \<in> set gs"
    and "grant_id_of g = pbg_grant_id (ret_request p)"
  shows "returning g \<and> in_use g = 0 \<and> key_remaining_nanos g = ret_key_remaining_nanos p
    \<and> origin_remaining_nanos g = ret_origin_remaining_nanos p"
proof -
  from budget_reachable_ok [OF assms(1)] have l: "locals_ok (run_live run) (run_pending run) (run_used run) (run_local run)"
    by (simp add: run_ok_def)
  with assms(2-5) have f: "returning g" "key_remaining_nanos g = ret_key_remaining_nanos p"
    "origin_remaining_nanos g = ret_origin_remaining_nanos p"
    by (auto simp: locals_ok_def pending_ok_def)
  from l assms(3,4) have "grant_ok (reservations_of (run_live run) (ret_pair p) (grant_id_of g)) g"
    by (simp add: locals_ok_def grants_ok_def entry_ok_def)
  with f show ?thesis by (simp add: grant_ok_def)
qed

lemma frozen_returns_exact_witness:
  "key_remaining_nanos (sample_local_grant 50 0 True) = ret_key_remaining_nanos sample_return"
  using frozen_returns_exact [OF sample_reach_frozen, of sample_return
      "[sample_local_grant 50 0 True]" "sample_local_grant 50 0 True"]
  by (simp add: sample_run_def sample_local_def)
    (simp add: sample_return_def sample_local_grant_def sample_request_def)

text \<open>
  a reservation is only taken when no ledger of its pair is in debt
  any more, out of a grant of the pair that is not being returned, has not expired and
  covers both estimates.
\<close>

theorem reservation_sound:
  assumes "try_reserve_budget now pair k e est local = (local', Some r)"
  shows "(\<forall>policy \<in> set (pair_policies pair).
        debt_value (BudgetLedgerKey_from policy) (budget_debts local') = 0)
    \<and> (\<exists>g \<in> set (grant_entry pair local). res_grant_id r = Some (grant_id_of g) \<and> \<not> returning g
        \<and> now < lbg_expires_at_unix_ms g \<and> k \<le> key_remaining_nanos g
        \<and> e \<le> origin_remaining_nanos g)"
proof -
  obtain debts gs where p: "pay_grants pair (budget_debts local) (grant_entry pair local) = (debts, gs)"
    by fastforce
  from assms p obtain h where h: "find (can_reserve now k e) gs = Some h"
    and nd: "\<not> pair_in_debt pair debts" and l': "budget_debts local' = debts"
    and r: "res_grant_id r = Some (grant_id_of h)"
    by (auto simp: try_reserve_budget_def Let_def split: if_splits option.splits)
  have "list_all2 paid_as (grant_entry pair local) gs" using pay_grants_exact [OF p] by blast
  then obtain g where g: "g \<in> set (grant_entry pair local)" "paid_as g h"
    using find_SomeD [OF h] by (metis in_set_conv_nth list_all2_conv_all_nth)
  have "lbg_expires_at_unix_ms h = lbg_expires_at_unix_ms g" using g(2) by (auto simp: paid_as_def)
  with g r find_SomeD [OF h] have "\<exists>g \<in> set (grant_entry pair local).
      res_grant_id r = Some (grant_id_of g) \<and> \<not> returning g \<and> now < lbg_expires_at_unix_ms g
      \<and> k \<le> key_remaining_nanos g \<and> e \<le> origin_remaining_nanos g"
    by (intro bexI [of _ g]) (auto simp: can_reserve_def paid_as_simps dest: paid_as_simps(4,5))
  moreover have "\<forall>policy \<in> set (pair_policies pair).
      debt_value (BudgetLedgerKey_from policy) (budget_debts local') = 0"
    using nd by (simp add: pair_in_debt_def list_ex_iff debt_value_def l')
  ultimately show ?thesis by blast
qed

lemma reservation_sound_witness:
  "debt_value (BudgetLedgerKey_from sample_policy) (budget_debts (sample_local 60 1 False)) = 0"
  using reservation_sound [OF sample_try]
  by (simp add: pair_policies_def sample_pair_def List.map_filter_def)

end
