(* ===== verification/Limits.thy ===== *)
theory Limits
  imports BudgetRuns
begin

section \<open>Local rate and concurrency grants\<close>

text \<open>
  The other two halves of \<open>LocalAdmissionState\<close> in
  \<open>crates/owlrora-server/src/gateway/admission.rs\<close>: request tokens and concurrency
  slots granted in advance by the coordinator and spent locally, per policy version.
\<close>

definition rate_entry :: "PolicyReference \<Rightarrow> LocalAdmissionState \<Rightarrow> LocalRateGrant list" where
  "rate_entry policy local = (case aget (rate_grants local) policy of None \<Rightarrow> [] | Some gs \<Rightarrow> gs)"

definition rate_usable :: "bool \<Rightarrow> nat \<Rightarrow> LocalRateGrant \<Rightarrow> bool" where
  "rate_usable input_limited input_units g \<longleftrightarrow>
     remaining_requests g > 0 \<and> (\<not> input_limited \<or> remaining_input g \<ge> input_units)"

definition spend_rate :: "bool \<Rightarrow> nat \<Rightarrow> LocalRateGrant \<Rightarrow> LocalRateGrant" where
  "spend_rate input_limited input_units g =
     (let g = g\<lparr>remaining_requests := remaining_requests g - 1\<rparr> in
      if input_limited then g\<lparr>remaining_input := remaining_input g - input_units\<rparr> else g)"

definition try_consume_local_rate ::
    "nat \<Rightarrow> PolicyReference \<Rightarrow> nat \<Rightarrow> bool \<Rightarrow> LocalAdmissionState \<Rightarrow> LocalAdmissionState \<times> bool" where
  "try_consume_local_rate now policy input_units input_limited local =
     (let gs = filter (\<lambda>g. lrg_expires_at_unix_ms g > now \<and> remaining_requests g > 0)
                 (rate_entry policy local);
          usable = rate_usable input_limited input_units in
      case find usable gs of
        None \<Rightarrow> (local\<lparr>rate_grants := aput policy gs (rate_grants local)\<rparr>, False)
      | Some _ \<Rightarrow>
          (local\<lparr>rate_grants :=
             aput policy (update_first usable (spend_rate input_limited input_units) gs)
               (rate_grants local)\<rparr>, True))"

definition install_rate_grant ::
    "PolicyReference \<Rightarrow> RateTokenGrant \<Rightarrow> LocalAdmissionState \<Rightarrow> LocalAdmissionState" where
  "install_rate_grant policy grant local =
     (let gs = rate_entry policy local in
      local\<lparr>rate_grants :=
        aput policy
          (if list_ex (\<lambda>existing. lrg_id existing = rtg_id grant) gs then gs
           else gs @ [\<lparr>lrg_id = rtg_id grant,
                       lrg_expires_at_unix_ms = rtg_expires_at_unix_ms grant,
                       remaining_requests = request_tokens grant,
                       remaining_input = input_tokens grant\<rparr>])
          (rate_grants local)\<rparr>)"

definition concurrency_entry :: "PolicyReference \<Rightarrow> LocalAdmissionState \<Rightarrow> LocalConcurrencyGrant list" where
  "concurrency_entry policy local =
     (case aget (concurrency_grants local) policy of None \<Rightarrow> [] | Some gs \<Rightarrow> gs)"

definition slot_free :: "nat \<Rightarrow> LocalConcurrencyGrant \<Rightarrow> bool" where
  "slot_free now g \<longleftrightarrow> lcg_expires_at_unix_ms g > now \<and> lcg_in_use g < slots g"

definition try_acquire_approximate ::
    "nat \<Rightarrow> PolicyReference \<Rightarrow> LocalAdmissionState \<Rightarrow> LocalAdmissionState \<times> uuid option" where
  "try_acquire_approximate now policy local =
     (let gs = filter (\<lambda>g. lcg_expires_at_unix_ms g > now \<or> lcg_in_use g > 0)
                 (concurrency_entry policy local) in
      case find (slot_free now) gs of
        None \<Rightarrow> (local\<lparr>concurrency_grants := aput policy gs (concurrency_grants local)\<rparr>, None)
      | Some g \<Rightarrow>
          (local\<lparr>concurrency_grants :=
             aput policy
               (update_first (slot_free now) (\<lambda>g. g\<lparr>lcg_in_use := lcg_in_use g + 1\<rparr>) gs)
               (concurrency_grants local)\<rparr>, Some (lcg_id g)))"

definition install_concurrency_grant ::
    "PolicyReference \<Rightarrow> ConcurrencySlotGrant \<Rightarrow> LocalAdmissionState \<Rightarrow> LocalAdmissionState" where
  "install_concurrency_grant policy grant local =
     (let gs = concurrency_entry policy local in
      local\<lparr>concurrency_grants :=
        aput policy
          (if list_ex (\<lambda>existing. lcg_id existing = csg_id grant) gs then gs
           else gs @ [\<lparr>lcg_id = csg_id grant,
                       lcg_expires_at_unix_ms = csg_expires_at_unix_ms grant,
                       slots = csg_slots grant, lcg_in_use = 0\<rparr>])
          (concurrency_grants local)\<rparr>)"

definition release_approximate ::
    "PolicyReference \<Rightarrow> uuid \<Rightarrow> LocalAdmissionState \<Rightarrow> LocalAdmissionState" where
  "release_approximate policy gid local =
     (case aget (concurrency_grants local) policy of
        None \<Rightarrow> local
      | Some gs \<Rightarrow> local\<lparr>concurrency_grants :=
          aput policy
            (update_first (\<lambda>g. lcg_id g = gid) (\<lambda>g. g\<lparr>lcg_in_use := lcg_in_use g - 1\<rparr>) gs)
            (concurrency_grants local)\<rparr>)"

subsection \<open>Spending rate tokens\<close>

definition tokens_left :: "PolicyReference \<Rightarrow> LocalAdmissionState \<Rightarrow> nat" where
  "tokens_left policy local = sum_list (map remaining_requests (rate_entry policy local))"

definition input_left :: "PolicyReference \<Rightarrow> LocalAdmissionState \<Rightarrow> nat" where
  "input_left policy local = sum_list (map remaining_input (rate_entry policy local))"

lemma sum_list_filter_le: "sum_list (map f (filter P xs)) \<le> (sum_list (map f xs) :: nat)"
  by (induction xs) auto

lemma sum_list_update_first_nat:
  fixes f :: "'a \<Rightarrow> nat"
  assumes "find p xs = Some x" "f (g x) + d = f x"
  shows "sum_list (map f (update_first p g xs)) + d = sum_list (map f xs)"
  using assms by (induction xs) (auto split: if_splits)

lemma rate_entry_put [simp]:
  "rate_entry policy (local\<lparr>rate_grants := aput policy gs m\<rparr>) = gs"
  by (simp add: rate_entry_def)

lemma consume_spends:
  assumes "try_consume_local_rate now policy input_units input_limited local = (local', True)"
  shows "tokens_left policy local' + 1 \<le> tokens_left policy local
    \<and> (input_limited \<longrightarrow> input_left policy local' + input_units \<le> input_left policy local)"
proof -
  let ?gs = "filter (\<lambda>g. lrg_expires_at_unix_ms g > now \<and> remaining_requests g > 0)
      (rate_entry policy local)"
  let ?p = "rate_usable input_limited input_units" and ?f = "spend_rate input_limited input_units"
  from assms obtain g where g: "find ?p ?gs = Some g"
    and l': "local' = local\<lparr>rate_grants := aput policy (update_first ?p ?f ?gs) (rate_grants local)\<rparr>"
    by (auto simp: try_consume_local_rate_def Let_def split: option.splits)
  have u: "?p g" using find_SomeD [OF g] by simp
  have "sum_list (map remaining_requests (update_first ?p ?f ?gs)) + 1
      = sum_list (map remaining_requests ?gs)"
    using g by (rule sum_list_update_first_nat) (use u in \<open>simp add: rate_usable_def spend_rate_def Let_def\<close>)
  moreover have "sum_list (map remaining_input (update_first ?p ?f ?gs)) + input_units
      = sum_list (map remaining_input ?gs)" if "input_limited"
    using g by (rule sum_list_update_first_nat)
      (use u that in \<open>simp add: rate_usable_def spend_rate_def Let_def\<close>)
  ultimately show ?thesis
    using sum_list_filter_le [of remaining_requests
        "\<lambda>g. lrg_expires_at_unix_ms g > now \<and> remaining_requests g > 0" "rate_entry policy local"]
      sum_list_filter_le [of remaining_input
        "\<lambda>g. lrg_expires_at_unix_ms g > now \<and> remaining_requests g > 0" "rate_entry policy local"]
    by (auto simp: l' tokens_left_def input_left_def)
qed

lemma consume_refused:
  assumes "try_consume_local_rate now policy input_units input_limited local = (local', False)"
  shows "tokens_left policy local' \<le> tokens_left policy local
    \<and> input_left policy local' \<le> input_left policy local"
  using assms
  by (auto simp: try_consume_local_rate_def Let_def tokens_left_def input_left_def
      intro: sum_list_filter_le split: option.splits)

text \<open>A sequence of requests, each with its instant and size; the number admitted.\<close>

fun consume_all ::
    "PolicyReference \<Rightarrow> bool \<Rightarrow> (nat \<times> nat) list \<Rightarrow> LocalAdmissionState \<Rightarrow> nat \<times> nat" where
  "consume_all policy input_limited [] local = (0, 0)"
| "consume_all policy input_limited ((now, units) # requests) local =
     (let (local, ok) = try_consume_local_rate now policy units input_limited local;
          (n, m) = consume_all policy input_limited requests local in
      if ok then (n + 1, m + units) else (n, m))"

text \<open>
  however many requests arrive and whenever, the local
  grants of a policy admit at most as many as the request tokens they were given, and
  together the admitted requests have no more input units than the grants hold.
\<close>

theorem local_rate_never_overspends:
  "fst (consume_all policy input_limited requests local) \<le> tokens_left policy local
   \<and> (if input_limited
      then snd (consume_all policy input_limited requests local) \<le> input_left policy local else True)"
proof (induction requests arbitrary: local)
  case (Cons r requests)
  obtain now units where r: "r = (now, units)" by (cases r)
  obtain local' ok where
    c: "try_consume_local_rate now policy units input_limited local = (local', ok)" by fastforce
  obtain n m where rest: "consume_all policy input_limited requests local' = (n, m)" by fastforce
  have ih: "n \<le> tokens_left policy local'" "\<not> input_limited \<or> m \<le> input_left policy local'"
    using Cons.IH [of local'] rest by (auto split: if_splits)
  show ?case
  proof (cases ok)
    case True
    with consume_spends [of now policy units input_limited local local'] c ih r rest
    show ?thesis by auto
  next
    case False
    with consume_refused [of now policy units input_limited local local'] c ih r rest
    show ?thesis by auto
  qed
qed simp

subsection \<open>Holding concurrency slots\<close>

definition slots_hold :: "LocalAdmissionState \<Rightarrow> (PolicyReference \<times> uuid) multiset \<Rightarrow> bool" where
  "slots_hold local held \<longleftrightarrow>
     (\<forall>policy. distinct (map lcg_id (concurrency_entry policy local))
        \<and> (\<forall>g \<in> set (concurrency_entry policy local).
             lcg_in_use g = count held (policy, lcg_id g) \<and> lcg_in_use g \<le> slots g))
     \<and> (\<forall>(policy, gid) \<in># held. gid \<in> lcg_id ` set (concurrency_entry policy local))"

lemma slots_holdD:
  assumes "slots_hold local held"
  shows "distinct (map lcg_id (concurrency_entry policy local))"
    and "g \<in> set (concurrency_entry policy local) \<Longrightarrow>
      lcg_in_use g = count held (policy, lcg_id g) \<and> lcg_in_use g \<le> slots g"
    and "(policy, i) \<in># held \<Longrightarrow> i \<in> lcg_id ` set (concurrency_entry policy local)"
  using assms unfolding slots_hold_def by blast+

lemma concurrency_entry_put:
  "concurrency_entry policy' (local\<lparr>concurrency_grants := aput policy gs (concurrency_grants local)\<rparr>)
    = (if policy' = policy then gs else concurrency_entry policy' local)"
  by (simp add: concurrency_entry_def aget_aput)

lemma slots_hold_put:
  assumes "slots_hold local held"
    and "distinct (map lcg_id gs)"
    and "\<And>g. g \<in> set gs \<Longrightarrow> lcg_in_use g = count held' (policy, lcg_id g) \<and> lcg_in_use g \<le> slots g"
    and "\<And>p i. p \<noteq> policy \<Longrightarrow> count held' (p, i) = count held (p, i)"
    and "\<And>i. (policy, i) \<in># held' \<Longrightarrow> i \<in> lcg_id ` set gs"
  shows "slots_hold (local\<lparr>concurrency_grants := aput policy gs (concurrency_grants local)\<rparr>) held'"
proof -
  let ?l = "local\<lparr>concurrency_grants := aput policy gs (concurrency_grants local)\<rparr>"
  have "distinct (map lcg_id (concurrency_entry p ?l))" for p
    using assms(2) slots_holdD(1) [OF assms(1)] by (simp add: concurrency_entry_put)
  moreover have "lcg_in_use g = count held' (p, lcg_id g) \<and> lcg_in_use g \<le> slots g"
    if "g \<in> set (concurrency_entry p ?l)" for p g
  proof (cases "p = policy")
    case True
    with that have "g \<in> set gs" by (simp add: concurrency_entry_put)
    then show ?thesis unfolding True by (rule assms(3))
  next
    case False
    with that have "g \<in> set (concurrency_entry p local)" by (simp add: concurrency_entry_put)
    note u = slots_holdD(2) [OF assms(1) this]
    show ?thesis using conjunct1 [OF u] conjunct2 [OF u] assms(4) [OF False] by simp
  qed
  moreover have "i \<in> lcg_id ` set (concurrency_entry p ?l)" if "(p, i) \<in># held'" for p i
  proof (cases "p = policy")
    case True
    with that assms(5) show ?thesis by (simp add: concurrency_entry_put)
  next
    case False
    with that have "(p, i) \<in># held" by (simp add: assms(4) flip: count_greater_zero_iff)
    with False slots_holdD(3) [OF assms(1)] show ?thesis by (simp add: concurrency_entry_put)
  qed
  ultimately show ?thesis unfolding slots_hold_def by blast
qed

lemma update_first_lcg:
  assumes "find p gs = Some g" "distinct (map lcg_id gs)" "\<And>h. lcg_id (f h) = lcg_id h"
  shows "map lcg_id (update_first p f gs) = map lcg_id gs
    \<and> (\<forall>x \<in> set (update_first p f gs). x = f g \<or> x \<in> set gs \<and> lcg_id x \<noteq> lcg_id g)"
  using assms
proof (induction gs)
  case (Cons y ys)
  show ?case
  proof (cases "p y")
    case True
    with Cons.prems have "g = y" by simp
    with True Cons.prems show ?thesis by (auto simp: image_iff)
  next
    case False
    with Cons.prems have "find p ys = Some g" by simp
    then have "g \<in> set ys" by (auto dest: find_SomeD)
    with False Cons show ?thesis by (auto simp: image_iff)
  qed
qed simp

lemma acquire_approximate_holds:
  assumes "slots_hold local held" "try_acquire_approximate now policy local = (local', r)"
  shows "slots_hold local' (case r of None \<Rightarrow> held | Some gid \<Rightarrow> add_mset (policy, gid) held)"
proof -
  let ?old = "concurrency_entry policy local"
  let ?gs = "filter (\<lambda>g. lcg_expires_at_unix_ms g > now \<or> lcg_in_use g > 0) ?old"
  have d: "distinct (map lcg_id ?old)"
    and u: "\<And>g. g \<in> set ?old \<Longrightarrow> lcg_in_use g = count held (policy, lcg_id g) \<and> lcg_in_use g \<le> slots g"
    and h: "\<And>i. (policy, i) \<in># held \<Longrightarrow> i \<in> lcg_id ` set ?old"
    using slots_holdD [OF assms(1)] by blast+
  have d': "distinct (map lcg_id ?gs)" using d by (simp add: distinct_map_filter)
  have h': "i \<in> lcg_id ` set ?gs" if "(policy, i) \<in># held" for i
  proof -
    from h [OF that] obtain g where g: "g \<in> set ?old" "i = lcg_id g" by blast
    with u [OF g(1)] that have "lcg_in_use g > 0" by (simp flip: count_greater_zero_iff)
    with g show ?thesis by auto
  qed
  show ?thesis
  proof (cases "find (slot_free now) ?gs")
    case None
    with assms(2) have r: "r = None"
      "local' = local\<lparr>concurrency_grants := aput policy ?gs (concurrency_grants local)\<rparr>"
      by (simp_all add: try_acquire_approximate_def Let_def)
    show ?thesis
      unfolding r option.case using assms(1) d'
    proof (rule slots_hold_put)
      show "lcg_in_use g = count held (policy, lcg_id g) \<and> lcg_in_use g \<le> slots g"
        if "g \<in> set ?gs" for g
        using that by (intro u) simp
    qed (use h' in simp_all)
  next
    case (Some g)
    let ?f = "\<lambda>g. g\<lparr>lcg_in_use := lcg_in_use g + 1\<rparr>"
    let ?new = "update_first (slot_free now) ?f ?gs"
    from Some assms(2) have r: "r = Some (lcg_id g)"
      "local' = local\<lparr>concurrency_grants := aput policy ?new (concurrency_grants local)\<rparr>"
      by (simp_all add: try_acquire_approximate_def Let_def)
    have g: "g \<in> set ?gs" "slot_free now g" using find_SomeD [OF Some] by simp_all
    have up: "map lcg_id ?new = map lcg_id ?gs
        \<and> (\<forall>x \<in> set ?new. x = ?f g \<or> x \<in> set ?gs \<and> lcg_id x \<noteq> lcg_id g)"
      using Some d' by (rule update_first_lcg) simp
    have ids: "lcg_id ` set ?new = lcg_id ` set ?gs"
      using arg_cong [OF conjunct1 [OF up], of set] by simp
    show ?thesis
      unfolding r option.case using assms(1)
    proof (rule slots_hold_put)
      show "distinct (map lcg_id ?new)" using up d' by simp
      show "lcg_in_use x = count (add_mset (policy, lcg_id g) held) (policy, lcg_id x)
          \<and> lcg_in_use x \<le> slots x" if "x \<in> set ?new" for x
      proof (cases "x = ?f g")
        case True
        then show ?thesis using u [of g] g by (simp add: slot_free_def)
      next
        case False
        with up that have x: "x \<in> set ?old" "lcg_id x \<noteq> lcg_id g" by auto
        show ?thesis using conjunct1 [OF u [OF x(1)]] conjunct2 [OF u [OF x(1)]] x(2) by simp
      qed
      show "i \<in> lcg_id ` set ?new" if "(policy, i) \<in># add_mset (policy, lcg_id g) held" for i
        using that h' g(1) unfolding ids by auto
    qed simp
  qed
qed

lemma install_concurrency_holds:
  assumes "slots_hold local held"
  shows "slots_hold (install_concurrency_grant policy grant local) held"
proof -
  let ?old = "concurrency_entry policy local"
  have d: "distinct (map lcg_id ?old)"
    and u: "\<And>g. g \<in> set ?old \<Longrightarrow> lcg_in_use g = count held (policy, lcg_id g) \<and> lcg_in_use g \<le> slots g"
    and h: "\<And>i. (policy, i) \<in># held \<Longrightarrow> i \<in> lcg_id ` set ?old"
    using slots_holdD [OF assms] by blast+
  let ?new = "?old @ [\<lparr>lcg_id = csg_id grant, lcg_expires_at_unix_ms = csg_expires_at_unix_ms grant,
      slots = csg_slots grant, lcg_in_use = 0\<rparr>]"
  let ?gs = "if list_ex (\<lambda>existing. lcg_id existing = csg_id grant) ?old then ?old else ?new"
  have fresh: "csg_id grant \<notin> lcg_id ` set ?old"
    if "\<not> list_ex (\<lambda>existing. lcg_id existing = csg_id grant) ?old"
    using that by (auto simp: list_ex_iff)
  then have zero: "count held (policy, csg_id grant) = 0"
    if "\<not> list_ex (\<lambda>existing. lcg_id existing = csg_id grant) ?old"
    using h that by (auto simp: count_eq_zero_iff)
  have uses: "lcg_in_use g = count held (policy, lcg_id g) \<and> lcg_in_use g \<le> slots g"
    if "g \<in> set ?gs" for g
  proof (cases "g \<in> set ?old")
    case True
    then show ?thesis by (rule u)
  next
    case False
    with that zero show ?thesis by (auto split: if_splits)
  qed
  have "distinct (map lcg_id ?gs)" using d fresh by simp
  moreover have "i \<in> lcg_id ` set ?gs" if "(policy, i) \<in># held" for i using h [OF that] by auto
  ultimately show ?thesis
    unfolding install_concurrency_grant_def Let_def
    using slots_hold_put [OF assms _ uses refl] by blast
qed

lemma release_approximate_holds:
  assumes "slots_hold local (add_mset (policy, gid) held)"
  shows "slots_hold (release_approximate policy gid local) held"
proof -
  let ?old = "concurrency_entry policy local" and ?p = "\<lambda>g. lcg_id g = gid"
  let ?f = "\<lambda>g. g\<lparr>lcg_in_use := lcg_in_use g - 1\<rparr>"
  have d: "distinct (map lcg_id ?old)"
    and u: "\<And>g. g \<in> set ?old \<Longrightarrow> lcg_in_use g = count (add_mset (policy, gid) held) (policy, lcg_id g)
        \<and> lcg_in_use g \<le> slots g"
    and h: "\<And>i. (policy, i) \<in># add_mset (policy, gid) held \<Longrightarrow> i \<in> lcg_id ` set ?old"
    using slots_holdD [OF assms] by blast+
  from h [of gid] obtain k where k: "k \<in> set ?old" "lcg_id k = gid" by auto
  then obtain g where g: "find ?p ?old = Some g"
    by (cases "find ?p ?old") (auto simp: find_eq_None_iff)
  have gid: "lcg_id g = gid" "g \<in> set ?old" using find_SomeD [OF g] by simp_all
  let ?new = "update_first ?p ?f ?old"
  have up: "map lcg_id ?new = map lcg_id ?old
      \<and> (\<forall>x \<in> set ?new. x = ?f g \<or> x \<in> set ?old \<and> lcg_id x \<noteq> lcg_id g)"
    using g d by (rule update_first_lcg) simp
  have ids: "lcg_id ` set ?new = lcg_id ` set ?old"
    using arg_cong [OF conjunct1 [OF up], of set] by simp
  from k have "aget (concurrency_grants local) policy = Some ?old"
    by (cases "aget (concurrency_grants local) policy") (simp_all add: concurrency_entry_def)
  then have r: "release_approximate policy gid local
      = local\<lparr>concurrency_grants := aput policy ?new (concurrency_grants local)\<rparr>"
    by (simp add: release_approximate_def)
  show ?thesis
    unfolding r using assms
  proof (rule slots_hold_put)
    show "distinct (map lcg_id ?new)" using up d by simp
    show "lcg_in_use x = count held (policy, lcg_id x) \<and> lcg_in_use x \<le> slots x"
      if "x \<in> set ?new" for x
      using up that u gid by (fastforce intro: le_trans [OF diff_le_self])
    show "i \<in> lcg_id ` set ?new" if "(policy, i) \<in># held" for i
      using that h unfolding ids by auto
  qed auto
qed

text \<open>Runs of acquisitions, releases of a held slot, and installed grants.\<close>

inductive slot_step ::
    "LocalAdmissionState \<times> (PolicyReference \<times> uuid) multiset
      \<Rightarrow> LocalAdmissionState \<times> (PolicyReference \<times> uuid) multiset \<Rightarrow> bool" where
  slot_acquired: "slot_step (local, held) (local', add_mset (policy, gid) held)"
    if "try_acquire_approximate now policy local = (local', Some gid)"
| slot_refused: "slot_step (local, held) (local', held)"
    if "try_acquire_approximate now policy local = (local', None)"
| slot_granted: "slot_step (local, held) (install_concurrency_grant policy grant local, held)"
| slot_released: "slot_step (local, add_mset (policy, gid) held) (release_approximate policy gid local, held)"

lemma slot_step_holds:
  "slot_step s s' \<Longrightarrow> slots_hold (fst s) (snd s) \<Longrightarrow> slots_hold (fst s') (snd s')"
  by (induction rule: slot_step.induct)
    (auto dest: acquire_approximate_holds intro: install_concurrency_holds release_approximate_holds)

lemma sample_slot:
  "slot_step\<^sup>*\<^sup>* (LocalAdmissionState_default, {#})
     (LocalAdmissionState_default\<lparr>concurrency_grants := [(policy,
        [\<lparr>lcg_id = 7, lcg_expires_at_unix_ms = 50, slots = 2, lcg_in_use = 1\<rparr>])]\<rparr>,
      {#(policy, 7)#})"
proof -
  let ?l = "\<lambda>n. LocalAdmissionState_default\<lparr>concurrency_grants := [(policy,
        [\<lparr>lcg_id = 7, lcg_expires_at_unix_ms = 50, slots = 2, lcg_in_use = n\<rparr>])]\<rparr>"
  have "install_concurrency_grant policy \<lparr>csg_id = 7, csg_slots = 2, csg_expires_at_unix_ms = 50\<rparr>
      LocalAdmissionState_default = ?l 0"
    by (simp add: install_concurrency_grant_def concurrency_entry_def LocalAdmissionState_default_def)
  then have "slot_step (LocalAdmissionState_default, {#}) (?l 0, {#})"
    by (metis slot_step.slot_granted)
  moreover have "try_acquire_approximate 40 policy (?l 0) = (?l 1, Some 7)"
    by (simp add: try_acquire_approximate_def concurrency_entry_def slot_free_def Let_def)
  then have "slot_step (?l 0, {#}) (?l 1, {#(policy, 7)#})"
    by (rule slot_step.slot_acquired)
  ultimately show ?thesis by (meson rtranclp.rtrancl_into_rtrancl rtranclp.rtrancl_refl)
qed

text \<open>
  in every run a concurrency grant counts exactly the requests
  that hold one of its slots, and never more than the slots the coordinator granted, even
  when the grant expires while slots are held.
\<close>

theorem approximate_slots_bounded:
  assumes "slot_step\<^sup>*\<^sup>* (LocalAdmissionState_default, {#}) (local, held)"
    and "g \<in> set (concurrency_entry policy local)"
  shows "lcg_in_use g = count held (policy, lcg_id g) \<and> lcg_in_use g \<le> slots g"
proof -
  have start: "slots_hold LocalAdmissionState_default {#}"
    by (simp add: slots_hold_def concurrency_entry_def LocalAdmissionState_default_def)
  have "slots_hold (fst s) (snd s)" if "slot_step\<^sup>*\<^sup>* (LocalAdmissionState_default, {#}) s" for s
    using that by (induction rule: rtranclp_induct) (use start slot_step_holds in auto)
  from this [OF assms(1)] have "slots_hold local held" by simp
  then show ?thesis using assms(2) by (rule slots_holdD(2))
qed

lemma approximate_slots_bounded_witness:
  "lcg_in_use \<lparr>lcg_id = 7, lcg_expires_at_unix_ms = 50, slots = 2, lcg_in_use = 1\<rparr>
    = count {#(sample_policy, 7)#} (sample_policy, 7)"
  using approximate_slots_bounded [OF sample_slot [of sample_policy],
      of "\<lparr>lcg_id = 7, lcg_expires_at_unix_ms = 50, slots = 2, lcg_in_use = 1\<rparr>" sample_policy]
  by (simp add: concurrency_entry_def)

end
