(* ===== verification/Admission.thy ===== *)
theory Admission
  imports Limits
begin

section \<open>Admitting requests and attempts\<close>

text \<open>
  How \<open>GatewayAdmissionState\<close> of
  \<open>crates/owlrora-server/src/gateway/admission.rs\<close> combines its local grants with
  the coordinator: the estimate of an attempt's cost, the reservation of an attempt
  (\<open>reserve_attempt\<close>) and the admission of a request (\<open>admit_gateway_key\<close>).

  The coordinator is a record of its operations on a state of its own; what the local
  accounting relies on is the locale \<open>budget_provider\<close> of \<^theory_text>\<open>Attempts\<close>.  Between two awaits
  other tasks may run; the accounting for every interleaving is proved in
  \<^theory_text>\<open>BudgetRuns\<close>, and the functions here are one task's sequence of steps.
  The refill lock only serialises tasks.  Each call takes the instants it reads and the
  identities it generates as arguments.
\<close>

record 'c CoordinatorOps =
  op_grant_budget :: "'c \<Rightarrow> PairedBudgetGrantRequest \<Rightarrow> 'c \<times> (CoordinatorError + AllowanceGrant)"
  op_return_budget ::
    "'c \<Rightarrow> PairedBudgetGrantRequest \<Rightarrow> nat \<Rightarrow> nat \<Rightarrow> 'c \<times> (CoordinatorError + unit)"
  op_grant_rate ::
    "'c \<Rightarrow> PolicyReference \<Rightarrow> uuid \<Rightarrow> nat \<Rightarrow> nat \<Rightarrow> bool \<Rightarrow> 'c \<times> (CoordinatorError + RateTokenGrant)"
  op_grant_approximate ::
    "'c \<Rightarrow> PolicyReference \<Rightarrow> uuid \<Rightarrow> nat \<Rightarrow> 'c \<times> (CoordinatorError + ConcurrencySlotGrant)"
  op_acquire_strict ::
    "'c \<Rightarrow> PolicyReference \<Rightarrow> uuid \<Rightarrow> nat \<Rightarrow> 'c \<times> (CoordinatorError + nat)"

datatype LogicalAdmissionError =
  PolicyUnavailable | RateDenied | ConcurrencyDenied | BudgetDenied | CoordinatorUnavailable

datatype ConcurrencyPermit =
  ApproximatePermit PolicyReference uuid
| StrictPermit PolicyReference uuid nat

type_synonym LogicalRequestPermit = "ConcurrencyPermit option"

record EnforcingBudgetSide =
  ebs_policy :: PolicyReference
  ebs_estimate_nanos :: nat
  ebs_max_slice_nanos :: nat

fun map_budget_error :: "CoordinatorError \<Rightarrow> LogicalAdmissionError" where
  "map_budget_error CoordDenied = BudgetDenied"
| "map_budget_error CoordConflict = PolicyUnavailable"
| "map_budget_error _ = CoordinatorUnavailable"

fun map_rate_error :: "CoordinatorError \<Rightarrow> LogicalAdmissionError" where
  "map_rate_error CoordDenied = RateDenied"
| "map_rate_error CoordConflict = PolicyUnavailable"
| "map_rate_error _ = CoordinatorUnavailable"

fun map_concurrency_error :: "CoordinatorError \<Rightarrow> LogicalAdmissionError" where
  "map_concurrency_error CoordDenied = ConcurrencyDenied"
| "map_concurrency_error CoordConflict = PolicyUnavailable"
| "map_concurrency_error _ = CoordinatorUnavailable"

subsection \<open>Estimating the cost of an attempt\<close>

definition dimension_quantity :: "nat \<Rightarrow> nat \<Rightarrow> string \<Rightarrow> nat option" where
  "dimension_quantity input_units maximum_output_units dimension =
     (if dimension = ''input_tokens'' \<or> dimension = ''input_units'' then Some input_units
      else if dimension = ''output_tokens'' \<or> dimension = ''output_units''
      then Some maximum_output_units
      else if dimension = ''request'' \<or> dimension = ''requests'' then Some 1
      else None)"

fun estimated_usage :: "nat \<Rightarrow> nat \<Rightarrow> string list \<Rightarrow> (string \<times> nat) list option" where
  "estimated_usage input_units maximum_output_units [] = Some []"
| "estimated_usage input_units maximum_output_units (dimension # ds) =
     Option.bind (dimension_quantity input_units maximum_output_units dimension) (\<lambda>q.
       map_option (\<lambda>usage. (dimension, q) # usage)
         (estimated_usage input_units maximum_output_units ds))"

text \<open>A rate card with a zero quantum is rejected when the generation is built; here it gives no cost.\<close>

definition calculate_budget_cost ::
    "BudgetPolicyVersionSnapshot \<Rightarrow> Candidate \<Rightarrow> nat \<Rightarrow> nat \<Rightarrow> nat option" where
  "calculate_budget_cost policy candidate body_bytes maximum_output_units =
     Option.bind (dep_pricing (cand_deployment candidate)) (\<lambda>pricing.
     Option.bind (checked_mul u64_max body_bytes (input_units_per_byte (bv_estimate_policy policy)))
       (\<lambda>input_units.
     Option.bind (estimated_usage input_units maximum_output_units
                    (map fst (cost_nanos_per_unit (pv_rates pricing)))) (\<lambda>usage.
     (case price pricing usage of Some (Known cost) \<Rightarrow> Some cost | _ \<Rightarrow> None))))"

definition estimate_budget_cost_for_recording ::
    "BudgetPolicyVersionSnapshot \<Rightarrow> Candidate \<Rightarrow> nat \<Rightarrow> nat \<Rightarrow> nat option" where
  "estimate_budget_cost_for_recording policy candidate body_bytes maximum_output_units =
     (case calculate_budget_cost policy candidate body_bytes maximum_output_units of
        Some cost \<Rightarrow> Some cost
      | None \<Rightarrow>
          if unknown_mode (bv_estimate_policy policy) = FixedUnknownReservation
          then fixed_unknown_reservation_nanos (bv_estimate_policy policy) else None)"

definition estimate_budget_cost ::
    "BudgetPolicyVersionSnapshot \<Rightarrow> Candidate \<Rightarrow> nat \<Rightarrow> nat \<Rightarrow> LogicalAdmissionError + nat" where
  "estimate_budget_cost policy candidate body_bytes maximum_output_units =
     (case calculate_budget_cost policy candidate body_bytes maximum_output_units of
        Some cost \<Rightarrow> Inr cost
      | None \<Rightarrow>
          (case unknown_mode (bv_estimate_policy policy) of
             RequireEstimate \<Rightarrow> Inl BudgetDenied
           | FixedUnknownReservation \<Rightarrow>
               ok_or PolicyUnavailable
                 (fixed_unknown_reservation_nanos (bv_estimate_policy policy))))"

definition enforcing_budget_side ::
    "uuid \<Rightarrow> PolicyKind \<Rightarrow> uuid \<Rightarrow> BudgetPolicyVersionSnapshot \<Rightarrow> Candidate \<Rightarrow> nat \<Rightarrow> nat
      \<Rightarrow> LogicalAdmissionError + EnforcingBudgetSide option" where
  "enforcing_budget_side organization kind policy_id policy candidate body_bytes maximum_output_units =
     (if bv_mode policy = RecordOnly then Inr None
      else result_bind (estimate_budget_cost policy candidate body_bytes maximum_output_units)
        (\<lambda>estimate.
          if estimate = 0 then Inr None
          else Inr (Some
            \<lparr>ebs_policy = \<lparr>pr_organization_id = organization, pr_kind = kind,
                pr_policy_id = policy_id, pr_version_id = bv_id policy, pr_epoch = bv_epoch policy,
                pr_generation = bv_generation policy,
                pr_recovery_generation = bv_recovery_generation policy\<rparr>,
             ebs_estimate_nanos = estimate,
             ebs_max_slice_nanos = max_slice_nanos (bv_allowance_policy policy)\<rparr>)))"

subsection \<open>Reserving an attempt\<close>

definition max_recorded :: "nat option \<Rightarrow> nat option \<Rightarrow> nat option" where
  "max_recorded a b =
     (case (a, b) of
        (Some x, Some y) \<Rightarrow> Some (max x y)
      | (Some x, None) \<Rightarrow> Some x
      | (None, y) \<Rightarrow> y)"

definition origin_budget_of ::
    "RuntimeGeneration \<Rightarrow> GatewayKeyVerifier \<Rightarrow> Candidate \<Rightarrow> BudgetPolicySnapshot option" where
  "origin_budget_of generation verifier candidate =
     Option.bind (aget (organizations (snapshot generation)) (gk_organization_id verifier))
       (\<lambda>organization. aget (origin_budgets organization) (dep_origin (cand_deployment candidate)))"

definition active_budget_version :: "BudgetPolicySnapshot option \<Rightarrow> BudgetPolicyVersionSnapshot option" where
  "active_budget_version policy = Option.bind (option_filter bp_active policy) bp_active_version"

definition side_estimate :: "EnforcingBudgetSide option \<Rightarrow> nat" where
  "side_estimate side = (case side of None \<Rightarrow> 0 | Some s \<Rightarrow> ebs_estimate_nanos s)"

definition side_request :: "EnforcingBudgetSide option \<Rightarrow> BudgetGrantSide option" where
  "side_request side = map_option (\<lambda>s. \<lparr>side_policy = ebs_policy s,
     side_amount_nanos = max (ebs_estimate_nanos s) (ebs_max_slice_nanos s)\<rparr>) side"

definition side_exceeds_slice :: "EnforcingBudgetSide option \<Rightarrow> bool" where
  "side_exceeds_slice side =
     (case side of None \<Rightarrow> False | Some s \<Rightarrow> ebs_estimate_nanos s > ebs_max_slice_nanos s)"

text \<open>The checks and estimates before the first await.\<close>

definition reserve_attempt_sides ::
    "int \<Rightarrow> RuntimeGeneration \<Rightarrow> GatewayKeyVerifier \<Rightarrow> Candidate \<Rightarrow> nat \<Rightarrow> nat
      \<Rightarrow> LogicalAdmissionError
         + EnforcingBudgetSide option \<times> EnforcingBudgetSide option \<times> nat option" where
  "reserve_attempt_sides now generation verifier candidate body_bytes maximum_output_units =
     (if \<not> policy_admission_ready (snapshot generation) GatewayKeyBudget
            (gk_budget_policy_id verifier) now
      then Inl PolicyUnavailable
      else
        result_bind (ok_or PolicyUnavailable (active_budget_version
          (aget (key_budget_policies (catalog (snapshot generation))) (gk_budget_policy_id verifier))))
        (\<lambda>key_policy.
        result_bind (ok_or PolicyUnavailable
          (active_budget_version (origin_budget_of generation verifier candidate)))
        (\<lambda>origin_policy.
        let estimated = max_recorded
              (estimate_budget_cost_for_recording key_policy candidate body_bytes maximum_output_units)
              (estimate_budget_cost_for_recording origin_policy candidate body_bytes
                 maximum_output_units) in
        result_bind (enforcing_budget_side (gk_organization_id verifier) GatewayKeyBudget
          (gk_budget_policy_id verifier) key_policy candidate body_bytes maximum_output_units)
        (\<lambda>key_side.
        result_bind (ok_or PolicyUnavailable (origin_budget_of generation verifier candidate))
        (\<lambda>origin_snapshot.
        if \<not> policy_admission_ready (snapshot generation) OrganizationOriginBudget
               (bp_id origin_snapshot) now
        then Inl PolicyUnavailable
        else
          result_bind (enforcing_budget_side (gk_organization_id verifier) OrganizationOriginBudget
            (bp_id origin_snapshot) origin_policy candidate body_bytes maximum_output_units)
          (\<lambda>origin_side. Inr (key_side, origin_side, estimated)))))))"

definition refill_request ::
    "GatewayKeyVerifier \<Rightarrow> uuid \<Rightarrow> EnforcingBudgetSide option \<Rightarrow> EnforcingBudgetSide option
      \<Rightarrow> PairedBudgetGrantRequest" where
  "refill_request verifier grant_id key_side origin_side =
     \<lparr>pbg_organization_id = gk_organization_id verifier, pbg_grant_id = grant_id,
      pbg_key = side_request key_side, pbg_origin = side_request origin_side,
      requested_ttl_ms = 3600000,
      one_shot = side_exceeds_slice key_side \<or> side_exceeds_slice origin_side\<rparr>"

definition reserve_attempt ::
    "'c CoordinatorOps option \<Rightarrow> int \<Rightarrow> (nat \<Rightarrow> nat) \<Rightarrow> uuid \<Rightarrow> RuntimeGeneration \<Rightarrow> GatewayKeyVerifier
      \<Rightarrow> Candidate \<Rightarrow> nat \<Rightarrow> nat \<Rightarrow> 'c \<times> LocalAdmissionState
      \<Rightarrow> ('c \<times> LocalAdmissionState) \<times> (LogicalAdmissionError + AttemptReservation)" where
  "reserve_attempt coordinator now clock grant_id generation verifier candidate body_bytes
      maximum_output_units st =
     (case reserve_attempt_sides now generation verifier candidate body_bytes maximum_output_units of
        Inl e \<Rightarrow> (st, Inl e)
      | Inr (key_side, origin_side, estimated) \<Rightarrow>
          if key_side = None \<and> origin_side = None
          then (st, Inr (AttemptReservation_unconstrained estimated))
          else (case coordinator of
            None \<Rightarrow> (st, Inl CoordinatorUnavailable)
          | Some ops \<Rightarrow>
              let pair = \<lparr>bpk_key = map_option ebs_policy key_side,
                          bpk_origin = map_option ebs_policy origin_side\<rparr>;
                  key_estimate = side_estimate key_side;
                  origin_estimate = side_estimate origin_side;
                  (c, local) = st;
                  (c, local) = return_budget_grants (op_return_budget ops) (clock 0) (Some pair)
                    False 0 c local;
                  (local, reserved) =
                    try_reserve_budget (clock 1) pair key_estimate origin_estimate estimated local in
              (case reserved of
                 Some r \<Rightarrow> ((c, local), Inr r)
               | None \<Rightarrow>
                   let (c, local) = return_budget_grants (op_return_budget ops) (clock 2)
                         (Some pair) False 0 c local;
                       (local, reserved) = try_reserve_budget (clock 3) pair key_estimate
                         origin_estimate estimated local in
                   (case reserved of
                      Some r \<Rightarrow> ((c, local), Inr r)
                    | None \<Rightarrow>
                        let request = refill_request verifier grant_id key_side origin_side;
                            (c, granted) = op_grant_budget ops c request in
                        (case granted of
                           Inl e \<Rightarrow> ((c, local), Inl (map_budget_error e))
                         | Inr grant \<Rightarrow>
                             let local = install_budget_grant pair request grant local;
                                 (local, reserved) = try_reserve_budget (clock 4) pair key_estimate
                                   origin_estimate estimated local in
                             ((c, local), ok_or BudgetDenied reserved))))))"

subsection \<open>Admitting a request\<close>

definition consume_rate ::
    "'c CoordinatorOps \<Rightarrow> (nat \<Rightarrow> nat) \<Rightarrow> uuid \<Rightarrow> PolicyReference \<Rightarrow> RatePolicyVersionSnapshot \<Rightarrow> nat
      \<Rightarrow> 'c \<times> LocalAdmissionState \<Rightarrow> ('c \<times> LocalAdmissionState) \<times> (LogicalAdmissionError + unit)"
  where
  "consume_rate ops clock grant_id policy config input_units st =
     (let (c, local) = st; input_limited = (input_units_per_minute config \<noteq> None) in
      if grant_mode config = ''local_grants''
      then
        let (local, ok) = try_consume_local_rate (clock 0) policy input_units input_limited local in
        if ok then ((c, local), Inr ())
        else
          let tokens = max_request_tokens (grant_policy config);
              requested_input = (case input_units_per_minute config of
                  None \<Rightarrow> 0
                | Some capacity \<Rightarrow> min (saturating_mul u64_max input_units tokens) capacity);
              (c, granted) = op_grant_rate ops c policy grant_id tokens requested_input False in
          (case granted of
             Inl e \<Rightarrow> ((c, local), Inl (map_rate_error e))
           | Inr grant \<Rightarrow>
               let local = install_rate_grant policy grant local;
                   (local, ok) =
                     try_consume_local_rate (clock 1) policy input_units input_limited local in
               ((c, local), if ok then Inr () else Inl RateDenied))
      else if grant_mode config = ''strict''
      then
        let (c, granted) = op_grant_rate ops c policy grant_id 1 input_units True in
        ((c, local), case granted of Inl e \<Rightarrow> Inl (map_rate_error e) | Inr _ \<Rightarrow> Inr ())
      else (st, Inl PolicyUnavailable))"

definition acquire_concurrency ::
    "'c CoordinatorOps \<Rightarrow> (nat \<Rightarrow> nat) \<Rightarrow> uuid \<Rightarrow> PolicyReference \<Rightarrow> RatePolicyVersionSnapshot
      \<Rightarrow> 'c \<times> LocalAdmissionState
      \<Rightarrow> ('c \<times> LocalAdmissionState) \<times> (LogicalAdmissionError + LogicalRequestPermit)" where
  "acquire_concurrency ops clock fresh policy config st =
     (let (c, local) = st in
      case concurrency_mode config of
        None \<Rightarrow> (st, Inr None)
      | Some mode \<Rightarrow>
          if mode = ''approximate''
          then
            let (local, acquired) = try_acquire_approximate (clock 0) policy local in
            (case acquired of
               Some gid \<Rightarrow> ((c, local), Inr (Some (ApproximatePermit policy gid)))
             | None \<Rightarrow>
                 let (c, granted) = op_grant_approximate ops c policy fresh 1 in
                 (case granted of
                    Inl e \<Rightarrow> ((c, local), Inl (map_concurrency_error e))
                  | Inr grant \<Rightarrow>
                      let local = install_concurrency_grant policy grant local;
                          (local, acquired) = try_acquire_approximate (clock 1) policy local in
                      ((c, local),
                       case acquired of
                         None \<Rightarrow> Inl ConcurrencyDenied
                       | Some gid \<Rightarrow> Inr (Some (ApproximatePermit policy gid)))))
          else if mode = ''strict''
          then (case lease_seconds config of
              None \<Rightarrow> (st, Inl PolicyUnavailable)
            | Some lease \<Rightarrow>
                let (c, acquired) = op_acquire_strict ops c policy fresh lease in
                ((c, local),
                 case acquired of
                   Inl e \<Rightarrow> Inl (map_concurrency_error e)
                 | Inr deadline \<Rightarrow> Inr (Some (StrictPermit policy fresh deadline))))
          else (st, Inl PolicyUnavailable))"

definition rate_reference :: "GatewayKeyVerifier \<Rightarrow> uuid \<Rightarrow> RatePolicyVersionSnapshot \<Rightarrow> PolicyReference" where
  "rate_reference verifier policy_id policy =
     \<lparr>pr_organization_id = gk_organization_id verifier, pr_kind = GatewayKeyRequestLimits,
      pr_policy_id = policy_id, pr_version_id = rv_id policy, pr_epoch = rv_epoch policy,
      pr_generation = rv_generation policy, pr_recovery_generation = 0\<rparr>"

definition admit_gateway_key ::
    "'c CoordinatorOps option \<Rightarrow> int \<Rightarrow> (nat \<Rightarrow> nat) \<Rightarrow> (nat \<Rightarrow> nat) \<Rightarrow> uuid \<Rightarrow> uuid \<Rightarrow> RuntimeGeneration
      \<Rightarrow> GatewayKeyVerifier \<Rightarrow> nat \<Rightarrow> 'c \<times> LocalAdmissionState
      \<Rightarrow> ('c \<times> LocalAdmissionState) \<times> (LogicalAdmissionError + LogicalRequestPermit)" where
  "admit_gateway_key coordinator now clock clock' rate_grant fresh generation verifier input_units st =
     (case gk_rate_policy_id verifier of
        None \<Rightarrow> (st, Inr None)
      | Some policy_id \<Rightarrow>
          if \<not> policy_admission_ready (snapshot generation) GatewayKeyRequestLimits policy_id now
          then (st, Inl PolicyUnavailable)
          else (case Option.bind
                  (option_filter rtp_active
                     (aget (rate_policies (catalog (snapshot generation))) policy_id))
                  rtp_active_version of
            None \<Rightarrow> (st, Inl PolicyUnavailable)
          | Some policy \<Rightarrow>
              (case coordinator of
                 None \<Rightarrow> (st, Inl CoordinatorUnavailable)
               | Some ops \<Rightarrow>
                   let reference = rate_reference verifier policy_id policy;
                       (st, rate) =
                         consume_rate ops clock rate_grant reference policy input_units st in
                   (case rate of
                      Inl e \<Rightarrow> (st, Inl e)
                    | Inr _ \<Rightarrow> acquire_concurrency ops clock' fresh reference policy st))))"

text \<open>Dropping the permit of a request; a strict lease is released at the coordinator.\<close>

definition LogicalRequestPermit_deadline :: "LogicalRequestPermit \<Rightarrow> nat option" where
  "LogicalRequestPermit_deadline self =
     (case self of Some (StrictPermit _ _ deadline) \<Rightarrow> Some deadline | _ \<Rightarrow> None)"

definition LogicalRequestPermit_drop ::
    "('c \<Rightarrow> PolicyReference \<Rightarrow> uuid \<Rightarrow> 'c) \<Rightarrow> LogicalRequestPermit \<Rightarrow> 'c \<times> LocalAdmissionState
      \<Rightarrow> 'c \<times> LocalAdmissionState" where
  "LogicalRequestPermit_drop release_strict self st =
     (let (c, local) = st in
      case self of
        None \<Rightarrow> st
      | Some (ApproximatePermit policy gid) \<Rightarrow> (c, release_approximate policy gid local)
      | Some (StrictPermit policy lease_id _) \<Rightarrow> (release_strict c policy lease_id, local))"

end
