(* ===== verification/Coordinator.thy ===== *)
theory Coordinator
  imports Scripts Admission
begin

section \<open>The coordinator's client\<close>

text \<open>
  \<open>RedisCoordinator\<close> of \<open>crates/owlrora-server/src/adapters/coordinator.rs\<close>:
  the validation of requests, the keys and arguments of each script, and the reading of the
  replies.  \<open>Externals\<close> are the functions of other packages: the text and the
  bytes of a UUID, SHA-256 on byte strings, and serde's JSON codecs.  A call may fail
  on the way to the store or on the way back (\<open>Delivery\<close>); in the second case the script
  has run.  Texts are byte strings, written as characters.
\<close>

record StateOrigin =
  so_organization_id :: uuid
  so_principal_kind :: string
  so_principal_affinity_id :: uuid
  so_route_id :: uuid
  so_protocol_family :: string
  so_target_id :: uuid
  so_deployment_id :: uuid
  so_deployment_config_version :: nat
  so_endpoint_id :: uuid
  so_endpoint_config_version :: int
  so_credential_id :: uuid
  so_credential_state_identity_version :: nat
  so_origin :: string
  so_transport_kind :: string

record TargetHealthSummary =
  ths_target_id :: uuid
  ths_deployment_id :: uuid
  ths_endpoint_id :: uuid
  ths_credential_id :: uuid
  ths_runtime_revision :: int
  ths_binding_fingerprint :: string
  ths_health_epoch :: uuid
  ths_category :: TargetHealthCategory
  ths_cooldown_until_unix_ms :: "nat option"
  ths_recovery_started_at_unix_ms :: "nat option"
  ths_observed_at_unix_ms :: nat

record Externals =
  uuid_text :: "uuid \<Rightarrow> string"
  uuid_bytes :: "uuid \<Rightarrow> string"
  sha256 :: "string \<Rightarrow> string"
  encode_config :: "PolicyCoordinatorConfig \<Rightarrow> string"
  decode_config :: "string \<Rightarrow> PolicyCoordinatorConfig option"
  encode_origin :: "StateOrigin \<Rightarrow> string"
  decode_origin :: "string \<Rightarrow> StateOrigin option"
  encode_health :: "TargetHealthSummary \<Rightarrow> string"
  decode_health :: "string \<Rightarrow> TargetHealthSummary option"

datatype Delivery = Delivered | NotDelivered CoordinatorError | ReplyLost CoordinatorError

definition invoke ::
    "Delivery \<Rightarrow> ('s \<Rightarrow> 's \<times> reply) \<Rightarrow> 's \<Rightarrow> 's \<times> (CoordinatorError + string list)" where
  "invoke delivery script s =
     (case delivery of
        NotDelivered e \<Rightarrow> (s, Inl e)
      | ReplyLost e \<Rightarrow> (fst (script s), Inl e)
      | Delivered \<Rightarrow> (let (s, values) = script s in (s, ok_or CoordCommand values)))"

text \<open>Seven days, which fit the width.\<close>

definition metadata_ttl_millis :: nat where
  "metadata_ttl_millis = 7 * 24 * 60 * 60 * 1000"

subsection \<open>Keys\<close>

fun hex_char :: "nat \<Rightarrow> char" where
  "hex_char n = (if n < 10 then char_of (48 + n) else char_of (87 + n))"

definition hex_digest :: "string \<Rightarrow> string" where
  "hex_digest digest =
     concat (map (\<lambda>byte. [hex_char (of_char byte div 16), hex_char (of_char byte mod 16)]) digest)"

definition digest_component :: "Externals \<Rightarrow> string \<Rightarrow> string" where
  "digest_component env value = hex_digest (sha256 env value)"

definition key_prefix :: "Externals \<Rightarrow> uuid \<Rightarrow> string" where
  "key_prefix env scope_id = ''owlrora:{'' @ uuid_text env scope_id @ ''}:''"

definition policy_key_ref :: "Externals \<Rightarrow> uuid \<Rightarrow> PolicyKind \<Rightarrow> uuid \<Rightarrow> string" where
  "policy_key_ref env organization_id kind policy_id =
     key_prefix env organization_id @ ''policy:'' @ PolicyKind_as_str kind @ '':'' @ uuid_text env policy_id"

definition policy_key :: "Externals \<Rightarrow> PolicyCandidate \<Rightarrow> string" where
  "policy_key env candidate =
     policy_key_ref env (pc_organization_id candidate) (pc_kind candidate) (pc_policy_id candidate)"

definition ledger_key :: "Externals \<Rightarrow> uuid \<Rightarrow> PolicyKind \<Rightarrow> uuid \<Rightarrow> string \<Rightarrow> string" where
  "ledger_key env organization_id kind policy_id epoch =
     key_prefix env organization_id @ ''ledger:'' @ PolicyKind_as_str kind @ '':'' @ uuid_text env policy_id
       @ '':'' @ digest_component env epoch"

definition side_policy_key :: "Externals \<Rightarrow> uuid \<Rightarrow> BudgetGrantSide option \<Rightarrow> string" where
  "side_policy_key env organization_id side =
     (case side of
        None \<Rightarrow> key_prefix env organization_id @ ''unused:policy''
      | Some sd \<Rightarrow>
          policy_key_ref env organization_id (pr_kind (side_policy sd)) (pr_policy_id (side_policy sd)))"

definition side_ledger_key :: "Externals \<Rightarrow> uuid \<Rightarrow> BudgetGrantSide option \<Rightarrow> string" where
  "side_ledger_key env organization_id side =
     (case side of
        None \<Rightarrow> key_prefix env organization_id @ ''unused:ledger''
      | Some sd \<Rightarrow>
          ledger_key env organization_id (pr_kind (side_policy sd)) (pr_policy_id (side_policy sd))
            (pr_epoch (side_policy sd)))"

definition grant_key :: "Externals \<Rightarrow> uuid \<Rightarrow> uuid \<Rightarrow> string" where
  "grant_key env organization_id grant_id =
     key_prefix env organization_id @ ''allowance-grant:'' @ uuid_text env grant_id"

definition approximate_concurrency_expiry_key :: "Externals \<Rightarrow> PolicyReference \<Rightarrow> string" where
  "approximate_concurrency_expiry_key env policy =
     key_prefix env (pr_organization_id policy) @ ''concurrency-approx-expiry:''
       @ uuid_text env (pr_policy_id policy) @ '':'' @ digest_component env (pr_epoch policy)"

definition approximate_concurrency_grants_key :: "Externals \<Rightarrow> PolicyReference \<Rightarrow> string" where
  "approximate_concurrency_grants_key env policy =
     key_prefix env (pr_organization_id policy) @ ''concurrency-approx-grants:''
       @ uuid_text env (pr_policy_id policy) @ '':'' @ digest_component env (pr_epoch policy)"

definition concurrency_key :: "Externals \<Rightarrow> PolicyReference \<Rightarrow> string" where
  "concurrency_key env policy =
     key_prefix env (pr_organization_id policy) @ ''concurrency:'' @ uuid_text env (pr_policy_id policy)
       @ '':'' @ digest_component env (pr_epoch policy) @ '':'' @ PolicyKind_as_str (pr_kind policy)"

definition target_probe_lease_key :: "Externals \<Rightarrow> uuid \<Rightarrow> string \<Rightarrow> string" where
  "target_probe_lease_key env target binding_fingerprint =
     key_prefix env target @ ''target-probe-lease:v2:'' @ hex_digest binding_fingerprint"

definition target_health_key :: "Externals \<Rightarrow> uuid \<Rightarrow> string \<Rightarrow> string" where
  "target_health_key env target binding_fingerprint =
     key_prefix env target @ ''target-health:v2:'' @ hex_digest binding_fingerprint"

text \<open>\<open>u64::to_be_bytes\<close>.\<close>

fun be_bytes :: "nat \<Rightarrow> nat \<Rightarrow> string" where
  "be_bytes 0 n = []"
| "be_bytes (Suc k) n = be_bytes k (n div 256) @ [char_of (n mod 256)]"

definition length_prefixed :: "string \<Rightarrow> string" where
  "length_prefixed value = be_bytes 8 (min (length value) u64_max) @ value"

definition state_origin_key ::
    "Externals \<Rightarrow> uuid \<Rightarrow> string \<Rightarrow> uuid \<Rightarrow> uuid \<Rightarrow> string \<Rightarrow> string \<Rightarrow> string" where
  "state_origin_key env organization_id principal_kind affinity_id route family state_ref =
     key_prefix env organization_id @ ''state-origin:v2:''
       @ hex_digest (sha256 env
           (''owlrora/state-origin/v2'' @ [char_of (0 :: nat)] @ uuid_bytes env organization_id
              @ uuid_bytes env affinity_id @ uuid_bytes env route
              @ concat (map length_prefixed [principal_kind, family, state_ref])))"

subsection \<open>Fingerprints and arguments\<close>

definition nul :: string where "nul = [char_of (0 :: nat)]"

definition fingerprint_side :: "Externals \<Rightarrow> BudgetGrantSide option \<Rightarrow> string" where
  "fingerprint_side env side =
     (case side of
        None \<Rightarrow> []
      | Some sd \<Rightarrow>
          let p = side_policy sd in
          PolicyKind_as_str (pr_kind p) @ nul @ uuid_text env (pr_policy_id p) @ nul
            @ uuid_text env (pr_version_id p) @ nul @ pr_epoch p @ nul
            @ dec_of_nat (pr_generation p) @ nul @ dec_of_nat (pr_recovery_generation p) @ nul
            @ dec_of_nat (side_amount_nanos sd))
     @ nul"

definition grant_fingerprint :: "Externals \<Rightarrow> PairedBudgetGrantRequest \<Rightarrow> string" where
  "grant_fingerprint env request =
     digest_component env
       (uuid_text env (pbg_organization_id request) @ nul @ uuid_text env (pbg_grant_id request) @ nul
          @ (if one_shot request then ''true'' else ''false'') @ nul
          @ dec_of_nat (requested_ttl_ms request div 1000) @ nul
          @ fingerprint_side env (pbg_key request) @ fingerprint_side env (pbg_origin request))"

definition recovery_fingerprint :: "Externals \<Rightarrow> CoordinatorRecoveryInstall \<Rightarrow> string \<Rightarrow> string" where
  "recovery_fingerprint env recovery config =
     digest_component env
       (uuid_text env (cri_recovery_id recovery) @ nul @ uuid_text env (cri_organization_id recovery) @ nul
          @ PolicyKind_as_str (cri_kind recovery) @ nul @ uuid_text env (cri_policy_id recovery) @ nul
          @ uuid_text env (cri_version_id recovery) @ nul @ cri_epoch recovery @ nul
          @ dec_of_nat (cri_policy_generation recovery) @ nul
          @ dec_of_nat (cri_recovery_generation recovery) @ nul
          @ dec_of_nat (authorized_allowance_nanos recovery) @ nul
          @ dec_of_nat (cri_limit_cost_nanos recovery) @ nul @ config)"

text \<open>\<open>side_present\<close>, \<open>side_epoch\<close>, \<open>side_generation\<close> and the others.\<close>

definition side_args :: "Externals \<Rightarrow> BudgetGrantSide option \<Rightarrow> SideArgs" where
  "side_args env side =
     (case side of
        None \<Rightarrow> \<lparr>arg_present = ''0'', arg_epoch = '''', arg_generation = dec_of_nat 0, arg_version = '''',
                 arg_recovery = dec_of_nat 0, arg_amount = ''0''\<rparr>
      | Some sd \<Rightarrow>
          let p = side_policy sd in
          \<lparr>arg_present = ''1'', arg_epoch = pr_epoch p, arg_generation = dec_of_nat (pr_generation p),
           arg_version = uuid_text env (pr_version_id p),
           arg_recovery = dec_of_nat (pr_recovery_generation p),
           arg_amount = dec_of_nat (side_amount_nanos sd)\<rparr>)"

definition validate_candidate :: "PolicyCandidate \<Rightarrow> CoordinatorError + unit" where
  "validate_candidate candidate =
     (let matching = (case (pc_kind candidate, pc_config candidate) of
            (GatewayKeyBudget, BudgetConfig v _ _ _ _) \<Rightarrow> v = pc_desired_version_id candidate
          | (OrganizationOriginBudget, BudgetConfig v _ _ _ _) \<Rightarrow> v = pc_desired_version_id candidate
          | (GatewayKeyRequestLimits, RequestLimitsConfig v _ _ _ _ _ _ _ _ _) \<Rightarrow>
              v = pc_desired_version_id candidate
          | _ \<Rightarrow> False) in
      if matching then Inr () else Inl CoordConflict)"

definition grant_sides :: "PairedBudgetGrantRequest \<Rightarrow> BudgetGrantSide list" where
  "grant_sides request = List.map_filter (\<lambda>side. side) [pbg_key request, pbg_origin request]"

definition validate_grant_request :: "PairedBudgetGrantRequest \<Rightarrow> CoordinatorError + unit" where
  "validate_grant_request request =
     (if pbg_key request = None \<and> pbg_origin request = None \<or> requested_ttl_ms request = 0
         \<or> list_ex (\<lambda>sd.
             pr_organization_id (side_policy sd) \<noteq> pbg_organization_id request
             \<or> pr_kind (side_policy sd) \<notin> {GatewayKeyBudget, OrganizationOriginBudget}
             \<or> side_amount_nanos sd = 0) (grant_sides request)
      then Inl CoordConflict else Inr ())"

definition expect_state :: "string list \<Rightarrow> string \<Rightarrow> CoordinatorError + unit" where
  "expect_state values expected =
     (if values = [expected] then Inr ()
      else if values = [''conflict''] then Inl CoordConflict
      else Inl InvalidResponse)"

definition parse_prior :: "string \<Rightarrow> string \<Rightarrow> CoordinatorError + PriorGeneration option" where
  "parse_prior epoch generation =
     (if epoch = [] \<and> generation = [] then Inr None
      else if epoch = [] \<or> generation = [] then Inl InvalidResponse
      else result_bind (ok_or InvalidResponse (parse_unsigned u64_max generation))
        (\<lambda>g. Inr (Some \<lparr>prior_generation_epoch = epoch, prior_generation_number = g\<rparr>)))"

subsection \<open>The life cycle of a policy generation\<close>

text \<open>\<open>[state, a, b] if state == expected\<close>, \<open>conflict\<close>, or an invalid reply.\<close>

definition expect_prior ::
    "string \<Rightarrow> CoordinatorError + string list \<Rightarrow> CoordinatorError + PriorGeneration option" where
  "expect_prior expected reply =
     result_bind reply (\<lambda>values.
       case values of
         [state, epoch, generation] \<Rightarrow>
           if state = expected then parse_prior epoch generation else Inl InvalidResponse
       | [state] \<Rightarrow> if state = ''conflict'' then Inl CoordConflict else Inl InvalidResponse
       | _ \<Rightarrow> Inl InvalidResponse)"

definition stage_policy ::
    "Externals \<Rightarrow> 's Redis \<Rightarrow> Delivery \<Rightarrow> PolicyCandidate \<Rightarrow> 's
      \<Rightarrow> 's \<times> (CoordinatorError + PriorGeneration option)" where
  "stage_policy env R delivery candidate s =
     (case validate_candidate candidate of
        Inl e \<Rightarrow> (s, Inl e)
      | Inr _ \<Rightarrow>
          let (s, reply) = invoke delivery
            (stage_script R
              (policy_key_ref env (pc_organization_id candidate) (pc_kind candidate)
                 (pc_policy_id candidate))
              (ledger_key env (pc_organization_id candidate) (pc_kind candidate)
                 (pc_policy_id candidate) (pc_desired_epoch candidate))
              (pc_desired_epoch candidate) (dec_of_nat (pc_desired_generation candidate))
              (uuid_text env (pc_desired_version_id candidate)) (uuid_text env (pc_fence candidate))
              (encode_config env (pc_config candidate)) (PolicyKind_as_str (pc_kind candidate))
              (uuid_text env (pc_policy_id candidate)) metadata_ttl_millis
              (dec_of_nat (pc_desired_recovery_generation candidate))) s in
          (s, expect_prior ''staged'' reply))"

definition arm_policy ::
    "Externals \<Rightarrow> 's Redis \<Rightarrow> Delivery \<Rightarrow> PolicyCandidate \<Rightarrow> 's \<Rightarrow> 's \<times> (CoordinatorError + unit)" where
  "arm_policy env R delivery candidate s =
     (let (s, reply) = invoke delivery
        (arm_script R (policy_key env candidate) (pc_desired_epoch candidate)
          (dec_of_nat (pc_desired_generation candidate))
          (uuid_text env (pc_desired_version_id candidate)) (uuid_text env (pc_fence candidate))
          metadata_ttl_millis) s in
      (s, result_bind reply (\<lambda>values. expect_state values ''armed'')))"

definition activate_policy ::
    "Externals \<Rightarrow> 's Redis \<Rightarrow> Delivery \<Rightarrow> PolicyCandidate \<Rightarrow> 's
      \<Rightarrow> 's \<times> (CoordinatorError + PriorGeneration option)" where
  "activate_policy env R delivery candidate s =
     (let (s, reply) = invoke delivery
        (activate_script R (policy_key env candidate) (pc_desired_epoch candidate)
          (dec_of_nat (pc_desired_generation candidate))
          (uuid_text env (pc_desired_version_id candidate)) (uuid_text env (pc_fence candidate))
          metadata_ttl_millis (dec_of_nat (pc_desired_recovery_generation candidate))) s in
      (s, expect_prior ''active'' reply))"

definition begin_policy_retirement ::
    "Externals \<Rightarrow> 's Redis \<Rightarrow> Delivery \<Rightarrow> PolicyCandidate \<Rightarrow> nat \<Rightarrow> 's
      \<Rightarrow> 's \<times> (CoordinatorError + unit)" where
  "begin_policy_retirement env R delivery candidate cutoff_unix_ms s =
     (let (s, reply) = invoke delivery
        (retire_script R (policy_key env candidate) (pc_desired_epoch candidate)
          (dec_of_nat (pc_desired_generation candidate))
          (uuid_text env (pc_desired_version_id candidate)) (uuid_text env (pc_fence candidate))
          (dec_of_nat cutoff_unix_ms) metadata_ttl_millis) s in
      (s, result_bind reply (\<lambda>values. expect_state values ''retiring'')))"

definition finalize_policy ::
    "Externals \<Rightarrow> 's Redis \<Rightarrow> Delivery \<Rightarrow> PolicyCandidate \<Rightarrow> 's \<Rightarrow> 's \<times> (CoordinatorError + unit)" where
  "finalize_policy env R delivery candidate s =
     (let (s, reply) = invoke delivery
        (finalize_script R (policy_key env candidate) (pc_desired_epoch candidate)
          (dec_of_nat (pc_desired_generation candidate))
          (uuid_text env (pc_desired_version_id candidate)) (uuid_text env (pc_fence candidate))
          metadata_ttl_millis) s in
      (s, result_bind reply (\<lambda>values. expect_state values ''finalized'')))"

definition install_coordinator_recovery ::
    "Externals \<Rightarrow> 's Redis \<Rightarrow> Delivery \<Rightarrow> CoordinatorRecoveryInstall \<Rightarrow> 's
      \<Rightarrow> 's \<times> (CoordinatorError + unit)" where
  "install_coordinator_recovery env R delivery recovery s =
     (if cri_kind recovery \<notin> {GatewayKeyBudget, OrganizationOriginBudget} \<or> cri_epoch recovery = []
         \<or> cri_policy_generation recovery = 0 \<or> cri_recovery_generation recovery = 0
         \<or> authorized_allowance_nanos recovery > cri_limit_cost_nanos recovery
      then (s, Inl InvalidResponse)
      else
        let config = encode_config env (cri_config recovery);
            (s, reply) = invoke delivery
              (recovery_install_script (decode_config env) R
                (policy_key_ref env (cri_organization_id recovery) (cri_kind recovery)
                   (cri_policy_id recovery))
                (ledger_key env (cri_organization_id recovery) (cri_kind recovery)
                   (cri_policy_id recovery) (cri_epoch recovery))
                (cri_epoch recovery) (dec_of_nat (cri_policy_generation recovery))
                (uuid_text env (cri_version_id recovery)) config
                (dec_of_nat (cri_recovery_generation recovery))
                (dec_of_nat (authorized_allowance_nanos recovery))
                (dec_of_nat (cri_limit_cost_nanos recovery)) (uuid_text env (cri_recovery_id recovery))
                (recovery_fingerprint env recovery config) (PolicyKind_as_str (cri_kind recovery))
                (uuid_text env (cri_policy_id recovery)) metadata_ttl_millis) s in
        (s, result_bind reply (\<lambda>values. expect_state values ''installed'')))"

subsection \<open>Budget allowances\<close>

definition read_grant ::
    "PairedBudgetGrantRequest \<Rightarrow> string list \<Rightarrow> CoordinatorError + AllowanceGrant" where
  "read_grant request values =
     (case values of
        [state, expires] \<Rightarrow>
          if state = ''granted''
          then result_bind (ok_or InvalidResponse (parse_unsigned u64_max expires)) (\<lambda>t.
            Inr \<lparr>ag_id = pbg_grant_id request, ag_expires_at_unix_ms = t,
                 key_amount_nanos = map_option side_amount_nanos (pbg_key request),
                 origin_amount_nanos = map_option side_amount_nanos (pbg_origin request)\<rparr>)
          else Inl InvalidResponse
      | [state] \<Rightarrow>
          if state = ''denied'' then Inl CoordDenied
          else if state = ''conflict'' then Inl CoordConflict else Inl InvalidResponse
      | _ \<Rightarrow> Inl InvalidResponse)"

definition grant_budget_allowance ::
    "Externals \<Rightarrow> 's Redis \<Rightarrow> Delivery \<Rightarrow> PairedBudgetGrantRequest \<Rightarrow> 's
      \<Rightarrow> 's \<times> (CoordinatorError + AllowanceGrant)" where
  "grant_budget_allowance env R delivery request s =
     (case validate_grant_request request of
        Inl e \<Rightarrow> (s, Inl e)
      | Inr _ \<Rightarrow>
          let org = pbg_organization_id request;
              (s, reply) = invoke delivery
                (budget_grant_script (decode_config env) R
                  (side_policy_key env org (pbg_key request)) (side_ledger_key env org (pbg_key request))
                  (side_policy_key env org (pbg_origin request))
                  (side_ledger_key env org (pbg_origin request))
                  (grant_key env org (pbg_grant_id request)) (grant_fingerprint env request)
                  (requested_ttl_ms request div 1000) (one_shot request)
                  (side_args env (pbg_key request)) (side_args env (pbg_origin request))
                  metadata_ttl_millis) s in
          (s, result_bind reply (read_grant request)))"

definition return_budget_allowance ::
    "Externals \<Rightarrow> 's Redis \<Rightarrow> Delivery \<Rightarrow> PairedBudgetGrantRequest \<Rightarrow> nat \<Rightarrow> nat \<Rightarrow> 's
      \<Rightarrow> 's \<times> (CoordinatorError + unit)" where
  "return_budget_allowance env R delivery request key_unused_nanos origin_unused_nanos s =
     (let org = pbg_organization_id request;
          (s, reply) = invoke delivery
            (budget_return_script R (side_ledger_key env org (pbg_key request))
              (side_ledger_key env org (pbg_origin request)) (grant_key env org (pbg_grant_id request))
              (grant_fingerprint env request) (dec_of_nat key_unused_nanos)
              (dec_of_nat origin_unused_nanos) metadata_ttl_millis) s in
      (s, result_bind reply (\<lambda>values.
        if values = [''returned''] then Inr ()
        else if values = [''not_found''] then Inl CoordNotFound
        else if values = [''conflict''] then Inl CoordConflict
        else Inl InvalidResponse)))"

subsection \<open>Concurrency\<close>

definition read_slots :: "uuid \<Rightarrow> string list \<Rightarrow> CoordinatorError + ConcurrencySlotGrant" where
  "read_slots grant_id values =
     (case values of
        [state, granted, expires] \<Rightarrow>
          if state = ''granted''
          then result_bind (ok_or InvalidResponse (parse_unsigned u32_max granted)) (\<lambda>n.
               result_bind (ok_or InvalidResponse (parse_unsigned u64_max expires)) (\<lambda>t.
                 Inr \<lparr>csg_id = grant_id, csg_slots = n, csg_expires_at_unix_ms = t\<rparr>))
          else Inl InvalidResponse
      | [state] \<Rightarrow>
          if state = ''denied'' then Inl CoordDenied
          else if state = ''conflict'' then Inl CoordConflict else Inl InvalidResponse
      | _ \<Rightarrow> Inl InvalidResponse)"

definition grant_approximate_concurrency_slots ::
    "Externals \<Rightarrow> 's Redis \<Rightarrow> Delivery \<Rightarrow> PolicyReference \<Rightarrow> uuid \<Rightarrow> nat \<Rightarrow> 's
      \<Rightarrow> 's \<times> (CoordinatorError + ConcurrencySlotGrant)" where
  "grant_approximate_concurrency_slots env R delivery policy grant_id requested_slots s =
     (if pr_kind policy \<noteq> GatewayKeyRequestLimits \<or> requested_slots = 0 then (s, Inl CoordConflict)
      else
        let (s, reply) = invoke delivery
              (approximate_script (decode_config env) R
                (policy_key_ref env (pr_organization_id policy) (pr_kind policy) (pr_policy_id policy))
                (approximate_concurrency_expiry_key env policy)
                (approximate_concurrency_grants_key env policy) (pr_epoch policy)
                (dec_of_nat (pr_generation policy)) (uuid_text env (pr_version_id policy))
                (uuid_text env grant_id) requested_slots metadata_ttl_millis) s in
        (s, result_bind reply (read_slots grant_id)))"

text \<open>
  The deadline is on the caller's monotonic clock, read before the call; the instant that
  leaves the range of \<open>Instant\<close> lies beyond any u64 of milliseconds.
\<close>

definition read_lease :: "nat \<Rightarrow> string list \<Rightarrow> CoordinatorError + nat" where
  "read_lease started values =
     (case values of
        [state, expiry_text, observed_text] \<Rightarrow>
          if state = ''acquired''
          then result_bind (ok_or InvalidResponse (parse_unsigned u64_max expiry_text)) (\<lambda>expires.
               result_bind (ok_or InvalidResponse (parse_unsigned u64_max observed_text)) (\<lambda>observed.
                 Inr (started + (expires - observed - 1))))
          else Inl InvalidResponse
      | [state] \<Rightarrow>
          if state = ''denied'' then Inl CoordDenied
          else if state = ''conflict'' then Inl CoordConflict else Inl InvalidResponse
      | _ \<Rightarrow> Inl InvalidResponse)"

definition acquire_strict_concurrency ::
    "Externals \<Rightarrow> 's Redis \<Rightarrow> Delivery \<Rightarrow> nat \<Rightarrow> PolicyReference \<Rightarrow> uuid \<Rightarrow> nat \<Rightarrow> 's
      \<Rightarrow> 's \<times> (CoordinatorError + nat)" where
  "acquire_strict_concurrency env R delivery started policy lease_id seconds s =
     (let (s, reply) = invoke delivery
        (strict_script (decode_config env) R
          (policy_key_ref env (pr_organization_id policy) (pr_kind policy) (pr_policy_id policy))
          (concurrency_key env policy) (pr_epoch policy) (dec_of_nat (pr_generation policy))
          (uuid_text env (pr_version_id policy)) (uuid_text env lease_id) seconds metadata_ttl_millis) s in
      (s, result_bind reply (read_lease started)))"

text \<open>The number of removed members is zero or one by the store's contract.\<close>

definition release_strict_concurrency ::
    "Externals \<Rightarrow> 's Redis \<Rightarrow> Delivery \<Rightarrow> PolicyReference \<Rightarrow> uuid \<Rightarrow> 's
      \<Rightarrow> 's \<times> (CoordinatorError + unit)" where
  "release_strict_concurrency env R delivery policy lease_id s =
     (let s' = zrem R s (concurrency_key env policy) (uuid_text env lease_id) in
      case delivery of
        NotDelivered e \<Rightarrow> (s, Inl e)
      | ReplyLost e \<Rightarrow> (s', Inl e)
      | Delivered \<Rightarrow> (s', Inr ()))"

subsection \<open>State origins and target health\<close>

definition put_state_origin ::
    "Externals \<Rightarrow> 's Redis \<Rightarrow> Delivery \<Rightarrow> uuid \<Rightarrow> string \<Rightarrow> uuid \<Rightarrow> uuid \<Rightarrow> string \<Rightarrow> string \<Rightarrow> StateOrigin
      \<Rightarrow> nat \<Rightarrow> 's \<Rightarrow> 's \<times> (CoordinatorError + unit)" where
  "put_state_origin env R delivery organization_id principal_kind affinity_id route family state_ref
       origin ttl_ms s =
     (if ttl_ms > u64_max then (s, Inl PoolConfiguration)
      else
        let (s, reply) = invoke delivery
              (state_origin_put_script R
                (state_origin_key env organization_id principal_kind affinity_id route family state_ref)
                (encode_origin env origin) ttl_ms) s in
        (s, result_bind reply (\<lambda>values. expect_state values ''stored'')))"

definition get_state_origin ::
    "Externals \<Rightarrow> 's Redis \<Rightarrow> Delivery \<Rightarrow> uuid \<Rightarrow> string \<Rightarrow> uuid \<Rightarrow> uuid \<Rightarrow> string \<Rightarrow> string \<Rightarrow> 's
      \<Rightarrow> CoordinatorError + StateOrigin" where
  "get_state_origin env R delivery organization_id principal_kind affinity_id route family state_ref s =
     (case delivery of
        NotDelivered e \<Rightarrow> Inl e
      | ReplyLost e \<Rightarrow> Inl e
      | Delivered \<Rightarrow>
          result_bind (ok_or CoordNotFound (get_string R s
            (state_origin_key env organization_id principal_kind affinity_id route family state_ref)))
          (\<lambda>payload. ok_or InvalidResponse (decode_origin env payload)))"

text \<open>\<open>char::is_control\<close> on ASCII.\<close>

definition control_char :: "char \<Rightarrow> bool" where
  "control_char c \<longleftrightarrow> (of_char c :: nat) < 32 \<or> (of_char c :: nat) = 127"

definition token_invalid :: "string \<Rightarrow> bool" where
  "token_invalid t \<longleftrightarrow> t = [] \<or> length t > 128 \<or> list_ex control_char t"

text \<open>\<open>SET key owner NX PX ttl\<close> answers OK or nil.\<close>

definition try_acquire_target_probe_lease ::
    "Externals \<Rightarrow> 's Redis \<Rightarrow> Delivery \<Rightarrow> uuid \<Rightarrow> string \<Rightarrow> string \<Rightarrow> nat \<Rightarrow> 's
      \<Rightarrow> 's \<times> (CoordinatorError + bool)" where
  "try_acquire_target_probe_lease env R delivery target fingerprint owner ttl_ms s =
     (if token_invalid owner then (s, Inl CoordConflict)
      else (case delivery of
        NotDelivered e \<Rightarrow> (s, Inl e)
      | _ \<Rightarrow>
          if ttl_ms > u64_max then (s, Inl PoolConfiguration)
          else
            let key = target_probe_lease_key env target fingerprint;
                free = get_string R s key = None;
                s' = (if free then set_px R s key owner ttl_ms else s) in
            (s', case delivery of ReplyLost e \<Rightarrow> Inl e | _ \<Rightarrow> Inr free)))"

definition put_target_health_summary ::
    "Externals \<Rightarrow> 's Redis \<Rightarrow> Delivery \<Rightarrow> TargetHealthSummary \<Rightarrow> string \<Rightarrow> nat \<Rightarrow> 's
      \<Rightarrow> 's \<times> (CoordinatorError + unit)" where
  "put_target_health_summary env R delivery summary lease_token ttl_ms s =
     (if token_invalid lease_token then (s, Inl CoordConflict)
      else if ttl_ms > u64_max then (s, Inl PoolConfiguration)
      else
        let (s, reply) = invoke delivery
              (target_health_put_script R
                (target_probe_lease_key env (ths_target_id summary) (ths_binding_fingerprint summary))
                (target_health_key env (ths_target_id summary) (ths_binding_fingerprint summary))
                lease_token (encode_health env summary) ttl_ms) s in
        (s, result_bind reply (\<lambda>values.
          if values = [''stored''] then Inr ()
          else if values = [''not_owner''] then Inl CoordConflict
          else Inl InvalidResponse)))"

text \<open>\<open>PTTL\<close> is negative for a key without an expiry.\<close>

definition get_target_health_summary ::
    "Externals \<Rightarrow> 's Redis \<Rightarrow> Delivery \<Rightarrow> uuid \<Rightarrow> string \<Rightarrow> 's
      \<Rightarrow> CoordinatorError + TargetHealthSummary \<times> nat" where
  "get_target_health_summary env R delivery target fingerprint s =
     (case delivery of
        NotDelivered e \<Rightarrow> Inl e
      | ReplyLost e \<Rightarrow> Inl e
      | Delivered \<Rightarrow>
          let key = target_health_key env target fingerprint in
          result_bind (ok_or CoordNotFound (get_string R s key)) (\<lambda>payload.
          result_bind (ok_or InvalidResponse (decode_health env payload)) (\<lambda>summary.
          result_bind (ok_or CoordNotFound (deadline R s key)) (\<lambda>t.
            let ttl_millis = t - now_ms R s in
            if ths_target_id summary = target \<and> ttl_millis > 0 then Inr (summary, ttl_millis)
            else Inl InvalidResponse))))"

subsection \<open>A sample\<close>

text \<open>One choice of the externals for the witnesses; its codec knows one configuration of each kind.\<close>

definition sample_budget_config :: PolicyCoordinatorConfig where
  "sample_budget_config = BudgetConfig 3 ''enforce'' (dec_of_nat 1000) (dec_of_nat 400) 30"

definition sample_limits_config :: PolicyCoordinatorConfig where
  "sample_limits_config =
     RequestLimitsConfig 3 60 None ''strict'' 1 30 (Some ''strict'') (Some 2) (Some 20) 60"

definition sample_env :: Externals where
  "sample_env =
     \<lparr>uuid_text = dec_of_nat, uuid_bytes = be_bytes 16, sha256 = (\<lambda>value. value),
      encode_config = (\<lambda>c. case c of BudgetConfig _ _ _ _ _ \<Rightarrow> ''budget'' | _ \<Rightarrow> ''limits''),
      decode_config = (\<lambda>t. if t = ''budget'' then Some sample_budget_config
        else if t = ''limits'' then Some sample_limits_config else None),
      encode_origin = (\<lambda>_. ''origin''), decode_origin = (\<lambda>_. None),
      encode_health = (\<lambda>_. ''health''), decode_health = (\<lambda>_. None)\<rparr>"

lemma sample_env_simps [simp]:
  "uuid_text sample_env = dec_of_nat" "encode_config sample_env sample_budget_config = ''budget''"
  "decode_config sample_env ''budget'' = Some sample_budget_config"
  "decode_config sample_env ''limits'' = Some sample_limits_config"
  by (simp_all add: sample_env_def sample_budget_config_def)

definition sample_candidate :: PolicyCandidate where
  "sample_candidate =
     \<lparr>pc_organization_id = 1, pc_kind = GatewayKeyBudget, pc_policy_id = 2, pc_desired_epoch = ''e2'',
      pc_desired_version_id = 3, pc_desired_generation = 2, pc_desired_recovery_generation = 0,
      pc_fence = 4, pc_config = sample_budget_config\<rparr>"

end
