(* ===== verification/Lifecycle.thy ===== *)
theory Lifecycle
  imports Coordinator
begin

section \<open>Policy generations at the coordinator\<close>

text \<open>
  What the life cycle of \<open>adapters/coordinator.rs\<close> guarantees: a candidate whose
  fence is not the staged one changes nothing, and a candidate that is staged, armed,
  activated, retired and finalised becomes the generation grants are given under, the
  previous one staying valid until its cutoff.
\<close>

definition candidate_ledger_key :: "Externals \<Rightarrow> PolicyCandidate \<Rightarrow> string" where
  "candidate_ledger_key env c =
     ledger_key env (pc_organization_id c) (pc_kind c) (pc_policy_id c) (pc_desired_epoch c)"

text \<open>The configuration grants under the candidate's generation are given.\<close>

definition selected_config :: "Externals \<Rightarrow> 's Redis \<Rightarrow> PolicyCandidate \<Rightarrow> 's \<Rightarrow> string option" where
  "selected_config env R c s =
     select_budget_config R (policy_key env c) (pc_desired_epoch c)
       (dec_of_nat (pc_desired_generation c)) (uuid_text env (pc_desired_version_id c))
       (dec_of_nat (pc_desired_recovery_generation c)) s"

definition active_fields :: "'s Redis \<Rightarrow> string \<Rightarrow> 's \<Rightarrow> string option list" where
  "active_fields R k s =
     map (hget R s k) [''active_epoch'', ''active_generation'', ''active_version'', ''active_config'',
       ''active_recovery_generation'']"

lemma written_simps [simp]:
  "written [] f old = old"
  "written ((g, v) # fvs) f old = written fvs f (if f = g then Some v else old)"
  by (simp_all add: written_def map_add_def split: option.splits)

definition overwrite :: "(string \<times> string) list \<Rightarrow> (string \<Rightarrow> string option) \<Rightarrow> string \<Rightarrow> string option" where
  "overwrite fvs h = (\<lambda>x. written fvs x (h x))"

lemma overwrite_apply: "overwrite fvs h x = written fvs x (h x)"
  by (simp add: overwrite_def)

lemma validate_candidate_simps:
  "validate_candidate c = Inr () \<or> validate_candidate c = Inl CoordConflict"
  by (simp add: validate_candidate_def Let_def)

lemma policy_key_ledger_neq: "policy_key env c \<noteq> ledger_key env (pc_organization_id c) kind pid epoch"
  by (simp add: policy_key_def policy_key_ref_def ledger_key_def)

lemma policy_key_unfold:
  "policy_key_ref env (pc_organization_id c) (pc_kind c) (pc_policy_id c) = policy_key env c"
  by (simp add: policy_key_def)

lemmas lifecycle_calls = stage_policy_def arm_policy_def activate_policy_def
  begin_policy_retirement_def finalize_policy_def invoke_def expect_state_def expect_prior_def
  policy_key_unfold Let_def

lemma stage_fenced:
  assumes "hget R s (policy_key env c) ''staged_fence'' = Some f" "f \<noteq> uuid_text env (pc_fence c)"
  shows "stage_policy env R Delivered c s = (s, Inl CoordConflict)"
  using assms validate_candidate_simps [of c] by (auto simp: lifecycle_calls stage_script_def)

lemma step_fenced:
  assumes "hget R s (policy_key env c) ''staged_fence'' = Some f" "f \<noteq> uuid_text env (pc_fence c)"
  shows "arm_policy env R Delivered c s = (s, Inl CoordConflict)"
    "activate_policy env R Delivered c s = (s, Inl CoordConflict)"
    "begin_policy_retirement env R Delivered c cutoff s = (s, Inl CoordConflict)"
    "finalize_policy env R Delivered c s = (s, Inl CoordConflict)"
  using assms
  by (simp_all add: lifecycle_calls arm_script_def activate_script_def retire_script_def
      finalize_script_def)

text \<open>Every conflict leaves the store as it was, whatever its cause.\<close>

lemma script_conflict:
  "snd (stage_script R p l e g v f c k i t r s) = Some [''conflict''] \<Longrightarrow>
     fst (stage_script R p l e g v f c k i t r s) = s"
  "snd (arm_script R p e g v f t s) = Some [''conflict''] \<Longrightarrow> fst (arm_script R p e g v f t s) = s"
  "snd (activate_script R p e g v f t r s) = Some [''conflict''] \<Longrightarrow>
     fst (activate_script R p e g v f t r s) = s"
  "snd (retire_script R p e g v f x t s) = Some [''conflict''] \<Longrightarrow>
     fst (retire_script R p e g v f x t s) = s"
  "snd (finalize_script R p e g v f t s) = Some [''conflict''] \<Longrightarrow>
     fst (finalize_script R p e g v f t s) = s"
  by (auto simp: stage_script_def stage_write_def staged_reply_def arm_script_def activate_script_def
      retire_script_def finalize_script_def Let_def split: if_splits option.splits)

context redis
begin

text \<open>What each successful script leaves in the policy's hash.\<close>

lemma stage_write_policy:
  assumes "p \<noteq> l"
  shows "stage_write R p l e g v f c t r s =
    (pexpire R (pexpire R (hset R s p
       [(''desired_epoch'', e), (''desired_generation'', g), (''desired_version'', v),
        (''staged_fence'', f), (''desired_config'', c), (''desired_recovery_generation'', r),
        (''state'', ''staged'')]) p t) l t,
     Some [''staged'', or_empty (hget R s p ''active_epoch''), or_empty (hget R s p ''active_generation'')])"
  by (simp add: stage_write_def staged_reply_def Let_def hash_reads)

lemma stage_fresh:
  assumes "p \<noteq> l" "hget R s p ''staged_fence'' = None" "hget R s l ''policy_kind'' = None"
    and "stage_script R p l e g v f c k i t r s = (s1, reply)"
  shows "reply = Some [''staged'', or_empty (hget R s p ''active_epoch''),
      or_empty (hget R s p ''active_generation'')]"
    and "hget R s1 p = overwrite
      [(''desired_epoch'', e), (''desired_generation'', g), (''desired_version'', v),
       (''staged_fence'', f), (''desired_config'', c), (''desired_recovery_generation'', r),
       (''state'', ''staged'')] (hget R s p)"
    and "now_ms R s1 = now_ms R s"
    and "hget R s1 l = overwrite
      [(''policy_kind'', k), (''policy_id'', i), (''epoch'', e),
       (''charged_nanos'', ''0''), (''returned_nanos'', ''0''),
       (''recovery_generation'', r), (''rate_request_tokens'', []),
       (''rate_input_tokens'', []), (''rate_refill_ms'', [])] (hget R s l)"
  using assms by (auto simp: stage_script_def stage_write_policy hash_reads now_ms_writes Let_def fun_eq_iff
      overwrite_apply simp del: written_simps)

lemma arm_staged:
  assumes "hget R s p ''desired_epoch'' = Some e" "hget R s p ''desired_generation'' = Some g"
    "hget R s p ''desired_version'' = Some v" "hget R s p ''staged_fence'' = Some f"
    "hget R s p ''state'' = Some ''staged''" "arm_script R p e g v f t s = (s1, reply)"
  shows "reply = Some [''armed'']" and "now_ms R s1 = now_ms R s"
    and "hget R s1 p = overwrite [(''state'', ''armed'')] (hget R s p)"
    and "k \<noteq> p \<Longrightarrow> hget R s1 k = hget R s k"
  using assms by (auto simp: arm_script_def hash_reads now_ms_writes Let_def fun_eq_iff
      overwrite_apply simp del: written_simps)

lemma activate_armed:
  assumes "hget R s p ''desired_epoch'' = Some e" "hget R s p ''desired_generation'' = Some g"
    "hget R s p ''desired_version'' = Some v" "hget R s p ''staged_fence'' = Some f"
    "hget R s p ''desired_recovery_generation'' = Some r" "hget R s p ''desired_config'' = Some c"
    "hget R s p ''state'' = Some ''armed''" "activate_script R p e g v f t r s = (s1, reply)"
  shows "reply = Some [''active'', or_empty (hget R s p ''active_epoch''),
      or_empty (hget R s p ''active_generation'')]"
    and "now_ms R s1 = now_ms R s"
    and "hget R s1 p = overwrite
      [(''prior_epoch'', or_empty (hget R s p ''active_epoch'')),
       (''prior_generation'', or_empty (hget R s p ''active_generation'')),
       (''prior_version'', or_empty (hget R s p ''active_version'')),
       (''prior_config'', or_empty (hget R s p ''active_config'')),
       (''prior_recovery_generation'', or_zero (hget R s p ''active_recovery_generation'')),
       (''prior_cutoff_ms'', []), (''active_epoch'', e), (''active_generation'', g),
       (''active_version'', v), (''active_config'', c), (''active_recovery_generation'', r),
       (''state'', ''active'')] (hget R s p)"
    and "k \<noteq> p \<Longrightarrow> hget R s1 k = hget R s k"
  using assms by (auto simp: activate_script_def hash_reads now_ms_writes Let_def fun_eq_iff
      overwrite_apply simp del: written_simps)

lemma retire_active:
  assumes "hget R s p ''active_epoch'' = Some e" "hget R s p ''active_generation'' = Some g"
    "hget R s p ''active_version'' = Some v" "hget R s p ''staged_fence'' = Some f"
    "hget R s p ''prior_cutoff_ms'' = Some []"
    "hget R s p ''state'' = Some ''active''" "retire_script R p e g v f x t s = (s1, reply)"
  shows "reply = Some [''retiring'']" and "now_ms R s1 = now_ms R s"
    and "hget R s1 p = overwrite [(''prior_cutoff_ms'', x)] (hget R s p)"
    and "k \<noteq> p \<Longrightarrow> hget R s1 k = hget R s k"
  using assms by (auto simp: retire_script_def hash_reads now_ms_writes Let_def fun_eq_iff
      overwrite_apply simp del: written_simps)

lemma finalize_active:
  assumes "hget R s p ''active_epoch'' = Some e" "hget R s p ''active_generation'' = Some g"
    "hget R s p ''active_version'' = Some v" "hget R s p ''staged_fence'' = Some f"
    "hget R s p ''state'' = Some ''active''" "finalize_script R p e g v f t s = (s1, reply)"
  shows "reply = Some [''finalized'']" and "now_ms R s1 = now_ms R s"
    and "hget R s1 p = (\<lambda>y.
      if y \<in> set [''staged_fence'', ''desired_epoch'', ''desired_generation'', ''desired_version'',
               ''desired_config'', ''desired_recovery_generation'', ''prior_epoch'',
               ''prior_generation'', ''prior_version'', ''prior_config'',
               ''prior_recovery_generation'', ''prior_cutoff_ms'']
      then None else written [(''state'', ''finalized'')] y (hget R s p y))"
    and "k \<noteq> p \<Longrightarrow> hget R s1 k = hget R s k"
  using assms by (auto simp: finalize_script_def hash_reads now_ms_writes Let_def fun_eq_iff
      overwrite_apply simp del: written_simps)

end

lemma result_bind_ok: "result_bind (ok_or e (Some x)) f = f x"
  by simp

lemma parse_prior_generation:
  "e \<noteq> [] \<Longrightarrow> g \<le> u64_max \<Longrightarrow> parse_prior e (dec_of_nat g)
     = Inr (Some \<lparr>prior_generation_epoch = e, prior_generation_number = g\<rparr>)"
  by (simp add: parse_prior_def)

text \<open>A delivered call is its script and the reading of the reply.\<close>

lemma stage_call:
  assumes "validate_candidate c = Inr ()"
    and "stage_script R (policy_key env c) (candidate_ledger_key env c) (pc_desired_epoch c)
      (dec_of_nat (pc_desired_generation c)) (uuid_text env (pc_desired_version_id c))
      (uuid_text env (pc_fence c)) (encode_config env (pc_config c)) (PolicyKind_as_str (pc_kind c))
      (uuid_text env (pc_policy_id c)) metadata_ttl_millis
      (dec_of_nat (pc_desired_recovery_generation c)) s = (s', reply)"
  shows "stage_policy env R Delivered c s = (s', expect_prior ''staged'' (ok_or CoordCommand reply))"
  unfolding stage_policy_def assms(1) policy_key_unfold candidate_ledger_key_def [symmetric] invoke_def
    assms(2) by simp

lemma arm_call:
  assumes "arm_script R (policy_key env c) (pc_desired_epoch c) (dec_of_nat (pc_desired_generation c))
      (uuid_text env (pc_desired_version_id c)) (uuid_text env (pc_fence c)) metadata_ttl_millis s
    = (s', reply)"
  shows "arm_policy env R Delivered c s
    = (s', result_bind (ok_or CoordCommand reply) (\<lambda>values. expect_state values ''armed''))"
  unfolding arm_policy_def invoke_def assms by simp

lemma activate_call:
  assumes "activate_script R (policy_key env c) (pc_desired_epoch c)
      (dec_of_nat (pc_desired_generation c)) (uuid_text env (pc_desired_version_id c))
      (uuid_text env (pc_fence c)) metadata_ttl_millis (dec_of_nat (pc_desired_recovery_generation c)) s
    = (s', reply)"
  shows "activate_policy env R Delivered c s = (s', expect_prior ''active'' (ok_or CoordCommand reply))"
  unfolding activate_policy_def invoke_def assms by simp

lemma retire_call:
  assumes "retire_script R (policy_key env c) (pc_desired_epoch c) (dec_of_nat (pc_desired_generation c))
      (uuid_text env (pc_desired_version_id c)) (uuid_text env (pc_fence c)) (dec_of_nat cutoff)
      metadata_ttl_millis s = (s', reply)"
  shows "begin_policy_retirement env R Delivered c cutoff s
    = (s', result_bind (ok_or CoordCommand reply) (\<lambda>values. expect_state values ''retiring''))"
  unfolding begin_policy_retirement_def invoke_def assms by simp

lemma finalize_call:
  assumes "finalize_script R (policy_key env c) (pc_desired_epoch c)
      (dec_of_nat (pc_desired_generation c)) (uuid_text env (pc_desired_version_id c))
      (uuid_text env (pc_fence c)) metadata_ttl_millis s = (s', reply)"
  shows "finalize_policy env R Delivered c s
    = (s', result_bind (ok_or CoordCommand reply) (\<lambda>values. expect_state values ''finalized''))"
  unfolding finalize_policy_def invoke_def assms by simp

context redis
begin

lemma handshake:
  assumes valid: "validate_candidate c = Inr ()"
    and fresh: "hget R s (policy_key env c) ''staged_fence'' = None"
      "hget R s (candidate_ledger_key env c) ''policy_kind'' = None"
    and active: "active_fields R (policy_key env c) s = [Some e, Some (dec_of_nat g), Some v, Some k, Some r]"
    and old: "e \<noteq> []" "g \<le> u64_max" "e \<noteq> pc_desired_epoch c \<or> g \<noteq> pc_desired_generation c"
  shows "\<exists>s1 s2 s3 s4 s5.
     stage_policy env R Delivered c s
       = (s1, Inr (Some \<lparr>prior_generation_epoch = e, prior_generation_number = g\<rparr>))
     \<and> arm_policy env R Delivered c s1 = (s2, Inr ())
     \<and> activate_policy env R Delivered c s2
       = (s3, Inr (Some \<lparr>prior_generation_epoch = e, prior_generation_number = g\<rparr>))
     \<and> begin_policy_retirement env R Delivered c cutoff s3 = (s4, Inr ())
     \<and> finalize_policy env R Delivered c s4 = (s5, Inr ())
     \<and> map (selected_config env R c) [s3, s4, s5] = replicate 3 (Some (encode_config env (pc_config c)))
     \<and> map (select_budget_config R (policy_key env c) e (dec_of_nat g) v r) [s1, s2, s3, s4, s5]
       = [Some k, Some k, Some k, if cutoff < now_ms R s then None else Some k, None]
     \<and> hget R s5 (candidate_ledger_key env c) ''charged_nanos'' = Some ''0''"
proof -
  define p l where "p = policy_key env c" and "l = candidate_ledger_key env c"
  define E G V F K where "E = pc_desired_epoch c" and "G = dec_of_nat (pc_desired_generation c)"
    and "V = uuid_text env (pc_desired_version_id c)" and "F = uuid_text env (pc_fence c)"
    and "K = encode_config env (pc_config c)"
  define RG kind i where "RG = dec_of_nat (pc_desired_recovery_generation c)"
    and "kind = PolicyKind_as_str (pc_kind c)" and "i = uuid_text env (pc_policy_id c)"
  define ttl where "ttl = metadata_ttl_millis"
  note call_defs = p_def l_def E_def G_def V_def F_def K_def RG_def kind_def i_def ttl_def
  have pl: "p \<noteq> l" by (simp add: p_def l_def candidate_ledger_key_def policy_key_ledger_neq)
  have act: "hget R s p ''active_epoch'' = Some e" "hget R s p ''active_generation'' = Some (dec_of_nat g)"
    "hget R s p ''active_version'' = Some v" "hget R s p ''active_config'' = Some k"
    "hget R s p ''active_recovery_generation'' = Some r"
    using active by (simp_all add: active_fields_def p_def)
  have neq: "\<not> (E = e \<and> G = dec_of_nat g)" using old(3) by (auto simp: E_def G_def)
  obtain s1 r1 where st: "stage_script R p l E G V F K kind i ttl RG s = (s1, r1)" by fastforce
  note h1 = stage_fresh [OF pl fresh [folded p_def l_def] st]
  have f1: "hget R s1 p ''desired_epoch'' = Some E" "hget R s1 p ''desired_generation'' = Some G"
    "hget R s1 p ''desired_version'' = Some V" "hget R s1 p ''staged_fence'' = Some F"
    "hget R s1 p ''state'' = Some ''staged''"
    by (simp_all add: h1(2) overwrite_apply)
  have g1: "hget R s1 p ''desired_recovery_generation'' = Some RG"
    "hget R s1 p ''desired_config'' = Some K" "hget R s1 p ''active_epoch'' = Some e"
    "hget R s1 p ''active_generation'' = Some (dec_of_nat g)" "hget R s1 p ''active_version'' = Some v"
    "hget R s1 p ''active_config'' = Some k" "hget R s1 p ''active_recovery_generation'' = Some r"
    by (simp_all add: h1(2) overwrite_apply act)
  obtain s2 r2 where ar: "arm_script R p E G V F ttl s1 = (s2, r2)" by fastforce
  note h2 = arm_staged [OF f1 ar]
  have f2: "hget R s2 p ''desired_epoch'' = Some E" "hget R s2 p ''desired_generation'' = Some G"
    "hget R s2 p ''desired_version'' = Some V" "hget R s2 p ''staged_fence'' = Some F"
    "hget R s2 p ''desired_recovery_generation'' = Some RG" "hget R s2 p ''desired_config'' = Some K"
    "hget R s2 p ''state'' = Some ''armed''"
    by (simp_all add: h2(3) overwrite_apply f1 g1)
  have g2: "hget R s2 p ''active_epoch'' = Some e"
    "hget R s2 p ''active_generation'' = Some (dec_of_nat g)" "hget R s2 p ''active_version'' = Some v"
    "hget R s2 p ''active_config'' = Some k" "hget R s2 p ''active_recovery_generation'' = Some r"
    by (simp_all add: h2(3) overwrite_apply g1)
  obtain s3 r3 where ac: "activate_script R p E G V F ttl RG s2 = (s3, r3)" by fastforce
  note h3 = activate_armed [OF f2 ac, unfolded g2 or_simps]
  have f3: "hget R s3 p ''active_epoch'' = Some E" "hget R s3 p ''active_generation'' = Some G"
    "hget R s3 p ''active_version'' = Some V" "hget R s3 p ''staged_fence'' = Some F"
    "hget R s3 p ''prior_cutoff_ms'' = Some []" "hget R s3 p ''state'' = Some ''active''"
    by (simp_all add: h3(3) overwrite_apply f2)
  have g3: "hget R s3 p ''prior_epoch'' = Some e" "hget R s3 p ''prior_generation'' = Some (dec_of_nat g)"
    "hget R s3 p ''prior_version'' = Some v" "hget R s3 p ''prior_config'' = Some k"
    "hget R s3 p ''prior_recovery_generation'' = Some r" "hget R s3 p ''active_config'' = Some K"
    "hget R s3 p ''active_recovery_generation'' = Some RG"
    by (simp_all add: h3(3) overwrite_apply f2)
  obtain s4 r4 where re: "retire_script R p E G V F (dec_of_nat cutoff) ttl s3 = (s4, r4)" by fastforce
  note h4 = retire_active [OF f3 re]
  have f4: "hget R s4 p ''active_epoch'' = Some E" "hget R s4 p ''active_generation'' = Some G"
    "hget R s4 p ''active_version'' = Some V" "hget R s4 p ''staged_fence'' = Some F"
    "hget R s4 p ''state'' = Some ''active''"
    by (simp_all add: h4(3) overwrite_apply f3)
  have g4: "hget R s4 p ''prior_epoch'' = Some e" "hget R s4 p ''prior_generation'' = Some (dec_of_nat g)"
    "hget R s4 p ''prior_version'' = Some v" "hget R s4 p ''prior_config'' = Some k"
    "hget R s4 p ''prior_recovery_generation'' = Some r" "hget R s4 p ''active_config'' = Some K"
    "hget R s4 p ''active_recovery_generation'' = Some RG"
    "hget R s4 p ''prior_cutoff_ms'' = Some (dec_of_nat cutoff)"
    by (simp_all add: h4(3) overwrite_apply g3)
  obtain s5 r5 where fi: "finalize_script R p E G V F ttl s4 = (s5, r5)" by fastforce
  note h5 = finalize_active [OF f4 fi]
  have f5: "hget R s5 p ''active_epoch'' = Some E" "hget R s5 p ''active_generation'' = Some G"
    "hget R s5 p ''active_version'' = Some V" "hget R s5 p ''active_config'' = Some K"
    "hget R s5 p ''active_recovery_generation'' = Some RG" "hget R s5 p ''state'' = Some ''finalized''"
    by (simp_all add: h5(3) overwrite_apply f4 g4)
  have now: "now_ms R s3 = now_ms R s" "now_ms R s4 = now_ms R s"
    using h1(3) h2(2) h3(2) h4(2) by simp_all
  have sel: "select_budget_config R p E G V RG s3 = Some K" "select_budget_config R p E G V RG s4 = Some K"
    "select_budget_config R p E G V RG s5 = Some K"
    by (simp_all add: select_budget_config_def f3 g3 f4 g4 f5)
  have old_active: "select_budget_config R p e (dec_of_nat g) v r s1 = Some k"
    "select_budget_config R p e (dec_of_nat g) v r s2 = Some k"
    by (simp_all add: select_budget_config_def g1 g2)
  have neq': "E = e \<longrightarrow> G \<noteq> dec_of_nat g" using neq by simp
  have old_prior: "select_budget_config R p e (dec_of_nat g) v r s3 = Some k"
    "select_budget_config R p e (dec_of_nat g) v r s4 = (if cutoff < now_ms R s then None else Some k)"
    "select_budget_config R p e (dec_of_nat g) v r s5 = None"
    unfolding select_budget_config_def Let_def f3 g3 f4 g4 f5 now
    using neq' by (cases "E = e"; simp)+
  have ledger: "hget R s5 l ''charged_nanos'' = Some ''0''"
    using h2(4) h3(4) h4(4) h5(4) pl by (simp add: h1(4) overwrite_apply)
  note calls =
    stage_call [OF valid st [unfolded call_defs]] arm_call [OF ar [unfolded call_defs]]
    activate_call [OF ac [unfolded call_defs]] retire_call [OF re [unfolded call_defs]]
    finalize_call [OF fi [unfolded call_defs]]
  have prior: "parse_prior e (dec_of_nat g)
      = Inr (Some \<lparr>prior_generation_epoch = e, prior_generation_number = g\<rparr>)"
    using old by (rule_tac parse_prior_generation)
  have replies: "expect_prior ''staged'' (ok_or CoordCommand r1)
      = Inr (Some \<lparr>prior_generation_epoch = e, prior_generation_number = g\<rparr>)"
    "expect_prior ''active'' (ok_or CoordCommand r3)
      = Inr (Some \<lparr>prior_generation_epoch = e, prior_generation_number = g\<rparr>)"
    "result_bind (ok_or CoordCommand r2) (\<lambda>values. expect_state values ''armed'') = Inr ()"
    "result_bind (ok_or CoordCommand r4) (\<lambda>values. expect_state values ''retiring'') = Inr ()"
    "result_bind (ok_or CoordCommand r5) (\<lambda>values. expect_state values ''finalized'') = Inr ()"
    by (simp_all add: h1(1) h2(1) h3(1) h4(1) h5(1) act expect_prior_def expect_state_def prior)
  show ?thesis
    using calls [unfolded replies] sel [unfolded call_defs] old_active [unfolded call_defs]
      old_prior [unfolded call_defs] ledger [unfolded call_defs]
    by (intro exI [of _ s1] exI [of _ s2] exI [of _ s3] exI [of _ s4] exI [of _ s5])
      (simp add: selected_config_def numeral_3_eq_3)
qed

end

text \<open>
  C19: while a candidate is staged under a fence, every life-cycle call of a
  candidate with another fence answers a conflict and leaves the store as it was: two
  controllers cannot advance the same policy at once.
\<close>

theorem policy_fencing:
  assumes "hget R s (policy_key env c) ''staged_fence'' = Some f" "f \<noteq> uuid_text env (pc_fence c)"
  shows "stage_policy env R Delivered c s = (s, Inl CoordConflict)
    \<and> arm_policy env R Delivered c s = (s, Inl CoordConflict)
    \<and> activate_policy env R Delivered c s = (s, Inl CoordConflict)
    \<and> begin_policy_retirement env R Delivered c cutoff s = (s, Inl CoordConflict)
    \<and> finalize_policy env R Delivered c s = (s, Inl CoordConflict)"
  using assms by (simp add: stage_fenced step_fenced)

lemma policy_fencing_witness:
  "stage_policy sample_env store_ops Delivered sample_candidate
      (hset store_ops (store_at 0) (policy_key sample_env sample_candidate) [(''staged_fence'', dec_of_nat 9)])
    = (hset store_ops (store_at 0) (policy_key sample_env sample_candidate) [(''staged_fence'', dec_of_nat 9)],
       Inl CoordConflict)"
  using policy_fencing [of store_ops
      "hset store_ops (store_at 0) (policy_key sample_env sample_candidate) [(''staged_fence'', dec_of_nat 9)]"
      sample_env sample_candidate "dec_of_nat 9" 0]
  by (simp add: store.hget_hset sample_candidate_def)

text \<open>
  a candidate staged over an active generation reports that generation;
  armed, activated, retired and finalised in turn, every call succeeds.  Grants under the old
  generation are possible up to the activation, then until the cutoff of its retirement, and
  no longer after the finalisation; grants under the candidate's generation are possible from
  its activation on, and its ledger starts at zero.
\<close>

theorem policy_handshake:
  assumes "redis R" "validate_candidate c = Inr ()"
    and fresh: "hget R s (policy_key env c) ''staged_fence'' = None"
      "hget R s (candidate_ledger_key env c) ''policy_kind'' = None"
    and active: "active_fields R (policy_key env c) s = [Some e, Some (dec_of_nat g), Some v, Some k, Some r]"
    and old: "e \<noteq> []" "g \<le> u64_max" "e \<noteq> pc_desired_epoch c \<or> g \<noteq> pc_desired_generation c"
  shows "\<exists>s1 s2 s3 s4 s5.
     stage_policy env R Delivered c s
       = (s1, Inr (Some \<lparr>prior_generation_epoch = e, prior_generation_number = g\<rparr>))
     \<and> arm_policy env R Delivered c s1 = (s2, Inr ())
     \<and> activate_policy env R Delivered c s2
       = (s3, Inr (Some \<lparr>prior_generation_epoch = e, prior_generation_number = g\<rparr>))
     \<and> begin_policy_retirement env R Delivered c cutoff s3 = (s4, Inr ())
     \<and> finalize_policy env R Delivered c s4 = (s5, Inr ())
     \<and> map (selected_config env R c) [s3, s4, s5] = replicate 3 (Some (encode_config env (pc_config c)))
     \<and> map (select_budget_config R (policy_key env c) e (dec_of_nat g) v r) [s1, s2, s3, s4, s5]
       = [Some k, Some k, Some k, if cutoff < now_ms R s then None else Some k, None]
     \<and> hget R s5 (candidate_ledger_key env c) ''charged_nanos'' = Some ''0''"
  by (rule redis.handshake [OF assms])

definition sample_active :: Store where
  "sample_active = hset store_ops (store_at 5) (policy_key sample_env sample_candidate)
     [(''active_epoch'', ''e1''), (''active_generation'', dec_of_nat 1), (''active_version'', dec_of_nat 8),
      (''active_config'', ''budget''), (''active_recovery_generation'', ''0''), (''state'', ''finalized'')]"

lemma store_at_empty: "hget store_ops (store_at t) k f = None"
  by (simp add: store_ops_simps store_at_def)

lemma sample_active_reads:
  "hget store_ops sample_active (candidate_ledger_key sample_env sample_candidate) f = None"
  "hget store_ops sample_active (policy_key sample_env sample_candidate) f
     = written
     [(''active_epoch'', ''e1''), (''active_generation'', dec_of_nat 1), (''active_version'', dec_of_nat 8),
      (''active_config'', ''budget''), (''active_recovery_generation'', ''0''), (''state'', ''finalized'')]
      f None"
  using policy_key_ledger_neq [of sample_env sample_candidate]
  by (simp_all only: sample_active_def store.hget_hset candidate_ledger_key_def store_at_empty
      simp_thms if_True if_False not_sym [OF policy_key_ledger_neq])

lemma sample_candidate_simps:
  "pc_desired_epoch sample_candidate = ''e2''" "(1 :: nat) \<le> u64_max"
  by (simp_all add: sample_candidate_def u64_max_def)

lemma policy_handshake_witness:
  "\<exists>s1. stage_policy sample_env store_ops Delivered sample_candidate sample_active
     = (s1, Inr (Some \<lparr>prior_generation_epoch = ''e1'', prior_generation_number = 1\<rparr>))"
proof -
  have "validate_candidate sample_candidate = Inr ()"
    by (simp add: validate_candidate_def sample_candidate_def sample_budget_config_def)
  moreover have "active_fields store_ops (policy_key sample_env sample_candidate) sample_active
      = [Some ''e1'', Some (dec_of_nat 1), Some (dec_of_nat 8), Some ''budget'', Some ''0'']"
    by (simp add: active_fields_def sample_active_reads)
  moreover have "hget store_ops sample_active (policy_key sample_env sample_candidate) ''staged_fence'' = None"
    by (simp add: sample_active_reads)
  ultimately show ?thesis
    using policy_handshake [OF store.redis_axioms, of sample_candidate sample_active sample_env "''e1''" 1
        "dec_of_nat 8" "''budget''" "''0''" 100] sample_active_reads(1) [of "''policy_kind''"]
      sample_candidate_simps
    by auto
qed

end
