(* ===== verification/Allowances.thy ===== *)
theory Allowances
  imports Lifecycle
begin

section \<open>Budget allowances at the coordinator\<close>

text \<open>
  What the budget scripts of \<open>adapters/coordinator.rs\<close> and their callers
  guarantee: a grant charges the ledgers of both sides exactly or nothing, within the limit of the
  configuration it was given under; a retried grant is not charged again; a return gives back
  exactly the unused amounts, once.
\<close>

definition ledger_holds :: "'s Redis \<Rightarrow> 's \<Rightarrow> string \<Rightarrow> nat \<Rightarrow> nat \<Rightarrow> bool" where
  "ledger_holds R s k charged returned \<longleftrightarrow>
     or_zero (hget R s k ''charged_nanos'') = dec_of_nat charged
     \<and> or_zero (hget R s k ''returned_nanos'') = dec_of_nat returned"

text \<open>
  The callers pair a gateway key's budget with an origin's.
\<close>

definition paired_request :: "PairedBudgetGrantRequest \<Rightarrow> bool" where
  "paired_request req \<longleftrightarrow>
     validate_grant_request req = Inr ()
     \<and> (\<forall>sd. pbg_key req = Some sd \<longrightarrow> pr_kind (side_policy sd) = GatewayKeyBudget)
     \<and> (\<forall>sd. pbg_origin req = Some sd \<longrightarrow> pr_kind (side_policy sd) = OrganizationOriginBudget)"

abbreviation key_ledger :: "Externals \<Rightarrow> PairedBudgetGrantRequest \<Rightarrow> string" where
  "key_ledger env req \<equiv> side_ledger_key env (pbg_organization_id req) (pbg_key req)"

abbreviation origin_ledger :: "Externals \<Rightarrow> PairedBudgetGrantRequest \<Rightarrow> string" where
  "origin_ledger env req \<equiv> side_ledger_key env (pbg_organization_id req) (pbg_origin req)"

abbreviation request_key :: "Externals \<Rightarrow> PairedBudgetGrantRequest \<Rightarrow> string" where
  "request_key env req \<equiv> grant_key env (pbg_organization_id req) (pbg_grant_id req)"

text \<open>
  The configuration a policy reference stands for: that of the active generation if the reference names
  it, else, while a successor is being introduced and before its cutoff, that of the generation before.
\<close>

definition names_generation ::
    "Externals \<Rightarrow> PolicyReference \<Rightarrow> (string \<Rightarrow> string option) \<Rightarrow> string \<Rightarrow> string \<Rightarrow> string \<Rightarrow> string \<Rightarrow> bool" where
  "names_generation env p v epoch generation version recovery \<longleftrightarrow>
     v epoch = Some (pr_epoch p) \<and> v generation = Some (dec_of_nat (pr_generation p))
     \<and> v version = Some (uuid_text env (pr_version_id p))
     \<and> or_zero (v recovery) = dec_of_nat (pr_recovery_generation p)"

definition config_in_force :: "Externals \<Rightarrow> PolicyReference \<Rightarrow> (string \<Rightarrow> string option) \<Rightarrow> nat \<Rightarrow> string \<Rightarrow> bool" where
  "config_in_force env p v now encoded \<longleftrightarrow>
     (if names_generation env p v ''active_epoch'' ''active_generation'' ''active_version'' ''active_recovery_generation''
      then v ''active_config'' = Some encoded
      else v ''state'' = Some ''active'' \<and> v ''prior_config'' = Some encoded
        \<and> names_generation env p v ''prior_epoch'' ''prior_generation'' ''prior_version'' ''prior_recovery_generation''
        \<and> (\<forall>cutoff. v ''prior_cutoff_ms'' = Some (dec_of_nat cutoff) \<longrightarrow> now \<le> cutoff))"

text \<open>
  One side of a grant from \<open>s\<close> to \<open>s'\<close> that expires at \<open>t\<close>: charged by its amount, within the limits of
  the configuration its policy reference stands for, on a ledger of the same epoch and recovery generation.
\<close>

definition side_charged ::
    "Externals \<Rightarrow> 's Redis \<Rightarrow> uuid \<Rightarrow> bool \<Rightarrow> nat \<Rightarrow> BudgetGrantSide option \<Rightarrow> 's \<Rightarrow> 's \<Rightarrow> bool" where
  "side_charged env R org once t side s s' \<longleftrightarrow>
     (case side of
        None \<Rightarrow> True
      | Some sd \<Rightarrow>
          let p = side_policy sd; ledger = hget R s (side_ledger_key env org side) in
          ledger ''epoch'' = Some (pr_epoch p)
          \<and> or_zero (ledger ''recovery_generation'') = dec_of_nat (pr_recovery_generation p)
          \<and> (\<exists>encoded v limit slice seconds.
               config_in_force env p (hget R s (side_policy_key env org side)) (now_ms R s) encoded
               \<and> decode_config env encoded = Some (BudgetConfig v ''enforce'' limit slice seconds)
               \<and> t \<le> now_ms R s + seconds * 1000
               \<and> (\<forall>n. \<not> once \<and> slice = dec_of_nat n \<longrightarrow> side_amount_nanos sd \<le> n)
               \<and> (\<forall>c r. ledger_holds R s (side_ledger_key env org side) c r \<longrightarrow>
                    ledger_holds R s' (side_ledger_key env org side) (c + side_amount_nanos sd) r
                    \<and> (\<forall>n. limit = dec_of_nat n \<longrightarrow> c + side_amount_nanos sd \<le> n))))"

lemma ledger_keys_neq:
  assumes "paired_request req"
  shows "key_ledger env req \<noteq> origin_ledger env req" "key_ledger env req \<noteq> request_key env req"
    "origin_ledger env req \<noteq> request_key env req"
  using assms
  by (auto simp: paired_request_def validate_grant_request_def side_ledger_key_def ledger_key_def
      grant_key_def split: option.split if_splits)

lemma dec_of_nat_0 [simp]: "dec_of_nat 0 = ''0''"
  using normalized_eq_dec [of "''0''" 0] by (simp add: normalized_def)

lemma dec_cmp_le [simp]: "dec_cmp (dec_of_nat a) (dec_of_nat b) \<le> 0 \<longleftrightarrow> a \<le> b"
  using dec_cmp_nat(1) [of a b] by linarith

lemma side_args_Some:
  "arg_present (side_args env (Some sd)) = ''1''" "arg_amount (side_args env (Some sd)) = dec_of_nat (side_amount_nanos sd)"
  "arg_present (side_args env None) = ''0''" "arg_amount (side_args env None) = ''0''"
  by (simp_all add: side_args_def Let_def)

lemma selected_in_force:
  assumes "select_budget_config R k (pr_epoch p) (dec_of_nat (pr_generation p)) (uuid_text env (pr_version_id p))
      (dec_of_nat (pr_recovery_generation p)) s = Some encoded"
  shows "config_in_force env p (hget R s k) (now_ms R s) encoded"
  using assms
  by (auto simp: select_budget_config_def config_in_force_def names_generation_def Let_def split: if_split_asm)

lemma validate_args_ok:
  assumes "validate_args decode R p l (side_args env side) once s = Some (SideOk charge secs)"
  obtains sd encoded v limit slice where "side = Some sd"
    "config_in_force env (side_policy sd) (hget R s p) (now_ms R s) encoded"
    "decode encoded = Some (BudgetConfig v ''enforce'' limit slice secs)"
    "hget R s l ''epoch'' = Some (pr_epoch (side_policy sd))"
    "or_zero (hget R s l ''recovery_generation'') = dec_of_nat (pr_recovery_generation (side_policy sd))"
    "once \<or> dec_cmp (dec_of_nat (side_amount_nanos sd)) slice \<le> 0"
    "charge = dec_add (or_zero (hget R s l ''charged_nanos'')) (dec_of_nat (side_amount_nanos sd))"
    "dec_cmp charge limit \<le> 0"
proof -
  obtain sd where side: "side = Some sd"
    using assms by (cases side) (auto simp: validate_args_def validate_side_def side_args_def)
  show ?thesis
    using assms selected_in_force [of R p "side_policy sd" env s] that [OF side]
    by (auto simp: validate_args_def validate_side_def side side_args_def Let_def not_less
      split: option.split_asm PolicyCoordinatorConfig.split_asm if_split_asm)
qed

lemma validate_args_absent:
  "validate_args decode R p l (side_args env None) once s = Some SideAbsent"
  "validate_args decode R p l (side_args env (Some sd)) once s \<noteq> Some SideAbsent"
  by (auto simp: validate_args_def validate_side_def side_args_Some Let_def
      split: option.splits PolicyCoordinatorConfig.splits if_splits)

lemma grant_script_cases:
  assumes "hget R s grant ''fingerprint'' = None"
  obtains (stopped) "budget_grant_script decode R kp kl op ol grant fp ttl once ka oa mttl s = (s, None)"
  | (denied) "budget_grant_script decode R kp kl op ol grant fp ttl once ka oa mttl s = (s, Some [''denied''])"
  | (granted) ks os secs where
      "validate_args decode R kp kl ka once s = Some ks" "validate_args decode R op ol oa once s = Some os"
      "ks \<noteq> SideRefused" "os \<noteq> SideRefused" "1 \<le> secs" "secs \<le> ttl"
      "budget_grant_script decode R kp kl op ol grant fp ttl once ka oa mttl s =
        (pexpire R (hset R (charge_side R ol os (charge_side R kl ks s)) grant
           [(''fingerprint'', fp), (''expires_ms'', dec_of_nat (now_ms R s + secs * 1000)),
            (''key_present'', arg_present ka), (''key_amount'', arg_amount ka), (''key_returned'', ''''),
            (''origin_present'', arg_present oa), (''origin_amount'', arg_amount oa),
            (''origin_returned'', '''')]) grant mttl,
         Some [''granted'', dec_of_nat (now_ms R s + secs * 1000)])"
      "secs \<le> side_ttl ttl ks \<and> secs \<le> side_ttl ttl os"
proof (cases "validate_args decode R kp kl ka once s")
  case None
  then show ?thesis using assms stopped by (simp add: budget_grant_script_def)
next
  case (Some ks)
  note K = this
  show ?thesis
  proof (cases "validate_args decode R op ol oa once s")
    case None
    then show ?thesis using assms K stopped by (simp add: budget_grant_script_def)
  next
    case (Some os)
    let ?secs = "side_ttl (side_ttl ttl ks) os"
    have sides: "?secs \<le> side_ttl ttl ks \<and> ?secs \<le> side_ttl ttl os"
      by (auto simp: side_ttl_def split: side_check.split)
    have le: "?secs \<le> ttl" by (auto simp: side_ttl_def min_le_iff_disj split: side_check.split)
    show ?thesis
    proof (cases "ks = SideRefused \<or> os = SideRefused \<or> ks = SideAbsent \<and> os = SideAbsent \<or> ?secs < 1")
      case True
      then show ?thesis using assms K Some denied by (auto simp: budget_grant_script_def Let_def)
    next
      case False
      then show ?thesis
        using assms K Some le sides by (intro granted [of ks os ?secs]) (auto simp: budget_grant_script_def Let_def)
    qed
  qed
qed

text \<open>The grant's record after a successful script.\<close>

definition grant_record :: "Externals \<Rightarrow> PairedBudgetGrantRequest \<Rightarrow> string \<Rightarrow> (string \<times> string) list" where
  "grant_record env req expires =
     [(''fingerprint'', grant_fingerprint env req), (''expires_ms'', expires),
      (''key_present'', arg_present (side_args env (pbg_key req))),
      (''key_amount'', arg_amount (side_args env (pbg_key req))), (''key_returned'', ''''),
      (''origin_present'', arg_present (side_args env (pbg_origin req))),
      (''origin_amount'', arg_amount (side_args env (pbg_origin req))), (''origin_returned'', '''')]"

text \<open>A side can give back \<open>unused\<close>: no more than it was granted, nor than is charged.\<close>

definition can_return ::
    "Externals \<Rightarrow> 's Redis \<Rightarrow> uuid \<Rightarrow> BudgetGrantSide option \<Rightarrow> nat \<Rightarrow> 's \<Rightarrow> nat \<Rightarrow> nat \<Rightarrow> bool" where
  "can_return env R org side unused s c r \<longleftrightarrow>
     (case side of
        None \<Rightarrow> unused = 0
      | Some sd \<Rightarrow>
          unused \<le> side_amount_nanos sd \<and> unused \<le> c
          \<and> ledger_holds R s (side_ledger_key env org side) c r)"

definition has_returned ::
    "Externals \<Rightarrow> 's Redis \<Rightarrow> uuid \<Rightarrow> BudgetGrantSide option \<Rightarrow> nat \<Rightarrow> 's \<Rightarrow> nat \<Rightarrow> nat \<Rightarrow> bool" where
  "has_returned env R org side unused s c r \<longleftrightarrow>
     (side = None \<or> ledger_holds R s (side_ledger_key env org side) (c - unused) (r + unused))"

definition recorded :: "Externals \<Rightarrow> 's Redis \<Rightarrow> PairedBudgetGrantRequest \<Rightarrow> 's \<Rightarrow> bool" where
  "recorded env R req s \<longleftrightarrow>
     (\<exists>x h. hget R s (request_key env req) = overwrite (grant_record env req x) h)"

context redis
begin

lemma charge_side_other: "k \<noteq> l \<Longrightarrow> hget R (charge_side R l side s) k = hget R s k"
  by (auto simp: charge_side_def hash_reads fun_eq_iff split: side_check.split)

lemma charge_side_this:
  "hget R (charge_side R l side s) l = overwrite
     (case side of SideOk charge _ \<Rightarrow> [(''charged_nanos'', charge)] | _ \<Rightarrow> []) (hget R s l)"
  by (auto simp: charge_side_def hash_reads fun_eq_iff overwrite_apply split: side_check.split)

lemma charged_side:
  assumes valid: "validate_args (decode_config env) R (side_policy_key env org side) (side_ledger_key env org side)
      (side_args env side) once s = Some check" and go: "check \<noteq> SideRefused"
    and t: "t \<le> now_ms R s + side_ttl ttl check * 1000"
    and read: "hget R s' (side_ledger_key env org side)
      = hget R (charge_side R (side_ledger_key env org side) check s) (side_ledger_key env org side)"
  shows "side_charged env R org once t side s s'"
proof (cases side)
  case None
  then show ?thesis by (simp add: side_charged_def)
next
  case (Some sd)
  let ?l = "side_ledger_key env org side"
  obtain charge secs where check: "check = SideOk charge secs"
    using valid go Some by (cases check) (simp_all add: validate_args_absent(2))
  from valid [unfolded check] obtain sd' encoded v limit slice where side: "side = Some sd'"
    and force: "config_in_force env (side_policy sd') (hget R s (side_policy_key env org side)) (now_ms R s) encoded"
    and cfg: "decode_config env encoded = Some (BudgetConfig v ''enforce'' limit slice secs)"
    and ledger: "hget R s ?l ''epoch'' = Some (pr_epoch (side_policy sd'))"
      "or_zero (hget R s ?l ''recovery_generation'') = dec_of_nat (pr_recovery_generation (side_policy sd'))"
    and slice: "once \<or> dec_cmp (dec_of_nat (side_amount_nanos sd')) slice \<le> 0"
    and charge: "charge = dec_add (or_zero (hget R s ?l ''charged_nanos'')) (dec_of_nat (side_amount_nanos sd'))"
    and le: "dec_cmp charge limit \<le> 0"
    by (rule validate_args_ok)
  have same: "sd' = sd" using side Some by simp
  note force = force [unfolded same] and ledger = ledger [unfolded same] and slice = slice [unfolded same]
    and charge = charge [unfolded same]
  have charged: "ledger_holds R s' ?l (c + side_amount_nanos sd) r \<and> (\<forall>n. limit = dec_of_nat n \<longrightarrow> c + side_amount_nanos sd \<le> n)"
    if "ledger_holds R s ?l c r" for c r
  proof -
    have "charge = dec_of_nat (c + side_amount_nanos sd)" using that charge by (simp add: ledger_holds_def)
    then show ?thesis
      using that le by (simp add: ledger_holds_def read charge_side_this check overwrite_apply)
        (metis dec_cmp_le)
  qed
  have "t \<le> now_ms R s + secs * 1000" using t check by (simp add: side_ttl_def min_def split: if_splits)
  moreover have "\<forall>n. \<not> once \<and> slice = dec_of_nat n \<longrightarrow> side_amount_nanos sd \<le> n" using slice by auto
  ultimately have "\<exists>encoded v limit slice seconds.
      config_in_force env (side_policy sd) (hget R s (side_policy_key env org side)) (now_ms R s) encoded
      \<and> decode_config env encoded = Some (BudgetConfig v ''enforce'' limit slice seconds)
      \<and> t \<le> now_ms R s + seconds * 1000
      \<and> (\<forall>n. \<not> once \<and> slice = dec_of_nat n \<longrightarrow> side_amount_nanos sd \<le> n)
      \<and> (\<forall>c r. ledger_holds R s ?l c r \<longrightarrow> ledger_holds R s' ?l (c + side_amount_nanos sd) r
           \<and> (\<forall>n. limit = dec_of_nat n \<longrightarrow> c + side_amount_nanos sd \<le> n))"
    using force cfg charged by blast
  then show ?thesis using ledger by (simp add: side_charged_def Some Let_def)
qed

lemma grant_cases:
  assumes paired: "paired_request req"
    and fresh: "hget R s (request_key env req) ''fingerprint'' = None"
    and call: "grant_budget_allowance env R Delivered req s = (s', answer)"
  obtains (refused) e where "answer = Inl e" "s' = s"
  | (granted) t where
      "answer = read_grant req [''granted'', dec_of_nat t]"
      "t \<le> now_ms R s + requested_ttl_ms req" "now_ms R s < t"
      "hget R s' (request_key env req)
        = overwrite (grant_record env req (dec_of_nat t)) (hget R s (request_key env req))"
      "side_charged env R (pbg_organization_id req) (one_shot req) t (pbg_key req) s s'"
      "side_charged env R (pbg_organization_id req) (one_shot req) t (pbg_origin req) s s'"
proof -
  let ?org = "pbg_organization_id req"
  let ?args = "\<lambda>f. f (decode_config env) R (side_policy_key env ?org (pbg_key req))
    (key_ledger env req) (side_policy_key env ?org (pbg_origin req)) (origin_ledger env req)
    (request_key env req) (grant_fingerprint env req) (requested_ttl_ms req div 1000) (one_shot req)
    (side_args env (pbg_key req)) (side_args env (pbg_origin req)) metadata_ttl_millis s"
  have valid: "validate_grant_request req = Inr ()" using paired by (simp add: paired_request_def)
  have answer: "(s', answer) = (let (s', reply) = ?args budget_grant_script in
      (s', result_bind (ok_or CoordCommand reply) (read_grant req)))"
    using call valid by (simp add: grant_budget_allowance_def invoke_def Let_def split: prod.splits)
  note neq = ledger_keys_neq [OF paired, of env]
  from fresh show ?thesis
  proof (cases rule: grant_script_cases [where decode = "decode_config env" and kp = "side_policy_key env ?org (pbg_key req)"
        and kl = "key_ledger env req" and op = "side_policy_key env ?org (pbg_origin req)"
        and ol = "origin_ledger env req" and fp = "grant_fingerprint env req"
        and ttl = "requested_ttl_ms req div 1000" and once = "one_shot req"
        and ka = "side_args env (pbg_key req)" and oa = "side_args env (pbg_origin req)"
        and mttl = metadata_ttl_millis])
    case stopped
    then show ?thesis using answer refused by simp
  next
    case denied
    then show ?thesis using answer refused by (simp add: read_grant_def)
  next
    case (granted ks os secs)
    let ?t = "now_ms R s + secs * 1000"
    have s': "s' = pexpire R (hset R (charge_side R (origin_ledger env req) os
        (charge_side R (key_ledger env req) ks s)) (request_key env req)
        (grant_record env req (dec_of_nat ?t))) (request_key env req) metadata_ttl_millis"
      and a: "answer = read_grant req [''granted'', dec_of_nat ?t]"
      using answer granted(7) by (simp_all add: grant_record_def)
    have "secs * 1000 \<le> requested_ttl_ms req" using granted(6) by linarith
    then have t: "?t \<le> now_ms R s + requested_ttl_ms req" "now_ms R s < ?t" using granted(5) by simp_all
    have "hget R s' (request_key env req)
        = overwrite (grant_record env req (dec_of_nat ?t)) (hget R s (request_key env req))"
      using neq by (simp add: s' hash_reads fun_eq_iff overwrite_apply charge_side_other)
    moreover have "side_charged env R ?org (one_shot req) ?t (pbg_key req) s s'"
      using neq granted(8)
      by (intro charged_side [where ttl = "requested_ttl_ms req div 1000", OF granted(1,3)])
        (simp_all add: s' hash_reads fun_eq_iff charge_side_other)
    moreover have "side_charged env R ?org (one_shot req) ?t (pbg_origin req) s s'"
      using neq granted(2,4,8)
      by (intro charged_side [where check = os and ttl = "requested_ttl_ms req div 1000", OF _ granted(4)])
        (simp_all add: s' hash_reads fun_eq_iff charge_side_this charge_side_other)
    ultimately show ?thesis using a t by (intro that(2)) simp_all
  qed
qed

lemma dec_cmp_not_less [simp]: "(dec_cmp (dec_of_nat a) (dec_of_nat b) < 0) = (a < b)"
  by simp

lemma return_side_ok:
  assumes "can_return env R org side unused s c r"
  obtains s' where
    "return_side R (side_ledger_key env org side) (Some (arg_present (side_args env side)))
       (dec_of_nat unused) s = Some s'"
    "has_returned env R org side unused s' c r"
    "\<And>k. k \<noteq> side_ledger_key env org side \<Longrightarrow> hget R s' k = hget R s k"
proof (cases side)
  case None
  show ?thesis
    by (rule that [of s]) (simp_all add: None return_side_def side_args_Some has_returned_def)
next
  case (Some sd)
  let ?l = "side_ledger_key env org side"
  have h: "or_zero (hget R s ?l ''charged_nanos'') = dec_of_nat c"
    "or_zero (hget R s ?l ''returned_nanos'') = dec_of_nat r" "unused \<le> c"
    using assms by (auto simp: can_return_def ledger_holds_def Some)
  let ?s = "hset R s ?l [(''charged_nanos'', dec_of_nat (c - unused)),
    (''returned_nanos'', dec_of_nat (r + unused))]"
  have "return_side R ?l (Some (arg_present (side_args env side))) (dec_of_nat unused) s = Some ?s"
    using h by (simp add: return_side_def Some side_args_Some Let_def)
  moreover have "has_returned env R org side unused ?s c r"
    by (simp add: has_returned_def ledger_holds_def hash_reads)
  moreover have "k \<noteq> ?l \<Longrightarrow> hget R ?s k = hget R s k" for k
    by (simp add: hash_reads fun_eq_iff)
  ultimately show ?thesis by (rule that)
qed

lemma unused_fits:
  "can_return env R org side unused s c r \<Longrightarrow>
     unused_exceeds (Some (arg_present (side_args env side))) (dec_of_nat unused)
       (Some (arg_amount (side_args env side))) = Some False
     \<and> (arg_present (side_args env side) \<noteq> ''1'' \<longrightarrow> dec_of_nat unused = ''0'')"
  by (cases side) (auto simp: unused_exceeds_def can_return_def side_args_Some not_less)

lemma recorded_reads:
  assumes "recorded env R req s"
  shows "hget R s (request_key env req) ''fingerprint'' = Some (grant_fingerprint env req)"
    "hget R s (request_key env req) ''key_present'' = Some (arg_present (side_args env (pbg_key req)))"
    "hget R s (request_key env req) ''key_amount'' = Some (arg_amount (side_args env (pbg_key req)))"
    "hget R s (request_key env req) ''key_returned'' = Some []"
    "hget R s (request_key env req) ''origin_present'' = Some (arg_present (side_args env (pbg_origin req)))"
    "hget R s (request_key env req) ''origin_amount'' = Some (arg_amount (side_args env (pbg_origin req)))"
    "hget R s (request_key env req) ''origin_returned'' = Some []"
  using assms by (auto simp: recorded_def grant_record_def overwrite_apply)

lemma return_ok:
  assumes paired: "paired_request req" and rec: "recorded env R req s"
    and key: "can_return env R (pbg_organization_id req) (pbg_key req) ku s kc kr"
    and origin: "can_return env R (pbg_organization_id req) (pbg_origin req) ou s oc orr"
  obtains s' where "return_budget_allowance env R Delivered req ku ou s = (s', Inr ())"
    "has_returned env R (pbg_organization_id req) (pbg_key req) ku s' kc kr"
    "has_returned env R (pbg_organization_id req) (pbg_origin req) ou s' oc orr"
    "hget R s' (request_key env req) = overwrite
       [(''key_returned'', dec_of_nat ku), (''origin_returned'', dec_of_nat ou)]
       (hget R s (request_key env req))"
proof -
  note neq = ledger_keys_neq [OF paired, of env]
  obtain s1 where s1: "return_side R (key_ledger env req)
      (Some (arg_present (side_args env (pbg_key req)))) (dec_of_nat ku) s = Some s1"
    "has_returned env R (pbg_organization_id req) (pbg_key req) ku s1 kc kr"
    "\<And>k. k \<noteq> key_ledger env req \<Longrightarrow> hget R s1 k = hget R s k"
    using return_side_ok [OF key] by blast
  have origin': "can_return env R (pbg_organization_id req) (pbg_origin req) ou s1 oc orr"
    using origin s1(3) neq by (simp add: can_return_def ledger_holds_def split: option.splits)
  obtain s2 where s2: "return_side R (origin_ledger env req)
      (Some (arg_present (side_args env (pbg_origin req)))) (dec_of_nat ou) s1 = Some s2"
    "has_returned env R (pbg_organization_id req) (pbg_origin req) ou s2 oc orr"
    "\<And>k. k \<noteq> origin_ledger env req \<Longrightarrow> hget R s2 k = hget R s1 k"
    using return_side_ok [OF origin'] by blast
  let ?s = "pexpire R (hset R s2 (request_key env req)
    [(''key_returned'', dec_of_nat ku), (''origin_returned'', dec_of_nat ou)])
    (request_key env req) metadata_ttl_millis"
  have fits: "unused_exceeds (Some (arg_present (side_args env (pbg_key req)))) (dec_of_nat ku)
      (Some (arg_amount (side_args env (pbg_key req)))) = Some False"
    "unused_exceeds (Some (arg_present (side_args env (pbg_origin req)))) (dec_of_nat ou)
      (Some (arg_amount (side_args env (pbg_origin req)))) = Some False"
    "(arg_present (side_args env (pbg_key req)) \<noteq> ''1'' \<and> dec_of_nat ku \<noteq> ''0'') = False"
    "(arg_present (side_args env (pbg_origin req)) \<noteq> ''1'' \<and> dec_of_nat ou \<noteq> ''0'') = False"
    using unused_fits [OF key] unused_fits [OF origin] by auto
  have "budget_return_script R (key_ledger env req) (origin_ledger env req) (request_key env req)
      (grant_fingerprint env req) (dec_of_nat ku) (dec_of_nat ou) metadata_ttl_millis s
    = (?s, Some [''returned''])"
    unfolding budget_return_script_def Let_def recorded_reads [OF rec]
    by (simp only: fits s1(1) s2(1) option.case bool.case if_False if_True option.inject
        option.distinct simp_thms)
  then have "return_budget_allowance env R Delivered req ku ou s = (?s, Inr ())"
    by (simp add: return_budget_allowance_def invoke_def Let_def)
  moreover have "has_returned env R (pbg_organization_id req) (pbg_key req) ku ?s kc kr"
    using s1(2) s2(3) neq by (auto simp: has_returned_def ledger_holds_def hash_reads)
  moreover have "has_returned env R (pbg_organization_id req) (pbg_origin req) ou ?s oc orr"
    using s2(2) neq by (auto simp: has_returned_def ledger_holds_def hash_reads)
  moreover have "hget R ?s (request_key env req) = overwrite
       [(''key_returned'', dec_of_nat ku), (''origin_returned'', dec_of_nat ou)]
       (hget R s (request_key env req))"
    using s1(3) s2(3) neq by (simp add: hash_reads fun_eq_iff overwrite_apply)
  ultimately show ?thesis by (rule that)
qed

lemma return_replay:
  assumes "hget R s (request_key env req) = overwrite
      [(''key_returned'', dec_of_nat ku), (''origin_returned'', dec_of_nat ou)]
      (overwrite (grant_record env req x) h)"
  shows "return_budget_allowance env R Delivered req ku' ou' s
    = (s, if ku' = ku \<and> ou' = ou then Inr () else Inl CoordConflict)"
proof -
  have reads: "hget R s (request_key env req) ''fingerprint'' = Some (grant_fingerprint env req)"
    "hget R s (request_key env req) ''key_returned'' = Some (dec_of_nat ku)"
    "hget R s (request_key env req) ''origin_returned'' = Some (dec_of_nat ou)"
    using assms by (simp_all add: overwrite_apply grant_record_def)
  have "budget_return_script R (key_ledger env req) (origin_ledger env req) (request_key env req)
      (grant_fingerprint env req) (dec_of_nat ku') (dec_of_nat ou') metadata_ttl_millis s
    = (s, Some [if ku' = ku \<and> ou' = ou then ''returned'' else ''conflict''])"
    by (auto simp: budget_return_script_def Let_def reads)
  then show ?thesis by (simp add: return_budget_allowance_def invoke_def Let_def)
qed

lemma return_partial:
  assumes paired: "paired_request req" and rec: "recorded env R req s"
    and key: "can_return env R (pbg_organization_id req) (pbg_key req) ku s kc kr"
    and origin: "pbg_origin req = Some sd" "ou \<le> side_amount_nanos sd"
      "ledger_holds R s (origin_ledger env req) oc orr" "oc < ou"
  obtains s' where "return_budget_allowance env R Delivered req ku ou s = (s', Inl CoordConflict)"
    "has_returned env R (pbg_organization_id req) (pbg_key req) ku s' kc kr"
    "hget R s' (request_key env req) = hget R s (request_key env req)"
proof -
  note neq = ledger_keys_neq [OF paired, of env]
  obtain s1 where s1: "return_side R (key_ledger env req)
      (Some (arg_present (side_args env (pbg_key req)))) (dec_of_nat ku) s = Some s1"
    "has_returned env R (pbg_organization_id req) (pbg_key req) ku s1 kc kr"
    "\<And>k. k \<noteq> key_ledger env req \<Longrightarrow> hget R s1 k = hget R s k"
    using return_side_ok [OF key] by blast
  have "or_zero (hget R s1 (origin_ledger env req) ''charged_nanos'') = dec_of_nat oc"
    using origin(3) s1(3) [OF not_sym [OF neq(1)]] by (simp add: ledger_holds_def)
  then have s2: "return_side R (origin_ledger env req)
      (Some (arg_present (side_args env (pbg_origin req)))) (dec_of_nat ou) s1 = None"
    using origin(1,4) by (simp add: return_side_def side_args_Some Let_def)
  have fits: "unused_exceeds (Some (arg_present (side_args env (pbg_key req)))) (dec_of_nat ku)
      (Some (arg_amount (side_args env (pbg_key req)))) = Some False"
    "unused_exceeds (Some (arg_present (side_args env (pbg_origin req)))) (dec_of_nat ou)
      (Some (arg_amount (side_args env (pbg_origin req)))) = Some False"
    "(arg_present (side_args env (pbg_key req)) \<noteq> ''1'' \<and> dec_of_nat ku \<noteq> ''0'') = False"
    "(arg_present (side_args env (pbg_origin req)) \<noteq> ''1'' \<and> dec_of_nat ou \<noteq> ''0'') = False"
    using unused_fits [OF key] origin(1,2) by (auto simp: unused_exceeds_def side_args_Some not_less)
  have "budget_return_script R (key_ledger env req) (origin_ledger env req) (request_key env req)
      (grant_fingerprint env req) (dec_of_nat ku) (dec_of_nat ou) metadata_ttl_millis s
    = (s1, Some [''conflict''])"
    unfolding budget_return_script_def Let_def recorded_reads [OF rec]
    by (simp only: fits s1(1) s2 option.case bool.case if_False if_True option.inject
        option.distinct simp_thms)
  then have "return_budget_allowance env R Delivered req ku ou s = (s1, Inl CoordConflict)"
    by (simp add: return_budget_allowance_def invoke_def Let_def)
  then show ?thesis by (rule that [OF _ s1(2) s1(3) [OF not_sym [OF neq(2)]]])
qed

lemma grant_exact:
  assumes paired: "paired_request req"
    and fresh: "hget R s (request_key env req) ''fingerprint'' = None"
    and call: "grant_budget_allowance env R Delivered req s = (s', answer)"
  shows "(\<exists>e. answer = Inl e \<and> (s' = s \<or> e = InvalidResponse))
    \<or> (\<exists>t. answer = Inr \<lparr>ag_id = pbg_grant_id req, ag_expires_at_unix_ms = t,
           key_amount_nanos = map_option side_amount_nanos (pbg_key req),
           origin_amount_nanos = map_option side_amount_nanos (pbg_origin req)\<rparr>
         \<and> now_ms R s < t \<and> t \<le> now_ms R s + requested_ttl_ms req
         \<and> recorded env R req s'
         \<and> side_charged env R (pbg_organization_id req) (one_shot req) t (pbg_key req) s s'
         \<and> side_charged env R (pbg_organization_id req) (one_shot req) t (pbg_origin req) s s')"
  using assms
proof (cases rule: grant_cases)
  case (refused e)
  then show ?thesis by auto
next
  case (granted t)
  have "recorded env R req s'" using granted(4) by (auto simp: recorded_def)
  then show ?thesis
    using granted by (cases "t \<le> u64_max") (auto simp: read_grant_def parse_unsigned_def)
qed

lemma grant_replay:
  assumes paired: "paired_request req"
    and fresh: "hget R s (request_key env req) ''fingerprint'' = None"
    and call: "grant_budget_allowance env R Delivered req s = (s', Inr g)"
    and same: "hget R s2 (request_key env req) = hget R s' (request_key env req)"
  shows "grant_budget_allowance env R Delivered req s2 = (s2, Inr g)"
  using paired fresh call
proof (cases rule: grant_cases)
  case (granted t)
  have "hget R s2 (request_key env req) ''fingerprint'' = Some (grant_fingerprint env req)"
    "hget R s2 (request_key env req) ''expires_ms'' = Some (dec_of_nat t)"
    using granted(4) same by (simp_all add: overwrite_apply grant_record_def)
  then show ?thesis
    using granted(1) paired
    by (simp add: grant_budget_allowance_def budget_grant_script_def invoke_def Let_def paired_request_def)
qed simp

end

subsection \<open>The properties\<close>

text \<open>
  C3: a grant either leaves the store as it was (an expiry out of range
  of the reply aside), or answers exactly the requested amounts with an expiry inside the
  requested lifetime, and has charged each side's ledger by its amount.  The configuration of each side
  is the one its policy reference names by epoch, generation, version and recovery generation at that moment, in
  enforcing mode: its limit is not exceeded by all that is charged, its slice not by the grant unless that is a
  one-shot, its lifetime not by the expiry, and the ledger is of the same epoch and recovery generation.
\<close>

theorem allowance_grant_exact:
  assumes "redis R" "paired_request req"
    "hget R s (request_key env req) ''fingerprint'' = None"
    "grant_budget_allowance env R Delivered req s = (s', answer)"
  shows "(\<exists>e. answer = Inl e \<and> (s' = s \<or> e = InvalidResponse))
    \<or> (\<exists>t. answer = Inr \<lparr>ag_id = pbg_grant_id req, ag_expires_at_unix_ms = t,
           key_amount_nanos = map_option side_amount_nanos (pbg_key req),
           origin_amount_nanos = map_option side_amount_nanos (pbg_origin req)\<rparr>
         \<and> now_ms R s < t \<and> t \<le> now_ms R s + requested_ttl_ms req
         \<and> recorded env R req s'
         \<and> side_charged env R (pbg_organization_id req) (one_shot req) t (pbg_key req) s s'
         \<and> side_charged env R (pbg_organization_id req) (one_shot req) t (pbg_origin req) s s')"
  by (rule redis.grant_exact [OF assms])

text \<open>
  a grant whose reply was lost has the effect of a delivered one, and
  the same request repeated while its record lasts answers the same grant and charges
  nothing more.
\<close>

theorem allowance_grant_once:
  assumes "redis R" "paired_request req"
    "hget R s (request_key env req) ''fingerprint'' = None"
    "grant_budget_allowance env R Delivered req s = (s', Inr g)"
    "hget R s2 (request_key env req) = hget R s' (request_key env req)"
  shows "fst (grant_budget_allowance env R (ReplyLost e) req s) = s'
    \<and> grant_budget_allowance env R Delivered req s2 = (s2, Inr g)"
proof -
  have "fst (grant_budget_allowance env R (ReplyLost e) req s)
      = fst (grant_budget_allowance env R Delivered req s)"
    by (simp add: grant_budget_allowance_def invoke_def Let_def split: prod.splits sum.splits)
  then show ?thesis using assms(4) redis.grant_replay [OF assms] by simp
qed

text \<open>
  C4: the return of a recorded grant, of no more than was granted and is
  still charged, moves exactly the unused amounts from the charged to the returned total of
  each side; repeated, it changes nothing and succeeds for the same amounts only.
\<close>

theorem allowance_return_exact:
  assumes "redis R" "paired_request req" "recorded env R req s"
    "can_return env R (pbg_organization_id req) (pbg_key req) ku s kc kr"
    "can_return env R (pbg_organization_id req) (pbg_origin req) ou s oc orr"
  shows "\<exists>s'. return_budget_allowance env R Delivered req ku ou s = (s', Inr ())
    \<and> has_returned env R (pbg_organization_id req) (pbg_key req) ku s' kc kr
    \<and> has_returned env R (pbg_organization_id req) (pbg_origin req) ou s' oc orr
    \<and> (\<forall>ku' ou'. return_budget_allowance env R Delivered req ku' ou' s'
         = (s', if ku' = ku \<and> ou' = ou then Inr () else Inl CoordConflict))"
proof -
  obtain s' where s': "return_budget_allowance env R Delivered req ku ou s = (s', Inr ())"
    "has_returned env R (pbg_organization_id req) (pbg_key req) ku s' kc kr"
    "has_returned env R (pbg_organization_id req) (pbg_origin req) ou s' oc orr"
    "hget R s' (request_key env req) = overwrite
       [(''key_returned'', dec_of_nat ku), (''origin_returned'', dec_of_nat ou)]
       (hget R s (request_key env req))"
    using redis.return_ok [OF assms] by blast
  obtain x h where "hget R s (request_key env req) = overwrite (grant_record env req x) h"
    using assms(3) by (auto simp: recorded_def)
  with s'(4) have "return_budget_allowance env R Delivered req ku' ou' s'
      = (s', if ku' = ku \<and> ou' = ou then Inr () else Inl CoordConflict)" for ku' ou'
    using redis.return_replay [OF assms(1)] by metis
  with s' show ?thesis by blast
qed

text \<open>
  C36: when the origin's ledger is charged with less than the amount its
  side gives back, the return answers a conflict after the key's side was already
  written back, and the grant's record does not show it: the same return can be given
  back again.
\<close>

theorem allowance_return_partial:
  assumes "redis R" "paired_request req" "recorded env R req s"
    "can_return env R (pbg_organization_id req) (pbg_key req) ku s kc kr"
    "pbg_origin req = Some sd" "ou \<le> side_amount_nanos sd"
    "ledger_holds R s (origin_ledger env req) oc orr" "oc < ou"
  shows "\<exists>s'. return_budget_allowance env R Delivered req ku ou s = (s', Inl CoordConflict)
    \<and> has_returned env R (pbg_organization_id req) (pbg_key req) ku s' kc kr
    \<and> recorded env R req s'"
proof -
  obtain s' where "return_budget_allowance env R Delivered req ku ou s = (s', Inl CoordConflict)"
    "has_returned env R (pbg_organization_id req) (pbg_key req) ku s' kc kr"
    "hget R s' (request_key env req) = hget R s (request_key env req)"
    using redis.return_partial [OF assms] by blast
  with assms(3) show ?thesis by (auto simp: recorded_def)
qed

subsection \<open>Samples\<close>

definition sample_side :: "PolicyKind \<Rightarrow> BudgetGrantSide" where
  "sample_side kind =
     \<lparr>side_policy = \<lparr>pr_organization_id = 1, pr_kind = kind, pr_policy_id = 2, pr_version_id = 3,
        pr_epoch = ''e'', pr_generation = 1, pr_recovery_generation = 0\<rparr>, side_amount_nanos = 100\<rparr>"

definition sample_paired :: PairedBudgetGrantRequest where
  "sample_paired =
     \<lparr>pbg_organization_id = 1, pbg_grant_id = 9, pbg_key = Some (sample_side GatewayKeyBudget),
      pbg_origin = Some (sample_side OrganizationOriginBudget), requested_ttl_ms = 60000,
      one_shot = False\<rparr>"

text \<open>A store with the record of the sample grant and both ledgers.\<close>

definition sample_granted :: "nat \<Rightarrow> nat \<Rightarrow> Store" where
  "sample_granted kc oc =
     hset store_ops (hset store_ops (hset store_ops (store_at 0)
       (key_ledger sample_env sample_paired) [(''charged_nanos'', dec_of_nat kc)])
       (origin_ledger sample_env sample_paired) [(''charged_nanos'', dec_of_nat oc)])
       (request_key sample_env sample_paired) (grant_record sample_env sample_paired (dec_of_nat 30000))"

lemma sample_paired_ok: "paired_request sample_paired"
  by (auto simp: paired_request_def validate_grant_request_def grant_sides_def sample_paired_def
      sample_side_def List.map_filter_def)

lemma sample_paired_simps:
  "pbg_organization_id sample_paired = 1" "pbg_key sample_paired = Some (sample_side GatewayKeyBudget)"
  "pbg_origin sample_paired = Some (sample_side OrganizationOriginBudget)"
  "side_amount_nanos (sample_side kind) = 100"
  by (simp_all add: sample_paired_def sample_side_def)

lemma sample_granted_ok:
  "recorded sample_env store_ops sample_paired (sample_granted kc oc)"
  "ledger_holds store_ops (sample_granted kc oc) (key_ledger sample_env sample_paired) kc 0"
  "ledger_holds store_ops (sample_granted kc oc) (origin_ledger sample_env sample_paired) oc 0"
proof -
  note neq = ledger_keys_neq [OF sample_paired_ok, of sample_env]
  have "hget store_ops (sample_granted kc oc) (request_key sample_env sample_paired)
      = overwrite (grant_record sample_env sample_paired (dec_of_nat 30000)) (\<lambda>_. None)"
    using neq by (intro ext) (simp add: sample_granted_def store.hget_hset store_at_empty overwrite_apply)
  then show "recorded sample_env store_ops sample_paired (sample_granted kc oc)"
    unfolding recorded_def by blast
  show "ledger_holds store_ops (sample_granted kc oc) (key_ledger sample_env sample_paired) kc 0"
    "ledger_holds store_ops (sample_granted kc oc) (origin_ledger sample_env sample_paired) oc 0"
    using neq by (simp_all add: sample_granted_def ledger_holds_def store.hget_hset store_at_empty)
qed

lemma sample_can_return:
  assumes "u \<le> 100" "u \<le> kc"
  shows "can_return sample_env store_ops (pbg_organization_id sample_paired) (pbg_key sample_paired) u
    (sample_granted kc oc) kc 0"
  using assms sample_granted_ok(2) [of kc oc] by (simp add: can_return_def sample_paired_simps)

lemma sample_can_return_origin:
  assumes "u \<le> 100" "u \<le> oc"
  shows "can_return sample_env store_ops (pbg_organization_id sample_paired) (pbg_origin sample_paired) u
    (sample_granted kc oc) oc 0"
  using assms sample_granted_ok(3) [of kc oc] by (simp add: can_return_def sample_paired_simps)

lemma allowance_return_exact_witness:
  "\<exists>s'. return_budget_allowance sample_env store_ops Delivered sample_paired 40 30 (sample_granted 100 200)
     = (s', Inr ())"
  using allowance_return_exact [OF store.redis_axioms sample_paired_ok sample_granted_ok(1)
      sample_can_return sample_can_return_origin, of 40 100 30 200] by auto

lemma allowance_return_partial_witness:
  "\<exists>s'. return_budget_allowance sample_env store_ops Delivered sample_paired 40 30 (sample_granted 100 20)
     = (s', Inl CoordConflict)"
proof -
  have "ledger_holds store_ops (sample_granted 100 20) (origin_ledger sample_env sample_paired) 20 0"
    by (rule sample_granted_ok)
  then show ?thesis
    using allowance_return_partial [OF store.redis_axioms sample_paired_ok sample_granted_ok(1)
        sample_can_return sample_paired_simps(3), of 40 100 30 20 20 0]
    by (auto simp: sample_paired_simps)
qed

text \<open>A request for the key's side alone, on a store where its generation is active.\<close>

definition sample_single :: PairedBudgetGrantRequest where
  "sample_single = sample_paired\<lparr>pbg_origin := None\<rparr>"

definition sample_ready :: Store where
  "sample_ready =
     hset store_ops (hset store_ops (store_at 7)
       (key_ledger sample_env sample_single) [(''epoch'', ''e''), (''charged_nanos'', dec_of_nat 50)])
       (side_policy_key sample_env 1 (pbg_key sample_single))
       [(''active_epoch'', ''e''), (''active_generation'', dec_of_nat 1), (''active_version'', dec_of_nat 3),
        (''active_config'', ''budget'')]"

lemma sample_single_simps:
  "pbg_organization_id sample_single = 1" "pbg_key sample_single = Some (sample_side GatewayKeyBudget)"
  "pbg_origin sample_single = None" "pbg_grant_id sample_single = 9" "requested_ttl_ms sample_single = 60000"
  "one_shot sample_single = False"
  by (simp_all add: sample_single_def sample_paired_def)

lemma sample_single_ok: "paired_request sample_single"
  by (auto simp: paired_request_def validate_grant_request_def grant_sides_def sample_single_simps
      sample_side_def List.map_filter_def)

lemma sample_policy_key:
  "side_policy_key sample_env 1 (pbg_key sample_single) \<noteq> key_ledger sample_env sample_single"
  "side_policy_key sample_env 1 (pbg_key sample_single) \<noteq> request_key sample_env sample_single"
  by (simp_all add: sample_single_simps side_policy_key_def side_ledger_key_def policy_key_ref_def
      ledger_key_def grant_key_def)

lemma sample_ready_reads:
  "hget store_ops sample_ready (request_key sample_env sample_single) f = None"
  "hget store_ops sample_ready (key_ledger sample_env sample_single) f
    = written [(''epoch'', ''e''), (''charged_nanos'', dec_of_nat 50)] f None"
  "hget store_ops sample_ready (side_policy_key sample_env 1 (pbg_key sample_single)) f
    = written [(''active_epoch'', ''e''), (''active_generation'', dec_of_nat 1),
        (''active_version'', dec_of_nat 3), (''active_config'', ''budget'')] f None"
  using ledger_keys_neq [OF sample_single_ok, of sample_env] sample_policy_key
  by (simp_all add: sample_ready_def store.hget_hset store_at_empty)

definition sample_allowance :: AllowanceGrant where
  "sample_allowance = \<lparr>ag_id = 9, ag_expires_at_unix_ms = 30007, key_amount_nanos = Some 100,
     origin_amount_nanos = None\<rparr>"

lemma sample_validate:
  "validate_args (decode_config sample_env) store_ops (side_policy_key sample_env 1 (pbg_key sample_single))
     (key_ledger sample_env sample_single) (side_args sample_env (pbg_key sample_single)) False sample_ready
   = Some (SideOk (dec_of_nat 150) 30)"
proof -
  have args: "side_args sample_env (pbg_key sample_single)
      = \<lparr>arg_present = ''1'', arg_epoch = ''e'', arg_generation = dec_of_nat 1, arg_version = dec_of_nat 3,
         arg_recovery = ''0'', arg_amount = dec_of_nat 100\<rparr>"
    by (simp add: side_args_def sample_single_simps sample_side_def Let_def)
  show ?thesis
    unfolding args validate_args_def validate_side_def select_budget_config_def Let_def sample_ready_reads
    by (simp add: sample_budget_config_def)
qed

lemma sample_grant_call:
  "snd (grant_budget_allowance sample_env store_ops Delivered sample_single sample_ready)
    = Inr sample_allowance"
proof -
  have origin: "validate_args (decode_config sample_env) store_ops p l
      (side_args sample_env (pbg_origin sample_single)) False sample_ready = Some SideAbsent" for p l
    by (simp add: sample_single_simps validate_args_absent)
  have now: "now_ms store_ops sample_ready = 7"
    by (simp only: sample_ready_def store.now_ms_writes) (simp add: store_at_def)
  have valid: "validate_grant_request sample_single = Inr ()"
    using sample_single_ok by (simp add: paired_request_def)
  have "30007 \<le> u64_max" by (simp add: u64_max_def)
  then show ?thesis
    using sample_validate sample_ready_reads(1) [of "''fingerprint''"]
    by (simp add: grant_budget_allowance_def valid invoke_def budget_grant_script_def origin now
        sample_single_simps side_ttl_def read_grant_def sample_allowance_def sample_side_def
        validate_args_absent Let_def del: now_ms_store)
qed

lemma allowance_grant_exact_witness:
  "ledger_holds store_ops (fst (grant_budget_allowance sample_env store_ops Delivered sample_single sample_ready))
     (key_ledger sample_env sample_single) 150 0"
proof -
  have "ledger_holds store_ops sample_ready (key_ledger sample_env sample_single) 50 0"
    by (simp add: ledger_holds_def sample_ready_reads)
  then show ?thesis
    using allowance_grant_exact [OF store.redis_axioms sample_single_ok sample_ready_reads(1) prod.collapse [symmetric]]
      sample_grant_call
    by (simp add: side_charged_def sample_single_simps(1,2,4) Let_def sample_paired_simps(4)) fastforce
qed

lemma allowance_grant_once_witness:
  "grant_budget_allowance sample_env store_ops Delivered sample_single
     (fst (grant_budget_allowance sample_env store_ops Delivered sample_single sample_ready))
   = (fst (grant_budget_allowance sample_env store_ops Delivered sample_single sample_ready),
      Inr sample_allowance)"
  using allowance_grant_once [OF store.redis_axioms sample_single_ok
      sample_ready_reads(1), of _ sample_allowance] sample_grant_call
  by (metis prod.collapse)

end
