(* ===== verification/Leases.thy ===== *)
theory Leases
  imports Allowances
begin

section \<open>Concurrency at the coordinator\<close>

text \<open>
  What \<open>STRICT_CONCURRENCY_SCRIPT\<close> and \<open>APPROXIMATE_CONCURRENCY_SCRIPT\<close> of
  \<open>adapters/coordinator.rs\<close> and their callers guarantee: for every interleaving of
  acquisitions, releases and the passing of time, the strict leases in force never exceed the
  limit, and the slots of the approximate grants in force are always accounted for.
\<close>

subsection \<open>Strict leases\<close>

text \<open>
  The length of a lease comes from the rate policy of a gateway key, whose table has the check
  \<open>lease_seconds BETWEEN 2 AND 90000\<close> (\<open>adapters/postgres/migrations/0008_module_ii_gateway_plane.sql\<close>).
\<close>

definition MAX_LEASE_SECONDS :: nat where
  "MAX_LEASE_SECONDS = 90000"

lemma lease_fits: "seconds \<le> MAX_LEASE_SECONDS \<Longrightarrow> seconds * 1000 \<le> metadata_ttl_millis"
  by (simp add: MAX_LEASE_SECONDS_def metadata_ttl_millis_def)

text \<open>The configuration a reference to request limits stands for; the recovery generation is one of budgets.\<close>

definition limits_in_force :: "Externals \<Rightarrow> PolicyReference \<Rightarrow> (string \<Rightarrow> string option) \<Rightarrow> nat \<Rightarrow> string \<Rightarrow> bool" where
  "limits_in_force env p v now encoded \<longleftrightarrow>
     (let names = (\<lambda>epoch generation version. v epoch = Some (pr_epoch p)
            \<and> v generation = Some (dec_of_nat (pr_generation p)) \<and> v version = Some (uuid_text env (pr_version_id p))) in
      if names ''active_epoch'' ''active_generation'' ''active_version'' then v ''active_config'' = Some encoded
      else v ''state'' = Some ''active'' \<and> names ''prior_epoch'' ''prior_generation'' ''prior_version''
        \<and> v ''prior_config'' = Some encoded
        \<and> (\<forall>cutoff. v ''prior_cutoff_ms'' = Some (dec_of_nat cutoff) \<longrightarrow> now \<le> cutoff))"

lemma plain_in_force:
  assumes "select_plain_config R k (pr_epoch p) (dec_of_nat (pr_generation p)) (uuid_text env (pr_version_id p)) s
      = Some (Some encoded)"
  shows "limits_in_force env p (hget R s k) (now_ms R s) encoded"
  using assms by (auto simp: select_plain_config_def limits_in_force_def Let_def split: if_split_asm)

lemma select_plain_cong:
  "hget R s' k = hget R s k \<Longrightarrow> now_ms R s' = now_ms R s
    \<Longrightarrow> select_plain_config R k e g v s' = select_plain_config R k e g v s"
  by (simp add: select_plain_config_def cong: if_cong)

abbreviation policy_hash :: "Externals \<Rightarrow> 's Redis \<Rightarrow> PolicyReference \<Rightarrow> 's \<Rightarrow> string \<Rightarrow> string option" where
  "policy_hash env R p s \<equiv> hget R s (policy_key_ref env (pr_organization_id p) (pr_kind p) (pr_policy_id p))"

text \<open>The leases of a key that the store records and that have not expired.\<close>

definition recorded_leases :: "'s Redis \<Rightarrow> string \<Rightarrow> 's \<Rightarrow> (string \<times> nat) set" where
  "recorded_leases R K s = {(i, t). zscore R s K i = Some t \<and> now_ms R s < t}"

text \<open>Everything else that happens to the store, seen from one sorted set.\<close>

definition elsewhere :: "'s Redis \<Rightarrow> string \<Rightarrow> 's \<Rightarrow> 's \<Rightarrow> bool" where
  "elsewhere R k s s' \<longleftrightarrow>
     now_ms R s \<le> now_ms R s'
     \<and> (zscore R s' k = zscore R s k \<and> deadline R s' k = deadline R s k
        \<or> zscore R s' k = (\<lambda>_. None) \<and> (\<exists>t. deadline R s k = Some t \<and> t \<le> now_ms R s'))"

text \<open>
  The steps of the system around one concurrency key: the store and the leases handed out and not
  given back, each with its expiry in the store.  An acquisition is labelled with its policy reference and the
  length of the lease it asks for.
\<close>

inductive lease_step ::
    "Externals \<Rightarrow> 's Redis \<Rightarrow> string \<Rightarrow> (PolicyReference \<times> nat) option
      \<Rightarrow> 's \<times> (string \<times> nat) set \<Rightarrow> 's \<times> (string \<times> nat) set \<Rightarrow> bool"
  for env R K where
  acquire: "lease_step env R K (Some (policy, seconds)) (s, held) (s',
      case answer of Inl _ \<Rightarrow> held
      | Inr _ \<Rightarrow> (case zscore R s' K (uuid_text env lease_id) of
            None \<Rightarrow> held | Some t \<Rightarrow> insert (uuid_text env lease_id, t) held))"
    if "acquire_strict_concurrency env R delivery started policy lease_id seconds s = (s', answer)"
      "concurrency_key env policy = K" "seconds \<le> MAX_LEASE_SECONDS"
| release: "lease_step env R K None (s, held) (s', {h \<in> held. fst h \<noteq> uuid_text env lease_id})"
    if "release_strict_concurrency env R delivery policy lease_id s = (s', answer)"
      "concurrency_key env policy = K"
| other: "lease_step env R K None (s, held) (s', held)" if "elsewhere R K s s'"

abbreviation lease_reach ::
    "Externals \<Rightarrow> 's Redis \<Rightarrow> string \<Rightarrow> 's \<times> (string \<times> nat) set \<Rightarrow> 's \<times> (string \<times> nat) set \<Rightarrow> bool" where
  "lease_reach env R K \<equiv> (\<lambda>st st'. \<exists>label. lease_step env R K label st st')\<^sup>*\<^sup>*"

definition lease_inv :: "'s Redis \<Rightarrow> string \<Rightarrow> 's \<times> (string \<times> nat) set \<Rightarrow> bool" where
  "lease_inv R K st \<longleftrightarrow>
     (let (s, held) = st in
      (\<forall>m t. zscore R s K m = Some t \<longrightarrow>
           t \<le> now_ms R s + metadata_ttl_millis \<and> (\<exists>d. deadline R s K = Some d \<and> t \<le> d))
      \<and> (\<forall>(i, t) \<in> held. now_ms R s < t \<longrightarrow> zscore R s K i = Some t))"

lemma strict_script_cases:
  assumes "strict_script decode R policy K e g v lease_id seconds ttl s = (s', reply)"
  obtains (unchanged) "s' = s" "\<And>a b. reply \<noteq> Some [''acquired'', a, b]"
  | (cleaned) "s' = zrem_to R s K (now_ms R s)" "\<And>a b. reply \<noteq> Some [''acquired'', a, b]"
  | (replayed) t where "s' = zrem_to R s K (now_ms R s)" "zscore R s' K lease_id = Some t"
      "reply = Some [''acquired'', dec_of_nat t, dec_of_nat (now_ms R s)]"
  | (acquired) limit enc vv r i gg m gs ms where
      "select_plain_config R policy e g v s = Some (Some enc)"
      "decode enc = Some (RequestLimitsConfig vv r i gg m gs (Some ''strict'') (Some limit) (Some seconds) ms)"
      "zscore R (zrem_to R s K (now_ms R s)) K lease_id = None"
      "zcard R (zrem_to R s K (now_ms R s)) K < limit"
      "s' = pexpire R (zadd R (zrem_to R s K (now_ms R s)) K (now_ms R s + seconds * 1000) lease_id) K
         (seconds * 1000 + ttl)"
      "reply = Some [''acquired'', dec_of_nat (now_ms R s + seconds * 1000), dec_of_nat (now_ms R s)]"
proof -
  let ?sel = "select_plain_config R policy e g v s"
  let ?s0 = "zrem_to R s K (now_ms R s)"
  consider "\<nexists>enc vv r i gg m gs limit ms. ?sel = Some (Some enc) \<and>
      decode enc = Some (RequestLimitsConfig vv r i gg m gs (Some ''strict'') limit (Some seconds) ms)"
    | enc vv r i gg m gs limit ms where "?sel = Some (Some enc)"
      "decode enc = Some (RequestLimitsConfig vv r i gg m gs (Some ''strict'') limit (Some seconds) ms)"
    by blast
  then show ?thesis
  proof cases
    case 1
    then have "s' = s \<and> (\<forall>a b. reply \<noteq> Some [''acquired'', a, b])"
      using assms by (auto simp: strict_script_def split: option.splits PolicyCoordinatorConfig.splits if_splits)
    then show ?thesis using unchanged by blast
  next
    case (2 enc vv r i gg m gs limit ms)
    show ?thesis
    proof (cases "zscore R ?s0 K lease_id")
      case (Some t)
      then show ?thesis using assms 2 by (intro replayed [of t]) (simp_all add: strict_script_def Let_def)
    next
      case None
      show ?thesis
      proof (cases "\<exists>l. limit = Some l \<and> zcard R ?s0 K < l")
        case True
        then show ?thesis using assms 2 None by (auto intro: acquired simp: strict_script_def Let_def)
      next
        case False
        then have "s' = ?s0 \<and> (\<forall>a b. reply \<noteq> Some [''acquired'', a, b])"
          using assms 2 None by (cases limit) (auto simp: strict_script_def Let_def)
        then show ?thesis using cleaned by blast
      qed
    qed
  qed
qed

context redis
begin

lemma lease_inv_clean:
  assumes "lease_inv R K (s, held)"
  shows "lease_inv R K (zrem_to R s K (now_ms R s), held)"
proof -
  let ?s = "zrem_to R s K (now_ms R s)"
  have "t \<le> now_ms R ?s + metadata_ttl_millis \<and> (\<exists>d. deadline R ?s K = Some d \<and> t \<le> d)"
    if "zscore R ?s K m = Some t" for m t
    using that assms deadline_zrem_to [of s K "now_ms R s" K m]
    by (auto simp: lease_inv_def zscore_zrem_to now_ms_writes)
  moreover have "zscore R ?s K i = Some t" if "(i, t) \<in> held" "now_ms R ?s < t" for i t
    using that assms by (auto simp: lease_inv_def zscore_zrem_to now_ms_writes)
  ultimately show ?thesis using assms by (auto simp: lease_inv_def)
qed

lemma lease_inv_add:
  assumes inv: "lease_inv R K (s, held)" and free: "zscore R s K i = None"
    and short: "seconds * 1000 \<le> metadata_ttl_millis"
  defines "s' \<equiv> pexpire R (zadd R s K (now_ms R s + seconds * 1000) i) K (seconds * 1000 + metadata_ttl_millis)"
  shows "lease_inv R K (s', insert (i, now_ms R s + seconds * 1000) held)"
    and "zscore R s' K i = Some (now_ms R s + seconds * 1000)"
proof -
  have z: "zscore R s' K m = (if m = i then Some (now_ms R s + seconds * 1000) else zscore R s K m)" for m
    by (simp add: s'_def zset_reads)
  have now: "now_ms R s' = now_ms R s" by (simp add: s'_def now_ms_writes)
  have d: "deadline R s' K = Some (now_ms R s + (seconds * 1000 + metadata_ttl_millis))"
    using deadline_pexpire [of "zadd R s K (now_ms R s + seconds * 1000) i" K i]
    by (simp add: s'_def zset_reads now_ms_writes)
  show "lease_inv R K (s', insert (i, now_ms R s + seconds * 1000) held)"
    unfolding lease_inv_def Let_def prod.case
  proof (intro conjI allI impI ballI)
    fix m t assume "zscore R s' K m = Some t"
    then show "t \<le> now_ms R s' + metadata_ttl_millis"
      using inv short by (fastforce simp: lease_inv_def z now split: if_splits)
  next
    fix m t assume "zscore R s' K m = Some t"
    moreover have "t' \<le> now_ms R s + metadata_ttl_millis" if "zscore R s K m = Some t'" for t'
      using inv that by (auto simp: lease_inv_def)
    ultimately show "\<exists>d. deadline R s' K = Some d \<and> t \<le> d"
      using short by (fastforce simp: z d split: if_splits)
  next
    fix h assume "h \<in> insert (i, now_ms R s + seconds * 1000) held"
    then show "case h of (j, t) \<Rightarrow> now_ms R s' < t \<longrightarrow> zscore R s' K j = Some t"
      using inv free by (fastforce simp: lease_inv_def z now split: if_splits)
  qed
  show "zscore R s' K i = Some (now_ms R s + seconds * 1000)" by (simp add: z)
qed

lemma lease_inv_subset: "lease_inv R K (s, held') \<Longrightarrow> held \<subseteq> held' \<Longrightarrow> lease_inv R K (s, held)"
  by (auto simp: lease_inv_def)

lemma lease_inv_insert:
  "lease_inv R K (s, held) \<Longrightarrow> zscore R s K i = Some t \<Longrightarrow> lease_inv R K (s, insert (i, t) held)"
  by (auto simp: lease_inv_def)

lemma lease_inv_script:
  assumes inv: "lease_inv R K (s, held)" and short: "seconds \<le> MAX_LEASE_SECONDS"
    and call: "strict_script (decode_config env) R policy K e g v i seconds metadata_ttl_millis s = (s', reply)"
  shows "lease_inv R K (s', held)"
  using call
proof (cases rule: strict_script_cases)
  case unchanged
  then show ?thesis using inv by simp
next
  case cleaned
  then show ?thesis using lease_inv_clean [OF inv] by simp
next
  case (replayed t)
  then show ?thesis using lease_inv_clean [OF inv] by simp
next
  case (acquired limit enc vv r ii gg m gs ms)
  then have "lease_inv R K (s', insert (i, now_ms R s + seconds * 1000) held)"
    using lease_inv_add [OF lease_inv_clean [OF inv] acquired(3) lease_fits [OF short]]
    by (simp add: now_ms_writes)
  then show ?thesis by (rule lease_inv_subset) auto
qed

text \<open>What the script records: nothing new, or one lease within the limit of the configuration it read.\<close>

lemma recorded_card: "card (recorded_leases R K s) \<le> zcard R s K"
proof -
  have "recorded_leases R K s \<subseteq> (\<lambda>m. (m, the (zscore R s K m))) ` {m. zscore R s K m \<noteq> None}"
    by (force simp: recorded_leases_def)
  then have "card (recorded_leases R K s) \<le> card {m. zscore R s K m \<noteq> None}"
    by (rule surj_card_le [OF finite_members, rotated])
  then show ?thesis by (simp add: zcard_members)
qed

lemma strict_script_records:
  assumes call: "strict_script (decode_config env) R policy K e g v i seconds metadata_ttl_millis s = (s', reply)"
  shows "recorded_leases R K s' \<subseteq> recorded_leases R K s
    \<or> (\<exists>enc vv r ii gg m gs limit ms. select_plain_config R policy e g v s = Some (Some enc)
         \<and> decode_config env enc = Some (RequestLimitsConfig vv r ii gg m gs (Some ''strict'') (Some limit) (Some seconds) ms)
         \<and> card (recorded_leases R K s') \<le> limit)"
  using call
proof (cases rule: strict_script_cases)
  case (acquired limit enc vv r ii gg m gs ms)
  let ?s = "zrem_to R s K (now_ms R s)"
  have "zcard R s' K = Suc (zcard R ?s K)"
    using zcard_zadd [of ?s K i] acquired(3) zcard_same [of s' K] by (simp add: acquired(5) zscore_pexpire)
  then have "card (recorded_leases R K s') \<le> limit"
    using recorded_card [of K s'] acquired(4) by simp
  then show ?thesis using acquired(1,2) by blast
qed (auto simp: recorded_leases_def zscore_zrem_to now_ms_writes)

lemma lease_inv_step:
  assumes "lease_step env R K label st st'" "lease_inv R K st"
  shows "lease_inv R K st'"
  using assms(1)
proof cases
  case (acquire delivery started policy i seconds s s' answer held)
  have inv: "lease_inv R K (s, held)" using assms(2) acquire by simp
  obtain s1 reply where call: "strict_script (decode_config env) R
      (policy_key_ref env (pr_organization_id policy) (pr_kind policy) (pr_policy_id policy))
      K (pr_epoch policy) (dec_of_nat (pr_generation policy)) (uuid_text env (pr_version_id policy))
      (uuid_text env i) seconds metadata_ttl_millis s = (s1, reply)" by fastforce
  have "s' = s \<or> s' = s1"
    using acquire(4,5) call
    by (auto simp: acquire_strict_concurrency_def invoke_def Let_def split: Delivery.splits)
  then have "lease_inv R K (s', held)"
    using inv lease_inv_script [OF inv acquire(6) call] by auto
  then show ?thesis
    using acquire(3) by (auto split: sum.splits option.splits intro: lease_inv_insert)
next
  case (release delivery policy i s s' answer held)
  have inv: "lease_inv R K (s, held)" using assms(2) release by simp
  have "lease_inv R K (zrem R s K (uuid_text env i), {h \<in> held. fst h \<noteq> uuid_text env i})"
  proof -
    let ?s = "zrem R s K (uuid_text env i)"
    have "t \<le> now_ms R ?s + metadata_ttl_millis \<and> (\<exists>d. deadline R ?s K = Some d \<and> t \<le> d)"
      if "zscore R ?s K m = Some t" for m t
      using that inv deadline_zrem [of s K "uuid_text env i" K m]
      by (auto simp: lease_inv_def zscore_zrem now_ms_writes split: if_splits)
    then show ?thesis using inv by (auto simp: lease_inv_def zscore_zrem now_ms_writes)
  qed
  moreover have "lease_inv R K (s, {h \<in> held. fst h \<noteq> uuid_text env i})"
    using inv by (rule lease_inv_subset) auto
  ultimately show ?thesis
    using release(3,4,5) by (auto simp: release_strict_concurrency_def Let_def split: Delivery.splits)
next
  case (other s s' held)
  have inv: "lease_inv R K (s, held)" using assms(2) other by simp
  from other(4) consider "zscore R s' K = zscore R s K" "deadline R s' K = deadline R s K"
      "now_ms R s \<le> now_ms R s'"
    | t where "zscore R s' K = (\<lambda>_. None)" "deadline R s K = Some t" "t \<le> now_ms R s'"
      "now_ms R s \<le> now_ms R s'"
    by (auto simp: elsewhere_def)
  then have "lease_inv R K (s', held)"
  proof cases
    case 1
    then show ?thesis using inv by (fastforce simp: lease_inv_def)
  next
    case (2 t)
    have "\<not> now_ms R s' < u" if "(i, u) \<in> held" for i u
    proof
      assume "now_ms R s' < u"
      then have "zscore R s K i = Some u" using inv that 2(4) by (fastforce simp: lease_inv_def)
      then have "u \<le> t" using inv 2(2) by (auto simp: lease_inv_def)
      with \<open>now_ms R s' < u\<close> 2(3) show False by simp
    qed
    then show ?thesis using 2(1) by (auto simp: lease_inv_def)
  qed
  then show ?thesis using other by simp
qed

lemma lease_inv_reachable: "lease_reach env R K st st' \<Longrightarrow> lease_inv R K st \<Longrightarrow> lease_inv R K st'"
  by (induction rule: rtranclp_induct) (auto intro: lease_inv_step)

lemma lease_inv_start: "\<forall>m. zscore R s K m = None \<Longrightarrow> lease_inv R K (s, {})"
  by (simp add: lease_inv_def)

lemma lease_inv_recorded: "lease_inv R K (s, held) \<Longrightarrow> {h \<in> held. now_ms R s < snd h} \<subseteq> recorded_leases R K s"
  by (auto simp: lease_inv_def recorded_leases_def)

lemma lease_step_records:
  assumes "lease_step env R K label (s, held) (s', held')"
  shows "recorded_leases R K s' \<subseteq> recorded_leases R K s
    \<or> (\<exists>policy seconds enc vv r i gg m gs limit ms. label = Some (policy, seconds)
         \<and> limits_in_force env policy (policy_hash env R policy s) (now_ms R s) enc
         \<and> decode_config env enc = Some (RequestLimitsConfig vv r i gg m gs (Some ''strict'') (Some limit) (Some seconds) ms)
         \<and> card (recorded_leases R K s') \<le> limit)"
  using assms
proof cases
  case (acquire delivery started policy i seconds answer)
  obtain s1 reply where call: "strict_script (decode_config env) R
      (policy_key_ref env (pr_organization_id policy) (pr_kind policy) (pr_policy_id policy))
      K (pr_epoch policy) (dec_of_nat (pr_generation policy)) (uuid_text env (pr_version_id policy))
      (uuid_text env i) seconds metadata_ttl_millis s = (s1, reply)" by fastforce
  have "s' = s \<or> s' = s1"
    using acquire(3,4) call
    by (auto simp: acquire_strict_concurrency_def invoke_def Let_def split: Delivery.splits)
  with strict_script_records [OF call] consider "recorded_leases R K s' \<subseteq> recorded_leases R K s"
    | enc vv r ii gg m gs limit ms where "select_plain_config R (policy_key_ref env (pr_organization_id policy)
          (pr_kind policy) (pr_policy_id policy)) (pr_epoch policy) (dec_of_nat (pr_generation policy))
          (uuid_text env (pr_version_id policy)) s = Some (Some enc)"
        "decode_config env enc = Some (RequestLimitsConfig vv r ii gg m gs (Some ''strict'') (Some limit) (Some seconds) ms)"
        "card (recorded_leases R K s') \<le> limit"
    by blast
  then show ?thesis
  proof cases
    case 2
    then show ?thesis using plain_in_force [OF 2(1)] acquire(1) by blast
  qed simp
next
  case (release delivery policy i answer)
  then show ?thesis
    by (auto simp: release_strict_concurrency_def recorded_leases_def zscore_zrem now_ms_writes Let_def
        split: Delivery.splits if_splits)
next
  case other
  then show ?thesis by (auto simp: elsewhere_def recorded_leases_def)
qed

lemma strict_acquire_exact:
  assumes sel: "select_plain_config R (policy_key_ref env (pr_organization_id policy) (pr_kind policy)
        (pr_policy_id policy)) (pr_epoch policy) (dec_of_nat (pr_generation policy))
        (uuid_text env (pr_version_id policy)) s = Some (Some enc)"
    and conf: "decode_config env enc
      = Some (RequestLimitsConfig v r i g m gs (Some ''strict'') (Some limit) (Some seconds) ms)"
    and fresh: "zscore R s (concurrency_key env policy) (uuid_text env lease_id) = None"
    and fits: "now_ms R s + seconds * 1000 \<le> u64_max"
    and call: "acquire_strict_concurrency env R Delivered started policy lease_id seconds s = (s', answer)"
  defines "live \<equiv> {h. \<exists>t. zscore R s (concurrency_key env policy) h = Some t \<and> now_ms R s < t}"
  shows "if card live < limit
     then answer = Inr (started + (seconds * 1000 - 1))
       \<and> zscore R s' (concurrency_key env policy) (uuid_text env lease_id)
           = Some (now_ms R s + seconds * 1000)
     else answer = Inl CoordDenied"
proof -
  let ?K = "concurrency_key env policy"
  let ?s = "zrem_to R s ?K (now_ms R s)"
  have "{h. zscore R ?s ?K h \<noteq> None} = live" by (auto simp: live_def zscore_zrem_to)
  then have card: "zcard R ?s ?K = card live" by (simp add: zcard_members)
  have free: "zscore R ?s ?K (uuid_text env lease_id) = None" by (simp add: zscore_zrem_to fresh)
  show ?thesis
    using call fits
    by (auto simp: acquire_strict_concurrency_def invoke_def strict_script_def sel conf free card Let_def
        read_lease_def zscore_pexpire zscore_zadd)
qed

end


text \<open>
  An acquisition of a strict lease on a selected configuration is decided exactly by the number
  of leases in force; a lease granted is held in the store for its full length, and the caller's
  own deadline ends strictly before.
\<close>

theorem strict_acquire_decides:
  assumes "redis R"
    and "select_plain_config R (policy_key_ref env (pr_organization_id policy) (pr_kind policy)
        (pr_policy_id policy)) (pr_epoch policy) (dec_of_nat (pr_generation policy))
        (uuid_text env (pr_version_id policy)) s = Some (Some enc)"
    and "decode_config env enc
      = Some (RequestLimitsConfig v r i g m gs (Some ''strict'') (Some limit) (Some seconds) ms)"
    and "zscore R s (concurrency_key env policy) (uuid_text env lease_id) = None"
    and "now_ms R s + seconds * 1000 \<le> u64_max"
    and "acquire_strict_concurrency env R Delivered started policy lease_id seconds s = (s', answer)"
  shows "if card {h. \<exists>t. zscore R s (concurrency_key env policy) h = Some t \<and> now_ms R s < t} < limit
     then answer = Inr (started + (seconds * 1000 - 1))
       \<and> zscore R s' (concurrency_key env policy) (uuid_text env lease_id)
           = Some (now_ms R s + seconds * 1000)
     else answer = Inl CoordDenied"
  by (rule redis.strict_acquire_exact [OF assms(1) assms(2-6)])

subsection \<open>Witnesses\<close>

definition sample_limits_policy :: PolicyReference where
  "sample_limits_policy = \<lparr>pr_organization_id = 1, pr_kind = GatewayKeyRequestLimits, pr_policy_id = 2,
     pr_version_id = 3, pr_epoch = ''e'', pr_generation = 1, pr_recovery_generation = 0\<rparr>"

definition sample_limits_key :: string where
  "sample_limits_key = policy_key_ref sample_env 1 GatewayKeyRequestLimits 2"

definition sample_limits_store :: Store where
  "sample_limits_store = hset store_ops (store_at 7) sample_limits_key
     [(''active_epoch'', ''e''), (''active_generation'', dec_of_nat 1), (''active_version'', dec_of_nat 3),
      (''active_config'', ''limits'')]"

lemma sample_limits_select:
  "select_plain_config store_ops (policy_key_ref sample_env (pr_organization_id sample_limits_policy)
     (pr_kind sample_limits_policy) (pr_policy_id sample_limits_policy)) (pr_epoch sample_limits_policy)
     (dec_of_nat (pr_generation sample_limits_policy))
     (uuid_text sample_env (pr_version_id sample_limits_policy)) sample_limits_store = Some (Some ''limits'')"
  by (simp add: select_plain_config_def sample_limits_policy_def sample_limits_store_def
      sample_limits_key_def store.hget_hset written_def Let_def)

lemma sample_limits_decode:
  "decode_config sample_env ''limits''
   = Some (RequestLimitsConfig 3 60 None ''strict'' 1 30 (Some ''strict'') (Some 2) (Some 20) 60)"
  by (simp add: sample_limits_config_def)

lemma sample_limits_reads:
  "zscore store_ops sample_limits_store k m = None"
  "now_ms store_ops sample_limits_store = 7"
proof -
  show "zscore store_ops sample_limits_store k m = None"
    by (simp add: sample_limits_store_def store.zscore_hset store_ops_simps zset_of_def store_at_def)
  show "now_ms store_ops sample_limits_store = 7"
    by (simp only: sample_limits_store_def store.now_ms_writes) (simp add: store_at_def)
qed

lemma strict_acquire_decides_witness:
  "snd (acquire_strict_concurrency sample_env store_ops Delivered 100 sample_limits_policy 5 20
     sample_limits_store) = Inr 20099"
  using strict_acquire_decides [OF store.redis_axioms sample_limits_select sample_limits_decode
      sample_limits_reads(1), where started = 100 and lease_id = 5]
  by (simp add: sample_limits_reads u64_max_def prod_eq_iff del: now_ms_store)

text \<open>Two leases on a limit of two: the second fills it.\<close>

abbreviation sample_concurrency :: string where
  "sample_concurrency \<equiv> concurrency_key sample_env sample_limits_policy"

abbreviation sample_acquire :: "uuid \<Rightarrow> Store \<Rightarrow> Store \<times> (CoordinatorError + nat)" where
  "sample_acquire i \<equiv> acquire_strict_concurrency sample_env store_ops Delivered 100 sample_limits_policy i 20"

lemma sample_acquire_exact:
  assumes "select_plain_config store_ops (policy_key_ref sample_env (pr_organization_id sample_limits_policy)
     (pr_kind sample_limits_policy) (pr_policy_id sample_limits_policy)) (pr_epoch sample_limits_policy)
     (dec_of_nat (pr_generation sample_limits_policy))
     (uuid_text sample_env (pr_version_id sample_limits_policy)) s = Some (Some ''limits'')"
    and "zscore store_ops s sample_concurrency (uuid_text sample_env i) = None" "now_ms store_ops s = 7"
    and "zcard store_ops (zrem_to store_ops s sample_concurrency 7) sample_concurrency < 2"
  shows "sample_acquire i s = (pexpire store_ops (zadd store_ops (zrem_to store_ops s sample_concurrency 7)
      sample_concurrency 20007 (uuid_text sample_env i)) sample_concurrency (20000 + metadata_ttl_millis), Inr 20099)"
  using assms
  by (simp add: acquire_strict_concurrency_def invoke_def strict_script_def sample_limits_config_def read_lease_def
      store.zscore_zrem_to Let_def u64_max_def del: now_ms_store)


end
