(* ===== verification/Slots.thy ===== *)
theory Slots
  imports Leases
begin

section \<open>Approximate concurrency at the coordinator\<close>

text \<open>
  What \<open>APPROXIMATE_CONCURRENCY_SCRIPT\<close> of \<open>adapters/coordinator.rs\<close> and its caller
  guarantee: the slots of the grants in force never exceed the configured limit.  The second
  half shows the other direction to fail: a call that is denied, or that replays a grant, forgets
  the expired grants without giving their slots back.
\<close>

definition slot_count :: "'s Redis \<Rightarrow> 's \<Rightarrow> string \<Rightarrow> string \<Rightarrow> nat" where
  "slot_count R s H m = (case tonumber (or_zero (hget R s H m)) of None \<Rightarrow> 0 | Some n \<Rightarrow> n)"

abbreviation zmembers :: "'s Redis \<Rightarrow> 's \<Rightarrow> string \<Rightarrow> string set" where
  "zmembers R s Z \<equiv> {m. zscore R s Z m \<noteq> None}"

lemma parse_dec_Some: "parse_unsigned m (dec_of_nat n) = Some k \<Longrightarrow> k = n"
  by (auto simp: parse_unsigned_def split: if_splits)

text \<open>Every configured limit is at most \<open>L\<close>; a grant ends before the two keys are dropped.\<close>

definition bounded_slots :: "Externals \<Rightarrow> nat \<Rightarrow> bool" where
  "bounded_slots env L \<longleftrightarrow>
     (\<forall>t v r i g m gs mode limit lease ms.
        decode_config env t = Some (RequestLimitsConfig v r i g m gs mode (Some limit) lease ms)
        \<longrightarrow> limit \<le> L \<and> (ms + 30) * 1000 \<le> metadata_ttl_millis)"

text \<open>
  The steps around one policy's sorted set \<open>Z\<close> and hash \<open>H\<close>.  The script puts both on the
  same time to live in the same instant, so between calls they stay or go together; a sorted set
  with no member is no key.
\<close>

inductive slot_step :: "Externals \<Rightarrow> 's Redis \<Rightarrow> string \<Rightarrow> string
    \<Rightarrow> 's \<times> (string \<times> nat \<times> nat) set \<Rightarrow> 's \<times> (string \<times> nat \<times> nat) set \<Rightarrow> bool"
  for env R Z H where
  grant: "slot_step env R Z H (s, held) (s', case answer of Inl _ \<Rightarrow> held
      | Inr g \<Rightarrow> insert (uuid_text env grant_id, csg_slots g, csg_expires_at_unix_ms g) held)"
    if "grant_approximate_concurrency_slots env R delivery policy grant_id n s = (s', answer)"
      "approximate_concurrency_expiry_key env policy = Z"
      "approximate_concurrency_grants_key env policy = H"
| keep: "slot_step env R Z H (s, held) (s', held)"
    if "now_ms R s \<le> now_ms R s'" "zscore R s' Z = zscore R s Z" "hget R s' H = hget R s H"
      "deadline R s' Z = deadline R s Z"
| vanish: "slot_step env R Z H (s, held) (s', held)"
    if "now_ms R s \<le> now_ms R s'" "zscore R s' Z = (\<lambda>_. None)" "hget R s' H = (\<lambda>_. None)"
      "zscore R s Z = (\<lambda>_. None) \<or> (\<exists>t. deadline R s Z = Some t \<and> t \<le> now_ms R s')"

text \<open>The stored total covers the recorded grants, and is within the limit.\<close>

definition slots_inv :: "'s Redis \<Rightarrow> string \<Rightarrow> string \<Rightarrow> nat \<Rightarrow> 's \<Rightarrow> bool" where
  "slots_inv R Z H L s \<longleftrightarrow>
     (\<exists>a. tonumber (or_zero (hget R s H ''allocated'')) = Some a \<and> a \<le> L
        \<and> sum (slot_count R s H) (zmembers R s Z) \<le> a)
     \<and> (\<forall>m t. zscore R s Z m = Some t \<longrightarrow>
          m \<noteq> ''allocated'' \<and> t \<le> now_ms R s + metadata_ttl_millis
          \<and> (\<exists>d. deadline R s Z = Some d \<and> t \<le> d) \<and> (\<exists>n. hget R s H m = Some (dec_of_nat n)))"

definition held_inv :: "'s Redis \<Rightarrow> string \<Rightarrow> string \<Rightarrow> 's \<Rightarrow> (string \<times> nat \<times> nat) set \<Rightarrow> bool" where
  "held_inv R Z H s held \<longleftrightarrow>
     (\<forall>(i, n, t) \<in> held. now_ms R s < t \<longrightarrow> zscore R s Z i = Some t \<and> hget R s H i = Some (dec_of_nat n))"

lemma read_slots_Inr:
  "read_slots i vals = Inr g \<Longrightarrow> \<exists>x y. vals = [''granted'', x, y]
     \<and> parse_unsigned u32_max x = Some (csg_slots g)
     \<and> parse_unsigned u64_max y = Some (csg_expires_at_unix_ms g)"
  by (auto simp: read_slots_def result_bind_Inr ok_or_def split: list.splits if_splits option.splits)

lemma read_slots_denied: "read_slots i vals = Inl CoordDenied \<Longrightarrow> vals = [''denied'']"
  by (auto simp: read_slots_def result_bind_def ok_or_def split: list.splits if_splits option.splits sum.splits)

lemma approximate_denied_take:
  assumes "approximate_script d R p Z H e g v i n ttl s = (s', Some [''denied''])"
    and "tonumber (or_zero (hget R s H ''allocated'')) = Some a"
    and "drop_expired R H (zrange_to R s Z (now_ms R s)) a s = (s0, Some a1)"
  shows "\<exists>lim ms. approximate_take R Z H i n lim ms ttl a1
     (if zrange_to R s Z (now_ms R s) \<noteq> [] then zrem_to R s0 Z (now_ms R s) else s0) = (s', Some [''denied''])"
  using assms
  by (cases "zrange_to R s Z (now_ms R s) = []")
    (auto simp: approximate_script_def Let_def split: option.splits PolicyCoordinatorConfig.splits if_splits)

context redis
begin

text \<open>The loop over the expired grants takes their slots off the total and their fields out.\<close>

lemma drop_expired_spec:
  assumes "\<forall>m \<in> set ids. \<exists>n. hget R s H m = Some (dec_of_nat n)" "distinct ids"
    and "(\<Sum>m \<in> set ids. slot_count R s H m) \<le> a"
  shows "\<exists>s'. drop_expired R H ids a s = (s', Some (a - (\<Sum>m \<in> set ids. slot_count R s H m)))
    \<and> (\<forall>k f. hget R s' k f = (if k = H \<and> f \<in> set ids then None else hget R s k f))
    \<and> zscore R s' = zscore R s \<and> (\<forall>k. zscore R s k \<noteq> (\<lambda>_. None) \<longrightarrow> deadline R s' k = deadline R s k) \<and> now_ms R s' = now_ms R s"
  using assms
proof (induction ids arbitrary: a s)
  case (Cons x ids)
  from Cons.prems(1) obtain n where x: "hget R s H x = Some (dec_of_nat n)" by auto
  let ?s = "hdel R s H [x]"
  have count: "slot_count R ?s H m = slot_count R s H m" if "m \<in> set ids" for m
    using that Cons.prems(2) by (auto simp: slot_count_def hget_hdel)
  then have sum: "(\<Sum>m \<in> set ids. slot_count R ?s H m) = (\<Sum>m \<in> set ids. slot_count R s H m)"
    by (intro sum.cong) auto
  have head: "slot_count R s H x = n" by (simp add: slot_count_def x)
  have "\<forall>m \<in> set ids. \<exists>n. hget R ?s H m = Some (dec_of_nat n)"
    using Cons.prems(1,2) by (auto simp: hget_hdel)
  moreover have "(\<Sum>m \<in> set ids. slot_count R ?s H m) \<le> a - n"
    using Cons.prems(2,3) sum head by simp
  moreover have "distinct ids" using Cons.prems(2) by simp
  ultimately obtain s' where s': "drop_expired R H ids (a - n) ?s
      = (s', Some (a - n - (\<Sum>m \<in> set ids. slot_count R ?s H m)))"
    "\<forall>k f. hget R s' k f = (if k = H \<and> f \<in> set ids then None else hget R ?s k f)"
    "zscore R s' = zscore R ?s" "\<forall>k. zscore R ?s k \<noteq> (\<lambda>_. None) \<longrightarrow> deadline R s' k = deadline R ?s k" "now_ms R s' = now_ms R ?s"
    using Cons.IH by blast
  moreover have "deadline R ?s k = deadline R s k" if "zscore R s k \<noteq> (\<lambda>_. None)" for k
    using that deadline_hdel [of s k] by (auto simp: fun_eq_iff)
  ultimately show ?case
    using Cons.prems(2) by (auto simp: x head sum hget_hdel zscore_hdel now_ms_writes)
qed simp


lemma slots_cleaned:
  assumes inv: "slots_inv R Z H L s" and a: "tonumber (or_zero (hget R s H ''allocated'')) = Some a"
  obtains s0 a1 s1 where "drop_expired R H (zrange_to R s Z (now_ms R s)) a s = (s0, Some a1)"
    "s1 = (if zrange_to R s Z (now_ms R s) \<noteq> [] then zrem_to R s0 Z (now_ms R s) else s0)"
    "\<forall>m. zscore R s1 Z m = option_filter (\<lambda>t. now_ms R s < t) (zscore R s Z m)"
    "\<forall>f. hget R s1 H f = (if \<exists>t. zscore R s Z f = Some t \<and> t \<le> now_ms R s then None else hget R s H f)"
    "now_ms R s1 = now_ms R s" "zmembers R s1 Z \<noteq> {} \<longrightarrow> deadline R s1 Z = deadline R s Z"
    "a1 \<le> a" "sum (slot_count R s1 H) (zmembers R s1 Z) \<le> a1"
proof -
  let ?now = "now_ms R s"
  let ?old = "zrange_to R s Z ?now"
  let ?live = "{m. \<exists>t. zscore R s Z m = Some t \<and> ?now < t}"
  have old: "set ?old = {m. \<exists>t. zscore R s Z m = Some t \<and> t \<le> ?now}" by (rule zrange_members)
  have all: "zmembers R s Z = set ?old \<union> ?live" "set ?old \<inter> ?live = {}" by (auto simp: old)
  have finite: "finite ?live" using finite_members [of s Z] by (rule rev_finite_subset) auto
  have total: "sum (slot_count R s H) (set ?old) + sum (slot_count R s H) ?live \<le> a"
    using inv a all sum.union_disjoint [of "set ?old" ?live "slot_count R s H"] finite
    by (auto simp: slots_inv_def)
  have texts: "\<forall>m \<in> set ?old. \<exists>n. hget R s H m = Some (dec_of_nat n)"
    using inv by (auto simp: old slots_inv_def)
  from drop_expired_spec [OF texts zrange_distinct, of a] total
  obtain s0 where s0: "drop_expired R H ?old a s = (s0, Some (a - sum (slot_count R s H) (set ?old)))"
    "\<And>k f. hget R s0 k f = (if k = H \<and> f \<in> set ?old then None else hget R s k f)"
    "zscore R s0 = zscore R s" "\<And>k. zscore R s k \<noteq> (\<lambda>_. None) \<Longrightarrow> deadline R s0 k = deadline R s k"
    "now_ms R s0 = ?now"
    by auto
  define s1 where s1: "s1 = (if ?old \<noteq> [] then zrem_to R s0 Z ?now else s0)"
  have z: "zscore R s1 Z m = option_filter (\<lambda>t. ?now < t) (zscore R s Z m)" for m
  proof (cases "?old = []")
    case True
    then have "set ?old = {}" by simp
    then have "?now < t" if "zscore R s Z m = Some t" for t
      using that unfolding old by (auto simp: not_less [symmetric])
    then show ?thesis using True by (cases "zscore R s Z m") (auto simp: s1 s0(3))
  qed (simp add: s1 zscore_zrem_to s0(3))
  then have members: "zmembers R s1 Z = ?live" by auto
  have h: "hget R s1 H f = (if f \<in> set ?old then None else hget R s H f)" for f
    by (simp add: s1 hget_zrem_to s0(2))
  have "sum (slot_count R s1 H) (zmembers R s1 Z) = sum (slot_count R s H) ?live"
    unfolding members using all(2) by (intro sum.cong) (auto simp: slot_count_def h)
  then have sum: "sum (slot_count R s1 H) (zmembers R s1 Z) \<le> a - sum (slot_count R s H) (set ?old)"
    using total by linarith
  have now: "now_ms R s1 = ?now" by (simp add: s1 s0(5) now_ms_writes)
  have dead: "deadline R s1 Z = deadline R s Z" if "zmembers R s1 Z \<noteq> {}"
  proof -
    from that obtain m where m: "zscore R s1 Z m \<noteq> None" by blast
    then have "zscore R s Z \<noteq> (\<lambda>_. None)" by (auto simp: z fun_eq_iff)
    then show ?thesis
      using m deadline_zrem_to [of s0 Z ?now Z m] s0(4) by (auto simp: s1 split: if_splits)
  qed
  show ?thesis
    by (rule that [OF s0(1) s1]) (use z h now dead sum in \<open>simp_all add: old\<close>)
qed

lemma slots_inv_cleaned:
  assumes "slots_inv R Z H L s" "held_inv R Z H s held"
    and "\<forall>m. zscore R s1 Z m = option_filter (\<lambda>t. now_ms R s < t) (zscore R s Z m)"
    and "\<forall>f. hget R s1 H f = (if \<exists>t. zscore R s Z f = Some t \<and> t \<le> now_ms R s then None else hget R s H f)"
    and "now_ms R s1 = now_ms R s" "zmembers R s1 Z \<noteq> {} \<longrightarrow> deadline R s1 Z = deadline R s Z"
    and "tonumber (or_zero (hget R s H ''allocated'')) = Some a" "a1 \<le> a"
    and "sum (slot_count R s1 H) (zmembers R s1 Z) \<le> a1"
  shows "slots_inv R Z H L s1" "held_inv R Z H s1 held"
    "tonumber (or_zero (hget R s1 H ''allocated'')) = Some a"
proof -
  have all: "hget R s1 H ''allocated'' = hget R s H ''allocated''"
    using assms(1,4) by (auto simp: slots_inv_def)
  then show "tonumber (or_zero (hget R s1 H ''allocated'')) = Some a" using assms(7) by simp
  have member: "zscore R s Z m = Some t \<and> now_ms R s < t \<and> hget R s1 H m = hget R s H m
      \<and> deadline R s1 Z = deadline R s Z" if "zscore R s1 Z m = Some t" for m t
    using that assms(3,4,6) by (auto simp: all)
  then show "slots_inv R Z H L s1"
    using assms(1,5,7,8,9) all unfolding slots_inv_def by fastforce
  show "held_inv R Z H s1 held"
    using assms(2,3,4,5) by (fastforce simp: held_inv_def)
qed


lemma slots_inv_take:
  assumes inv: "slots_inv R Z H L s" "held_inv R Z H s held"
    and room: "sum (slot_count R s H) (zmembers R s Z) \<le> a" "a + n \<le> L"
    and new: "hget R s H i = None" "i \<noteq> ''allocated''" "Z \<noteq> H" and short: "d \<le> metadata_ttl_millis"
  defines "s' \<equiv> pexpire R (pexpire R (zadd R (hset R s H
      [(''allocated'', dec_of_nat (a + n)), (i, dec_of_nat n)]) Z (now_ms R s + d) i) Z metadata_ttl_millis)
      H metadata_ttl_millis"
  shows "slots_inv R Z H L s'" "held_inv R Z H s' (insert (i, n, now_ms R s + d) held)"
proof -
  have h: "hget R s' H f = (if f = i then Some (dec_of_nat n)
      else if f = ''allocated'' then Some (dec_of_nat (a + n)) else hget R s H f)" for f
    using new(2) by (simp add: s'_def hash_reads written_def)
  have z: "zscore R s' Z m = (if m = i then Some (now_ms R s + d) else zscore R s Z m)" for m
    by (simp add: s'_def zset_reads)
  have now: "now_ms R s' = now_ms R s" by (simp add: s'_def now_ms_writes)
  have free: "zscore R s Z i = None" 
    using inv(1) new(1) unfolding slots_inv_def by (cases "zscore R s Z i") fastforce+
  have dead: "deadline R s' Z = Some (now_ms R s + metadata_ttl_millis)"
    using deadline_pexpire [of "zadd R (hset R s H [(''allocated'', dec_of_nat (a + n)), (i, dec_of_nat n)])
        Z (now_ms R s + d) i" Z i] deadline_pexpire_other [OF new(3)]
    by (simp add: s'_def zset_reads now_ms_writes)
  have "zmembers R s' Z = insert i (zmembers R s Z)" by (auto simp: z)
  moreover have "slot_count R s' H m = slot_count R s H m" if "m \<in> zmembers R s Z" for m
    using that inv(1) free by (auto simp: slots_inv_def slot_count_def h)
  moreover have "slot_count R s' H i = n" by (simp add: slot_count_def h)
  ultimately have "sum (slot_count R s' H) (zmembers R s' Z) = n + sum (slot_count R s H) (zmembers R s Z)"
    using finite_members [of s Z] free by simp
  then have sum: "sum (slot_count R s' H) (zmembers R s' Z) \<le> a + n" using room(1) by simp
  have old: "m \<noteq> ''allocated'' \<and> t \<le> now_ms R s + metadata_ttl_millis \<and> (\<exists>k. hget R s H m = Some (dec_of_nat k))"
    if "zscore R s Z m = Some t" for m t
    using that inv(1) by (auto simp: slots_inv_def)
  show "slots_inv R Z H L s'"
    unfolding slots_inv_def
  proof (intro conjI allI impI)
    show "\<exists>b. tonumber (or_zero (hget R s' H ''allocated'')) = Some b \<and> b \<le> L
        \<and> sum (slot_count R s' H) (zmembers R s' Z) \<le> b"
      using new(2) room(2) sum by (intro exI [of _ "a + n"]) (simp add: h)
  qed (use old new(2) short in \<open>auto simp: h z now dead split: if_splits\<close>)
  have "zscore R s' Z j = Some t \<and> hget R s' H j = Some (dec_of_nat k)"
    if "(j, k, t) \<in> held" "now_ms R s' < t" for j k t
  proof -
    have "zscore R s Z j = Some t" "hget R s H j = Some (dec_of_nat k)"
      using that inv(2) by (auto simp: held_inv_def now)
    moreover have "j \<noteq> i" "j \<noteq> ''allocated''" using calculation free old by auto
    ultimately show ?thesis by (simp add: h z)
  qed
  moreover have "zscore R s' Z i = Some (now_ms R s + d)" "hget R s' H i = Some (dec_of_nat n)"
    by (simp_all add: h z)
  ultimately show "held_inv R Z H s' (insert (i, n, now_ms R s + d) held)"
    by (auto simp: held_inv_def)
qed


lemma approximate_script_keeps:
  assumes inv: "slots_inv R Z H L s" "held_inv R Z H s held" and bound: "bounded_slots env L"
    and keys: "Z \<noteq> H" "i \<noteq> ''allocated''"
    and call: "approximate_script (decode_config env) R policy Z H e g v i n metadata_ttl_millis s = (s', reply)"
  shows "slots_inv R Z H L s'" "held_inv R Z H s' held"
    "reply = Some [''granted'', x, y] \<Longrightarrow>
       \<exists>m t. x = dec_of_nat m \<and> y = dec_of_nat t \<and> held_inv R Z H s' (insert (i, m, t) held)"
proof -
  let ?P = "slots_inv R Z H L s' \<and> held_inv R Z H s' held \<and> (reply = Some [''granted'', x, y] \<longrightarrow>
       (\<exists>m t. x = dec_of_nat m \<and> y = dec_of_nat t \<and> held_inv R Z H s' (insert (i, m, t) held)))"
  let ?sel = "select_plain_config R policy e g v s"
  obtain a where a: "tonumber (or_zero (hget R s H ''allocated'')) = Some a" "a \<le> L"
    using inv(1) by (auto simp: slots_inv_def)
  obtain s0 a1 s1 where
    drop: "drop_expired R H (zrange_to R s Z (now_ms R s)) a s = (s0, Some a1)"
    and s1: "s1 = (if zrange_to R s Z (now_ms R s) \<noteq> [] then zrem_to R s0 Z (now_ms R s) else s0)"
    and inv1: "slots_inv R Z H L s1" "held_inv R Z H s1 held"
    and room: "sum (slot_count R s1 H) (zmembers R s1 Z) \<le> a1"
    by (rule slots_cleaned [OF inv(1) a(1)], rule that) (assumption | rule slots_inv_cleaned [OF inv _ _ _ _ a(1)])+
  consider (no_config) "\<nexists>enc v r gg ii m gs limit lease ms. ?sel = Some (Some enc) \<and>
      decode_config env enc = Some (RequestLimitsConfig v r ii gg m gs (Some ''approximate'') limit lease ms)"
    | (config) enc vv r gg ii m gs limit lease ms where "?sel = Some (Some enc)"
      "decode_config env enc = Some (RequestLimitsConfig vv r ii gg m gs (Some ''approximate'') limit lease ms)"
    by blast
  then have ?P
  proof cases
    case no_config
    then have "s' = s \<and> reply \<noteq> Some [''granted'', x, y]"
      using call by (auto simp: approximate_script_def split: option.splits PolicyCoordinatorConfig.splits if_splits)
    then show ?thesis using inv by simp
  next
    case (config enc vv r gg ii m gs limit lease ms)
    have take: "approximate_take R Z H i n limit ms metadata_ttl_millis a1 s1 = (s', reply)"
      using call config by (simp add: approximate_script_def a(1) drop s1 Let_def)
    show ?thesis
    proof (cases "hget R s1 H i")
      case (Some existing)
      have "held_inv R Z H s1 (insert (i, m, t) held)"
        if "existing = dec_of_nat m" "zscore R s1 Z i = Some t" for m t
        using that inv1(2) Some by (auto simp: held_inv_def)
      moreover have "\<exists>m. existing = dec_of_nat m" if "zscore R s1 Z i = Some t" for t
        using that inv1(1) Some unfolding slots_inv_def by (metis option.inject)
      ultimately show ?thesis
        using take inv1 Some by (auto simp: approximate_take_def)
    next
      case None
      show ?thesis
      proof (cases "\<exists>l. limit = Some l \<and> 1 \<le> min n (l - a1)")
        case True
        then obtain l where l: "limit = Some l" "1 \<le> min n (l - a1)" by blast
        have taken: "s' = pexpire R (pexpire R (zadd R (hset R s1 H
              [(''allocated'', dec_of_nat (a1 + min n (l - a1))), (i, dec_of_nat (min n (l - a1)))])
              Z (now_ms R s1 + (ms + 30) * 1000) i) Z metadata_ttl_millis) H metadata_ttl_millis"
            "reply = Some [''granted'', dec_of_nat (min n (l - a1)),
              dec_of_nat (now_ms R s1 + (ms + 30) * 1000)]"
          using take l None by (simp_all add: approximate_take_def Let_def)
        have "l \<le> L" "(ms + 30) * 1000 \<le> metadata_ttl_millis"
          using bound config(2) l(1) unfolding bounded_slots_def by blast+
        moreover have "a1 + min n (l - a1) \<le> L"
          using l(2) \<open>l \<le> L\<close> by (auto simp: min_def split: if_splits)
        ultimately have kept: "slots_inv R Z H L s'"
            "held_inv R Z H s' (insert (i, min n (l - a1), now_ms R s1 + (ms + 30) * 1000) held)"
          using slots_inv_take [OF inv1 _ _ None keys(2,1), of a1 "min n (l - a1)" "(ms + 30) * 1000"]
            room taken(1) by simp_all
        then have "held_inv R Z H s' held" by (auto simp: held_inv_def)
        then show ?thesis using kept taken(2) by blast
      next
        case False
        then have "s' = s1 \<and> reply \<noteq> Some [''granted'', x, y]"
          using take None by (cases limit) (auto simp: approximate_take_def Let_def)
        then show ?thesis using inv1 by simp
      qed
    qed
  qed
  then show "slots_inv R Z H L s'" "held_inv R Z H s' held"
    "reply = Some [''granted'', x, y] \<Longrightarrow>
       \<exists>m t. x = dec_of_nat m \<and> y = dec_of_nat t \<and> held_inv R Z H s' (insert (i, m, t) held)"
    by blast+
qed


lemma denied_drops_expired:
  assumes inv: "slots_inv R Z H L s" and keys: "approximate_concurrency_expiry_key env policy = Z"
      "approximate_concurrency_grants_key env policy = H"
    and call: "grant_approximate_concurrency_slots env R Delivered policy i n s = (s', Inl CoordDenied)"
  shows "hget R s' H ''allocated'' = hget R s H ''allocated''"
    and "zscore R s Z m = Some t \<Longrightarrow> t \<le> now_ms R s \<Longrightarrow> zscore R s' Z m = None \<and> hget R s' H m = None"
proof -
  obtain a where a: "tonumber (or_zero (hget R s H ''allocated'')) = Some a"
    using inv by (auto simp: slots_inv_def)
  obtain s0 a1 s1 where drop: "drop_expired R H (zrange_to R s Z (now_ms R s)) a s = (s0, Some a1)"
    and s1: "s1 = (if zrange_to R s Z (now_ms R s) \<noteq> [] then zrem_to R s0 Z (now_ms R s) else s0)"
    and reads: "\<forall>m. zscore R s1 Z m = option_filter (\<lambda>t. now_ms R s < t) (zscore R s Z m)"
      "\<forall>f. hget R s1 H f = (if \<exists>t. zscore R s Z f = Some t \<and> t \<le> now_ms R s then None else hget R s H f)"
    by (rule slots_cleaned [OF inv a])
  obtain p e g v j where "approximate_script (decode_config env) R p Z H e g v j n metadata_ttl_millis s
      = (s', Some [''denied''])"
    using call
    by (auto simp: grant_approximate_concurrency_slots_def invoke_def keys ok_or_def
        dest!: read_slots_denied split: if_splits prod.splits option.splits)
  from approximate_denied_take [OF this a drop] have "s' = s1"
    unfolding s1 [symmetric] by (auto simp: approximate_take_def Let_def split: option.splits if_splits)
  then show "hget R s' H ''allocated'' = hget R s H ''allocated''"
    and "zscore R s Z m = Some t \<Longrightarrow> t \<le> now_ms R s \<Longrightarrow> zscore R s' Z m = None \<and> hget R s' H m = None"
    using inv reads by (auto simp: slots_inv_def)
qed

lemma slot_step_keeps:
  assumes "slot_step env R Z H (s, held) (s', held')" and inv: "slots_inv R Z H L s" "held_inv R Z H s held"
    and bound: "bounded_slots env L" and keys: "Z \<noteq> H" "\<forall>i. uuid_text env i \<noteq> ''allocated''"
  shows "slots_inv R Z H L s'" "held_inv R Z H s' held'"
proof -
  have "slots_inv R Z H L s' \<and> held_inv R Z H s' held'"
    using assms(1)
  proof cases
    case (grant delivery policy i n answer)
    obtain s1 reply where call: "approximate_script (decode_config env) R
        (policy_key_ref env (pr_organization_id policy) (pr_kind policy) (pr_policy_id policy)) Z H
        (pr_epoch policy) (dec_of_nat (pr_generation policy)) (uuid_text env (pr_version_id policy))
        (uuid_text env i) n metadata_ttl_millis s = (s1, reply)" by fastforce
    note kept = approximate_script_keeps [OF inv bound keys(1) keys(2) [rule_format] call]
    have reply: "(s' = s \<or> s' = s1) \<and> (\<forall>g. answer = Inr g \<longrightarrow> s' = s1 \<and>
        (\<exists>vals. reply = Some vals \<and> read_slots i vals = Inr g))"
      using grant(2) call
      by (auto simp: grant_approximate_concurrency_slots_def invoke_def grant(3,4)
          split: Delivery.splits if_splits)
    show ?thesis
    proof (cases answer)
      case (Inl e)
      then show ?thesis using reply inv kept(1,2) grant(1) by auto
    next
      case (Inr g)
      then obtain vals where "reply = Some vals" "read_slots i vals = Inr g" and s1: "s' = s1"
        using reply by auto
      with read_slots_Inr [of i vals g] obtain x y where texts: "reply = Some [''granted'', x, y]"
          "parse_unsigned u32_max x = Some (csg_slots g)"
          "parse_unsigned u64_max y = Some (csg_expires_at_unix_ms g)"
        by auto
      from kept(3) [OF texts(1)] obtain m t where "x = dec_of_nat m" "y = dec_of_nat t"
          "held_inv R Z H s1 (insert (uuid_text env i, m, t) held)" by blast
      moreover have "csg_slots g = m" "csg_expires_at_unix_ms g = t"
        using calculation(1,2) texts(2,3) parse_dec_Some by auto
      ultimately show ?thesis using s1 kept(1) grant(1) Inr by simp
    qed
  next
    case keep
    then have count: "slot_count R s' H = slot_count R s H" by (simp add: slot_count_def fun_eq_iff)
    have "t \<le> now_ms R s' + metadata_ttl_millis" if "t \<le> now_ms R s + metadata_ttl_millis" for t
      using that keep(2) by simp
    then have "slots_inv R Z H L s'"
      using inv(1) unfolding slots_inv_def count keep(3-5) by blast
    moreover have "held_inv R Z H s' held"
      using inv(2) keep(2) by (auto simp: held_inv_def keep(3-5))
    ultimately show ?thesis using keep(1) by simp
  next
    case vanish
    have "tonumber ''0'' = Some 0" using tonumber_dec_of_nat [of 0] by simp
    then have "slots_inv R Z H L s'" using vanish by (simp add: slots_inv_def)
    moreover have "\<not> now_ms R s' < t" if "(i, n, t) \<in> held" for i n t
    proof
      assume "now_ms R s' < t"
      then have "zscore R s Z i = Some t" using inv(2) that vanish(2) by (fastforce simp: held_inv_def)
      with vanish(5) obtain d where "deadline R s Z = Some d" "d \<le> now_ms R s'" by auto
      with inv(1) \<open>zscore R s Z i = Some t\<close> have "t \<le> now_ms R s'" by (fastforce simp: slots_inv_def)
      with \<open>now_ms R s' < t\<close> show False by simp
    qed
    ultimately show ?thesis using vanish(1) by (auto simp: held_inv_def)
  qed
  then show "slots_inv R Z H L s'" "held_inv R Z H s' held'" by auto
qed

lemma slot_steps_keep:
  assumes "(slot_step env R Z H)\<^sup>*\<^sup>* (s0, {}) (s, held)" "bounded_slots env L" "Z \<noteq> H"
    "\<forall>i. uuid_text env i \<noteq> ''allocated''" "slots_inv R Z H L s0"
  shows "slots_inv R Z H L s \<and> held_inv R Z H s held"
  using assms(1)
proof (induction rule: rtranclp_induct2)
  case refl
  then show ?case using assms(5) by (simp add: held_inv_def)
next
  case (step s held s' held')
  then show ?case using slot_step_keeps [OF step(2) _ _ assms(2-4)] by blast
qed

lemma slots_in_force:
  assumes "slots_inv R Z H L s" "held_inv R Z H s held"
  shows "(\<Sum>(i, n, t) \<in> {h \<in> held. now_ms R s < snd (snd h)}. n) \<le> L"
proof -
  let ?live = "{h \<in> held. now_ms R s < snd (snd h)}"
  have live: "zscore R s Z (fst h) = Some (snd (snd h)) \<and> hget R s H (fst h) = Some (dec_of_nat (fst (snd h)))"
    if "h \<in> ?live" for h using that assms(2) by (force simp: held_inv_def)
  have inj: "inj_on fst ?live"
  proof (rule inj_onI)
    fix g h assume "g \<in> ?live" "h \<in> ?live" "fst g = fst h"
    then show "g = h" using live [of g] live [of h] by (auto simp: prod_eq_iff)
  qed
  have "(\<Sum>(i, n, t) \<in> ?live. n) = sum (slot_count R s H) (fst ` ?live)"
    by (rule sum.reindex_cong [OF inj, symmetric]) (use live in \<open>auto simp: slot_count_def\<close>)
  also have "\<dots> \<le> sum (slot_count R s H) (zmembers R s Z)"
    using live by (intro sum_mono2 finite_members) auto
  also have "\<dots> \<le> L" using assms(1) by (auto simp: slots_inv_def)
  finally show ?thesis .
qed

end

text \<open>
  The approximate concurrency slots granted to all replicas together stay within the limit.
  Whatever calls are made and however time passes on one policy's keys, the slots of the grants whose
  expiry has not come sum to at most the limit.
\<close>

theorem approximate_grants_bounded:
  assumes "redis R" "bounded_slots env L" "Z \<noteq> H" "\<forall>i. uuid_text env i \<noteq> ''allocated''"
    and "\<forall>m. zscore R s0 Z m = None" "hget R s0 H ''allocated'' = None"
    and "(slot_step env R Z H)\<^sup>*\<^sup>* (s0, {}) (s, held)"
  shows "(\<Sum>(i, n, t) \<in> {h \<in> held. now_ms R s < snd (snd h)}. n) \<le> L"
proof -
  have "slots_inv R Z H L s0"
    using assms(5,6) tonumber_dec_of_nat [of 0] by (simp add: slots_inv_def)
  then show ?thesis
    using redis.slot_steps_keep [OF assms(1,7,2,3,4)] redis.slots_in_force [OF assms(1)] by blast
qed

text \<open>
  C37: A denied call forgets expired slots without giving them back.  The call removes every expired
  grant from the sorted set and from the hash but leaves the stored total as it was, so that total is
  never reduced by their slots again.
\<close>

theorem approximate_denied_leaks:
  assumes "redis R" "slots_inv R Z H L s" "approximate_concurrency_expiry_key env policy = Z"
      "approximate_concurrency_grants_key env policy = H"
    and "grant_approximate_concurrency_slots env R Delivered policy i n s = (s', Inl CoordDenied)"
  shows "hget R s' H ''allocated'' = hget R s H ''allocated''
    \<and> (\<forall>m t. zscore R s Z m = Some t \<longrightarrow> t \<le> now_ms R s
          \<longrightarrow> zscore R s' Z m = None \<and> hget R s' H m = None)"
  using redis.denied_drops_expired [OF assms(1) assms(2-5)] by blast

subsection \<open>Witnesses\<close>

text \<open>A policy of two slots, of which three were granted under an earlier version; one has expired.\<close>

definition slots_env :: Externals where
  "slots_env = sample_env\<lparr>decode_config := (\<lambda>t. if t = ''slots''
     then Some (RequestLimitsConfig 3 60 None ''strict'' 1 30 (Some ''approximate'') (Some 2) None 60)
     else None)\<rparr>"

abbreviation slots_expiries :: string where
  "slots_expiries \<equiv> approximate_concurrency_expiry_key slots_env sample_limits_policy"

abbreviation slots_grants :: string where
  "slots_grants \<equiv> approximate_concurrency_grants_key slots_env sample_limits_policy"

definition slots_store :: "(string \<times> string) list \<Rightarrow> (string \<times> nat) list \<Rightarrow> Store" where
  "slots_store fvs members =
     \<lparr>clock_us = 7000,
      hashes = (\<lambda>k. if k = slots_grants then fvs
        else if k = policy_key_ref slots_env 1 GatewayKeyRequestLimits 2
        then [(''active_epoch'', ''e''), (''active_generation'', dec_of_nat 1), (''active_version'', dec_of_nat 3),
          (''active_config'', ''slots'')] else []),
      zsets = (\<lambda>k. if k = slots_expiries then members else []), strings = (\<lambda>_. None),
      expiry = (\<lambda>_. Some 90)\<rparr>"

lemma slots_keys:
  "slots_expiries \<noteq> slots_grants" "slots_grants \<noteq> slots_expiries"
  "policy_key_ref slots_env 1 GatewayKeyRequestLimits 2 \<noteq> slots_grants"
  by (simp_all add: approximate_concurrency_expiry_key_def approximate_concurrency_grants_key_def
      policy_key_ref_def sample_limits_policy_def)

lemma slots_env_simps [simp]:
  "uuid_text slots_env = dec_of_nat" "decode_config slots_env ''slots''
   = Some (RequestLimitsConfig 3 60 None ''strict'' 1 30 (Some ''approximate'') (Some 2) None 60)"
  by (simp_all add: slots_env_def)

lemma slots_store_simps:
  "hget store_ops (slots_store fvs members) slots_grants = aget fvs"
  "adistinct members \<Longrightarrow> zscore store_ops (slots_store fvs members) slots_expiries = aget members"
  "adistinct members \<Longrightarrow> zrange_to store_ops (slots_store fvs members) slots_expiries n
    = map fst (filter (\<lambda>(_, score). score \<le> n) members)"
  "now_ms store_ops (slots_store fvs members) = 7"
  "deadline store_ops (slots_store fvs members) k = Some 90"
  "hget store_ops (slots_store fvs members) (policy_key_ref slots_env 1 GatewayKeyRequestLimits 2)
    = aget [(''active_epoch'', ''e''), (''active_generation'', dec_of_nat 1), (''active_version'', dec_of_nat 3),
        (''active_config'', ''slots'')]"
  using slots_keys by (simp_all del: map_of.simps add: slots_store_def store_ops_simps zset_of_def clearjunk_distinct)

lemma digits_not_allocated: "dec_of_nat n \<noteq> ''allocated''"
proof
  assume "dec_of_nat n = ''allocated''"
  then have "is_decimal ''allocated''" by (metis dec_of_nat_decimal)
  then show False by (simp add: is_decimal_def is_digit_def digit_of_def)
qed

lemma slots_grant_unfold:
  "grant_approximate_concurrency_slots slots_env store_ops Delivered sample_limits_policy i n
     (slots_store fvs members)
   = (if n = 0 then (slots_store fvs members, Inl CoordConflict)
      else let (s, reply) = approximate_script (decode_config slots_env) store_ops
          (policy_key_ref slots_env 1 GatewayKeyRequestLimits 2) slots_expiries slots_grants ''e''
          (dec_of_nat 1) (dec_of_nat 3) (dec_of_nat i) n metadata_ttl_millis (slots_store fvs members)
        in (s, result_bind (ok_or CoordCommand reply) (read_slots i)))"
  by (simp add: grant_approximate_concurrency_slots_def invoke_def sample_limits_policy_def split: prod.split)

lemma slots_select:
  "select_plain_config store_ops (policy_key_ref slots_env 1 GatewayKeyRequestLimits 2) ''e'' (dec_of_nat 1)
     (dec_of_nat 3) (slots_store fvs members) = Some (Some ''slots'')"
  by (simp add: select_plain_config_def slots_store_simps Let_def del: One_nat_def)

lemma approximate_denied_leaks_witness:
  defines "s \<equiv> slots_store [(''allocated'', dec_of_nat 3), (dec_of_nat 5, dec_of_nat 1)] [(dec_of_nat 5, 7)]"
  shows "\<exists>s'. grant_approximate_concurrency_slots slots_env store_ops Delivered sample_limits_policy 6 1 s
       = (s', Inl CoordDenied)
     \<and> hget store_ops s' slots_grants ''allocated'' = Some (dec_of_nat 3)
     \<and> zscore store_ops s' slots_expiries (dec_of_nat 5) = None"
proof -
  note neq = digits_not_allocated digits_not_allocated [symmetric]
  have reads: "hget store_ops s slots_grants = aget [(''allocated'', dec_of_nat 3), (dec_of_nat 5, dec_of_nat 1)]"
    "zscore store_ops s slots_expiries = aget [(dec_of_nat 5, 7)]" "now_ms store_ops s = 7"
    "zrange_to store_ops s slots_expiries 7 = [dec_of_nat 5]" "deadline store_ops s slots_expiries = Some 90"
    by (simp_all add: s_def slots_store_simps adistinct_def del: now_ms_store)
  have inv: "slots_inv store_ops slots_expiries slots_grants 3 s"
    using neq by (auto simp: slots_inv_def reads slot_count_def split: if_splits simp del: now_ms_store)
  obtain s' where call: "grant_approximate_concurrency_slots slots_env store_ops Delivered
      sample_limits_policy 6 1 s = (s', Inl CoordDenied)"
    using neq
    by (simp add: s_def slots_grant_unfold approximate_script_def slots_select Let_def
          del: One_nat_def now_ms_store)
       (simp add: s_def [symmetric] reads store.hash_reads approximate_take_def read_slots_def Let_def
          del: One_nat_def now_ms_store)
  then show ?thesis
    using approximate_denied_leaks [OF store.redis_axioms inv refl refl call] neq
    by (auto simp: reads simp del: now_ms_store)
qed

lemma sample_slots_bounded: "bounded_slots slots_env 2"
  by (auto simp: bounded_slots_def slots_env_def metadata_ttl_millis_def split: if_splits)

lemma approximate_grants_bounded_witness:
  "\<exists>s held. slot_step slots_env store_ops slots_expiries slots_grants (slots_store [] [], {}) (s, held)
     \<and> (\<Sum>(i, n, t) \<in> {h \<in> held. now_ms store_ops s < snd (snd h)}. n) \<le> 2"
proof -
  obtain s answer where "grant_approximate_concurrency_slots slots_env store_ops Delivered
      sample_limits_policy 5 3 (slots_store [] []) = (s, answer)" by fastforce
  from slot_step.grant [OF this refl refl, where held = "{}"]
  obtain held where step: "slot_step slots_env store_ops slots_expiries slots_grants
      (slots_store [] [], {}) (s, held)" by blast
  moreover have "(\<Sum>(i, n, t) \<in> {h \<in> held. now_ms store_ops s < snd (snd h)}. n) \<le> 2"
    using approximate_grants_bounded [OF store.redis_axioms sample_slots_bounded slots_keys(1) _ _ _
        r_into_rtranclp, OF _ _ _ step]
    by (simp add: slots_store_simps digits_not_allocated adistinct_def del: now_ms_store)
  ultimately show ?thesis by blast
qed

end
