(* ===== verification/Health.thy ===== *)
theory Health
  imports Coordinator "HOL-Library.Product_Lexorder"
begin

section \<open>Target health and active probes\<close>

text \<open>
  \<open>TargetProbeWorker\<close> of \<open>crates/owlrora-server/src/gateway/health.rs\<close>: which
  targets are probed and when, what a probe's outcome is evidence of, how observations of
  this replica and of others are merged, and whether an observation lets a request use a
  candidate.  SHA-256 is \<open>sha256\<close> of \<open>Externals\<close>, its 32 bytes written as
  characters; the URL package's \<open>join\<close> is a parameter.  The requests themselves are
  not modelled, only their outcomes.
\<close>

definition plan_refresh_interval :: nat where
  "plan_refresh_interval = 1000 * 1000000"

definition MAX_CONCURRENT_PROBES :: nat where "MAX_CONCURRENT_PROBES = 16"

record TargetProbeObservation =
  obs_summary :: TargetHealthSummary
  obs_route_id :: uuid
  obs_latency_millis :: nat
  obs_http_status :: "nat option"
  obs_outcome :: string
  fresh_until :: instant
  obs_recovery_started_at :: "instant option"

record TargetProbeRun =
  run_requested :: nat
  run_eligible :: nat
  run_completed :: nat

record ProbeSpec =
  spec_runtime_revision :: int
  spec_route_id :: uuid
  spec_binding :: string
  spec_candidate :: Candidate
  spec_reliability :: ReliabilityPolicySnapshot
  spec_client :: CredentialClient

record ProbePlan =
  plan_revision :: int
  plan_specs :: "(uuid \<times> ProbeSpec) list"

record ScheduledProbe =
  sched_binding :: string
  next_due :: instant

datatype ProbeRequestOutcome =
  ProbeSuccess nat
| ProbeHttpFailure nat
| NoEvidence
| ProbeAuthenticationFailure
| ProbeTransportFailure
| ProbeTimeout
| InvalidConfiguration

type_synonym observations = "(uuid \<times> TargetProbeObservation) list"

definition bytes_text :: "byte list \<Rightarrow> string" where
  "bytes_text bytes = map (\<lambda>b. char_of (unat b)) bytes"

text \<open>\<open>u64::from_be_bytes\<close>.\<close>

definition be_value :: "string \<Rightarrow> nat" where
  "be_value bytes = foldl (\<lambda>acc c. acc * 256 + of_char c) 0 bytes"

subsection \<open>The plan\<close>

definition probe_binding_fingerprint ::
    "Externals \<Rightarrow> RouteSnapshot \<Rightarrow> ReliabilityPolicySnapshot \<Rightarrow> Candidate \<Rightarrow> CredentialClient \<Rightarrow> string"
  where
  "probe_binding_fingerprint env route reliability candidate client =
     (let d = cand_deployment candidate in
      sha256 env
        (''owlrora/target-probe-binding/v1'' @ [CHR 0x00]
         @ concat (map (uuid_bytes env)
             [route_id route, target_id (cand_target candidate), dep_id d, dep_endpoint_id d, dep_credential_id d])
         @ concat (map (be_bytes 8)
             [route_config_version route, rp_config_version reliability, dep_config_version d,
              nat (dep_endpoint_config_version d), dep_credential_state_identity_version d,
              nat (dep_credential_secret_version d)])
         @ bytes_text (build_fingerprint client)
         @ probe_path (probe_policy reliability)))"

definition probe_target_spec ::
    "Externals \<Rightarrow> RuntimeGeneration \<Rightarrow> RouteSnapshot \<Rightarrow> ReliabilityPolicySnapshot \<Rightarrow> TargetSnapshot
      \<Rightarrow> ProbeSpec option" where
  "probe_target_spec env generation route reliability target =
     Option.bind (option_filter operational
        (aget (deployments (catalog (snapshot generation))) (target_deployment_id target)))
       (\<lambda>deployment. map_option (\<lambda>client.
          let candidate = \<lparr>cand_target = target, cand_deployment = deployment,
                client_build_fingerprint = build_fingerprint client\<rparr> in
          \<lparr>spec_runtime_revision = revision (snapshot generation), spec_route_id = route_id route,
           spec_binding = probe_binding_fingerprint env route reliability candidate client,
           spec_candidate = candidate, spec_reliability = reliability, spec_client = client\<rparr>)
        (aget (credential_clients generation) (client_key deployment)))"

definition probe_route_specs ::
    "Externals \<Rightarrow> RuntimeGeneration \<Rightarrow> RouteSnapshot \<Rightarrow> (uuid \<times> ProbeSpec) list" where
  "probe_route_specs env generation route =
     (if \<not> route_active route then []
      else case option_filter (\<lambda>policy. rp_active policy \<and> probe_enabled (probe_policy policy))
          (aget (reliability_policies (catalog (snapshot generation))) (reliability_policy_id route)) of
        None \<Rightarrow> []
      | Some reliability \<Rightarrow>
          List.map_filter (\<lambda>target. map_option (Pair (target_id target))
            (probe_target_spec env generation route reliability target)) (route_targets route))"

definition collect_probe_specs :: "Externals \<Rightarrow> RuntimeGeneration \<Rightarrow> (uuid \<times> ProbeSpec) list" where
  "collect_probe_specs env generation =
     fold (\<lambda>(tid, spec) specs. aput tid spec specs)
       (concat (map (probe_route_specs env generation \<circ> snd) (routes (catalog (snapshot generation))))) []"

text \<open>The plan follows the published revision; observations of targets that left it are dropped.\<close>

definition refresh_probe_plan ::
    "Externals \<Rightarrow> RuntimeGeneration \<Rightarrow> ProbePlan \<Rightarrow> observations \<Rightarrow> ProbePlan \<times> observations" where
  "refresh_probe_plan env generation plan observations =
     (if plan_revision plan = revision (snapshot generation) then (plan, observations)
      else
        let specs = collect_probe_specs env generation in
        (\<lparr>plan_revision = revision (snapshot generation), plan_specs = specs\<rparr>,
         filter (\<lambda>(tid, _). aget specs tid \<noteq> None) observations))"

definition probe_spec :: "ProbePlan \<Rightarrow> uuid \<Rightarrow> ProbeSpec option" where
  "probe_spec plan tid = aget (plan_specs plan) tid"

definition probe_binding_is_current :: "ProbePlan \<Rightarrow> ProbeSpec \<Rightarrow> bool" where
  "probe_binding_is_current plan expected =
     (case aget (plan_specs plan) (target_id (cand_target (spec_candidate expected))) of
        None \<Rightarrow> False
      | Some spec \<Rightarrow> spec_binding spec = spec_binding expected)"

text \<open>The entry of one target: \<open>and_modify\<close>, or \<open>or_insert\<close>.\<close>

definition reconcile_entry ::
    "instant \<Rightarrow> uuid \<times> string \<Rightarrow> (uuid \<times> ScheduledProbe) list \<Rightarrow> (uuid \<times> ScheduledProbe) list" where
  "reconcile_entry now = (\<lambda>(tid, binding) schedule.
     (case aget schedule tid of
        Some scheduled \<Rightarrow>
          if sched_binding scheduled \<noteq> binding
          then aput tid \<lparr>sched_binding = binding, next_due = now\<rparr> schedule else schedule
      | None \<Rightarrow> aput tid \<lparr>sched_binding = binding, next_due = now\<rparr> schedule))"

definition reconcile_probe_schedule ::
    "(uuid \<times> ScheduledProbe) list \<Rightarrow> (uuid \<times> string) list \<Rightarrow> instant \<Rightarrow> (uuid \<times> ScheduledProbe) list" where
  "reconcile_probe_schedule schedule bindings now =
     fold (reconcile_entry now) bindings (filter (\<lambda>(tid, _). aget bindings tid \<noteq> None) schedule)"

subsection \<open>Launching the probes that are due\<close>

text \<open>
  The heap of pending probes is the list of its elements in ascending order.  The loop of
  \<open>run\<close> between two waits: it ends because every turn either launches a probe, puts
  an element past \<open>now\<close>, or removes one.
\<close>

record LaunchState =
  ls_schedule :: "(uuid \<times> ScheduledProbe) list"
  ls_due :: "(instant \<times> uuid) list"
  ls_in_flight :: "uuid set"
  ls_running :: nat
  ls_launched :: "ProbeSpec list"

definition due_of :: "(uuid \<times> ScheduledProbe) list \<Rightarrow> (instant \<times> uuid) list" where
  "due_of schedule = sort (map (\<lambda>(tid, scheduled). (next_due scheduled, tid)) schedule)"

definition due_weight :: "instant \<Rightarrow> uuid set \<Rightarrow> (instant \<times> uuid) list \<Rightarrow> nat" where
  "due_weight now busy due =
     sum_list (map (\<lambda>(t, tid). if now < t then 0 else if tid \<in> busy then 1 else 2) due)"

lemma due_weight_Cons: "due_weight now busy ((t, tid) # due)
    = (if now < t then 0 else if tid \<in> busy then 1 else 2) + due_weight now busy due"
  by (simp add: due_weight_def)

lemma due_weight_insort: "due_weight now busy (insort (t, tid) due)
    = (if now < t then 0 else if tid \<in> busy then 1 else 2) + due_weight now busy due"
  by (induction due) (auto simp: due_weight_def)

lemma due_weight_busy: "due_weight now (insert i busy) due \<le> due_weight now busy due"
  by (induction due) (auto simp: due_weight_def)

function launch_due ::
    "instant \<Rightarrow> (uuid \<times> ProbeSpec) list \<Rightarrow> (uuid \<times> ScheduledProbe) list \<Rightarrow> (instant \<times> uuid) list
      \<Rightarrow> uuid set \<Rightarrow> nat \<Rightarrow> ProbeSpec list \<Rightarrow> LaunchState" where
  "launch_due now specs schedule due in_flight running launched =
     (if running \<ge> MAX_CONCURRENT_PROBES then
        \<lparr>ls_schedule = schedule, ls_due = due, ls_in_flight = in_flight, ls_running = running,
         ls_launched = launched\<rparr>
      else case due of
        [] \<Rightarrow> \<lparr>ls_schedule = schedule, ls_due = due, ls_in_flight = in_flight, ls_running = running,
           ls_launched = launched\<rparr>
      | (t, tid) # rest \<Rightarrow>
          if now < t then \<lparr>ls_schedule = schedule, ls_due = due, ls_in_flight = in_flight,
            ls_running = running, ls_launched = launched\<rparr>
          else if tid \<in> in_flight then
            let later = now + plan_refresh_interval in
            launch_due now specs
              (case aget schedule tid of
                 None \<Rightarrow> schedule | Some scheduled \<Rightarrow> aput tid (scheduled\<lparr>next_due := later\<rparr>) schedule)
              (insort (later, tid) rest) in_flight running launched
          else (case aget specs tid of
              None \<Rightarrow> launch_due now specs (adel tid schedule) rest in_flight running launched
            | Some spec \<Rightarrow>
                let later = now + duration_from_millis (interval_ms (probe_policy (spec_reliability spec))) in
                launch_due now specs
                  (aput tid \<lparr>sched_binding = spec_binding spec, next_due = later\<rparr> schedule)
                  (insort (later, tid) rest) (insert tid in_flight) (running + 1) (launched @ [spec])))"
  by pat_completeness auto

termination
proof (relation "measure (\<lambda>(now, specs, schedule, due, in_flight, running, launched).
    due_weight now in_flight due)", goal_cases)
  case (2 now specs schedule due in_flight running launched x rest t tid later)
  then show ?case by (auto simp: due_weight_Cons due_weight_insort plan_refresh_interval_def)
next
  case (3 now specs schedule due in_flight running launched x rest t tid)
  then show ?case by (auto simp: due_weight_Cons)
next
  case (4 now specs schedule due in_flight running launched x rest t tid spec later)
  then show ?case
    using due_weight_busy [of now tid in_flight rest] by (auto simp: due_weight_Cons due_weight_insort)
qed simp

declare launch_due.simps [simp del]

subsection \<open>Executing a probe\<close>

text \<open>
  What follows the attempt to take the lease: nothing, a look at the shared summary, or the
  probe itself under a permit of the protection state.  The global permit is given back when the
  probe returns.
\<close>

datatype ProbeStart =
  ProbeSkipped
| ProbeSync
| ProbeBlocked
| ProbeRunning TargetAttemptPermit

definition begin_probe ::
    "ProbeSpec \<Rightarrow> (CoordinatorError + bool) option \<Rightarrow> instant \<Rightarrow> uuid \<Rightarrow> instant \<Rightarrow> TargetProtectionState
      \<Rightarrow> TargetProtectionState \<times> ProbeStart" where
  "begin_probe spec lease now epoch release_now protection =
     (case lease of
        None \<Rightarrow> (protection, ProbeSkipped)
      | Some (Inl e) \<Rightarrow> (protection, ProbeSkipped)
      | Some (Inr acquired) \<Rightarrow>
          if \<not> acquired then (protection, ProbeSync)
          else (case try_acquire_global protection of
              (protection, Inl e) \<Rightarrow> (protection, ProbeSkipped)
            | (protection, Inr _) \<Rightarrow>
                (case try_acquire_target (spec_candidate spec) (circuit_policy (spec_reliability spec))
                    now epoch release_now protection of
                   (protection, Inr permit) \<Rightarrow> (protection, ProbeRunning permit)
                 | (protection, Inl CircuitOpen) \<Rightarrow> (release_global () protection, ProbeBlocked)
                 | (protection, Inl CapacityExhausted) \<Rightarrow> (release_global () protection, ProbeSkipped))))"

text \<open>The time limits of a probe, in milliseconds: the lease call, the lease itself, the request.\<close>

definition probe_limits :: "ProbeSpec \<Rightarrow> nat \<times> nat \<times> nat" where
  "probe_limits spec =
     (let policy = probe_policy (spec_reliability spec) in
      (min (timeout_ms policy) 250, interval_ms policy, timeout_ms policy))"

text \<open>The reading of a response: \<open>None\<close> is an error of the transport.\<close>

definition probe_response_outcome :: "nat option \<Rightarrow> ProbeRequestOutcome" where
  "probe_response_outcome response =
     (case response of
        None \<Rightarrow> ProbeTransportFailure
      | Some status \<Rightarrow>
          if 200 \<le> status \<and> status < 300 then ProbeSuccess status
          else if status \<in> {401, 403, 429} \<or> 500 \<le> status \<and> status < 600 then ProbeHttpFailure status
          else NoEvidence)"

fun probe_conclusion :: "ProbeRequestOutcome \<Rightarrow> (nat option \<times> string \<times> bool) option" where
  "probe_conclusion (ProbeSuccess status) = Some (Some status, ''success'', True)"
| "probe_conclusion (ProbeHttpFailure status) = Some (Some status, ''http_failure'', False)"
| "probe_conclusion NoEvidence = None"
| "probe_conclusion InvalidConfiguration = None"
| "probe_conclusion ProbeAuthenticationFailure = Some (None, ''authentication_failure'', False)"
| "probe_conclusion ProbeTransportFailure = Some (None, ''transport_failure'', False)"
| "probe_conclusion ProbeTimeout = Some (None, ''timeout'', False)"

subsection \<open>Observations\<close>

definition observation_replaces ::
    "TargetProbeObservation \<Rightarrow> TargetProbeObservation \<Rightarrow> instant \<Rightarrow> bool" where
  "observation_replaces existing candidate now \<longleftrightarrow>
     ths_binding_fingerprint (obs_summary existing) \<noteq> ths_binding_fingerprint (obs_summary candidate)
     \<or> now \<ge> fresh_until existing
     \<or> obs_outcome candidate \<noteq> ''shared''
     \<or> obs_outcome existing = ''shared''"

definition store_observation ::
    "uuid \<Rightarrow> TargetProbeObservation \<Rightarrow> instant \<Rightarrow> observations \<Rightarrow> observations" where
  "store_observation tid observation now observations =
     (case aget observations tid of
        None \<Rightarrow> aput tid observation observations
      | Some existing \<Rightarrow>
          if observation_replaces existing observation now then aput tid observation observations
          else observations)"

definition sorted_observations :: "observations \<Rightarrow> TargetProbeObservation list" where
  "sorted_observations observations =
     sort_key (\<lambda>observation. ths_target_id (obs_summary observation)) (map snd observations)"

text \<open>\<open>Instant::checked_sub\<close>.\<close>

definition instant_before :: "instant \<Rightarrow> nat \<Rightarrow> instant option" where
  "instant_before now elapsed = (if elapsed \<le> now then Some (now - elapsed) else None)"

definition sync_shared_observation ::
    "ProbeSpec \<Rightarrow> CoordinatorError + TargetHealthSummary \<times> nat \<Rightarrow> instant \<Rightarrow> instant \<Rightarrow> observations
      \<Rightarrow> observations" where
  "sync_shared_observation spec reply now store_now observations =
     (case reply of
        Inl e \<Rightarrow> observations
      | Inr (summary, remaining_ttl_ms) \<Rightarrow>
          let candidate = spec_candidate spec; d = cand_deployment candidate in
          if ths_binding_fingerprint summary \<noteq> spec_binding spec
             \<or> ths_deployment_id summary \<noteq> dep_id d \<or> ths_endpoint_id summary \<noteq> dep_endpoint_id d
             \<or> ths_credential_id summary \<noteq> dep_credential_id d
          then observations
          else
            store_observation (target_id (cand_target candidate))
              \<lparr>obs_summary = summary, obs_route_id = spec_route_id spec, obs_latency_millis = 0,
               obs_http_status = None, obs_outcome = ''shared'',
               fresh_until = now + min (duration_from_millis remaining_ttl_ms)
                 (duration_from_millis (stale_after_ms (health_policy (spec_reliability spec)))),
               obs_recovery_started_at = map_option (\<lambda>started.
                 case instant_before now (duration_from_millis (ths_observed_at_unix_ms summary - started)) of
                   None \<Rightarrow> now | Some t \<Rightarrow> t) (ths_recovery_started_at_unix_ms summary)\<rparr>
              store_now observations)"

text \<open>Milliseconds of a duration, within a u64.\<close>

definition duration_millis :: "nat \<Rightarrow> nat" where
  "duration_millis d = min (d div 1000000) u64_max"

text \<open>\<open>record_observation\<close>: the new observations, and the summary that is published.\<close>

definition record_observation ::
    "ProbeSpec \<Rightarrow> LocalTargetHealth \<Rightarrow> nat \<Rightarrow> nat option \<Rightarrow> string \<Rightarrow> nat \<Rightarrow> instant \<Rightarrow> instant \<Rightarrow> observations
      \<Rightarrow> observations \<times> TargetHealthSummary" where
  "record_observation spec local latency status outcome unix_now now store_now observations =
     (let candidate = spec_candidate spec; d = cand_deployment candidate;
          summary =
            \<lparr>ths_target_id = target_id (cand_target candidate), ths_deployment_id = dep_id d,
             ths_endpoint_id = dep_endpoint_id d, ths_credential_id = dep_credential_id d,
             ths_runtime_revision = spec_runtime_revision spec,
             ths_binding_fingerprint = spec_binding spec, ths_health_epoch = lth_health_epoch local,
             ths_category = lth_category local,
             ths_cooldown_until_unix_ms =
               map_option (\<lambda>remaining. saturating_add u64_max unix_now (duration_millis remaining))
                 (cooldown_remaining local),
             ths_recovery_started_at_unix_ms =
               map_option (\<lambda>elapsed. unix_now - duration_millis elapsed) (recovery_elapsed local),
             ths_observed_at_unix_ms = unix_now\<rparr> in
      (store_observation (target_id (cand_target candidate))
         \<lparr>obs_summary = summary, obs_route_id = spec_route_id spec, obs_latency_millis = latency,
          obs_http_status = status, obs_outcome = outcome,
          fresh_until = now + duration_from_millis (stale_after_ms (health_policy (spec_reliability spec))),
          obs_recovery_started_at = Option.bind (recovery_elapsed local) (instant_before now)\<rparr>
         store_now observations,
       summary))"

text \<open>
  The end of a probe: the evidence of an outcome reaches the circuits and the observations
  only while the binding that was probed is still the planned one.
\<close>

definition finish_probe ::
    "Externals \<Rightarrow> RuntimeGeneration \<Rightarrow> ProbeSpec \<Rightarrow> TargetAttemptPermit \<Rightarrow> ProbeRequestOutcome \<Rightarrow> nat
      \<Rightarrow> instant \<Rightarrow> uuid \<Rightarrow> nat \<Rightarrow> ProbePlan \<times> observations \<times> TargetProtectionState
      \<Rightarrow> (ProbePlan \<times> observations \<times> TargetProtectionState) \<times> TargetHealthSummary option" where
  "finish_probe env generation spec permit outcome latency now epoch unix_now state =
     (let (plan, observations, protection) = state;
          (plan, observations) = refresh_probe_plan env generation plan observations;
          dropped = release_global () (permit_drop now permit protection) in
      if \<not> probe_binding_is_current plan spec then ((plan, observations, dropped), None)
      else (case probe_conclusion outcome of
          None \<Rightarrow> ((plan, observations, dropped), None)
        | Some (status, outcome_class, success) \<Rightarrow>
            let protection = (if success then permit_success now permit protection
                  else permit_failure now epoch permit protection);
                (protection, local) = local_health now (spec_candidate spec) protection;
                (observations, summary) = record_observation spec local latency status outcome_class
                  unix_now now now observations in
            ((plan, observations, release_global () protection), Some summary)))"

text \<open>\<open>probe_now\<close>: the distinct targets asked for, in order, and those that have a plan.\<close>

definition first_seen :: "'a list \<Rightarrow> 'a list" where
  "first_seen xs = rev (remdups (rev xs))"

definition probe_now_start :: "ProbePlan \<Rightarrow> uuid list \<Rightarrow> TargetProbeRun \<times> ProbeSpec list" where
  "probe_now_start plan target_ids =
     (let unique = first_seen target_ids; specs = List.map_filter (probe_spec plan) unique in
      (\<lparr>run_requested = length unique, run_eligible = length specs, run_completed = 0\<rparr>, specs))"

subsection \<open>Which candidates an observation admits\<close>

definition recovery_sample :: "Externals \<Rightarrow> uuid \<Rightarrow> uuid \<Rightarrow> string \<Rightarrow> nat" where
  "recovery_sample env target epoch affinity_hash =
     be_value (take 8 (sha256 env (''owlrora/recovery-ramp-v1'' @ [CHR 0x00]
       @ uuid_bytes env target @ uuid_bytes env epoch @ affinity_hash)))"

definition deterministic_recovery_sample ::
    "Externals \<Rightarrow> uuid \<Rightarrow> uuid \<Rightarrow> string \<Rightarrow> nat \<Rightarrow> nat \<Rightarrow> bool" where
  "deterministic_recovery_sample env target epoch affinity_hash elapsed recovery_duration =
     (if elapsed \<ge> recovery_duration then True
      else if elapsed = 0 \<or> recovery_duration = 0 then False
      else recovery_sample env target epoch affinity_hash
             < saturating_mul u128_max elapsed (2 ^ 64) div recovery_duration)"

definition local_health_decision ::
    "Externals \<Rightarrow> LocalTargetHealth \<Rightarrow> uuid \<Rightarrow> string \<Rightarrow> nat \<Rightarrow> bool option" where
  "local_health_decision env local target affinity_hash recovery_duration =
     (case lth_category local of
        HealthOpen \<Rightarrow> Some False
      | HealthRecovering \<Rightarrow> map_option (\<lambda>elapsed.
          deterministic_recovery_sample env target (lth_health_epoch local) affinity_hash elapsed
            recovery_duration) (recovery_elapsed local)
      | _ \<Rightarrow> None)"

text \<open>\<open>Instant::duration_since\<close> is zero for an instant to come.\<close>

definition observation_allows_candidate ::
    "Externals \<Rightarrow> TargetProbeObservation \<Rightarrow> string \<Rightarrow> string \<Rightarrow> nat \<Rightarrow> instant \<Rightarrow> bool" where
  "observation_allows_candidate env observation binding affinity_hash recovery_duration now =
     (if ths_binding_fingerprint (obs_summary observation) \<noteq> binding \<or> now \<ge> fresh_until observation
      then True
      else (case ths_category (obs_summary observation) of
          HealthOpen \<Rightarrow> False
        | HealthUnavailable \<Rightarrow> False
        | HealthRecovering \<Rightarrow>
            (case obs_recovery_started_at observation of
               None \<Rightarrow> False
             | Some started \<Rightarrow>
                 deterministic_recovery_sample env (ths_target_id (obs_summary observation))
                   (ths_health_epoch (obs_summary observation)) affinity_hash (now - started)
                   recovery_duration)
        | _ \<Rightarrow> True))"

definition allows_candidate ::
    "Externals \<Rightarrow> RuntimeGeneration \<Rightarrow> RouteSnapshot \<Rightarrow> Candidate \<Rightarrow> ReliabilityPolicySnapshot \<Rightarrow> string
      \<Rightarrow> instant \<Rightarrow> instant \<Rightarrow> observations \<Rightarrow> TargetProtectionState \<Rightarrow> TargetProtectionState \<times> bool" where
  "allows_candidate env generation route candidate reliability affinity_hash now later observations
       protection =
     (case aget (credential_clients generation) (client_key (cand_deployment candidate)) of
        None \<Rightarrow> (protection, False)
      | Some client \<Rightarrow>
          let binding = probe_binding_fingerprint env route reliability candidate client;
              recovery_duration = duration_from_millis (recovery_duration_ms (circuit_policy reliability));
              (protection, local) = local_health now candidate protection in
          (protection,
           case local_health_decision env local (target_id (cand_target candidate)) affinity_hash
               recovery_duration of
             Some allows \<Rightarrow> allows
           | None \<Rightarrow>
               (case aget observations (target_id (cand_target candidate)) of
                  None \<Rightarrow> True
                | Some observation \<Rightarrow>
                    observation_allows_candidate env observation binding affinity_hash
                      recovery_duration later)))"

subsection \<open>The URL of a probe\<close>

text \<open>The parts of a parsed URL that are compared; \<open>url_join\<close> is the URL package's.\<close>

record ParsedUrl =
  url_scheme :: string
  url_host :: "string option"
  url_port :: "nat option"
  url_username :: string
  url_password :: "string option"
  url_query :: "string option"
  url_fragment :: "string option"
  url_text :: string

definition probe_url :: "(ParsedUrl \<Rightarrow> string \<Rightarrow> ParsedUrl option) \<Rightarrow> ParsedUrl \<Rightarrow> string \<Rightarrow> ParsedUrl option" where
  "probe_url url_join base path =
     (if path = [] \<or> hd path \<noteq> CHR ''/'' \<or> take 2 path = ''//'' \<or> CHR ''?'' \<in> set path
         \<or> CHR ''#'' \<in> set path \<or> has_control path
      then None
      else option_filter (\<lambda>candidate.
          url_scheme candidate = url_scheme base \<and> url_host candidate = url_host base
          \<and> url_port candidate = url_port base \<and> url_username candidate = []
          \<and> url_password candidate = None \<and> url_query candidate = None \<and> url_fragment candidate = None)
        (url_join base path))"

subsection \<open>The heap and the schedule agree\<close>

definition due_matches :: "(uuid \<times> ScheduledProbe) list \<Rightarrow> (instant \<times> uuid) list \<Rightarrow> bool" where
  "due_matches schedule due \<longleftrightarrow>
     sorted due \<and> distinct (map snd due)
     \<and> (\<forall>t tid. (t, tid) \<in> set due \<longleftrightarrow> (\<exists>s. aget schedule tid = Some s \<and> t = next_due s))"

lemma distinct_insort_snd:
  "distinct (map snd xs) \<Longrightarrow> snd x \<notin> snd ` set xs \<Longrightarrow> distinct (map snd (insort x xs))"
  by (induction xs) (auto simp: set_insort_key)

lemma due_matches_due_of: "adistinct schedule \<Longrightarrow> due_matches schedule (due_of schedule)"
proof -
  assume distinct: "adistinct schedule"
  let ?due = "map (\<lambda>(tid, scheduled). (next_due scheduled, tid)) schedule"
  have "map snd ?due = map fst schedule" by (induction schedule) auto
  then have "distinct (map snd ?due)" using distinct unfolding adistinct_def by (simp only:)
  moreover have "mset (map snd (due_of schedule)) = mset (map snd ?due)"
    unfolding due_of_def by (simp only: mset_map mset_sort)
  ultimately have "distinct (map snd (due_of schedule))" using mset_eq_imp_distinct_iff by blast
  moreover have "(t, tid) \<in> set (due_of schedule) \<longleftrightarrow> (\<exists>s. aget schedule tid = Some s \<and> t = next_due s)" for t tid
  proof -
    have "(t, tid) \<in> set (due_of schedule) \<longleftrightarrow> (\<exists>s. (tid, s) \<in> set schedule \<and> t = next_due s)"
      unfolding due_of_def by (auto simp: rev_image_eqI)
    then show ?thesis using distinct by (simp add: adistinct_def)
  qed
  ultimately show ?thesis by (simp add: due_matches_def due_of_def)
qed

lemma due_matches_tail:
  assumes "due_matches schedule ((t, tid) # rest)"
  shows "due_matches (adel tid schedule) rest" "tid \<notin> snd ` set rest" "\<exists>s. aget schedule tid = Some s"
proof -
  have tl: "sorted rest" "distinct (map snd rest)" "tid \<notin> snd ` set rest"
    using assms by (auto simp: due_matches_def)
  have all: "\<And>u i. (u, i) \<in> set ((t, tid) # rest) \<longleftrightarrow> (\<exists>s. aget schedule i = Some s \<and> u = next_due s)"
    using assms unfolding due_matches_def by blast
  show "tid \<notin> snd ` set rest" "\<exists>s. aget schedule tid = Some s"
    using tl(3) all [of t tid] by auto
  have "(u, i) \<in> set rest \<longleftrightarrow> (\<exists>s. aget (adel tid schedule) i = Some s \<and> u = next_due s)" for u i
  proof (cases "i = tid")
    case True
    then show ?thesis using tl(3) by (force simp: aget_adel)
  next
    case False
    then show ?thesis using all [of u i] by (simp add: aget_adel)
  qed
  then show "due_matches (adel tid schedule) rest" using tl(1,2) by (simp add: due_matches_def)
qed

lemma due_matches_move:
  assumes "due_matches schedule ((t, tid) # rest)"
  shows "due_matches (aput tid s schedule) (insort (next_due s, tid) rest)"
proof -
  note tail = due_matches_tail [OF assms]
  have "distinct (map snd (insort (next_due s, tid) rest))"
    using tail(1,2) by (intro distinct_insort_snd) (simp_all add: due_matches_def)
  moreover have "sorted (insort (next_due s, tid) rest)"
    using tail(1) by (simp add: due_matches_def sorted_insort)
  moreover have "(u, i) \<in> set (insort (next_due s, tid) rest)
      \<longleftrightarrow> (\<exists>s'. aget (aput tid s schedule) i = Some s' \<and> u = next_due s')" for u i
  proof (cases "i = tid")
    case True
    then show ?thesis using tail(2) by (force simp: aget_aput set_insort_key)
  next
    case False
    have "(u, i) \<in> set rest \<longleftrightarrow> (\<exists>s'. aget (adel tid schedule) i = Some s' \<and> u = next_due s')"
      using tail(1) unfolding due_matches_def by blast
    then show ?thesis using False by (simp add: aget_aput aget_adel set_insort_key)
  qed
  ultimately show ?thesis by (simp add: due_matches_def)
qed

subsection \<open>What a turn of the scheduler does\<close>

text \<open>Each planned probe is filed under its own target.\<close>

definition spec_target :: "ProbeSpec \<Rightarrow> uuid" where
  "spec_target spec = target_id (cand_target (spec_candidate spec))"

definition specs_ok :: "(uuid \<times> ProbeSpec) list \<Rightarrow> bool" where
  "specs_ok specs \<longleftrightarrow> (\<forall>tid spec. aget specs tid = Some spec \<longrightarrow> spec_target spec = tid)"

lemma specs_ok_put:
  assumes "specs_ok specs" "spec_target spec = tid"
  shows "specs_ok (aput tid spec specs)"
  unfolding specs_ok_def aget_aput using assms unfolding specs_ok_def by (metis option.inject)

lemma collect_probe_specs_ok: "specs_ok (collect_probe_specs env generation)"
proof -
  let ?pairs = "concat (map (probe_route_specs env generation \<circ> snd) (routes (catalog (snapshot generation))))"
  have target: "spec_target spec = target_id target"
    if "probe_target_spec env generation route reliability target = Some spec" for spec target route reliability
    using that by (auto simp: probe_target_spec_def spec_target_def Let_def bind_eq_Some_conv)
  have pair: "spec_target spec = tid" if "(tid, spec) \<in> set (probe_route_specs env generation route)"
    for tid spec route
    using that
    by (auto simp: probe_route_specs_def List.map_filter_def dest: target split: if_splits option.splits)
  have put: "specs_ok (fold (\<lambda>(tid, spec) specs. aput tid spec specs) pairs acc)"
    if "\<forall>(tid, spec) \<in> set pairs. spec_target spec = tid" "specs_ok acc" for pairs acc
    using that
  proof (induction pairs arbitrary: acc)
    case (Cons pair pairs)
    obtain tid spec where "pair = (tid, spec)" by (cases pair)
    with Cons show ?case by (auto intro!: specs_ok_put)
  qed simp
  show ?thesis
    unfolding collect_probe_specs_def by (rule put) (auto simp: specs_ok_def dest: pair)
qed

definition launch_good :: "instant \<Rightarrow> uuid set \<Rightarrow> nat \<Rightarrow> ProbeSpec list \<Rightarrow> LaunchState \<Rightarrow> bool" where
  "launch_good now busy running launched r \<longleftrightarrow>
     due_matches (ls_schedule r) (ls_due r)
     \<and> (MAX_CONCURRENT_PROBES \<le> ls_running r \<or> (\<forall>(t, tid) \<in> set (ls_due r). now < t))
     \<and> (\<exists>new. ls_launched r = launched @ new \<and> ls_running r = running + length new
          \<and> distinct (map spec_target new) \<and> spec_target ` set new \<inter> busy = {}
          \<and> ls_in_flight r = busy \<union> spec_target ` set new
          \<and> ls_running r \<le> max running MAX_CONCURRENT_PROBES)"

lemma launch_good_more:
  assumes "launch_good now (insert tid busy) (running + 1) (launched @ [spec]) r"
    and "spec_target spec = tid" "tid \<notin> busy" "running < MAX_CONCURRENT_PROBES"
  shows "launch_good now busy running launched r"
proof -
  obtain new where new: "ls_launched r = (launched @ [spec]) @ new" "ls_running r = running + 1 + length new"
      "distinct (map spec_target new)" "spec_target ` set new \<inter> insert tid busy = {}"
      "ls_in_flight r = insert tid busy \<union> spec_target ` set new"
      "ls_running r \<le> max (running + 1) MAX_CONCURRENT_PROBES"
    using assms(1) unfolding launch_good_def by blast
  have "distinct (map spec_target (spec # new))" "spec_target ` set (spec # new) \<inter> busy = {}"
    using new(3,4) assms(2,3) by auto
  moreover have "ls_in_flight r = busy \<union> spec_target ` set (spec # new)"
    using new(5) assms(2) by simp
  moreover have "ls_launched r = launched @ (spec # new)" "ls_running r = running + length (spec # new)"
    using new(1,2) by simp_all
  moreover have "ls_running r \<le> max running MAX_CONCURRENT_PROBES" using new(6) assms(4) by simp
  ultimately show ?thesis using assms(1) unfolding launch_good_def by blast
qed

lemma launch_due_good:
  assumes "specs_ok specs"
  shows "due_matches schedule due
    \<Longrightarrow> launch_good now busy running launched (launch_due now specs schedule due busy running launched)"
  using assms
proof (induction now specs schedule due busy running launched rule: launch_due.induct)
  case (1 now specs schedule due busy running launched)
  note simps = launch_due.simps [of now specs schedule due busy running launched]
  show ?case
  proof (cases "MAX_CONCURRENT_PROBES \<le> running \<or> due = [] \<or> now < fst (hd due)")
    case True
    then have "launch_due now specs schedule due busy running launched
        = \<lparr>ls_schedule = schedule, ls_due = due, ls_in_flight = busy, ls_running = running,
           ls_launched = launched\<rparr>"
      by (auto simp: simps split: list.splits)
    moreover have "MAX_CONCURRENT_PROBES \<le> running \<or> (\<forall>(t, tid) \<in> set due. now < t)"
    proof (cases "MAX_CONCURRENT_PROBES \<le> running \<or> due = []")
      case False
      then obtain x rest where "due = x # rest" "now < fst x" using True by (cases due) auto
      moreover have "fst x \<le> fst y" if "y \<in> set rest" for y
        using that "1.prems"(1) calculation(1) by (auto simp: due_matches_def less_eq_prod_def)
      ultimately show ?thesis by fastforce
    qed auto
    ultimately show ?thesis using "1.prems"(1) by (auto simp: launch_good_def)
  next
    case False
    then obtain t tid rest where due: "due = (t, tid) # rest" "\<not> now < t"
      and free: "\<not> MAX_CONCURRENT_PROBES \<le> running" by (cases due) auto
    note simps = launch_due.simps [of now specs schedule "(t, tid) # rest" busy running launched]
    note move = due_matches_move [OF "1.prems"(1) [unfolded due(1)]]
      and tail = due_matches_tail [OF "1.prems"(1) [unfolded due(1)]]
    show ?thesis
    proof (cases "tid \<in> busy")
      case True
      obtain s where "aget schedule tid = Some s" using tail(3) by blast
      then show ?thesis
        using "1.IH"(1) [OF free due(1) refl due(2) True refl] move [of "s\<lparr>next_due := now + plan_refresh_interval\<rparr>"]
          "1.prems"(2) True due free by (simp add: simps Let_def)
    next
      case fresh: False
      show ?thesis
      proof (cases "aget specs tid")
        case None
        then show ?thesis
          using "1.IH"(2) [OF free due(1) refl due(2) fresh None] tail(1) "1.prems"(2) fresh due free
          by (simp add: simps)
      next
        case (Some spec)
        let ?s = "\<lparr>sched_binding = spec_binding spec,
          next_due = now + duration_from_millis (interval_ms (probe_policy (spec_reliability spec)))\<rparr>"
        have "spec_target spec = tid" using "1.prems"(2) Some by (simp add: specs_ok_def)
        then show ?thesis
          using "1.IH"(3) [OF free due(1) refl due(2) fresh Some refl] move [of ?s] "1.prems"(2) fresh due free
            Some launch_good_more [of now tid busy running launched spec] by (simp add: simps Let_def)
      qed
    qed
  qed
qed

text \<open>
  A turn of the probe scheduler ends, and when it does either the limit of concurrent
  probes is reached or nothing that is due is left.  Every probe it launches is for a target that
  has none in flight, no target twice, never more than the limit; and the heap still holds exactly
  the scheduled targets at their next time, so no target is forgotten.
\<close>

theorem probe_scheduler_turn:
  assumes "specs_ok specs" "adistinct schedule"
    and "r = launch_due now specs schedule (due_of schedule) busy running []"
  shows "due_matches (ls_schedule r) (ls_due r)
    \<and> (MAX_CONCURRENT_PROBES \<le> ls_running r \<or> (\<forall>(t, tid) \<in> set (ls_due r). now < t))
    \<and> distinct (map spec_target (ls_launched r)) \<and> spec_target ` set (ls_launched r) \<inter> busy = {}
    \<and> ls_in_flight r = busy \<union> spec_target ` set (ls_launched r)
    \<and> ls_running r = running + length (ls_launched r) \<and> ls_running r \<le> max running MAX_CONCURRENT_PROBES"
proof -
  have "launch_good now busy running [] r"
    unfolding assms(3) by (rule launch_due_good [OF assms(1) due_matches_due_of [OF assms(2)]])
  then show ?thesis by (auto simp: launch_good_def)
qed

text \<open>
  The recovery ramp admits a request for good.  While a target recovers, a request that was
  admitted at one moment is admitted at every later one; at the start none is, and once the
  recovery period is over all are.
\<close>

theorem recovery_ramp_monotone:
  assumes "elapsed \<le> later" "0 < d"
  shows "(deterministic_recovery_sample env target epoch h elapsed d
      \<longrightarrow> deterministic_recovery_sample env target epoch h later d)
    \<and> \<not> deterministic_recovery_sample env target epoch h 0 d
    \<and> deterministic_recovery_sample env target epoch h d d"
proof -
  have "saturating_mul u128_max elapsed n div d \<le> saturating_mul u128_max later n div d" for n
    using assms(1) by (intro div_le_mono) (simp add: saturating_mul_def min.coboundedI1 le_diff_conv)
  then show ?thesis
    using assms by (auto simp: deterministic_recovery_sample_def split: if_splits intro: less_le_trans)
qed

lemma recovery_ramp_monotone_witness:
  "\<not> deterministic_recovery_sample sample_env 5 6 ''h'' 0 4 \<and> deterministic_recovery_sample sample_env 5 6 ''h'' 4 4"
  using recovery_ramp_monotone [of 0 4 4 sample_env 5 6 "''h''"] by simp

definition reconciled :: "instant \<Rightarrow> string \<Rightarrow> ScheduledProbe option \<Rightarrow> ScheduledProbe" where
  "reconciled now binding scheduled =
     (case scheduled of
        None \<Rightarrow> \<lparr>sched_binding = binding, next_due = now\<rparr>
      | Some scheduled \<Rightarrow> if sched_binding scheduled = binding then scheduled
          else \<lparr>sched_binding = binding, next_due = now\<rparr>)"

lemma aget_reconcile_entry:
  "aget (reconcile_entry now (i, b) schedule) tid
    = (if tid = i then Some (reconciled now b (aget schedule i)) else aget schedule tid)"
  by (auto simp: reconcile_entry_def reconciled_def aget_aput split: option.split)

lemma reconcile_bindings:
  assumes "adistinct bindings"
  shows "aget (fold (reconcile_entry now) bindings schedule) tid
    = (case aget bindings tid of
         None \<Rightarrow> aget schedule tid | Some binding \<Rightarrow> Some (reconciled now binding (aget schedule tid)))"
  using assms
proof (induction bindings arbitrary: schedule)
  case (Cons x bindings)
  obtain i b where x: "x = (i, b)" by (cases x)
  have rest: "adistinct bindings" "aget bindings i = None"
    using Cons.prems x by (auto simp: adistinct_def map_of_eq_None_iff)
  show ?case
    using rest(2) by (simp add: x Cons.IH [OF rest(1)] aget_reconcile_entry split: option.split)
qed simp

text \<open>
  When the plan changes, the schedule holds exactly the planned targets; a target whose
  binding is unchanged keeps the time of its next probe, and a new or changed one is due at once.
\<close>

theorem probe_schedule_reconciled:
  assumes "adistinct bindings"
  shows "aget (reconcile_probe_schedule schedule bindings now) tid
    = (case aget bindings tid of
         None \<Rightarrow> None
       | Some binding \<Rightarrow> Some (case aget schedule tid of
             None \<Rightarrow> \<lparr>sched_binding = binding, next_due = now\<rparr>
           | Some scheduled \<Rightarrow> if sched_binding scheduled = binding then scheduled
               else \<lparr>sched_binding = binding, next_due = now\<rparr>))"
  unfolding reconciled_def [symmetric] reconcile_probe_schedule_def reconcile_bindings [OF assms]
  by (auto simp: aget_filter_fst split: option.split)

subsection \<open>Witnesses\<close>

definition sample_reliability :: ReliabilityPolicySnapshot where
  "sample_reliability =
     \<lparr>rp_id = 1,
      attempt_policy = \<lparr>max_total_attempts = 2, max_same_target_retries = 0, max_distinct_failover_targets = 1\<rparr>,
      deadline_policy = \<lparr>overall_timeout_ms = 1000, connect_timeout_ms = 100, response_header_timeout_ms = 500,
        body_timeout_ms = 500, stream_idle_timeout_ms = 500, pre_commit_classification_timeout_ms = 500\<rparr>,
      retry_policy = \<lparr>conditions = {ConnectFailure}, initial_backoff_ms = 10, max_backoff_ms = 100,
        jitter_ratio_millis = 0, honor_retry_after = False\<rparr>,
      failover_policy = \<lparr>failover_enabled = True, require_replay_safe_request = True\<rparr>,
      commitment_policy = \<lparr>stream_precommit_buffer_bytes = 1024, stream_precommit_buffer_events = 8\<rparr>,
      health_policy = \<lparr>shared_summary_ttl_ms = 1000, stale_after_ms = 1000\<rparr>,
      circuit_policy = \<lparr>failure_threshold = 1, success_threshold = 1, open_duration_ms = 100,
        max_open_duration_ms = 200, half_open_max_requests = 1, recovery_duration_ms = 100\<rparr>,
      probe_policy = \<lparr>probe_enabled = True, interval_ms = 1000, timeout_ms = 200, probe_path = ''/health''\<rparr>,
      rp_config_version = 1, rp_active = True\<rparr>"

definition sample_probed :: Candidate where
  "sample_probed =
     \<lparr>cand_target =
        \<lparr>target_id = 5, target_deployment_id = 3, affinity_identity = [], priority = 0, weight = 1,
         narrowing_constraints = \<lparr>narrow_max_output_units = None, narrow_max_context_units = None\<rparr>,
         timeout_overrides = \<lparr>connect_timeout_override_ms = None,
           response_header_timeout_override_ms = None, body_timeout_override_ms = None,
           stream_idle_timeout_override_ms = None\<rparr>\<rparr>,
      cand_deployment =
        \<lparr>dep_id = 3, dep_scope = ScopeDeployment, dep_organization_id = None, dep_endpoint_id = 1,
         dep_endpoint_adapter = AdapterOpenaiApi, dep_endpoint_config_version = 1,
         dep_credential_id = 2, dep_credential_state_identity_version = 1,
         dep_credential_secret_version_id = 4, dep_credential_secret_version = 1,
         dep_credential_kind = StaticApiKey, dep_transport_kind = TransportOpenaiResponsesHttp,
         upstream_model_id = ''m'', dep_capabilities = {}, context_limits = JNull,
         state_isolation_profile = JNull, pricing_policy_version_id = None, dep_pricing = None,
         dep_config_version = 1, dep_origin = SystemProvided, operational = True\<rparr>,
      client_build_fingerprint = []\<rparr>"

definition sample_client :: CredentialClient where
  "sample_client =
     \<lparr>client_credential_key = client_key (cand_deployment sample_probed), client_base_url = ''https://p'',
      client_adapter = AdapterOpenaiApi, endpoint_connect_timeout_ms = 100,
      client_max_request_body_bytes = 1000, client_max_response_body_bytes = 1000, build_fingerprint = []\<rparr>"

definition sample_spec :: ProbeSpec where
  "sample_spec = \<lparr>spec_runtime_revision = 1, spec_route_id = 9, spec_binding = ''b'',
     spec_candidate = sample_probed, spec_reliability = sample_reliability, spec_client = sample_client\<rparr>"

text \<open>Two targets are due; one has a plan and is launched, the other has lost it.\<close>

definition sample_schedule :: "(uuid \<times> ScheduledProbe) list" where
  "sample_schedule = [(5, \<lparr>sched_binding = ''b'', next_due = 3\<rparr>), (6, \<lparr>sched_binding = ''c'', next_due = 7\<rparr>)]"

definition sample_turn :: LaunchState where
  "sample_turn = launch_due 7 [(5, sample_spec)] sample_schedule (due_of sample_schedule) {} 0 []"

lemma sample_turn_launches: "ls_launched sample_turn = [sample_spec]"
  by (simp add: sample_turn_def sample_schedule_def due_of_def launch_due.simps MAX_CONCURRENT_PROBES_def
      Let_def sample_spec_def sample_reliability_def duration_from_millis_def)

lemma probe_scheduler_turn_witness:
  "ls_launched sample_turn = [sample_spec] \<and> ls_in_flight sample_turn = {5} \<and> ls_running sample_turn = 1"
proof -
  have "specs_ok [(5, sample_spec)]" "adistinct sample_schedule"
    by (simp_all add: specs_ok_def sample_spec_def spec_target_def sample_probed_def adistinct_def
        sample_schedule_def)
  from probe_scheduler_turn [OF this sample_turn_def] sample_turn_launches show ?thesis
    by (simp add: sample_spec_def spec_target_def sample_probed_def)
qed

lemma probe_schedule_reconciled_witness:
  "aget (reconcile_probe_schedule sample_schedule [(5, ''b''), (8, ''d'')] 9) 5
     = Some \<lparr>sched_binding = ''b'', next_due = 3\<rparr>
   \<and> aget (reconcile_probe_schedule sample_schedule [(5, ''b''), (8, ''d'')] 9) 6 = None"
  by (simp add: probe_schedule_reconciled adistinct_def sample_schedule_def)

end
