(* ===== verification/Protocols.thy ===== *)
theory Protocols
  imports Runtime
begin

section \<open>Protocol families\<close>

text \<open>
  \<open>crates/owlrora-server/src/protocols/mod.rs\<close>: the error answers of the gateway, the
  inspection of a request of each protocol family (what it asks of the route, the key and the
  target).  Text is a list of bytes, written as characters.
  \<open>serde_json\<close>'s reader is the parameter \<open>from_slice\<close>; a header list gives each value with the
  result of \<open>to_str\<close>.  The body that is sent upstream is built by \<open>adapters/provider/wire.rs\<close>
  (\<^theory_text>\<open>Wire\<close>); the adaptation of this file is called by its unit test only.
\<close>

definition MAX_JSON_DEPTH :: nat where "MAX_JSON_DEPTH = 128"
definition MAX_JSON_NODES :: nat where "MAX_JSON_NODES = 100000"
definition ANTHROPIC_VERSION :: string where "ANTHROPIC_VERSION = ''2023-06-01''"

datatype ResponseMode = ModeJson | ModeSse | ModeWebSocket

record LlmIntent =
  intent_model_key :: string
  response_mode :: ResponseMode
  intent_required_scopes :: LlmScopeSet
  intent_required_capabilities :: "LlmFeatureCapability set"
  requested_output_bound :: "nat option"
  continuation_reference :: "string option"
  replay_safe :: bool

record NativeRequest =
  req_family :: IngressProtocolFamily
  original_body :: string
  envelope :: json
  intent :: LlmIntent

datatype ResponsesWebSocketClientEvent =
  EventCreate NativeRequest
| EventCancel string "string option"

subsection \<open>Errors\<close>

datatype ProtocolErrorKind =
  ErrAuthentication | ErrConflictingAuthentication | ErrForbidden | ErrInvalidRequest
| ErrRequestTooLarge | ErrUnsupportedCapability | ErrRouteUnavailable | ErrStateOriginUnavailable
| ErrRateLimited | ErrBudgetDenied | ErrOverloaded | ErrUpstreamUnavailable | ErrDeadlineExceeded
| ErrInternal

record ProtocolError =
  perr_family :: IngressProtocolFamily
  perr_kind :: ProtocolErrorKind
  perr_request_id :: string
  perr_message :: string

definition ProtocolError_new ::
    "IngressProtocolFamily \<Rightarrow> ProtocolErrorKind \<Rightarrow> string \<Rightarrow> string \<Rightarrow> ProtocolError" where
  "ProtocolError_new family kind request_id message =
     \<lparr>perr_family = family, perr_kind = kind, perr_request_id = request_id, perr_message = message\<rparr>"

fun error_status :: "ProtocolErrorKind \<Rightarrow> nat" where
  "error_status ErrAuthentication = 401"
| "error_status ErrConflictingAuthentication = 401"
| "error_status ErrForbidden = 403"
| "error_status ErrInvalidRequest = 400"
| "error_status ErrRequestTooLarge = 413"
| "error_status ErrUnsupportedCapability = 422"
| "error_status ErrStateOriginUnavailable = 503"
| "error_status ErrRouteUnavailable = 503"
| "error_status ErrRateLimited = 429"
| "error_status ErrBudgetDenied = 429"
| "error_status ErrOverloaded = 503"
| "error_status ErrUpstreamUnavailable = 503"
| "error_status ErrInternal = 503"
| "error_status ErrDeadlineExceeded = 504"

fun error_code :: "ProtocolErrorKind \<Rightarrow> string" where
  "error_code ErrAuthentication = ''invalid_api_key''"
| "error_code ErrConflictingAuthentication = ''conflicting_credentials''"
| "error_code ErrForbidden = ''forbidden''"
| "error_code ErrInvalidRequest = ''invalid_request''"
| "error_code ErrRequestTooLarge = ''request_too_large''"
| "error_code ErrUnsupportedCapability = ''unsupported_capability''"
| "error_code ErrRouteUnavailable = ''route_unavailable''"
| "error_code ErrStateOriginUnavailable = ''state_origin_unavailable''"
| "error_code ErrRateLimited = ''rate_limit_exceeded''"
| "error_code ErrBudgetDenied = ''budget_exceeded''"
| "error_code ErrOverloaded = ''gateway_overloaded''"
| "error_code ErrUpstreamUnavailable = ''upstream_unavailable''"
| "error_code ErrDeadlineExceeded = ''deadline_exceeded''"
| "error_code ErrInternal = ''internal_error''"

definition gemini_status :: "nat \<Rightarrow> string" where
  "gemini_status status =
     (if status = 400 then ''INVALID_ARGUMENT'' else if status = 401 then ''UNAUTHENTICATED''
      else if status = 403 then ''PERMISSION_DENIED'' else if status = 413 then ''RESOURCE_EXHAUSTED''
      else if status = 422 then ''FAILED_PRECONDITION'' else if status = 429 then ''RESOURCE_EXHAUSTED''
      else if status = 504 then ''DEADLINE_EXCEEDED'' else ''UNAVAILABLE'')"

definition JNat :: "nat \<Rightarrow> json" where
  "JNat n = JNumber (PosInt n)"

definition error_body :: "ProtocolError \<Rightarrow> json" where
  "error_body self =
     (let code = JString (error_code (perr_kind self)); status = error_status (perr_kind self);
          message = JString (perr_message self); request = (''request_id'', JString (perr_request_id self)) in
      case perr_family self of
        IngressAnthropicMessages \<Rightarrow>
          JObject [(''type'', JString ''error''),
            (''error'', JObject [(''type'', code), (''message'', message)]), request]
      | IngressGoogleGemini \<Rightarrow>
          JObject [(''error'', JObject [(''code'', JNat status), (''message'', message),
              (''status'', JString (gemini_status status)), (''details'', JArray [])]), request]
      | _ \<Rightarrow>
          JObject [(''error'', JObject [(''message'', message), (''type'', code), (''param'', JNull),
              (''code'', code)]), request])"

definition into_response :: "ProtocolError \<Rightarrow> nat \<times> json" where
  "into_response self = (error_status (perr_kind self), error_body self)"

definition invalid :: "IngressProtocolFamily \<Rightarrow> string \<Rightarrow> string \<Rightarrow> ProtocolError" where
  "invalid family request_id message = ProtocolError_new family ErrInvalidRequest request_id message"

text \<open>\<open>map_err(|message| invalid(family, request_id, message))\<close>\<close>

definition or_invalid ::
    "IngressProtocolFamily \<Rightarrow> string \<Rightarrow> string + 'a \<Rightarrow> ProtocolError + 'a" where
  "or_invalid family request_id r =
     (case r of Inl message \<Rightarrow> Inl (invalid family request_id message) | Inr v \<Rightarrow> Inr v)"

lemma or_invalid_Inr [simp]: "or_invalid family request_id r = Inr v \<longleftrightarrow> r = Inr v"
  by (cases r) (simp_all add: or_invalid_def)

subsection \<open>Reading fields\<close>

type_synonym json_object = "(string \<times> json) list"

fun json_as_object :: "json \<Rightarrow> json_object option" where
  "json_as_object (JObject members) = Some members"
| "json_as_object _ = None"

fun json_as_array :: "json \<Rightarrow> json list option" where
  "json_as_array (JArray elements) = Some elements"
| "json_as_array _ = None"

fun json_as_bool :: "json \<Rightarrow> bool option" where
  "json_as_bool (JBool b) = Some b"
| "json_as_bool _ = None"

lemma json_as_object_Some: "json_as_object v = Some members \<longleftrightarrow> v = JObject members"
  by (cases v) simp_all

definition contains_key :: "json_object \<Rightarrow> string \<Rightarrow> bool" where
  "contains_key object field \<longleftrightarrow> aget object field \<noteq> None"

definition str_field :: "json_object \<Rightarrow> string \<Rightarrow> string option" where
  "str_field object field = Option.bind (aget object field) json_as_str"

definition bounded_string :: "nat \<Rightarrow> json \<Rightarrow> string + string" where
  "bounded_string m v =
     ok_or ''string field is invalid'' (option_filter (\<lambda>s. s \<noteq> [] \<and> length s \<le> m) (json_as_str v))"

definition optional_bounded_string :: "json_object \<Rightarrow> string \<Rightarrow> nat \<Rightarrow> string + string option" where
  "optional_bounded_string object field m =
     (case aget object field of
        None \<Rightarrow> Inr None | Some v \<Rightarrow> result_bind (bounded_string m v) (\<lambda>s. Inr (Some s)))"

definition required_bounded_string :: "json_object \<Rightarrow> string \<Rightarrow> nat \<Rightarrow> string + string" where
  "required_bounded_string object field m =
     result_bind (optional_bounded_string object field m) (ok_or ''required string field is missing'')"

definition optional_nullable_bounded_string :: "json_object \<Rightarrow> string \<Rightarrow> nat \<Rightarrow> string + string option" where
  "optional_nullable_bounded_string object field m =
     (case aget object field of
        None \<Rightarrow> Inr None
      | Some JNull \<Rightarrow> Inr None
      | Some v \<Rightarrow> result_bind (bounded_string m v) (\<lambda>s. Inr (Some s)))"

definition optional_bool :: "json_object \<Rightarrow> string \<Rightarrow> string + bool option" where
  "optional_bool object field =
     (case aget object field of
        None \<Rightarrow> Inr None
      | Some v \<Rightarrow> result_bind (ok_or ''boolean field is invalid'' (json_as_bool v)) (\<lambda>b. Inr (Some b)))"

fun contains_text :: "string \<Rightarrow> string \<Rightarrow> bool" where
  "contains_text p [] \<longleftrightarrow> p = []"
| "contains_text p (c # cs) \<longleftrightarrow> starts_with p (c # cs) \<or> contains_text p cs"

definition validate_model_key :: "string \<Rightarrow> string + unit" where
  "validate_model_key s =
     (if s = [] \<or> length s > 512 \<or> has_control s \<or> starts_with ''/'' s \<or> contains_text ''..'' s
      then Inl ''model must be a bounded route key'' else Inr ())"

subsection \<open>The complexity of a document\<close>

fun json_children :: "json \<Rightarrow> json list" where
  "json_children (JArray elements) = elements"
| "json_children (JObject members) = map snd members"
| "json_children _ = []"

lemma json_children_size:
  assumes "c \<in> set (json_children v)"
  shows "size c < size v"
proof (cases v)
  case (JArray elements)
  then have "size c \<le> size_list size elements"
    using assms by (intro size_list_estimation' [of c]) simp_all
  then show ?thesis using JArray by simp
next
  case (JObject members)
  then obtain k where "(k, c) \<in> set members" using assms by auto
  then have "size c \<le> size_list (size_prod (\<lambda>_. 0) size) members"
    by (intro size_list_estimation' [of "(k, c)"]) simp_all
  then show ?thesis using JObject by simp
qed (use assms in auto)

text \<open>The reference: the number of values in a document, and the depth of the deepest.\<close>

function json_nodes :: "json \<Rightarrow> nat" where
  "json_nodes v = Suc (\<Sum>c\<leftarrow>json_children v. json_nodes c)"
  by pat_completeness auto

termination
  by (relation "measure size") (auto dest: json_children_size)

function json_depth :: "json \<Rightarrow> nat" where
  "json_depth v = foldr (\<lambda>c m. max (Suc (json_depth c)) m) (json_children v) 0"
  by pat_completeness auto

termination
  by (relation "measure size") (auto dest: json_children_size)

declare json_nodes.simps [simp del] json_depth.simps [simp del]

lemma json_nodes_pos: "0 < json_nodes v"
  by (subst json_nodes.simps) simp

lemma sum_list_rev_children:
  "(\<Sum>(c, d)\<leftarrow>rev (map (\<lambda>c. (c, Suc depth)) cs). f c) = (\<Sum>c\<leftarrow>cs. f c :: nat)"
  by (induction cs) simp_all

lemma json_children_nodes: "(\<Sum>c\<leftarrow>json_children v. json_nodes c) < json_nodes v"
  by (subst json_nodes.simps) simp

text \<open>The loop of \<open>validate_json_complexity\<close>; the head of the list is the top of the stack.\<close>

function complexity_loop :: "(json \<times> nat) list \<Rightarrow> nat \<Rightarrow> string + unit" where
  "complexity_loop [] nodes = Inr ()"
| "complexity_loop ((v, depth) # stack) nodes =
     (let nodes = saturating_add u64_max nodes 1 in
      if nodes > MAX_JSON_NODES \<or> depth > MAX_JSON_DEPTH then Inl ''request JSON is too complex''
      else complexity_loop (rev (map (\<lambda>c. (c, depth + 1)) (json_children v)) @ stack) nodes)"
  by pat_completeness auto

termination
  by (relation "measure (\<lambda>(stack, nodes). \<Sum>(c, d)\<leftarrow>stack. json_nodes c)")
    (simp_all add: sum_list_rev_children json_children_nodes)

declare complexity_loop.simps [simp del]

definition validate_json_complexity :: "json \<Rightarrow> string + unit" where
  "validate_json_complexity v = complexity_loop [(v, 0)] 0"

lemma foldr_max_le: "foldr (\<lambda>c m. max (f c) m) cs 0 \<le> (b :: nat) \<longleftrightarrow> (\<forall>c \<in> set cs. f c \<le> b)"
  by (induction cs) auto

lemma json_depth_le: "d + json_depth v \<le> b \<longleftrightarrow> d \<le> b \<and> (\<forall>c \<in> set (json_children v). d + 1 + json_depth c \<le> b)"
proof (cases "d \<le> b")
  case True
  then have "d + json_depth v \<le> b \<longleftrightarrow> json_depth v \<le> b - d" by linarith
  also have "\<dots> \<longleftrightarrow> (\<forall>c \<in> set (json_children v). Suc (json_depth c) \<le> b - d)"
    by (subst json_depth.simps) (simp add: foldr_max_le)
  also have "\<dots> \<longleftrightarrow> (\<forall>c \<in> set (json_children v). d + 1 + json_depth c \<le> b)"
    using True by (intro ball_cong refl) linarith
  finally show ?thesis using True by simp
qed simp

lemma complexity_loop_exact:
  assumes "nodes \<le> MAX_JSON_NODES"
  shows "complexity_loop stack nodes
    = (if nodes + (\<Sum>(v, d)\<leftarrow>stack. json_nodes v) \<le> MAX_JSON_NODES
          \<and> (\<forall>(v, d) \<in> set stack. d + json_depth v \<le> MAX_JSON_DEPTH)
       then Inr () else Inl ''request JSON is too complex'')"
  using assms
proof (induction stack nodes rule: complexity_loop.induct)
  case (2 v depth stack nodes)
  have plus: "saturating_add u64_max nodes (Suc 0) = Suc nodes"
    using "2.prems" by (simp add: saturating_add_def MAX_JSON_NODES_def u64_max_def)
  have total: "json_nodes v = Suc (\<Sum>c\<leftarrow>json_children v. json_nodes c)" by (rule json_nodes.simps)
  show ?case
  proof (cases "nodes + 1 > MAX_JSON_NODES \<or> depth > MAX_JSON_DEPTH")
    case True
    then show ?thesis
      using total by (auto simp: plus json_depth_le [of depth] complexity_loop.simps Let_def)
  next
    case False
    then show ?thesis
      using "2.IH" [OF refl] total
      by (simp add: plus ball_Un sum_list_rev_children json_depth_le [of depth v] add.assoc
          complexity_loop.simps Let_def)
  qed
qed (simp add: complexity_loop.simps)

lemma validate_json_complexity_iff:
  "validate_json_complexity v
    = (if json_nodes v \<le> MAX_JSON_NODES \<and> json_depth v \<le> MAX_JSON_DEPTH then Inr ()
       else Inl ''request JSON is too complex'')"
  by (simp add: validate_json_complexity_def complexity_loop_exact)

text \<open>
  The check of a document's complexity is exact.  The loop over an explicit stack ends,
  and it accepts a document just when it has at most 100000 values and none nested deeper than 128.
\<close>

theorem json_complexity_exact:
  "validate_json_complexity v
    = (if json_nodes v \<le> MAX_JSON_NODES \<and> json_depth v \<le> MAX_JSON_DEPTH then Inr ()
       else Inl ''request JSON is too complex'')"
  by (rule validate_json_complexity_iff)

subsection \<open>What a request asks for\<close>

type_synonym capabilities = "LlmFeatureCapability set"

definition insert_if_present ::
    "json_object \<Rightarrow> string list \<Rightarrow> LlmFeatureCapability \<Rightarrow> capabilities \<Rightarrow> capabilities" where
  "insert_if_present object names capability caps =
     (if list_ex (contains_key object) names then insert capability caps else caps)"

definition array_objects :: "json option \<Rightarrow> json_object list" where
  "array_objects v =
     (case Option.bind v json_as_array of
        None \<Rightarrow> [] | Some elements \<Rightarrow> List.map_filter json_as_object elements)"

definition scan_structured_output :: "json option \<Rightarrow> capabilities \<Rightarrow> capabilities" where
  "scan_structured_output v caps =
     (case Option.bind v json_as_object of
        None \<Rightarrow> caps
      | Some object \<Rightarrow>
          (case str_field object ''type'' of
             None \<Rightarrow> caps
           | Some kind \<Rightarrow>
               if kind = ''json_schema'' then insert FeatJsonSchema (insert FeatStructuredOutput caps)
               else if kind = ''json_object'' then insert FeatStructuredOutput caps else caps))"

definition scan_anthropic_block :: "json_object \<Rightarrow> capabilities \<Rightarrow> capabilities" where
  "scan_anthropic_block block caps =
     (let caps = (if contains_key block ''cache_control'' then insert FeatPromptCaching caps else caps) in
      case str_field block ''type'' of
        None \<Rightarrow> caps
      | Some kind \<Rightarrow>
          if kind = ''image'' then insert FeatImageInput caps
          else if kind = ''document'' then insert FeatDocumentInput caps
          else if kind \<in> {''thinking'', ''redacted_thinking''} then insert FeatOpaqueReasoningState caps
          else caps)"

definition scan_anthropic_content :: "json option \<Rightarrow> capabilities \<Rightarrow> capabilities" where
  "scan_anthropic_content v caps = fold scan_anthropic_block (array_objects v) caps"

definition scan_openai_block :: "json_object \<Rightarrow> capabilities \<Rightarrow> capabilities" where
  "scan_openai_block block caps =
     (case str_field block ''type'' of
        None \<Rightarrow> caps
      | Some kind \<Rightarrow>
          if kind \<in> {''image_url'', ''input_image''} then insert FeatImageInput caps
          else if kind \<in> {''input_audio'', ''audio''} then insert FeatAudioInput caps
          else if kind \<in> {''input_file'', ''file''} then insert FeatDocumentInput caps
          else caps)"

definition scan_openai_content :: "json option \<Rightarrow> capabilities \<Rightarrow> capabilities" where
  "scan_openai_content v caps = fold scan_openai_block (array_objects v) caps"

definition scan_gemini_part :: "json_object \<Rightarrow> capabilities \<Rightarrow> capabilities" where
  "scan_gemini_part part caps =
     (let caps = (if contains_key part ''thoughtSignature'' then insert FeatOpaqueReasoningState caps else caps);
          media = (case aget part ''inlineData'' of None \<Rightarrow> aget part ''fileData'' | Some v \<Rightarrow> Some v) in
      case Option.bind media json_as_object of
        None \<Rightarrow> caps
      | Some media \<Rightarrow>
          let mime = (case str_field media ''mimeType'' of None \<Rightarrow> [] | Some s \<Rightarrow> s) in
          if starts_with ''image/'' mime then insert FeatImageInput caps
          else if starts_with ''audio/'' mime then insert FeatAudioInput caps
          else insert FeatDocumentInput caps)"

definition scan_role :: "json_object \<Rightarrow> capabilities \<Rightarrow> capabilities" where
  "scan_role item caps =
     (case str_field item ''role'' of
        None \<Rightarrow> caps
      | Some role \<Rightarrow>
          if role = ''system'' then insert FeatSystemInstructions caps
          else if role = ''developer'' then insert FeatDeveloperInstructions caps else caps)"

definition scan_chat_message :: "json_object \<Rightarrow> capabilities \<Rightarrow> capabilities" where
  "scan_chat_message message caps =
     scan_openai_content (aget message ''content'')
       (insert_if_present message [''reasoning_content''] FeatOpaqueReasoningState (scan_role message caps))"

definition scan_responses_item :: "json_object \<Rightarrow> capabilities \<Rightarrow> capabilities" where
  "scan_responses_item item caps =
     (let caps = scan_role item caps in
      scan_openai_content (aget item ''content'')
        (if str_field item ''type'' = Some ''reasoning'' \<and> contains_key item ''encrypted_content''
         then insert FeatOpaqueReasoningState caps else caps))"

definition scan_generation_config :: "json_object \<Rightarrow> capabilities \<Rightarrow> capabilities" where
  "scan_generation_config generation caps =
     (let caps = insert_if_present generation [''responseMimeType''] FeatStructuredOutput caps;
          caps = (if contains_key generation ''responseSchema''
            then insert FeatJsonSchema (insert FeatStructuredOutput caps) else caps) in
      insert_if_present generation [''thinkingConfig''] FeatReasoningControls caps)"

definition anthropic_capabilities :: "json_object \<Rightarrow> capabilities" where
  "anthropic_capabilities object =
     (let caps = insert_if_present object [''tools'', ''tool_choice''] FeatTools {};
          caps = insert_if_present object [''system''] FeatSystemInstructions caps;
          caps = insert_if_present object [''thinking''] FeatReasoningControls caps;
          caps = scan_anthropic_content (aget object ''system'') caps;
          caps = (if list_ex (\<lambda>tool. contains_key tool ''cache_control'') (array_objects (aget object ''tools''))
            then insert FeatPromptCaching caps else caps) in
      fold (\<lambda>message. scan_anthropic_content (aget message ''content''))
        (array_objects (aget object ''messages'')) caps)"

definition chat_capabilities :: "json_object \<Rightarrow> capabilities" where
  "chat_capabilities object =
     (let caps = insert_if_present object [''tools'', ''tool_choice''] FeatTools {};
          caps = insert_if_present object [''parallel_tool_calls''] FeatParallelTools caps;
          caps = insert_if_present object [''reasoning_effort''] FeatReasoningControls caps;
          caps = insert_if_present object [''prompt_cache_key''] FeatPromptCaching caps;
          caps = scan_structured_output (aget object ''response_format'') caps in
      fold scan_chat_message (array_objects (aget object ''messages'')) caps)"

definition responses_capabilities :: "json_object \<Rightarrow> capabilities" where
  "responses_capabilities object =
     (let caps = insert_if_present object [''tools'', ''tool_choice''] FeatTools {};
          caps = insert_if_present object [''parallel_tool_calls''] FeatParallelTools caps;
          caps = insert_if_present object [''instructions''] FeatSystemInstructions caps;
          caps = insert_if_present object [''reasoning''] FeatReasoningControls caps;
          caps = insert_if_present object [''prompt_cache_key''] FeatPromptCaching caps;
          caps = (case Option.bind (Option.bind (aget object ''text'') json_as_object)
                (\<lambda>t. aget t ''format'') of
              None \<Rightarrow> caps | Some format \<Rightarrow> scan_structured_output (Some format) caps) in
      fold scan_responses_item (array_objects (aget object ''input'')) caps)"

definition gemini_capabilities :: "json_object \<Rightarrow> capabilities" where
  "gemini_capabilities object =
     (let caps = insert_if_present object [''tools'', ''toolConfig''] FeatTools {};
          caps = insert_if_present object [''systemInstruction''] FeatSystemInstructions caps;
          caps = insert_if_present object [''cachedContent''] FeatPromptCaching caps;
          caps = (case Option.bind (aget object ''generationConfig'') json_as_object of
              None \<Rightarrow> caps | Some generation \<Rightarrow> scan_generation_config generation caps) in
      fold (\<lambda>content. fold scan_gemini_part (array_objects (aget content ''parts'')))
        (array_objects (aget object ''contents'')) caps)"

fun collect_capabilities :: "IngressProtocolFamily \<Rightarrow> json_object \<Rightarrow> capabilities" where
  "collect_capabilities IngressAnthropicMessages object = anthropic_capabilities object"
| "collect_capabilities IngressOpenaiChatCompletions object = chat_capabilities object"
| "collect_capabilities IngressOpenaiResponses object = responses_capabilities object"
| "collect_capabilities IngressGoogleGemini object = gemini_capabilities object"

text \<open>\<open>LlmScopeSet::new\<close> never fails here: \<open>llm:invoke\<close> is in the set.\<close>

definition required_scopes :: "bool \<Rightarrow> capabilities \<Rightarrow> LlmScopeSet" where
  "required_scopes streaming caps =
     {LlmInvoke}
     \<union> (if streaming then {LlmStream} else {})
     \<union> (if FeatTools \<in> caps \<or> FeatParallelTools \<in> caps then {LlmTools} else {})
     \<union> (if \<exists>c \<in> caps. c \<in> {FeatImageInput, FeatAudioInput, FeatDocumentInput}
        then {LlmMultimodalInput} else {})
     \<union> (if FeatStructuredOutput \<in> caps \<or> FeatJsonSchema \<in> caps then {LlmStructuredOutput} else {})"

definition parse_positive_integer :: "json \<Rightarrow> string + nat" where
  "parse_positive_integer v =
     ok_or ''output token bound must be a positive integer'' (option_filter (\<lambda>n. n > 0) (json_as_u64 v))"

text \<open>The loop over the fields that may bound the output; the smallest bound counts.\<close>

fun smallest_bound :: "json_object \<Rightarrow> string list \<Rightarrow> nat option \<Rightarrow> string + nat option" where
  "smallest_bound object [] bound = Inr bound"
| "smallest_bound object (field # rest) bound =
     (case aget object field of
        None \<Rightarrow> smallest_bound object rest bound
      | Some v \<Rightarrow> result_bind (parse_positive_integer v) (\<lambda>n.
          smallest_bound object rest (Some (case bound of None \<Rightarrow> n | Some current \<Rightarrow> min current n))))"

fun output_bound :: "IngressProtocolFamily \<Rightarrow> json_object \<Rightarrow> string + nat option" where
  "output_bound IngressAnthropicMessages object = smallest_bound object [''max_tokens''] None"
| "output_bound IngressOpenaiChatCompletions object =
     smallest_bound object [''max_completion_tokens'', ''max_tokens''] None"
| "output_bound IngressOpenaiResponses object = smallest_bound object [''max_output_tokens''] None"
| "output_bound IngressGoogleGemini object =
     (case aget object ''generationConfig'' of
        None \<Rightarrow> Inr None
      | Some v \<Rightarrow> result_bind (ok_or ''generationConfig must be an object'' (json_as_object v))
          (\<lambda>generation. case aget generation ''maxOutputTokens'' of
             None \<Rightarrow> Inr None
           | Some n \<Rightarrow> result_bind (parse_positive_integer n) (\<lambda>n. Inr (Some n))))"

subsection \<open>Requests\<close>

definition parse_json_request ::
    "(string \<Rightarrow> json option) \<Rightarrow> IngressProtocolFamily \<Rightarrow> string \<Rightarrow> string \<Rightarrow> string option \<Rightarrow> bool option
      \<Rightarrow> ProtocolError + NativeRequest" where
  "parse_json_request from_slice family body request_id path_model path_streaming =
     (if body = [] then Inl (invalid family request_id ''request body must not be empty'')
      else
      result_bind (ok_or (invalid family request_id ''request body must be valid JSON'') (from_slice body))
        (\<lambda>envelope.
      result_bind (ok_or (invalid family request_id ''request body must be a JSON object'')
          (json_as_object envelope)) (\<lambda>object.
      result_bind (or_invalid family request_id (validate_json_complexity envelope)) (\<lambda>_.
      result_bind (case path_model of
            Some model \<Rightarrow> Inr model
          | None \<Rightarrow> or_invalid family request_id (required_bounded_string object ''model'' 512)) (\<lambda>model_key.
      result_bind (or_invalid family request_id (validate_model_key model_key)) (\<lambda>_.
      result_bind (case path_streaming of
            Some v \<Rightarrow> Inr v
          | None \<Rightarrow> result_bind (or_invalid family request_id (optional_bool object ''stream''))
              (\<lambda>v. Inr (v = Some True))) (\<lambda>streaming.
      let caps = collect_capabilities family object;
          caps = (if streaming then insert FeatStreaming caps else caps) in
      result_bind (or_invalid family request_id (output_bound family object)) (\<lambda>bound.
      result_bind (if family = IngressOpenaiResponses
          then or_invalid family request_id
            (optional_nullable_bounded_string object ''previous_response_id'' 4096)
          else Inr None) (\<lambda>continuation.
        Inr \<lparr>req_family = family, original_body = body, envelope = envelope,
             intent = \<lparr>intent_model_key = model_key,
               response_mode = (if streaming then ModeSse else ModeJson),
               intent_required_scopes = required_scopes streaming caps,
               intent_required_capabilities = caps,
               requested_output_bound = bound,
               continuation_reference = continuation,
               replay_safe = (continuation = None)\<rparr>\<rparr>)))))))))"

text \<open>The headers of a request: names in lower case, each value with its text if it is visible ASCII.\<close>

type_synonym headers = "(string \<times> string option) list"

definition get_all :: "headers \<Rightarrow> string \<Rightarrow> string option list" where
  "get_all headers name = map snd (filter (\<lambda>(n, _). n = name) headers)"

definition parse_anthropic ::
    "(string \<Rightarrow> json option) \<Rightarrow> headers \<Rightarrow> string \<Rightarrow> string \<Rightarrow> ProtocolError + NativeRequest" where
  "parse_anthropic from_slice headers body request_id =
     (if get_all headers ''anthropic-version'' \<noteq> [Some ANTHROPIC_VERSION]
      then Inl (invalid IngressAnthropicMessages request_id ''anthropic-version must be exactly 2023-06-01'')
      else parse_json_request from_slice IngressAnthropicMessages body request_id None None)"

definition parse_openai_chat ::
    "(string \<Rightarrow> json option) \<Rightarrow> string \<Rightarrow> string \<Rightarrow> ProtocolError + NativeRequest" where
  "parse_openai_chat from_slice body request_id =
     parse_json_request from_slice IngressOpenaiChatCompletions body request_id None None"

definition parse_openai_responses ::
    "(string \<Rightarrow> json option) \<Rightarrow> string \<Rightarrow> string \<Rightarrow> ProtocolError + NativeRequest" where
  "parse_openai_responses from_slice body request_id =
     parse_json_request from_slice IngressOpenaiResponses body request_id None None"

definition parse_gemini ::
    "(string \<Rightarrow> json option) \<Rightarrow> string \<Rightarrow> bool \<Rightarrow> string \<Rightarrow> string \<Rightarrow> ProtocolError + NativeRequest" where
  "parse_gemini from_slice model_key streaming body request_id =
     result_bind (or_invalid IngressGoogleGemini request_id (validate_model_key model_key)) (\<lambda>_.
       parse_json_request from_slice IngressGoogleGemini body request_id (Some model_key) (Some streaming))"

definition websocket_create :: "NativeRequest \<Rightarrow> NativeRequest" where
  "websocket_create native =
     (let caps = insert FeatStreaming (intent_required_capabilities (intent native)) in
      native\<lparr>intent := (intent native)\<lparr>response_mode := ModeWebSocket, intent_required_capabilities := caps,
        intent_required_scopes := required_scopes True caps\<rparr>\<rparr>)"

definition parse_openai_responses_websocket_event ::
    "(string \<Rightarrow> json option) \<Rightarrow> string \<Rightarrow> string \<Rightarrow> ProtocolError + ResponsesWebSocketClientEvent" where
  "parse_openai_responses_websocket_event from_slice body request_id =
     (let family = IngressOpenaiResponses; fail = invalid family request_id in
      if body = [] then Inl (fail ''WebSocket event must not be empty'')
      else
      result_bind (ok_or (fail ''WebSocket event must be valid JSON'') (from_slice body)) (\<lambda>envelope.
      result_bind (or_invalid family request_id (validate_json_complexity envelope)) (\<lambda>_.
      result_bind (ok_or (fail ''WebSocket event must be a JSON object'') (json_as_object envelope)) (\<lambda>object.
      case required_bounded_string object ''type'' 128 of
        Inl _ \<Rightarrow> Inl (fail ''WebSocket event type is required'')
      | Inr event_type \<Rightarrow>
          if event_type = ''response.create'' then
            if contains_key object ''response''
            then Inl (fail ''response.create fields must be top-level'')
            else if contains_key object ''stream'' \<or> contains_key object ''background''
            then Inl (fail ''response.create does not accept stream or background'')
            else result_bind (parse_json_request from_slice family body request_id None (Some False))
              (\<lambda>native. Inr (EventCreate (websocket_create native)))
          else if event_type = ''response.cancel'' then
            result_bind (or_invalid family request_id (optional_bounded_string object ''response_id'' 1024))
              (\<lambda>response_id. Inr (EventCancel body response_id))
          else Inl (fail ''unsupported Responses WebSocket client event'')))))"

subsection \<open>What a parsed request is\<close>

lemma json_as_u64_JNat [simp]: "json_as_u64 (JNat n) = Some n"
  by (simp add: JNat_def)

lemma parse_positive_Inr: "parse_positive_integer v = Inr n \<longleftrightarrow> json_as_u64 v = Some n \<and> 0 < n"
  by (simp add: parse_positive_integer_def)

declare output_bound.simps [simp del]

definition parsed_request ::
    "IngressProtocolFamily \<Rightarrow> string \<Rightarrow> json \<Rightarrow> json_object \<Rightarrow> string \<Rightarrow> bool \<Rightarrow> nat option \<Rightarrow> string option
      \<Rightarrow> NativeRequest" where
  "parsed_request family body document object model_key streaming bound continuation =
     (let caps = collect_capabilities family object;
          caps = (if streaming then insert FeatStreaming caps else caps) in
      \<lparr>req_family = family, original_body = body, envelope = document,
        intent = \<lparr>intent_model_key = model_key,
          response_mode = (if streaming then ModeSse else ModeJson),
          intent_required_scopes = required_scopes streaming caps, intent_required_capabilities = caps,
          requested_output_bound = bound, continuation_reference = continuation,
          replay_safe = (continuation = None)\<rparr>\<rparr>)"

lemma parse_json_request_InrD:
  assumes "parse_json_request from_slice family body request_id path_model path_streaming = Inr request"
  shows "\<exists>object model_key streaming bound continuation.
      request = parsed_request family body (JObject object) object model_key streaming bound continuation
      \<and> validate_json_complexity (JObject object) = Inr () \<and> validate_model_key model_key = Inr ()
      \<and> output_bound family object = Inr bound"
proof -
  have body: "body \<noteq> []" using assms by (auto simp: parse_json_request_def)
  obtain env where env: "from_slice body = Some env"
    using assms body by (cases "from_slice body") (auto simp: parse_json_request_def)
  obtain object where object: "env = JObject object"
    using assms body env
    by (cases "json_as_object env") (auto simp: parse_json_request_def json_as_object_Some)
  have "parse_json_request from_slice family body request_id path_model path_streaming =
      result_bind (or_invalid family request_id (validate_json_complexity env)) (\<lambda>_.
      result_bind (case path_model of
            Some model \<Rightarrow> Inr model
          | None \<Rightarrow> or_invalid family request_id (required_bounded_string object ''model'' 512)) (\<lambda>model_key.
      result_bind (or_invalid family request_id (validate_model_key model_key)) (\<lambda>_.
      result_bind (case path_streaming of
            Some v \<Rightarrow> Inr v
          | None \<Rightarrow> result_bind (or_invalid family request_id (optional_bool object ''stream''))
              (\<lambda>v. Inr (v = Some True))) (\<lambda>streaming.
      result_bind (or_invalid family request_id (output_bound family object)) (\<lambda>bound.
      result_bind (if family = IngressOpenaiResponses
          then or_invalid family request_id
            (optional_nullable_bounded_string object ''previous_response_id'' 4096)
          else Inr None) (\<lambda>continuation.
        Inr (parsed_request family body env object model_key streaming bound continuation)))))))"
    by (simp add: parse_json_request_def parsed_request_def body env object Let_def)
  with assms show ?thesis by (auto simp: object) blast
qed

subsection \<open>A parsed request is consistent\<close>

named_theorems scans

text \<open>Streaming is never read from the content of a request.\<close>

lemma scan_insert [scans]: "c \<noteq> FeatStreaming \<Longrightarrow> FeatStreaming \<in> insert c caps \<longleftrightarrow> FeatStreaming \<in> caps"
  by auto

lemma scan_fold [scans]:
  "(\<And>x caps. FeatStreaming \<in> f x caps \<longleftrightarrow> FeatStreaming \<in> caps)
    \<Longrightarrow> FeatStreaming \<in> fold f xs caps \<longleftrightarrow> FeatStreaming \<in> caps"
  by (induction xs arbitrary: caps) simp_all

lemma scan_insert_if_present [scans]:
  "c \<noteq> FeatStreaming \<Longrightarrow> FeatStreaming \<in> insert_if_present object names c caps \<longleftrightarrow> FeatStreaming \<in> caps"
  by (simp add: insert_if_present_def)

lemma scan_pieces [scans]:
  "FeatStreaming \<in> scan_structured_output v caps \<longleftrightarrow> FeatStreaming \<in> caps"
  "FeatStreaming \<in> scan_anthropic_block block caps \<longleftrightarrow> FeatStreaming \<in> caps"
  "FeatStreaming \<in> scan_openai_block block caps \<longleftrightarrow> FeatStreaming \<in> caps"
  "FeatStreaming \<in> scan_gemini_part part caps \<longleftrightarrow> FeatStreaming \<in> caps"
  "FeatStreaming \<in> scan_role item caps \<longleftrightarrow> FeatStreaming \<in> caps"
  by (simp_all add: scan_structured_output_def scan_anthropic_block_def scan_openai_block_def
      scan_gemini_part_def scan_role_def Let_def split: option.split)

lemma scan_contents [scans]:
  "FeatStreaming \<in> scan_anthropic_content v caps \<longleftrightarrow> FeatStreaming \<in> caps"
  "FeatStreaming \<in> scan_openai_content v caps \<longleftrightarrow> FeatStreaming \<in> caps"
  by (simp_all add: scan_anthropic_content_def scan_openai_content_def scans)

lemma scan_groups [scans]:
  "FeatStreaming \<in> scan_chat_message message caps \<longleftrightarrow> FeatStreaming \<in> caps"
  "FeatStreaming \<in> scan_responses_item item caps \<longleftrightarrow> FeatStreaming \<in> caps"
  "FeatStreaming \<in> scan_generation_config generation caps \<longleftrightarrow> FeatStreaming \<in> caps"
  by (simp_all add: scan_chat_message_def scan_responses_item_def scan_generation_config_def Let_def scans)

lemma collect_no_streaming: "FeatStreaming \<notin> collect_capabilities family object"
  by (cases family)
    (simp_all add: anthropic_capabilities_def chat_capabilities_def responses_capabilities_def
      gemini_capabilities_def Let_def scans split: option.split)

definition intent_consistent :: "LlmIntent \<Rightarrow> bool" where
  "intent_consistent i \<longleftrightarrow>
     llm_scope_set_ok (intent_required_scopes i)
     \<and> intent_required_scopes i = required_scopes (response_mode i \<noteq> ModeJson) (intent_required_capabilities i)
     \<and> (response_mode i \<noteq> ModeJson \<longleftrightarrow> FeatStreaming \<in> intent_required_capabilities i)
     \<and> (replay_safe i \<longleftrightarrow> continuation_reference i = None)
     \<and> validate_model_key (intent_model_key i) = Inr ()
     \<and> is_none_or (\<lambda>n. 0 < n) (requested_output_bound i)"

lemma smallest_bound_pos:
  "smallest_bound object names b = Inr r \<Longrightarrow> is_none_or (\<lambda>n. 0 < n) b \<Longrightarrow> is_none_or (\<lambda>n. 0 < n) r"
proof (induction names arbitrary: b)
  case (Cons field names)
  show ?case
  proof (cases "aget object field")
    case None
    then show ?thesis using Cons by simp
  next
    case (Some v)
    with Cons.prems(1) obtain n where "0 < n"
        "smallest_bound object names (Some (case b of None \<Rightarrow> n | Some current \<Rightarrow> min current n)) = Inr r"
      by (auto simp: parse_positive_Inr)
    then show ?thesis using Cons.IH Cons.prems(2) by (cases b) auto
  qed
qed simp

lemma output_bound_pos: "output_bound family object = Inr b \<Longrightarrow> is_none_or (\<lambda>n. 0 < n) b"
  by (cases family)
    (auto dest: smallest_bound_pos simp: parse_positive_Inr output_bound.simps simp del: smallest_bound.simps
      split: option.splits)

lemma required_scopes_ok: "llm_scope_set_ok (required_scopes streaming caps)"
  by (simp add: llm_scope_set_ok_def required_scopes_def)

text \<open>
  What a parsed request asks for is consistent.  Whatever the body, the scopes demanded are
  those of the capabilities found, \<open>llm:invoke\<close> among them; streaming is demanded exactly when the
  answer is streamed; the model key is a valid one, a bound on the output is positive, and only a
  request that continues no earlier one may be replayed.
\<close>

theorem parsed_request_consistent:
  assumes "parse_json_request from_slice family body request_id path_model path_streaming = Inr request"
  shows "intent_consistent (intent request) \<and> req_family request = family \<and> original_body request = body"
proof -
  obtain object model_key streaming bound continuation where
    request: "request = parsed_request family body (JObject object) object model_key streaming bound continuation"
    and valid: "validate_model_key model_key = Inr ()" "output_bound family object = Inr bound"
    using parse_json_request_InrD [OF assms] by blast
  have "intent_consistent (intent request)"
    using collect_no_streaming [of family object] output_bound_pos [OF valid(2)] valid(1)
    by (cases streaming) (simp_all add: request parsed_request_def Let_def intent_consistent_def required_scopes_ok)
  then show ?thesis by (simp add: request parsed_request_def Let_def)
qed

subsection \<open>Witnesses\<close>

definition sample_body_object :: json_object where
  "sample_body_object = [(''model'', JString ''fast''), (''max_tokens'', JNat 900), (''stream'', JBool True)]"

definition sample_from_slice :: "string \<Rightarrow> json option" where
  "sample_from_slice body = (if body = ''b'' then Some (JObject sample_body_object) else None)"

definition sample_request :: NativeRequest where
  "sample_request = parsed_request IngressAnthropicMessages ''b'' (JObject sample_body_object)
     sample_body_object ''fast'' True (Some 900) None"

lemma json_depth_simps:
  "json_depth (JObject members) = foldr (\<lambda>c m. max (Suc (json_depth c)) m) (map snd members) 0"
  "json_depth (JString t) = 0" "json_depth (JBool b) = 0" "json_depth (JNumber x) = 0"
  by (subst json_depth.simps, simp)+

lemma sample_parse:
  "parse_json_request sample_from_slice IngressAnthropicMessages ''b'' ''r'' None None = Inr sample_request"
proof -
  have "json_nodes (JObject sample_body_object) \<le> MAX_JSON_NODES"
    "json_depth (JObject sample_body_object) \<le> MAX_JSON_DEPTH"
    by (simp_all add: sample_body_object_def json_nodes.simps json_depth_simps JNat_def
        MAX_JSON_NODES_def MAX_JSON_DEPTH_def)
  then have complexity: "validate_json_complexity (JObject sample_body_object) = Inr ()"
    by (simp add: validate_json_complexity_iff)
  have model: "required_bounded_string sample_body_object ''model'' 512 = Inr ''fast''"
    "validate_model_key ''fast'' = Inr ()" "optional_bool sample_body_object ''stream'' = Inr (Some True)"
    by (simp_all add: required_bounded_string_def optional_bounded_string_def bounded_string_def
        sample_body_object_def validate_model_key_def starts_with_def optional_bool_def)
  have bound: "output_bound IngressAnthropicMessages sample_body_object = Inr (Some 900)"
    by (simp add: output_bound.simps sample_body_object_def parse_positive_integer_def)
  show ?thesis
    by (simp add: parse_json_request_def sample_from_slice_def complexity model bound or_invalid_def Let_def
        sample_request_def parsed_request_def)
qed

lemma parsed_request_consistent_witness:
  "LlmStream \<in> intent_required_scopes (intent sample_request) \<and> replay_safe (intent sample_request)"
proof -
  have "response_mode (intent sample_request) = ModeSse" "continuation_reference (intent sample_request) = None"
    by (simp_all add: sample_request_def parsed_request_def Let_def)
  with parsed_request_consistent [OF sample_parse] show ?thesis
    by (simp add: intent_consistent_def required_scopes_def)
qed

end
