(* ===== verification/Routing.thy ===== *)
theory Routing
  imports Health Protocols KeyMaterial
begin

section \<open>Authentication and routing\<close>

text \<open>
  \<open>crates/owlrora-server/src/gateway/mod.rs\<close>: which credential a request presents, the
  caller it authenticates, the ceilings that caller has, and the targets that may serve the
  request in the order they are tried.  \<open>GatewayExternals\<close> has the functions of other
  packages (UUID text and bytes, SHA-256, base64url, JSON pointers) and the verification of a JWT,
  which is cryptography.  A function that would panic returns \<open>None\<close>.
\<close>

record GatewayExternals =
  ge_env :: Externals
  ge_parse_uuid :: "string \<Rightarrow> uuid option"
  ge_decode :: "string \<Rightarrow> byte list option"
  ge_encode :: "byte list \<Rightarrow> string"
  ge_sha :: "byte list \<Rightarrow> byte list"
  ge_json_pointer :: "json \<Rightarrow> string \<Rightarrow> json option"
  ge_verify_jwt :: "RuntimeGeneration \<Rightarrow> string \<Rightarrow> (uuid \<times> string \<times> json) option"

definition ORGANIZATION_HEADER :: string where "ORGANIZATION_HEADER = ''x-owlrora-organization-id''"
definition SESSION_HEADER :: string where "SESSION_HEADER = ''x-owlrora-session-id''"
definition MAX_AFFINITY_BYTES :: nat where "MAX_AFFINITY_BYTES = 1024"

subsection \<open>Principals\<close>

datatype GatewayPrincipalKind = KindGatewayKey | KindLocalUser

record LocalUserPrincipal =
  lu_user_id :: uuid
  lu_issuer_id :: uuid
  lu_subject :: string
  lu_scopes :: LlmScopeSet
  lu_capabilities :: capabilities
  lu_routes :: JwtRouteCeiling
  lu_membership :: MembershipSnapshot

datatype GatewayPrincipal =
  GatewayKeyPrincipal uuid GatewayKeyVerifier
| LocalUserPrincipal LocalUserPrincipal

fun GatewayPrincipal_kind :: "GatewayPrincipal \<Rightarrow> GatewayPrincipalKind" where
  "GatewayPrincipal_kind (GatewayKeyPrincipal _ _) = KindGatewayKey"
| "GatewayPrincipal_kind (LocalUserPrincipal _) = KindLocalUser"

fun affinity_uuid :: "GatewayPrincipal \<Rightarrow> uuid" where
  "affinity_uuid (GatewayKeyPrincipal key_id _) = key_id"
| "affinity_uuid (LocalUserPrincipal user) = lu_user_id user"

fun allows_scopes :: "GatewayPrincipal \<Rightarrow> LlmScopeSet \<Rightarrow> bool" where
  "allows_scopes (GatewayKeyPrincipal _ verifier) required =
     (case gk_scopes verifier of None \<Rightarrow> False | Some scopes \<Rightarrow> LlmScopeSet_is_superset scopes required)"
| "allows_scopes (LocalUserPrincipal user) required =
     (LlmScopeSet_is_superset (lu_scopes user) required
      \<and> LlmScopeCeiling_allows (member_llm_scopes (lu_membership user)) required)"

fun allows_capabilities :: "GatewayPrincipal \<Rightarrow> capabilities \<Rightarrow> bool" where
  "allows_capabilities (GatewayKeyPrincipal _ verifier) required = (required \<subseteq> gk_capabilities verifier)"
| "allows_capabilities (LocalUserPrincipal user) required =
     (required \<subseteq> lu_capabilities user \<and> required \<subseteq> member_llm_capabilities (lu_membership user))"

fun route_ceiling_allows :: "(uuid \<Rightarrow> string) \<Rightarrow> JwtRouteCeiling \<Rightarrow> uuid \<Rightarrow> bool" where
  "route_ceiling_allows to_string NoRoutes rid = False"
| "route_ceiling_allows to_string AllOrganizationGranted rid = True"
| "route_ceiling_allows to_string (Routes ids) rid = (to_string rid \<in> ids)"

fun allows_route :: "(uuid \<Rightarrow> string) \<Rightarrow> GatewayPrincipal \<Rightarrow> uuid \<Rightarrow> bool" where
  "allows_route to_string (GatewayKeyPrincipal _ verifier) rid = (rid \<in> gk_route_ids verifier)"
| "allows_route to_string (LocalUserPrincipal user) rid =
     (route_ceiling_allows to_string (lu_routes user) rid
      \<and> route_ceiling_allows to_string (member_llm_routes (lu_membership user)) rid)"

subsection \<open>The credential of a request\<close>

datatype CredentialLocation = AuthorizationBearer | AnthropicApiKey | GeminiApiKey

definition gateway_key_prefix :: string where
  "gateway_key_prefix = ''owlrora_llm_v1.''"

definition exactly_one_header ::
    "headers \<Rightarrow> string \<Rightarrow> IngressProtocolFamily \<Rightarrow> string \<Rightarrow> ProtocolError + string option" where
  "exactly_one_header headers name family request_id =
     (case get_all headers name of
        [] \<Rightarrow> Inr None
      | [value] \<Rightarrow> result_bind (ok_or (ProtocolError_new family ErrAuthentication request_id
            ''credential header is invalid'') value) (\<lambda>v. Inr (Some v))
      | _ \<Rightarrow> Inl (ProtocolError_new family ErrConflictingAuthentication request_id
            ''duplicate credential headers are not accepted''))"

text \<open>\<open>strip_prefix("Bearer ")\<close>, not empty\<close>

definition bearer_value :: "string \<Rightarrow> string option" where
  "bearer_value v =
     (if starts_with ''Bearer '' v \<and> drop 7 v \<noteq> [] then Some (drop 7 v) else None)"

definition provider_key_header :: "IngressProtocolFamily \<Rightarrow> (CredentialLocation \<times> string) option" where
  "provider_key_header family =
     (case family of
        IngressAnthropicMessages \<Rightarrow> Some (AnthropicApiKey, ''x-api-key'')
      | IngressGoogleGemini \<Rightarrow> Some (GeminiApiKey, ''x-goog-api-key'')
      | _ \<Rightarrow> None)"

definition extract_credential ::
    "IngressProtocolFamily \<Rightarrow> headers \<Rightarrow> string \<Rightarrow> ProtocolError + CredentialLocation \<times> string" where
  "extract_credential family headers request_id =
     (let fail = (\<lambda>kind message. ProtocolError_new family kind request_id message) in
      result_bind (exactly_one_header headers ''authorization'' family request_id) (\<lambda>header.
      result_bind (case header of
          None \<Rightarrow> Inr None
        | Some v \<Rightarrow> (case bearer_value v of
              None \<Rightarrow> Inl (fail ErrAuthentication ''Authorization must use Bearer authentication'')
            | Some v \<Rightarrow> Inr (Some v))) (\<lambda>authorization.
      result_bind (case provider_key_header family of
          None \<Rightarrow> Inr None
        | Some (location, name) \<Rightarrow> result_bind (exactly_one_header headers name family request_id)
            (\<lambda>v. Inr (map_option (Pair location) v))) (\<lambda>provider_key.
        if authorization \<noteq> None \<and> provider_key \<noteq> None
        then Inl (fail ErrConflictingAuthentication ''more than one credential location was supplied'')
        else (case provider_key of
            Some (location, v) \<Rightarrow>
              if \<not> starts_with gateway_key_prefix v
              then Inl (fail ErrAuthentication ''the protocol API-key location accepts only a Gateway API key'')
              else Inr (location, v)
          | None \<Rightarrow>
              (case authorization of
                 None \<Rightarrow> Inl (fail ErrAuthentication ''a supported credential is required'')
               | Some v \<Rightarrow>
                   if family \<in> {IngressAnthropicMessages, IngressGoogleGemini}
                      \<and> starts_with gateway_key_prefix v
                   then Inl (fail ErrAuthentication ''Gateway API key is in the wrong credential location'')
                   else Inr (AuthorizationBearer, v)))))))"

subsection \<open>Gateway keys\<close>

text \<open>The clock is read for the expiry and again for the overlap.\<close>

definition authenticate_gateway_key ::
    "GatewayExternals \<Rightarrow> RuntimeGeneration \<Rightarrow> string \<Rightarrow> IngressProtocolFamily \<Rightarrow> string \<Rightarrow> int \<Rightarrow> int
      \<Rightarrow> ProtocolError + GatewayKeyVerifier" where
  "authenticate_gateway_key ge generation raw family request_id now later =
     (let fail = ProtocolError_new family ErrAuthentication request_id ''Gateway API key is invalid'' in
      case GatewayKeyMaterial_parse (ge_decode ge) (ge_encode ge) raw of
        Inl _ \<Rightarrow> Inl fail
      | Inr material \<Rightarrow>
          result_bind (ok_or fail
            (option_filter (\<lambda>verifier. is_none_or (\<lambda>expiry. expiry > now) (gk_expires_at verifier))
              (option_filter gk_active
                (aget (gateway_keys (snapshot generation))
                  (GatewayKeyMaterial_lookup_text (ge_encode ge) material))))) (\<lambda>verifier.
            let digest = gateway_key_digest (ge_sha ge) material;
                current = digest_matches digest (gk_current_digest verifier);
                overlap = (case gk_overlap_digest verifier of
                    None \<Rightarrow> False
                  | Some expected \<Rightarrow>
                      (case gk_overlap_until verifier of None \<Rightarrow> False | Some until \<Rightarrow> until > later)
                      \<and> digest_matches digest expected) in
            if \<not> current \<and> \<not> overlap then Inl fail else Inr verifier))"

subsection \<open>JWT principals\<close>

definition claim_value :: "GatewayExternals \<Rightarrow> json \<Rightarrow> string \<Rightarrow> json option" where
  "claim_value ge claims path =
     (if starts_with ''/'' path then ge_json_pointer ge claims path else json_get claims path)"

definition invalid_org :: "IngressProtocolFamily \<Rightarrow> string \<Rightarrow> ProtocolError" where
  "invalid_org family request_id =
     ProtocolError_new family ErrAuthentication request_id
       ''an explicit valid organization selection is required''"

text \<open>\<open>.map(str::parse).transpose()\<close>\<close>

definition parse_optional :: "('a \<Rightarrow> 'b option) \<Rightarrow> 'e \<Rightarrow> 'a option \<Rightarrow> 'e + 'b option" where
  "parse_optional parse e v =
     (case v of None \<Rightarrow> Inr None | Some v \<Rightarrow> result_bind (ok_or e (parse v)) (\<lambda>x. Inr (Some x)))"

definition selected_organization ::
    "GatewayExternals \<Rightarrow> ExternalIssuerSnapshot \<Rightarrow> json \<Rightarrow> headers \<Rightarrow> IngressProtocolFamily \<Rightarrow> string
      \<Rightarrow> ProtocolError + uuid" where
  "selected_organization ge issuer claims headers family request_id =
     result_bind (exactly_one_header headers ORGANIZATION_HEADER family request_id) (\<lambda>header.
     result_bind (parse_optional (ge_parse_uuid ge)
         (ProtocolError_new family ErrAuthentication request_id ''organization header is invalid'') header)
       (\<lambda>header.
     let claim_at = (\<lambda>path. Option.bind (claim_value ge claims path) json_as_str);
         parsed = (\<lambda>claim. parse_optional (ge_parse_uuid ge) (invalid_org family request_id) (claim_at claim)) in
     result_bind (case issuer_organization_selector issuer of
         SelectorNone \<Rightarrow> Inr None
       | SignedClaim claim \<Rightarrow> parsed claim
       | SelectorHeader \<Rightarrow> Inr header
       | SelectorEither claim \<Rightarrow>
           result_bind (parsed claim) (\<lambda>claimed.
             if claimed \<noteq> None \<and> header \<noteq> None \<and> claimed \<noteq> header
             then Inl (ProtocolError_new family ErrConflictingAuthentication request_id
               ''signed and header organization selectors conflict'')
             else Inr (if claimed \<noteq> None then claimed else header)))
       (ok_or (invalid_org family request_id))))"

datatype ClaimError = ClaimForbidden | ClaimInvalidCredential

text \<open>
  The set of strings in a claim, in the order of the claim, each at most once; its order does
  not matter to the callers.
\<close>

fun claim_strings :: "json list \<Rightarrow> string list \<Rightarrow> ClaimError + string list" where
  "claim_strings [] seen = Inr (rev seen)"
| "claim_strings (v # rest) seen =
     (case option_filter (\<lambda>s. s \<noteq> [] \<and> length s \<le> 512) (json_as_str v) of
        None \<Rightarrow> Inl ClaimInvalidCredential
      | Some s \<Rightarrow> if s \<in> set seen then Inl ClaimInvalidCredential else claim_strings rest (s # seen))"

definition claim_string_set :: "GatewayExternals \<Rightarrow> json \<Rightarrow> string \<Rightarrow> ClaimError + string list option" where
  "claim_string_set ge claims path =
     (case claim_value ge claims path of
        None \<Rightarrow> Inr None
      | Some v \<Rightarrow> result_bind (ok_or ClaimInvalidCredential (json_as_array v)) (\<lambda>elements.
          if length elements > 4096 then Inl ClaimInvalidCredential
          else result_bind (claim_strings elements []) (\<lambda>texts. Inr (Some texts))))"

text \<open>\<open>.map(parse).collect::<Result<_, _>>()\<close>\<close>

fun collect_results :: "('a \<Rightarrow> 'b option) \<Rightarrow> 'e \<Rightarrow> 'a list \<Rightarrow> 'e + 'b list" where
  "collect_results parse e [] = Inr []"
| "collect_results parse e (v # rest) =
     result_bind (ok_or e (parse v)) (\<lambda>x. result_bind (collect_results parse e rest) (\<lambda>xs. Inr (x # xs)))"

definition scope_of_str :: "string \<Rightarrow> LlmScope option" where
  "scope_of_str s = (case LlmScope_from_str s of Inl _ \<Rightarrow> None | Inr scope \<Rightarrow> Some scope)"

text \<open>
  One of the three optional narrowings of \<open>derive_llm_ceiling\<close>: without a claim path
  nothing changes, without the claim only \<open>RequiredNarrowing\<close> fails.
\<close>

definition narrow_by_claim ::
    "GatewayExternals \<Rightarrow> ExternalIssuerSnapshot \<Rightarrow> json \<Rightarrow> string option \<Rightarrow> 'a
      \<Rightarrow> (string list \<Rightarrow> ClaimError + 'a) \<Rightarrow> ClaimError + 'a" where
  "narrow_by_claim ge issuer claims path ceiling narrow =
     (case path of
        None \<Rightarrow> Inr ceiling
      | Some path \<Rightarrow> result_bind (claim_string_set ge claims path) (\<lambda>texts.
          case texts of
            Some texts \<Rightarrow> narrow texts
          | None \<Rightarrow> if capability_claim_policy issuer = RequiredNarrowing
              then Inl ClaimInvalidCredential else Inr ceiling))"

fun intersect_route_ceiling ::
    "GatewayExternals \<Rightarrow> JwtRouteCeiling \<Rightarrow> uuid set \<Rightarrow> JwtRouteCeiling" where
  "intersect_route_ceiling ge NoRoutes claimed = NoRoutes"
| "intersect_route_ceiling ge AllOrganizationGranted claimed = Routes (uuid_text (ge_env ge) ` claimed)"
| "intersect_route_ceiling ge (Routes ids) claimed =
     Routes {i \<in> ids. case ge_parse_uuid ge i of None \<Rightarrow> False | Some rid \<Rightarrow> rid \<in> claimed}"

definition derive_llm_ceiling ::
    "GatewayExternals \<Rightarrow> ExternalIssuerSnapshot \<Rightarrow> json
      \<Rightarrow> ClaimError + LlmScopeSet \<times> capabilities \<times> JwtRouteCeiling" where
  "derive_llm_ceiling ge issuer claims =
     result_bind (ok_or ClaimForbidden (LlmScopeCeiling_as_scopes (issuer_llm_scopes issuer))) (\<lambda>scopes.
     let caps = issuer_llm_capabilities issuer; routes = issuer_llm_routes issuer;
         mapping = claim_mapping issuer in
     if capability_claim_policy issuer = Ignore then Inr (scopes, caps, routes)
     else
     result_bind (narrow_by_claim ge issuer claims (llm_scopes_claim mapping) scopes (\<lambda>texts.
         result_bind (collect_results scope_of_str ClaimInvalidCredential texts) (\<lambda>claimed.
           case LlmScopeSet_deserialize claimed of
             Inl _ \<Rightarrow> Inl ClaimInvalidCredential
           | Inr claimed \<Rightarrow> ok_or ClaimForbidden (LlmScopeSet_intersection scopes claimed)))) (\<lambda>scopes.
     result_bind (narrow_by_claim ge issuer claims (llm_capabilities_claim mapping) caps (\<lambda>texts.
         result_bind (collect_results LlmFeatureCapability_from_str ClaimInvalidCredential texts)
           (\<lambda>claimed. Inr (caps \<inter> set claimed)))) (\<lambda>caps.
     result_bind (narrow_by_claim ge issuer claims (routes_claim mapping) routes (\<lambda>texts.
         result_bind (collect_results (ge_parse_uuid ge) ClaimInvalidCredential texts)
           (\<lambda>claimed. Inr (intersect_route_ceiling ge routes (set claimed))))) (\<lambda>routes.
       Inr (scopes, caps, routes)))))"

definition authenticate_direct_jwt ::
    "GatewayExternals \<Rightarrow> RuntimeGeneration \<Rightarrow> string \<Rightarrow> headers \<Rightarrow> IngressProtocolFamily \<Rightarrow> string
      \<Rightarrow> ProtocolError + uuid \<times> GatewayPrincipal" where
  "authenticate_direct_jwt ge generation raw headers family request_id =
     (let fail = (\<lambda>kind message. ProtocolError_new family kind request_id message);
          ident = identity (snapshot generation) in
      result_bind (ok_or (fail ErrAuthentication ''JWT is invalid'') (ge_verify_jwt ge generation raw))
        (\<lambda>(issuer_id, subject, claims).
      result_bind (ok_or (fail ErrForbidden ''issuer does not permit direct LLM access'')
          (option_filter (\<lambda>issuer. issuer_active issuer \<and> issuer_llm_access issuer)
            (aget (external_issuers_by_id ident) issuer_id))) (\<lambda>issuer.
      result_bind (ok_or (fail ErrAuthentication ''JWT does not resolve to an active local user'')
          (option_filter (\<lambda>user. aget (active_users ident) user = Some True)
            (aget (external_bindings ident) (issuer_id, subject)))) (\<lambda>user_id.
      result_bind (selected_organization ge issuer claims headers family request_id) (\<lambda>organization_id.
      result_bind (ok_or (fail ErrForbidden ''local user is not an active organization member'')
          (aget (memberships ident) (organization_id, user_id))) (\<lambda>membership.
      case derive_llm_ceiling ge issuer claims of
        Inl _ \<Rightarrow> Inl (fail ErrAuthentication ''JWT LLM claims are invalid'')
      | Inr (scopes, caps, ceiling) \<Rightarrow>
          Inr (organization_id, LocalUserPrincipal
            \<lparr>lu_user_id = user_id, lu_issuer_id = issuer_id, lu_subject = subject, lu_scopes = scopes,
             lu_capabilities = caps, lu_routes = ceiling, lu_membership = membership\<rparr>)))))))"

text \<open>The generation is \<open>None\<close> when the published one may not be used for authority.\<close>

definition authenticate_identity ::
    "GatewayExternals \<Rightarrow> RuntimeGeneration option \<Rightarrow> IngressProtocolFamily \<Rightarrow> headers \<Rightarrow> string \<Rightarrow> int \<Rightarrow> int
      \<Rightarrow> ProtocolError + RuntimeGeneration \<times> OrganizationSnapshot \<times> GatewayPrincipal" where
  "authenticate_identity ge current family headers request_id now later =
     result_bind (ok_or (ProtocolError_new family ErrRouteUnavailable request_id
         ''gateway runtime is not current'') current) (\<lambda>generation.
     result_bind (extract_credential family headers request_id) (\<lambda>(location, credential).
     result_bind
       (if location \<noteq> AuthorizationBearer \<or> starts_with gateway_key_prefix credential then
          result_bind (authenticate_gateway_key ge generation credential family request_id now later)
            (\<lambda>verifier. Inr (gk_organization_id verifier, GatewayKeyPrincipal (gk_key_id verifier) verifier))
        else authenticate_direct_jwt ge generation credential headers family request_id)
       (\<lambda>(organization_id, caller).
     result_bind (ok_or (ProtocolError_new family ErrForbidden request_id ''organization is not available'')
         (option_filter org_active (aget (organizations (snapshot generation)) organization_id)))
       (\<lambda>organization. Inr (generation, organization, caller)))))"

subsection \<open>Weighted rendezvous hashing\<close>

definition affinity_source :: "RouteSnapshot \<Rightarrow> headers \<Rightarrow> string \<Rightarrow> nat \<times> string" where
  "affinity_source route headers request_id =
     (case (if affinity_mode (selection_policy route) = AffinityPreferred
            then option_filter (\<lambda>v. v \<noteq> [] \<and> length v \<le> MAX_AFFINITY_BYTES)
              (case get_all headers SESSION_HEADER of [] \<Rightarrow> None | v # _ \<Rightarrow> v)
            else None) of
        Some v \<Rightarrow> (0, v)
      | None \<Rightarrow> (2, request_id))"

text \<open>The length is written in 32 bits; a longer source is a panic, which the callers check.\<close>

definition replicated_wrh_base ::
    "Externals \<Rightarrow> uuid \<Rightarrow> uuid \<Rightarrow> uuid \<Rightarrow> nat \<Rightarrow> string \<Rightarrow> string" where
  "replicated_wrh_base env organization_id principal_id rid source_tag source =
     sha256 env
       (''owlrora/replicated-wrh-v1/base'' @ [CHR 0x00]
        @ uuid_bytes env organization_id @ uuid_bytes env principal_id @ uuid_bytes env rid
        @ be_bytes 1 source_tag @ be_bytes 4 (length source) @ source)"

definition replica_score :: "Externals \<Rightarrow> string \<Rightarrow> TargetSnapshot \<Rightarrow> nat \<Rightarrow> nat" where
  "replica_score env base target replica =
     be_value (sha256 env (''owlrora/replicated-wrh-v1/replica'' @ [CHR 0x00] @ base
       @ bytes_text (affinity_identity target) @ be_bytes 2 replica))"

text \<open>
  The score of a target is the greatest of its replicas'.  A digest is compared as the number it
  writes, which orders arrays of one length as their bytes do.
\<close>

definition target_score :: "Externals \<Rightarrow> string \<Rightarrow> TargetSnapshot \<Rightarrow> nat" where
  "target_score env base target = fold max (map (replica_score env base target) [0..<weight target]) 0"

definition wrh_key :: "Externals \<Rightarrow> string \<Rightarrow> TargetSnapshot \<Rightarrow> int \<times> nat" where
  "wrh_key env base target =
     (- int (target_score env base target), be_value (bytes_text (affinity_identity target)))"

definition replicated_wrh_order ::
    "Externals \<Rightarrow> uuid \<Rightarrow> uuid \<Rightarrow> uuid \<Rightarrow> nat \<Rightarrow> string \<Rightarrow> TargetSnapshot list \<Rightarrow> uuid list option" where
  "replicated_wrh_order env organization_id principal_id rid source_tag source targets =
     (if length source > u32_max \<or> list_ex (\<lambda>target. weight target = 0) targets then None
      else
        let base = replicated_wrh_base env organization_id principal_id rid source_tag source in
        Some (map target_id (sort_key (wrh_key env base) targets)))"

subsection \<open>The candidates of a request\<close>

fun mode_supported :: "ResponseMode \<Rightarrow> CompatibilityTuple \<Rightarrow> bool" where
  "mode_supported ModeJson entry = supports_http entry"
| "mode_supported ModeSse entry = supports_streaming entry"
| "mode_supported ModeWebSocket entry = supports_websocket entry"

text \<open>The checks of the loop on one target, up to the health of the candidate.\<close>

definition eligible_candidate ::
    "RuntimeGeneration \<Rightarrow> OrganizationSnapshot \<Rightarrow> RouteSnapshot \<Rightarrow> LlmIntent \<Rightarrow> capabilities
      \<Rightarrow> RouteRequestPolicy \<Rightarrow> TargetSnapshot \<Rightarrow> Candidate option" where
  "eligible_candidate generation organization route i required policy target =
     (let requested_bound = (case requested_output_bound i of
            None \<Rightarrow> max_output_units policy | Some n \<Rightarrow> n) in
      case option_filter operational
          (aget (deployments (catalog (snapshot generation))) (target_deployment_id target)) of
        None \<Rightarrow> None
      | Some deployment \<Rightarrow>
          if \<not> required \<subseteq> dep_capabilities deployment
             \<or> (case narrow_max_output_units (narrowing_constraints target) of
                  None \<Rightarrow> False | Some bound \<Rightarrow> requested_bound > bound)
          then None
          else (case compatibility (ingress_protocol_family route) (dep_endpoint_adapter deployment)
                (dep_credential_kind deployment) (dep_transport_kind deployment) of
              None \<Rightarrow> None
            | Some entry \<Rightarrow>
                if \<not> mode_supported (response_mode i) entry then None
                else if route_scope route = ScopeOrganization \<and> dep_scope deployment = ScopeDeployment
                   \<and> dep_id deployment \<notin> deployment_grants organization then None
                else map_option (\<lambda>client.
                    \<lparr>cand_target = target, cand_deployment = deployment,
                     client_build_fingerprint = build_fingerprint client\<rparr>)
                  (aget (credential_clients generation) (client_key deployment))))"

text \<open>
  The probe worker, where there is one, has its say last.  \<open>clock\<close> gives the instants the
  loop reads, two for each target.
\<close>

type_synonym clock = "nat \<Rightarrow> instant"

definition healthy_candidate ::
    "Externals \<Rightarrow> RuntimeGeneration \<Rightarrow> RouteSnapshot \<Rightarrow> string \<Rightarrow> observations option \<Rightarrow> instant \<Rightarrow> instant
      \<Rightarrow> Candidate \<Rightarrow> TargetProtectionState \<Rightarrow> TargetProtectionState \<times> bool" where
  "healthy_candidate env generation route affinity_hash probes now later candidate protection =
     (case probes of
        None \<Rightarrow> (protection, True)
      | Some observations \<Rightarrow>
          (case aget (reliability_policies (catalog (snapshot generation))) (reliability_policy_id route) of
             None \<Rightarrow> (protection, True)
           | Some reliability \<Rightarrow>
               allows_candidate env generation route candidate reliability affinity_hash now later
                 observations protection))"

fun gather_candidates ::
    "(TargetSnapshot \<Rightarrow> Candidate option)
      \<Rightarrow> (nat \<Rightarrow> Candidate \<Rightarrow> TargetProtectionState \<Rightarrow> TargetProtectionState \<times> bool)
      \<Rightarrow> nat \<Rightarrow> TargetSnapshot list \<Rightarrow> TargetProtectionState \<Rightarrow> TargetProtectionState \<times> Candidate list" where
  "gather_candidates eligible healthy n [] protection = (protection, [])"
| "gather_candidates eligible healthy n (target # rest) protection =
     (case eligible target of
        None \<Rightarrow> gather_candidates eligible healthy (n + 1) rest protection
      | Some candidate \<Rightarrow>
          let (protection, allowed) = healthy n candidate protection;
              (protection, candidates) = gather_candidates eligible healthy (n + 1) rest protection in
          (protection, if allowed then candidate # candidates else candidates))"

definition cand_priority :: "Candidate \<Rightarrow> nat" where
  "cand_priority c = priority (cand_target c)"

text \<open>One tier in the order of its targets' scores: each identifier's first candidate.\<close>

definition order_tier :: "(TargetSnapshot list \<Rightarrow> uuid list option) \<Rightarrow> Candidate list \<Rightarrow> Candidate list option" where
  "order_tier order tier =
     map_option (List.map_filter (\<lambda>tid. find (\<lambda>c. target_id (cand_target c) = tid) tier))
       (order (map cand_target tier))"

fun order_tiers ::
    "(TargetSnapshot list \<Rightarrow> uuid list option) \<Rightarrow> Candidate list \<Rightarrow> nat list \<Rightarrow> Candidate list option" where
  "order_tiers order candidates [] = Some []"
| "order_tiers order candidates (p # ps) =
     Option.bind (order_tier order (filter (\<lambda>c. cand_priority c = p) candidates)) (\<lambda>first.
       map_option (append first) (order_tiers order candidates ps))"

text \<open>The keys of the map of tiers, ascending.\<close>

definition tier_priorities :: "Candidate list \<Rightarrow> nat list" where
  "tier_priorities candidates = sort (remdups (map cand_priority candidates))"

definition order_candidates ::
    "GatewayExternals \<Rightarrow> RuntimeGeneration \<Rightarrow> OrganizationSnapshot \<Rightarrow> GatewayPrincipal \<Rightarrow> RouteSnapshot
      \<Rightarrow> LlmIntent \<Rightarrow> headers \<Rightarrow> string \<Rightarrow> capabilities \<Rightarrow> RouteRequestPolicy \<Rightarrow> observations option \<Rightarrow> clock
      \<Rightarrow> TargetProtectionState \<Rightarrow> TargetProtectionState \<times> Candidate list option" where
  "order_candidates ge generation organization caller route i headers request_id required policy
       probes clock protection =
     (let env = ge_env ge; (source_tag, source) = affinity_source route headers request_id;
          affinity_hash = replicated_wrh_base env (org_id organization) (affinity_uuid caller)
            (route_id route) source_tag source;
          order = replicated_wrh_order env (org_id organization) (affinity_uuid caller)
            (route_id route) source_tag source in
      if length source > u32_max then (protection, None)
      else
        let (protection, candidates) =
              gather_candidates (eligible_candidate generation organization route i required policy)
                (\<lambda>n. healthy_candidate env generation route affinity_hash probes (clock (2 * n))
                  (clock (2 * n + 1)))
                0 (route_targets route) protection in
        (protection, order_tiers order candidates (tier_priorities candidates)))"

subsection \<open>Admission to a route\<close>

record AdmissionContext =
  ctx_generation :: RuntimeGeneration
  ctx_request_id :: string
  ctx_organization :: OrganizationSnapshot
  ctx_principal :: GatewayPrincipal
  ctx_route :: RouteSnapshot
  effective_request_policy :: RouteRequestPolicy
  ctx_candidates :: "Candidate list"

definition route_grant :: "OrganizationSnapshot \<Rightarrow> RouteSnapshot \<Rightarrow> SystemRouteGrantSnapshot option" where
  "route_grant organization route =
     (if route_organization_id route = None then aget (system_route_grants organization) (route_id route)
      else None)"

definition granted_policy :: "SystemRouteGrantSnapshot option \<Rightarrow> RouteSnapshot \<Rightarrow> RouteRequestPolicy" where
  "granted_policy grant route =
     (case grant of
        None \<Rightarrow> request_policy route
      | Some grant \<Rightarrow> SystemRouteGrantCeilings_narrow_request_policy (srg_ceilings grant) (request_policy route))"

definition grant_allows :: "SystemRouteGrantSnapshot option \<Rightarrow> capabilities \<Rightarrow> bool" where
  "grant_allows grant required =
     is_none_or (\<lambda>grant. SystemRouteGrantCeilings_allows_capabilities (srg_ceilings grant) required) grant"

text \<open>The part of \<open>authenticate_and_admit\<close> after the principal is known; \<open>None\<close> is a panic.\<close>

definition admit_request ::
    "GatewayExternals \<Rightarrow> IngressProtocolFamily \<Rightarrow> headers \<Rightarrow> LlmIntent \<Rightarrow> string \<Rightarrow> observations option
      \<Rightarrow> clock \<Rightarrow> RuntimeGeneration \<Rightarrow> OrganizationSnapshot \<Rightarrow> GatewayPrincipal \<Rightarrow> TargetProtectionState
      \<Rightarrow> TargetProtectionState \<times> (ProtocolError + AdmissionContext) option" where
  "admit_request ge family headers i request_id probes clock generation organization caller protection =
     (let fail = (\<lambda>kind message. ProtocolError_new family kind request_id message) in
      case resolve_route (catalog (snapshot generation)) organization family (intent_model_key i) of
        None \<Rightarrow> (protection, Some (Inl (fail ErrRouteUnavailable ''model route is not available'')))
      | Some route \<Rightarrow>
          if \<not> allows_route (uuid_text (ge_env ge)) caller (route_id route)
             \<or> \<not> allows_scopes caller (intent_required_scopes i)
             \<or> \<not> allows_capabilities caller (intent_required_capabilities i)
          then (protection,
            Some (Inl (fail ErrForbidden ''request exceeds the principal authorization ceiling'')))
          else
            let required = required_base_capabilities route \<union> intent_required_capabilities i;
                grant = route_grant organization route in
            if \<not> grant_allows grant (intent_required_capabilities i)
            then (protection,
              Some (Inl (fail ErrForbidden ''request exceeds the system route grant capability ceiling'')))
            else
              let policy = granted_policy grant route;
                  (protection, ordered) = order_candidates ge generation organization caller route i
                    headers request_id required policy probes clock protection in
              (protection, map_option (\<lambda>candidates.
                 if candidates = []
                 then Inl (fail ErrUnsupportedCapability
                   ''no target supports the requested protocol capabilities'')
                 else Inr \<lparr>ctx_generation = generation, ctx_request_id = request_id,
                   ctx_organization = organization, ctx_principal = caller, ctx_route = route,
                   effective_request_policy = policy, ctx_candidates = candidates\<rparr>) ordered))"

definition authenticate_and_admit ::
    "GatewayExternals \<Rightarrow> RuntimeGeneration option \<Rightarrow> IngressProtocolFamily \<Rightarrow> headers \<Rightarrow> LlmIntent \<Rightarrow> string
      \<Rightarrow> int \<Rightarrow> int \<Rightarrow> observations option \<Rightarrow> clock \<Rightarrow> TargetProtectionState
      \<Rightarrow> TargetProtectionState \<times> (ProtocolError + AdmissionContext) option" where
  "authenticate_and_admit ge current family headers i request_id now later probes clock protection =
     (case authenticate_identity ge current family headers request_id now later of
        Inl e \<Rightarrow> (protection, Some (Inl e))
      | Inr (generation, organization, caller) \<Rightarrow>
          admit_request ge family headers i request_id probes clock generation organization caller
            protection)"

definition websocket_scopes :: LlmScopeSet where
  "websocket_scopes = {LlmInvoke, LlmStream}"

definition websocket_intent :: "RouteSnapshot \<Rightarrow> LlmIntent" where
  "websocket_intent route =
     \<lparr>intent_model_key = route_model_key route, response_mode = ModeWebSocket,
      intent_required_scopes = websocket_scopes, intent_required_capabilities = {FeatStreaming},
      requested_output_bound = None, continuation_reference = None, replay_safe = True\<rparr>"

definition websocket_route_open ::
    "GatewayExternals \<Rightarrow> OrganizationSnapshot \<Rightarrow> GatewayPrincipal \<Rightarrow> RouteSnapshot \<Rightarrow> bool" where
  "websocket_route_open ge organization caller route \<longleftrightarrow>
     (let grant = route_grant organization route in
      route_active route
      \<and> (route_organization_id route = Some (org_id organization) \<or> grant \<noteq> None)
      \<and> ingress_protocol_family route = IngressOpenaiResponses
      \<and> allows_route (uuid_text (ge_env ge)) caller (route_id route)
      \<and> allows_capabilities caller {FeatStreaming}
      \<and> grant_allows grant {FeatStreaming})"

text \<open>\<open>any\<close> over the routes; it stops at the first that can be served.\<close>

fun any_websocket_route ::
    "GatewayExternals \<Rightarrow> RuntimeGeneration \<Rightarrow> OrganizationSnapshot \<Rightarrow> GatewayPrincipal \<Rightarrow> headers \<Rightarrow> string
      \<Rightarrow> observations option \<Rightarrow> clock \<Rightarrow> RouteSnapshot list \<Rightarrow> TargetProtectionState
      \<Rightarrow> TargetProtectionState \<times> bool option" where
  "any_websocket_route ge generation organization caller headers request_id probes clock [] protection =
     (protection, Some False)"
| "any_websocket_route ge generation organization caller headers request_id probes clock (route # rest)
       protection =
     (if \<not> websocket_route_open ge organization caller route
      then any_websocket_route ge generation organization caller headers request_id probes clock rest
        protection
      else
        let (protection, ordered) = order_candidates ge generation organization caller route
              (websocket_intent route) headers request_id
              (insert FeatStreaming (required_base_capabilities route))
              (granted_policy (route_grant organization route) route) probes clock protection in
        (case ordered of
           None \<Rightarrow> (protection, None)
         | Some [] \<Rightarrow> any_websocket_route ge generation organization caller headers request_id probes
             clock rest protection
         | Some _ \<Rightarrow> (protection, Some True)))"

definition authenticate_websocket_connection ::
    "GatewayExternals \<Rightarrow> RuntimeGeneration option \<Rightarrow> headers \<Rightarrow> string \<Rightarrow> int \<Rightarrow> int \<Rightarrow> observations option
      \<Rightarrow> clock \<Rightarrow> TargetProtectionState \<Rightarrow> TargetProtectionState \<times> (ProtocolError + unit) option" where
  "authenticate_websocket_connection ge current headers request_id now later probes clock protection =
     (let family = IngressOpenaiResponses;
          fail = (\<lambda>kind message. ProtocolError_new family kind request_id message) in
      case authenticate_identity ge current family headers request_id now later of
        Inl e \<Rightarrow> (protection, Some (Inl e))
      | Inr (generation, organization, caller) \<Rightarrow>
          if \<not> allows_scopes caller websocket_scopes
          then (protection, Some (Inl (fail ErrForbidden
            ''WebSocket connection exceeds the principal authorization ceiling'')))
          else
            let (protection, found) = any_websocket_route ge generation organization caller headers
                  request_id probes clock (map snd (routes (catalog (snapshot generation)))) protection in
            (protection, map_option (\<lambda>found.
               if found then Inr ()
               else Inl (fail ErrUnsupportedCapability
                 ''no authorized Responses WebSocket route is available'')) found))"

subsection \<open>The order of the candidates\<close>

lemma gather_candidatesD:
  assumes "gather_candidates eligible healthy n targets protection = (protection', candidates)"
    and "c \<in> set candidates"
  shows "\<exists>target \<in> set targets. eligible target = Some c"
  using assms
proof (induction targets arbitrary: n protection protection' candidates)
  case (Cons target rest)
  then show ?case
    by (fastforce split: option.splits prod.splits if_splits)
qed simp

lemma order_tier_subset: "order_tier order tier = Some cs \<Longrightarrow> set cs \<subseteq> set tier"
  by (auto simp: order_tier_def List.map_filter_def) (metis find_SomeD)

lemma order_tiers_subset: "order_tiers order candidates ps = Some cs \<Longrightarrow> set cs \<subseteq> set candidates"
proof (induction ps arbitrary: cs)
  case (Cons p ps)
  then obtain first rest where "order_tier order (filter (\<lambda>c. cand_priority c = p) candidates) = Some first"
      "order_tiers order candidates ps = Some rest" "cs = first @ rest"
    by (auto simp: bind_eq_Some_conv)
  with Cons.IH order_tier_subset [of order] show ?case by fastforce
qed simp

lemma order_candidatesD:
  assumes "order_candidates ge generation organization caller route i headers request_id required policy
      probes clock protection = (protection', Some candidates)" "c \<in> set candidates"
  shows "\<exists>target \<in> set (route_targets route).
    eligible_candidate generation organization route i required policy target = Some c"
  using assms order_tiers_subset gather_candidatesD
  by (fastforce simp: order_candidates_def Let_def split: prod.splits if_splits)

lemma insort_key_map: "insort_key f (g x) (map g xs) = map g (insort_key (\<lambda>y. f (g y)) x xs)"
  by (induction xs) simp_all

lemma sort_key_map: "sort_key f (map g xs) = map g (sort_key (\<lambda>y. f (g y)) xs)"
  by (induction xs) (simp_all add: insort_key_map)

lemma find_distinct:
  "distinct (map f xs) \<Longrightarrow> x \<in> set xs \<Longrightarrow> find (\<lambda>y. f y = f x) xs = Some x"
  by (induction xs) auto

lemma map_filter_find:
  assumes "distinct (map f xs)" "set ys \<subseteq> set xs"
  shows "List.map_filter (\<lambda>k. find (\<lambda>x. f x = k) xs) (map f ys) = ys"
  using assms(2) by (induction ys) (simp_all add: List.map_filter_simps find_distinct [OF assms(1)])

lemma order_tier_sorted:
  assumes "distinct (map (\<lambda>c. target_id (cand_target c)) tier)"
  shows "order_tier (\<lambda>ts. Some (map target_id (sort_key f ts))) tier
    = Some (sort_key (\<lambda>c. f (cand_target c)) tier)"
  using map_filter_find [OF assms, of "sort_key (\<lambda>c. f (cand_target c)) tier"]
  by (simp add: order_tier_def sort_key_map comp_def)

lemma sorted_pairs:
  "sorted (map f ys) \<Longrightarrow> \<forall>y \<in> set ys. p y = k \<Longrightarrow> sorted (map (\<lambda>x. (p x, f x)) ys)"
  by (induction ys) (auto simp: less_eq_prod_def)

text \<open>Sorting each tier is sorting by the pair of priority and key.\<close>

lemma sort_tiers:
  fixes f :: "'a \<Rightarrow> 'b :: linorder" and p :: "'a \<Rightarrow> 'c :: linorder"
  assumes "set (map p xs) = set ps" "sorted ps" "distinct ps"
  shows "concat (map (\<lambda>k. sort_key f (filter (\<lambda>x. p x = k) xs)) ps) = sort_key (\<lambda>x. (p x, f x)) xs"
    (is "?ys = _")
proof (rule properties_for_sort_key [symmetric])
  have parts: "mset (concat (map (\<lambda>k. sort_key f (filter (\<lambda>x. p x = k) xs)) ks))
      = mset (filter (\<lambda>x. p x \<in> set ks) xs)" if "distinct ks" for ks
    using that
  proof (induction ks)
    case (Cons k ks)
    have "filter (\<lambda>x. p x \<in> set (k # ks)) xs = filter (\<lambda>x. p x = k \<or> p x \<in> set ks) xs" by simp
    moreover have "mset (filter (\<lambda>x. p x = k \<or> p x \<in> set ks) xs)
        = mset (filter (\<lambda>x. p x = k) xs) + mset (filter (\<lambda>x. p x \<in> set ks) xs)"
      using Cons.prems by (induction xs) auto
    ultimately show ?case using Cons by simp
  qed simp
  have "filter (\<lambda>x. p x \<in> set ps) xs = xs" using assms(1) by (intro filter_True) auto
  then show "mset ?ys = mset xs" using parts [OF assms(3)] by simp
next
  have cut: "filter P (concat (map (\<lambda>k. sort_key f (filter (\<lambda>x. p x = k) xs)) ks))
      = (if q \<in> set ks then filter P (sort_key f (filter (\<lambda>x. p x = q) xs)) else [])"
    if "distinct ks" "\<And>x. P x \<Longrightarrow> p x = q" for P q ks
    using that
  proof (induction ks)
    case (Cons k ks)
    have "filter P (sort_key f (filter (\<lambda>x. p x = k) xs)) = []" if "k \<noteq> q"
      using that Cons.prems(2) by (auto simp: filter_empty_conv)
    then show ?case using Cons by auto
  qed simp
  show "filter (\<lambda>x. (p k, f k) = (p x, f x)) ?ys = filter (\<lambda>x. (p k, f k) = (p x, f x)) xs"
    if "k \<in> set ?ys" for k
  proof -
    have "p k \<in> set ps" using that by auto
    then have "filter (\<lambda>x. (p k, f k) = (p x, f x)) ?ys
        = filter (\<lambda>x. (p k, f k) = (p x, f x)) (sort_key f (filter (\<lambda>x. p x = p k) xs))"
      using cut [OF assms(3), of "\<lambda>x. (p k, f k) = (p x, f x)" "p k"] by simp
    also have "\<dots> = filter (\<lambda>x. p x = p k) (filter (\<lambda>x. f x = f k) (sort_key f (filter (\<lambda>x. p x = p k) xs)))"
      by (auto simp: filter_filter intro: filter_cong)
    also have "\<dots> = filter (\<lambda>x. p x = p k) (filter (\<lambda>x. f x = f k) (filter (\<lambda>x. p x = p k) xs))"
      by (simp only: sort_key_stable)
    also have "\<dots> = filter (\<lambda>x. (p k, f k) = (p x, f x)) xs"
      by (auto simp: filter_filter intro: filter_cong)
    finally show ?thesis .
  qed
next
  have "sorted (map (\<lambda>x. (p x, f x)) (concat (map (\<lambda>k. sort_key f (filter (\<lambda>x. p x = k) xs)) ks)))"
    if "sorted ks" "distinct ks" for ks
    using that
  proof (induction ks)
    case (Cons k ks)
    have "sorted (map (\<lambda>x. (p x, f x)) (sort_key f (filter (\<lambda>x. p x = k) xs)))"
      by (rule sorted_pairs [where k = k]) simp_all
    moreover have "(p x, f x) \<le> (p y, f y)"
      if "p x = k" "p y \<in> set ks" for x y
    proof -
      have "k < p y" using that Cons.prems by (auto simp: order.strict_iff_order)
      then show ?thesis using that(1) by (simp add: less_eq_prod_def)
    qed
    ultimately show ?case using Cons by (auto simp: sorted_append)
  qed simp
  then show "sorted (map (\<lambda>x. (p x, f x)) ?ys)" using assms(2,3) by simp
qed

lemma order_tiers_sorted:
  assumes "distinct (map (\<lambda>c. target_id (cand_target c)) candidates)"
  shows "order_tiers (\<lambda>ts. Some (map target_id (sort_key f ts))) candidates ps
    = Some (concat (map (\<lambda>k. sort_key (\<lambda>c. f (cand_target c)) (filter (\<lambda>c. cand_priority c = k) candidates)) ps))"
proof (induction ps)
  case (Cons k ps)
  have "distinct (map (\<lambda>c. target_id (cand_target c)) (filter (\<lambda>c. cand_priority c = k) candidates))"
    using assms by (rule distinct_map_filter)
  from order_tier_sorted [OF this, of f] Cons.IH show ?case by simp
qed simp

lemma gather_candidates_distinct:
  assumes "gather_candidates eligible healthy n targets protection = (protection', candidates)"
    and "\<And>t c. eligible t = Some c \<Longrightarrow> cand_target c = t" "distinct (map target_id targets)"
  shows "distinct (map (\<lambda>c. target_id (cand_target c)) candidates)
    \<and> set (map cand_target candidates) \<subseteq> set targets"
  using assms(1,3)
proof (induction targets arbitrary: n protection protection' candidates)
  case (Cons target rest)
  show ?case
  proof (cases "eligible target")
    case None
    then show ?thesis using Cons by fastforce
  next
    case (Some c)
    obtain p1 allowed p2 cs where "healthy n c protection = (p1, allowed)"
      and rest: "gather_candidates eligible healthy (n + 1) rest p1 = (p2, cs)"
      and cands: "candidates = (if allowed then c # cs else cs)"
      using Cons.prems(1) Some by (auto split: prod.splits)
    moreover have "distinct (map (\<lambda>c. target_id (cand_target c)) cs) \<and> set (map cand_target cs) \<subseteq> set rest"
      using Cons.IH [OF rest] Cons.prems(2) by simp
    moreover have "cand_target c = target" using assms(2) Some by blast
    ultimately show ?thesis using Cons.prems(2) by (auto simp: image_iff)
  qed
qed simp

lemma eligible_candidate_target:
  "eligible_candidate generation organization route i required policy t = Some c \<Longrightarrow> cand_target c = t"
  by (auto simp: eligible_candidate_def Let_def split: option.splits if_splits)

text \<open>
  The grouping of candidates into tiers is one sort.  When no target is listed twice and each
  has a weight, the order in which a request tries its candidates is the stable order by priority,
  then by falling rendezvous score, then by affinity identity; none is lost and none appears twice.
\<close>

theorem candidates_sorted_once:
  assumes "distinct (map target_id (route_targets route))" "\<forall>t \<in> set (route_targets route). 0 < weight t"
    and "affinity_source route headers request_id = (source_tag, source)" "length source \<le> u32_max"
    and "base = replicated_wrh_base (ge_env ge) (org_id organization) (affinity_uuid caller) (route_id route)
        source_tag source"
    and "gather_candidates (eligible_candidate generation organization route i required policy)
        (\<lambda>n. healthy_candidate (ge_env ge) generation route base probes (clock (2 * n)) (clock (2 * n + 1)))
        0 (route_targets route) protection = (protection', candidates)"
  shows "order_candidates ge generation organization caller route i headers request_id required policy
      probes clock protection
    = (protection', Some (sort_key (\<lambda>c. (cand_priority c, wrh_key (ge_env ge) base (cand_target c))) candidates))"
proof -
  note gathered = gather_candidates_distinct [OF assms(6) eligible_candidate_target assms(1)]
  let ?order = "replicated_wrh_order (ge_env ge) (org_id organization) (affinity_uuid caller) (route_id route)
      source_tag source"
  have "?order (map cand_target tier) = Some (map target_id (sort_key (wrh_key (ge_env ge) base) (map cand_target tier)))"
    if "set tier \<subseteq> set candidates" for tier
    using that gathered assms(2,4) unfolding replicated_wrh_order_def assms(5)
    by (fastforce simp: list_ex_iff)
  then have "order_tiers ?order candidates ps
      = order_tiers (\<lambda>ts. Some (map target_id (sort_key (wrh_key (ge_env ge) base) ts))) candidates ps" for ps
    by (induction ps) (simp_all add: order_tier_def)
  also have "order_tiers (\<lambda>ts. Some (map target_id (sort_key (wrh_key (ge_env ge) base) ts))) candidates ps
      = Some (concat (map (\<lambda>k. sort_key (\<lambda>c. wrh_key (ge_env ge) base (cand_target c))
      (filter (\<lambda>c. cand_priority c = k) candidates)) ps))" for ps
    by (rule order_tiers_sorted [OF conjunct1 [OF gathered]])
  finally have tiers: "order_tiers ?order candidates ps
      = Some (concat (map (\<lambda>k. sort_key (\<lambda>c. wrh_key (ge_env ge) base (cand_target c))
          (filter (\<lambda>c. cand_priority c = k) candidates)) ps))" for ps .
  have sorted: "concat (map (\<lambda>k. sort_key (\<lambda>c. wrh_key (ge_env ge) base (cand_target c))
        (filter (\<lambda>c. cand_priority c = k) candidates)) (tier_priorities candidates))
      = sort_key (\<lambda>c. (cand_priority c, wrh_key (ge_env ge) base (cand_target c))) candidates"
    by (rule sort_tiers) (simp_all add: tier_priorities_def)
  show ?thesis
    using assms(4) unfolding order_candidates_def Let_def assms(3) prod.case assms(5) [symmetric] assms(6) tiers sorted
    by simp
qed

text \<open>
  Rendezvous hashing disturbs nothing but what changed.  The targets that remain when some
  are taken away keep their order, and the order is a rearrangement of the targets.
\<close>

theorem rendezvous_minimal_disruption:
  assumes "replicated_wrh_order env organization_id caller_id rid source_tag source targets = Some ids"
    and "distinct (map target_id targets)"
  shows "replicated_wrh_order env organization_id caller_id rid source_tag source (filter P targets)
      = Some (filter (\<lambda>i. \<exists>t \<in> set targets. target_id t = i \<and> P t) ids)
    \<and> mset ids = mset (map target_id targets)"
proof -
  let ?k = "wrh_key env (replicated_wrh_base env organization_id caller_id rid source_tag source)"
  have ids: "ids = map target_id (sort_key ?k targets)" "\<not> length source > u32_max"
      "\<forall>t \<in> set targets. weight t \<noteq> 0"
    using assms(1) by (auto simp: replicated_wrh_order_def Let_def list_ex_iff split: if_splits)
  have "filter (\<lambda>i. \<exists>t \<in> set targets. target_id t = i \<and> P t) (map target_id ts) = map target_id (filter P ts)"
    if "set ts \<subseteq> set targets" for ts
  proof -
    have "(\<exists>t \<in> set targets. target_id t = target_id u \<and> P t) \<longleftrightarrow> P u" if "u \<in> set targets" for u
      using that assms(2) by (auto simp: distinct_map inj_on_def)
    then show ?thesis using that by (auto simp: filter_map comp_def intro!: filter_cong arg_cong [of _ _ "map target_id"])
  qed
  then have "filter (\<lambda>i. \<exists>t \<in> set targets. target_id t = i \<and> P t) ids
      = map target_id (sort_key ?k (filter P targets))"
    by (simp add: ids(1) filter_sort)
  then show ?thesis
    using ids(2,3) by (simp add: replicated_wrh_order_def Let_def list_ex_iff ids(1))
qed

subsection \<open>What an admitted request may use\<close>

lemma eligible_candidateD:
  assumes "eligible_candidate generation organization route i required policy target = Some c"
  shows "cand_target c = target \<and> operational (cand_deployment c)
    \<and> aget (deployments (catalog (snapshot generation))) (target_deployment_id target) = Some (cand_deployment c)
    \<and> required \<subseteq> dep_capabilities (cand_deployment c)
    \<and> (\<forall>bound. narrow_max_output_units (narrowing_constraints target) = Some bound
        \<longrightarrow> (case requested_output_bound i of None \<Rightarrow> max_output_units policy | Some n \<Rightarrow> n) \<le> bound)
    \<and> (route_scope route = ScopeOrganization \<and> dep_scope (cand_deployment c) = ScopeDeployment
        \<longrightarrow> dep_id (cand_deployment c) \<in> deployment_grants organization)
    \<and> (\<exists>entry. compatibility (ingress_protocol_family route) (dep_endpoint_adapter (cand_deployment c))
          (dep_credential_kind (cand_deployment c)) (dep_transport_kind (cand_deployment c)) = Some entry
        \<and> mode_supported (response_mode i) entry)"
  using assms unfolding eligible_candidate_def Let_def
  by (auto simp: option_filter_def not_less split: option.splits if_splits)

text \<open>The claims of a candidate that an admitted request rests on.\<close>

definition candidate_admissible ::
    "RuntimeGeneration \<Rightarrow> OrganizationSnapshot \<Rightarrow> RouteSnapshot \<Rightarrow> LlmIntent \<Rightarrow> RouteRequestPolicy \<Rightarrow> Candidate \<Rightarrow> bool"
where
  "candidate_admissible generation organization route i policy c \<longleftrightarrow>
     cand_target c \<in> set (route_targets route)
     \<and> operational (cand_deployment c)
     \<and> aget (deployments (catalog (snapshot generation))) (target_deployment_id (cand_target c))
         = Some (cand_deployment c)
     \<and> required_base_capabilities route \<union> intent_required_capabilities i \<subseteq> dep_capabilities (cand_deployment c)
     \<and> (\<forall>bound. narrow_max_output_units (narrowing_constraints (cand_target c)) = Some bound
          \<longrightarrow> (case requested_output_bound i of None \<Rightarrow> max_output_units policy | Some n \<Rightarrow> n) \<le> bound)
     \<and> (route_scope route = ScopeOrganization \<and> dep_scope (cand_deployment c) = ScopeDeployment
          \<longrightarrow> dep_id (cand_deployment c) \<in> deployment_grants organization)
     \<and> (\<exists>entry. compatibility (ingress_protocol_family route) (dep_endpoint_adapter (cand_deployment c))
            (dep_credential_kind (cand_deployment c)) (dep_transport_kind (cand_deployment c)) = Some entry
          \<and> mode_supported (response_mode i) entry)"

lemma order_candidates_admissible:
  assumes "order_candidates ge generation organization caller route i headers request_id
      (required_base_capabilities route \<union> intent_required_capabilities i) policy probes clock protection
      = (protection', Some candidates)" "c \<in> set candidates"
  shows "candidate_admissible generation organization route i policy c"
proof -
  obtain target where "target \<in> set (route_targets route)" and
    eligible: "eligible_candidate generation organization route i
      (required_base_capabilities route \<union> intent_required_capabilities i) policy target = Some c"
    using order_candidatesD [OF assms] by blast
  moreover have "cand_target c = target" using eligible_candidateD [OF eligible] by blast
  ultimately show ?thesis
    using eligible_candidateD [OF eligible] unfolding candidate_admissible_def by blast
qed

lemma authenticate_identityD:
  assumes "authenticate_identity ge current family headers request_id now later = Inr (generation, organization, caller)"
  shows "current = Some generation \<and> org_active organization
    \<and> (\<exists>oid. aget (organizations (snapshot generation)) oid = Some organization)"
  using assms unfolding authenticate_identity_def
  by (auto simp: result_bind_def ok_or_def option_filter_def split: option.splits sum.splits if_splits prod.splits)

lemma admit_requestD:
  assumes "admit_request ge family headers i request_id probes clock generation organization caller protection
      = (protection', Some (Inr ctx))"
  shows "resolve_route (catalog (snapshot generation)) organization family (intent_model_key i) = Some (ctx_route ctx)
    \<and> allows_route (uuid_text (ge_env ge)) caller (route_id (ctx_route ctx))
    \<and> allows_scopes caller (intent_required_scopes i)
    \<and> allows_capabilities caller (intent_required_capabilities i)
    \<and> grant_allows (route_grant organization (ctx_route ctx)) (intent_required_capabilities i)
    \<and> effective_request_policy ctx = granted_policy (route_grant organization (ctx_route ctx)) (ctx_route ctx)
    \<and> ctx_generation ctx = generation \<and> ctx_organization ctx = organization \<and> ctx_principal ctx = caller
    \<and> ctx_candidates ctx \<noteq> []
    \<and> order_candidates ge generation organization caller (ctx_route ctx) i headers request_id
        (required_base_capabilities (ctx_route ctx) \<union> intent_required_capabilities i)
        (effective_request_policy ctx) probes clock protection = (protection', Some (ctx_candidates ctx))"
proof (cases "resolve_route (catalog (snapshot generation)) organization family (intent_model_key i)")
  case None
  with assms show ?thesis by (simp add: admit_request_def Let_def)
next
  case (Some route)
  let ?within = "allows_route (uuid_text (ge_env ge)) caller (route_id route)
      \<and> allows_scopes caller (intent_required_scopes i) \<and> allows_capabilities caller (intent_required_capabilities i)"
  let ?granted = "grant_allows (route_grant organization route) (intent_required_capabilities i)"
  have within: "?within" "?granted"
    using assms unfolding admit_request_def Let_def Some option.case by (simp_all split: if_splits)
  obtain p ordered where ordered: "order_candidates ge generation organization caller route i headers request_id
      (required_base_capabilities route \<union> intent_required_capabilities i)
      (granted_policy (route_grant organization route) route) probes clock protection = (p, ordered)"
    by (meson surj_pair)
  from assms within Some show ?thesis
    unfolding admit_request_def Let_def
    by (auto simp: ordered split: if_splits)
qed

text \<open>
  What the limits of a request are narrowed to: each is the least of the route's own and the ceilings that the
  grant of a shared route sets for it, the bound on the context being one for the request's body.
\<close>

definition grant_limits :: "(SystemRouteGrantCeilings \<Rightarrow> nat option) \<Rightarrow> SystemRouteGrantSnapshot option \<Rightarrow> nat set" where
  "grant_limits limit grant = \<Union> (set_option ` (limit \<circ> srg_ceilings) ` set_option grant)"

definition narrowed_limits :: "SystemRouteGrantSnapshot option \<Rightarrow> RouteRequestPolicy \<Rightarrow> RouteRequestPolicy \<Rightarrow> bool" where
  "narrowed_limits grant policy effective \<longleftrightarrow>
     max_header_bytes effective = Min (insert (max_header_bytes policy)
       (grant_limits (\<lambda>c. ceil_max_header_bytes (request_policy_ceilings c)) grant))
     \<and> max_request_body_bytes effective = Min (insert (max_request_body_bytes policy)
       (grant_limits (\<lambda>c. ceil_max_request_body_bytes (request_policy_ceilings c)) grant
         \<union> grant_limits ceil_max_context_bytes grant))
     \<and> max_response_body_bytes effective = Min (insert (max_response_body_bytes policy)
       (grant_limits (\<lambda>c. ceil_max_response_body_bytes (request_policy_ceilings c)) grant))
     \<and> max_output_units effective = Min (insert (max_output_units policy) (grant_limits ceil_max_output_units grant))
     \<and> max_stream_seconds effective = Min (insert (max_stream_seconds policy)
       (grant_limits (\<lambda>c. ceil_max_stream_seconds (request_policy_ceilings c)) grant))
     \<and> state_origin_ttl_seconds effective = Min (insert (state_origin_ttl_seconds policy)
       (grant_limits (\<lambda>c. ceil_state_origin_ttl_seconds (request_policy_ceilings c)) grant))"

lemma capped_Min: "capped c n = Min (insert n (set_option c))"
  by (cases c) (simp_all add: capped_def min.commute)

lemma option_min_Min: "Min (insert n (set_option (option_min a b))) = Min (insert (n::nat) (set_option a \<union> set_option b))"
  by (cases a; cases b) (simp_all add: option_min_def)

lemma granted_policy_narrowed: "narrowed_limits grant (request_policy route) (granted_policy grant route)"
  by (cases grant) (simp_all add: narrowed_limits_def granted_policy_def grant_limits_def
      SystemRouteGrantCeilings_narrow_request_policy_def Let_def capped_Min option_min_Min)

text \<open>Where a route was found: in the organization's own namespace, or in the shared one and with a grant.\<close>

definition route_of_organization ::
    "RuntimeGeneration \<Rightarrow> OrganizationSnapshot \<Rightarrow> IngressProtocolFamily \<Rightarrow> string \<Rightarrow> RouteSnapshot \<Rightarrow> bool" where
  "route_of_organization generation organization family key route \<longleftrightarrow>
     (let c = catalog (snapshot generation) in
      route_active route \<and> (\<exists>rid. aget (routes c) rid = Some route
        \<and> (aget (routes_by_namespace c) (Some (org_id organization), family, key) = Some rid
           \<or> aget (routes_by_namespace c) (None, family, key) = Some rid
             \<and> aget (system_route_grants organization) rid \<noteq> None)))"


lemma case_sum_Inr:
  "(case r of Inl e \<Rightarrow> Inl (f e) | Inr v \<Rightarrow> g v) = Inr w \<longleftrightarrow> (\<exists>v. r = Inr v \<and> g v = Inr w)"
  by (cases r) auto

lemma narrow_by_claimD:
  "narrow_by_claim ge issuer claims path ceiling narrow = Inr v \<Longrightarrow> v = ceiling \<or> (\<exists>texts. narrow texts = Inr v)"
  by (auto simp: narrow_by_claim_def result_bind_def split: option.splits sum.splits if_splits)

lemma intersect_route_ceiling_narrows:
  "route_ceiling_allows (uuid_text (ge_env ge)) (intersect_route_ceiling ge ceiling claimed) rid
    \<Longrightarrow> route_ceiling_allows (uuid_text (ge_env ge)) ceiling rid"
  by (cases ceiling) auto

lemma derive_llm_ceilingD:
  assumes "derive_llm_ceiling ge issuer claims = Inr (scopes, caps, ceiling)"
  shows "(\<exists>granted. issuer_llm_scopes issuer = Some granted \<and> scopes \<subseteq> granted)
    \<and> caps \<subseteq> issuer_llm_capabilities issuer
    \<and> (\<forall>rid. route_ceiling_allows (uuid_text (ge_env ge)) ceiling rid
        \<longrightarrow> route_ceiling_allows (uuid_text (ge_env ge)) (issuer_llm_routes issuer) rid)"
proof -
  obtain granted where granted: "issuer_llm_scopes issuer = Some granted"
    using assms by (auto simp: derive_llm_ceiling_def LlmScopeCeiling_as_scopes_def result_bind_def ok_or_def
        split: option.splits)
  show ?thesis
  proof (cases "capability_claim_policy issuer = Ignore")
    case True
    with assms granted show ?thesis
      by (auto simp: derive_llm_ceiling_def LlmScopeCeiling_as_scopes_def result_bind_def)
  next
    case False
    let ?f = "\<lambda>texts. result_bind (collect_results scope_of_str ClaimInvalidCredential texts) (\<lambda>claimed.
        case LlmScopeSet_deserialize claimed of
          Inl _ \<Rightarrow> Inl ClaimInvalidCredential
        | Inr claimed \<Rightarrow> ok_or ClaimForbidden (LlmScopeSet_intersection granted claimed))"
    let ?g = "\<lambda>texts. result_bind (collect_results LlmFeatureCapability_from_str ClaimInvalidCredential texts)
        (\<lambda>claimed. Inr (issuer_llm_capabilities issuer \<inter> set claimed))"
    let ?h = "\<lambda>texts. result_bind (collect_results (ge_parse_uuid ge) ClaimInvalidCredential texts)
        (\<lambda>claimed. Inr (intersect_route_ceiling ge (issuer_llm_routes issuer) (set claimed)))"
    from assms granted False have narrowed:
      "narrow_by_claim ge issuer claims (llm_scopes_claim (claim_mapping issuer)) granted ?f = Inr scopes"
      "narrow_by_claim ge issuer claims (llm_capabilities_claim (claim_mapping issuer))
        (issuer_llm_capabilities issuer) ?g = Inr caps"
      "narrow_by_claim ge issuer claims (routes_claim (claim_mapping issuer)) (issuer_llm_routes issuer) ?h
        = Inr ceiling"
      unfolding derive_llm_ceiling_def LlmScopeCeiling_as_scopes_def Let_def
      by auto
    have "scopes \<subseteq> granted"
      using narrow_by_claimD [OF narrowed(1)] LlmScopeSet_intersection_narrows
      by (auto simp: LlmScopeSet_is_superset_def case_sum_Inr)
    moreover have "caps \<subseteq> issuer_llm_capabilities issuer"
      using narrow_by_claimD [OF narrowed(2)] by auto
    moreover have "ceiling = issuer_llm_routes issuer
        \<or> (\<exists>claimed. ceiling = intersect_route_ceiling ge (issuer_llm_routes issuer) claimed)"
      using narrow_by_claimD [OF narrowed(3)] by auto
    ultimately show ?thesis using granted intersect_route_ceiling_narrows by blast
  qed
qed

text \<open>
  C39: A user who presents a JWT is held to the issuer and to the membership.  The issuer is an active one
  that allows direct access, the user is the active one bound to the subject and a member of the
  selected organization, and whatever the claims say, no scope, feature or route is allowed that either the
  issuer's ceiling or the membership withholds.
\<close>

theorem jwt_principal_bounded:
  assumes "authenticate_direct_jwt ge generation raw headers family request_id = Inr (organization_id, caller)"
  shows "\<exists>user issuer. caller = LocalUserPrincipal user
    \<and> aget (external_issuers_by_id (identity (snapshot generation))) (lu_issuer_id user) = Some issuer
    \<and> issuer_active issuer \<and> issuer_llm_access issuer
    \<and> aget (external_bindings (identity (snapshot generation))) (lu_issuer_id user, lu_subject user)
        = Some (lu_user_id user)
    \<and> aget (active_users (identity (snapshot generation))) (lu_user_id user) = Some True
    \<and> aget (memberships (identity (snapshot generation))) (organization_id, lu_user_id user)
        = Some (lu_membership user)
    \<and> (\<forall>required. allows_scopes caller required \<longrightarrow>
        LlmScopeCeiling_allows (issuer_llm_scopes issuer) required
        \<and> LlmScopeCeiling_allows (member_llm_scopes (lu_membership user)) required)
    \<and> (\<forall>required. allows_capabilities caller required \<longrightarrow>
        required \<subseteq> issuer_llm_capabilities issuer \<inter> member_llm_capabilities (lu_membership user))
    \<and> (\<forall>rid. allows_route (uuid_text (ge_env ge)) caller rid \<longrightarrow>
        route_ceiling_allows (uuid_text (ge_env ge)) (issuer_llm_routes issuer) rid
        \<and> route_ceiling_allows (uuid_text (ge_env ge)) (member_llm_routes (lu_membership user)) rid)"
proof -
  let ?ident = "identity (snapshot generation)"
  obtain iid subject claims issuer uid membership scopes caps ceiling
    where "aget (external_issuers_by_id ?ident) iid = Some issuer" "issuer_active issuer" "issuer_llm_access issuer"
      "aget (external_bindings ?ident) (iid, subject) = Some uid" "aget (active_users ?ident) uid = Some True"
      "aget (memberships ?ident) (organization_id, uid) = Some membership"
      "derive_llm_ceiling ge issuer claims = Inr (scopes, caps, ceiling)"
      and caller: "caller = LocalUserPrincipal \<lparr>lu_user_id = uid, lu_issuer_id = iid, lu_subject = subject,
        lu_scopes = scopes, lu_capabilities = caps, lu_routes = ceiling, lu_membership = membership\<rparr>"
    using assms unfolding authenticate_direct_jwt_def Let_def
    by (auto simp: option_filter_def case_sum_Inr split: option.split_asm if_split_asm)
  then show ?thesis
    using derive_llm_ceilingD [of ge issuer claims scopes caps ceiling]
    by (auto simp: LlmScopeSet_is_superset_def LlmScopeCeiling_allows_def)
qed

subsection \<open>Witnesses\<close>

text \<open>An organization with one user, known by a JWT of one issuer, and one shared route with one target.\<close>

definition sample_issuer :: ExternalIssuerSnapshot where
  "sample_issuer =
     \<lparr>issuer_id = 2, issuer_name = ''i'', issuer_url = ''https://i'', issuer_active = True,
      allowed_algorithms = [''ES256''], accepted_audiences = {''a''}, subject_claim = ''sub'',
      claim_mapping = \<lparr>management_scopes_claim = None, management_capabilities_claim = None,
        llm_scopes_claim = None, llm_capabilities_claim = None, routes_claim = None,
        organizations_claim = None, display_name_claim = None, email_claim = None\<rparr>,
      jwt_capability_ceiling = {}, issuer_management_scopes = {}, issuer_management_capabilities = {},
      management_organization_ceiling = NoOrganizations, issuer_llm_access = True,
      issuer_llm_scopes = Some {LlmInvoke}, issuer_llm_capabilities = {},
      issuer_llm_routes = AllOrganizationGranted, issuer_organization_selector = SignedClaim ''org'',
      capability_claim_policy = Ignore, browser_login = None, provisioning_policy_id = None,
      clock_skew_seconds = 0, key_cache_policy = KeyCachePolicy_default, jwks_source = JwksStatic JNull,
      policy_version = 1, verifier_material = None\<rparr>"

definition sample_membership :: MembershipSnapshot where
  "sample_membership =
     \<lparr>membership_id = 8, member_role = Member, member_llm_scopes = Some {LlmInvoke},
      member_llm_capabilities = {}, member_llm_routes = AllOrganizationGranted\<rparr>"

definition sample_served :: RouteSnapshot where
  "sample_served = sample_route\<lparr>ingress_protocol_family := IngressOpenaiResponses,
     route_targets := [cand_target sample_probed]\<rparr>"

definition sample_runtime :: RuntimeGeneration where
  "sample_runtime =
     \<lparr>build_id = 1,
      snapshot =
        \<lparr>revision = 1, security_revision = 1, built_at = 0, compatibility_registry_version = 1,
         gateway_policy_ceilings =
           \<lparr>key_budget_max_limit_cost_nanos = 1, byok_origin_budget_max_limit_cost_nanos = 1,
            max_recovery_incident_cap_nanos = 0, max_recovery_epoch_cap_nanos = 0,
            max_requests_per_minute = 1, max_input_units_per_minute = 1, max_concurrency = 1,
            gpc_max_stream_seconds = 1, allowed_budget_modes = {}, allowed_rate_grant_modes = {},
            allowed_concurrency_modes = {}\<rparr>,
         identity =
           \<lparr>active_users = [(7, True)], active_organizations = [(1, True)],
            memberships = [((1, 7), sample_membership)], management_keys = [], management_keys_by_id = [],
            system_administrator_users = [], system_administrator_keys = [],
            external_issuers_by_issuer = [(''https://i'', sample_issuer)],
            external_issuers_by_id = [(2, sample_issuer)], external_bindings = [((2, ''s''), 7)]\<rparr>,
         gateway_keys = [], organizations = [(1, sample_organization)], policy_activations = [],
         catalog = sample_catalog
           \<lparr>routes_by_namespace := [((None, IngressOpenaiResponses, ''m''), 5)],
            routes := [(5, sample_served)], deployments := [(3, cand_deployment sample_probed)]\<rparr>\<rparr>,
      credential_clients = [(client_key (cand_deployment sample_probed), sample_client)]\<rparr>"

definition sample_gateway :: GatewayExternals where
  "sample_gateway =
     \<lparr>ge_env = sample_env, ge_parse_uuid = (\<lambda>t. if t = ''1'' then Some 1 else None),
      ge_decode = letters_dec, ge_encode = letters_enc, ge_sha = (\<lambda>v. v), ge_json_pointer = (\<lambda>_ _. None),
      ge_verify_jwt = (\<lambda>_ t. if t = ''t'' then Some (2, ''s'', JObject [(''org'', JString ''1'')]) else None)\<rparr>"

definition sample_headers :: headers where
  "sample_headers = [(''authorization'', Some ''Bearer t'')]"

definition sample_caller :: GatewayPrincipal where
  "sample_caller = LocalUserPrincipal
     \<lparr>lu_user_id = 7, lu_issuer_id = 2, lu_subject = ''s'', lu_scopes = {LlmInvoke}, lu_capabilities = {},
      lu_routes = AllOrganizationGranted, lu_membership = sample_membership\<rparr>"

definition sample_intent :: LlmIntent where
  "sample_intent =
     \<lparr>intent_model_key = ''m'', response_mode = ModeJson, intent_required_scopes = {LlmInvoke},
      intent_required_capabilities = {}, requested_output_bound = None, continuation_reference = None,
      replay_safe = True\<rparr>"

lemma sample_jwt:
  "authenticate_direct_jwt sample_gateway sample_runtime ''t'' sample_headers IngressOpenaiResponses ''r''
    = Inr (1, sample_caller)"
  by (simp add: authenticate_direct_jwt_def sample_gateway_def sample_runtime_def sample_issuer_def Let_def
      selected_organization_def exactly_one_header_def get_all_def sample_headers_def ORGANIZATION_HEADER_def
      parse_optional_def claim_value_def starts_with_def derive_llm_ceiling_def LlmScopeCeiling_as_scopes_def
      sample_caller_def option_filter_def)

lemma jwt_principal_bounded_witness:
  "\<exists>user (issuer :: ExternalIssuerSnapshot). sample_caller = LocalUserPrincipal user \<and> issuer_active issuer \<and> lu_user_id user = 7
    \<and> allows_scopes sample_caller {LlmInvoke}
    \<and> LlmScopeCeiling_allows (issuer_llm_scopes issuer) {LlmInvoke}"
proof -
  have allowed: "allows_scopes sample_caller {LlmInvoke}"
    by (simp add: sample_caller_def LlmScopeSet_is_superset_def LlmScopeCeiling_allows_def sample_membership_def)
  have "lu_user_id user = 7" if "sample_caller = LocalUserPrincipal user" for user
    using that by (auto simp: sample_caller_def)
  with jwt_principal_bounded [OF sample_jwt] allowed show ?thesis by blast
qed

lemma sample_eligible:
  "eligible_candidate sample_runtime sample_organization sample_served sample_intent {}
     (granted_policy (route_grant sample_organization sample_served) sample_served) (cand_target sample_probed)
    = Some sample_probed"
  by (simp add: eligible_candidate_def sample_runtime_def sample_catalog_def sample_intent_def sample_served_def
      sample_route_def compatibility_def COMPATIBILITY_REGISTRY_V1_def compat_tuple_def sample_probed_def
      sample_client_def option_filter_def)

lemma sample_ordered:
  "order_candidates sample_gateway sample_runtime sample_organization sample_caller sample_served sample_intent
     sample_headers ''r'' {} (granted_policy (route_grant sample_organization sample_served) sample_served)
     None (\<lambda>_. 0) p = (p, Some [sample_probed])"
proof -
  have "gather_candidates (eligible_candidate sample_runtime sample_organization sample_served sample_intent {}
        (granted_policy (route_grant sample_organization sample_served) sample_served))
      (\<lambda>_. healthy_candidate env sample_runtime sample_served base None 0 0)
      0 (route_targets sample_served) p = (p, [sample_probed])" for env base
    using sample_eligible by (simp add: sample_served_def healthy_candidate_def Let_def)
  moreover have "affinity_source sample_served sample_headers ''r'' = (2, ''r'')"
    by (simp add: affinity_source_def sample_served_def sample_route_def RouteSelectionPolicy_default_def)
  moreover have "weight (cand_target sample_probed) = 1" by (simp add: sample_probed_def)
  ultimately show ?thesis
    by (simp add: order_candidates_def Let_def tier_priorities_def cand_priority_def order_tier_def
        replicated_wrh_order_def List.map_filter_simps u32_max_def)
qed

lemma sample_identity:
  "authenticate_identity sample_gateway (Some sample_runtime) IngressOpenaiResponses sample_headers ''r'' 0 0
    = Inr (sample_runtime, sample_organization, sample_caller)"
proof -
  have "extract_credential IngressOpenaiResponses sample_headers ''r'' = Inr (AuthorizationBearer, ''t'')"
    by (simp add: extract_credential_def Let_def exactly_one_header_def get_all_def sample_headers_def
        bearer_value_def starts_with_def provider_key_header_def)
  moreover have "aget (organizations (snapshot sample_runtime)) 1 = Some sample_organization"
    "org_active sample_organization"
    by (simp_all add: sample_runtime_def sample_organization_def)
  ultimately show ?thesis
    by (simp add: authenticate_identity_def sample_jwt gateway_key_prefix_def starts_with_def option_filter_def)
qed

lemma sample_admitted:
  "authenticate_and_admit sample_gateway (Some sample_runtime) IngressOpenaiResponses sample_headers
     sample_intent ''r'' 0 0 None (\<lambda>_. 0) p
   = (p, Some (Inr \<lparr>ctx_generation = sample_runtime, ctx_request_id = ''r'',
       ctx_organization = sample_organization, ctx_principal = sample_caller, ctx_route = sample_served,
       effective_request_policy = granted_policy (route_grant sample_organization sample_served) sample_served,
       ctx_candidates = [sample_probed]\<rparr>))"
proof -
  have route: "resolve_route (catalog (snapshot sample_runtime)) sample_organization IngressOpenaiResponses ''m''
      = Some sample_served"
    by (simp add: resolve_route_def sample_runtime_def sample_organization_def sample_served_def sample_route_def
        option_filter_def)
  have "allows_route (uuid_text (ge_env sample_gateway)) sample_caller (route_id sample_served)"
    "allows_scopes sample_caller {LlmInvoke}" "allows_capabilities sample_caller {}"
    by (simp_all add: sample_caller_def LlmScopeSet_is_superset_def LlmScopeCeiling_allows_def sample_membership_def)
  moreover have "grant_allows (route_grant sample_organization sample_served) {}"
    by (simp add: grant_allows_def route_grant_def sample_organization_def sample_served_def sample_route_def
        SystemRouteGrantCeilings_allows_capabilities_def SystemRouteGrantCeilings_default_def is_none_or_def)
  moreover have "required_base_capabilities sample_served = {}" "intent_model_key sample_intent = ''m''"
    "intent_required_scopes sample_intent = {LlmInvoke}" "intent_required_capabilities sample_intent = {}"
    by (simp_all add: sample_served_def sample_route_def sample_intent_def)
  ultimately show ?thesis
    by (simp add: authenticate_and_admit_def sample_identity admit_request_def Let_def route sample_ordered)
qed


lemma candidates_sorted_once_witness:
  "order_candidates sample_gateway sample_runtime sample_organization sample_caller sample_served sample_intent
     sample_headers ''r'' {} (request_policy sample_served) None (\<lambda>_. 0) (TargetProtectionState_new 4 2 2 2)
    = (TargetProtectionState_new 4 2 2 2, Some [sample_probed])"
proof -
  let ?target = "cand_target sample_probed"
  have "distinct (map target_id (route_targets sample_served))" "\<forall>t \<in> set (route_targets sample_served). 0 < weight t"
    by (simp_all add: sample_served_def sample_probed_def)
  moreover have "affinity_source sample_served sample_headers ''r'' = (2, ''r'')"
    by (simp add: affinity_source_def sample_served_def sample_route_def RouteSelectionPolicy_default_def)
  moreover have "gather_candidates (eligible_candidate sample_runtime sample_organization sample_served
        sample_intent {} (request_policy sample_served))
      (\<lambda>n. healthy_candidate (ge_env sample_gateway) sample_runtime sample_served base None 0 0)
      0 (route_targets sample_served) p = (p, [sample_probed])" for base p
    by (simp add: sample_served_def healthy_candidate_def Let_def eligible_candidate_def sample_runtime_def
        sample_catalog_def sample_intent_def sample_route_def compatibility_def COMPATIBILITY_REGISTRY_V1_def
        compat_tuple_def sample_probed_def sample_client_def option_filter_def)
  ultimately show ?thesis
    using candidates_sorted_once [of sample_served sample_headers "''r''" 2 "''r''" _ sample_gateway
        sample_organization sample_caller sample_runtime sample_intent "{}" "request_policy sample_served" None
        "\<lambda>_. 0" "TargetProtectionState_new 4 2 2 2" "TargetProtectionState_new 4 2 2 2" "[sample_probed]", OF _ _ _ _ refl]
    by (simp add: u32_max_def)
qed

lemma rendezvous_minimal_disruption_witness:
  "let t = \<lambda>i. (cand_target sample_probed)\<lparr>target_id := i\<rparr> in
    replicated_wrh_order sample_env 1 7 5 2 ''r'' [t 5, t 6] = Some [5, 6]
    \<and> replicated_wrh_order sample_env 1 7 5 2 ''r'' (filter (\<lambda>t. target_id t = 6) [t 5, t 6]) = Some [6]"
proof -
  let ?t = "\<lambda>i. (cand_target sample_probed)\<lparr>target_id := i\<rparr>"
  have "wrh_key sample_env base (?t 5) = wrh_key sample_env base (?t 6)" for base
    by (simp add: wrh_key_def target_score_def replica_score_def cong: map_cong)
  then have order: "replicated_wrh_order sample_env 1 7 5 2 ''r'' [?t 5, ?t 6] = Some [5, 6]"
    by (simp add: replicated_wrh_order_def u32_max_def sample_probed_def Let_def)
  have "distinct (map target_id [?t 5, ?t 6])" by simp
  from rendezvous_minimal_disruption [OF order this, of "\<lambda>t. target_id t = 6"] order show ?thesis
    by (simp add: Let_def)
qed

end
