(* ===== verification/Attempts.thy ===== *)
theory Attempts
  imports Admission BudgetRuns Allowances Routing
begin

section \<open>An attempt's reservation as a run of the ledger\<close>

text \<open>
  \<open>reserve_attempt\<close> of \<open>gateway/admission.rs\<close> against the ledger of
  \<^theory_text>\<open>BudgetRuns\<close>: the locale \<open>budget_provider\<close> states what it needs of the
  coordinator, a grant of exactly what was asked for under the identity it was asked for, and the client of
  \<^theory_text>\<open>Coordinator\<close> provides it, whatever Redis does and wherever a call is lost.
\<close>

text \<open>A run that can go on to a local state, with its live reservations and used identities.\<close>

definition continues ::
    "BudgetRun \<Rightarrow> LocalAdmissionState \<Rightarrow> AttemptReservation multiset \<Rightarrow> uuid set \<Rightarrow> bool" where
  "continues run local live used \<longleftrightarrow>
     (\<exists>run'. budget_step\<^sup>*\<^sup>* run run' \<and> run_local run' = local \<and> run_live run' = live \<and> run_used run' = used)"

lemma continues_refl: "continues run (run_local run) (run_live run) (run_used run)"
  by (auto simp: continues_def)

lemma continues_step:
  assumes "budget_step run run'"
  shows "continues run (run_local run') (run_live run') (run_used run')"
  using assms by (auto simp: continues_def)

lemma continues_trans:
  assumes "continues run local live used"
    and "\<And>run'. run_local run' = local \<Longrightarrow> run_live run' = live \<Longrightarrow> run_used run' = used
      \<Longrightarrow> continues run' local' live' used'"
  shows "continues run local' live' used'"
proof -
  obtain run1 where "budget_step\<^sup>*\<^sup>* run run1" "run_local run1 = local" "run_live run1 = live" "run_used run1 = used"
    using assms(1) by (auto simp: continues_def)
  moreover from assms(2) [OF this(2-4)] obtain run2 where "budget_step\<^sup>*\<^sup>* run1 run2"
    "run_local run2 = local'" "run_live run2 = live'" "run_used run2 = used'"
    by (auto simp: continues_def)
  ultimately show ?thesis unfolding continues_def by (blast intro: rtranclp_trans)
qed

lemma continues_reach:
  assumes "budget_step\<^sup>*\<^sup>* start run" "continues run local live used"
  shows "\<exists>run'. budget_step\<^sup>*\<^sup>* start run' \<and> run_local run' = local \<and> run_live run' = live"
proof -
  obtain run' where "budget_step\<^sup>*\<^sup>* run run'" "run_local run' = local" "run_live run' = live"
    using assms(2) by (auto simp: continues_def)
  with assms(1) show ?thesis by (blast intro: rtranclp_trans)
qed

lemma return_each_continues:
  assumes "return_each give_back rs c (run_local run) = (c', local')" "mset rs \<subseteq># run_pending run"
  shows "continues run local' (run_live run) (run_used run)"
  using assms
proof (induction rs arbitrary: c run)
  case Nil
  then show ?case using continues_refl [of run] by simp
next
  case (Cons r rs)
  obtain c1 result where given: "give_back c (ret_request r) (ret_key_remaining_nanos r)
      (ret_origin_remaining_nanos r) = (c1, result)" by fastforce
  let ?rest = "run_pending run - {#r#}"
  have "r \<in># run_pending run" using Cons.prems(2) by (auto dest: mset_subset_eqD)
  then have pending: "run_pending run = add_mset r ?rest" by simp
  have rest: "mset rs \<subseteq># ?rest" using Cons.prems(2) by (simp add: insert_subset_eq_iff)
  obtain run1 where step: "budget_step run run1"
      and run1: "run_local run1 = acknowledge_return (\<not> isl result) r (run_local run)"
        "run_live run1 = run_live run" "run_used run1 = run_used run" "run_pending run1 = ?rest"
  proof (cases "isl result")
    case True
    show ?thesis by (rule that [OF budget_step.lost [OF pending]]) (simp_all add: True)
  next
    case False
    show ?thesis by (rule that [OF budget_step.acknowledge [OF pending]]) (simp_all add: False)
  qed
  have "return_each give_back rs c1 (run_local run1) = (c', local')"
    using Cons.prems(1) given by (simp add: run1)
  with rest have "continues run1 local' (run_live run1) (run_used run1)"
    by (intro Cons.IH) (simp_all add: run1)
  then show ?case
    using step run1 unfolding continues_def by (metis converse_rtranclp_into_rtranclp)
qed

lemma return_budget_grants_continues:
  assumes "return_budget_grants give_back now only_pair close_all ahead c (run_local run) = (c', local')"
  shows "continues run local' (run_live run) (run_used run)"
proof -
  obtain frozen rs where f: "freeze_budget_grants only_pair close_all (saturating_add u64_max now ahead)
      (run_local run) = (frozen, rs)" by fastforce
  obtain c1 given where g: "return_each give_back rs c frozen = (c1, given)" by fastforce
  have local': "local' = prune_budget_grants given" using assms f g by (simp add: return_budget_grants_def)
  let ?run = "run\<lparr>run_local := frozen, run_pending := mset rs + run_pending run\<rparr>"
  have "budget_step run ?run" by (rule budget_step.freeze [OF f])
  moreover have "continues ?run given (run_live ?run) (run_used ?run)"
    by (rule return_each_continues [where give_back = give_back and c = c and c' = c1 and rs = rs]) (simp_all add: g)
  ultimately have "continues run given (run_live run) (run_used run)"
    unfolding continues_def by (auto intro: converse_rtranclp_into_rtranclp)
  then show ?thesis
  proof (rule continues_trans)
    fix run' :: BudgetRun assume "run_local run' = given" "run_live run' = run_live run" "run_used run' = run_used run"
    with continues_step [OF budget_step.prune [of run']]
    show "continues run' local' (run_live run) (run_used run)" by (simp add: local')
  qed
qed

lemma try_reserve_continues:
  assumes "try_reserve_budget now pair k e est (run_local run) = (local', reserved)"
    and "size (run_live run) < u32_max"
  shows "continues run local' (case reserved of None \<Rightarrow> run_live run | Some r \<Rightarrow> add_mset r (run_live run))
    (run_used run)"
proof (cases reserved)
  case None
  from continues_step [OF budget_step.refuse] assms(1) None show ?thesis by fastforce
next
  case (Some r)
  from continues_step [OF budget_step.reserve [OF _ assms(2)]] assms(1) Some show ?thesis by fastforce
qed

lemma round_continues:
  assumes "return_budget_grants give_back t only_pair close_all ahead c (run_local run) = (c1, l1)"
    and "try_reserve_budget now pair k e est l1 = (l2, reserved)" "size (run_live run) < u32_max"
  shows "continues run l2 (case reserved of None \<Rightarrow> run_live run | Some r \<Rightarrow> add_mset r (run_live run))
    (run_used run)"
  using return_budget_grants_continues [OF assms(1)]
proof (rule continues_trans)
  fix run' :: BudgetRun
  assume "run_local run' = l1" "run_live run' = run_live run" "run_used run' = run_used run"
  with try_reserve_continues [of now pair k e est run'] assms(2,3)
  show "continues run' l2 (case reserved of None \<Rightarrow> run_live run | Some r \<Rightarrow> add_mset r (run_live run))
      (run_used run)" by (cases reserved) simp_all
qed

lemma try_reserve_pair: "try_reserve_budget now pair k e est local = (local', Some r) \<Longrightarrow> res_pair r = Some pair"
  by (auto simp: try_reserve_budget_def Let_def split: prod.splits if_splits option.splits)

subsection \<open>The contract of the coordinator\<close>

locale budget_provider =
  fixes grant :: "'c \<Rightarrow> PairedBudgetGrantRequest \<Rightarrow> 'c \<times> (CoordinatorError + AllowanceGrant)"
  assumes granted: "grant c request = (c', Inr g) \<Longrightarrow>
    ag_id g = pbg_grant_id request
    \<and> key_amount_nanos g = map_option side_amount_nanos (pbg_key request)
    \<and> origin_amount_nanos g = map_option side_amount_nanos (pbg_origin request)"
begin

lemma grant_continues:
  assumes "grant c request = (c', Inr g)" "pbg_grant_id request \<notin> run_used run"
    and "\<forall>side. pbg_key request = Some side \<or> pbg_origin request = Some side
      \<longrightarrow> side_amount_nanos side \<le> u128_max"
  shows "continues run (install_budget_grant pair request g (run_local run)) (run_live run)
    (insert (pbg_grant_id request) (run_used run))"
proof -
  note law = granted [OF assms(1)]
  have "granted_amount (key_amount_nanos g) \<le> u128_max" "granted_amount (origin_amount_nanos g) \<le> u128_max"
    using law assms(3) by (auto simp: granted_amount_def split: option.split)
  from continues_step [OF budget_step.install [OF _ _ this, where request = request and pair = pair and run = run]]
  show ?thesis using law assms(2) by simp
qed

lemma refill_continues:
  assumes "continues run local live used" "grant c request = (c', Inr g)" "pbg_grant_id request \<notin> used"
    and "\<forall>side. pbg_key request = Some side \<or> pbg_origin request = Some side
      \<longrightarrow> side_amount_nanos side \<le> u128_max"
    and "try_reserve_budget now pair k e est (install_budget_grant pair request g local) = (local', reserved)"
    and "size live < u32_max"
  shows "continues run local' (case reserved of None \<Rightarrow> live | Some r \<Rightarrow> add_mset r live)
    (insert (pbg_grant_id request) used)"
proof -
  have "continues run (install_budget_grant pair request g local) live (insert (pbg_grant_id request) used)"
    using assms(1) by (rule continues_trans) (use grant_continues [OF assms(2) _ assms(4)] assms(3) in metis)
  then show ?thesis
    by (rule continues_trans) (use try_reserve_continues assms(5,6) in metis)
qed

lemma reserve_attempt_continues:
  assumes attempt: "reserve_attempt (Some ops) now clock grant_id generation verifier candidate body_bytes
      maximum_output_units (c, run_local run) = ((c', local'), result)"
    and provider: "op_grant_budget ops = grant"
    and fresh: "grant_id \<notin> run_used run" and few: "size (run_live run) < u32_max"
    and amounts: "\<forall>key origin estimated side. reserve_attempt_sides now generation verifier candidate body_bytes
        maximum_output_units = Inr (key, origin, estimated)
      \<longrightarrow> side_request key = Some side \<or> side_request origin = Some side \<longrightarrow> side_amount_nanos side \<le> u128_max"
  shows "\<exists>used. continues run local' (case result of
      Inr r \<Rightarrow> if res_pair r = None then run_live run else add_mset r (run_live run)
    | Inl _ \<Rightarrow> run_live run) used"
proof (cases "reserve_attempt_sides now generation verifier candidate body_bytes maximum_output_units")
  case (Inl e)
  with attempt continues_refl [of run] show ?thesis by (auto simp: reserve_attempt_def)
next
  case (Inr sides)
  obtain key origin est where sides: "reserve_attempt_sides now generation verifier candidate body_bytes
      maximum_output_units = Inr (key, origin, est)" using Inr by (cases sides) auto
  show ?thesis
  proof (cases "key = None \<and> origin = None")
    case True
    with attempt sides continues_refl [of run] show ?thesis
      by (auto simp: reserve_attempt_def AttemptReservation_unconstrained_def)
  next
    case some: False
    let ?pair = "\<lparr>bpk_key = map_option ebs_policy key, bpk_origin = map_option ebs_policy origin\<rparr>"
    let ?request = "refill_request verifier grant_id key origin"
    obtain c1 l1 where r1: "return_budget_grants (op_return_budget ops) (clock 0) (Some ?pair) False 0 c
        (run_local run) = (c1, l1)" by fastforce
    obtain l2 res1 where t1: "try_reserve_budget (clock 1) ?pair (side_estimate key) (side_estimate origin) est l1
        = (l2, res1)" by fastforce
    note round1 = round_continues [OF r1 t1 few]
    show ?thesis
    proof (cases res1)
      case (Some r)
      then have "local' = l2" "result = Inr r" using attempt sides some r1 t1
        by (auto simp: reserve_attempt_def Let_def split: if_splits)
      with round1 Some try_reserve_pair t1 show ?thesis by auto
    next
      case None1: None
      obtain c3 l3 where r2: "return_budget_grants (op_return_budget ops) (clock 2) (Some ?pair) False 0 c1 l2
          = (c3, l3)" by fastforce
      obtain l4 res2 where t2: "try_reserve_budget (clock 3) ?pair (side_estimate key) (side_estimate origin) est l3
          = (l4, res2)" by fastforce
      have round2: "continues run l4 (case res2 of None \<Rightarrow> run_live run | Some r \<Rightarrow> add_mset r (run_live run))
          (run_used run)"
        using round1 unfolding None1 option.case
        by (rule continues_trans) (use round_continues [OF _ t2] r2 few in metis)
      show ?thesis
      proof (cases res2)
        case (Some r)
        then have "local' = l4" "result = Inr r" using attempt sides some r1 t1 None1 r2 t2
          by (auto simp: reserve_attempt_def Let_def split: if_splits)
        with round2 Some try_reserve_pair t2 show ?thesis by auto
      next
        case None2: None
        obtain c5 answer where answer: "grant c3 ?request = (c5, answer)" by fastforce
        show ?thesis
        proof (cases answer)
          case (Inl e)
          then have "local' = l4" "result = Inl (map_budget_error e)"
            using attempt sides some r1 t1 None1 r2 t2 None2 answer provider
            by (auto simp: reserve_attempt_def Let_def split: if_splits)
          with round2 None2 show ?thesis by auto
        next
          case (Inr g)
          obtain l6 res3 where t3: "try_reserve_budget (clock 4) ?pair (side_estimate key) (side_estimate origin) est
              (install_budget_grant ?pair ?request g l4) = (l6, res3)" by fastforce
          have final: "local' = l6" "result = ok_or BudgetDenied res3"
            using attempt sides some r1 t1 None1 r2 t2 None2 answer provider Inr t3
            by (auto simp: reserve_attempt_def Let_def split: if_splits)
          have "continues run l6 (case res3 of None \<Rightarrow> run_live run | Some r \<Rightarrow> add_mset r (run_live run))
              (insert (pbg_grant_id ?request) (run_used run))"
            using round2 [unfolded None2 option.case] answer [unfolded Inr]
            by (rule refill_continues) (use fresh amounts sides t3 few in \<open>simp_all add: refill_request_def\<close>)
          with final try_reserve_pair t3 show ?thesis by (cases res3) auto
        qed
      qed
    qed
  qed
qed

end

subsection \<open>The modelled coordinator\<close>

lemma read_grant_exact:
  "read_grant request texts = Inr g \<Longrightarrow>
    ag_id g = pbg_grant_id request
    \<and> key_amount_nanos g = map_option side_amount_nanos (pbg_key request)
    \<and> origin_amount_nanos g = map_option side_amount_nanos (pbg_origin request)"
  by (auto simp: read_grant_def split: list.split_asm if_split_asm)

interpretation budget_client: budget_provider "\<lambda>s request. grant_budget_allowance env R d request s"
  for env :: Externals and R :: "'s Redis" and d
proof
  fix s request s' and g :: AllowanceGrant
  assume "grant_budget_allowance env R d request s = (s', Inr g)"
  then show "ag_id g = pbg_grant_id request
      \<and> key_amount_nanos g = map_option side_amount_nanos (pbg_key request)
      \<and> origin_amount_nanos g = map_option side_amount_nanos (pbg_origin request)"
    by (auto simp: grant_budget_allowance_def Let_def dest!: read_grant_exact
        split: sum.split_asm prod.split_asm)
qed

text \<open>
  C2: Reserving an attempt refines the ledger.  Whatever the coordinator's client does on whatever
  store, and whichever of its calls fail or lose their reply, an attempt that is reserved, or refused, between
  two other operations is a run of the ledger's steps: the local state it leaves is one the ledger reaches, with
  the reservation it returns alive, so the conservation of every ledger covers it.
\<close>

theorem attempt_refines_ledger:
  assumes "budget_step\<^sup>*\<^sup>* BudgetRun_start run"
    and "op_grant_budget ops = (\<lambda>s request. grant_budget_allowance env R d request s)"
    and "reserve_attempt (Some ops) now clock grant_id generation verifier candidate body_bytes
      maximum_output_units (s, run_local run) = ((s', local'), result)"
    and "grant_id \<notin> run_used run" "size (run_live run) < u32_max"
    and "\<forall>key origin estimated side. reserve_attempt_sides now generation verifier candidate body_bytes
        maximum_output_units = Inr (key, origin, estimated)
      \<longrightarrow> side_request key = Some side \<or> side_request origin = Some side \<longrightarrow> side_amount_nanos side \<le> u128_max"
  shows "\<exists>run'. budget_step\<^sup>*\<^sup>* BudgetRun_start run' \<and> run_local run' = local'
    \<and> run_live run' = (case result of
        Inr r \<Rightarrow> if res_pair r = None then run_live run else add_mset r (run_live run)
      | Inl _ \<Rightarrow> run_live run)"
proof -
  obtain used where "continues run local' (case result of
      Inr r \<Rightarrow> if res_pair r = None then run_live run else add_mset r (run_live run)
    | Inl _ \<Rightarrow> run_live run) used"
    using budget_client.reserve_attempt_continues [OF assms(3,2,4-6)] by blast
  with assms(1) show ?thesis by (rule continues_reach)
qed

subsection \<open>A witness\<close>

text \<open>A key with a budget that reserves 40 nanos for an attempt of unknown cost, out of a grant of 100.\<close>

definition sample_version :: "BudgetMode \<Rightarrow> BudgetPolicyVersionSnapshot" where
  "sample_version mode =
     \<lparr>bv_id = 3, bv_generation = 1, bv_recovery_generation = 0, bv_epoch = ''e'', bv_mode = mode,
      bv_limit_cost_nanos = 1000, bv_recovery_incident_cap_nanos = 0, bv_recovery_epoch_cap_nanos = 0,
      bv_estimate_policy = \<lparr>unknown_mode = FixedUnknownReservation,
        fixed_unknown_reservation_nanos = Some 40, input_units_per_byte = 1\<rparr>,
      bv_allowance_policy = BudgetAllowancePolicy_default,
      bv_failure_policy = \<lparr>coordination_failure_mode = CoordinationDeny\<rparr>,
      bv_recovery_policy = \<lparr>require_verified_state_loss = True\<rparr>\<rparr>"

definition sample_budgeted :: RuntimeGeneration where
  "sample_budgeted = sample_runtime\<lparr>snapshot := (snapshot sample_runtime)\<lparr>
     organizations := [(1, sample_organization\<lparr>origin_budgets := [(SystemProvided,
       \<lparr>bp_id = 4, bp_active = True, bp_active_version = Some (sample_version RecordOnly)\<rparr>)]\<rparr>)],
     catalog := sample_catalog\<lparr>key_budget_policies := [(2,
       \<lparr>bp_id = 2, bp_active = True, bp_active_version = Some (sample_version Enforce)\<rparr>)]\<rparr>\<rparr>\<rparr>"

definition sample_verifier :: GatewayKeyVerifier where
  "sample_verifier =
     \<lparr>gk_key_id = 6, gk_organization_id = 1, gk_scopes = Some {LlmInvoke}, gk_capabilities = {},
      gk_route_ids = {5}, gk_budget_policy_id = 2, gk_rate_policy_id = None, gk_current_digest = [],
      gk_overlap_digest = None, gk_overlap_until = None, gk_expires_at = None, gk_active = True\<rparr>"

definition sample_ops :: "Store CoordinatorOps" where
  "sample_ops =
     \<lparr>op_grant_budget = (\<lambda>s request. grant_budget_allowance sample_env store_ops Delivered request s),
      op_return_budget = (\<lambda>s request key origin.
        return_budget_allowance sample_env store_ops Delivered request key origin s),
      op_grant_rate = (\<lambda>s _ _ _ _ _. (s, Inl CoordCommand)),
      op_grant_approximate = (\<lambda>s _ _ _. (s, Inl CoordCommand)),
      op_acquire_strict = (\<lambda>s _ _ _. (s, Inl CoordCommand))\<rparr>"

lemma sample_sides:
  "reserve_attempt_sides 0 sample_budgeted sample_verifier sample_probed 10 20
    = Inr (Some \<lparr>ebs_policy = sample_policy, ebs_estimate_nanos = 40, ebs_max_slice_nanos = 100000000\<rparr>,
        None, Some 40)"
  by (simp add: reserve_attempt_sides_def policy_admission_ready_def is_none_or_def sample_budgeted_def
      sample_runtime_def sample_catalog_def sample_verifier_def active_budget_version_def option_filter_def
      origin_budget_of_def sample_probed_def sample_version_def estimate_budget_cost_for_recording_def
      calculate_budget_cost_def max_recorded_def enforcing_budget_side_def estimate_budget_cost_def
      BudgetRuns.sample_policy_def BudgetAllowancePolicy_default_def Let_def)

lemma sample_attempt:
  "reserve_attempt (Some sample_ops) 0 (\<lambda>_. 0) 7 sample_budgeted sample_verifier sample_probed 10 20
     (s, sample_local 100 0 False)
   = ((s, sample_local 60 1 False), Inr sample_reservation)"
proof -
  have "return_budget_grants give_back 0 (Some sample_pair) False 0 s (sample_local 100 0 False)
      = (s, sample_local 100 0 False)" for give_back
    by (simp add: return_budget_grants_def freeze_budget_grants_def sample_local_def is_none_or_def
        return_due_def sample_local_grant_def saturating_add_def u64_max_def prune_budget_grants_def Let_def)
  then show ?thesis
    using sample_try by (simp add: reserve_attempt_def sample_sides Let_def side_estimate_def sample_pair_def)
qed

lemma attempt_refines_ledger_witness:
  "\<exists>run'. budget_step\<^sup>*\<^sup>* BudgetRun_start run' \<and> run_local run' = sample_local 60 1 False
    \<and> run_live run' = {#sample_reservation#}"
proof -
  let ?run = "sample_run (sample_local 100 0 False) {#} {#} 100"
  have "budget_step\<^sup>*\<^sup>* BudgetRun_start ?run" using sample_installed by blast
  moreover have "op_grant_budget sample_ops
      = (\<lambda>s request. grant_budget_allowance sample_env store_ops Delivered request s)"
    by (simp add: sample_ops_def)
  moreover have "reserve_attempt (Some sample_ops) 0 (\<lambda>_. 0) 7 sample_budgeted sample_verifier sample_probed 10 20
      (s, run_local ?run) = ((s, sample_local 60 1 False), Inr sample_reservation)" for s
    using sample_attempt by (simp add: sample_run_def)
  moreover have "(7 :: uuid) \<notin> run_used ?run" "size (run_live ?run) < u32_max" "run_live ?run = {#}"
    by (simp_all add: sample_run_def u32_max_def)
  moreover have "res_pair sample_reservation \<noteq> None" by (simp add: sample_reservation_def)
  ultimately show ?thesis
    using attempt_refines_ledger [of ?run sample_ops sample_env store_ops Delivered]
    by (fastforce simp: sample_sides side_request_def u128_max_def)
qed

end
