(* ===== verification/Wire.thy ===== *)
theory Wire
  imports Protocols Health
begin

section \<open>The wire formats of providers\<close>

text \<open>
  \<open>crates/owlrora-server/src/adapters/provider/wire.rs\<close>: the body and the URL of an
  upstream request, the usage a provider reports, the inspection of a stream of server-sent events and
  the decoder of AWS event streams.  Bytes are written as characters.  \<open>WireExternals\<close> has the
  functions of other packages: the JSON reader, CRC-32, base64 and the URL type.
\<close>

record WireExternals =
  we_json :: "string \<Rightarrow> json option"
  we_to_vec :: "json \<Rightarrow> string option"
  we_crc :: "string \<Rightarrow> nat"
  we_base64 :: "string \<Rightarrow> string option"
  we_path_segments :: "string \<Rightarrow> string list option"
  we_extend_path :: "string \<Rightarrow> string list \<Rightarrow> string"
  we_append_query :: "string \<Rightarrow> string \<times> string \<Rightarrow> string"

definition MAX_EVENT_STREAM_MESSAGE_BYTES :: nat where "MAX_EVENT_STREAM_MESSAGE_BYTES = 16777216"
definition MAX_EVENT_STREAM_HEADERS_BYTES :: nat where "MAX_EVENT_STREAM_HEADERS_BYTES = 65536"
definition MAX_SSE_EVENT_BYTES :: nat where "MAX_SSE_EVENT_BYTES = 4194304"

datatype UpstreamFraming = FramingJson | FramingSse | FramingAwsEventStream | FramingWebSocket

datatype UsageCompleteness = UsageComplete | UsagePartial | UsageAbsent

record ProviderUsage =
  dimensions :: "(string \<times> nat) list"
  completeness :: UsageCompleteness

datatype WireError = WireEndpoint | WireBound | WireFraming

definition ProviderUsage_absent :: ProviderUsage where
  "ProviderUsage_absent = \<lparr>dimensions = [], completeness = UsageAbsent\<rparr>"

definition ProviderUsage_price :: "ProviderUsage \<Rightarrow> DeploymentSnapshot \<Rightarrow> PricingOutcome option option" where
  "ProviderUsage_price self deployment = deployment_price deployment (dimensions self)"

definition response_framing :: "TransportKind \<Rightarrow> ResponseMode \<Rightarrow> UpstreamFraming" where
  "response_framing transport mode =
     (if transport = TransportAnthropicMessagesBedrock \<and> mode = ModeSse then FramingAwsEventStream
      else if transport = TransportOpenaiResponsesWebsocket \<or> mode = ModeWebSocket then FramingWebSocket
      else if mode = ModeSse then FramingSse else FramingJson)"

definition anthropic_transports :: "TransportKind set" where
  "anthropic_transports = {TransportAnthropicMessagesNative, TransportAnthropicMessagesBedrock,
     TransportAnthropicMessagesVertex}"

definition responses_transports :: "TransportKind set" where
  "responses_transports = {TransportOpenaiResponsesHttp, TransportOpenaiResponsesWebsocket,
     TransportOpenaiCodexResponses, TransportAzureOpenaiResponses}"

definition chat_transports :: "TransportKind set" where
  "chat_transports = {TransportOpenaiChatCompletions, TransportAzureOpenaiChatCompletions}"

definition gemini_transports :: "TransportKind set" where
  "gemini_transports = {TransportGoogleGeminiGenerateContent, TransportGoogleVertexGenerateContent}"

definition json_str :: "json \<Rightarrow> string \<Rightarrow> string option" where
  "json_str v field = Option.bind (json_get v field) json_as_str"

definition json_is_object :: "json option \<Rightarrow> bool" where
  "json_is_object v \<longleftrightarrow> Option.bind v json_as_object \<noteq> None"

definition json_is_string :: "json option \<Rightarrow> bool" where
  "json_is_string v \<longleftrightarrow> Option.bind v json_as_str \<noteq> None"

subsection \<open>The upstream request\<close>

definition clamp_field :: "string \<Rightarrow> nat \<Rightarrow> json_object \<Rightarrow> json_object" where
  "clamp_field field m object =
     (let current = (case Option.bind (aget object field) json_as_u64 of None \<Rightarrow> m | Some n \<Rightarrow> n) in
      aput field (JNat (min current m)) object)"

fun enforce_output_bound :: "IngressProtocolFamily \<Rightarrow> nat \<Rightarrow> json_object \<Rightarrow> json_object" where
  "enforce_output_bound IngressAnthropicMessages m object = clamp_field ''max_tokens'' m object"
| "enforce_output_bound IngressOpenaiChatCompletions m object =
     clamp_field (if contains_key object ''max_completion_tokens'' then ''max_completion_tokens''
       else ''max_tokens'') m object"
| "enforce_output_bound IngressOpenaiResponses m object = clamp_field ''max_output_tokens'' m object"
| "enforce_output_bound IngressGoogleGemini m object =
     (let generation = (case aget object ''generationConfig'' of None \<Rightarrow> JObject [] | Some v \<Rightarrow> v) in
      aput ''generationConfig''
        (case json_as_object generation of
           None \<Rightarrow> generation
         | Some members \<Rightarrow> JObject (clamp_field ''maxOutputTokens'' m members)) object)"

definition model_fields :: "TransportKind \<Rightarrow> string \<Rightarrow> json_object \<Rightarrow> json_object" where
  "model_fields transport model_id object =
     (if transport = TransportAnthropicMessagesBedrock then
        aput ''anthropic_version'' (JString ''bedrock-2023-05-31'') (adel ''stream'' (adel ''model'' object))
      else if transport = TransportAnthropicMessagesVertex then
        aput ''anthropic_version'' (JString ''vertex-2023-10-16'') (adel ''model'' object)
      else if transport \<in> gemini_transports then object
      else aput ''model'' (JString model_id) object)"

definition request_stream_usage :: "json_object \<Rightarrow> WireError + json_object" where
  "request_stream_usage object =
     result_bind (ok_or WireFraming (json_as_object
        (case aget object ''stream_options'' of None \<Rightarrow> JObject [] | Some v \<Rightarrow> v)))
       (\<lambda>options. Inr (aput ''stream_options'' (JObject (aput ''include_usage'' (JBool True) options)) object))"

definition codex_fields :: "json_object \<Rightarrow> WireError + json_object" where
  "codex_fields object =
     (let object = adel ''max_output_tokens'' object in
      case aget object ''instructions'' of
        None \<Rightarrow> Inr (aput ''instructions'' (JString []) object)
      | Some JNull \<Rightarrow> Inr (aput ''instructions'' (JString []) object)
      | Some (JString _) \<Rightarrow> Inr object
      | Some _ \<Rightarrow> Inl WireFraming)"

definition provider_object ::
    "NativeRequest \<Rightarrow> TransportKind \<Rightarrow> string \<Rightarrow> nat \<Rightarrow> json_object \<Rightarrow> WireError + json_object" where
  "provider_object native transport model_id maximum_output_units object =
     (let object = enforce_output_bound (req_family native) maximum_output_units
            (model_fields transport model_id object) in
      result_bind
        (if response_mode (intent native) = ModeSse \<and> transport \<in> chat_transports
         then request_stream_usage object else Inr object)
        (\<lambda>object. if transport = TransportOpenaiCodexResponses then codex_fields object else Inr object))"

definition adapt_provider_body ::
    "WireExternals \<Rightarrow> NativeRequest \<Rightarrow> TransportKind \<Rightarrow> string \<Rightarrow> nat \<Rightarrow> WireError + string" where
  "adapt_provider_body we native transport model_id maximum_output_units =
     result_bind (ok_or WireFraming (json_as_object (envelope native))) (\<lambda>object.
     result_bind (provider_object native transport model_id maximum_output_units object) (\<lambda>object.
       ok_or WireFraming (we_to_vec we (JObject object))))"

definition versioned_segments :: "WireExternals \<Rightarrow> string \<Rightarrow> string \<Rightarrow> string list \<Rightarrow> string list" where
  "versioned_segments we base version tail =
     (case we_path_segments we base of
        Some segments \<Rightarrow>
          if segments \<noteq> [] \<and> last segments = version then tail else version # tail
      | None \<Rightarrow> version # tail)"

definition with_action :: "string \<Rightarrow> string \<Rightarrow> string" where
  "with_action model_id action = model_id @ '':'' @ action"

fun upstream_segments :: "WireExternals \<Rightarrow> string \<Rightarrow> TransportKind \<Rightarrow> string \<Rightarrow> bool \<Rightarrow> string list" where
  "upstream_segments we base TransportAnthropicMessagesNative model_id stream =
     versioned_segments we base ''v1'' [''messages'']"
| "upstream_segments we base TransportAnthropicMessagesBedrock model_id stream =
     [''model'', model_id, if stream then ''invoke-with-response-stream'' else ''invoke'']"
| "upstream_segments we base TransportAnthropicMessagesVertex model_id stream =
     [''publishers'', ''anthropic'', ''models'',
      with_action model_id (if stream then ''streamRawPredict'' else ''rawPredict'')]"
| "upstream_segments we base TransportOpenaiChatCompletions model_id stream =
     versioned_segments we base ''v1'' [''chat'', ''completions'']"
| "upstream_segments we base TransportOpenaiResponsesHttp model_id stream =
     versioned_segments we base ''v1'' [''responses'']"
| "upstream_segments we base TransportOpenaiResponsesWebsocket model_id stream =
     versioned_segments we base ''v1'' [''responses'']"
| "upstream_segments we base TransportOpenaiCodexResponses model_id stream = [''responses'']"
| "upstream_segments we base TransportAzureOpenaiChatCompletions model_id stream =
     [''openai'', ''deployments'', model_id, ''chat'', ''completions'']"
| "upstream_segments we base TransportAzureOpenaiResponses model_id stream = [''openai'', ''responses'']"
| "upstream_segments we base TransportGoogleGeminiGenerateContent model_id stream =
     versioned_segments we base ''v1beta'' [''models'',
       with_action model_id (if stream then ''streamGenerateContent'' else ''generateContent'')]"
| "upstream_segments we base TransportGoogleVertexGenerateContent model_id stream =
     [''publishers'', ''google'', ''models'',
      with_action model_id (if stream then ''streamGenerateContent'' else ''generateContent'')]"

text \<open>\<open>path_segments_mut\<close> fails for the URLs that \<open>path_segments\<close> has nothing for.\<close>

definition append_segments :: "WireExternals \<Rightarrow> string \<Rightarrow> string list \<Rightarrow> WireError + string" where
  "append_segments we url segments =
     (if we_path_segments we url = None \<or> [] \<in> set segments then Inl WireEndpoint
      else Inr (we_extend_path we url segments))"

definition upstream_url ::
    "WireExternals \<Rightarrow> NativeRequest \<Rightarrow> TransportKind \<Rightarrow> string \<Rightarrow> EndpointSnapshot \<Rightarrow> WireError + string" where
  "upstream_url we native transport model_id endpoint =
     (let stream = response_mode (intent native) = ModeSse in
      result_bind (append_segments we (ep_base_url endpoint)
        (upstream_segments we (ep_base_url endpoint) transport model_id stream)) (\<lambda>url.
      let url = (if stream \<and> transport \<in> gemini_transports
            then we_append_query we url (''alt'', ''sse'') else url) in
      if transport \<in> {TransportAzureOpenaiChatCompletions, TransportAzureOpenaiResponses}
      then result_bind (ok_or WireEndpoint (api_version endpoint))
        (\<lambda>version. Inr (we_append_query we url (''api-version'', version)))
      else Inr url))"

subsection \<open>Usage\<close>

definition copy_u64 :: "json \<Rightarrow> string \<Rightarrow> string \<Rightarrow> (string \<times> nat) list \<Rightarrow> (string \<times> nat) list" where
  "copy_u64 v field dimension out =
     (case Option.bind (json_get v field) json_as_u64 of None \<Rightarrow> out | Some n \<Rightarrow> aput dimension n out)"

definition copy_nested_u64 ::
    "json \<Rightarrow> string \<Rightarrow> string \<Rightarrow> string \<Rightarrow> (string \<times> nat) list \<Rightarrow> (string \<times> nat) list" where
  "copy_nested_u64 v object field dimension out =
     (case Option.bind (json_get v object) (\<lambda>inner. Option.bind (json_get inner field) json_as_u64) of
        None \<Rightarrow> out | Some n \<Rightarrow> aput dimension n out)"

definition normalize_inclusive_input :: "(string \<times> nat) list \<Rightarrow> (string \<times> nat) list" where
  "normalize_inclusive_input dims =
     (let cached = (case aget dims ''cached_input_tokens'' of None \<Rightarrow> 0 | Some n \<Rightarrow> n) in
      case aget dims ''input_tokens'' of
        None \<Rightarrow> dims
      | Some input \<Rightarrow> aput ''input_tokens'' (input - cached) dims)"

definition token_completeness :: "(string \<times> nat) list \<Rightarrow> UsageCompleteness" where
  "token_completeness dims =
     (if aget dims ''input_tokens'' \<noteq> None \<and> aget dims ''output_tokens'' \<noteq> None
      then UsageComplete else UsagePartial)"

definition complete_token_usage :: "(string \<times> nat) list \<Rightarrow> ProviderUsage" where
  "complete_token_usage dims = \<lparr>dimensions = dims, completeness = token_completeness dims\<rparr>"

definition anthropic_usage :: "json \<Rightarrow> ProviderUsage" where
  "anthropic_usage v =
     (case (case json_get v ''usage'' of
              Some usage \<Rightarrow> Some usage
            | None \<Rightarrow> Option.bind (json_get v ''message'') (\<lambda>m. json_get m ''usage'')) of
        None \<Rightarrow> ProviderUsage_absent
      | Some usage \<Rightarrow>
          complete_token_usage
            (copy_u64 usage ''cache_creation_input_tokens'' ''cache_creation_input_tokens''
              (copy_u64 usage ''cache_read_input_tokens'' ''cached_input_tokens''
                (copy_u64 usage ''output_tokens'' ''output_tokens''
                  (copy_u64 usage ''input_tokens'' ''input_tokens'' [])))))"

definition openai_chat_usage :: "json \<Rightarrow> ProviderUsage" where
  "openai_chat_usage v =
     (case json_get v ''usage'' of
        None \<Rightarrow> ProviderUsage_absent
      | Some usage \<Rightarrow>
          complete_token_usage (normalize_inclusive_input
            (copy_nested_u64 usage ''completion_tokens_details'' ''reasoning_tokens'' ''reasoning_tokens''
              (copy_nested_u64 usage ''prompt_tokens_details'' ''cached_tokens'' ''cached_input_tokens''
                (copy_u64 usage ''completion_tokens'' ''output_tokens''
                  (copy_u64 usage ''prompt_tokens'' ''input_tokens'' []))))))"

definition openai_responses_usage :: "json \<Rightarrow> ProviderUsage" where
  "openai_responses_usage v =
     (let response = (case json_get v ''response'' of None \<Rightarrow> v | Some r \<Rightarrow> r) in
      case option_filter (\<lambda>u. u \<noteq> JNull) (json_get response ''usage'') of
        None \<Rightarrow> ProviderUsage_absent
      | Some usage \<Rightarrow>
          complete_token_usage (normalize_inclusive_input
            (copy_nested_u64 usage ''output_tokens_details'' ''reasoning_tokens'' ''reasoning_tokens''
              (copy_nested_u64 usage ''input_tokens_details'' ''cached_tokens'' ''cached_input_tokens''
                (copy_u64 usage ''output_tokens'' ''output_tokens''
                  (copy_u64 usage ''input_tokens'' ''input_tokens'' []))))))"

definition gemini_usage :: "json \<Rightarrow> ProviderUsage" where
  "gemini_usage v =
     (case json_get v ''usageMetadata'' of
        None \<Rightarrow> ProviderUsage_absent
      | Some usage \<Rightarrow>
          complete_token_usage (normalize_inclusive_input
            (copy_u64 usage ''thoughtsTokenCount'' ''reasoning_tokens''
              (copy_u64 usage ''cachedContentTokenCount'' ''cached_input_tokens''
                (copy_u64 usage ''candidatesTokenCount'' ''output_tokens''
                  (copy_u64 usage ''promptTokenCount'' ''input_tokens'' []))))))"

definition extract_json_usage :: "TransportKind \<Rightarrow> json \<Rightarrow> ProviderUsage" where
  "extract_json_usage transport v =
     (if transport \<in> anthropic_transports then anthropic_usage v
      else if transport \<in> chat_transports then openai_chat_usage v
      else if transport \<in> responses_transports then openai_responses_usage v
      else gemini_usage v)"

definition response_state_id :: "TransportKind \<Rightarrow> json \<Rightarrow> string option" where
  "response_state_id transport v =
     (if transport \<notin> responses_transports then None
      else
        let candidate =
              (if (case json_str v ''type'' of None \<Rightarrow> False | Some kind \<Rightarrow> starts_with ''response.'' kind)
               then (case json_get v ''response'' of None \<Rightarrow> v | Some r \<Rightarrow> r) else v) in
        option_filter (\<lambda>s. s \<noteq> [] \<and> length s \<le> 1024) (json_str candidate ''id''))"

subsection \<open>Server-sent events\<close>

datatype StreamTerminalOutcome = TerminalComplete | TerminalProviderFailure | TerminalIncomplete

datatype StreamCommitment = CommitmentPending | CommitmentReady | CommitmentRejected

datatype StreamFailureClass =
  StreamInvalidRequest | StreamAuthOrConfiguration | StreamRateLimited | StreamOverloaded
  | StreamProviderFailure | StreamUnknown

record InspectedSseBatch =
  sse_bytes :: string
  sse_values :: "json list"
  sse_error :: "WireError option"

record SseInspector =
  si_pending :: string
  observed_state_ids :: "string set"
  si_latest_usage :: "ProviderUsage option"
  si_terminal :: "StreamTerminalOutcome option"
  si_commitment :: StreamCommitment
  si_failure_class :: "StreamFailureClass option"
  precommit_bytes :: nat
  precommit_events :: nat

definition SseInspector_default :: SseInspector where
  "SseInspector_default =
     \<lparr>si_pending = [], observed_state_ids = {}, si_latest_usage = None, si_terminal = None,
      si_commitment = CommitmentPending, si_failure_class = None, precommit_bytes = 0, precommit_events = 0\<rparr>"

datatype SseEventData = SseEmpty | SseDone | SseJson json

text \<open>\<open>std::str::from_utf8\<close>: the well-formed byte sequences of Unicode.\<close>

definition byte_in :: "nat \<Rightarrow> nat \<Rightarrow> char \<Rightarrow> bool" where
  "byte_in lo hi c \<longleftrightarrow> lo \<le> of_char c \<and> of_char c \<le> hi"

definition utf8_three :: "char \<Rightarrow> char \<Rightarrow> bool" where
  "utf8_three a b \<longleftrightarrow>
     byte_in 0xE0 0xE0 a \<and> byte_in 0xA0 0xBF b \<or> byte_in 0xE1 0xEC a \<and> byte_in 0x80 0xBF b
     \<or> byte_in 0xED 0xED a \<and> byte_in 0x80 0x9F b \<or> byte_in 0xEE 0xEF a \<and> byte_in 0x80 0xBF b"

definition utf8_four :: "char \<Rightarrow> char \<Rightarrow> bool" where
  "utf8_four a b \<longleftrightarrow>
     byte_in 0xF0 0xF0 a \<and> byte_in 0x90 0xBF b \<or> byte_in 0xF1 0xF3 a \<and> byte_in 0x80 0xBF b
     \<or> byte_in 0xF4 0xF4 a \<and> byte_in 0x80 0x8F b"

fun utf8_valid :: "string \<Rightarrow> bool" where
  "utf8_valid [] \<longleftrightarrow> True"
| "utf8_valid (a # s) \<longleftrightarrow>
     (if byte_in 0 0x7F a then utf8_valid s
      else case s of
        [] \<Rightarrow> False
      | b # s \<Rightarrow>
          if byte_in 0xC2 0xDF a then byte_in 0x80 0xBF b \<and> utf8_valid s
          else (case s of
              [] \<Rightarrow> False
            | c # s \<Rightarrow>
                if utf8_three a b then byte_in 0x80 0xBF c \<and> utf8_valid s
                else (case s of
                    [] \<Rightarrow> False
                  | d # s \<Rightarrow>
                      utf8_four a b \<and> byte_in 0x80 0xBF c \<and> byte_in 0x80 0xBF d \<and> utf8_valid s)))"

text \<open>\<open>str::lines\<close>; the line so far is reversed.\<close>

fun split_lines :: "string \<Rightarrow> string \<Rightarrow> string list" where
  "split_lines line [] = (if line = [] then [] else [rev line])"
| "split_lines line (c # s) =
     (if c = CHR 0x0A
      then rev (if line \<noteq> [] \<and> hd line = CHR 0x0D then tl line else line) # split_lines [] s
      else split_lines (c # line) s)"

text \<open>\<open>str::trim_start\<close>: the characters with the property White\_Space, as bytes.\<close>

definition space_two :: "char \<Rightarrow> char \<Rightarrow> bool" where
  "space_two a b \<longleftrightarrow> byte_in 0xC2 0xC2 a \<and> (byte_in 0x85 0x85 b \<or> byte_in 0xA0 0xA0 b)"

definition space_three :: "char \<Rightarrow> char \<Rightarrow> char \<Rightarrow> bool" where
  "space_three a b c \<longleftrightarrow>
     byte_in 0xE1 0xE1 a \<and> byte_in 0x9A 0x9A b \<and> byte_in 0x80 0x80 c
     \<or> byte_in 0xE2 0xE2 a \<and> byte_in 0x80 0x80 b
         \<and> (byte_in 0x80 0x8A c \<or> byte_in 0xA8 0xA9 c \<or> byte_in 0xAF 0xAF c)
     \<or> byte_in 0xE2 0xE2 a \<and> byte_in 0x81 0x81 b \<and> byte_in 0x9F 0x9F c
     \<or> byte_in 0xE3 0xE3 a \<and> byte_in 0x80 0x80 b \<and> byte_in 0x80 0x80 c"

fun trim_start :: "string \<Rightarrow> string" where
  "trim_start [] = []"
| "trim_start (a # s) =
     (if byte_in 0x09 0x0D a \<or> byte_in 0x20 0x20 a then trim_start s
      else case s of
        [] \<Rightarrow> [a]
      | b # s \<Rightarrow>
          if space_two a b then trim_start s
          else (case s of
              [] \<Rightarrow> [a, b]
            | c # s \<Rightarrow> if space_three a b c then trim_start s else a # b # c # s))"

fun join_lines :: "string list \<Rightarrow> string" where
  "join_lines [] = []"
| "join_lines [l] = l"
| "join_lines (l # ls) = l @ [CHR 0x0A] @ join_lines ls"

definition data_of_line :: "string \<Rightarrow> string option" where
  "data_of_line l = (if starts_with ''data:'' l then Some (trim_start (drop 5 l)) else None)"

definition parse_sse_data :: "WireExternals \<Rightarrow> string \<Rightarrow> WireError + SseEventData" where
  "parse_sse_data we event =
     (if \<not> utf8_valid event then Inl WireFraming
      else
        let data = join_lines (List.map_filter data_of_line (split_lines [] event)) in
        if data = [] then Inr SseEmpty
        else if data = ''[DONE]'' then Inr SseDone
        else (case we_json we data of None \<Rightarrow> Inl WireFraming | Some v \<Rightarrow> Inr (SseJson v)))"

text \<open>The explicit native error evidence of a stream.\<close>

definition failure_code :: "string \<Rightarrow> StreamFailureClass option" where
  "failure_code code =
     (if code \<in> {''invalid_request_error'', ''validation_error'', ''invalid_argument'', ''INVALID_ARGUMENT'',
          ''content_filter'', ''content_policy_violation'', ''safety''} then Some StreamInvalidRequest
      else if code \<in> {''authentication_error'', ''permission_error'', ''invalid_api_key'', ''invalid_token'',
          ''UNAUTHENTICATED'', ''PERMISSION_DENIED''} then Some StreamAuthOrConfiguration
      else if code \<in> {''rate_limit_error'', ''rate_limit_exceeded'', ''RESOURCE_EXHAUSTED''}
        then Some StreamRateLimited
      else if code \<in> {''overloaded_error'', ''server_overloaded'', ''UNAVAILABLE''} then Some StreamOverloaded
      else if code \<in> {''api_error'', ''server_error'', ''internal_server_error'', ''INTERNAL''}
        then Some StreamProviderFailure
      else None)"

fun classify_fields :: "json \<Rightarrow> string list \<Rightarrow> StreamFailureClass" where
  "classify_fields error [] = StreamUnknown"
| "classify_fields error (field # rest) =
     (case Option.bind (json_str error field) failure_code of
        Some failure \<Rightarrow> failure
      | None \<Rightarrow> classify_fields error rest)"

definition classify_stream_failure :: "json \<Rightarrow> StreamFailureClass" where
  "classify_stream_failure v =
     (let error = (case json_get v ''error'' of
            Some e \<Rightarrow> Some e
          | None \<Rightarrow> Option.bind (json_get v ''response'') (\<lambda>r. json_get r ''error'')) in
      classify_fields (case error of None \<Rightarrow> v | Some e \<Rightarrow> e) [''type'', ''code'', ''status''])"

definition elements_at :: "json \<Rightarrow> string \<Rightarrow> json list" where
  "elements_at v field = (case Option.bind (json_get v field) json_as_array of None \<Rightarrow> [] | Some xs \<Rightarrow> xs)"

definition last_segment :: "string \<Rightarrow> string" where
  "last_segment s = rev (takeWhile (\<lambda>c. c \<noteq> CHR ''.'') (rev s))"

definition anthropic_establishes :: "json \<Rightarrow> bool" where
  "anthropic_establishes v \<longleftrightarrow>
     (case json_str v ''type'' of
        None \<Rightarrow> False
      | Some kind \<Rightarrow>
          if kind = ''message_start'' then json_is_object (json_get v ''message'')
          else if kind = ''content_block_start'' then json_is_object (json_get v ''content_block'')
          else if kind \<in> {''content_block_delta'', ''message_delta''} then json_is_object (json_get v ''delta'')
          else False)"

definition responses_establishes :: "json \<Rightarrow> bool" where
  "responses_establishes v \<longleftrightarrow>
     (case json_str v ''type'' of
        None \<Rightarrow> False
      | Some kind \<Rightarrow>
          if kind \<in> {''response.created'', ''response.in_progress'', ''response.completed'', ''response.incomplete''}
          then json_is_object (json_get v ''response'')
          else if kind \<in> {''response.output_item.added'', ''response.output_item.done''}
          then json_is_object (json_get v ''item'')
          else if starts_with ''response.'' kind \<and> last_segment kind = ''delta''
          then option_filter (\<lambda>d. d \<noteq> JNull) (json_get v ''delta'') \<noteq> None
          else False)"

definition stream_establishes_response :: "TransportKind \<Rightarrow> json \<Rightarrow> bool" where
  "stream_establishes_response transport v \<longleftrightarrow>
     (if transport \<in> anthropic_transports then anthropic_establishes v
      else if transport \<in> responses_transports then responses_establishes v
      else if transport \<in> chat_transports then
        list_ex (\<lambda>choice. json_is_object (json_get choice ''delta'')
          \<or> json_is_string (json_get choice ''finish_reason'')) (elements_at v ''choices'')
      else
        list_ex (\<lambda>candidate. json_is_object (json_get candidate ''content'')
          \<or> json_is_string (json_get candidate ''finishReason'')) (elements_at v ''candidates'')
        \<or> json_is_string (Option.bind (json_get v ''promptFeedback'') (\<lambda>f. json_get f ''blockReason'')))"

definition nonempty_string :: "json option \<Rightarrow> bool" where
  "nonempty_string v \<longleftrightarrow> option_filter (\<lambda>s. s \<noteq> []) (Option.bind v json_as_str) \<noteq> None"

definition stream_terminal_outcome :: "TransportKind \<Rightarrow> json \<Rightarrow> StreamTerminalOutcome option" where
  "stream_terminal_outcome transport v =
     (if option_filter (\<lambda>e. e \<noteq> JNull) (json_get v ''error'') \<noteq> None \<or> json_str v ''type'' = Some ''error''
      then Some TerminalProviderFailure
      else if transport \<in> anthropic_transports then
        (if json_str v ''type'' = Some ''message_stop'' then Some TerminalComplete else None)
      else if transport \<in> responses_transports then
        (if json_str v ''type'' \<in> {Some ''response.completed'', Some ''response.incomplete''}
         then Some TerminalComplete
         else if json_str v ''type'' = Some ''response.failed'' then Some TerminalProviderFailure else None)
      else if transport \<in> gemini_transports then
        (if list_ex (\<lambda>candidate. nonempty_string (json_get candidate ''finishReason'')) (elements_at v ''candidates'')
            \<or> nonempty_string (Option.bind (json_get v ''promptFeedback'') (\<lambda>f. json_get f ''blockReason''))
         then Some TerminalComplete else None)
      else None)"

fun merge_terminal ::
    "StreamTerminalOutcome option \<Rightarrow> StreamTerminalOutcome \<Rightarrow> StreamTerminalOutcome option" where
  "merge_terminal (Some TerminalProviderFailure) _ = Some TerminalProviderFailure"
| "merge_terminal _ TerminalProviderFailure = Some TerminalProviderFailure"
| "merge_terminal _ TerminalComplete = Some TerminalComplete"
| "merge_terminal existing TerminalIncomplete = existing"

definition observe_terminal :: "StreamTerminalOutcome \<Rightarrow> SseInspector \<Rightarrow> SseInspector" where
  "observe_terminal outcome self = self\<lparr>si_terminal := merge_terminal (si_terminal self) outcome\<rparr>"

definition frame_delimiter :: "string \<Rightarrow> nat option" where
  "frame_delimiter pending =
     (if starts_with (rev [CHR 0x0D, CHR 0x0A, CHR 0x0D, CHR 0x0A]) (rev pending) then Some 4
      else if starts_with [CHR 0x0A, CHR 0x0A] (rev pending) then Some 2 else None)"

text \<open>The accounting of an event while the stream is not committed.\<close>

definition observe_done :: "TransportKind \<Rightarrow> SseInspector \<Rightarrow> SseInspector" where
  "observe_done transport self =
     (let self = (if si_commitment self = CommitmentPending
            then self\<lparr>si_commitment := CommitmentRejected\<rparr> else self) in
      if transport \<in> {TransportOpenaiChatCompletions, TransportOpenaiResponsesHttp, TransportOpenaiCodexResponses,
          TransportAzureOpenaiChatCompletions, TransportAzureOpenaiResponses}
      then observe_terminal TerminalComplete self else self)"

definition merge_usage :: "ProviderUsage option \<Rightarrow> ProviderUsage \<Rightarrow> ProviderUsage option" where
  "merge_usage latest usage =
     (if completeness usage = UsageAbsent then latest
      else case latest of
        None \<Rightarrow> Some usage
      | Some current \<Rightarrow>
          Some (complete_token_usage (fold (\<lambda>(d, n). aput d n) (dimensions usage) (dimensions current))))"

definition commitment_of ::
    "TransportKind \<Rightarrow> json \<Rightarrow> StreamTerminalOutcome option \<Rightarrow> StreamCommitment \<Rightarrow> StreamCommitment" where
  "commitment_of transport v terminal commitment =
     (if commitment \<noteq> CommitmentPending then commitment
      else if terminal = Some TerminalProviderFailure then CommitmentRejected
      else if stream_establishes_response transport v then CommitmentReady
      else if terminal = Some TerminalComplete then CommitmentRejected
      else CommitmentPending)"

definition observe_json :: "TransportKind \<Rightarrow> json \<Rightarrow> SseInspector \<Rightarrow> SseInspector" where
  "observe_json transport v self =
     (let terminal = stream_terminal_outcome transport v;
          self = (if terminal = Some TerminalProviderFailure \<and> si_failure_class self = None
            then self\<lparr>si_failure_class := Some (classify_stream_failure v)\<rparr> else self);
          self = self\<lparr>si_commitment := commitment_of transport v terminal (si_commitment self)\<rparr>;
          self = (case terminal of None \<Rightarrow> self | Some outcome \<Rightarrow> observe_terminal outcome self);
          self = (case response_state_id transport v of
            None \<Rightarrow> self
          | Some i \<Rightarrow> self\<lparr>observed_state_ids := insert i (observed_state_ids self)\<rparr>) in
      self\<lparr>si_latest_usage := merge_usage (si_latest_usage self) (extract_json_usage transport v)\<rparr>)"

definition foreign_state_id :: "TransportKind \<Rightarrow> SseEventData \<Rightarrow> string set \<Rightarrow> bool" where
  "foreign_state_id transport data ids \<longleftrightarrow>
     (case data of
        SseJson v \<Rightarrow> (case response_state_id transport v of
            None \<Rightarrow> False | Some i \<Rightarrow> ids \<noteq> {} \<and> i \<notin> ids)
      | _ \<Rightarrow> False)"

text \<open>A complete frame of which \<open>delimiter\<close> bytes are the blank line; \<open>Inl\<close> stops the loop.\<close>

definition accept_frame ::
    "WireExternals \<Rightarrow> TransportKind \<Rightarrow> nat \<Rightarrow> SseInspector
      \<Rightarrow> WireError + SseInspector \<times> string \<times> json list" where
  "accept_frame we transport delimiter self =
     result_bind (parse_sse_data we (take (length (si_pending self) - delimiter) (si_pending self))) (\<lambda>data.
       if foreign_state_id transport data (observed_state_ids self) then Inl WireFraming
       else
         let frame = si_pending self; self = self\<lparr>si_pending := []\<rparr> in
         Inr (case data of
             SseEmpty \<Rightarrow> (self, frame, [])
           | SseDone \<Rightarrow> (observe_done transport self, frame, [])
           | SseJson v \<Rightarrow> (observe_json transport v self, frame, [v])))"

definition count_byte :: "char \<Rightarrow> SseInspector \<Rightarrow> SseInspector" where
  "count_byte byte self =
     self\<lparr>precommit_bytes := (if si_commitment self = CommitmentPending
         then saturating_add u64_max (precommit_bytes self) 1 else precommit_bytes self),
       si_pending := si_pending self @ [byte]\<rparr>"

definition count_event :: "SseInspector \<Rightarrow> SseInspector" where
  "count_event self =
     self\<lparr>precommit_events := (if si_commitment self = CommitmentPending
         then saturating_add u64_max (precommit_events self) 1 else precommit_events self)\<rparr>"

fun push_loop ::
    "WireExternals \<Rightarrow> TransportKind \<Rightarrow> string \<Rightarrow> SseInspector \<Rightarrow> InspectedSseBatch
      \<Rightarrow> SseInspector \<times> InspectedSseBatch" where
  "push_loop we transport [] self batch = (self, batch)"
| "push_loop we transport (byte # bytes) self batch =
     (let self = count_byte byte self in
      if length (si_pending self) > MAX_SSE_EVENT_BYTES then (self, batch\<lparr>sse_error := Some WireBound\<rparr>)
      else case frame_delimiter (si_pending self) of
        None \<Rightarrow> push_loop we transport bytes self batch
      | Some delimiter \<Rightarrow>
          let self = count_event self in
          (case accept_frame we transport delimiter self of
             Inl e \<Rightarrow> (self, batch\<lparr>sse_error := Some e\<rparr>)
           | Inr (self, frame, vs) \<Rightarrow>
               push_loop we transport bytes self
                 (batch\<lparr>sse_bytes := sse_bytes batch @ frame, sse_values := sse_values batch @ vs\<rparr>)))"

definition empty_batch :: InspectedSseBatch where
  "empty_batch = \<lparr>sse_bytes = [], sse_values = [], sse_error = None\<rparr>"

definition push_frames ::
    "WireExternals \<Rightarrow> TransportKind \<Rightarrow> string \<Rightarrow> SseInspector \<Rightarrow> SseInspector \<times> InspectedSseBatch" where
  "push_frames we transport bytes self = push_loop we transport bytes self empty_batch"

definition SseInspector_push ::
    "WireExternals \<Rightarrow> TransportKind \<Rightarrow> string \<Rightarrow> SseInspector \<Rightarrow> SseInspector \<times> (WireError + json list)" where
  "SseInspector_push we transport bytes self =
     (let (self, batch) = push_frames we transport bytes self in
      (self, case sse_error batch of Some e \<Rightarrow> Inl e | None \<Rightarrow> Inr (sse_values batch)))"

definition inspector_usage :: "SseInspector \<Rightarrow> ProviderUsage" where
  "inspector_usage self = (case si_latest_usage self of None \<Rightarrow> ProviderUsage_absent | Some u \<Rightarrow> u)"

text \<open>\<open>u8::is_ascii_whitespace\<close>\<close>

definition ascii_whitespace :: "char \<Rightarrow> bool" where
  "ascii_whitespace c \<longleftrightarrow> c \<in> {CHR 0x09, CHR 0x0A, CHR 0x0C, CHR 0x0D, CHR 0x20}"

definition inspector_terminal :: "SseInspector \<Rightarrow> StreamTerminalOutcome" where
  "inspector_terminal self =
     (if list_ex (\<lambda>c. \<not> ascii_whitespace c) (si_pending self) then TerminalIncomplete
      else case si_terminal self of None \<Rightarrow> TerminalIncomplete | Some outcome \<Rightarrow> outcome)"

subsection \<open>AWS event streams\<close>

record DecodedEventStreamBatch =
  dec_payloads :: "string list"
  dec_error :: "WireError option"

text \<open>\<open>u32::from_be_bytes(bytes[from..from + 4])\<close>; the length of a slice is the caller's.\<close>

definition u32_at :: "nat \<Rightarrow> string \<Rightarrow> nat" where
  "u32_at from bytes = be_value (take 4 (drop from bytes))"

text \<open>
  The fields of the header block: a name with its length in one byte, the type 7, and a value with its
  length in two bytes.
\<close>

function event_headers :: "string \<Rightarrow> string option \<Rightarrow> string option
    \<Rightarrow> WireError + string option \<times> string option" where
  "event_headers [] message_type event_type = Inr (message_type, event_type)"
| "event_headers (n # bytes) message_type event_type =
     (if of_char n > length bytes then Inl WireFraming
      else
        let name = take (of_char n) bytes in
        (case drop (of_char n) bytes of
           t # l # m # rest \<Rightarrow>
             let len = of_char l * 256 + of_char m in
             if of_char t \<noteq> (7 :: nat) \<or> len > length rest then Inl WireFraming
             else
               event_headers (drop len rest)
                 (if name = '':message-type'' then Some (take len rest) else message_type)
                 (if name = '':event-type'' then Some (take len rest) else event_type)
         | _ \<Rightarrow> Inl WireFraming))"
  by pat_completeness auto

termination
proof (relation "measure (\<lambda>(bytes, _, _). length bytes)", goal_cases)
  case (2 n bytes message_type event_type name t ts l ls m rest len)
  then have "length (drop (of_char n) bytes) = Suc (Suc (Suc (length rest)))" by simp
  then have "length rest < length bytes" by simp
  then show ?case by simp
qed simp

definition validate_event_headers :: "string \<Rightarrow> WireError + unit" where
  "validate_event_headers bytes =
     result_bind (event_headers bytes None None) (\<lambda>(message_type, event_type).
       if message_type = Some ''event'' \<and> event_type = Some ''chunk'' then Inr () else Inl WireFraming)"

definition validate_crc :: "WireExternals \<Rightarrow> string \<Rightarrow> WireError + unit" where
  "validate_crc we message =
     (if we_crc we (take 8 message) \<noteq> u32_at 8 message then Inl WireFraming
      else if we_crc we (take (length message - 4) message) \<noteq> u32_at (length message - 4) message
      then Inl WireFraming else Inr ())"

definition decode_event_payload :: "WireExternals \<Rightarrow> string \<Rightarrow> nat \<Rightarrow> WireError + string" where
  "decode_event_payload we message headers =
     result_bind (validate_crc we message) (\<lambda>_.
     result_bind (validate_event_headers (take headers (drop 12 message))) (\<lambda>_.
     result_bind (ok_or WireFraming
         (we_json we (take (length message - 4 - (12 + headers)) (drop (12 + headers) message)))) (\<lambda>wrapper.
     result_bind (ok_or WireFraming (json_str wrapper ''bytes'')) (\<lambda>encoded.
     result_bind (ok_or WireFraming (we_base64 we encoded)) (\<lambda>decoded.
       if length decoded > MAX_SSE_EVENT_BYTES then Inl WireBound else Inr decoded)))))"

text \<open>What is checked once twelve bytes are there: \<open>None\<close> is a bound exceeded.\<close>

definition message_size :: "string \<Rightarrow> (nat \<times> nat) option" where
  "message_size pending =
     (let len = u32_at 0 pending; headers = u32_at 4 pending in
      if len < 16 \<or> len > MAX_EVENT_STREAM_MESSAGE_BYTES \<or> headers > MAX_EVENT_STREAM_HEADERS_BYTES
         \<or> 16 + headers > len
      then None else Some (len, headers))"

text \<open>
  The loop of \<open>push_messages\<close>.  Every turn takes bytes, or decodes and clears a message that
  was complete before.
\<close>

definition bytes_needed :: "string \<Rightarrow> nat" where
  "bytes_needed pending = (if length pending < 12 then 12 else u32_at 0 pending)"

lemma message_size_Some:
  "message_size pending = Some (len, headers) \<Longrightarrow> len = u32_at 0 pending \<and> 16 + headers \<le> len"
  by (auto simp: message_size_def Let_def split: if_splits)

lemma u32_at_append: "from + 4 \<le> length pending \<Longrightarrow> u32_at from (pending @ bytes) = u32_at from pending"
  by (simp add: u32_at_def)

function decode_loop ::
    "WireExternals \<Rightarrow> string \<Rightarrow> string \<Rightarrow> string list \<Rightarrow> string \<times> DecodedEventStreamBatch" where
  "decode_loop we bytes pending payloads =
     (if bytes = [] then (pending, \<lparr>dec_payloads = payloads, dec_error = None\<rparr>)
      else
        let taken = min (bytes_needed pending - length pending) (length bytes);
            pending = pending @ take taken bytes; bytes = drop taken bytes in
        if length pending < 12 then decode_loop we bytes pending payloads
        else (case message_size pending of
            None \<Rightarrow> (pending, \<lparr>dec_payloads = payloads, dec_error = Some WireBound\<rparr>)
          | Some (len, headers) \<Rightarrow>
              if length pending < len then decode_loop we bytes pending payloads
              else (case decode_event_payload we pending headers of
                  Inl e \<Rightarrow> (pending, \<lparr>dec_payloads = payloads, dec_error = Some e\<rparr>)
                | Inr payload \<Rightarrow> decode_loop we bytes [] (payloads @ [payload]))))"
  by pat_completeness auto

termination
proof (relation "measure (\<lambda>(we, bytes, pending, payloads). 2 * length bytes + (if pending = [] then 0 else 1))",
    goal_cases)
  case (2 we bytes pending payloads taken pending' bytes')
  then have "0 < taken" by (auto simp: bytes_needed_def)
  with 2 have "length bytes' < length bytes" by simp
  then show ?case by simp
next
  case (3 we bytes pending payloads taken pending' bytes' size_headers len headers)
  have "0 < taken"
  proof (rule ccontr)
    assume "\<not> 0 < taken"
    then have "pending' = pending" "bytes_needed pending \<le> length pending" using 3 by auto
    with 3 show False by (auto simp: bytes_needed_def split: if_splits dest!: message_size_Some)
  qed
  with 3 have "length bytes' < length bytes" by simp
  then show ?case by simp
next
  case (4 we bytes pending payloads taken pending' bytes' size_headers len headers payload)
  then have "0 < taken \<or> pending \<noteq> []" by (auto simp: bytes_needed_def)
  with 4 show ?case by auto
qed simp

declare decode_loop.simps [simp del]

definition push_messages ::
    "WireExternals \<Rightarrow> string \<Rightarrow> string \<Rightarrow> string \<times> DecodedEventStreamBatch" where
  "push_messages we bytes pending = decode_loop we bytes pending []"

definition AwsEventStreamDecoder_push :: "WireExternals \<Rightarrow> string \<Rightarrow> string \<Rightarrow> string \<times> (WireError + string list)" where
  "AwsEventStreamDecoder_push we bytes pending =
     (let (pending, batch) = push_messages we bytes pending in
      (pending, case dec_error batch of Some e \<Rightarrow> Inl e | None \<Rightarrow> Inr (dec_payloads batch)))"

end
