(* ===== verification/Isolation.thy ===== *)
theory Isolation
  imports Wire Routing
begin

section \<open>Isolation between organizations and the lifetime of a request\<close>

text \<open>
  \<open>gateway/isolation.rs\<close>, which keeps the state that a provider holds for one organization away
  from the others, and \<open>gateway/lifetime.rs\<close>, the deadlines of a request.
\<close>

subsection \<open>References to provider state\<close>

definition items_of :: "json option \<Rightarrow> json list" where
  "items_of v = (case Option.bind v json_as_array of None \<Rightarrow> [] | Some elements \<Rightarrow> elements)"

definition has_file_id :: "json \<Rightarrow> bool" where
  "has_file_id block \<longleftrightarrow>
     json_get block ''file_id'' \<noteq> None
     \<or> Option.bind (json_get block ''file'') (\<lambda>file. json_get file ''file_id'') \<noteq> None
     \<or> Option.bind (json_get block ''source'') (\<lambda>source. json_get source ''file_id'') \<noteq> None"

definition content_has_file :: "json option \<Rightarrow> bool" where
  "content_has_file content \<longleftrightarrow> list_ex has_file_id (items_of content)"

definition present_field :: "json \<Rightarrow> string \<Rightarrow> bool" where
  "present_field body field \<longleftrightarrow> option_filter (\<lambda>v. v \<noteq> JNull) (json_get body field) \<noteq> None"

definition input_refers :: "json \<Rightarrow> bool" where
  "input_refers item \<longleftrightarrow>
     json_str item ''type'' = Some ''item_reference'' \<or> content_has_file (json_get item ''content'')
     \<or> json_get item ''file_id'' \<noteq> None"

definition tool_refers :: "json \<Rightarrow> bool" where
  "tool_refers tool \<longleftrightarrow>
     (case json_str tool ''type'' of
        None \<Rightarrow> False
      | Some kind \<Rightarrow>
          if kind = ''file_search'' then json_get tool ''vector_store_ids'' \<noteq> None
          else if kind = ''code_interpreter'' then
            (case json_get tool ''container'' of
               None \<Rightarrow> False
             | Some container \<Rightarrow>
                 json_is_string (Some container) \<or> json_get container ''file_ids'' \<noteq> None)
          else False)"

fun has_semantic_reference :: "IngressProtocolFamily \<Rightarrow> json \<Rightarrow> bool" where
  "has_semantic_reference IngressGoogleGemini body \<longleftrightarrow> present_field body ''cachedContent''"
| "has_semantic_reference IngressAnthropicMessages body \<longleftrightarrow>
     present_field body ''container''
     \<or> list_ex (\<lambda>message. content_has_file (json_get message ''content'')) (items_of (json_get body ''messages''))"
| "has_semantic_reference IngressOpenaiChatCompletions body \<longleftrightarrow>
     list_ex (\<lambda>message. content_has_file (json_get message ''content'')) (items_of (json_get body ''messages''))"
| "has_semantic_reference IngressOpenaiResponses body \<longleftrightarrow>
     present_field body ''conversation'' \<or> present_field body ''container''
     \<or> list_ex input_refers (items_of (json_get body ''input''))
     \<or> list_ex tool_refers (items_of (json_get body ''tools''))"

subsection \<open>The body sent to a provider\<close>

text \<open>
  The JSON reading of a profile: an object without other fields, or the array of its fields; a variant
  is its name, or an object from the name to null.
\<close>

definition isolation_mode_of_name :: "string \<Rightarrow> StateIsolationMode option" where
  "isolation_mode_of_name name =
     (if name = ''shared'' then Some IsolationShared
      else if name = ''organization_dedicated'' then Some IsolationOrganizationDedicated else None)"

fun isolation_mode_from_value :: "json \<Rightarrow> StateIsolationMode option" where
  "isolation_mode_from_value (JString name) = isolation_mode_of_name name"
| "isolation_mode_from_value (JObject [(name, JNull)]) = isolation_mode_of_name name"
| "isolation_mode_from_value _ = None"

definition mode_or_default :: "json option \<Rightarrow> StateIsolationProfile option" where
  "mode_or_default v =
     (case v of
        None \<Rightarrow> Some \<lparr>isolation_mode = IsolationShared\<rparr>
      | Some v \<Rightarrow> map_option (\<lambda>mode. \<lparr>isolation_mode = mode\<rparr>) (isolation_mode_from_value v))"

fun StateIsolationProfile_from_value :: "json \<Rightarrow> StateIsolationProfile option" where
  "StateIsolationProfile_from_value (JObject members) =
     (if list_ex (\<lambda>(field, _). field \<noteq> ''mode'') members then None else mode_or_default (aget members ''mode''))"
| "StateIsolationProfile_from_value (JArray []) = mode_or_default None"
| "StateIsolationProfile_from_value (JArray [v]) = mode_or_default (Some v)"
| "StateIsolationProfile_from_value _ = None"

definition namespaced_key :: "Externals \<Rightarrow> string list \<Rightarrow> string" where
  "namespaced_key env parts =
     hex_digest (sha256 env (concat (map (\<lambda>part. be_bytes 8 (length part) @ part) parts)))"

definition principal_kind_str :: "GatewayPrincipal \<Rightarrow> string" where
  "principal_kind_str caller =
     (case GatewayPrincipal_kind caller of KindGatewayKey \<Rightarrow> ''gateway_key'' | KindLocalUser \<Rightarrow> ''local_user'')"

definition cache_key_parts :: "Externals \<Rightarrow> AdmissionContext \<Rightarrow> string \<Rightarrow> string list" where
  "cache_key_parts env admission caller =
     [''owlrora:provider-opaque-key:v1'', uuid_text env (org_id (ctx_organization admission)),
      principal_kind_str (ctx_principal admission), uuid_text env (affinity_uuid (ctx_principal admission)),
      uuid_text env (route_id (ctx_route admission)), ''prompt_cache_key'', caller]"

text \<open>The opaque cache key of the OpenAI protocols is put in the namespace of the caller.\<close>

definition isolate_cache_key ::
    "Externals \<Rightarrow> AdmissionContext \<Rightarrow> IngressProtocolFamily \<Rightarrow> json \<Rightarrow> WireError + json" where
  "isolate_cache_key env admission family document =
     (if family \<notin> {IngressOpenaiChatCompletions, IngressOpenaiResponses} then Inr document
      else case json_get document ''prompt_cache_key'' of
        None \<Rightarrow> Inr document
      | Some v \<Rightarrow>
          result_bind (ok_or WireFraming (option_filter (\<lambda>s. s \<noteq> []) (json_as_str v))) (\<lambda>caller.
          Inr (case document of
              JObject members \<Rightarrow> JObject (aput ''prompt_cache_key''
                (JString (namespaced_key env (cache_key_parts env admission caller))) members)
            | other \<Rightarrow> other)))"

definition organization_dedicated :: "AdmissionContext \<Rightarrow> Candidate \<Rightarrow> StateIsolationProfile \<Rightarrow> bool" where
  "organization_dedicated admission candidate profile \<longleftrightarrow>
     isolation_mode profile = IsolationOrganizationDedicated
     \<and> StateIsolationProfile_valid_for profile (dep_scope (cand_deployment candidate))
     \<and> dep_organization_id (cand_deployment candidate) = Some (org_id (ctx_organization admission))"

definition isolated_request ::
    "Externals \<Rightarrow> AdmissionContext \<Rightarrow> Candidate \<Rightarrow> NativeRequest \<Rightarrow> WireError + NativeRequest" where
  "isolated_request env admission candidate native =
     result_bind (ok_or WireFraming
         (StateIsolationProfile_from_value (state_isolation_profile (cand_deployment candidate)))) (\<lambda>profile.
     if has_semantic_reference (req_family native) (envelope native)
        \<and> \<not> organization_dedicated admission candidate profile
     then Inl WireFraming
     else result_bind (isolate_cache_key env admission (req_family native) (envelope native))
       (\<lambda>document. Inr (native\<lparr>envelope := document\<rparr>)))"

definition prepare_body ::
    "WireExternals \<Rightarrow> Externals \<Rightarrow> AdmissionContext \<Rightarrow> Candidate \<Rightarrow> NativeRequest \<Rightarrow> nat \<Rightarrow> WireError + string" where
  "prepare_body we env admission candidate native maximum_output =
     result_bind (isolated_request env admission candidate native) (\<lambda>isolated.
       adapt_provider_body we isolated (dep_transport_kind (cand_deployment candidate))
         (upstream_model_id (cand_deployment candidate)) maximum_output)"

subsection \<open>The lifetime of a request\<close>

record RequestLifetime =
  precommit_at :: instant
  terminal_at :: instant

definition narrower_stream_duration_limit :: "nat \<Rightarrow> nat \<Rightarrow> nat" where
  "narrower_stream_duration_limit route_limit principal_limit =
     (if route_limit < principal_limit then route_limit else principal_limit)"

definition effective_stream_duration_limit :: "AdmissionContext \<Rightarrow> nat" where
  "effective_stream_duration_limit admission =
     (let principal_rate_limit =
            (case ctx_principal admission of
               LocalUserPrincipal _ \<Rightarrow> u32_max
             | GatewayKeyPrincipal _ verifier \<Rightarrow>
                 (case Option.bind (gk_rate_policy_id verifier) (\<lambda>i.
                    Option.bind (option_filter rtp_active
                      (aget (rate_policies (catalog (snapshot (ctx_generation admission)))) i)) rtp_active_version) of
                    None \<Rightarrow> u32_max
                  | Some version \<Rightarrow> rv_max_stream_seconds version)) in
      narrower_stream_duration_limit (max_stream_seconds (effective_request_policy admission))
        principal_rate_limit)"

definition lifetime_from_limits :: "instant \<Rightarrow> nat \<Rightarrow> nat option \<Rightarrow> RequestLifetime" where
  "lifetime_from_limits started overall streaming =
     (let terminal = started + (case streaming of None \<Rightarrow> overall | Some d \<Rightarrow> d) in
      \<lparr>precommit_at = min (started + overall) terminal, terminal_at = terminal\<rparr>)"

definition active_reliability :: "AdmissionContext \<Rightarrow> ReliabilityPolicySnapshot option" where
  "active_reliability admission =
     option_filter rp_active
       (aget (reliability_policies (catalog (snapshot (ctx_generation admission))))
         (reliability_policy_id (ctx_route admission)))"

text \<open>\<open>gateway_error\<close> of \<open>gateway/dispatch.rs\<close>.\<close>

fun gateway_error_message :: "ProtocolErrorKind \<Rightarrow> string" where
  "gateway_error_message ErrRequestTooLarge = ''request exceeds the configured size limit''"
| "gateway_error_message ErrUnsupportedCapability = ''requested capability is unavailable''"
| "gateway_error_message ErrBudgetDenied = ''request cannot be admitted by the active budget policy''"
| "gateway_error_message ErrDeadlineExceeded = ''request deadline was exhausted''"
| "gateway_error_message ErrInvalidRequest = ''upstream rejected the request''"
| "gateway_error_message _ = ''no upstream target is currently available''"

definition gateway_error :: "AdmissionContext \<Rightarrow> ProtocolErrorKind \<Rightarrow> ProtocolError" where
  "gateway_error admission kind =
     ProtocolError_new (ingress_protocol_family (ctx_route admission)) kind (ctx_request_id admission)
       (gateway_error_message kind)"

definition RequestLifetime_new ::
    "AdmissionContext \<Rightarrow> ResponseMode \<Rightarrow> instant \<Rightarrow> ProtocolError + RequestLifetime" where
  "RequestLifetime_new admission mode started =
     result_bind (ok_or (gateway_error admission ErrRouteUnavailable) (active_reliability admission))
       (\<lambda>reliability. Inr (lifetime_from_limits started
         (duration_from_millis (overall_timeout_ms (deadline_policy reliability)))
         (if mode \<noteq> ModeJson
          then Some (duration_from_millis (1000 * effective_stream_duration_limit admission)) else None)))"

definition constrain :: "instant option \<Rightarrow> RequestLifetime \<Rightarrow> RequestLifetime" where
  "constrain limit self =
     (case limit of
        None \<Rightarrow> self
      | Some t \<Rightarrow> \<lparr>precommit_at = min (precommit_at self) t, terminal_at = min (terminal_at self) t\<rparr>)"

subsection \<open>Names that cannot meet\<close>

lemma length_be_bytes [simp]: "length (be_bytes k n) = k"
  by (induction k arbitrary: n) simp_all

lemma be_value_be_bytes: "n < 256 ^ k \<Longrightarrow> be_value (be_bytes k n) = n"
proof (induction k arbitrary: n)
  case (Suc k)
  then have "n < 256 ^ k * 256" by (simp only: power_Suc2)
  then have "n div 256 < 256 ^ k" by (rule less_mult_imp_div_less)
  from Suc.IH [OF this] have "foldl (\<lambda>acc c. acc * 256 + of_char c) 0 (be_bytes k (n div 256)) = n div 256"
    unfolding be_value_def .
  then show ?case by (simp add: be_value_def)
qed (simp add: be_value_def)

lemma be_bytes_inject:
  assumes "n < 256 ^ k" "m < 256 ^ k" "be_bytes k n = be_bytes k m"
  shows "n = m"
  by (metis be_value_be_bytes assms)

text \<open>Parts of a name, each after its length in eight bytes.\<close>

definition prefixed_parts :: "string list \<Rightarrow> string" where
  "prefixed_parts parts = concat (map (\<lambda>part. be_bytes 8 (length part) @ part) parts)"

definition short_part :: "string \<Rightarrow> bool" where
  "short_part part \<longleftrightarrow> length part < 256 ^ 8"

lemma prefixed_parts_inject:
  "length xs = length ys \<Longrightarrow> list_all short_part xs \<Longrightarrow> list_all short_part ys
    \<Longrightarrow> prefixed_parts xs = prefixed_parts ys \<Longrightarrow> xs = ys"
proof (induction xs ys rule: list_induct2)
  case (Cons x xs y ys)
  from Cons.prems have parts: "be_bytes 8 (length x) @ x @ prefixed_parts xs
      = be_bytes 8 (length y) @ y @ prefixed_parts ys"
    by (simp add: prefixed_parts_def)
  then have "be_bytes 8 (length x) = be_bytes 8 (length y)" by (simp add: append_eq_append_conv)
  with Cons.prems have same: "length x = length y" by (intro be_bytes_inject) (simp_all add: short_part_def)
  with parts have "x = y" "prefixed_parts xs = prefixed_parts ys" by (simp_all add: append_eq_append_conv)
  with Cons.IH Cons.prems show ?case by simp
qed simp

lemma hex_char_inject:
  assumes "hex_char n = hex_char m" "n < 16" "m < 16"
  shows "n = m"
proof -
  have "(if n < 10 then 48 + n else 87 + n) mod 256 = (if m < 10 then 48 + m else 87 + m :: nat) mod 256"
    using arg_cong [OF assms(1), of "of_char :: char \<Rightarrow> nat"] by (simp split: if_splits)
  with assms(2,3) show ?thesis by (simp split: if_splits)
qed

lemma hex_digest_inject: "hex_digest a = hex_digest b \<longleftrightarrow> a = b"
proof (induction a arbitrary: b)
  case Nil
  then show ?case by (cases b) (simp_all add: hex_digest_def)
next
  case (Cons x a)
  have byte: "x = y" if "hex_char (of_char x div 16) = hex_char (of_char y div 16)"
      "hex_char (of_char x mod 16) = hex_char (of_char y mod 16)" for y
  proof -
    have "(of_char x :: nat) < 16 * 16" "(of_char y :: nat) < 16 * 16"
      using nat_of_char_less_256 [of x] nat_of_char_less_256 [of y] by simp_all
    then have "(of_char x :: nat) div 16 = of_char y div 16" "(of_char x :: nat) mod 16 = of_char y mod 16"
      using that by (auto intro!: hex_char_inject less_mult_imp_div_less simp del: hex_char.simps)
    then have "(of_char x :: nat) = of_char y" by (metis div_mult_mod_eq)
    then show ?thesis by simp
  qed
  show ?case
  proof (cases b)
    case Nil
    then show ?thesis by (simp add: hex_digest_def)
  next
    case (Cons y b')
    have "hex_digest (z # c) = hex_char (of_char z div 16) # hex_char (of_char z mod 16) # hex_digest c" for z c
      by (simp add: hex_digest_def)
    with Cons Cons.IH [of b'] byte [of y] show ?thesis by (auto simp del: hex_char.simps)
  qed
qed

text \<open>What the cache key of a request hashes.\<close>

definition cache_key_input :: "Externals \<Rightarrow> AdmissionContext \<Rightarrow> string \<Rightarrow> string" where
  "cache_key_input env admission caller = prefixed_parts (cache_key_parts env admission caller)"

lemma namespaced_key_input:
  "namespaced_key env (cache_key_parts env admission caller) = hex_digest (sha256 env (cache_key_input env admission caller))"
  by (simp add: namespaced_key_def cache_key_input_def prefixed_parts_def)

definition short_cache_key :: "Externals \<Rightarrow> AdmissionContext \<Rightarrow> string \<Rightarrow> bool" where
  "short_cache_key env admission caller \<longleftrightarrow> list_all short_part (cache_key_parts env admission caller)"

definition same_caller :: "AdmissionContext \<Rightarrow> AdmissionContext \<Rightarrow> bool" where
  "same_caller a b \<longleftrightarrow>
     org_id (ctx_organization a) = org_id (ctx_organization b)
     \<and> GatewayPrincipal_kind (ctx_principal a) = GatewayPrincipal_kind (ctx_principal b)
     \<and> affinity_uuid (ctx_principal a) = affinity_uuid (ctx_principal b)
     \<and> route_id (ctx_route a) = route_id (ctx_route b)"

lemma cache_key_parts_inject:
  assumes "inj (uuid_text env)" "cache_key_parts env a k = cache_key_parts env b l"
  shows "same_caller a b \<and> k = l"
  using assms
  by (auto simp: cache_key_parts_def same_caller_def principal_kind_str_def dest: injD
      split: GatewayPrincipalKind.split_asm)

lemma isolated_cache_key:
  assumes "isolated_request env a c n = Inr r" "req_family n \<in> {IngressOpenaiChatCompletions, IngressOpenaiResponses}"
    "json_get (envelope n) ''prompt_cache_key'' = Some (JString k)"
  shows "json_get (envelope r) ''prompt_cache_key''
    = Some (JString (hex_digest (sha256 env (cache_key_input env a k))))"
proof (cases "envelope n")
  case (JObject members)
  with assms show ?thesis
    by (auto simp: isolated_request_def isolate_cache_key_def namespaced_key_input split: if_split_asm)
qed (use assms(3) in simp_all)

text \<open>
  C24: Two requests that both carry a prompt cache key reach the providers with the same key only
  if they are of the same organization, the same principal and the same route and their callers chose the same
  key, or SHA-256 collides on the two names: no caller can hit, or poison, the provider's cache entry of
  another one, whatever keys it chooses.
\<close>

theorem prompt_cache_isolated:
  assumes "isolated_request env a c n = Inr r" "isolated_request env b d m = Inr s"
    and "req_family n \<in> {IngressOpenaiChatCompletions, IngressOpenaiResponses}"
    and "req_family m \<in> {IngressOpenaiChatCompletions, IngressOpenaiResponses}"
    and "json_get (envelope n) ''prompt_cache_key'' = Some (JString k)"
    and "json_get (envelope m) ''prompt_cache_key'' = Some (JString l)"
    and "inj (uuid_text env)" "short_cache_key env a k" "short_cache_key env b l"
    and "\<not> (same_caller a b \<and> k = l)"
    and "sha256 env (cache_key_input env a k) = sha256 env (cache_key_input env b l)
      \<longrightarrow> cache_key_input env a k = cache_key_input env b l"
  shows "json_get (envelope r) ''prompt_cache_key'' \<noteq> json_get (envelope s) ''prompt_cache_key''"
proof
  assume "json_get (envelope r) ''prompt_cache_key'' = json_get (envelope s) ''prompt_cache_key''"
  then have "cache_key_input env a k = cache_key_input env b l"
    using isolated_cache_key [OF assms(1,3,5)] isolated_cache_key [OF assms(2,4,6)] assms(11)
    by (simp add: hex_digest_inject)
  then have "cache_key_parts env a k = cache_key_parts env b l"
    using assms(8,9) unfolding cache_key_input_def short_cache_key_def
    by (intro prefixed_parts_inject) (simp_all add: cache_key_parts_def)
  with cache_key_parts_inject [OF assms(7)] assms(10) show False by blast
qed

text \<open>
  Each caller is confined to the provider state of its organization: a body that refers to state the provider
  keeps is only sent to a deployment dedicated to the caller's own organization.
\<close>

lemma isolated_request_dedicated:
  assumes "isolated_request env admission candidate native = Inr r"
    and "has_semantic_reference (req_family native) (envelope native)"
  shows "\<exists>profile. StateIsolationProfile_from_value (state_isolation_profile (cand_deployment candidate)) = Some profile
    \<and> organization_dedicated admission candidate profile"
  using assms by (auto simp: isolated_request_def split: if_split_asm)

subsection \<open>A witness\<close>

text \<open>Two organizations whose callers choose the same key.\<close>

definition sample_names :: Externals where
  "sample_names = sample_env\<lparr>uuid_text := (\<lambda>n. replicate n CHR ''a''), sha256 := (\<lambda>value. value)\<rparr>"

definition sample_context :: "uuid \<Rightarrow> AdmissionContext" where
  "sample_context organization =
     \<lparr>ctx_generation = sample_runtime, ctx_request_id = ''r'',
      ctx_organization = sample_organization\<lparr>org_id := organization\<rparr>, ctx_principal = sample_caller,
      ctx_route = sample_served\<lparr>ingress_protocol_family := IngressOpenaiResponses\<rparr>,
      effective_request_policy = RouteRequestPolicy_default, ctx_candidates = []\<rparr>"

definition sample_keyed :: NativeRequest where
  "sample_keyed =
     \<lparr>req_family = IngressOpenaiResponses, original_body = [],
      envelope = JObject [(''prompt_cache_key'', JString ''k'')], intent = sample_intent\<rparr>"

definition sample_shared :: Candidate where
  "sample_shared = sample_probed
     \<lparr>cand_deployment := (cand_deployment sample_probed)\<lparr>state_isolation_profile := JObject []\<rparr>\<rparr>"

definition sample_isolated :: "uuid \<Rightarrow> NativeRequest" where
  "sample_isolated organization = sample_keyed
     \<lparr>envelope := JObject [(''prompt_cache_key'',
        JString (namespaced_key sample_names (cache_key_parts sample_names (sample_context organization) ''k'')))]\<rparr>"

lemma sample_isolates:
  "isolated_request sample_names (sample_context organization) sample_shared sample_keyed
    = Inr (sample_isolated organization)"
  by (simp add: isolated_request_def sample_shared_def mode_or_default_def sample_keyed_def present_field_def
      items_of_def isolate_cache_key_def sample_isolated_def option_filter_def)

lemma prompt_cache_isolated_witness:
  "json_get (envelope (sample_isolated 1)) ''prompt_cache_key''
    \<noteq> json_get (envelope (sample_isolated 2)) ''prompt_cache_key''"
proof (rule prompt_cache_isolated [OF sample_isolates sample_isolates])
  show "inj (uuid_text sample_names)"
  proof (rule injI)
    fix n m assume "uuid_text sample_names n = uuid_text sample_names m"
    then have "length (uuid_text sample_names n) = length (uuid_text sample_names m)" by simp
    then show "n = m" by (simp add: sample_names_def)
  qed
  show "short_cache_key sample_names (sample_context 1) ''k''" "short_cache_key sample_names (sample_context 2) ''k''"
    by (simp_all add: short_cache_key_def cache_key_parts_def short_part_def sample_names_def sample_context_def
        sample_organization_def principal_kind_str_def sample_caller_def sample_served_def sample_route_def)
  show "\<not> (same_caller (sample_context 1) (sample_context 2) \<and> ''k'' = ''k'')"
    by (simp add: same_caller_def sample_context_def)
qed (simp_all add: sample_keyed_def sample_names_def)

end
