(* ===== verification/Exchange.thy ===== *)
theory Exchange
  imports Isolation Attempts "HOL-Library.List_Lexorder" "HOL-Library.Char_ord"
begin

section \<open>One attempt at an upstream target\<close>

text \<open>
  \<open>execute_attempt\<close> of \<open>gateway/dispatch.rs\<close> with what it owns: the reservation of the
  attempt's budget, the permit of its target, its telemetry and the telemetry of the request.  The upstream is the
  environment: each of its answers says how long it took, \<^term>\<open>None\<close> an answer that never comes.
  A value that goes out of scope is dropped where the code drops it.

  The telemetry of spans is not modelled.  A coordinator call is modelled as taking no time.
\<close>

subsection \<open>Waiting\<close>

text \<open>
  \<open>tokio::time::timeout\<close> inside the \<open>before\<close> of \<open>dispatch\<close>, whose deadline wins
  when both expire: the work is then dropped at this await.  A wait that suspends nothing cannot be cut.
\<close>

datatype 'a Waited = Answered 'a | TimedOut | Cancelled

definition wait_for :: "instant \<Rightarrow> nat \<Rightarrow> (nat \<times> 'a) option \<Rightarrow> instant \<Rightarrow> instant \<times> 'a Waited" where
  "wait_for cutoff limit answer now =
     (let elapsed = (case answer of None \<Rightarrow> limit | Some (t, _) \<Rightarrow> min t limit) in
      if elapsed > 0 \<and> cutoff \<le> now + elapsed then (max now cutoff, Cancelled)
      else (now + elapsed,
        case answer of None \<Rightarrow> TimedOut | Some (t, x) \<Rightarrow> if t \<le> limit then Answered x else TimedOut))"

definition bounded_phase_timeout :: "instant \<Rightarrow> nat \<Rightarrow> instant \<Rightarrow> nat" where
  "bounded_phase_timeout limit milliseconds now = min (duration_from_millis milliseconds) (limit - now)"

subsection \<open>What is recorded\<close>

datatype AttemptTerminalClass = ClassActual | ClassDefinitelyNotDispatched | ClassUnknownOrAmbiguous

fun AttemptTerminalClass_as_str :: "AttemptTerminalClass \<Rightarrow> string" where
  "AttemptTerminalClass_as_str ClassActual = ''actual''"
| "AttemptTerminalClass_as_str ClassDefinitelyNotDispatched = ''definitely_not_dispatched''"
| "AttemptTerminalClass_as_str ClassUnknownOrAmbiguous = ''unknown_or_ambiguous''"

text \<open>The arguments of \<open>record_attempt\<close> and \<open>record_logical\<close> of \<open>gateway/usage.rs\<close>.\<close>

record AttemptRow =
  row_candidate :: Candidate
  row_class :: AttemptTerminalClass
  row_estimate :: "nat option"
  row_usage :: "ProviderUsage option"
  row_duration :: nat

record LogicalRow =
  lr_outcome :: string
  lr_usage :: "ProviderUsage option"
  lr_deployment :: "DeploymentSnapshot option"
  lr_duration :: nat

record 'c Gateway =
  gw_now :: instant
  gw_admission :: "'c \<times> LocalAdmissionState"
  gw_protection :: TargetProtectionState
  gw_attempts :: "AttemptRow list"
  gw_logical :: "LogicalRow list"

definition record_logical ::
    "string \<Rightarrow> ProviderUsage option \<Rightarrow> DeploymentSnapshot option \<Rightarrow> instant \<Rightarrow> 'c Gateway \<Rightarrow> 'c Gateway" where
  "record_logical outcome usage deployment started gw =
     gw\<lparr>gw_logical := gw_logical gw @ [\<lparr>lr_outcome = outcome, lr_usage = usage, lr_deployment = deployment,
        lr_duration = gw_now gw - started\<rparr>]\<rparr>"

text \<open>The owner of the request's record.\<close>

record LogicalTelemetry =
  lt_started :: instant
  lt_latest_usage :: "ProviderUsage option"
  lt_deployment :: "DeploymentSnapshot option"
  lt_recorded :: bool

definition LogicalTelemetry_new :: "instant \<Rightarrow> LogicalTelemetry" where
  "LogicalTelemetry_new started =
     \<lparr>lt_started = started, lt_latest_usage = None, lt_deployment = None, lt_recorded = False\<rparr>"

definition logical_observe :: "ProviderUsage \<Rightarrow> DeploymentSnapshot \<Rightarrow> LogicalTelemetry \<Rightarrow> LogicalTelemetry" where
  "logical_observe usage deployment self =
     (if completeness usage \<noteq> UsageAbsent
      then self\<lparr>lt_latest_usage := Some usage, lt_deployment := Some deployment\<rparr> else self)"

definition option_or :: "'a option \<Rightarrow> 'a option \<Rightarrow> 'a option" where
  "option_or a b = (case a of None \<Rightarrow> b | Some x \<Rightarrow> Some x)"

definition logical_finish ::
    "string \<Rightarrow> ProviderUsage option \<Rightarrow> DeploymentSnapshot option \<Rightarrow> LogicalTelemetry \<Rightarrow> 'c Gateway
      \<Rightarrow> LogicalTelemetry \<times> 'c Gateway" where
  "logical_finish outcome usage deployment self gw =
     (if lt_recorded self then (self, gw)
      else (self\<lparr>lt_recorded := True\<rparr>,
            record_logical outcome (option_or usage (lt_latest_usage self))
              (option_or deployment (lt_deployment self)) (lt_started self) gw))"

definition logical_drop :: "LogicalTelemetry \<Rightarrow> 'c Gateway \<Rightarrow> 'c Gateway" where
  "logical_drop self gw =
     (if lt_recorded self then gw
      else record_logical ''stream_interrupted'' (lt_latest_usage self) (lt_deployment self) (lt_started self) gw)"

text \<open>The owner of the attempt's record; finishing consumes it.\<close>

record AttemptTelemetry =
  tel_candidate :: Candidate
  tel_estimate :: "nat option"
  tel_started :: instant
  tel_dispatched :: bool

definition AttemptTelemetry_new :: "Candidate \<Rightarrow> AttemptReservation \<Rightarrow> instant \<Rightarrow> AttemptTelemetry" where
  "AttemptTelemetry_new candidate reservation now =
     \<lparr>tel_candidate = candidate, tel_estimate = estimated_cost_nanos reservation, tel_started = now,
      tel_dispatched = False\<rparr>"

definition telemetry_finish ::
    "AttemptTerminalClass \<Rightarrow> ProviderUsage option \<Rightarrow> AttemptTelemetry \<Rightarrow> 'c Gateway \<Rightarrow> 'c Gateway" where
  "telemetry_finish terminal usage self gw =
     gw\<lparr>gw_attempts := gw_attempts gw @ [\<lparr>row_candidate = tel_candidate self, row_class = terminal,
        row_estimate = tel_estimate self, row_usage = usage, row_duration = gw_now gw - tel_started self\<rparr>]\<rparr>"

definition telemetry_drop :: "AttemptTelemetry \<Rightarrow> 'c Gateway \<Rightarrow> 'c Gateway" where
  "telemetry_drop self gw =
     telemetry_finish (if tel_dispatched self then ClassUnknownOrAmbiguous else ClassDefinitelyNotDispatched)
       None self gw"

subsection \<open>Ending a reservation and a permit\<close>

definition drop_reservation :: "AttemptReservation \<Rightarrow> 'c Gateway \<Rightarrow> 'c Gateway" where
  "drop_reservation r gw =
     (let (c, local) = gw_admission gw; (r, local) = AttemptReservation_drop r local in
      gw\<lparr>gw_admission := (c, local)\<rparr>)"

text \<open>\<open>definitely_not_dispatched\<close> on a reservation that then goes out of scope.\<close>

definition release_reservation :: "AttemptReservation \<Rightarrow> 'c Gateway \<Rightarrow> 'c Gateway" where
  "release_reservation r gw =
     (let (c, local) = gw_admission gw; (r, local) = definitely_not_dispatched r local in
      drop_reservation r (gw\<lparr>gw_admission := (c, local)\<rparr>))"

datatype PermitEnd = PermitFailed uuid | PermitSucceeded | PermitDropped

definition end_permit :: "PermitEnd \<Rightarrow> TargetAttemptPermit \<Rightarrow> 'c Gateway \<Rightarrow> 'c Gateway" where
  "end_permit how p gw =
     gw\<lparr>gw_protection :=
       (case how of
          PermitFailed epoch \<Rightarrow> permit_failure (gw_now gw) epoch p (gw_protection gw)
        | PermitSucceeded \<Rightarrow> permit_success (gw_now gw) p (gw_protection gw)
        | PermitDropped \<Rightarrow> permit_drop (gw_now gw) p (gw_protection gw))\<rparr>"

definition settle_from_usage ::
    "AttemptReservation \<Rightarrow> DeploymentSnapshot \<Rightarrow> ProviderUsage \<Rightarrow> LocalAdmissionState
      \<Rightarrow> bool \<times> AttemptReservation \<times> LocalAdmissionState" where
  "settle_from_usage reservation deployment usage local =
     (if completeness usage \<noteq> UsageComplete then (False, reservation, local)
      else case ProviderUsage_price usage deployment of
        Some (Some (Known cost_nanos)) \<Rightarrow> (True, settle_actual_cost cost_nanos reservation local)
      | _ \<Rightarrow> (False, reservation, local))"

text \<open>The owner of the evidence of a response, together with its reservation.\<close>

record ResponseSettlement =
  rs_reservation :: AttemptReservation
  rs_telemetry :: "AttemptTelemetry option"
  rs_usage :: ProviderUsage

definition ResponseSettlement_new :: "AttemptReservation \<Rightarrow> AttemptTelemetry \<Rightarrow> ResponseSettlement" where
  "ResponseSettlement_new reservation telemetry =
     \<lparr>rs_reservation = reservation, rs_telemetry = Some telemetry, rs_usage = ProviderUsage_absent\<rparr>"

definition settlement_observe :: "ProviderUsage \<Rightarrow> ResponseSettlement \<Rightarrow> ResponseSettlement" where
  "settlement_observe usage self =
     (if completeness usage \<noteq> UsageAbsent then self\<lparr>rs_usage := usage\<rparr> else self)"

definition settlement_finish :: "ResponseSettlement \<Rightarrow> 'c Gateway \<Rightarrow> ResponseSettlement \<times> 'c Gateway" where
  "settlement_finish self gw =
     (case rs_telemetry self of
        None \<Rightarrow> (self, gw)
      | Some telemetry \<Rightarrow>
          let (c, local) = gw_admission gw;
              (actual, reservation, local) = settle_from_usage (rs_reservation self)
                (cand_deployment (tel_candidate telemetry)) (rs_usage self) local in
          (self\<lparr>rs_telemetry := None, rs_reservation := reservation\<rparr>,
           telemetry_finish (if actual then ClassActual else ClassUnknownOrAmbiguous) (Some (rs_usage self))
             telemetry (gw\<lparr>gw_admission := (c, local)\<rparr>)))"

definition settlement_drop :: "ResponseSettlement \<Rightarrow> 'c Gateway \<Rightarrow> 'c Gateway" where
  "settlement_drop self gw =
     (let (self, gw) = settlement_finish self gw in drop_reservation (rs_reservation self) gw)"

subsection \<open>Classifying the answer of an upstream\<close>

datatype UpstreamStatusFailure = Retryable RetryCondition | AuthOrConfiguration | ClientInvalid

definition classify_upstream_status :: "nat \<Rightarrow> UpstreamStatusFailure option" where
  "classify_upstream_status status =
     (if 200 \<le> status \<and> status < 300 \<or> status = 101 then None
      else if status = 429 then Some (Retryable ProviderRateLimited)
      else if status = 503 \<or> status = 502 then Some (Retryable ProviderOverloaded)
      else if 500 \<le> status \<and> status < 600 then Some (Retryable Provider5xx)
      else if status = 401 \<or> status = 403 \<or> \<not> (400 \<le> status \<and> status < 500) then Some AuthOrConfiguration
      else Some ClientInvalid)"

definition classify_pre_header_transport_error :: "bool \<Rightarrow> bool \<Rightarrow> RetryCondition" where
  "classify_pre_header_transport_error is_connect is_timeout =
     (if is_connect \<and> is_timeout then ConnectTimeout
      else if is_connect then ConnectFailure
      else if is_timeout then ResponseHeaderTimeout
      else ConnectFailure)"

datatype AttemptFailure =
  Failure RetryCondition ProtocolErrorKind
| RetryAfter RetryCondition ProtocolErrorKind nat
| FailoverOnly ProtocolErrorKind

definition unavailable :: "RetryCondition \<Rightarrow> AttemptFailure" where
  "unavailable condition = Failure condition ErrUpstreamUnavailable"

definition failover_only :: AttemptFailure where
  "failover_only = FailoverOnly ErrUpstreamUnavailable"

fun stream_failure_result :: "StreamFailureClass \<Rightarrow> AttemptFailure" where
  "stream_failure_result StreamInvalidRequest = Failure Provider5xx ErrInvalidRequest"
| "stream_failure_result StreamAuthOrConfiguration = failover_only"
| "stream_failure_result StreamUnknown = failover_only"
| "stream_failure_result StreamRateLimited = Failure ProviderRateLimited ErrUpstreamUnavailable"
| "stream_failure_result StreamOverloaded = Failure ProviderOverloaded ErrUpstreamUnavailable"
| "stream_failure_result StreamProviderFailure = Failure Provider5xx ErrUpstreamUnavailable"

text \<open>
  \<open>str::parse::<u64>\<close>, and the header \<open>retry-after\<close> as seconds or as a date;
  \<open>None\<close> inside the option is a value that is not visible ASCII.
\<close>

definition digit_value :: "char \<Rightarrow> nat option" where
  "digit_value c = (if 48 \<le> (of_char c :: nat) \<and> (of_char c :: nat) \<le> 57 then Some (of_char c - 48) else None)"

fun parse_digits :: "nat \<Rightarrow> string \<Rightarrow> nat option" where
  "parse_digits acc [] = Some acc"
| "parse_digits acc (c # cs) =
     (case digit_value c of
        None \<Rightarrow> None
      | Some d \<Rightarrow> if acc * 10 + d > u64_max then None else parse_digits (acc * 10 + d) cs)"

definition parse_u64 :: "string \<Rightarrow> nat option" where
  "parse_u64 s =
     (let digits = (case s of [] \<Rightarrow> [] | c # cs \<Rightarrow> if c = CHR ''+'' then cs else s) in
      if digits = [] then None else parse_digits 0 digits)"

definition parse_retry_after :: "(string \<Rightarrow> nat option) \<Rightarrow> string option option \<Rightarrow> nat \<Rightarrow> nat option" where
  "parse_retry_after parse_http_date value now =
     (case value of
        Some (Some text) \<Rightarrow>
          (case parse_u64 text of
             Some seconds \<Rightarrow> Some (seconds * 1000000000)
           | None \<Rightarrow> map_option (\<lambda>retry_at. retry_at - now) (parse_http_date text))
      | _ \<Rightarrow> None)"

subsection \<open>Waiting before another attempt\<close>

text \<open>\<open>random_range\<close> draws any delay of the range; the draw is an argument.\<close>

definition backoff_base_ms :: "RetryPolicySnapshot \<Rightarrow> nat \<Rightarrow> nat" where
  "backoff_base_ms policy retry_number =
     min (saturating_mul u64_max (initial_backoff_ms policy) (2 ^ min (retry_number - 1) 16))
       (max_backoff_ms policy)"

definition backoff_delay :: "RetryPolicySnapshot \<Rightarrow> nat \<Rightarrow> nat option \<Rightarrow> nat \<Rightarrow> nat" where
  "backoff_delay policy retry_number retry_after draw =
     (let base = backoff_base_ms policy retry_number;
          spread = saturating_mul u64_max base (jitter_ratio_millis policy) div 1000;
          delay = duration_from_millis
            (if spread = 0 then base
             else let low = base - spread; high = saturating_add u64_max base spread in
               low + draw mod (high - low + 1)) in
      case retry_after of
        Some after \<Rightarrow> if honor_retry_after policy then max delay after else delay
      | None \<Rightarrow> delay)"

definition retry_backoff ::
    "RetryPolicySnapshot \<Rightarrow> nat \<Rightarrow> instant \<Rightarrow> nat option \<Rightarrow> nat \<Rightarrow> instant \<Rightarrow> bool \<times> instant" where
  "retry_backoff policy retry_number until retry_after draw now =
     (let delay = backoff_delay policy retry_number retry_after draw in
      if delay + duration_from_millis 10 \<ge> until - now then (False, now) else (True, now + delay))"

subsection \<open>The request sent upstream\<close>

datatype CredentialInjection =
  InjectBearer string | InjectCodex string string | InjectXApiKey string | InjectApiKeyHeader string
| InjectDynamic

text \<open>\<open>HeaderValue::from_str\<close> and \<open>from_bytes\<close>: the bytes a header value may have.\<close>

definition header_value :: "string \<Rightarrow> string option" where
  "header_value s =
     (if list_all (\<lambda>c. (of_char c :: nat) = 9 \<or> 32 \<le> (of_char c :: nat) \<and> (of_char c :: nat) \<noteq> 127) s
      then Some s else None)"

definition credential_headers ::
    "CredentialInjection \<Rightarrow> TransportKind \<Rightarrow> (string \<times> string) list option" where
  "credential_headers injection transport =
     (case injection of
        InjectBearer value \<Rightarrow> map_option (\<lambda>v. [(''authorization'', v)]) (header_value (''Bearer '' @ value))
      | InjectCodex authorization account_id \<Rightarrow>
          Some [(''authorization'', authorization), (''chatgpt-account-id'', account_id)]
      | InjectXApiKey value \<Rightarrow> Some [(''x-api-key'', value)]
      | InjectApiKeyHeader value \<Rightarrow>
          Some [(if transport = TransportGoogleGeminiGenerateContent then ''x-goog-api-key'' else ''api-key'', value)]
      | InjectDynamic \<Rightarrow> Some [])"

record UpstreamRequest =
  up_url :: string
  up_headers :: "(string \<times> string) list"
  up_body :: string

definition upstream_request ::
    "CredentialInjection \<Rightarrow> (UpstreamRequest \<Rightarrow> UpstreamRequest option) \<Rightarrow> TransportKind \<Rightarrow> string \<Rightarrow> string
      \<Rightarrow> string \<Rightarrow> UpstreamRequest option" where
  "upstream_request injection apply_authenticator transport url body request_id =
     (case (header_value request_id, credential_headers injection transport) of
        (Some rid, Some credential) \<Rightarrow>
          let request = \<lparr>up_url = url,
                up_headers = [(''content-type'', ''application/json''), (''x-request-id'', rid)]
                  @ (if transport = TransportAnthropicMessagesNative
                     then [(''anthropic-version'', ''2023-06-01'')] else [])
                  @ (if transport = TransportAnthropicMessagesBedrock
                     then [(''accept'', ''application/vnd.amazon.eventstream'')] else [])
                  @ credential,
                up_body = body\<rparr> in
          if injection = InjectDynamic then apply_authenticator request else Some request
      | _ \<Rightarrow> None)"

subsection \<open>Inspecting a response stream\<close>

record StreamInspection =
  ins_transport :: TransportKind
  ins_event_stream :: "string option"
  ins_inspector :: SseInspector
  ins_failed :: bool
  ins_remaining_bytes :: nat

definition StreamInspection_new :: "TransportKind \<Rightarrow> nat \<Rightarrow> StreamInspection" where
  "StreamInspection_new transport maximum_bytes =
     \<lparr>ins_transport = transport,
      ins_event_stream = (if transport = TransportAnthropicMessagesBedrock then Some [] else None),
      ins_inspector = SseInspector_default, ins_failed = False, ins_remaining_bytes = maximum_bytes\<rparr>"

text \<open>The decoded payloads as server-sent events, up to the first that names no event.\<close>

fun event_frames :: "WireExternals \<Rightarrow> string list \<Rightarrow> string \<times> bool" where
  "event_frames we [] = ([], False)"
| "event_frames we (payload # payloads) =
     (case Option.bind (we_json we payload) (\<lambda>v. json_str v ''type'') of
        None \<Rightarrow> ([], True)
      | Some event \<Rightarrow>
          let (rest, failed) = event_frames we payloads in
          (''event: '' @ event @ [CHR 0x0A] @ ''data: '' @ payload @ [CHR 0x0A, CHR 0x0A] @ rest, failed))"

definition decoded_output :: "WireExternals \<Rightarrow> string \<Rightarrow> string option \<Rightarrow> string option \<times> string \<times> bool" where
  "decoded_output we bytes event_stream =
     (case event_stream of
        None \<Rightarrow> (None, bytes, False)
      | Some pending \<Rightarrow>
          let (pending, batch) = push_messages we bytes pending;
              (output, failed) = event_frames we (dec_payloads batch) in
          (Some pending, output, dec_error batch \<noteq> None \<or> failed))"

definition StreamInspection_push ::
    "WireExternals \<Rightarrow> string \<Rightarrow> StreamInspection \<Rightarrow> StreamInspection \<times> string option" where
  "StreamInspection_push we bytes self =
     (if ins_failed self then (self, None)
      else
        let allowed = min (length bytes) (ins_remaining_bytes self);
            exceeded_size = (allowed < length bytes);
            (event_stream, output, failed) = decoded_output we (take allowed bytes) (ins_event_stream self);
            (inspector, batch) = push_frames we (ins_transport self) output (ins_inspector self);
            failed = (failed \<or> exceeded_size \<or> sse_error batch \<noteq> None);
            self = self\<lparr>ins_remaining_bytes := ins_remaining_bytes self - allowed,
              ins_event_stream := event_stream, ins_inspector := inspector, ins_failed := failed\<rparr> in
        if failed \<and> si_commitment inspector \<noteq> CommitmentReady then (self, None)
        else (self, Some (sse_bytes batch)))"

subsection \<open>The surroundings of an attempt\<close>

text \<open>
  The parts of the process an attempt uses.  \<open>ge_put_origin\<close> is \<open>put_state_origin\<close> of the
  coordinator's client for an organization, a principal's kind and affinity, a route, a family and a reference.
\<close>

record 'c GatewayEnv =
  ge_wire :: WireExternals
  ge_names :: Externals
  ge_coordinator :: "'c CoordinatorOps option"
  ge_put_origin ::
    "'c \<Rightarrow> uuid \<Rightarrow> string \<Rightarrow> uuid \<Rightarrow> uuid \<Rightarrow> string \<Rightarrow> string \<Rightarrow> StateOrigin \<Rightarrow> nat
      \<Rightarrow> 'c \<times> (CoordinatorError + unit)"
  ge_get_origin ::
    "'c \<Rightarrow> uuid \<Rightarrow> string \<Rightarrow> uuid \<Rightarrow> uuid \<Rightarrow> string \<Rightarrow> string \<Rightarrow> CoordinatorError + StateOrigin"
  ge_injection :: "CredentialClientKey \<Rightarrow> CredentialInjection"
  ge_http_date :: "string \<Rightarrow> nat option"

datatype SendAnswer =
  SendFailed bool bool
| ResponseHead nat "string option option"

datatype ChunkAnswer = ChunkData string | ChunkEnd | ChunkError | ChunkAbandoned

type_synonym chunk_feed = "(nat \<times> ChunkAnswer) list"

text \<open>What the environment answers in one turn of the attempt loop.\<close>

record AttemptWorld =
  aw_idle :: nat
  aw_wall :: int
  aw_unix :: nat
  aw_clock :: "nat \<Rightarrow> nat"
  aw_grant :: uuid
  aw_epoch :: uuid
  aw_fail_epoch :: uuid
  aw_authenticate :: "(nat \<times> (UpstreamRequest \<Rightarrow> UpstreamRequest option)) option"
  aw_send :: "UpstreamRequest \<Rightarrow> (nat \<times> SendAnswer) option"
  aw_chunks :: "UpstreamRequest \<Rightarrow> chunk_feed"
  aw_draw :: nat

definition maximum_output_units :: "AdmissionContext \<Rightarrow> Candidate \<Rightarrow> nat" where
  "maximum_output_units admission candidate =
     (let limit = max_output_units (effective_request_policy admission) in
      min (case narrow_max_output_units (narrowing_constraints (cand_target candidate)) of
          None \<Rightarrow> limit | Some n \<Rightarrow> n) limit)"

definition accounting_origin_str :: "AccountingOrigin \<Rightarrow> string" where
  "accounting_origin_str origin =
     (case origin of SystemProvided \<Rightarrow> ''system_provided'' | OrganizationByok \<Rightarrow> ''organization_byok'')"

definition candidate_state_origin :: "AdmissionContext \<Rightarrow> Candidate \<Rightarrow> StateOrigin" where
  "candidate_state_origin admission candidate =
     (let d = cand_deployment candidate; key = client_key d in
      \<lparr>so_organization_id = org_id (ctx_organization admission),
       so_principal_kind = principal_kind_str (ctx_principal admission),
       so_principal_affinity_id = affinity_uuid (ctx_principal admission),
       so_route_id = route_id (ctx_route admission),
       so_protocol_family = IngressProtocolFamily_as_str (ingress_protocol_family (ctx_route admission)),
       so_target_id = target_id (cand_target candidate), so_deployment_id = dep_id d,
       so_deployment_config_version = dep_config_version d, so_endpoint_id = dep_endpoint_id d,
       so_endpoint_config_version = cck_endpoint_config_version key,
       so_credential_id = cck_credential_id key,
       so_credential_state_identity_version = dep_credential_state_identity_version d,
       so_origin = accounting_origin_str (dep_origin d),
       so_transport_kind = TransportKind_as_str (dep_transport_kind d)\<rparr>)"

definition persist_state_origin ::
    "'c GatewayEnv \<Rightarrow> AdmissionContext \<Rightarrow> Candidate \<Rightarrow> string \<Rightarrow> 'c Gateway \<Rightarrow> 'c Gateway \<times> bool" where
  "persist_state_origin ge admission candidate state_id gw =
     (if ge_coordinator ge = None then (gw, False)
      else
        let (c, local) = gw_admission gw;
            (c, stored) = ge_put_origin ge c (org_id (ctx_organization admission))
              (principal_kind_str (ctx_principal admission)) (affinity_uuid (ctx_principal admission))
              (route_id (ctx_route admission))
              (IngressProtocolFamily_as_str (ingress_protocol_family (ctx_route admission))) state_id
              (candidate_state_origin admission candidate)
              (1000 * state_origin_ttl_seconds (effective_request_policy admission)) in
        (gw\<lparr>gw_admission := (c, local)\<rparr>, \<not> isl stored))"

fun persist_state_origins ::
    "'c GatewayEnv \<Rightarrow> AdmissionContext \<Rightarrow> Candidate \<Rightarrow> string list \<Rightarrow> 'c Gateway \<Rightarrow> 'c Gateway \<times> bool" where
  "persist_state_origins ge admission candidate [] gw = (gw, True)"
| "persist_state_origins ge admission candidate (i # ids) gw =
     (case persist_state_origin ge admission candidate i gw of
        (gw, True) \<Rightarrow> persist_state_origins ge admission candidate ids gw
      | (gw, False) \<Rightarrow> (gw, False))"

subsection \<open>A response that is a document\<close>

text \<open>
  The loop over the chunks of a body, with the time it takes; the outcome \<open>None\<close> is a failed read or a
  body over the limit, and a feed that ends without an end of the body never answers.
\<close>

fun read_body :: "nat \<Rightarrow> chunk_feed \<Rightarrow> string \<Rightarrow> (nat \<times> string option) option" where
  "read_body maximum [] body = None"
| "read_body maximum ((t, answer) # feed) body =
     (case answer of
        ChunkData chunk \<Rightarrow>
          if length body + length chunk > maximum then Some (t, None)
          else map_option (\<lambda>(t', r). (t + t', r)) (read_body maximum feed (body @ chunk))
      | ChunkEnd \<Rightarrow> Some (t, Some body)
      | _ \<Rightarrow> Some (t, None))"

text \<open>What an attempt ends with; \<open>AttemptDropped\<close> is the drop of its future by the deadline.\<close>

record StreamOwner =
  so_feed :: chunk_feed
  so_inspection :: StreamInspection
  so_settlement :: ResponseSettlement
  so_permit :: TargetAttemptPermit
  so_logical :: LogicalTelemetry
  so_deployment :: DeploymentSnapshot
  so_pinned :: "string set"
  so_requires_origin :: bool
  so_idle_ms :: nat
  so_until :: instant
  so_precommit :: string

datatype DownstreamResponse = JsonResponse string | StreamResponse StreamOwner

datatype AttemptResult =
  AttemptResponse DownstreamResponse
| AttemptFailed AttemptFailure
| AttemptDropped

record 'c Attempted =
  ad_gateway :: "'c Gateway"
  ad_logical :: "LogicalTelemetry option"
  ad_result :: AttemptResult

definition attempted :: "LogicalTelemetry option \<Rightarrow> AttemptResult \<Rightarrow> 'c Gateway \<Rightarrow> 'c Attempted" where
  "attempted logical result gw = \<lparr>ad_gateway = gw, ad_logical = logical, ad_result = result\<rparr>"

definition response_limit :: "CredentialClient \<Rightarrow> AdmissionContext \<Rightarrow> nat" where
  "response_limit client admission =
     min (client_max_response_body_bytes client) (max_response_body_bytes (effective_request_policy admission))"

definition override :: "nat option \<Rightarrow> nat \<Rightarrow> nat" where
  "override specific general = (case specific of None \<Rightarrow> general | Some n \<Rightarrow> n)"

definition non_streaming_response ::
    "'c GatewayEnv \<Rightarrow> AttemptWorld \<Rightarrow> chunk_feed \<Rightarrow> CredentialClient \<Rightarrow> AdmissionContext \<Rightarrow> Candidate
      \<Rightarrow> ReliabilityPolicySnapshot \<Rightarrow> instant \<Rightarrow> AttemptReservation \<Rightarrow> TargetAttemptPermit \<Rightarrow> AttemptTelemetry
      \<Rightarrow> LogicalTelemetry \<Rightarrow> 'c Gateway \<Rightarrow> 'c Attempted" where
  "non_streaming_response ge w feed client admission candidate reliability until reservation permit telemetry
       logical gw =
     (let settlement = ResponseSettlement_new reservation telemetry;
          d = cand_deployment candidate;
          failed = PermitFailed (aw_fail_epoch w);
          duration = bounded_phase_timeout until
            (override (body_timeout_override_ms (timeout_overrides (cand_target candidate)))
              (body_timeout_ms (deadline_policy reliability))) (gw_now gw);
          (now, waited) = wait_for until duration (read_body (response_limit client admission) feed []) (gw_now gw);
          gw = gw\<lparr>gw_now := now\<rparr> in
      case waited of
        Cancelled \<Rightarrow>
          attempted (Some logical) AttemptDropped (settlement_drop settlement (end_permit PermitDropped permit gw))
      | Answered (Some body) \<Rightarrow>
          (case we_json (ge_wire ge) body of
             None \<Rightarrow>
               attempted (Some logical) (AttemptFailed (unavailable Provider5xx))
                 (settlement_drop settlement (end_permit failed permit gw))
           | Some v \<Rightarrow>
               let usage = extract_json_usage (dep_transport_kind d) v;
                   settlement = settlement_observe usage settlement;
                   logical = logical_observe usage d logical;
                   (gw, stored) = (case response_state_id (dep_transport_kind d) v of
                       None \<Rightarrow> (gw, True)
                     | Some state_id \<Rightarrow> persist_state_origin ge admission candidate state_id gw);
                   gw = end_permit PermitSucceeded permit (settlement_drop settlement gw) in
               if \<not> stored
               then attempted (Some logical)
                 (AttemptFailed (Failure ConnectFailure ErrStateOriginUnavailable)) gw
               else let (logical, gw) = logical_finish ''success'' (Some usage) (Some d) logical gw in
                 attempted (Some logical) (AttemptResponse (JsonResponse body)) gw)
      | _ \<Rightarrow>
          attempted (Some logical) (AttemptFailed (unavailable ResponseHeaderTimeout))
            (settlement_drop settlement (end_permit failed permit gw)))"

subsection \<open>A response that is a stream, up to its commitment\<close>

definition requires_state_origin :: "TransportKind \<Rightarrow> bool" where
  "requires_state_origin transport \<longleftrightarrow>
     transport \<in> {TransportOpenaiResponsesHttp, TransportOpenaiCodexResponses, TransportAzureOpenaiResponses}"

datatype PrecommitEnd =
  PrecommitFailed RetryCondition
| PrecommitRejected StreamFailureClass
| PrecommitReady
| PrecommitDropped

record Precommit =
  pre_feed :: chunk_feed
  pre_inspection :: StreamInspection
  pre_bytes :: string
  pre_settlement :: ResponseSettlement
  pre_logical :: LogicalTelemetry

definition precommit_oversized :: "CommitmentPolicySnapshot \<Rightarrow> nat \<Rightarrow> bool \<Rightarrow> Precommit \<Rightarrow> bool" where
  "precommit_oversized policy precommit_maximum required p \<longleftrightarrow>
     precommit_bytes (ins_inspector (pre_inspection p)) > precommit_maximum
     \<or> precommit_events (ins_inspector (pre_inspection p)) > stream_precommit_buffer_events policy
     \<or> required \<and> observed_state_ids (ins_inspector (pre_inspection p)) = {}
        \<and> length (pre_bytes p) > precommit_maximum"

text \<open>What a chunk does; \<open>None\<close> goes on to the next one.\<close>

definition precommit_chunk ::
    "WireExternals \<Rightarrow> CommitmentPolicySnapshot \<Rightarrow> nat \<Rightarrow> bool \<Rightarrow> DeploymentSnapshot \<Rightarrow> string \<Rightarrow> Precommit
      \<Rightarrow> Precommit \<times> PrecommitEnd option" where
  "precommit_chunk we policy precommit_maximum required d chunk p =
     (let (inspection, inspected) = StreamInspection_push we chunk (pre_inspection p);
          settlement = settlement_observe (inspector_usage (ins_inspector inspection)) (pre_settlement p);
          logical = logical_observe (rs_usage settlement) d (pre_logical p);
          p = p\<lparr>pre_inspection := inspection, pre_settlement := settlement, pre_logical := logical\<rparr> in
      case inspected of
        None \<Rightarrow> (p, Some (PrecommitFailed ProviderOverloaded))
      | Some transformed \<Rightarrow>
          let p = p\<lparr>pre_bytes := pre_bytes p @ transformed\<rparr>; inspector = ins_inspector inspection in
          (p, if precommit_oversized policy precommit_maximum required p
              then Some (PrecommitFailed ProviderOverloaded)
              else if si_commitment inspector = CommitmentRejected
              then Some (PrecommitRejected
                (case si_failure_class inspector of None \<Rightarrow> StreamUnknown | Some c \<Rightarrow> c))
              else if si_commitment inspector = CommitmentReady
                \<and> (\<not> required \<or> observed_state_ids inspector \<noteq> {})
              then Some PrecommitReady else None))"

fun precommit_loop ::
    "WireExternals \<Rightarrow> CommitmentPolicySnapshot \<Rightarrow> nat \<Rightarrow> bool \<Rightarrow> DeploymentSnapshot \<Rightarrow> instant \<Rightarrow> instant
      \<Rightarrow> chunk_feed \<Rightarrow> instant \<Rightarrow> Precommit \<Rightarrow> instant \<times> Precommit \<times> PrecommitEnd" where
  "precommit_loop we policy precommit_maximum required d until classify_until feed now p =
     (let wait = classify_until - now in
      if wait = 0 then (now, p, PrecommitFailed ResponseHeaderTimeout)
      else
        case wait_for until wait (case feed of [] \<Rightarrow> None | next # _ \<Rightarrow> Some next) now of
          (now, Cancelled) \<Rightarrow> (now, p, PrecommitDropped)
        | (now, TimedOut) \<Rightarrow> (now, p, PrecommitFailed ResponseHeaderTimeout)
        | (now, Answered answer) \<Rightarrow>
            (case feed of
               [] \<Rightarrow> (now, p, PrecommitFailed ResponseHeaderTimeout)
             | _ # feed \<Rightarrow>
                 (case answer of
                    ChunkData chunk \<Rightarrow>
                      if chunk = [] then (now, p, PrecommitFailed ResponseHeaderTimeout)
                      else (case precommit_chunk we policy precommit_maximum required d chunk (p\<lparr>pre_feed := feed\<rparr>) of
                          (p, Some e) \<Rightarrow> (now, p, e)
                        | (p, None) \<Rightarrow>
                            precommit_loop we policy precommit_maximum required d until classify_until feed now p)
                  | ChunkEnd \<Rightarrow> (now, p, PrecommitFailed ProviderOverloaded)
                  | _ \<Rightarrow> (now, p, PrecommitFailed ResponseHeaderTimeout))))"

declare precommit_loop.simps [simp del]

definition streaming_response ::
    "'c GatewayEnv \<Rightarrow> AttemptWorld \<Rightarrow> chunk_feed \<Rightarrow> CredentialClient \<Rightarrow> AdmissionContext \<Rightarrow> Candidate
      \<Rightarrow> ReliabilityPolicySnapshot \<Rightarrow> RequestLifetime \<Rightarrow> AttemptReservation \<Rightarrow> TargetAttemptPermit
      \<Rightarrow> AttemptTelemetry \<Rightarrow> LogicalTelemetry \<Rightarrow> 'c Gateway \<Rightarrow> 'c Attempted" where
  "streaming_response ge w feed client admission candidate reliability lifetime reservation permit telemetry
       logical gw =
     (let d = cand_deployment candidate;
          transport = dep_transport_kind d;
          required = requires_state_origin transport;
          maximum = response_limit client admission;
          policy = commitment_policy reliability;
          classify_until = min (precommit_at lifetime) (gw_now gw + duration_from_millis
            (pre_commit_classification_timeout_ms (deadline_policy reliability)));
          (now, p, end) = precommit_loop (ge_wire ge) policy (min (stream_precommit_buffer_bytes policy) maximum)
            required d (precommit_at lifetime) classify_until feed (gw_now gw)
            \<lparr>pre_feed = feed, pre_inspection = StreamInspection_new transport maximum, pre_bytes = [],
             pre_settlement = ResponseSettlement_new reservation telemetry, pre_logical = logical\<rparr>;
          gw = gw\<lparr>gw_now := now\<rparr>; settlement = pre_settlement p; logical = pre_logical p in
      case end of
        PrecommitDropped \<Rightarrow>
          attempted (Some logical) AttemptDropped (settlement_drop settlement (end_permit PermitDropped permit gw))
      | PrecommitFailed condition \<Rightarrow>
          attempted (Some logical) (AttemptFailed (unavailable condition))
            (settlement_drop settlement (end_permit (PermitFailed (aw_fail_epoch w)) permit gw))
      | PrecommitRejected failure \<Rightarrow>
          attempted (Some logical) (AttemptFailed (stream_failure_result failure))
            (settlement_drop settlement
              (end_permit (if failure \<noteq> StreamInvalidRequest then PermitFailed (aw_fail_epoch w) else PermitDropped)
                permit gw))
      | PrecommitReady \<Rightarrow>
          let pinned = observed_state_ids (ins_inspector (pre_inspection p));
              (gw, stored) = persist_state_origins ge admission candidate (sorted_list_of_set pinned) gw in
          if \<not> stored
          then attempted (Some logical) (AttemptFailed (Failure ConnectFailure ErrStateOriginUnavailable))
            (settlement_drop settlement (end_permit PermitSucceeded permit gw))
          else attempted None (AttemptResponse (StreamResponse
              \<lparr>so_feed = pre_feed p, so_inspection = pre_inspection p, so_settlement = settlement,
               so_permit = permit, so_logical = logical_observe (rs_usage settlement) d logical,
               so_deployment = d, so_pinned = pinned, so_requires_origin = required,
               so_idle_ms = override (stream_idle_timeout_override_ms (timeout_overrides (cand_target candidate)))
                 (stream_idle_timeout_ms (deadline_policy reliability)),
               so_until = terminal_at lifetime, so_precommit = pre_bytes p\<rparr>)) gw)"

subsection \<open>The attempt\<close>

text \<open>An attempt that never reached the upstream.\<close>

definition not_dispatched :: "AttemptReservation \<Rightarrow> AttemptTelemetry \<Rightarrow> 'c Gateway \<Rightarrow> 'c Gateway" where
  "not_dispatched reservation telemetry gw =
     telemetry_finish ClassDefinitelyNotDispatched None telemetry (release_reservation reservation gw)"

text \<open>The client, the body and the address, before anything is awaited.\<close>

definition prepare_attempt ::
    "'c GatewayEnv \<Rightarrow> AdmissionContext \<Rightarrow> NativeRequest \<Rightarrow> Candidate
      \<Rightarrow> AttemptFailure + CredentialClient \<times> string \<times> string" where
  "prepare_attempt ge admission native candidate =
     (let d = cand_deployment candidate in
      case aget (credential_clients (ctx_generation admission)) (client_key d) of
        None \<Rightarrow> Inl (unavailable ConnectFailure)
      | Some client \<Rightarrow>
          if \<not> request_body_allowed client (length (original_body native))
          then Inl (Failure ConnectFailure ErrRequestTooLarge)
          else (case prepare_body (ge_wire ge) (ge_names ge) admission candidate native
                (maximum_output_units admission candidate) of
              Inl _ \<Rightarrow> Inl (Failure ConnectFailure ErrInvalidRequest)
            | Inr body \<Rightarrow>
                (case aget (endpoints (catalog (snapshot (ctx_generation admission)))) (dep_endpoint_id d) of
                   None \<Rightarrow> Inl (unavailable ConnectFailure) \<comment> \<open>the code expects the endpoint to be there\<close>
                 | Some endpoint \<Rightarrow>
                     (case upstream_url (ge_wire ge) native (dep_transport_kind d) (upstream_model_id d) endpoint of
                        Inl _ \<Rightarrow> Inl (unavailable ConnectFailure)
                      | Inr url \<Rightarrow> Inr (client, body, url)))))"

definition failed_status ::
    "'c GatewayEnv \<Rightarrow> AttemptWorld \<Rightarrow> UpstreamStatusFailure \<Rightarrow> string option option \<Rightarrow> AttemptReservation
      \<Rightarrow> TargetAttemptPermit \<Rightarrow> AttemptTelemetry \<Rightarrow> 'c Gateway \<Rightarrow> 'c Gateway \<times> AttemptFailure" where
  "failed_status ge w failure retry_header reservation permit telemetry gw =
     (let gw = telemetry_finish ClassActual None telemetry gw;
          finish = (\<lambda>how. drop_reservation reservation (end_permit how permit gw)) in
      case failure of
        Retryable condition \<Rightarrow>
          (finish (PermitFailed (aw_fail_epoch w)),
           case parse_retry_after (ge_http_date ge) retry_header (aw_unix w) of
             None \<Rightarrow> unavailable condition
           | Some delay \<Rightarrow> RetryAfter condition ErrUpstreamUnavailable delay)
      | AuthOrConfiguration \<Rightarrow> (finish (PermitFailed (aw_fail_epoch w)), failover_only)
      | ClientInvalid \<Rightarrow> (finish PermitDropped, Failure Provider5xx ErrInvalidRequest))"

definition receive_response ::
    "'c GatewayEnv \<Rightarrow> AttemptWorld \<Rightarrow> chunk_feed \<Rightarrow> nat \<Rightarrow> string option option \<Rightarrow> CredentialClient
      \<Rightarrow> AdmissionContext \<Rightarrow> NativeRequest \<Rightarrow> Candidate \<Rightarrow> ReliabilityPolicySnapshot \<Rightarrow> RequestLifetime
      \<Rightarrow> AttemptReservation \<Rightarrow> TargetAttemptPermit \<Rightarrow> AttemptTelemetry \<Rightarrow> LogicalTelemetry \<Rightarrow> 'c Gateway
      \<Rightarrow> 'c Attempted" where
  "receive_response ge w feed status retry_header client admission native candidate reliability lifetime
       reservation permit telemetry logical gw =
     (case classify_upstream_status status of
        Some failure \<Rightarrow>
          let (gw, result) = failed_status ge w failure retry_header reservation permit telemetry gw in
          attempted (Some logical) (AttemptFailed result) gw
      | None \<Rightarrow>
          (case response_mode (intent native) of
             ModeJson \<Rightarrow>
               non_streaming_response ge w feed client admission candidate reliability (precommit_at lifetime)
                 reservation permit telemetry logical gw
           | ModeSse \<Rightarrow>
               streaming_response ge w feed client admission candidate reliability lifetime reservation permit
                 telemetry logical gw
           | ModeWebSocket \<Rightarrow>
               attempted (Some logical) (AttemptFailed (Failure ConnectFailure ErrUnsupportedCapability))
                 (end_permit PermitDropped permit (not_dispatched reservation telemetry gw))))"

definition send_request ::
    "'c GatewayEnv \<Rightarrow> AttemptWorld \<Rightarrow> UpstreamRequest \<Rightarrow> CredentialClient \<Rightarrow> AdmissionContext \<Rightarrow> NativeRequest
      \<Rightarrow> Candidate \<Rightarrow> ReliabilityPolicySnapshot \<Rightarrow> RequestLifetime \<Rightarrow> AttemptReservation \<Rightarrow> TargetAttemptPermit
      \<Rightarrow> AttemptTelemetry \<Rightarrow> LogicalTelemetry \<Rightarrow> 'c Gateway \<Rightarrow> 'c Attempted" where
  "send_request ge w request client admission native candidate reliability lifetime reservation permit telemetry
       logical gw =
     (let failed = PermitFailed (aw_fail_epoch w);
          header_timeout = bounded_phase_timeout (precommit_at lifetime)
            (override (response_header_timeout_override_ms (timeout_overrides (cand_target candidate)))
              (response_header_timeout_ms (deadline_policy reliability))) (gw_now gw);
          reservation = mark_dispatched reservation;
          telemetry = telemetry\<lparr>tel_dispatched := True\<rparr>;
          (now, waited) = wait_for (precommit_at lifetime) header_timeout (aw_send w request) (gw_now gw);
          gw = gw\<lparr>gw_now := now\<rparr>;
          abandon = (\<lambda>how. drop_reservation reservation (telemetry_drop telemetry (end_permit how permit gw))) in
      case waited of
        Cancelled \<Rightarrow> attempted (Some logical) AttemptDropped (abandon PermitDropped)
      | TimedOut \<Rightarrow> attempted (Some logical) (AttemptFailed (unavailable ResponseHeaderTimeout)) (abandon failed)
      | Answered (SendFailed is_connect is_timeout) \<Rightarrow>
          attempted (Some logical)
            (AttemptFailed (unavailable (classify_pre_header_transport_error is_connect is_timeout)))
            (if is_connect then not_dispatched reservation telemetry (end_permit failed permit gw)
             else abandon failed)
      | Answered (ResponseHead status retry_header) \<Rightarrow>
          receive_response ge w (aw_chunks w request) status retry_header client admission native candidate
            reliability lifetime reservation permit telemetry logical gw)"

definition execute_attempt ::
    "'c GatewayEnv \<Rightarrow> AttemptWorld \<Rightarrow> AdmissionContext \<Rightarrow> NativeRequest \<Rightarrow> Candidate
      \<Rightarrow> ReliabilityPolicySnapshot \<Rightarrow> RequestLifetime \<Rightarrow> AttemptReservation \<Rightarrow> TargetAttemptPermit
      \<Rightarrow> LogicalTelemetry \<Rightarrow> 'c Gateway \<Rightarrow> 'c Attempted" where
  "execute_attempt ge w admission native candidate reliability lifetime reservation permit logical gw =
     (let telemetry = AttemptTelemetry_new candidate reservation (gw_now gw);
          d = cand_deployment candidate;
          unsent = (\<lambda>how result gw. attempted (Some logical) result
            (end_permit how permit (not_dispatched reservation telemetry gw))) in
      case prepare_attempt ge admission native candidate of
        Inl failure \<Rightarrow> unsent PermitDropped (AttemptFailed failure) gw
      | Inr (client, body, url) \<Rightarrow>
          let connect_timeout = override (connect_timeout_override_ms (timeout_overrides (cand_target candidate)))
                (connect_timeout_ms (deadline_policy reliability));
              (now, waited) = wait_for (precommit_at lifetime)
                (bounded_phase_timeout (precommit_at lifetime) connect_timeout (gw_now gw))
                (aw_authenticate w) (gw_now gw);
              gw = gw\<lparr>gw_now := now\<rparr>; failed = PermitFailed (aw_fail_epoch w) in
          (case waited of
             Cancelled \<Rightarrow>
               attempted (Some logical) AttemptDropped
                 (end_permit PermitDropped permit (drop_reservation reservation (telemetry_drop telemetry gw)))
           | TimedOut \<Rightarrow> unsent failed (AttemptFailed (unavailable ConnectTimeout)) gw
           | Answered apply_authenticator \<Rightarrow>
               (case upstream_request (ge_injection ge (client_key d)) apply_authenticator (dep_transport_kind d)
                     url body (ctx_request_id admission) of
                  None \<Rightarrow> unsent failed (AttemptFailed failover_only) gw
                | Some request \<Rightarrow>
                    send_request ge w request client admission native candidate reliability lifetime reservation
                      permit telemetry logical gw)))"

end
