(* ===== verification/WireLaws.thy ===== *)
theory WireLaws
  imports Wire
begin

section \<open>What the stream readers guarantee\<close>

text \<open>
  Properties of the readers of \<^theory_text>\<open>Wire\<close>: neither the inspector of server-sent events nor the
  decoder of AWS event streams depends on how a network cuts the bytes, no byte of a stream is lost or changed,
  and a commitment once made is kept.
\<close>

subsection \<open>Cutting a stream of events\<close>

definition append_batch :: "InspectedSseBatch \<Rightarrow> InspectedSseBatch \<Rightarrow> InspectedSseBatch" where
  "append_batch a b =
     \<lparr>sse_bytes = sse_bytes a @ sse_bytes b, sse_values = sse_values a @ sse_values b, sse_error = sse_error b\<rparr>"

lemma append_batch_empty [simp]:
  "sse_error a = None \<Longrightarrow> append_batch a empty_batch = a" "append_batch empty_batch b = b"
  by (simp_all add: append_batch_def empty_batch_def)

lemma append_batch_assoc: "append_batch (append_batch a b) c = append_batch a (append_batch b c)"
  by (simp add: append_batch_def)

lemma empty_batch_simps [simp]:
  "sse_bytes empty_batch = []" "sse_values empty_batch = []" "sse_error empty_batch = None"
  by (simp_all add: empty_batch_def)

lemma push_loop_acc:
  assumes "sse_error batch = None"
  shows "push_loop we t bytes self batch
    = (let (self', batch') = push_loop we t bytes self empty_batch in (self', append_batch batch batch'))"
  using assms
proof (induction bytes arbitrary: self batch)
  case (Cons byte bytes)
  let ?self = "count_byte byte self"
  show ?case
  proof (cases "length (si_pending ?self) > MAX_SSE_EVENT_BYTES")
    case True
    then show ?thesis by (simp add: Let_def append_batch_def)
  next
    case bounded: False
    show ?thesis
    proof (cases "frame_delimiter (si_pending ?self)")
      case None
      with bounded Cons.IH [OF Cons.prems, of ?self] show ?thesis by (simp add: Let_def)
    next
      case (Some d)
      show ?thesis
      proof (cases "accept_frame we t d (count_event ?self)")
        case (Inl e)
        with bounded Some Cons.prems show ?thesis by (simp add: Let_def append_batch_def)
      next
        case (Inr r)
        obtain self1 frame vs where r: "r = (self1, frame, vs)" by (cases r)
        define one where "one = \<lparr>sse_bytes = frame, sse_values = vs, sse_error = None\<rparr>"
        obtain self2 rest where rest: "push_loop we t bytes self1 empty_batch = (self2, rest)" by fastforce
        have "push_loop we t bytes self1 b = (self2, append_batch b rest)" if "sse_error b = None" for b
          using Cons.IH [OF that, of self1] rest by simp
        then have "push_loop we t (byte # bytes) self b = (self2, append_batch (append_batch b one) rest)"
          if "sse_error b = None" for b
          using that bounded Some Inr r by (simp add: Let_def append_batch_def one_def)
        then show ?thesis using Cons.prems by (simp add: append_batch_assoc del: push_loop.simps)
      qed
    qed
  qed
qed (simp add: empty_batch_def append_batch_def)

lemma push_loop_append:
  assumes "push_loop we t xs self batch = (self1, batch1)" "sse_error batch = None"
  shows "push_loop we t (xs @ ys) self batch
    = (if sse_error batch1 = None then push_loop we t ys self1 batch1 else (self1, batch1))"
  using assms
proof (induction xs arbitrary: self batch)
  case (Cons byte xs)
  let ?self = "count_byte byte self"
  show ?case
  proof (cases "length (si_pending ?self) > MAX_SSE_EVENT_BYTES")
    case True
    with Cons.prems show ?thesis by (auto simp: Let_def)
  next
    case bounded: False
    show ?thesis
    proof (cases "frame_delimiter (si_pending ?self)")
      case None
      with bounded Cons.prems show ?thesis
        using Cons.IH [of ?self batch] by (simp add: Let_def)
    next
      case (Some d)
      show ?thesis
      proof (cases "accept_frame we t d (count_event ?self)")
        case (Inl e)
        with bounded Some Cons.prems show ?thesis by (auto simp: Let_def)
      next
        case (Inr r)
        obtain self2 frame vs where r: "r = (self2, frame, vs)" by (cases r)
        let ?batch = "batch\<lparr>sse_bytes := sse_bytes batch @ frame, sse_values := sse_values batch @ vs\<rparr>"
        have "push_loop we t xs self2 ?batch = (self1, batch1)" "sse_error ?batch = None"
          using bounded Some Inr r Cons.prems by (simp_all add: Let_def)
        from Cons.IH [OF this] bounded Some Inr r show ?thesis by (simp add: Let_def)
      qed
    qed
  qed
qed simp

text \<open>
  C21: The inspector of server-sent events does not depend on how the network cuts the stream:
  reading two chunks one after the other leaves the same inspector, and emits the same bytes, events and
  error, as reading their concatenation at once, whenever the first chunk is read without an error; and
  after an error of the first chunk nothing of the second is looked at.
\<close>

theorem sse_chunking:
  "push_frames we t (xs @ ys) self =
     (let (self1, batch1) = push_frames we t xs self in
      if sse_error batch1 = None
      then let (self2, batch2) = push_frames we t ys self1 in (self2, append_batch batch1 batch2)
      else (self1, batch1))"
proof -
  obtain self1 batch1 where one: "push_loop we t xs self empty_batch = (self1, batch1)" by fastforce
  show ?thesis
    using push_loop_append [OF one, of ys] push_loop_acc [of batch1 we t ys self1]
    by (simp add: push_frames_def one)
qed

subsection \<open>No byte of a stream is lost\<close>

lemma accept_frame_InrE:
  assumes "accept_frame we t d self = Inr (self', frame, vs)"
  obtains data where "parse_sse_data we (take (length (si_pending self) - d) (si_pending self)) = Inr data"
    "\<not> foreign_state_id t data (observed_state_ids self)" "frame = si_pending self"
    "self' = (case data of SseEmpty \<Rightarrow> self\<lparr>si_pending := []\<rparr>
       | SseDone \<Rightarrow> observe_done t (self\<lparr>si_pending := []\<rparr>)
       | SseJson v \<Rightarrow> observe_json t v (self\<lparr>si_pending := []\<rparr>))"
    "vs = (case data of SseJson v \<Rightarrow> [v] | _ \<Rightarrow> [])"
  using assms unfolding accept_frame_def result_bind_Inr
  by (auto simp: Let_def split: if_splits SseEventData.splits)

lemma observe_done_pending [simp]: "si_pending (observe_done t self) = si_pending self"
  by (simp add: observe_done_def observe_terminal_def Let_def)

lemma observe_json_pending [simp]: "si_pending (observe_json t v self) = si_pending self"
  by (simp add: observe_json_def observe_terminal_def Let_def split: option.split)

lemma accept_frame_pending:
  "accept_frame we t d self = Inr (self', frame, vs) \<Longrightarrow> frame = si_pending self \<and> si_pending self' = []"
  by (erule accept_frame_InrE) (simp split: SseEventData.split)

lemma count_pending [simp]:
  "si_pending (count_byte b self) = si_pending self @ [b]" "si_pending (count_event self) = si_pending self"
  by (simp_all add: count_byte_def count_event_def)

definition fed :: "SseInspector \<times> InspectedSseBatch \<Rightarrow> string" where
  "fed r = sse_bytes (snd r) @ si_pending (fst r)"

lemma push_loop_bytes:
  "sse_error batch = None \<Longrightarrow> \<exists>n \<le> length bytes.
     fed (push_loop we t bytes self batch) = fed (self, batch) @ take n bytes
     \<and> (sse_error (snd (push_loop we t bytes self batch)) = None \<longrightarrow> n = length bytes)"
proof (induction bytes arbitrary: self batch)
  case (Cons byte bytes)
  let ?self = "count_byte byte self"
  have stop: ?case if "push_loop we t (byte # bytes) self batch = (s, batch\<lparr>sse_error := Some e\<rparr>)"
      "si_pending s = si_pending self @ [byte]" for s e
    using that by (intro exI [of _ 1]) (simp add: fed_def del: push_loop.simps)
  have go: ?case if step: "push_loop we t (byte # bytes) self batch = push_loop we t bytes s b"
      "sse_error b = None" "fed (s, b) = fed (self, batch) @ [byte]" for s b
  proof -
    obtain n where "n \<le> length bytes"
      "fed (push_loop we t bytes s b) = fed (s, b) @ take n bytes"
      "sse_error (snd (push_loop we t bytes s b)) = None \<longrightarrow> n = length bytes"
      using Cons.IH [OF step(2), of s] by (elim exE conjE) (rule that)
    then show ?thesis unfolding step(1) using step(3) by (intro exI [of _ "Suc n"]) (simp del: push_loop.simps)
  qed
  show ?case
  proof (cases "length (si_pending ?self) > MAX_SSE_EVENT_BYTES")
    case True
    then show ?thesis by (intro stop [of ?self WireBound]) (simp_all add: Let_def)
  next
    case bounded: False
    show ?thesis
    proof (cases "frame_delimiter (si_pending ?self)")
      case None
      with bounded Cons.prems show ?thesis by (intro go [of ?self batch]) (simp_all add: Let_def fed_def)
    next
      case (Some d)
      show ?thesis
      proof (cases "accept_frame we t d (count_event ?self)")
        case (Inl e)
        with bounded Some show ?thesis by (intro stop [of "count_event ?self" e]) (simp_all add: Let_def)
      next
        case (Inr r)
        obtain s frame vs where r: "r = (s, frame, vs)" by (cases r)
        with Inr accept_frame_pending have "frame = si_pending self @ [byte]" "si_pending s = []"
          by (metis count_pending)+
        with bounded Some Inr r Cons.prems show ?thesis
          by (intro go [of s "batch\<lparr>sse_bytes := sse_bytes batch @ frame, sse_values := sse_values batch @ vs\<rparr>"])
            (simp_all add: Let_def fed_def)
      qed
    qed
  qed
qed (simp add: fed_def)

text \<open>
  The inspector forwards the stream unchanged: what it emits followed by what it still holds is
  what it held followed by a prefix of the bytes it was given, and by all of them unless it stopped with an
  error.
\<close>

theorem sse_bytes_preserved:
  "\<exists>n \<le> length bytes. case push_frames we t bytes self of (self', batch) \<Rightarrow>
     sse_bytes batch @ si_pending self' = si_pending self @ take n bytes
     \<and> (case sse_error batch of None \<Rightarrow> n = length bytes | Some e \<Rightarrow> True)"
proof -
  from push_loop_bytes [of empty_batch bytes we t self] obtain n where n: "n \<le> length bytes"
    "fed (push_loop we t bytes self empty_batch) = si_pending self @ take n bytes"
    "sse_error (snd (push_loop we t bytes self empty_batch)) = None \<longrightarrow> n = length bytes"
    by (auto simp: fed_def)
  obtain self' batch where "push_loop we t bytes self empty_batch = (self', batch)" by fastforce
  with n show ?thesis by (intro exI [of _ n]) (auto simp: push_frames_def fed_def split: option.split)
qed

subsection \<open>Decisions that are kept\<close>

lemma push_loop_rel:
  assumes refl: "\<And>s. R s s" and trans: "\<And>a b c. R a b \<Longrightarrow> R b c \<Longrightarrow> R a c"
    and byte: "\<And>s b. R s (count_byte b s)" and event: "\<And>s. R s (count_event s)"
    and frame: "\<And>s d s' frame vs. accept_frame we t d s = Inr (s', frame, vs) \<Longrightarrow> R s s'"
  shows "R self (fst (push_loop we t bytes self batch))"
proof (induction bytes arbitrary: self batch)
  case (Cons b bytes)
  let ?self = "count_byte b self"
  have counted: "R self (count_event ?self)" by (rule trans [OF byte event])
  show ?case
  proof (cases "frame_delimiter (si_pending ?self)")
    case None
    have "R self (fst (push_loop we t bytes ?self batch))" by (rule trans [OF byte Cons.IH])
    with None show ?thesis using byte [of self b] by (simp add: Let_def)
  next
    case (Some d)
    show ?thesis
    proof (cases "accept_frame we t d (count_event ?self)")
      case (Inl e)
      with Some counted byte [of self b] show ?thesis by (simp add: Let_def)
    next
      case (Inr r)
      obtain s fr vs where r: "r = (s, fr, vs)" by (cases r)
      with Inr have "R (count_event ?self) s" by (intro frame) simp
      with counted have "R self (fst (push_loop we t bytes s batch'))" for batch'
        by (rule trans [OF trans Cons.IH])
      with Some Inr r byte [of self b] show ?thesis by (simp add: Let_def)
    qed
  qed
qed (simp add: refl)

definition decisions_kept :: "SseInspector \<Rightarrow> SseInspector \<Rightarrow> bool" where
  "decisions_kept s s' \<longleftrightarrow>
     (si_commitment s \<noteq> CommitmentPending \<longrightarrow> si_commitment s' = si_commitment s
        \<and> precommit_bytes s' = precommit_bytes s \<and> precommit_events s' = precommit_events s)
     \<and> (si_terminal s = Some TerminalProviderFailure \<longrightarrow> si_terminal s' = Some TerminalProviderFailure)
     \<and> (si_terminal s \<noteq> None \<longrightarrow> si_terminal s' \<noteq> None)
     \<and> (si_failure_class s \<noteq> None \<longrightarrow> si_failure_class s' = si_failure_class s)
     \<and> (observed_state_ids s \<noteq> {} \<longrightarrow> observed_state_ids s' = observed_state_ids s)"

lemma merge_terminal_failure [simp]:
  "merge_terminal (Some TerminalProviderFailure) outcome = Some TerminalProviderFailure"
  by simp

lemma merge_terminal_some: "x \<noteq> None \<Longrightarrow> merge_terminal x outcome \<noteq> None"
  by (cases "(x, outcome)" rule: merge_terminal.cases) auto

lemma observe_done_kept: "decisions_kept s (observe_done t (s\<lparr>si_pending := []\<rparr>))"
  using merge_terminal_some [of "si_terminal s" TerminalComplete]
  by (simp add: decisions_kept_def observe_done_def observe_terminal_def Let_def)

lemma commitment_of_settled [simp]:
  "commitment \<noteq> CommitmentPending \<Longrightarrow> commitment_of t v terminal commitment = commitment"
  by (simp add: commitment_of_def)

lemma observe_json_kept:
  assumes "\<not> foreign_state_id t (SseJson v) (observed_state_ids s)"
  shows "decisions_kept s (observe_json t v (s\<lparr>si_pending := []\<rparr>))"
proof -
  have ids: "insert i (observed_state_ids s) = observed_state_ids s"
    if "response_state_id t v = Some i" "observed_state_ids s \<noteq> {}" for i
    using assms that by (auto simp: foreign_state_id_def)
  show ?thesis
    using merge_terminal_some [of "si_terminal s"] ids
    by (simp add: decisions_kept_def observe_json_def observe_terminal_def Let_def split: option.split)
qed

lemma accept_frame_kept:
  "accept_frame we t d s = Inr (s', frame, vs) \<Longrightarrow> decisions_kept s s'"
proof (erule accept_frame_InrE)
  fix data
  assume foreign: "\<not> foreign_state_id t data (observed_state_ids s)"
    and s': "s' = (case data of SseEmpty \<Rightarrow> s\<lparr>si_pending := []\<rparr> | SseDone \<Rightarrow> observe_done t (s\<lparr>si_pending := []\<rparr>)
      | SseJson v \<Rightarrow> observe_json t v (s\<lparr>si_pending := []\<rparr>))"
  show "decisions_kept s s'"
  proof (cases data)
    case SseEmpty
    then show ?thesis by (simp add: s' decisions_kept_def)
  next
    case SseDone
    then show ?thesis by (simp add: s' observe_done_kept)
  next
    case (SseJson v)
    with foreign show ?thesis by (simp add: s' observe_json_kept)
  qed
qed

text \<open>
  What the inspector has decided about a stream is never taken back, whatever follows and even if
  reading stops with an error: once the stream is committed or rejected it stays so and its counts of bytes
  and events are frozen; a failure the provider reported stays the outcome, with the first class of failure
  seen; and once a response named its state, no other identity is accepted.
\<close>

theorem sse_decisions_kept: "decisions_kept self (fst (push_frames we t bytes self))"
  unfolding push_frames_def
proof (rule push_loop_rel)
  show "decisions_kept a c" if "decisions_kept a b" "decisions_kept b c" for a b c
    using that unfolding decisions_kept_def by (cases "observed_state_ids a = {}") auto
  show "decisions_kept s s'" if "accept_frame we t d s = Inr (s', frame, vs)" for s d s' frame vs
    using that by (rule accept_frame_kept)
qed (simp_all add: decisions_kept_def count_byte_def count_event_def)

subsection \<open>Messages of an AWS event stream\<close>

text \<open>A prefix that can still become a message; the decoder rejects any other at once.\<close>

definition may_continue :: "string \<Rightarrow> bool" where
  "may_continue pending \<longleftrightarrow> length pending < 12 \<or> message_size pending \<noteq> None"

lemma message_size_append:
  assumes "12 \<le> length pending"
  shows "message_size (pending @ bytes) = message_size pending"
  using assms by (simp add: message_size_def u32_at_append Let_def)

lemma bytes_needed_append:
  assumes "length (pending @ bytes) < bytes_needed pending"
  shows "bytes_needed (pending @ bytes) = bytes_needed pending"
  using assms by (auto simp: bytes_needed_def u32_at_append)

lemma decode_loop_nil [simp]: "decode_loop we [] pending ps = (pending, \<lparr>dec_payloads = ps, dec_error = None\<rparr>)"
  by (subst decode_loop.simps) simp

text \<open>Bytes that do not complete a header or a message are only kept.\<close>

lemma decode_loop_keep:
  assumes "may_continue pending" "bytes \<noteq> []" "length (pending @ bytes) < bytes_needed pending"
  shows "decode_loop we bytes pending ps = (pending @ bytes, \<lparr>dec_payloads = ps, dec_error = None\<rparr>)"
proof -
  have all: "min (bytes_needed pending - length pending) (length bytes) = length bytes" using assms(3) by simp
  show ?thesis
  proof (cases "length pending < 12")
    case True
    with assms all show ?thesis by (subst decode_loop.simps) (simp add: bytes_needed_def)
  next
    case False
    then obtain len headers where size: "message_size pending = Some (len, headers)"
      using assms(1) by (auto simp: may_continue_def)
    with False assms(3) have "length (pending @ bytes) < len"
      using message_size_Some [OF size] by (simp add: bytes_needed_def)
    with assms(2) all False size show ?thesis
      by (subst decode_loop.simps) (simp add: message_size_append Let_def)
  qed
qed

lemma may_continue_keep:
  "may_continue pending \<Longrightarrow> length (pending @ bytes) < bytes_needed pending \<Longrightarrow> may_continue (pending @ bytes)"
  by (auto simp: may_continue_def bytes_needed_def message_size_append split: if_splits)

text \<open>A turn that takes all that it needs.\<close>

definition decode_step ::
    "WireExternals \<Rightarrow> string \<Rightarrow> string list \<Rightarrow> (string \<times> string list) + (string \<times> DecodedEventStreamBatch)" where
  "decode_step we pending ps =
     (if length pending < 12 then Inl (pending, ps)
      else case message_size pending of
        None \<Rightarrow> Inr (pending, \<lparr>dec_payloads = ps, dec_error = Some WireBound\<rparr>)
      | Some (len, headers) \<Rightarrow>
          if length pending < len then Inl (pending, ps)
          else (case decode_event_payload we pending headers of
              Inl e \<Rightarrow> Inr (pending, \<lparr>dec_payloads = ps, dec_error = Some e\<rparr>)
            | Inr payload \<Rightarrow> Inl ([], ps @ [payload])))"

lemma decode_loop_step:
  assumes "bytes \<noteq> []"
  shows "decode_loop we bytes pending ps =
    (let taken = min (bytes_needed pending - length pending) (length bytes) in
     case decode_step we (pending @ take taken bytes) ps of
       Inl (pending', ps') \<Rightarrow> decode_loop we (drop taken bytes) pending' ps'
     | Inr r \<Rightarrow> r)"
  using assms by (subst decode_loop.simps) (simp add: decode_step_def Let_def split: option.split sum.split)

lemma decode_step_Inl:
  assumes "decode_step we pending ps = Inl (pending', ps')"
  shows "may_continue pending' \<and> (pending' = pending \<and> length pending < bytes_needed pending \<or> pending' = []
    \<or> pending' = pending \<and> length pending < 12)"
  using assms
  by (auto simp: decode_step_def may_continue_def bytes_needed_def split: if_split_asm option.split_asm sum.split_asm
    dest: message_size_Some)

definition decode_weight :: "string \<Rightarrow> string \<Rightarrow> nat" where
  "decode_weight bytes pending = 2 * length bytes + (if pending = [] then 0 else 1)"

lemma decode_step_payloads:
  "decode_step we pending ps =
    (case decode_step we pending [] of
       Inl (p, qs) \<Rightarrow> Inl (p, ps @ qs)
     | Inr (p, batch) \<Rightarrow> Inr (p, batch\<lparr>dec_payloads := ps @ dec_payloads batch\<rparr>))"
  by (simp add: decode_step_def split: option.split sum.split)

lemma decode_step_decreases:
  assumes "xs \<noteq> []" "need = min (bytes_needed pending - length pending) (length xs)"
    "decode_step we (pending @ take need xs) ps = Inl (p', ps')"
  shows "decode_weight (drop need xs) p' < decode_weight xs pending"
proof (cases "need = 0")
  case True
  with assms(1,2) have enough: "bytes_needed pending \<le> length pending" by (auto simp: min_def split: if_splits)
  then have "pending \<noteq> []" "\<not> length pending < 12" by (auto simp: bytes_needed_def split: if_splits)
  with decode_step_Inl [OF assms(3)] True enough show ?thesis by (auto simp: decode_weight_def)
next
  case False
  moreover have "need \<le> length xs" by (simp add: assms(2))
  ultimately have "length (drop need xs) < length xs" by simp
  then show ?thesis by (simp add: decode_weight_def)
qed

lemma decode_loop_append:
  assumes "may_continue pending"
  shows "decode_loop we (xs @ ys) pending ps =
    (let (p, batch) = decode_loop we xs pending ps in
     if dec_error batch = None then decode_loop we ys p (dec_payloads batch) else (p, batch))"
  using assms
proof (induction "decode_weight xs pending" arbitrary: xs pending ps rule: less_induct)
  case less
  consider (nothing) "xs = []" | (last) "ys = []"
    | (short) "xs \<noteq> []" "ys \<noteq> []" "length (pending @ xs) < bytes_needed pending"
    | (full) "xs \<noteq> []" "bytes_needed pending \<le> length (pending @ xs)" by force
  then show ?case
  proof cases
    case nothing
    then show ?thesis by simp
  next
    case last
    then show ?thesis by (simp split: prod.split)
  next
    case short
    define need where "need = bytes_needed pending - length pending"
    have need: "bytes_needed (pending @ xs) - length (pending @ xs) = need - length xs" "length xs < need"
      using short(3) by (simp_all add: need_def bytes_needed_append)
    then have "min need (length (xs @ ys)) = length xs + min (need - length xs) (length ys)" by simp
    moreover have "drop (length xs + n) (xs @ ys) = drop n ys" for n by simp
    ultimately show ?thesis
      using short decode_loop_keep [OF less.prems short(1,3), of we ps] need
      by (simp add: decode_loop_step Let_def split: sum.split flip: need_def)
  next
    case full
    define need where "need = bytes_needed pending - length pending"
    have need: "need \<le> length xs" using full(2) by (simp add: need_def)
    then have taken: "min need (length (xs @ ys)) = need" "min need (length xs) = need" by simp_all
    show ?thesis
    proof (cases "decode_step we (pending @ take need xs) ps")
      case (Inr r)
      have "dec_error (snd r) \<noteq> None" using Inr
        by (auto simp: decode_step_def split: if_split_asm option.split_asm sum.split_asm)
      with Inr full taken need show ?thesis
        by (cases r) (auto simp: decode_loop_step Let_def simp flip: need_def)
    next
      case (Inl res)
      obtain p' ps' where res: "res = (p', ps')" by (cases res)
      note p' = decode_step_Inl [OF Inl [unfolded res]]
      have "decode_weight (drop need xs) p' < decode_weight xs pending"
        using full(1) taken(2) [symmetric] Inl res unfolding need_def by (intro decode_step_decreases) auto
      from less.hyps [OF this] p' Inl res full taken need show ?thesis
        by (simp add: decode_loop_step Let_def flip: need_def)
    qed
  qed
qed

lemma decode_loop_payloads:
  "decode_loop we bytes pending ps = (let (p, batch) = decode_loop we bytes pending [] in
     (p, batch\<lparr>dec_payloads := ps @ dec_payloads batch\<rparr>))"
proof (induction "decode_weight bytes pending" arbitrary: bytes pending ps rule: less_induct)
  case less
  show ?case
  proof (cases "bytes = []")
    case False
    define need where "need = min (bytes_needed pending - length pending) (length bytes)"
    show ?thesis
    proof (cases "decode_step we (pending @ take need bytes) []")
      case (Inr r)
      then show ?thesis using False decode_step_payloads [of we "pending @ take need bytes" ps]
        by (cases r) (simp add: decode_loop_step Let_def flip: need_def)
    next
      case (Inl res)
      obtain p qs where res: "res = (p, qs)" by (cases res)
      have "decode_weight (drop need bytes) p < decode_weight bytes pending"
        using decode_step_decreases [OF False need_def Inl [unfolded res]] .
      note IH = less.hyps [OF this]
      have "decode_step we (pending @ take need bytes) ps = Inl (p, ps @ qs)"
        using decode_step_payloads [of we "pending @ take need bytes" ps] Inl res by simp
      then show ?thesis using False Inl res IH [of "ps @ qs"] IH [of qs]
        by (simp add: decode_loop_step Let_def split_beta flip: need_def)
    qed
  qed simp
qed

lemma decode_push_append:
  assumes "may_continue pending"
  shows "decode_loop we (xs @ ys) pending [] =
    (let (p, one) = decode_loop we xs pending [] in
     if dec_error one = None
     then let (q, two) = decode_loop we ys p [] in (q, two\<lparr>dec_payloads := dec_payloads one @ dec_payloads two\<rparr>)
     else (p, one))"
proof -
  obtain p one where one: "decode_loop we xs pending [] = (p, one)" by fastforce
  obtain q two where two: "decode_loop we ys p [] = (q, two)" by fastforce
  have "decode_loop we ys p ps = (q, two\<lparr>dec_payloads := ps @ dec_payloads two\<rparr>)" for ps
    by (subst decode_loop_payloads) (simp add: two)
  with decode_loop_append [OF assms, of we xs ys "[]"] show ?thesis by (simp add: one two)
qed

text \<open>
  The decoder of AWS event streams does not depend on how the network cuts the stream: decoding
  two chunks one after the other keeps the same bytes and yields the same payloads and error as decoding their
  concatenation, and what is kept can always continue to a message unless an error was reported.
\<close>

theorem event_stream_chunking:
  assumes "may_continue pending"
  shows "push_messages we (xs @ ys) pending =
    (let (p, one) = push_messages we xs pending in
     if dec_error one = None
     then let (q, two) = push_messages we ys p in (q, two\<lparr>dec_payloads := dec_payloads one @ dec_payloads two\<rparr>)
     else (p, one))"
  using decode_push_append [OF assms, of we xs ys] by (simp add: push_messages_def split_beta Let_def)

text \<open>The chunks of a stream, read until one fails.\<close>

fun push_chunks :: "WireExternals \<Rightarrow> string list \<Rightarrow> string \<Rightarrow> string \<times> (WireError + string list)" where
  "push_chunks we [] pending = (pending, Inr [])"
| "push_chunks we (chunk # chunks) pending =
     (case AwsEventStreamDecoder_push we chunk pending of
        (pending, Inl e) \<Rightarrow> (pending, Inl e)
      | (pending, Inr payloads) \<Rightarrow>
          (case push_chunks we chunks pending of
             (pending, r) \<Rightarrow> (pending, result_bind r (\<lambda>rest. Inr (payloads @ rest)))))"

definition message_of :: "WireExternals \<Rightarrow> string \<Rightarrow> string \<Rightarrow> bool" where
  "message_of we message payload \<longleftrightarrow>
     (case message_size message of
        None \<Rightarrow> False
      | Some (len, headers) \<Rightarrow>
          len = length message \<and> decode_event_payload we message headers = Inr payload)"

lemma may_continue_loop:
  "may_continue pending \<Longrightarrow> dec_error (snd (decode_loop we bytes pending ps)) = None
    \<Longrightarrow> may_continue (fst (decode_loop we bytes pending ps))"
proof (induction "decode_weight bytes pending" arbitrary: bytes pending ps rule: less_induct)
  case less
  show ?case
  proof (cases "bytes = []")
    case False
    define need where "need = min (bytes_needed pending - length pending) (length bytes)"
    show ?thesis
    proof (cases "decode_step we (pending @ take need bytes) ps")
      case (Inr r)
      then have "dec_error (snd r) \<noteq> None"
        by (auto simp: decode_step_def split: if_split_asm option.split_asm sum.split_asm)
      with Inr less.prems(2) False have False by (simp add: decode_loop_step Let_def flip: need_def)
      then show ?thesis ..
    next
      case (Inl res)
      obtain p qs where res: "res = (p, qs)" by (cases res)
      from less.hyps [OF decode_step_decreases [OF False need_def Inl [unfolded res]], of qs] less.prems
        decode_step_Inl [OF Inl [unfolded res]] False Inl res
      show ?thesis by (simp add: decode_loop_step Let_def flip: need_def)
    qed
  qed (use less.prems in simp)
qed

lemma decode_one_message:
  assumes "message_of we message payload"
  shows "decode_loop we (message @ rest) [] ps = decode_loop we rest [] (ps @ [payload])"
proof -
  obtain headers where size: "message_size message = Some (length message, headers)"
    and payload: "decode_event_payload we message headers = Inr payload"
    using assms by (auto simp: message_of_def split: option.split_asm)
  have long: "16 \<le> length message" using message_size_Some [OF size] by simp
  let ?head = "take 12 message" and ?tail = "drop 12 message"
  have "message_size (?head @ ?tail) = message_size ?head" by (rule message_size_append) (use long in simp)
  with size have head: "message_size ?head = Some (length message, headers)" by simp
  have "decode_loop we (message @ rest) [] ps = decode_loop we (?tail @ rest) ?head ps"
  proof -
    have "message @ rest \<noteq> []" "min 12 (length (message @ rest)) = 12" "bytes_needed [] = 12"
      "take 12 (message @ rest) = ?head" "drop 12 (message @ rest) = ?tail @ rest"
      using long by (auto simp: bytes_needed_def)
    moreover have "decode_step we ?head ps = Inl (?head, ps)" using long head by (simp add: decode_step_def)
    ultimately show ?thesis by (subst decode_loop_step) (simp_all only: Let_def list.size append_Nil diff_0 minus_nat.diff_0 sum.case prod.case not_False_eq_True)
  qed
  moreover have "bytes_needed ?head - 12 = length ?tail"
    using message_size_Some [OF head] long by (simp add: bytes_needed_def)
  moreover have "min (length ?tail) (length (?tail @ rest)) = length ?tail" by simp
  moreover have "take (length ?tail) (?tail @ rest) = ?tail" "drop (length ?tail) (?tail @ rest) = rest"
    "length ?head = 12" "?tail @ rest \<noteq> []" using long by auto
  moreover have "decode_step we (?head @ ?tail) ps = Inl ([], ps @ [payload])"
    using long size payload by (simp add: decode_step_def)
  ultimately show ?thesis by (simp only: decode_loop_step Let_def sum.case prod.case not_False_eq_True)
qed

lemma decode_messages:
  "list_all2 (message_of we) messages payloads
    \<Longrightarrow> decode_loop we (concat messages) [] ps = ([], \<lparr>dec_payloads = ps @ payloads, dec_error = None\<rparr>)"
  by (induction arbitrary: ps rule: list_all2_induct) (simp_all add: decode_one_message)

lemma push_chunks_concat:
  "may_continue pending \<Longrightarrow>
    push_chunks we chunks pending = AwsEventStreamDecoder_push we (concat chunks) pending"
proof (induction chunks arbitrary: pending)
  case (Cons chunk chunks)
  obtain p one where one: "push_messages we chunk pending = (p, one)" by fastforce
  obtain q two where two: "push_messages we (concat chunks) p = (q, two)" by fastforce
  have all: "push_messages we (concat (chunk # chunks)) pending =
      (if dec_error one = None then (q, two\<lparr>dec_payloads := dec_payloads one @ dec_payloads two\<rparr>) else (p, one))"
    using decode_push_append [OF Cons.prems, of we chunk "concat chunks"] one two
    by (simp add: push_messages_def)
  show ?case
  proof (cases "dec_error one")
    case None
    then have "may_continue p"
      using may_continue_loop [OF Cons.prems, of we chunk "[]"] one by (simp add: push_messages_def)
    from Cons.IH [OF this] all None show ?thesis
      by (simp add: AwsEventStreamDecoder_push_def one two split: option.split)
  next
    case (Some e)
    with all show ?thesis by (simp add: AwsEventStreamDecoder_push_def one)
  qed
qed (simp add: AwsEventStreamDecoder_push_def push_messages_def)

text \<open>
  C22: Framing round trip: however the bytes of a sequence of well-formed messages are cut into
  chunks, reading the chunks yields exactly the payloads of the messages, in order, with nothing left over.
\<close>

theorem event_stream_reassembly:
  assumes "list_all2 (message_of we) messages payloads" "concat chunks = concat messages"
  shows "push_chunks we chunks [] = ([], Inr payloads)"
proof -
  have "may_continue []" by (simp add: may_continue_def)
  from push_chunks_concat [OF this, of we chunks] decode_messages [OF assms(1), of "[]"]
  show ?thesis by (simp add: assms(2) AwsEventStreamDecoder_push_def push_messages_def)
qed

subsection \<open>Witnesses\<close>

text \<open>A message with the two headers of a chunk and an empty object for its payload.\<close>

definition sample_wire :: WireExternals where
  "sample_wire =
     \<lparr>we_json = (\<lambda>_. Some (JObject [(''bytes'', JString ''hi'')])), we_to_vec = (\<lambda>_. Some []),
      we_crc = (\<lambda>_. 0), we_base64 = Some, we_path_segments = (\<lambda>_. None),
      we_extend_path = (\<lambda>url _. url), we_append_query = (\<lambda>url _. url)\<rparr>"

definition sample_message :: string where
  "sample_message =
     [CHR 0x00, CHR 0x00, CHR 0x00, CHR 0x3C, CHR 0x00, CHR 0x00, CHR 0x00, CHR 0x2A,
      CHR 0x00, CHR 0x00, CHR 0x00, CHR 0x00]
     @ [CHR 0x0D] @ '':message-type'' @ [CHR 0x07, CHR 0x00, CHR 0x05] @ ''event''
     @ [CHR 0x0B] @ '':event-type'' @ [CHR 0x07, CHR 0x00, CHR 0x05] @ ''chunk''
     @ ''{}'' @ [CHR 0x00, CHR 0x00, CHR 0x00, CHR 0x00]"

lemma sample_size: "message_size sample_message = Some (60, 42)" "length sample_message = 60"
  by (simp_all add: sample_message_def message_size_def u32_at_def be_value_def Let_def
      MAX_EVENT_STREAM_MESSAGE_BYTES_def MAX_EVENT_STREAM_HEADERS_BYTES_def)

lemma sample_headers: "event_headers (take 42 (drop 12 sample_message)) None None = Inr (Some ''event'', Some ''chunk'')"
  by (simp add: sample_message_def)

lemma sample_message_ok: "message_of sample_wire sample_message ''hi''"
proof -
  have "u32_at 8 sample_message = 0" "u32_at 56 sample_message = 0"
    by (simp_all add: sample_message_def u32_at_def be_value_def)
  then show ?thesis
    by (simp add: message_of_def sample_size decode_event_payload_def validate_crc_def validate_event_headers_def
        sample_headers sample_wire_def json_str_def MAX_SSE_EVENT_BYTES_def)
qed

lemma event_stream_reassembly_witness:
  "push_chunks sample_wire [take 5 sample_message, drop 5 sample_message @ take 70 sample_message, []] []
    = ([], Inr [''hi'', ''hi''])"
  by (rule event_stream_reassembly [of _ "[sample_message, sample_message]"])
    (simp_all add: sample_message_ok, simp add: sample_message_def)

lemma event_stream_chunking_witness:
  "push_messages sample_wire (''ab'' @ ''cd'') [] =
    (let (p, one) = push_messages sample_wire ''ab'' [] in
     if dec_error one = None
     then let (q, two) = push_messages sample_wire ''cd'' p in
       (q, two\<lparr>dec_payloads := dec_payloads one @ dec_payloads two\<rparr>)
     else (p, one))"
  by (rule event_stream_chunking) (simp add: may_continue_def)

end
