(* ===== verification/Streaming.thy ===== *)
theory Streaming
  imports Exchange WireLaws
begin

section \<open>A committed response stream\<close>

text \<open>
  The stream that \<open>streaming_response\<close> of \<open>gateway/dispatch.rs\<close> returns, polled by
  \<open>hold_request_permits\<close> until the request's deadline.  It owns the settlement of the attempt, the
  permit of its target and the record of the request, and ends them on every path, the drop of the stream included.
\<close>

datatype StreamEnd = StreamCompleted | StreamBroken string | StreamDropped

definition framing_invalid :: string where "framing_invalid = ''upstream stream framing is invalid''"
definition provider_failed :: string where "provider_failed = ''upstream reported a terminal provider failure''"

definition end_of_stream :: "StreamTerminalOutcome \<Rightarrow> StreamEnd" where
  "end_of_stream outcome =
     (case outcome of
        TerminalComplete \<Rightarrow> StreamCompleted
      | TerminalProviderFailure \<Rightarrow> StreamBroken provider_failed
      | TerminalIncomplete \<Rightarrow> StreamBroken ''upstream stream ended without a terminal event'')"

text \<open>What ends the stream before it waits for a chunk.\<close>

definition stream_guard :: "StreamOwner \<Rightarrow> instant \<Rightarrow> StreamEnd option" where
  "stream_guard so now =
     (if ins_failed (so_inspection so) then Some (StreamBroken framing_invalid)
      else if inspector_terminal (ins_inspector (so_inspection so)) = TerminalProviderFailure
      then Some (StreamBroken provider_failed)
      else if now \<ge> so_until so then Some (StreamBroken ''stream duration exceeded'')
      else None)"

definition stream_chunk :: "WireExternals \<Rightarrow> string \<Rightarrow> StreamOwner \<Rightarrow> StreamOwner \<times> (StreamEnd + string)" where
  "stream_chunk we chunk so =
     (let (inspection, inspected) = StreamInspection_push we chunk (so_inspection so);
          settlement = settlement_observe (inspector_usage (ins_inspector inspection)) (so_settlement so);
          logical = logical_observe (rs_usage settlement) (so_deployment so) (so_logical so);
          so = so\<lparr>so_inspection := inspection, so_settlement := settlement, so_logical := logical\<rparr> in
      (so,
       case inspected of
         None \<Rightarrow> Inl (StreamBroken framing_invalid)
       | Some transformed \<Rightarrow>
           if so_requires_origin so \<and> observed_state_ids (ins_inspector inspection) \<noteq> so_pinned so
           then Inl (StreamBroken ''upstream changed the response state identity'')
           else Inr transformed))"

text \<open>A client that leaves while it is handed bytes leaves before the next turn of the loop.\<close>

definition left_at_yield :: "chunk_feed \<Rightarrow> bool" where
  "left_at_yield feed \<longleftrightarrow> (case feed of (t, answer) # _ \<Rightarrow> t = 0 \<and> answer = ChunkAbandoned | [] \<Rightarrow> False)"

text \<open>
  The chunks forwarded to the client, the last state of the owner, and the end.  The wait is \<open>before\<close>
  the earlier of the idle limit and the deadline, so an answer at that very instant comes too late, and the
  deadline of the request drops the stream.
\<close>

fun stream_loop ::
    "WireExternals \<Rightarrow> chunk_feed \<Rightarrow> instant \<Rightarrow> StreamOwner \<Rightarrow> instant \<times> string list \<times> StreamOwner \<times> StreamEnd" where
  "stream_loop we feed now so =
     (if left_at_yield feed then (now, [], so, StreamDropped)
      else case stream_guard so now of
        Some e \<Rightarrow> (now, [], so, e)
      | None \<Rightarrow>
          let limit = min (so_until so) (now + duration_from_millis (so_idle_ms so)) in
          (case feed of
             [] \<Rightarrow>
               if limit = so_until so then (so_until so, [], so, StreamDropped)
               else (limit, [], so, StreamBroken ''upstream stream idle timeout'')
           | (t, answer) # feed \<Rightarrow>
               if limit \<le> now + t
               then (if limit = so_until so then (so_until so, [], so, StreamDropped)
                     else (limit, [], so, StreamBroken ''upstream stream idle timeout''))
               else
                 (case answer of
                    ChunkAbandoned \<Rightarrow> (now + t, [], so, StreamDropped)
                  | ChunkError \<Rightarrow> (now + t, [], so, StreamBroken ''upstream stream interrupted'')
                  | ChunkEnd \<Rightarrow>
                      (now + t, [], so, end_of_stream (inspector_terminal (ins_inspector (so_inspection so))))
                  | ChunkData chunk \<Rightarrow>
                      (case stream_chunk we chunk so of
                         (so, Inl e) \<Rightarrow> (now + t, [], so, e)
                       | (so, Inr transformed) \<Rightarrow>
                           let (now, out, so, e) = stream_loop we feed (now + t) so in
                           (now, (if transformed = [] then out else transformed # out), so, e)))))"

declare stream_loop.simps [simp del]

definition stream_end :: "uuid \<Rightarrow> StreamEnd \<Rightarrow> StreamOwner \<Rightarrow> 'c Gateway \<Rightarrow> 'c Gateway" where
  "stream_end epoch e so gw =
     (let usage = rs_usage (so_settlement so); d = so_deployment so in
      case e of
        StreamDropped \<Rightarrow>
          end_permit PermitDropped (so_permit so) (logical_drop (so_logical so) (settlement_drop (so_settlement so) gw))
      | StreamCompleted \<Rightarrow>
          snd (logical_finish ''success'' (Some usage) (Some d) (so_logical so)
            (end_permit PermitSucceeded (so_permit so) (settlement_drop (so_settlement so) gw)))
      | StreamBroken _ \<Rightarrow>
          snd (logical_finish ''stream_interrupted'' (Some usage) (Some d) (so_logical so)
            (end_permit (PermitFailed epoch) (so_permit so) (settlement_drop (so_settlement so) gw))))"

text \<open>The whole stream as its client sees it: the bytes, the error it ends with, and the gateway after it.\<close>

definition run_stream ::
    "WireExternals \<Rightarrow> uuid \<Rightarrow> StreamOwner \<Rightarrow> 'c Gateway \<Rightarrow> 'c Gateway \<times> string list \<times> StreamEnd" where
  "run_stream we epoch so gw =
     (let (now, out, so', e) = stream_loop we (so_feed so) (gw_now gw) so in
      (stream_end epoch e so' (gw\<lparr>gw_now := now\<rparr>), so_precommit so # out, e))"

subsection \<open>Ending exactly once\<close>

definition settlement_live :: "ResponseSettlement \<Rightarrow> bool" where
  "settlement_live self \<longleftrightarrow> rs_telemetry self \<noteq> None"

definition stream_live :: "StreamOwner \<Rightarrow> bool" where
  "stream_live so \<longleftrightarrow> rs_telemetry (so_settlement so) \<noteq> None \<and> \<not> lt_recorded (so_logical so)"

lemma observe_live [simp]:
  "rs_telemetry (settlement_observe usage self) = rs_telemetry self"
  "rs_reservation (settlement_observe usage self) = rs_reservation self"
  "lt_recorded (logical_observe usage d self') = lt_recorded self'"
  "lt_started (logical_observe usage d self') = lt_started self'"
  by (simp_all add: settlement_observe_def logical_observe_def)

text \<open>What a chunk leaves alone.\<close>

definition same_owner :: "StreamOwner \<Rightarrow> StreamOwner \<Rightarrow> bool" where
  "same_owner a b \<longleftrightarrow>
     rs_telemetry (so_settlement b) = rs_telemetry (so_settlement a)
     \<and> rs_reservation (so_settlement b) = rs_reservation (so_settlement a)
     \<and> lt_recorded (so_logical b) = lt_recorded (so_logical a) \<and> lt_started (so_logical b) = lt_started (so_logical a)
     \<and> so_permit b = so_permit a \<and> so_deployment b = so_deployment a \<and> so_pinned b = so_pinned a
     \<and> so_requires_origin b = so_requires_origin a \<and> so_until b = so_until a \<and> so_idle_ms b = so_idle_ms a"

lemma same_owner_refl: "same_owner so so"
  by (simp add: same_owner_def)

lemma stream_chunk_owner: "stream_chunk we chunk so = (so', r) \<Longrightarrow> same_owner so so'"
  by (auto simp: stream_chunk_def same_owner_def Let_def split: prod.split_asm)

lemma stream_loop_owner: "stream_loop we feed now so = (now', out, so', e) \<Longrightarrow> same_owner so so'"
proof (induction feed arbitrary: now so now' out so' e)
  case Nil
  then show ?case
    by (subst (asm) stream_loop.simps) (auto simp: same_owner_refl Let_def left_at_yield_def split: option.split_asm if_split_asm)
next
  case (Cons a feed)
  obtain t answer where a: "a = (t, answer)" by (cases a)
  show ?case
  proof (cases "\<exists>chunk so1 transformed. answer = ChunkData chunk \<and> stream_chunk we chunk so = (so1, Inr transformed)
      \<and> (\<exists>out'. stream_loop we feed (now + t) so1 = (now', out', so', e))")
    case True
    then obtain chunk so1 transformed out' where "stream_chunk we chunk so = (so1, Inr transformed)"
      "stream_loop we feed (now + t) so1 = (now', out', so', e)" by blast
    then show ?thesis using Cons.IH stream_chunk_owner unfolding same_owner_def by metis
  next
    case False
    with Cons.prems show ?thesis
      by (subst (asm) stream_loop.simps)
        (auto simp: a same_owner_refl Let_def dest: stream_chunk_owner split: option.split_asm if_split_asm
          ChunkAnswer.split_asm prod.split_asm sum.split_asm)
  qed
qed

lemma drop_reservation_rows [simp]:
  "gw_attempts (drop_reservation r gw) = gw_attempts gw" "gw_logical (drop_reservation r gw) = gw_logical gw"
  "gw_protection (drop_reservation r gw) = gw_protection gw" "gw_now (drop_reservation r gw) = gw_now gw"
  by (simp_all add: drop_reservation_def split: prod.split)

lemma end_permit_rows [simp]:
  "gw_attempts (end_permit how p gw) = gw_attempts gw" "gw_logical (end_permit how p gw) = gw_logical gw"
  "gw_admission (end_permit how p gw) = gw_admission gw" "gw_now (end_permit how p gw) = gw_now gw"
  by (simp_all add: end_permit_def)

lemma telemetry_finish_rows [simp]:
  "gw_attempts (telemetry_finish terminal usage tel gw) = gw_attempts gw @ [\<lparr>row_candidate = tel_candidate tel,
     row_class = terminal, row_estimate = tel_estimate tel, row_usage = usage,
     row_duration = gw_now gw - tel_started tel\<rparr>]"
  "gw_logical (telemetry_finish terminal usage tel gw) = gw_logical gw"
  "gw_protection (telemetry_finish terminal usage tel gw) = gw_protection gw"
  "gw_admission (telemetry_finish terminal usage tel gw) = gw_admission gw"
  "gw_now (telemetry_finish terminal usage tel gw) = gw_now gw"
  by (simp_all add: telemetry_finish_def)

lemma record_logical_rows [simp]:
  "gw_attempts (record_logical outcome usage d started gw) = gw_attempts gw"
  "gw_protection (record_logical outcome usage d started gw) = gw_protection gw"
  "gw_admission (record_logical outcome usage d started gw) = gw_admission gw"
  "gw_now (record_logical outcome usage d started gw) = gw_now gw"
  by (simp_all add: record_logical_def)

lemma settlement_drop_rows:
  assumes "rs_telemetry self = Some tel"
  shows "\<exists>terminal. terminal \<noteq> ClassDefinitelyNotDispatched
      \<and> gw_attempts (settlement_drop self gw) = gw_attempts gw @ [\<lparr>row_candidate = tel_candidate tel,
        row_class = terminal, row_estimate = tel_estimate tel, row_usage = Some (rs_usage self),
        row_duration = gw_now gw - tel_started tel\<rparr>]"
    and "gw_logical (settlement_drop self gw) = gw_logical gw"
    and "gw_protection (settlement_drop self gw) = gw_protection gw"
    and "gw_now (settlement_drop self gw) = gw_now gw"
  using assms by (auto simp: settlement_drop_def settlement_finish_def Let_def split: prod.split)

definition logged_once :: "'c Gateway \<Rightarrow> 'c Gateway \<Rightarrow> string \<Rightarrow> bool" where
  "logged_once gw gw' outcome \<longleftrightarrow>
     (\<exists>lr. gw_logical gw' = gw_logical gw @ [lr] \<and> lr_outcome lr = outcome)"

lemma logical_finish_rows:
  "\<not> lt_recorded self \<Longrightarrow> logged_once gw (snd (logical_finish outcome usage d self gw)) outcome"
  "\<not> lt_recorded self \<Longrightarrow> logged_once gw (logical_drop self gw) ''stream_interrupted''"
  "gw_attempts (snd (logical_finish outcome usage d self gw)) = gw_attempts gw"
  "gw_attempts (logical_drop self gw) = gw_attempts gw"
  by (simp_all add: logical_finish_def logical_drop_def logged_once_def record_logical_def)

lemma logged_once_cong:
  "logged_once gw1 gw2 outcome \<Longrightarrow> gw_logical gw1 = gw_logical gw \<Longrightarrow> gw_logical gw2 = gw_logical gw' \<Longrightarrow> logged_once gw gw' outcome"
  by (simp add: logged_once_def)

lemma stream_end_records:
  assumes "stream_live so" "rs_telemetry (so_settlement so) = Some tel"
  shows "\<exists>row lr. gw_attempts (stream_end epoch e so gw) = gw_attempts gw @ [row]
    \<and> gw_logical (stream_end epoch e so gw) = gw_logical gw @ [lr]
    \<and> row_candidate row = tel_candidate tel \<and> row_class row \<noteq> ClassDefinitelyNotDispatched
    \<and> row_usage row = Some (rs_usage (so_settlement so))
    \<and> lr_outcome lr = (if e = StreamCompleted then ''success'' else ''stream_interrupted'')
    \<and> (e \<noteq> StreamDropped \<longrightarrow> lr_usage lr = Some (rs_usage (so_settlement so)))"
proof -
  let ?g = "settlement_drop (so_settlement so) gw"
  have live: "\<not> lt_recorded (so_logical so)" using assms(1) by (simp add: stream_live_def)
  obtain row where rows: "gw_attempts ?g = gw_attempts gw @ [row]" "row_candidate row = tel_candidate tel"
    "row_usage row = Some (rs_usage (so_settlement so))" "row_class row \<noteq> ClassDefinitelyNotDispatched"
    using settlement_drop_rows(1) [OF assms(2), of gw] by auto
  then show ?thesis
    using live settlement_drop_rows(2) [OF assms(2), of gw]
    by (cases e) (simp_all add: stream_end_def Let_def logical_finish_def logical_drop_def record_logical_def option_or_def)
qed

subsection \<open>Ending in time\<close>

lemma stream_guard_None: "stream_guard so now = None \<Longrightarrow> now < so_until so"
  by (simp add: stream_guard_def split: if_split_asm)

lemma stream_loop_time:
  "stream_loop we feed now so = (now', out, so', e) \<Longrightarrow> now \<le> now' \<and> now' \<le> max now (so_until so)"
proof (induction feed arbitrary: now so now' out so' e)
  case Nil
  then show ?case
    by (subst (asm) stream_loop.simps)
      (auto simp: Let_def left_at_yield_def dest!: stream_guard_None split: option.split_asm if_split_asm)
next
  case (Cons a feed)
  obtain t answer where a: "a = (t, answer)" by (cases a)
  show ?case
  proof (cases "\<exists>chunk so1 transformed. answer = ChunkData chunk \<and> stream_chunk we chunk so = (so1, Inr transformed)
      \<and> now + t < so_until so \<and> (\<exists>out'. stream_loop we feed (now + t) so1 = (now', out', so', e))")
    case True
    then obtain chunk so1 transformed out' where "stream_chunk we chunk so = (so1, Inr transformed)"
      "stream_loop we feed (now + t) so1 = (now', out', so', e)" "now + t < so_until so" by blast
    with Cons.IH [OF this(2)] stream_chunk_owner [OF this(1)] show ?thesis by (simp add: same_owner_def)
  next
    case False
    with Cons.prems show ?thesis
      by (subst (asm) stream_loop.simps)
        (auto simp: a Let_def dest!: stream_guard_None split: option.split_asm if_split_asm
          ChunkAnswer.split_asm prod.split_asm sum.split_asm)
  qed
qed

lemma stream_chunk_Inl: "stream_chunk we chunk so = (so', Inl e) \<Longrightarrow> e \<noteq> StreamCompleted"
  by (auto simp: stream_chunk_def Let_def split: prod.split_asm option.split_asm if_split_asm)

lemma stream_guard_end: "stream_guard so now \<noteq> Some StreamCompleted"
  by (simp add: stream_guard_def)

lemma run_stream_time:
  assumes "run_stream we epoch so gw = (gw', out, e)"
  shows "gw_now gw \<le> gw_now gw' \<and> gw_now gw' \<le> max (gw_now gw) (so_until so)"
proof -
  obtain now out' so' where loop: "stream_loop we (so_feed so) (gw_now gw) so = (now, out', so', e)"
    and gw': "gw' = stream_end epoch e so' (gw\<lparr>gw_now := now\<rparr>)"
    using assms by (auto simp: run_stream_def split: prod.split_asm)
  have "gw_now gw' = now"
    unfolding gw' by (cases e) (simp_all add: stream_end_def Let_def logical_finish_def logical_drop_def settlement_drop_def
        settlement_finish_def split: prod.split option.split)
  with stream_loop_time [OF loop] show ?thesis by simp
qed

subsection \<open>The usage that was seen\<close>

text \<open>The chunks of a body with the times they arrive at, up to its end or to where its reading fails.\<close>

fun arrivals :: "instant \<Rightarrow> chunk_feed \<Rightarrow> (instant \<times> string) list" where
  "arrivals now ((t, ChunkData chunk) # feed) = (now + t, chunk) # arrivals (now + t) feed"
| "arrivals now _ = []"

text \<open>The usage known after some chunks: the last one an inspection of them reports that is not absent.\<close>

fun usage_seen :: "WireExternals \<Rightarrow> StreamInspection \<Rightarrow> ProviderUsage \<Rightarrow> string list \<Rightarrow> ProviderUsage" where
  "usage_seen we inspection usage [] = usage"
| "usage_seen we inspection usage (chunk # chunks) =
     (let inspection = fst (StreamInspection_push we chunk inspection);
          reported = inspector_usage (ins_inspector inspection) in
      usage_seen we inspection (if completeness reported = UsageAbsent then usage else reported) chunks)"

lemma stream_chunk_usage:
  "stream_chunk we chunk so = (so', r) \<Longrightarrow>
     so_inspection so' = fst (StreamInspection_push we chunk (so_inspection so))
     \<and> rs_usage (so_settlement so') = (let reported = inspector_usage (ins_inspector (so_inspection so')) in
          if completeness reported = UsageAbsent then rs_usage (so_settlement so) else reported)"
  by (auto simp: stream_chunk_def settlement_observe_def Let_def split: prod.split_asm)

text \<open>The chunks that were read by a given time: all that came before, none that came after.\<close>

definition read_by :: "instant \<Rightarrow> (instant \<times> string) list \<Rightarrow> string list \<Rightarrow> bool" where
  "read_by until arrived chunks \<longleftrightarrow> (\<exists>rest. map snd arrived = chunks @ rest
     \<and> (\<forall>i < length arrived. if i < length chunks then fst (arrived ! i) \<le> until else until \<le> fst (arrived ! i)))"

lemma arrivals_later: "x \<in> set (arrivals now feed) \<Longrightarrow> now \<le> fst x"
  by (induction now feed rule: arrivals.induct) auto

lemma read_by_none: "(\<And>x. x \<in> set arrived \<Longrightarrow> until \<le> fst x) \<Longrightarrow> read_by until arrived []"
  by (auto simp: read_by_def)

lemma read_by_Nil: "until \<le> now \<Longrightarrow> read_by until (arrivals now feed) []"
  by (rule read_by_none) (use arrivals_later order_trans in blast)

lemma read_by_Cons: "t \<le> until \<Longrightarrow> read_by until arrived chunks \<Longrightarrow> read_by until ((t, chunk) # arrived) (chunk # chunks)"
  by (auto simp: read_by_def nth_Cons less_Suc_eq_0_disj split: nat.split)

lemma stream_loop_usage:
  "stream_loop we feed now so = (now', out, so', e) \<Longrightarrow> \<exists>chunks. read_by now' (arrivals now feed) chunks
     \<and> (e = StreamCompleted \<longrightarrow> length chunks = length (arrivals now feed))
     \<and> rs_usage (so_settlement so') = usage_seen we (so_inspection so) (rs_usage (so_settlement so)) chunks"
proof (induction feed arbitrary: now so now' out so' e)
  case Nil
  have "so' = so" using Nil
    by (subst (asm) stream_loop.simps) (auto simp: Let_def left_at_yield_def split: option.split_asm if_split_asm)
  then show ?case by (intro exI [of _ "[]"]) (simp add: read_by_def)
next
  case (Cons a feed)
  obtain t answer where a: "a = (t, answer)" by (cases a)
  note time = stream_loop_time
  show ?case
  proof (cases "\<exists>chunk so1 r. answer = ChunkData chunk \<and> stream_chunk we chunk so = (so1, r)
      \<and> (r = Inl e \<and> now' = now + t \<and> so' = so1
         \<or> (\<exists>out'. stream_loop we feed (now + t) so1 = (now', out', so', e)))")
    case True
    then obtain chunk so1 r where chunk: "answer = ChunkData chunk" and step: "stream_chunk we chunk so = (so1, r)"
      and rest: "r = Inl e \<and> now' = now + t \<and> so' = so1
        \<or> (\<exists>out'. stream_loop we feed (now + t) so1 = (now', out', so', e))" by blast
    have "now + t \<le> now' \<and> (\<exists>chunks. read_by now' (arrivals (now + t) feed) chunks
        \<and> (e = StreamCompleted \<longrightarrow> length chunks = length (arrivals (now + t) feed))
        \<and> rs_usage (so_settlement so') = usage_seen we (so_inspection so1) (rs_usage (so_settlement so1)) chunks)"
      using rest Cons.IH time read_by_Nil [of now' "now + t" feed] stream_chunk_Inl [of we chunk so so1 e] step
      by (metis order_refl usage_seen.simps(1))
    then obtain chunks where "now + t \<le> now'" "read_by now' (arrivals (now + t) feed) chunks"
      "e = StreamCompleted \<longrightarrow> length chunks = length (arrivals (now + t) feed)"
      "rs_usage (so_settlement so') = usage_seen we (so_inspection so1) (rs_usage (so_settlement so1)) chunks"
      by blast
    with stream_chunk_usage [OF step] show ?thesis
      by (intro exI [of _ "chunk # chunks"]) (simp add: a chunk read_by_Cons Let_def)
  next
    case False
    with Cons.prems have "so' = so \<and> (answer = ChunkEnd \<or> answer = ChunkError \<or> answer = ChunkAbandoned \<or> now' \<le> now + t)
      \<and> (e = StreamCompleted \<longrightarrow> answer = ChunkEnd)"
      using stream_guard_end [of so now]
      by (subst (asm) stream_loop.simps)
        (auto simp: a Let_def left_at_yield_def split: option.split_asm if_split_asm
          ChunkAnswer.split_asm prod.split_asm sum.split_asm)
    moreover have "until \<le> now + t \<Longrightarrow> read_by until (arrivals now (a # feed)) []" for until
      using arrivals_later [of _ "now + t" feed]
      by (intro read_by_none) (cases answer; fastforce simp: a intro: order_trans)
    ultimately show ?thesis by (intro exI [of _ "[]"]) (auto simp: a read_by_def)
  qed
qed

text \<open>
  C8: However a committed stream ends, by its last event, by an error of the upstream, by a silence,
  by the deadline or because the client went away, it is accounted for exactly once.  There is one record of the
  attempt, never as an attempt that was not dispatched, with the usage that was seen: that of exactly the chunks which
  arrived before the end, every one of the body if the stream was completed.  There is one record of the request, which is a
  success exactly if the stream was completed, and it carries that usage unless the stream was dropped.
\<close>

theorem stream_accounted_once:
  assumes "stream_live so" "rs_telemetry (so_settlement so) = Some tel"
    and "run_stream we epoch so gw = (gw', out, e)"
  shows "\<exists>row lr chunks. gw_attempts gw' = gw_attempts gw @ [row] \<and> gw_logical gw' = gw_logical gw @ [lr]
    \<and> row_candidate row = tel_candidate tel \<and> row_class row \<noteq> ClassDefinitelyNotDispatched
    \<and> read_by (gw_now gw') (arrivals (gw_now gw) (so_feed so)) chunks
    \<and> (e = StreamCompleted \<longrightarrow> length chunks = length (arrivals (gw_now gw) (so_feed so)))
    \<and> row_usage row = Some (usage_seen we (so_inspection so) (rs_usage (so_settlement so)) chunks)
    \<and> lr_outcome lr = (if e = StreamCompleted then ''success'' else ''stream_interrupted'')
    \<and> (e \<noteq> StreamDropped \<longrightarrow> lr_usage lr = row_usage row)"
proof -
  obtain now out' so' where loop: "stream_loop we (so_feed so) (gw_now gw) so = (now, out', so', e)"
    and gw': "gw' = stream_end epoch e so' (gw\<lparr>gw_now := now\<rparr>)"
    using assms(3) by (auto simp: run_stream_def split: prod.split_asm)
  note same = stream_loop_owner [OF loop]
  have "stream_live so'" "rs_telemetry (so_settlement so') = Some tel"
    using assms(1,2) same by (simp_all add: stream_live_def same_owner_def)
  note records = stream_end_records [OF this, of epoch e "gw\<lparr>gw_now := now\<rparr>", folded gw']
  have "gw_now gw' = now"
    unfolding gw' by (cases e) (simp_all add: stream_end_def Let_def logical_finish_def logical_drop_def settlement_drop_def
        settlement_finish_def split: prod.split option.split)
  with records stream_loop_usage [OF loop] show ?thesis by fastforce
qed

subsection \<open>What the client receives\<close>

text \<open>The bytes of a body up to its end, or to where its reading fails.\<close>

fun feed_data :: "chunk_feed \<Rightarrow> string" where
  "feed_data ((t, ChunkData chunk) # feed) = chunk @ feed_data feed"
| "feed_data _ = []"

definition tracks :: "string \<Rightarrow> string \<Rightarrow> StreamInspection \<Rightarrow> chunk_feed \<Rightarrow> bool" where
  "tracks data sent ins feed \<longleftrightarrow>
     ins_event_stream ins = None
     \<and> (\<exists>rest. data = sent @ si_pending (ins_inspector ins) @ rest
          \<and> (\<not> ins_failed ins \<longrightarrow> rest = feed_data feed))"

lemma push_tracks:
  assumes "tracks data sent ins ((t, ChunkData chunk) # feed)" "StreamInspection_push we chunk ins = (ins', Some out)"
  shows "tracks data (sent @ out) ins' feed"
proof -
  have live: "\<not> ins_failed ins" using assms(2) by (auto simp: StreamInspection_push_def)
  have plain: "ins_event_stream ins = None"
    and data: "data = sent @ si_pending (ins_inspector ins) @ chunk @ feed_data feed"
    using assms(1) live by (auto simp: tracks_def)
  let ?allowed = "min (length chunk) (ins_remaining_bytes ins)"
  obtain inspector batch where push: "push_frames we (ins_transport ins) (take ?allowed chunk) (ins_inspector ins)
      = (inspector, batch)" by fastforce
  from assms(2) live plain push have ins': "ins_inspector ins' = inspector" "ins_event_stream ins' = None"
    "ins_failed ins' \<longleftrightarrow> ?allowed < length chunk \<or> sse_error batch \<noteq> None" and out: "out = sse_bytes batch"
    by (auto simp: StreamInspection_push_def decoded_output_def Let_def split: if_split_asm)
  define bytes where "bytes = take ?allowed chunk"
  have "push_loop we (ins_transport ins) bytes (ins_inspector ins) empty_batch = (inspector, batch)"
    using push by (simp add: push_frames_def bytes_def)
  with push_loop_bytes [of empty_batch bytes we "ins_transport ins" "ins_inspector ins"]
  obtain n where n: "n \<le> length bytes"
    "sse_bytes batch @ si_pending inspector = si_pending (ins_inspector ins) @ take n bytes"
    "sse_error batch = None \<longrightarrow> n = length bytes"
    by (auto simp: fed_def)
  note n = n [unfolded bytes_def]
  have cut: "take n (take ?allowed chunk) = take n chunk" using n(1) by (simp add: min_absorb1)
  have "data = sent @ (si_pending (ins_inspector ins) @ take n chunk) @ drop n chunk @ feed_data feed"
    using append_take_drop_id [of n chunk] by (simp add: data)
  also have "\<dots> = sent @ (out @ si_pending inspector) @ drop n chunk @ feed_data feed"
    using n(2) unfolding cut out by (simp only:)
  finally have "data = (sent @ out) @ si_pending inspector @ drop n chunk @ feed_data feed" by (simp only: append_assoc)
  moreover have "\<not> ins_failed ins' \<longrightarrow> drop n chunk = []" using n ins'(3) by auto
  ultimately show ?thesis unfolding tracks_def using ins'
    by (intro conjI exI [of _ "drop n chunk @ feed_data feed"]) simp_all
qed

lemma stream_chunk_Inr:
  "stream_chunk we chunk so = (so', Inr out) \<Longrightarrow>
    StreamInspection_push we chunk (so_inspection so) = (so_inspection so', Some out)"
  by (auto simp: stream_chunk_def Let_def split: prod.split_asm option.split_asm if_split_asm)

lemma end_of_stream_completed:
  "end_of_stream (inspector_terminal inspector) = StreamCompleted \<Longrightarrow> list_all ascii_whitespace (si_pending inspector)"
  by (auto simp: end_of_stream_def inspector_terminal_def list_all_iff list_ex_iff
      split: StreamTerminalOutcome.split_asm if_split_asm)

lemma stream_guard_live: "stream_guard so now = None \<Longrightarrow> \<not> ins_failed (so_inspection so)"
  by (simp add: stream_guard_def split: if_split_asm)

definition forwarded :: "string \<Rightarrow> string \<Rightarrow> StreamEnd \<Rightarrow> bool" where
  "forwarded data sent e \<longleftrightarrow>
     (\<exists>rest. data = sent @ rest \<and> (e = StreamCompleted \<longrightarrow> list_all ascii_whitespace rest))"

lemma tracks_forwarded: "tracks data sent ins feed \<Longrightarrow> e \<noteq> StreamCompleted \<Longrightarrow> forwarded data sent e"
  by (auto simp: tracks_def forwarded_def)

lemma stream_loop_forwards:
  "stream_loop we feed now so = (now', out, so', e) \<Longrightarrow> tracks data sent (so_inspection so) feed
    \<Longrightarrow> forwarded data (sent @ concat out) e"
proof (induction feed arbitrary: now so now' out so' e sent)
  case Nil
  then show ?case using stream_guard_end [of so now]
    by (subst (asm) stream_loop.simps)
      (auto simp: Let_def left_at_yield_def split: option.split_asm if_split_asm intro!: tracks_forwarded)
next
  case (Cons a feed)
  obtain t answer where a: "a = (t, answer)" by (cases a)
  show ?case
  proof (cases "\<exists>chunk so1 transformed. answer = ChunkData chunk \<and> stream_chunk we chunk so = (so1, Inr transformed)
      \<and> (\<exists>out'. stream_loop we feed (now + t) so1 = (now', out', so', e) \<and> concat out = transformed @ concat out')")
    case True
    then obtain chunk so1 transformed out' where chunk: "answer = ChunkData chunk"
      and step: "stream_chunk we chunk so = (so1, Inr transformed)"
      and rest: "stream_loop we feed (now + t) so1 = (now', out', so', e)" "concat out = transformed @ concat out'"
      by blast
    have "tracks data (sent @ transformed) (so_inspection so1) feed"
      using Cons.prems(2) stream_chunk_Inr [OF step] unfolding a chunk by (rule push_tracks)
    from Cons.IH [OF rest(1) this] rest(2) show ?thesis by simp
  next
    case False
    have complete: "forwarded data sent StreamCompleted"
      if "end_of_stream (inspector_terminal (ins_inspector (so_inspection so))) = StreamCompleted"
        "\<not> ins_failed (so_inspection so)" "answer = ChunkEnd"
      using Cons.prems(2) end_of_stream_completed [OF that(1)] that(2,3)
      by (auto simp: tracks_def forwarded_def a)
    have "out = [] \<and> (e \<noteq> StreamCompleted \<or> end_of_stream (inspector_terminal (ins_inspector (so_inspection so)))
      = StreamCompleted \<and> \<not> ins_failed (so_inspection so) \<and> answer = ChunkEnd)"
      using Cons.prems(1) False stream_guard_end [of so now]
      by (subst (asm) stream_loop.simps)
        (auto simp: a Let_def dest: stream_chunk_Inl stream_guard_live split: option.split_asm if_split_asm
          ChunkAnswer.split_asm prod.split_asm sum.split_asm)
    with complete tracks_forwarded [OF Cons.prems(2), of e] show ?thesis by (cases "e = StreamCompleted") auto
  qed
qed

lemma precommit_chunk_tracks:
  assumes "precommit_chunk we policy maximum required d chunk (p\<lparr>pre_feed := feed\<rparr>) = (p', r)"
    "tracks data (pre_bytes p) (pre_inspection p) ((t, ChunkData chunk) # feed)"
    "r = None \<or> r = Some PrecommitReady"
  shows "tracks data (pre_bytes p') (pre_inspection p') feed \<and> pre_feed p' = feed"
proof -
  obtain inspection out where push: "StreamInspection_push we chunk (pre_inspection p) = (inspection, Some out)"
    and p': "pre_inspection p' = inspection" "pre_bytes p' = pre_bytes p @ out" "pre_feed p' = feed"
    using assms(1,3) by (auto simp: precommit_chunk_def Let_def split: prod.split_asm option.split_asm)
  from push_tracks [OF assms(2) push] show ?thesis by (simp add: p')
qed

lemma precommit_loop_tracks:
  "precommit_loop we policy maximum required d until classify feed now p = (now', p', PrecommitReady)
    \<Longrightarrow> tracks data (pre_bytes p) (pre_inspection p) feed
    \<Longrightarrow> tracks data (pre_bytes p') (pre_inspection p') (pre_feed p')"
proof (induction feed arbitrary: now p)
  case Nil
  then show ?case
    by (subst (asm) precommit_loop.simps) (auto simp: Let_def split: prod.split_asm Waited.split_asm if_split_asm)
next
  case (Cons a feed)
  obtain t answer where a: "a = (t, answer)" by (cases a)
  from Cons.prems(1) obtain chunk p1 r now1 where chunk: "answer = ChunkData chunk"
    and step: "precommit_chunk we policy maximum required d chunk (p\<lparr>pre_feed := feed\<rparr>) = (p1, r)"
    and rest: "r = Some PrecommitReady \<and> p' = p1
      \<or> r = None \<and> precommit_loop we policy maximum required d until classify feed now1 p1
        = (now', p', PrecommitReady)"
    by (subst (asm) (1) precommit_loop.simps)
      (fastforce simp: a Let_def wait_for_def split: prod.split_asm Waited.split_asm if_split_asm ChunkAnswer.split_asm
        option.split_asm)
  have "tracks data (pre_bytes p1) (pre_inspection p1) feed \<and> pre_feed p1 = feed"
    by (rule precommit_chunk_tracks [OF step Cons.prems(2) [unfolded a chunk]]) (use rest in auto)
  with rest Cons.IH show ?case by auto
qed

lemma streaming_response_tracks:
  assumes "streaming_response ge w feed client admission candidate reliability lifetime reservation permit telemetry
      logical gw = attempt"
    and "ad_result attempt = AttemptResponse (StreamResponse so)"
    and "dep_transport_kind (cand_deployment candidate) \<noteq> TransportAnthropicMessagesBedrock"
  shows "tracks (feed_data feed) (so_precommit so) (so_inspection so) (so_feed so)"
proof -
  let ?transport = "dep_transport_kind (cand_deployment candidate)"
  let ?start = "\<lparr>pre_feed = feed,
    pre_inspection = StreamInspection_new ?transport (response_limit client admission), pre_bytes = [],
    pre_settlement = ResponseSettlement_new reservation telemetry, pre_logical = logical\<rparr>"
  have "tracks (feed_data feed) (pre_bytes ?start) (pre_inspection ?start) feed"
    using assms(3) by (simp add: tracks_def StreamInspection_new_def SseInspector_default_def)
  note start = this
  from assms(1,2) obtain now p we policy maximum required d until classify now0 where
    loop: "precommit_loop we policy maximum required d until classify feed now0 ?start = (now, p, PrecommitReady)"
    and so: "so_precommit so = pre_bytes p" "so_inspection so = pre_inspection p" "so_feed so = pre_feed p"
    by (fastforce simp: streaming_response_def Let_def attempted_def
        split: prod.split_asm PrecommitEnd.split_asm if_split_asm)
  from precommit_loop_tracks [OF loop start] show ?thesis by (simp add: so)
qed

text \<open>
  The client of a committed stream receives what the upstream sent and nothing else, from its
  first byte on: of every transport that is not re-framed, what the client has received at the end is a prefix
  of the body, and if the stream was completed, only blanks of the body are missing.
\<close>

theorem stream_forwards_upstream:
  assumes "ad_result (streaming_response ge w feed client admission candidate reliability lifetime reservation permit
      telemetry logical gw) = AttemptResponse (StreamResponse so)"
    and "dep_transport_kind (cand_deployment candidate) \<noteq> TransportAnthropicMessagesBedrock"
    and "run_stream we epoch so gw' = (gw'', out, e)"
  shows "forwarded (feed_data feed) (concat out) e"
proof -
  obtain now rest so' where loop: "stream_loop we (so_feed so) (gw_now gw') so = (now, rest, so', e)"
    and out: "out = so_precommit so # rest"
    using assms(3) by (auto simp: run_stream_def split: prod.split_asm)
  from stream_loop_forwards [OF loop streaming_response_tracks [OF refl assms(1,2)]]
  show ?thesis by (simp add: out)
qed

end
