(* ===== verification/AttemptLaws.thy ===== *)
theory AttemptLaws
  imports Streaming
begin

section \<open>An attempt ends what it owns exactly once\<close>

text \<open>
  Every way out of \<open>execute_attempt\<close> ends the budget reservation, the permit of the target and the
  record of the attempt once each, and consistently with each other, unless a stream takes them over.
\<close>

datatype ReservationEnd = Released | Abandoned | Settled nat

definition end_reservation ::
    "ReservationEnd \<Rightarrow> AttemptReservation \<Rightarrow> LocalAdmissionState \<Rightarrow> LocalAdmissionState" where
  "end_reservation how r local =
     (case how of
        Released \<Rightarrow> snd (definitely_not_dispatched r local)
      | Abandoned \<Rightarrow> snd (AttemptReservation_drop (mark_dispatched r) local)
      | Settled cost \<Rightarrow> snd (settle_actual_cost cost r local))"

definition class_of :: "ReservationEnd \<Rightarrow> AttemptTerminalClass \<Rightarrow> bool" where
  "class_of how terminal \<longleftrightarrow>
     (terminal = ClassDefinitelyNotDispatched \<longleftrightarrow> how = Released)
     \<and> (case how of Settled cost \<Rightarrow> terminal = ClassActual | _ \<Rightarrow> True)"

definition fresh_reservation :: "AttemptReservation \<Rightarrow> bool" where
  "fresh_reservation r \<longleftrightarrow> \<not> released r \<and> \<not> dispatched r"

lemma end_reservation_mark [simp]: "end_reservation how (mark_dispatched r) local = end_reservation how r local"
  by (simp add: end_reservation_def mark_dispatched_def definitely_not_dispatched_def settle_actual_cost_def
      split: ReservationEnd.split option.split)

lemma mark_dispatched_id: "dispatched r \<Longrightarrow> mark_dispatched r = r"
  by (cases r) (simp add: mark_dispatched_def)

lemma release_reservation_local:
  "snd (gw_admission (release_reservation r gw)) = end_reservation Released r (snd (gw_admission gw))"
  by (cases "gw_admission gw") (simp add: release_reservation_def drop_reservation_def end_reservation_def
      definitely_not_dispatched_def AttemptReservation_drop_def Let_def)

lemma drop_dispatched_local:
  "dispatched r \<Longrightarrow> snd (gw_admission (drop_reservation r gw)) = end_reservation Abandoned r (snd (gw_admission gw))"
  by (simp add: drop_reservation_def end_reservation_def mark_dispatched_id split: prod.split)

lemma drop_undispatched_local:
  "\<not> dispatched r \<Longrightarrow> snd (gw_admission (drop_reservation r gw)) = end_reservation Released r (snd (gw_admission gw))"
  by (cases "gw_admission gw") (simp add: drop_reservation_def end_reservation_def AttemptReservation_drop_def
      definitely_not_dispatched_def Let_def)

lemma drop_released [simp]: "released r \<Longrightarrow> drop_reservation r gw = gw"
  by (cases gw) (simp add: drop_reservation_def AttemptReservation_drop_def definitely_not_dispatched_def Let_def
      split: prod.split)

text \<open>What the owners of an attempt look like once they are gone.\<close>

definition attempt_closed ::
    "AttemptReservation \<Rightarrow> TargetAttemptPermit \<Rightarrow> Candidate \<Rightarrow> 'c Gateway \<Rightarrow> 'c Gateway \<Rightarrow> bool" where
  "attempt_closed r permit candidate gw gw' \<longleftrightarrow>
     (\<exists>how row permit_end at.
        snd (gw_admission gw') = end_reservation how r (snd (gw_admission gw))
        \<and> gw_attempts gw' = gw_attempts gw @ [row] \<and> row_candidate row = candidate \<and> class_of how (row_class row)
        \<and> gw_protection gw' = gw_protection (end_permit permit_end permit (gw\<lparr>gw_now := at\<rparr>))
        \<and> gw_now gw \<le> at)"

lemma settlement_drop_closed:
  assumes "rs_telemetry self = Some tel" "dispatched (rs_reservation self)" "\<not> released (rs_reservation self)"
  shows "\<exists>how terminal.
      snd (gw_admission (settlement_drop self gw)) = end_reservation how (rs_reservation self) (snd (gw_admission gw))
      \<and> gw_attempts (settlement_drop self gw) = gw_attempts gw @ [\<lparr>row_candidate = tel_candidate tel,
        row_class = terminal, row_estimate = tel_estimate tel, row_usage = Some (rs_usage self),
        row_duration = gw_now gw - tel_started tel\<rparr>] \<and> class_of how terminal"
proof -
  obtain c local where adm: "gw_admission gw = (c, local)" by fastforce
  obtain actual r' local' where settled: "settle_from_usage (rs_reservation self)
      (cand_deployment (tel_candidate tel)) (rs_usage self) local = (actual, r', local')" by (metis prod_cases3)
  have gw': "settlement_drop self gw = drop_reservation r' (telemetry_finish
      (if actual then ClassActual else ClassUnknownOrAmbiguous) (Some (rs_usage self)) tel
      (gw\<lparr>gw_admission := (c, local')\<rparr>))"
    by (simp add: settlement_drop_def settlement_finish_def assms(1) adm settled)
  show ?thesis
  proof (cases actual)
    case True
    then obtain cost where "(r', local') = settle_actual_cost cost (rs_reservation self) local"
      using settled [symmetric] by (auto simp: settle_from_usage_def split: if_split_asm option.split_asm PricingOutcome.split_asm)
    then have ended: "local' = end_reservation (Settled cost) (rs_reservation self) local"
      and "released r'"
      using assms(3) by (simp_all add: end_reservation_def settle_actual_cost_def)
    with True show ?thesis
      by (intro exI [of _ "Settled cost"] exI [of _ ClassActual]) (simp add: gw' adm class_of_def)
  next
    case False
    then have "r' = rs_reservation self" "local' = local"
      using settled by (auto simp: settle_from_usage_def split: if_split_asm option.split_asm PricingOutcome.split_asm)
    then show ?thesis
      using False assms(2) by (intro exI [of _ Abandoned] exI [of _ ClassUnknownOrAmbiguous])
        (simp add: gw' adm drop_dispatched_local class_of_def)
  qed
qed

lemma end_permit_cong:
  "gw_now a = gw_now b \<Longrightarrow> gw_protection a = gw_protection b \<Longrightarrow>
    gw_protection (end_permit how p a) = gw_protection (end_permit how p b)"
  by (simp add: end_permit_def split: PermitEnd.split)

lemma attempt_closedI:
  fixes gw gw' mid :: "'c Gateway"
  assumes "snd (gw_admission gw') = end_reservation how r (snd (gw_admission gw))"
    and "gw_attempts gw' = gw_attempts gw @ [\<lparr>row_candidate = candidate, row_class = terminal,
      row_estimate = est, row_usage = usage, row_duration = duration\<rparr>]" "class_of how terminal"
    and "gw_protection gw' = gw_protection (end_permit permit_end permit mid)"
    and "gw_protection mid = gw_protection gw" "gw_now gw \<le> gw_now mid"
  shows "attempt_closed r permit candidate gw gw'"
  unfolding attempt_closed_def
  using assms end_permit_cong [of mid "gw\<lparr>gw_now := gw_now mid\<rparr>" permit_end permit]
  by (intro exI [of _ how] exI [of _ permit_end] exI [of _ "gw_now mid"]) auto

lemma attempt_closed_later:
  "attempt_closed r permit candidate (gw\<lparr>gw_now := now\<rparr>) gw' \<Longrightarrow> gw_now gw \<le> now
    \<Longrightarrow> attempt_closed r permit candidate gw gw'"
  by (fastforce simp: attempt_closed_def)

lemma attempt_closed_mark [simp]:
  "attempt_closed (mark_dispatched r) permit candidate gw gw' \<longleftrightarrow> attempt_closed r permit candidate gw gw'"
  by (simp add: attempt_closed_def)

lemma release_reservation_rows [simp]:
  "gw_attempts (release_reservation r gw) = gw_attempts gw" "gw_logical (release_reservation r gw) = gw_logical gw"
  "gw_protection (release_reservation r gw) = gw_protection gw" "gw_now (release_reservation r gw) = gw_now gw"
  by (simp_all add: release_reservation_def split: prod.split)

lemma not_dispatched_rows [simp]:
  "gw_logical (not_dispatched r tel gw) = gw_logical gw"
  "gw_protection (not_dispatched r tel gw) = gw_protection gw" "gw_now (not_dispatched r tel gw) = gw_now gw"
  "gw_attempts (not_dispatched r tel gw) = gw_attempts gw @ [\<lparr>row_candidate = tel_candidate tel,
     row_class = ClassDefinitelyNotDispatched, row_estimate = tel_estimate tel, row_usage = None,
     row_duration = gw_now gw - tel_started tel\<rparr>]"
  "snd (gw_admission (not_dispatched r tel gw)) = end_reservation Released r (snd (gw_admission gw))"
  by (simp_all add: not_dispatched_def release_reservation_local)

lemma class_of_simps [simp]:
  "class_of Released ClassDefinitelyNotDispatched" "class_of Abandoned ClassUnknownOrAmbiguous"
  "class_of Abandoned ClassActual"
  by (simp_all add: class_of_def)

lemma closed_not_dispatched:
  "attempt_closed r permit (tel_candidate tel) gw (end_permit how permit (not_dispatched r tel gw))"
  "attempt_closed r permit (tel_candidate tel) gw (not_dispatched r tel (end_permit how permit gw))"
proof -
  show "attempt_closed r permit (tel_candidate tel) gw (end_permit how permit (not_dispatched r tel gw))"
    by (rule attempt_closedI [where how = Released and permit_end = how and mid = "not_dispatched r tel gw"]) simp_all+
  show "attempt_closed r permit (tel_candidate tel) gw (not_dispatched r tel (end_permit how permit gw))"
    by (rule attempt_closedI [where how = Released and permit_end = how and mid = gw]) simp_all+
qed

lemma closed_settlement:
  assumes "rs_telemetry self = Some tel" "dispatched (rs_reservation self)" "\<not> released (rs_reservation self)"
  shows "attempt_closed (rs_reservation self) permit (tel_candidate tel) gw (settlement_drop self (end_permit how permit gw))"
    and "attempt_closed (rs_reservation self) permit (tel_candidate tel) gw (end_permit how permit (settlement_drop self gw))"
proof -
  from settlement_drop_closed [OF assms, of "end_permit how permit gw"] obtain e terminal where
    "snd (gw_admission (settlement_drop self (end_permit how permit gw)))
      = end_reservation e (rs_reservation self) (snd (gw_admission gw))"
    "gw_attempts (settlement_drop self (end_permit how permit gw)) = gw_attempts gw @ [\<lparr>row_candidate = tel_candidate tel,
        row_class = terminal, row_estimate = tel_estimate tel, row_usage = Some (rs_usage self),
        row_duration = gw_now gw - tel_started tel\<rparr>]" "class_of e terminal"
    by auto
  then show "attempt_closed (rs_reservation self) permit (tel_candidate tel) gw
      (settlement_drop self (end_permit how permit gw))"
    by (intro attempt_closedI [where how = e and permit_end = how and mid = gw])
      (simp_all add: settlement_drop_rows(3) [OF assms(1)])
next
  from settlement_drop_closed [OF assms, of gw] obtain e terminal where
    "snd (gw_admission (settlement_drop self gw)) = end_reservation e (rs_reservation self) (snd (gw_admission gw))"
    "gw_attempts (settlement_drop self gw) = gw_attempts gw @ [\<lparr>row_candidate = tel_candidate tel,
        row_class = terminal, row_estimate = tel_estimate tel, row_usage = Some (rs_usage self),
        row_duration = gw_now gw - tel_started tel\<rparr>]" "class_of e terminal"
    by auto
  then show "attempt_closed (rs_reservation self) permit (tel_candidate tel) gw
      (end_permit how permit (settlement_drop self gw))"
    by (intro attempt_closedI [where how = e and permit_end = how and mid = "settlement_drop self gw"])
      (simp_all add: settlement_drop_rows(3,4) [OF assms(1)])
qed

lemma closed_abandoned:
  assumes "dispatched r" "tel_dispatched tel"
  shows "attempt_closed r permit (tel_candidate tel) gw
    (drop_reservation r (telemetry_drop tel (end_permit how permit gw)))"
  by (rule attempt_closedI [where how = Abandoned and permit_end = how and mid = gw])
    (simp_all add: assms drop_dispatched_local telemetry_drop_def)+

lemma closed_status:
  assumes "dispatched r" "failed_status ge w failure header r permit tel gw = (gw', result)"
  shows "attempt_closed r permit (tel_candidate tel) gw gw' \<and> gw_logical gw' = gw_logical gw"
proof -
  have "attempt_closed r permit (tel_candidate tel) gw
      (drop_reservation r (end_permit how permit (telemetry_finish ClassActual None tel gw)))" for how
    by (rule attempt_closedI [where how = Abandoned and permit_end = how and
          mid = "telemetry_finish ClassActual None tel gw"]) (simp_all add: assms drop_dispatched_local)+
  with assms(2) show ?thesis by (auto simp: failed_status_def Let_def split: UpstreamStatusFailure.split_asm)
qed

lemma wait_for_later: "wait_for cutoff limit answer now = (now', r) \<Longrightarrow> now \<le> now'"
  by (auto simp: wait_for_def Let_def split: if_split_asm)

subsection \<open>The stages of an attempt\<close>

definition attempt_sound ::
    "AttemptReservation \<Rightarrow> TargetAttemptPermit \<Rightarrow> Candidate \<Rightarrow> 'c Gateway \<Rightarrow> 'c Attempted \<Rightarrow> bool" where
  "attempt_sound r permit candidate gw attempt \<longleftrightarrow>
     (let gw' = ad_gateway attempt in
      case ad_result attempt of
        AttemptResponse (StreamResponse so) \<Rightarrow>
          ad_logical attempt = None \<and> stream_live so \<and> so_permit so = permit
          \<and> rs_reservation (so_settlement so) = mark_dispatched r
          \<and> map_option tel_candidate (rs_telemetry (so_settlement so)) = Some candidate
          \<and> snd (gw_admission gw') = snd (gw_admission gw) \<and> gw_protection gw' = gw_protection gw
          \<and> gw_attempts gw' = gw_attempts gw \<and> gw_logical gw' = gw_logical gw
      | AttemptResponse (JsonResponse _) \<Rightarrow>
          attempt_closed r permit candidate gw gw' \<and> logged_once gw gw' ''success''
          \<and> map_option lt_recorded (ad_logical attempt) = Some True
      | _ \<Rightarrow>
          attempt_closed r permit candidate gw gw' \<and> gw_logical gw' = gw_logical gw
          \<and> map_option lt_recorded (ad_logical attempt) = Some False)"

lemma attempt_sound_later:
  assumes "attempt_sound r permit candidate (gw\<lparr>gw_now := now\<rparr>) attempt" "gw_now gw \<le> now"
  shows "attempt_sound r permit candidate gw attempt"
  using assms attempt_closed_later [where r = r and permit = permit and candidate = candidate and gw = gw and now = now
    and gw' = "ad_gateway attempt"]
  by (auto simp: attempt_sound_def logged_once_def Let_def split: AttemptResult.split DownstreamResponse.split)

lemma attempt_sound_mark [simp]:
  "attempt_sound (mark_dispatched r) permit candidate gw attempt \<longleftrightarrow> attempt_sound r permit candidate gw attempt"
  by (simp add: attempt_sound_def mark_dispatched_def [of "mark_dispatched r"] Let_def
      split: AttemptResult.split DownstreamResponse.split) (simp add: mark_dispatched_def)

lemma attempted_simps [simp]:
  "ad_gateway (attempted logical result gw) = gw" "ad_logical (attempted logical result gw) = logical"
  "ad_result (attempted logical result gw) = result"
  by (simp_all add: attempted_def)

lemma sound_closed:
  "attempt_closed r permit candidate gw gw' \<Longrightarrow> gw_logical gw' = gw_logical gw \<Longrightarrow> \<not> lt_recorded logical
    \<Longrightarrow> attempt_sound r permit candidate gw (attempted (Some logical) (AttemptFailed failure) gw')"
  "attempt_closed r permit candidate gw gw' \<Longrightarrow> gw_logical gw' = gw_logical gw \<Longrightarrow> \<not> lt_recorded logical
    \<Longrightarrow> attempt_sound r permit candidate gw (attempted (Some logical) AttemptDropped gw')"
  by (simp_all add: attempt_sound_def)

lemma persist_rows:
  assumes "persist_state_origin ge admission candidate i gw = (gw', stored)"
  shows "snd (gw_admission gw') = snd (gw_admission gw)" "gw_protection gw' = gw_protection gw"
    "gw_attempts gw' = gw_attempts gw" "gw_logical gw' = gw_logical gw" "gw_now gw' = gw_now gw"
  using assms by (auto simp: persist_state_origin_def Let_def split: if_split_asm prod.split_asm)

lemma persists_rows:
  "persist_state_origins ge admission candidate ids gw = (gw', stored) \<Longrightarrow>
     snd (gw_admission gw') = snd (gw_admission gw) \<and> gw_protection gw' = gw_protection gw
     \<and> gw_attempts gw' = gw_attempts gw \<and> gw_logical gw' = gw_logical gw \<and> gw_now gw' = gw_now gw"
proof (induction ids arbitrary: gw)
  case (Cons i ids)
  obtain gw1 ok where one: "persist_state_origin ge admission candidate i gw = (gw1, ok)" by fastforce
  with Cons show ?case using persist_rows [OF one] by (cases ok) auto
qed simp

lemma attempt_closed_cong:
  assumes "attempt_closed r permit candidate mid gw'"
    and "snd (gw_admission mid) = snd (gw_admission gw)" "gw_protection mid = gw_protection gw"
    and "gw_attempts mid = gw_attempts gw" "gw_now mid = gw_now gw"
  shows "attempt_closed r permit candidate gw gw'"
proof -
  have "gw_protection (end_permit how permit (mid\<lparr>gw_now := at\<rparr>)) = gw_protection (end_permit how permit (gw\<lparr>gw_now := at\<rparr>))"
    for how at by (rule end_permit_cong) (simp_all add: assms)
  with assms show ?thesis by (simp add: attempt_closed_def)
qed

lemma non_streaming_sound:
  fixes gw :: "'c Gateway"
  assumes "dispatched r" "\<not> released r" "\<not> lt_recorded logical"
  shows "attempt_sound r permit (tel_candidate tel) gw (non_streaming_response ge w feed client admission candidate
    reliability until r permit tel logical gw)"
proof -
  let ?s = "ResponseSettlement_new r tel"
  define limit where "limit = bounded_phase_timeout until
    (override (body_timeout_override_ms (timeout_overrides (cand_target candidate)))
      (body_timeout_ms (deadline_policy reliability))) (gw_now gw)"
  obtain now waited where wait: "wait_for until limit (read_body (response_limit client admission) feed []) (gw_now gw)
      = (now, waited)" by fastforce
  let ?gw = "gw\<lparr>gw_now := now\<rparr>"
  have closed: "attempt_closed r permit (tel_candidate tel) ?gw (settlement_drop ?s (end_permit how permit ?gw))"
      "gw_logical (settlement_drop ?s (end_permit how permit ?gw)) = gw_logical ?gw" for how
    using closed_settlement(1) [of ?s tel permit ?gw how] settlement_drop_rows(2) [of ?s tel "end_permit how permit ?gw"]
      assms(1,2)
    by (simp_all add: ResponseSettlement_new_def)
  have finished: "attempt_closed r permit (tel_candidate tel) g
        (end_permit how permit (settlement_drop (settlement_observe usage ?s) g))"
      "gw_logical (settlement_drop (settlement_observe usage ?s) g) = gw_logical g" for how usage and g :: "'c Gateway"
    using closed_settlement(2) [of "settlement_observe usage ?s" tel permit g how]
      settlement_drop_rows(2) [of "settlement_observe usage ?s" tel g] assms(1,2)
    by (simp_all add: ResponseSettlement_new_def)
  have "attempt_sound r permit (tel_candidate tel) ?gw (non_streaming_response ge w feed client admission candidate
      reliability until r permit tel logical gw)"
  proof (cases "\<exists>body v. waited = Answered (Some body) \<and> we_json (ge_wire ge) body = Some v")
    case False
    have failed: "attempt_sound r permit (tel_candidate tel) ?gw (attempted (Some logical) result
        (settlement_drop ?s (end_permit how permit ?gw)))"
      if "result = AttemptDropped \<or> (\<exists>failure. result = AttemptFailed failure)" for how result
      using that sound_closed [OF closed assms(3)] by auto
    show ?thesis
    proof (cases waited)
      case (Answered answer)
      with False failed show ?thesis
        by (cases answer) (simp_all add: non_streaming_response_def wait Let_def split: option.split flip: limit_def)
    qed (use failed in \<open>simp_all add: non_streaming_response_def wait Let_def flip: limit_def\<close>)
  next
    case True
    then obtain body v where v: "waited = Answered (Some body)" "we_json (ge_wire ge) body = Some v" by blast
    let ?d = "cand_deployment candidate"
    let ?usage = "extract_json_usage (dep_transport_kind ?d) v"
    obtain gw1 stored where stored: "(case response_state_id (dep_transport_kind ?d) v of
        None \<Rightarrow> (?gw, True)
      | Some state_id \<Rightarrow> persist_state_origin ge admission candidate state_id ?gw) = (gw1, stored)" by fastforce
    then have gw1: "snd (gw_admission gw1) = snd (gw_admission ?gw)" "gw_protection gw1 = gw_protection ?gw"
      "gw_attempts gw1 = gw_attempts ?gw" "gw_logical gw1 = gw_logical ?gw" "gw_now gw1 = gw_now ?gw"
      by (auto split: option.split_asm dest: persist_rows)
    let ?gone = "end_permit PermitSucceeded permit (settlement_drop (settlement_observe ?usage ?s) gw1)"
    have ended: "attempt_closed r permit (tel_candidate tel) ?gw ?gone" "gw_logical ?gone = gw_logical ?gw"
      using attempt_closed_cong [OF finished(1) gw1(1,2,3,5)] finished(2) [of ?usage gw1] gw1(4) by simp_all
    show ?thesis
    proof (cases stored)
      case False
      with ended assms(3) show ?thesis
        by (simp add: non_streaming_response_def wait v stored Let_def sound_closed flip: limit_def)
    next
      case stored': True
      obtain lt gw2 where finish: "logical_finish ''success'' (Some ?usage) (Some ?d) (logical_observe ?usage ?d logical)
          ?gone = (lt, gw2)" by fastforce
      have "lt_recorded lt" "gw_logical gw2 = gw_logical ?gone @ [last (gw_logical gw2)]"
        "lr_outcome (last (gw_logical gw2)) = ''success''" "gw_attempts gw2 = gw_attempts ?gone"
        "gw_protection gw2 = gw_protection ?gone" "gw_admission gw2 = gw_admission ?gone"
        using finish assms(3) by (auto simp: logical_finish_def record_logical_def)
      moreover have "attempt_closed r permit (tel_candidate tel) ?gw gw2"
        using ended(1) calculation(4-6) by (simp add: attempt_closed_def)
      ultimately show ?thesis using stored' ended(2)
        by (auto simp: non_streaming_response_def wait v stored finish Let_def attempt_sound_def logged_once_def
            simp flip: limit_def)
    qed
  qed
  then show ?thesis by (rule attempt_sound_later) (rule wait_for_later [OF wait])
qed

definition same_precommit :: "Precommit \<Rightarrow> Precommit \<Rightarrow> bool" where
  "same_precommit p q \<longleftrightarrow>
     rs_telemetry (pre_settlement q) = rs_telemetry (pre_settlement p)
     \<and> rs_reservation (pre_settlement q) = rs_reservation (pre_settlement p)
     \<and> lt_recorded (pre_logical q) = lt_recorded (pre_logical p)"

lemma precommit_chunk_same:
  "precommit_chunk we policy maximum required d chunk (p\<lparr>pre_feed := feed\<rparr>) = (q, e) \<Longrightarrow> same_precommit p q"
  by (auto simp: precommit_chunk_def same_precommit_def Let_def split: prod.split_asm option.split_asm)

lemma precommit_loop_same:
  "precommit_loop we policy maximum required d until classify feed now p = (now', q, e)
    \<Longrightarrow> now \<le> now' \<and> same_precommit p q"
proof (induction feed arbitrary: now p)
  case Nil
  then show ?case
    by (subst (asm) precommit_loop.simps)
      (auto simp: Let_def same_precommit_def dest: wait_for_later split: prod.split_asm Waited.split_asm if_split_asm)
next
  case (Cons a feed)
  show ?case
  proof (cases "\<exists>now1 chunk p1. now \<le> now1 \<and> precommit_chunk we policy maximum required d chunk (p\<lparr>pre_feed := feed\<rparr>)
      = (p1, None) \<and> precommit_loop we policy maximum required d until classify feed now1 p1 = (now', q, e)")
    case True
    with Cons.IH precommit_chunk_same show ?thesis unfolding same_precommit_def by (metis le_trans)
  next
    case False
    with Cons.prems show ?thesis
      by (subst (asm) precommit_loop.simps)
        (auto simp: Let_def same_precommit_def dest!: wait_for_later
          dest: precommit_chunk_same [unfolded same_precommit_def]
          split: prod.split_asm Waited.split_asm if_split_asm ChunkAnswer.split_asm option.split_asm)
  qed
qed

lemma streaming_sound:
  fixes gw :: "'c Gateway"
  assumes "\<not> released r" "\<not> lt_recorded logical"
  shows "attempt_sound r permit (tel_candidate tel) gw (streaming_response ge w feed client admission candidate
    reliability lifetime (mark_dispatched r) permit tel logical gw)"
proof -
  let ?d = "cand_deployment candidate"
  define policy where "policy = commitment_policy reliability"
  define maximum where "maximum = min (stream_precommit_buffer_bytes policy) (response_limit client admission)"
  define classify where "classify = min (precommit_at lifetime) (gw_now gw + duration_from_millis
    (pre_commit_classification_timeout_ms (deadline_policy reliability)))"
  let ?start = "\<lparr>pre_feed = feed,
    pre_inspection = StreamInspection_new (dep_transport_kind ?d) (response_limit client admission), pre_bytes = [],
    pre_settlement = ResponseSettlement_new (mark_dispatched r) tel, pre_logical = logical\<rparr>"
  obtain now p e where loop: "precommit_loop (ge_wire ge) policy maximum
      (requires_state_origin (dep_transport_kind ?d)) ?d (precommit_at lifetime) classify feed (gw_now gw) ?start
      = (now, p, e)" by (metis prod_cases3)
  let ?gw = "gw\<lparr>gw_now := now\<rparr>"
  have same: "gw_now gw \<le> now" "rs_telemetry (pre_settlement p) = Some tel"
    "rs_reservation (pre_settlement p) = mark_dispatched r" "\<not> lt_recorded (pre_logical p)"
    using precommit_loop_same [OF loop] assms(2) by (simp_all add: same_precommit_def ResponseSettlement_new_def)
  have marked: "dispatched (mark_dispatched r)" "\<not> released (mark_dispatched r)"
    using assms(1) by (simp_all add: mark_dispatched_def)
  have closed: "attempt_closed r permit (tel_candidate tel) g (settlement_drop (pre_settlement p) (end_permit how permit g))"
      "gw_logical (settlement_drop (pre_settlement p) (end_permit how permit g)) = gw_logical g"
    for how and g :: "'c Gateway"
    using closed_settlement(1) [of "pre_settlement p" tel permit g how]
      settlement_drop_rows(2) [of "pre_settlement p" tel "end_permit how permit g"] same marked by simp_all
  have failed: "attempt_sound r permit (tel_candidate tel) ?gw (attempted (Some (pre_logical p)) result
      (settlement_drop (pre_settlement p) (end_permit how permit ?gw)))"
    if "result = AttemptDropped \<or> (\<exists>failure. result = AttemptFailed failure)" for how result
    using that same(4) by (auto intro!: sound_closed simp: closed)
  have "attempt_sound r permit (tel_candidate tel) ?gw (streaming_response ge w feed client admission candidate
    reliability lifetime (mark_dispatched r) permit tel logical gw)"
  proof (cases e)
    case PrecommitReady
    obtain gw1 stored where stored: "persist_state_origins ge admission candidate
        (sorted_list_of_set (observed_state_ids (ins_inspector (pre_inspection p)))) ?gw = (gw1, stored)" by fastforce
    note gw1 = persists_rows [OF stored]
    have "attempt_closed r permit (tel_candidate tel) ?gw
        (settlement_drop (pre_settlement p) (end_permit PermitSucceeded permit gw1))"
      by (rule attempt_closed_cong [OF closed(1)]) (use gw1 in auto)
    with PrecommitReady same gw1 closed(2) [of PermitSucceeded gw1] show ?thesis
      by (cases stored) (simp_all add: streaming_response_def loop stored Let_def attempt_sound_def stream_live_def
          flip: policy_def maximum_def classify_def)
  qed (use failed in \<open>simp_all add: streaming_response_def loop Let_def flip: policy_def maximum_def classify_def\<close>)
  then show ?thesis by (rule attempt_sound_later) (rule same(1))
qed

lemma receive_sound:
  fixes gw :: "'c Gateway"
  assumes "\<not> released r" "\<not> lt_recorded logical"
  shows "attempt_sound r permit (tel_candidate tel) gw (receive_response ge w feed status header client admission
    native candidate reliability lifetime (mark_dispatched r) permit tel logical gw)"
proof (cases "classify_upstream_status status")
  case None
  have marked: "dispatched (mark_dispatched r)" "\<not> released (mark_dispatched r)"
    using assms(1) by (simp_all add: mark_dispatched_def)
  have "attempt_closed r permit (tel_candidate tel) gw
      (end_permit PermitDropped permit (not_dispatched (mark_dispatched r) tel gw))"
    using closed_not_dispatched(1) [of "mark_dispatched r" permit tel gw PermitDropped] by simp
  moreover have "attempt_sound r permit (tel_candidate tel) gw (non_streaming_response ge w feed client admission
      candidate reliability (precommit_at lifetime) (mark_dispatched r) permit tel logical gw)"
    using non_streaming_sound [OF marked assms(2)] by simp
  ultimately show ?thesis using None streaming_sound [OF assms] assms(2)
    by (cases "response_mode (intent native)") (simp_all add: receive_response_def sound_closed)
next
  case (Some failure)
  obtain gw1 result where failed: "failed_status ge w failure header (mark_dispatched r) permit tel gw = (gw1, result)"
    by fastforce
  have "dispatched (mark_dispatched r)" by (simp add: mark_dispatched_def)
  from closed_status [OF this failed] Some failed assms(2) show ?thesis
    by (simp add: receive_response_def sound_closed)
qed

lemma send_sound:
  fixes gw :: "'c Gateway"
  assumes "\<not> released r" "\<not> lt_recorded logical"
  shows "attempt_sound r permit (tel_candidate tel) gw (send_request ge w request client admission native candidate
    reliability lifetime r permit tel logical gw)"
proof -
  let ?tel = "tel\<lparr>tel_dispatched := True\<rparr>"
  define limit where "limit = bounded_phase_timeout (precommit_at lifetime)
    (override (response_header_timeout_override_ms (timeout_overrides (cand_target candidate)))
      (response_header_timeout_ms (deadline_policy reliability))) (gw_now gw)"
  obtain now waited where wait: "wait_for (precommit_at lifetime) limit (aw_send w request) (gw_now gw) = (now, waited)"
    by fastforce
  let ?gw = "gw\<lparr>gw_now := now\<rparr>"
  have marked: "dispatched (mark_dispatched r)" by (simp add: mark_dispatched_def)
  have abandoned: "attempt_closed r permit (tel_candidate tel) ?gw
      (drop_reservation (mark_dispatched r) (telemetry_drop ?tel (end_permit how permit ?gw)))" for how
    using closed_abandoned [OF marked, of ?tel permit ?gw how] by simp
  have unsent: "attempt_closed r permit (tel_candidate tel) ?gw
      (not_dispatched (mark_dispatched r) ?tel (end_permit how permit ?gw))" for how
    using closed_not_dispatched(2) [of "mark_dispatched r" permit ?tel ?gw how] by simp
  have "attempt_sound r permit (tel_candidate tel) ?gw (send_request ge w request client admission native candidate
    reliability lifetime r permit tel logical gw)"
  proof (cases waited)
    case (Answered answer)
    then show ?thesis
      using receive_sound [OF assms, of permit ?tel ?gw] abandoned unsent assms(2)
      by (cases answer) (simp_all add: send_request_def wait Let_def sound_closed telemetry_drop_def flip: limit_def)
  qed (use abandoned assms(2) in \<open>simp_all add: send_request_def wait Let_def sound_closed telemetry_drop_def
    flip: limit_def\<close>)
  then show ?thesis by (rule attempt_sound_later) (rule wait_for_later [OF wait])
qed

lemma execute_sound:
  assumes "\<not> released r" "\<not> dispatched r" "\<not> lt_recorded logical"
  shows "attempt_sound r permit candidate gw
    (execute_attempt ge w admission native candidate reliability lifetime r permit logical gw)"
proof -
  let ?tel = "AttemptTelemetry_new candidate r (gw_now gw)"
  have tel: "tel_candidate ?tel = candidate" "\<not> tel_dispatched ?tel" by (simp_all add: AttemptTelemetry_new_def)
  have unsent: "attempt_closed r permit candidate g (end_permit how permit (not_dispatched r ?tel g))"
    for how and g :: "'a Gateway"
    using closed_not_dispatched(1) [of r permit ?tel g how] by (simp add: tel)
  show ?thesis
  proof (cases "prepare_attempt ge admission native candidate")
    case (Inl failure)
    with unsent assms(3) show ?thesis by (simp add: execute_attempt_def sound_closed)
  next
    case (Inr prepared)
    obtain client body url where prepared: "prepared = (client, body, url)" by (metis prod_cases3)
    define limit where "limit = bounded_phase_timeout (precommit_at lifetime)
      (override (connect_timeout_override_ms (timeout_overrides (cand_target candidate)))
        (connect_timeout_ms (deadline_policy reliability))) (gw_now gw)"
    obtain now waited where wait: "wait_for (precommit_at lifetime) limit (aw_authenticate w) (gw_now gw) = (now, waited)"
      by fastforce
    let ?gw = "gw\<lparr>gw_now := now\<rparr>"
    have "attempt_closed r permit candidate ?gw
        (end_permit PermitDropped permit (drop_reservation r (telemetry_drop ?tel ?gw)))"
      by (intro attempt_closedI [where how = Released and permit_end = PermitDropped and mid = ?gw])
        (simp_all add: telemetry_drop_def tel end_permit_def drop_undispatched_local [OF assms(2)])+
    then have "attempt_sound r permit candidate ?gw
        (execute_attempt ge w admission native candidate reliability lifetime r permit logical gw)"
      using unsent assms(3) send_sound [OF assms(1,3), of permit ?tel ?gw]
      by (cases waited) (simp_all add: execute_attempt_def Inr prepared wait Let_def sound_closed telemetry_drop_def tel
          split: option.split flip: limit_def)
    then show ?thesis by (rule attempt_sound_later) (rule wait_for_later [OF wait])
  qed
qed


end
