(* ===== verification/Dispatch.thy ===== *)
theory Dispatch
  imports AttemptLaws
begin

section \<open>Dispatching a request\<close>

text \<open>
  \<open>dispatch\<close> and \<open>dispatch_admitted\<close> of \<open>gateway/dispatch.rs\<close>: the bounds of the
  request, its admission, the candidates it may be sent to, and the loop of attempts with its retries and
  failovers.  \<open>worlds turn\<close> is what the environment answers in the turn \<open>turn\<close> of the loop.

  A coordinator call takes no time, so the only awaits that the deadline can cut are those of an attempt; the
  request's metrics and trace spans are not modelled.
\<close>

subsection \<open>The request and its candidates\<close>

definition validate_request_bounds :: "AdmissionContext \<Rightarrow> NativeRequest \<Rightarrow> ProtocolError + unit" where
  "validate_request_bounds admission native =
     (if length (original_body native) > max_request_body_bytes (effective_request_policy admission)
      then Inl (gateway_error admission ErrRequestTooLarge)
      else case requested_output_bound (intent native) of
        Some bound \<Rightarrow>
          if bound > max_output_units (effective_request_policy admission)
          then Inl (ProtocolError_new (req_family native) ErrInvalidRequest (ctx_request_id admission)
            ''requested output exceeds the route limit'')
          else Inr ()
      | None \<Rightarrow> Inr ())"

definition candidate_policy_ready :: "AdmissionContext \<Rightarrow> Candidate \<Rightarrow> bool" where
  "candidate_policy_ready admission candidate \<longleftrightarrow>
     (case ctx_principal admission of
        LocalUserPrincipal _ \<Rightarrow> True
      | GatewayKeyPrincipal _ verifier \<Rightarrow>
          active_budget_version (aget (key_budget_policies (catalog (snapshot (ctx_generation admission))))
            (gk_budget_policy_id verifier)) \<noteq> None
          \<and> active_budget_version (aget (origin_budgets (ctx_organization admission))
            (dep_origin (cand_deployment candidate))) \<noteq> None)"

definition origin_is_of_request :: "AdmissionContext \<Rightarrow> NativeRequest \<Rightarrow> StateOrigin \<Rightarrow> bool" where
  "origin_is_of_request admission native origin \<longleftrightarrow>
     so_organization_id origin = org_id (ctx_organization admission)
     \<and> so_principal_kind origin = principal_kind_str (ctx_principal admission)
     \<and> so_principal_affinity_id origin = affinity_uuid (ctx_principal admission)
     \<and> so_route_id origin = route_id (ctx_route admission)
     \<and> so_protocol_family origin = IngressProtocolFamily_as_str (req_family native)"

definition origin_is_candidate :: "StateOrigin \<Rightarrow> Candidate \<Rightarrow> bool" where
  "origin_is_candidate origin candidate \<longleftrightarrow>
     (let d = cand_deployment candidate; key = client_key d in
      so_target_id origin = target_id (cand_target candidate) \<and> so_deployment_id origin = dep_id d
      \<and> so_deployment_config_version origin = dep_config_version d
      \<and> so_endpoint_id origin = dep_endpoint_id d
      \<and> so_endpoint_config_version origin = cck_endpoint_config_version key
      \<and> so_credential_id origin = cck_credential_id key
      \<and> so_credential_state_identity_version origin = dep_credential_state_identity_version d
      \<and> so_transport_kind origin = TransportKind_as_str (dep_transport_kind d)
      \<and> so_origin origin = accounting_origin_str (dep_origin d))"

definition candidates_for_request ::
    "'c GatewayEnv \<Rightarrow> AdmissionContext \<Rightarrow> NativeRequest \<Rightarrow> 'c \<Rightarrow> ProtocolError + Candidate list" where
  "candidates_for_request ge admission native c =
     (case continuation_reference (intent native) of
        None \<Rightarrow> Inr (ctx_candidates admission)
      | Some reference \<Rightarrow>
          let unavailable = gateway_error admission ErrStateOriginUnavailable in
          if ge_coordinator ge = None then Inl unavailable
          else
            (case ge_get_origin ge c (org_id (ctx_organization admission))
                (principal_kind_str (ctx_principal admission)) (affinity_uuid (ctx_principal admission))
                (route_id (ctx_route admission)) (IngressProtocolFamily_as_str (req_family native)) reference of
               Inl _ \<Rightarrow> Inl unavailable
             | Inr origin \<Rightarrow>
                 if \<not> origin_is_of_request admission native origin then Inl unavailable
                 else map_sum id (\<lambda>candidate. [candidate])
                   (ok_or unavailable (List.find (origin_is_candidate origin) (ctx_candidates admission)))))"

fun logical_admission_kind :: "LogicalAdmissionError \<Rightarrow> ProtocolErrorKind" where
  "logical_admission_kind RateDenied = ErrRateLimited"
| "logical_admission_kind ConcurrencyDenied = ErrOverloaded"
| "logical_admission_kind BudgetDenied = ErrBudgetDenied"
| "logical_admission_kind PolicyUnavailable = ErrRouteUnavailable"
| "logical_admission_kind CoordinatorUnavailable = ErrRouteUnavailable"

definition logical_admission_error :: "AdmissionContext \<Rightarrow> LogicalAdmissionError \<Rightarrow> ProtocolError" where
  "logical_admission_error admission e = gateway_error admission (logical_admission_kind e)"

subsection \<open>The loop of attempts\<close>

datatype TargetEnd =
  TargetNext "ProtocolErrorKind option"
| TargetReturned "ProtocolError + DownstreamResponse"
| TargetDropped

text \<open>The state of the loops: the gateway, the owner of the request's record, and the counters.\<close>

record 'c Loop =
  lp_gateway :: "'c Gateway"
  lp_logical :: "LogicalTelemetry option"
  lp_attempts :: nat
  lp_turn :: nat

definition failure_parts :: "AttemptFailure \<Rightarrow> RetryCondition option \<times> ProtocolErrorKind \<times> nat option" where
  "failure_parts failure =
     (case failure of
        Failure condition kind \<Rightarrow> (Some condition, kind, None)
      | RetryAfter condition kind delay \<Rightarrow> (Some condition, kind, Some delay)
      | FailoverOnly kind \<Rightarrow> (None, kind, None))"

definition fatal_kind :: "ProtocolErrorKind \<Rightarrow> bool" where
  "fatal_kind kind \<longleftrightarrow>
     kind \<in> {ErrInvalidRequest, ErrRequestTooLarge, ErrUnsupportedCapability, ErrStateOriginUnavailable}"

definition retry_allowed ::
    "ReliabilityPolicySnapshot \<Rightarrow> NativeRequest \<Rightarrow> RetryCondition option \<Rightarrow> nat \<Rightarrow> nat \<Rightarrow> bool" where
  "retry_allowed reliability native condition same_target attempts \<longleftrightarrow>
     replay_safe (intent native)
     \<and> (case condition of None \<Rightarrow> False | Some c \<Rightarrow> c \<in> conditions (retry_policy reliability))
     \<and> same_target \<le> max_same_target_retries (attempt_policy reliability)
     \<and> attempts < max_total_attempts (attempt_policy reliability)"

definition failover_refused :: "ReliabilityPolicySnapshot \<Rightarrow> NativeRequest \<Rightarrow> bool" where
  "failover_refused reliability native \<longleftrightarrow>
     \<not> failover_enabled (failover_policy reliability)
     \<or> require_replay_safe_request (failover_policy reliability) \<and> \<not> replay_safe (intent native)"

definition reserve_for_attempt ::
    "'c GatewayEnv \<Rightarrow> AttemptWorld \<Rightarrow> AdmissionContext \<Rightarrow> NativeRequest \<Rightarrow> Candidate \<Rightarrow> 'c Gateway
      \<Rightarrow> 'c Gateway \<times> AttemptReservation option" where
  "reserve_for_attempt ge w admission native candidate gw =
     (case ctx_principal admission of
        LocalUserPrincipal _ \<Rightarrow> (gw, Some (AttemptReservation_unconstrained None))
      | GatewayKeyPrincipal _ verifier \<Rightarrow>
          let (adm, reserved) = reserve_attempt (ge_coordinator ge) (aw_wall w) (aw_clock w) (aw_grant w)
                (ctx_generation admission) verifier candidate (length (original_body native))
                (maximum_output_units admission candidate) (gw_admission gw) in
          (gw\<lparr>gw_admission := adm\<rparr>, case reserved of Inl _ \<Rightarrow> None | Inr r \<Rightarrow> Some r))"

text \<open>One turn of the inner loop, after its guard: what is tried, or why not.\<close>

datatype 'c Turn =
  TurnStopped "'c Gateway" ProtocolErrorKind
| TurnAttempted "'c Attempted"

definition attempt_turn ::
    "'c GatewayEnv \<Rightarrow> AttemptWorld \<Rightarrow> AdmissionContext \<Rightarrow> NativeRequest \<Rightarrow> ReliabilityPolicySnapshot
      \<Rightarrow> RequestLifetime \<Rightarrow> Candidate \<Rightarrow> LogicalTelemetry \<Rightarrow> 'c Gateway \<Rightarrow> 'c Turn" where
  "attempt_turn ge w admission native reliability lifetime candidate logical gw =
     (case reserve_for_attempt ge w admission native candidate gw of
        (gw, None) \<Rightarrow> TurnStopped gw ErrBudgetDenied
      | (gw, Some reservation) \<Rightarrow>
          let (protection, acquired) = try_acquire_target candidate (circuit_policy reliability) (gw_now gw)
                (aw_epoch w) (gw_now gw) (gw_protection gw);
              gw = gw\<lparr>gw_protection := protection\<rparr> in
          (case acquired of
             Inl _ \<Rightarrow> TurnStopped (release_reservation reservation gw) ErrOverloaded
           | Inr permit \<Rightarrow>
               TurnAttempted (execute_attempt ge w admission native candidate reliability lifetime reservation permit
                 logical gw)))"

definition pass_time :: "nat \<Rightarrow> 'c Gateway \<Rightarrow> 'c Gateway" where
  "pass_time t gw = gw\<lparr>gw_now := gw_now gw + t\<rparr>"

text \<open>
  The inner loop, over the attempts at one target.  \<open>attempts\<close> stays below its bound, a
  \<open>u8\<close>, and \<open>same_target\<close> below \<open>attempts\<close>, so neither addition saturates.
\<close>

function target_loop ::
    "'c GatewayEnv \<Rightarrow> (nat \<Rightarrow> AttemptWorld) \<Rightarrow> AdmissionContext \<Rightarrow> NativeRequest \<Rightarrow> ReliabilityPolicySnapshot
      \<Rightarrow> RequestLifetime \<Rightarrow> Candidate \<Rightarrow> nat \<Rightarrow> ProtocolErrorKind option \<Rightarrow> 'c Loop \<Rightarrow> 'c Loop \<times> TargetEnd" where
  "target_loop ge worlds admission native reliability lifetime candidate same_target last_error lp =
     (let w = worlds (lp_turn lp); gw = pass_time (aw_idle w) (lp_gateway lp); attempts = lp_attempts lp;
          lp = lp\<lparr>lp_gateway := gw, lp_turn := Suc (lp_turn lp)\<rparr> in
      if attempts \<ge> max_total_attempts (attempt_policy reliability)
         \<or> same_target > max_same_target_retries (attempt_policy reliability) \<or> gw_now gw \<ge> precommit_at lifetime
      then (lp, TargetNext last_error)
      else case lp_logical lp of
        None \<Rightarrow> (lp, TargetDropped) \<comment> \<open>only a returned stream takes the record of the request\<close>
      | Some logical \<Rightarrow>
          (case attempt_turn ge w admission native reliability lifetime candidate logical gw of
             TurnStopped gw kind \<Rightarrow> (lp\<lparr>lp_gateway := gw\<rparr>, TargetNext (Some kind))
           | TurnAttempted attempt \<Rightarrow>
               let attempts = Suc attempts; same_target = Suc same_target;
                   lp = lp\<lparr>lp_gateway := ad_gateway attempt, lp_logical := ad_logical attempt,
                     lp_attempts := attempts\<rparr> in
               (case ad_result attempt of
                  AttemptDropped \<Rightarrow> (lp, TargetDropped)
                | AttemptResponse response \<Rightarrow> (lp, TargetReturned (Inr response))
                | AttemptFailed failure \<Rightarrow>
                    let (condition, kind, retry_after) = failure_parts failure in
                    if fatal_kind kind then (lp, TargetReturned (Inl (gateway_error admission kind)))
                    else
                      let (waited, now) =
                            (if retry_allowed reliability native condition same_target attempts
                             then retry_backoff (retry_policy reliability) same_target (precommit_at lifetime)
                               retry_after (aw_draw w) (gw_now (ad_gateway attempt))
                             else (False, gw_now (ad_gateway attempt))) in
                      if waited
                      then target_loop ge worlds admission native reliability lifetime candidate same_target
                        (Some kind) (lp\<lparr>lp_gateway := (ad_gateway attempt)\<lparr>gw_now := now\<rparr>\<rparr>)
                      else if failover_refused reliability native
                      then (lp, TargetReturned (Inl (gateway_error admission kind)))
                      else (lp, TargetNext (Some kind)))))"
  by pat_completeness auto

termination
  by (relation "measure (\<lambda>(ge, worlds, admission, native, reliability, lifetime, candidate, same_target, last_error,
      lp). max_total_attempts (attempt_policy reliability) - lp_attempts lp)") auto

declare target_loop.simps [simp del]

fun candidate_loop ::
    "'c GatewayEnv \<Rightarrow> (nat \<Rightarrow> AttemptWorld) \<Rightarrow> AdmissionContext \<Rightarrow> NativeRequest \<Rightarrow> ReliabilityPolicySnapshot
      \<Rightarrow> RequestLifetime \<Rightarrow> Candidate list \<Rightarrow> nat \<Rightarrow> ProtocolErrorKind option \<Rightarrow> 'c Loop \<Rightarrow> 'c Loop \<times> TargetEnd" where
  "candidate_loop ge worlds admission native reliability lifetime [] tried last_error lp =
     (lp, TargetNext last_error)"
| "candidate_loop ge worlds admission native reliability lifetime (candidate # candidates) tried last_error lp =
     (if tried > max_distinct_failover_targets (attempt_policy reliability) then (lp, TargetNext last_error)
      else if \<not> candidate_policy_ready admission candidate
      then candidate_loop ge worlds admission native reliability lifetime candidates tried
        (Some ErrBudgetDenied) lp
      else
        (case target_loop ge worlds admission native reliability lifetime candidate 0 last_error lp of
           (lp, TargetNext last_error) \<Rightarrow>
             candidate_loop ge worlds admission native reliability lifetime candidates
               (saturating_add u8_max tried 1) last_error lp
         | (lp, e) \<Rightarrow> (lp, e)))"

text \<open>\<open>None\<close> is the drop of the future by the deadline.\<close>

definition dispatch_admitted ::
    "'c GatewayEnv \<Rightarrow> (nat \<Rightarrow> AttemptWorld) \<Rightarrow> AdmissionContext \<Rightarrow> NativeRequest \<Rightarrow> RequestLifetime \<Rightarrow> 'c Loop
      \<Rightarrow> 'c Loop \<times> (ProtocolError + DownstreamResponse) option" where
  "dispatch_admitted ge worlds admission native lifetime lp =
     (case candidates_for_request ge admission native (fst (gw_admission (lp_gateway lp))) of
        Inl e \<Rightarrow> (lp, Some (Inl e))
      | Inr candidates \<Rightarrow>
          let candidates = (if has_semantic_reference (req_family native) (envelope native)
                then take 1 candidates else candidates) in
          (case active_reliability admission of
             None \<Rightarrow> (lp, Some (Inl (gateway_error admission ErrRouteUnavailable)))
           | Some reliability \<Rightarrow>
               (case candidate_loop ge worlds admission native reliability lifetime candidates 0 None lp of
                  (lp, TargetReturned r) \<Rightarrow> (lp, Some r)
                | (lp, TargetDropped) \<Rightarrow> (lp, None)
                | (lp, TargetNext last_error) \<Rightarrow>
                    (lp, Some (Inl (gateway_error admission
                      (if gw_now (lp_gateway lp) \<ge> precommit_at lifetime then ErrDeadlineExceeded
                       else case last_error of None \<Rightarrow> ErrRouteUnavailable | Some kind \<Rightarrow> kind)))))))"

subsection \<open>The whole request\<close>

text \<open>
  A response with the permits that \<open>hold_request_permits\<close> keeps until it has ended; the permits of a
  request that fails are dropped at once.
\<close>

record HeldResponse =
  held_response :: DownstreamResponse
  held_permit :: LogicalRequestPermit
  held_until :: instant

record AdmissionWorld =
  dw_idle :: nat
  dw_wall :: int
  dw_clock :: "nat \<Rightarrow> nat"
  dw_lease_clock :: "nat \<Rightarrow> nat"
  dw_rate_grant :: uuid
  dw_fresh :: uuid

definition admit_logical ::
    "'c GatewayEnv \<Rightarrow> AdmissionWorld \<Rightarrow> AdmissionContext \<Rightarrow> NativeRequest \<Rightarrow> 'c Gateway
      \<Rightarrow> 'c Gateway \<times> (LogicalAdmissionError + LogicalRequestPermit)" where
  "admit_logical ge dw admission native gw =
     (case ctx_principal admission of
        LocalUserPrincipal _ \<Rightarrow> (gw, Inr None)
      | GatewayKeyPrincipal _ verifier \<Rightarrow>
          let (adm, result) = admit_gateway_key (ge_coordinator ge) (dw_wall dw) (dw_clock dw) (dw_lease_clock dw)
                (dw_rate_grant dw) (dw_fresh dw) (ctx_generation admission) verifier (length (original_body native))
                (gw_admission gw) in
          (gw\<lparr>gw_admission := adm\<rparr>, result))"

definition is_gateway_key :: "AdmissionContext \<Rightarrow> bool" where
  "is_gateway_key admission \<longleftrightarrow>
     (case ctx_principal admission of GatewayKeyPrincipal _ _ \<Rightarrow> True | LocalUserPrincipal _ \<Rightarrow> False)"

text \<open>What follows the admission, with the permit held.\<close>

definition dispatch_held ::
    "'c GatewayEnv \<Rightarrow> (nat \<Rightarrow> AttemptWorld) \<Rightarrow> AdmissionContext \<Rightarrow> NativeRequest \<Rightarrow> RequestLifetime \<Rightarrow> instant
      \<Rightarrow> 'c Gateway \<Rightarrow> 'c Gateway \<times> (ProtocolError + DownstreamResponse)" where
  "dispatch_held ge worlds admission native lifetime started gw =
     (let telemetry = LogicalTelemetry_new started;
          start = \<lparr>lp_gateway = gw, lp_logical = Some telemetry, lp_attempts = 0, lp_turn = 0\<rparr>;
          (lp, answer) = (if gw_now gw \<ge> precommit_at lifetime then (start, None)
            else dispatch_admitted ge worlds admission native lifetime start);
          result = (case answer of None \<Rightarrow> Inl (gateway_error admission ErrDeadlineExceeded) | Some r \<Rightarrow> r) in
      case result of
        Inr response \<Rightarrow> (lp_gateway lp, Inr response)
      | Inl e \<Rightarrow>
          (case lp_logical lp of
             None \<Rightarrow> (lp_gateway lp, Inl e)
           | Some logical \<Rightarrow> (snd (logical_finish ''failed'' None None logical (lp_gateway lp)), Inl e)))"

definition drop_request_permit ::
    "('c \<Rightarrow> PolicyReference \<Rightarrow> uuid \<Rightarrow> 'c) \<Rightarrow> LogicalRequestPermit \<Rightarrow> 'c Gateway \<Rightarrow> 'c Gateway" where
  "drop_request_permit release_strict permit gw =
     gw\<lparr>gw_admission := LogicalRequestPermit_drop release_strict permit (gw_admission gw)\<rparr>"

definition drop_global_permit :: "'c Gateway \<Rightarrow> 'c Gateway" where
  "drop_global_permit gw = gw\<lparr>gw_protection := release_global () (gw_protection gw)\<rparr>"

definition dispatch ::
    "'c GatewayEnv \<Rightarrow> ('c \<Rightarrow> PolicyReference \<Rightarrow> uuid \<Rightarrow> 'c) \<Rightarrow> AdmissionWorld \<Rightarrow> (nat \<Rightarrow> AttemptWorld)
      \<Rightarrow> AdmissionContext \<Rightarrow> NativeRequest \<Rightarrow> 'c Gateway \<Rightarrow> 'c Gateway \<times> (ProtocolError + HeldResponse)" where
  "dispatch ge release_strict dw worlds admission native gw =
     (let started = gw_now gw; fail = (\<lambda>outcome e gw. (record_logical outcome None None started gw, Inl e)) in
      case RequestLifetime_new admission (response_mode (intent native)) started of
        Inl e \<Rightarrow> (gw, Inl e)
      | Inr lifetime \<Rightarrow>
          (case try_acquire_global (gw_protection gw) of
             (protection, Inl _) \<Rightarrow>
               fail ''admission_denied'' (gateway_error admission ErrOverloaded) (gw\<lparr>gw_protection := protection\<rparr>)
           | (protection, Inr _) \<Rightarrow>
               let gw = gw\<lparr>gw_protection := protection\<rparr> in
               (case validate_request_bounds admission native of
                  Inl e \<Rightarrow> fail ''invalid_request'' e (drop_global_permit gw)
                | Inr _ \<Rightarrow>
                    let gw = pass_time (dw_idle dw) gw in
                    if is_gateway_key admission \<and> gw_now gw \<ge> precommit_at lifetime
                    then fail ''deadline_exceeded'' (gateway_error admission ErrDeadlineExceeded) (drop_global_permit gw)
                    else
                      (case admit_logical ge dw admission native gw of
                         (gw, Inl e) \<Rightarrow>
                           fail ''admission_denied'' (logical_admission_error admission e) (drop_global_permit gw)
                       | (gw, Inr permit) \<Rightarrow>
                           let lifetime = constrain (LogicalRequestPermit_deadline permit) lifetime in
                           (case dispatch_held ge worlds admission native lifetime started gw of
                              (gw, Inl e) \<Rightarrow>
                                (drop_global_permit (drop_request_permit release_strict permit gw), Inl e)
                            | (gw, Inr response) \<Rightarrow>
                                (gw, Inr \<lparr>held_response = response, held_permit = permit,
                                  held_until = terminal_at lifetime\<rparr>))))))"

end
