(* ===== verification/DispatchLaws.thy ===== *)
theory DispatchLaws
  imports Dispatch
begin

section \<open>What dispatching guarantees\<close>

text \<open>
  The bounds on attempts, retries and failovers, the candidates that are tried, and the accounting of a request.
\<close>

subsection \<open>Fresh reservations\<close>

lemma try_reserve_fresh:
  "try_reserve_budget now pair k e est local = (local', Some r) \<Longrightarrow> \<not> released r \<and> \<not> dispatched r"
  by (auto simp: try_reserve_budget_def Let_def split: prod.split_asm if_split_asm option.split_asm)

lemma reserve_attempt_fresh:
  "reserve_attempt coordinator now clock grant_id generation verifier candidate bytes units st = (st', Inr r)
    \<Longrightarrow> \<not> released r \<and> \<not> dispatched r"
  by (auto simp: reserve_attempt_def AttemptReservation_unconstrained_def Let_def dest: try_reserve_fresh
      split: sum.split_asm prod.split_asm if_split_asm option.split_asm)

lemma reserve_for_attempt_fresh:
  "reserve_for_attempt ge w admission native candidate gw = (gw', Some r) \<Longrightarrow> \<not> released r \<and> \<not> dispatched r"
  by (auto simp: reserve_for_attempt_def AttemptReservation_unconstrained_def dest: reserve_attempt_fresh
      split: GatewayPrincipal.split_asm prod.split_asm sum.split_asm)

lemma reserve_for_attempt_rows:
  "reserve_for_attempt ge w admission native candidate gw = (gw', r) \<Longrightarrow>
    gw_attempts gw' = gw_attempts gw \<and> gw_logical gw' = gw_logical gw \<and> gw_now gw' = gw_now gw
    \<and> gw_protection gw' = gw_protection gw"
  by (auto simp: reserve_for_attempt_def split: GatewayPrincipal.split_asm prod.split_asm)

subsection \<open>A turn\<close>

definition streamed :: "TargetEnd \<Rightarrow> bool" where
  "streamed e \<longleftrightarrow> (case e of TargetReturned (Inr (StreamResponse _)) \<Rightarrow> True | _ \<Rightarrow> False)"

definition stream_candidate :: "StreamOwner \<Rightarrow> Candidate option" where
  "stream_candidate so = map_option tel_candidate (rs_telemetry (so_settlement so))"

definition record_kept :: "Candidate set \<Rightarrow> 'c Loop \<Rightarrow> 'c Loop \<Rightarrow> TargetEnd \<Rightarrow> bool" where
  "record_kept C lp lp' e \<longleftrightarrow>
     (case e of
        TargetReturned (Inr (StreamResponse so)) \<Rightarrow>
          lp_logical lp' = None \<and> gw_logical (lp_gateway lp') = gw_logical (lp_gateway lp) \<and> stream_live so
          \<and> (\<exists>c \<in> C. stream_candidate so = Some c)
      | TargetReturned (Inr (JsonResponse _)) \<Rightarrow>
          logged_once (lp_gateway lp) (lp_gateway lp') ''success'' \<and> map_option lt_recorded (lp_logical lp') = Some True
      | _ \<Rightarrow> gw_logical (lp_gateway lp') = gw_logical (lp_gateway lp)
          \<and> map_option lt_recorded (lp_logical lp') = Some False)"

definition loop_sound :: "Candidate set \<Rightarrow> 'c Loop \<Rightarrow> 'c Loop \<times> TargetEnd \<Rightarrow> bool" where
  "loop_sound C lp r \<longleftrightarrow>
     (case r of (lp', e) \<Rightarrow>
        (\<exists>rows. gw_attempts (lp_gateway lp') = gw_attempts (lp_gateway lp) @ rows
           \<and> row_candidate ` set rows \<subseteq> C
           \<and> lp_attempts lp' = lp_attempts lp + length rows + (if streamed e then 1 else 0))
        \<and> record_kept C lp lp' e)"

lemma loop_sound_next:
  "map_option lt_recorded (lp_logical lp) = Some False \<Longrightarrow> loop_sound C lp (lp, TargetNext kind)"
  by (simp add: loop_sound_def record_kept_def streamed_def)

lemma loop_sound_trans:
  assumes "loop_sound C lp (lp1, TargetNext kind)" "loop_sound C lp1 r"
  shows "loop_sound C lp r"
proof -
  obtain lp' e where r: "r = (lp', e)" by (cases r)
  obtain rows1 rows2 where
    "gw_attempts (lp_gateway lp1) = gw_attempts (lp_gateway lp) @ rows1" "row_candidate ` set rows1 \<subseteq> C"
    "lp_attempts lp1 = lp_attempts lp + length rows1"
    "gw_attempts (lp_gateway lp') = gw_attempts (lp_gateway lp1) @ rows2" "row_candidate ` set rows2 \<subseteq> C"
    "lp_attempts lp' = lp_attempts lp1 + length rows2 + (if streamed e then 1 else 0)"
    using assms by (auto simp: loop_sound_def r streamed_def)
  then have "\<exists>rows. gw_attempts (lp_gateway lp') = gw_attempts (lp_gateway lp) @ rows
      \<and> row_candidate ` set rows \<subseteq> C \<and> lp_attempts lp' = lp_attempts lp + length rows + (if streamed e then 1 else 0)"
    by (intro exI [of _ "rows1 @ rows2"]) auto
  moreover have "record_kept C lp lp' e"
    using assms unfolding loop_sound_def r record_kept_def logged_once_def
    by (simp split: TargetEnd.split_asm sum.split_asm DownstreamResponse.split_asm)
  ultimately show ?thesis by (simp add: loop_sound_def r)
qed

lemma loop_sound_mono: "loop_sound C lp r \<Longrightarrow> C \<subseteq> D \<Longrightarrow> loop_sound D lp r"
  by (cases r) (fastforce simp: loop_sound_def record_kept_def split: TargetEnd.split_asm sum.split_asm
      DownstreamResponse.split_asm)

lemma attempt_turn_stopped:
  assumes "attempt_turn ge w admission native reliability lifetime candidate logical gw = TurnStopped gw' kind"
  shows "gw_attempts gw' = gw_attempts gw \<and> gw_logical gw' = gw_logical gw"
  using assms
  by (auto simp: attempt_turn_def Let_def dest!: reserve_for_attempt_rows
      split: prod.split_asm option.split_asm sum.split_asm)

text \<open>How an attempt that was made goes on.\<close>

definition attempt_rows :: "Candidate \<Rightarrow> 'c Gateway \<Rightarrow> 'c Attempted \<Rightarrow> bool" where
  "attempt_rows candidate gw attempt \<longleftrightarrow>
     (let gw' = ad_gateway attempt in
      case ad_result attempt of
        AttemptResponse (StreamResponse so) \<Rightarrow>
          ad_logical attempt = None \<and> stream_live so \<and> stream_candidate so = Some candidate
          \<and> gw_attempts gw' = gw_attempts gw \<and> gw_logical gw' = gw_logical gw
      | AttemptResponse (JsonResponse _) \<Rightarrow>
          (\<exists>row. gw_attempts gw' = gw_attempts gw @ [row] \<and> row_candidate row = candidate)
          \<and> logged_once gw gw' ''success'' \<and> map_option lt_recorded (ad_logical attempt) = Some True
      | _ \<Rightarrow>
          (\<exists>row. gw_attempts gw' = gw_attempts gw @ [row] \<and> row_candidate row = candidate)
          \<and> gw_logical gw' = gw_logical gw \<and> map_option lt_recorded (ad_logical attempt) = Some False)"

lemma attempt_sound_rows: "attempt_sound r permit candidate gw attempt \<Longrightarrow> attempt_rows candidate gw attempt"
  by (auto simp: attempt_sound_def attempt_rows_def attempt_closed_def stream_candidate_def Let_def
      split: AttemptResult.split_asm DownstreamResponse.split_asm)

lemma attempt_rows_cong:
  "gw_attempts a = gw_attempts b \<Longrightarrow> gw_logical a = gw_logical b
    \<Longrightarrow> attempt_rows candidate a attempt = attempt_rows candidate b attempt"
  by (simp add: attempt_rows_def logged_once_def Let_def split: AttemptResult.split DownstreamResponse.split)

lemma attempt_turn_rows:
  assumes "attempt_turn ge w admission native reliability lifetime candidate logical gw = TurnAttempted attempt"
    and "\<not> lt_recorded logical"
  shows "attempt_rows candidate gw attempt"
proof -
  obtain gw1 r where reserve: "reserve_for_attempt ge w admission native candidate gw = (gw1, Some r)"
    using assms(1) by (auto simp: attempt_turn_def split: prod.split_asm option.split_asm)
  obtain protection acquired where acquire: "try_acquire_target candidate (circuit_policy reliability) (gw_now gw1)
      (aw_epoch w) (gw_now gw1) (gw_protection gw1) = (protection, acquired)" by fastforce
  obtain permit where permit: "acquired = Inr permit"
    using assms(1) by (cases acquired) (auto simp: attempt_turn_def reserve acquire Let_def)
  let ?gw = "gw1\<lparr>gw_protection := protection\<rparr>"
  have "attempt = execute_attempt ge w admission native candidate reliability lifetime r permit logical ?gw"
    using assms(1) by (simp add: attempt_turn_def reserve acquire permit)
  then have "attempt_rows candidate ?gw attempt"
    using execute_sound reserve_for_attempt_fresh [OF reserve] assms(2) attempt_sound_rows by metis
  then show ?thesis using reserve_for_attempt_rows [OF reserve] attempt_rows_cong [of ?gw gw candidate attempt] by simp
qed

subsection \<open>The loops\<close>

lemma retry_backoff_refused: "retry_backoff policy n until after draw now = (False, now') \<Longrightarrow> now' = now"
  by (simp add: retry_backoff_def Let_def split: if_split_asm)

text \<open>The ways a turn of the inner loop ends.\<close>

lemma target_loop_cases:
  assumes "target_loop ge worlds admission native reliability lifetime candidate same prior lp = (lp', e)"
    and "lp_logical lp = Some logical"
  obtains (guard) w where "lp' = lp\<lparr>lp_gateway := pass_time w (lp_gateway lp), lp_turn := Suc (lp_turn lp)\<rparr>"
      "e = TargetNext prior"
  | (stopped) w gw kind where "lp_attempts lp < max_total_attempts (attempt_policy reliability)"
      "attempt_turn ge (worlds (lp_turn lp)) admission native reliability lifetime candidate logical
        (pass_time w (lp_gateway lp)) = TurnStopped gw kind"
      "lp' = lp\<lparr>lp_turn := Suc (lp_turn lp), lp_gateway := gw\<rparr>" "e = TargetNext (Some kind)"
  | (attempted) w attempt lp1 where "lp_attempts lp < max_total_attempts (attempt_policy reliability)"
      "same \<le> max_same_target_retries (attempt_policy reliability)"
      "attempt_turn ge (worlds (lp_turn lp)) admission native reliability lifetime candidate logical
        (pass_time w (lp_gateway lp)) = TurnAttempted attempt"
      "lp1 = lp\<lparr>lp_turn := Suc (lp_turn lp), lp_gateway := ad_gateway attempt,
        lp_logical := ad_logical attempt, lp_attempts := Suc (lp_attempts lp)\<rparr>"
      "ad_result attempt = AttemptDropped \<and> lp' = lp1 \<and> e = TargetDropped
       \<or> (\<exists>response. ad_result attempt = AttemptResponse response \<and> lp' = lp1 \<and> e = TargetReturned (Inr response))
       \<or> (\<exists>failure condition kind after. ad_result attempt = AttemptFailed failure
            \<and> failure_parts failure = (condition, kind, after)
            \<and> (lp' = lp1 \<and> e = TargetReturned (Inl (gateway_error admission kind))
               \<or> lp' = lp1 \<and> e = TargetNext (Some kind) \<and> \<not> failover_refused reliability native
                  \<and> \<not> fatal_kind kind
               \<or> replay_safe (intent native) \<and> Suc same \<le> max_same_target_retries (attempt_policy reliability)
                  \<and> \<not> fatal_kind kind
                  \<and> (\<exists>now. gw_now (ad_gateway attempt) \<le> now \<and> target_loop ge worlds admission native reliability
                    lifetime candidate (Suc same) (Some kind)
                    (lp1\<lparr>lp_gateway := (ad_gateway attempt)\<lparr>gw_now := now\<rparr>\<rparr>) = (lp', e))))"
proof -
  let ?w = "aw_idle (worlds (lp_turn lp))"
  consider "lp_attempts lp \<ge> max_total_attempts (attempt_policy reliability)
         \<or> same > max_same_target_retries (attempt_policy reliability)
         \<or> gw_now (pass_time ?w (lp_gateway lp)) \<ge> precommit_at lifetime"
    | "lp_attempts lp < max_total_attempts (attempt_policy reliability)"
      "same \<le> max_same_target_retries (attempt_policy reliability)"
      "gw_now (pass_time ?w (lp_gateway lp)) < precommit_at lifetime" by linarith
  then show thesis
  proof cases
    case 1
    with assms(1) show thesis by (intro guard [of ?w]) (subst (asm) target_loop.simps, simp add: Let_def)+
  next
    case 2
    let ?gw = "pass_time ?w (lp_gateway lp)"
    note step = assms(1) [unfolded target_loop.simps [of ge worlds admission native reliability lifetime candidate same]]
    show thesis
    proof (cases "attempt_turn ge (worlds (lp_turn lp)) admission native reliability lifetime candidate logical ?gw")
      case (TurnStopped gw kind)
      with 2 step assms(2) show thesis by (intro stopped [of ?w gw kind]) (auto simp: Let_def)
    next
      case (TurnAttempted attempt)
      let ?lp1 = "lp\<lparr>lp_turn := Suc (lp_turn lp), lp_gateway := ad_gateway attempt,
        lp_logical := ad_logical attempt, lp_attempts := Suc (lp_attempts lp)\<rparr>"
      show thesis
      proof (rule attempted [OF 2(1,2) TurnAttempted refl], cases "ad_result attempt")
        case (AttemptFailed failure)
        obtain condition kind after where parts: "failure_parts failure = (condition, kind, after)" by (metis prod_cases3)
        obtain waited now where backoff: "(if retry_allowed reliability native condition (Suc same) (Suc (lp_attempts lp))
            then retry_backoff (retry_policy reliability) (Suc same) (precommit_at lifetime) after
              (aw_draw (worlds (lp_turn lp))) (gw_now (ad_gateway attempt))
            else (False, gw_now (ad_gateway attempt))) = (waited, now)" by fastforce
        have "waited \<Longrightarrow> retry_allowed reliability native condition (Suc same) (Suc (lp_attempts lp))
            \<and> gw_now (ad_gateway attempt) \<le> now"
          using backoff by (auto simp: retry_backoff_def Let_def split: if_split_asm)
        with 2 step assms(2) TurnAttempted AttemptFailed parts backoff show
          "ad_result attempt = AttemptDropped \<and> lp' = ?lp1 \<and> e = TargetDropped
           \<or> (\<exists>response. ad_result attempt = AttemptResponse response \<and> lp' = ?lp1 \<and> e = TargetReturned (Inr response))
           \<or> (\<exists>failure condition kind after. ad_result attempt = AttemptFailed failure
                \<and> failure_parts failure = (condition, kind, after)
                \<and> (lp' = ?lp1 \<and> e = TargetReturned (Inl (gateway_error admission kind))
                   \<or> lp' = ?lp1 \<and> e = TargetNext (Some kind) \<and> \<not> failover_refused reliability native
                      \<and> \<not> fatal_kind kind
                   \<or> replay_safe (intent native) \<and> Suc same \<le> max_same_target_retries (attempt_policy reliability)
                      \<and> \<not> fatal_kind kind
                      \<and> (\<exists>now. gw_now (ad_gateway attempt) \<le> now \<and> target_loop ge worlds admission native reliability
                        lifetime candidate (Suc same) (Some kind)
                        (?lp1\<lparr>lp_gateway := (ad_gateway attempt)\<lparr>gw_now := now\<rparr>\<rparr>) = (lp', e))))"
          by (auto simp: Let_def retry_allowed_def split: if_split_asm)
      qed (use 2 step assms(2) TurnAttempted in \<open>auto simp: Let_def\<close>)
    qed
  qed
qed

lemma attempt_rows_sound:
  assumes rows: "attempt_rows candidate (pass_time w (lp_gateway lp)) attempt"
    and lp1: "lp1 = lp\<lparr>lp_turn := Suc (lp_turn lp), lp_gateway := ad_gateway attempt,
        lp_logical := ad_logical attempt, lp_attempts := Suc (lp_attempts lp)\<rparr>"
  shows "ad_result attempt = AttemptResponse response \<Longrightarrow> loop_sound {candidate} lp (lp1, TargetReturned (Inr response))"
    and "ad_result attempt = AttemptDropped \<Longrightarrow> loop_sound {candidate} lp (lp1, TargetDropped)"
    and "ad_result attempt = AttemptFailed failure \<Longrightarrow> loop_sound {candidate} lp (lp1, TargetReturned (Inl err))"
    and "ad_result attempt = AttemptFailed failure \<Longrightarrow>
      loop_sound {candidate} lp (lp1\<lparr>lp_gateway := (ad_gateway attempt)\<lparr>gw_now := now\<rparr>\<rparr>, TargetNext prior)"
    and "ad_result attempt = AttemptFailed failure \<Longrightarrow> loop_sound {candidate} lp (lp1, TargetNext prior)"
  using rows unfolding lp1
  by (auto simp: attempt_rows_def loop_sound_def record_kept_def streamed_def logged_once_def pass_time_def Let_def
      split: DownstreamResponse.split_asm DownstreamResponse.split)

lemma target_loop_sound:
  assumes "target_loop ge worlds admission native reliability lifetime candidate same prior lp = r"
    and "map_option lt_recorded (lp_logical lp) = Some False"
  shows "loop_sound {candidate} lp r"
  using assms
proof (induction "max_total_attempts (attempt_policy reliability) - lp_attempts lp" arbitrary: same prior lp r
    rule: less_induct)
  case less
  obtain lp' e where r: "r = (lp', e)" by (cases r)
  obtain logical where logical: "lp_logical lp = Some logical" "\<not> lt_recorded logical" using less.prems(2) by auto
  from less.prems(1) [unfolded r] logical(1) show ?case
  proof (cases rule: target_loop_cases)
    case (guard w)
    with less.prems(2) show ?thesis
      by (simp add: r loop_sound_def record_kept_def streamed_def pass_time_def)
  next
    case (stopped w gw kind)
    with less.prems(2) attempt_turn_stopped [OF stopped(2)] show ?thesis
      by (simp add: r loop_sound_def record_kept_def streamed_def pass_time_def)
  next
    case (attempted w attempt lp1)
    note rows = attempt_rows_sound [OF attempt_turn_rows [OF attempted(3) logical(2)] attempted(4)]
    have again: "loop_sound {candidate} lp r"
      if "ad_result attempt = AttemptFailed failure" "target_loop ge worlds admission native reliability lifetime
        candidate (Suc same) (Some kind) (lp1\<lparr>lp_gateway := (ad_gateway attempt)\<lparr>gw_now := now\<rparr>\<rparr>) = (lp', e)"
      for failure kind now
    proof (rule loop_sound_trans [OF rows(4) [OF that(1)]])
      let ?lp2 = "lp1\<lparr>lp_gateway := (ad_gateway attempt)\<lparr>gw_now := now\<rparr>\<rparr>"
      have "map_option lt_recorded (lp_logical ?lp2) = Some False"
        using rows(4) [OF that(1), of now None] by (simp add: loop_sound_def record_kept_def)
      moreover have "max_total_attempts (attempt_policy reliability) - lp_attempts ?lp2
          < max_total_attempts (attempt_policy reliability) - lp_attempts lp"
        using attempted(1,4) by simp
      ultimately show "loop_sound {candidate} ?lp2 r" using less.hyps that(2) r by blast
    qed
    from attempted(5) show ?thesis
      using rows again unfolding r by (elim disjE exE conjE) auto
  qed
qed

lemma target_loop_bounds:
  assumes "target_loop ge worlds admission native reliability lifetime candidate same prior lp = (lp', e)"
    and "map_option lt_recorded (lp_logical lp) = Some False"
  shows "lp_attempts lp' \<le> max (lp_attempts lp) (max_total_attempts (attempt_policy reliability))
    \<and> lp_attempts lp' \<le> lp_attempts lp + (Suc (max_same_target_retries (attempt_policy reliability)) - same)
    \<and> (\<not> replay_safe (intent native) \<longrightarrow> lp_attempts lp' \<le> Suc (lp_attempts lp))
    \<and> (failover_refused reliability native \<longrightarrow> lp_attempts lp < lp_attempts lp' \<longrightarrow> (\<forall>kind. e \<noteq> TargetNext kind)
        \<or> replay_safe (intent native))"
  using assms
proof (induction "max_total_attempts (attempt_policy reliability) - lp_attempts lp" arbitrary: same prior lp
    rule: less_induct)
  case less
  obtain logical where logical: "lp_logical lp = Some logical" "\<not> lt_recorded logical" using less.prems(2) by auto
  from less.prems(1) logical(1) show ?case
  proof (cases rule: target_loop_cases)
    case (attempted w attempt lp1)
    note rows = attempt_rows_sound [OF attempt_turn_rows [OF attempted(3) logical(2)] attempted(4)]
    show ?thesis
    proof (cases "\<exists>failure kind now. ad_result attempt = AttemptFailed failure \<and> replay_safe (intent native)
        \<and> Suc same \<le> max_same_target_retries (attempt_policy reliability)
        \<and> target_loop ge worlds admission native reliability lifetime
          candidate (Suc same) (Some kind) (lp1\<lparr>lp_gateway := (ad_gateway attempt)\<lparr>gw_now := now\<rparr>\<rparr>) = (lp', e)")
      case True
      then obtain failure kind now where again: "ad_result attempt = AttemptFailed failure" "replay_safe (intent native)"
        "target_loop ge worlds admission native reliability lifetime candidate (Suc same) (Some kind)
          (lp1\<lparr>lp_gateway := (ad_gateway attempt)\<lparr>gw_now := now\<rparr>\<rparr>) = (lp', e)"
        "Suc same \<le> max_same_target_retries (attempt_policy reliability)" by blast
      let ?lp2 = "lp1\<lparr>lp_gateway := (ad_gateway attempt)\<lparr>gw_now := now\<rparr>\<rparr>"
      have "map_option lt_recorded (lp_logical ?lp2) = Some False"
        using rows(4) [OF again(1), of now None] by (simp add: loop_sound_def record_kept_def)
      moreover have less_left: "max_total_attempts (attempt_policy reliability) - lp_attempts ?lp2
          < max_total_attempts (attempt_policy reliability) - lp_attempts lp"
        using attempted(1,4) by simp
      ultimately have "lp_attempts lp' \<le> max (lp_attempts ?lp2) (max_total_attempts (attempt_policy reliability))
          \<and> lp_attempts lp' \<le> lp_attempts ?lp2 + (Suc (max_same_target_retries (attempt_policy reliability)) - Suc same)"
        using less.hyps again(3) by blast
      with attempted(1,4) again(2,4) show ?thesis by (simp, arith)
    next
      case False
      from attempted(5) False have "lp' = lp1 \<and> ((\<forall>kind. e \<noteq> TargetNext kind) \<or> \<not> failover_refused reliability native)"
        by (elim disjE exE conjE) auto
      with attempted(1,2,4) show ?thesis by auto
    qed
  qed simp_all
qed

lemma candidate_loop_sound:
  "candidate_loop ge worlds admission native reliability lifetime candidates tried prior lp = r
    \<Longrightarrow> map_option lt_recorded (lp_logical lp) = Some False \<Longrightarrow> loop_sound (set candidates) lp r"
proof (induction candidates arbitrary: tried prior lp)
  case Nil
  then show ?case using loop_sound_next [of lp "{}" prior] by auto
next
  case (Cons candidate candidates)
  have skip: "loop_sound (set (candidate # candidates)) lp r"
    if "candidate_loop ge worlds admission native reliability lifetime candidates tried' prior' lp = r" for tried' prior'
    using Cons.IH [OF that Cons.prems(2)] by (rule loop_sound_mono) auto
  show ?case
  proof (cases "tried > max_distinct_failover_targets (attempt_policy reliability)
      \<or> \<not> candidate_policy_ready admission candidate")
    case True
    then consider "r = (lp, TargetNext prior)"
      | "candidate_loop ge worlds admission native reliability lifetime candidates tried (Some ErrBudgetDenied) lp = r"
      using Cons.prems(1) by (cases "tried > max_distinct_failover_targets (attempt_policy reliability)") simp_all
    then show ?thesis using skip loop_sound_next [OF Cons.prems(2)] by cases simp_all
  next
    case False
    obtain lp1 e where run: "target_loop ge worlds admission native reliability lifetime candidate 0 prior lp = (lp1, e)"
      by fastforce
    have one: "loop_sound (set (candidate # candidates)) lp (lp1, e)"
      using target_loop_sound [OF run Cons.prems(2)] by (rule loop_sound_mono) simp
    show ?thesis
    proof (cases "\<exists>kind. e = TargetNext kind")
      case True
      then obtain kind where e: "e = TargetNext kind" ..
      have "map_option lt_recorded (lp_logical lp1) = Some False"
        using one by (simp add: e loop_sound_def record_kept_def)
      with Cons.IH [OF _ this] False Cons.prems(1) run have "loop_sound (set candidates) lp1 r" by (simp add: e)
      then have "loop_sound (set (candidate # candidates)) lp1 r" by (rule loop_sound_mono) auto
      with one [unfolded e] show ?thesis by (rule loop_sound_trans)
    next
      case False2: False
      with False Cons.prems(1) run have "r = (lp1, e)" by (cases e) simp_all
      with one show ?thesis by simp
    qed
  qed
qed

definition attempt_limit :: "ReliabilityPolicySnapshot \<Rightarrow> nat \<Rightarrow> nat" where
  "attempt_limit reliability tried =
     (Suc (max_distinct_failover_targets (attempt_policy reliability)) - tried)
       * Suc (max_same_target_retries (attempt_policy reliability))"

lemma candidate_loop_bounds:
  assumes "max_distinct_failover_targets (attempt_policy reliability) < u8_max"
  shows "candidate_loop ge worlds admission native reliability lifetime candidates tried prior lp = (lp', e)
    \<Longrightarrow> map_option lt_recorded (lp_logical lp) = Some False
    \<Longrightarrow> lp_attempts lp' \<le> max (lp_attempts lp) (max_total_attempts (attempt_policy reliability))
      \<and> lp_attempts lp' \<le> lp_attempts lp + attempt_limit reliability tried
      \<and> (failover_refused reliability native \<longrightarrow> \<not> replay_safe (intent native) \<longrightarrow>
          lp_attempts lp' \<le> Suc (lp_attempts lp))"
proof (induction candidates arbitrary: tried prior lp)
  case (Cons candidate candidates)
  let ?max = "max_distinct_failover_targets (attempt_policy reliability)"
  show ?case
  proof (cases "tried > ?max \<or> \<not> candidate_policy_ready admission candidate")
    case True
    then consider "lp' = lp"
      | "candidate_loop ge worlds admission native reliability lifetime candidates tried (Some ErrBudgetDenied) lp
          = (lp', e)"
      using Cons.prems(1) by (cases "tried > ?max") simp_all
    then show ?thesis
    proof cases
      case 2
      from Cons.IH [OF this Cons.prems(2)] show ?thesis .
    qed simp
  next
    case False
    obtain lp1 e1 where run: "target_loop ge worlds admission native reliability lifetime candidate 0 prior lp = (lp1, e1)"
      by fastforce
    note bounds = target_loop_bounds [OF run Cons.prems(2)]
    have step: "saturating_add u8_max tried (Suc 0) = Suc tried" using False assms by (simp add: saturating_add_exact)
    have limit: "attempt_limit reliability tried
        = Suc (max_same_target_retries (attempt_policy reliability)) + attempt_limit reliability (Suc tried)"
      using False by (simp add: attempt_limit_def Suc_diff_le)
    show ?thesis
    proof (cases "\<exists>kind. e1 = TargetNext kind")
      case True
      then obtain kind where e1: "e1 = TargetNext kind" ..
      have "map_option lt_recorded (lp_logical lp1) = Some False"
        using target_loop_sound [OF run Cons.prems(2)] by (simp add: e1 loop_sound_def record_kept_def)
      moreover have "candidate_loop ge worlds admission native reliability lifetime candidates (Suc tried) kind lp1
          = (lp', e)" using False Cons.prems(1) run by (simp add: e1 step)
      ultimately have
        "lp_attempts lp' \<le> max (lp_attempts lp1) (max_total_attempts (attempt_policy reliability))
         \<and> lp_attempts lp' \<le> lp_attempts lp1 + attempt_limit reliability (Suc tried)
         \<and> (failover_refused reliability native \<longrightarrow> \<not> replay_safe (intent native) \<longrightarrow>
             lp_attempts lp' \<le> Suc (lp_attempts lp1))"
        using Cons.IH by blast
      moreover have "failover_refused reliability native \<longrightarrow> \<not> replay_safe (intent native)
          \<longrightarrow> lp_attempts lp1 \<le> lp_attempts lp"
        using bounds by (auto simp: e1 not_less)
      ultimately show ?thesis using bounds limit by (intro conjI impI) auto
    next
      case False2: False
      with False Cons.prems(1) run have "lp1 = lp'" by (cases e1) simp_all
      with bounds limit show ?thesis by auto
    qed
  qed
qed simp

text \<open>The number of attempts made: those recorded, and one more if its stream is still to end.\<close>

definition attempts_made :: "'c Gateway \<Rightarrow> 'c Gateway \<times> (ProtocolError + DownstreamResponse) option \<Rightarrow> nat" where
  "attempts_made gw r =
     length (gw_attempts (fst r)) - length (gw_attempts gw)
     + (case snd r of Some (Inr (StreamResponse _)) \<Rightarrow> 1 | _ \<Rightarrow> 0)"

definition dispatch_run ::
    "'c GatewayEnv \<Rightarrow> (nat \<Rightarrow> AttemptWorld) \<Rightarrow> AdmissionContext \<Rightarrow> NativeRequest \<Rightarrow> RequestLifetime
      \<Rightarrow> LogicalTelemetry \<Rightarrow> 'c Gateway \<Rightarrow> 'c Gateway \<times> (ProtocolError + DownstreamResponse) option" where
  "dispatch_run ge worlds admission native lifetime logical gw =
     map_prod lp_gateway id (dispatch_admitted ge worlds admission native lifetime
       \<lparr>lp_gateway = gw, lp_logical = Some logical, lp_attempts = 0, lp_turn = 0\<rparr>)"

lemma dispatch_attempts_limited:
  assumes "active_reliability admission = Some reliability" "\<not> lt_recorded logical"
    and "max_distinct_failover_targets (attempt_policy reliability) < u8_max"
  shows "attempts_made gw (dispatch_run ge worlds admission native lifetime logical gw)
      \<le> min (max_total_attempts (attempt_policy reliability)) (attempt_limit reliability 0)
    \<and> (failover_refused reliability native \<and> \<not> replay_safe (intent native)
        \<longrightarrow> attempts_made gw (dispatch_run ge worlds admission native lifetime logical gw) \<le> 1)"
proof -
  let ?lp = "\<lparr>lp_gateway = gw, lp_logical = Some logical, lp_attempts = 0, lp_turn = 0\<rparr>"
  have start: "map_option lt_recorded (lp_logical ?lp) = Some False" using assms(2) by simp
  show ?thesis
  proof (cases "candidates_for_request ge admission native (fst (gw_admission gw))")
    case (Inl e)
    then show ?thesis by (simp add: dispatch_run_def dispatch_admitted_def attempts_made_def)
  next
    case (Inr found)
    define candidates where "candidates = (if has_semantic_reference (req_family native) (envelope native)
      then take 1 found else found)"
    obtain lp' e where run: "candidate_loop ge worlds admission native reliability lifetime candidates 0 None ?lp
        = (lp', e)" by fastforce
    have "attempts_made gw (dispatch_run ge worlds admission native lifetime logical gw) = lp_attempts lp'"
      using candidate_loop_sound [OF run start] Inr run assms(1)
      by (cases e) (auto simp: dispatch_run_def dispatch_admitted_def attempts_made_def loop_sound_def streamed_def
          simp flip: candidates_def split: sum.split DownstreamResponse.split)
    with candidate_loop_bounds [OF assms(3) run start] show ?thesis by simp
  qed
qed

text \<open>
  C7: Dispatching returns, and the attempts it made are bounded by the route's reliability policy
  however the upstreams fail: by the total, and by the retries of one target times the targets a request may
  fail over to.  A request that is not safe to replay, where failing over is off or demands replay safety, is
  sent upstream at most once.
\<close>

theorem dispatch_attempts_bounded:
  assumes "active_reliability admission = Some reliability" "\<not> lt_recorded logical"
    and "max_distinct_failover_targets (attempt_policy reliability) < u8_max"
  shows "attempts_made gw (dispatch_run ge worlds admission native lifetime logical gw)
      \<le> min (max_total_attempts (attempt_policy reliability)) (attempt_limit reliability 0)
    \<and> (failover_refused reliability native \<and> \<not> replay_safe (intent native)
        \<longrightarrow> attempts_made gw (dispatch_run ge worlds admission native lifetime logical gw) \<le> 1)"
  by (rule dispatch_attempts_limited [OF assms])

subsection \<open>One record of every request\<close>

definition answer_recorded ::
    "'c Gateway \<Rightarrow> 'c Loop \<Rightarrow> (ProtocolError + DownstreamResponse) option \<Rightarrow> bool" where
  "answer_recorded gw lp answer \<longleftrightarrow>
     (case answer of
        Some (Inr (StreamResponse so)) \<Rightarrow>
          lp_logical lp = None \<and> gw_logical (lp_gateway lp) = gw_logical gw \<and> stream_live so
      | Some (Inr (JsonResponse body)) \<Rightarrow>
          logged_once gw (lp_gateway lp) ''success'' \<and> map_option lt_recorded (lp_logical lp) = Some True
      | _ \<Rightarrow> gw_logical (lp_gateway lp) = gw_logical gw \<and> map_option lt_recorded (lp_logical lp) = Some False)"

lemma record_kept_answer:
  "record_kept C lp lp' (TargetReturned r) \<Longrightarrow> answer_recorded (lp_gateway lp) lp' (Some r)"
  "record_kept C lp lp' TargetDropped \<Longrightarrow> answer_recorded (lp_gateway lp) lp' None"
  "record_kept C lp lp' (TargetNext kind) \<Longrightarrow> answer_recorded (lp_gateway lp) lp' (Some (Inl e))"
  by (auto simp: record_kept_def answer_recorded_def split: sum.split DownstreamResponse.split)

lemma dispatch_admitted_record:
  assumes "dispatch_admitted ge worlds admission native lifetime lp = (lp', answer)"
    and "map_option lt_recorded (lp_logical lp) = Some False"
  shows "answer_recorded (lp_gateway lp) lp' answer"
proof -
  have kept: "record_kept (set candidates) lp lp1 e"
    if "candidate_loop ge worlds admission native reliability lifetime candidates 0 None lp = (lp1, e)"
    for reliability candidates lp1 e
    using candidate_loop_sound [OF that assms(2)] by (simp add: loop_sound_def)
  have refused: "answer_recorded (lp_gateway lp) lp (Some (Inl e))" for e
    using assms(2) by (simp add: answer_recorded_def)
  show ?thesis
    using assms(1) refused
    by (auto simp: dispatch_admitted_def Let_def dest!: kept dest: record_kept_answer
      split: sum.split_asm option.split_asm prod.split_asm TargetEnd.split_asm)
qed

definition response_recorded :: "'c Gateway \<Rightarrow> 'c Gateway \<Rightarrow> ProtocolError + DownstreamResponse \<Rightarrow> bool" where
  "response_recorded gw gw' r \<longleftrightarrow>
     (case r of
        Inr (StreamResponse so) \<Rightarrow> gw_logical gw' = gw_logical gw \<and> stream_live so
      | Inr (JsonResponse body) \<Rightarrow> logged_once gw gw' ''success''
      | Inl e \<Rightarrow> logged_once gw gw' ''failed'')"

lemma dispatch_held_record:
  assumes "dispatch_held ge worlds admission native lifetime started gw = (gw', r)"
  shows "response_recorded gw gw' r"
proof -
  let ?start = "\<lparr>lp_gateway = gw, lp_logical = Some (LogicalTelemetry_new started), lp_attempts = 0, lp_turn = 0\<rparr>"
  obtain lp answer where run: "(if gw_now gw \<ge> precommit_at lifetime then (?start, None)
      else dispatch_admitted ge worlds admission native lifetime ?start) = (lp, answer)" by fastforce
  have start: "map_option lt_recorded (lp_logical ?start) = Some False" by (simp add: LogicalTelemetry_new_def)
  have written: "answer_recorded gw lp answer"
  proof (cases "gw_now gw \<ge> precommit_at lifetime")
    case True
    with run start show ?thesis by (auto simp: answer_recorded_def)
  next
    case False
    with run dispatch_admitted_record [OF _ start] show ?thesis by auto
  qed
  have ended: "logged_once gw (snd (logical_finish ''failed'' None None logical (lp_gateway lp))) ''failed''"
    if "gw_logical (lp_gateway lp) = gw_logical gw" "\<not> lt_recorded logical" for logical
    using logical_finish_rows(1) [OF that(2)] by (rule logged_once_cong) (simp_all add: that)
  consider (failed) e where "answer = None \<or> answer = Some (Inl e)" | (answered) response where "answer = Some (Inr response)"
    by (cases answer) (auto, metis sum.exhaust)
  then show ?thesis
  proof cases
    case failed
    with written obtain logical where "lp_logical lp = Some logical" "\<not> lt_recorded logical"
      "gw_logical (lp_gateway lp) = gw_logical gw" by (auto simp: answer_recorded_def)
    with ended failed assms run show ?thesis
      by (auto simp: dispatch_held_def response_recorded_def)
  next
    case answered
    with written assms run show ?thesis
      by (auto simp: dispatch_held_def response_recorded_def answer_recorded_def split: DownstreamResponse.split)
  qed
qed

lemma drop_permits_rows [simp]:
  "gw_logical (drop_global_permit gw) = gw_logical gw"
  "gw_logical (drop_request_permit release permit gw) = gw_logical gw" "gw_logical (pass_time t gw) = gw_logical gw"
  by (simp_all add: drop_global_permit_def drop_request_permit_def pass_time_def)

lemma admit_logical_rows:
  "admit_logical ge dw admission native gw = (gw', r) \<Longrightarrow> gw_logical gw' = gw_logical gw"
  by (auto simp: admit_logical_def split: GatewayPrincipal.split_asm prod.split_asm)

lemma record_logical_once: "gw_logical gw = gw_logical gw0 \<Longrightarrow>
    logged_once gw0 (record_logical outcome usage d started gw) outcome"
  by (simp add: record_logical_def logged_once_def)

lemma logged_once_exI: "gw_logical b = gw_logical a @ [lr] \<Longrightarrow> \<exists>outcome. logged_once a b outcome"
  by (auto simp: logged_once_def)

text \<open>A request up to the end of its response.\<close>

definition serve ::
    "'c GatewayEnv \<Rightarrow> ('c \<Rightarrow> PolicyReference \<Rightarrow> uuid \<Rightarrow> 'c) \<Rightarrow> AdmissionWorld \<Rightarrow> (nat \<Rightarrow> AttemptWorld) \<Rightarrow> uuid
      \<Rightarrow> AdmissionContext \<Rightarrow> NativeRequest \<Rightarrow> 'c Gateway \<Rightarrow> 'c Gateway" where
  "serve ge release_strict dw worlds epoch admission native gw =
     (case dispatch ge release_strict dw worlds admission native gw of
        (gw, Inl _) \<Rightarrow> gw
      | (gw, Inr held) \<Rightarrow>
          let gw = (case held_response held of
              JsonResponse _ \<Rightarrow> gw
            | StreamResponse so \<Rightarrow> fst (run_stream (ge_wire ge) epoch so gw)) in
          drop_global_permit (drop_request_permit release_strict (held_permit held) gw))"

definition dispatch_recorded :: "'c Gateway \<Rightarrow> 'c Gateway \<Rightarrow> ProtocolError + HeldResponse \<Rightarrow> bool" where
  "dispatch_recorded gw gw' r \<longleftrightarrow>
     (case r of
        Inl e \<Rightarrow> \<exists>outcome. logged_once gw gw' outcome
      | Inr held \<Rightarrow>
          (case held_response held of
             StreamResponse so \<Rightarrow> gw_logical gw' = gw_logical gw \<and> stream_live so
           | JsonResponse body \<Rightarrow> \<exists>outcome. logged_once gw gw' outcome))"

lemma dispatch_records:
  assumes "RequestLifetime_new admission (response_mode (intent native)) (gw_now gw) = Inr lifetime"
    and "dispatch ge release_strict dw worlds admission native gw = (gw', r)"
  shows "dispatch_recorded gw gw' r"
proof -
  obtain protection acquired where global: "try_acquire_global (gw_protection gw) = (protection, acquired)" by fastforce
  let ?gw = "pass_time (dw_idle dw) (gw\<lparr>gw_protection := protection\<rparr>)"
  obtain gw1 admitted where admit: "admit_logical ge dw admission native ?gw = (gw1, admitted)" by fastforce
  have gw1: "gw_logical gw1 = gw_logical gw" using admit_logical_rows [OF admit] by simp
  have refused: "dispatch_recorded gw (record_logical outcome None None (gw_now gw) g) (Inl e)"
    if "gw_logical g = gw_logical gw" for outcome g e
    using record_logical_once [OF that, of outcome None None "gw_now gw"] by (auto simp: dispatch_recorded_def)
  have served: "dispatch_recorded gw gw' r"
    if "acquired = Inr u" "validate_request_bounds admission native = Inr v" "admitted = Inr permit"
      "\<not> (is_gateway_key admission \<and> gw_now ?gw \<ge> precommit_at lifetime)" for u v permit
  proof -
    let ?lifetime = "constrain (LogicalRequestPermit_deadline permit) lifetime"
    obtain gw2 answer where held: "dispatch_held ge worlds admission native ?lifetime (gw_now gw) gw1 = (gw2, answer)"
      by fastforce
    have "response_recorded gw1 gw2 answer" by (rule dispatch_held_record [OF held])
    then show ?thesis
      using assms global admit that held gw1
      by (cases answer) (auto simp: dispatch_def Let_def dispatch_recorded_def response_recorded_def logged_once_def [of gw1]
          intro!: logged_once_exI split: DownstreamResponse.split_asm DownstreamResponse.split)
  qed
  show ?thesis
  proof (cases acquired)
    case (Inl e)
    with assms global refused show ?thesis by (auto simp: dispatch_def Let_def)
  next
    case acquired: (Inr u)
    show ?thesis
    proof (cases "validate_request_bounds admission native")
      case (Inl e)
      with assms global acquired refused show ?thesis by (auto simp: dispatch_def Let_def)
    next
      case bounds: (Inr v)
      show ?thesis
      proof (cases "is_gateway_key admission \<and> gw_now ?gw \<ge> precommit_at lifetime")
        case True
        with assms global acquired bounds refused show ?thesis by (auto simp: dispatch_def Let_def)
      next
        case False
        show ?thesis
        proof (cases admitted)
          case (Inl e)
          with False assms global acquired bounds admit gw1 refused show ?thesis by (auto simp: dispatch_def Let_def)
        next
          case (Inr permit)
          with served acquired bounds False show ?thesis by blast
        qed
      qed
    qed
  qed
qed

lemma stream_logged_once:
  assumes "stream_live so"
  shows "\<exists>outcome. logged_once gw (fst (run_stream we epoch so gw)) outcome"
proof -
  obtain now out so' e where loop: "stream_loop we (so_feed so) (gw_now gw) so = (now, out, so', e)"
    by (metis surj_pair)
  note same = stream_loop_owner [OF loop]
  have live: "stream_live so'" using assms same by (simp add: stream_live_def same_owner_def)
  then obtain tel where "rs_telemetry (so_settlement so') = Some tel" by (auto simp: stream_live_def)
  from stream_end_records [OF live this, of epoch e "gw\<lparr>gw_now := now\<rparr>"] show ?thesis
    by (auto simp: run_stream_def loop logged_once_def)
qed

text \<open>
  C5: Every request that has a lifetime is recorded exactly once, from its arrival to the end of its
  response: whether it is refused by a limit, by its bounds or by its policies, expires, fails at every target,
  is answered by a document or by a stream, however that stream ends.
\<close>

theorem request_recorded_once:
  assumes "RequestLifetime_new admission (response_mode (intent native)) (gw_now gw) = Inr lifetime"
  shows "\<exists>outcome. logged_once gw (serve ge release_strict dw worlds epoch admission native gw) outcome"
proof -
  obtain gw1 r where run: "dispatch ge release_strict dw worlds admission native gw = (gw1, r)" by fastforce
  have "dispatch_recorded gw gw1 r" by (rule dispatch_records [OF assms run])
  then show ?thesis
  proof (cases r)
    case (Inl e)
    with \<open>dispatch_recorded gw gw1 r\<close> run show ?thesis by (auto simp: serve_def dispatch_recorded_def)
  next
    case (Inr held)
    show ?thesis
    proof (cases "held_response held")
      case (JsonResponse body)
      with Inr \<open>dispatch_recorded gw gw1 r\<close> run show ?thesis
        by (auto simp: serve_def dispatch_recorded_def logged_once_def)
    next
      case (StreamResponse so)
      with Inr \<open>dispatch_recorded gw gw1 r\<close> have "stream_live so" "gw_logical gw1 = gw_logical gw"
        by (simp_all add: dispatch_recorded_def)
      with stream_logged_once [of so gw1 "ge_wire ge" epoch] Inr StreamResponse run show ?thesis
        by (auto simp: serve_def logged_once_def)
    qed
  qed
qed

subsection \<open>Where a continued conversation goes\<close>

definition pinned_to :: "AdmissionContext \<Rightarrow> NativeRequest \<Rightarrow> StateOrigin \<Rightarrow> Candidate \<Rightarrow> bool" where
  "pinned_to admission native origin candidate \<longleftrightarrow>
     candidate \<in> set (ctx_candidates admission) \<and> origin_is_candidate origin candidate
     \<and> origin_is_of_request admission native origin"

lemma candidates_for_request_pinned:
  assumes "continuation_reference (intent native) = Some reference"
    and "candidates_for_request ge admission native c = Inr candidates"
  shows "\<exists>origin candidate. candidates = [candidate] \<and> pinned_to admission native origin candidate
    \<and> ge_get_origin ge c (org_id (ctx_organization admission)) (principal_kind_str (ctx_principal admission))
        (affinity_uuid (ctx_principal admission)) (route_id (ctx_route admission))
        (IngressProtocolFamily_as_str (req_family native)) reference = Inr origin"
proof -
  obtain origin where origin: "ge_get_origin ge c (org_id (ctx_organization admission))
      (principal_kind_str (ctx_principal admission)) (affinity_uuid (ctx_principal admission))
      (route_id (ctx_route admission)) (IngressProtocolFamily_as_str (req_family native)) reference = Inr origin"
    and own: "origin_is_of_request admission native origin"
    and found: "map_sum id (\<lambda>candidate. [candidate]) (ok_or (gateway_error admission ErrStateOriginUnavailable)
        (List.find (origin_is_candidate origin) (ctx_candidates admission))) = Inr candidates"
    using assms by (auto simp: candidates_for_request_def Let_def split: if_split_asm sum.split_asm)
  then obtain candidate where "List.find (origin_is_candidate origin) (ctx_candidates admission) = Some candidate"
    "candidates = [candidate]"
    by (cases "List.find (origin_is_candidate origin) (ctx_candidates admission)") auto
  with origin own show ?thesis unfolding pinned_to_def by (auto simp: find_Some_iff)
qed

definition served_by :: "(Candidate \<Rightarrow> bool) \<Rightarrow> 'c Gateway \<Rightarrow> 'c Gateway \<times> (ProtocolError + DownstreamResponse) option \<Rightarrow> bool"
  where
  "served_by P gw r \<longleftrightarrow>
     (\<exists>rows. gw_attempts (fst r) = gw_attempts gw @ rows \<and> list_all (\<lambda>row. P (row_candidate row)) rows)
     \<and> (case snd r of
          Some (Inr (StreamResponse so)) \<Rightarrow> (\<exists>candidate. stream_candidate so = Some candidate \<and> P candidate)
        | _ \<Rightarrow> True)"

lemma dispatch_run_served:
  assumes "\<not> lt_recorded logical"
    and "\<And>candidates. candidates_for_request ge admission native (fst (gw_admission gw)) = Inr candidates
      \<Longrightarrow> list_all P candidates"
  shows "served_by P gw (dispatch_run ge worlds admission native lifetime logical gw)"
proof -
  let ?lp = "\<lparr>lp_gateway = gw, lp_logical = Some logical, lp_attempts = 0, lp_turn = 0\<rparr>"
  have start: "map_option lt_recorded (lp_logical ?lp) = Some False" using assms(1) by simp
  show ?thesis
  proof (cases "candidates_for_request ge admission native (fst (gw_admission gw))")
    case (Inl e)
    then show ?thesis by (simp add: dispatch_run_def dispatch_admitted_def served_by_def)
  next
    case (Inr found)
    define candidates where "candidates = (if has_semantic_reference (req_family native) (envelope native)
      then take 1 found else found)"
    have all: "\<forall>c \<in> set candidates. P c"
      using assms(2) [OF Inr] by (auto simp: candidates_def list_all_iff dest: in_set_takeD)
    show ?thesis
    proof (cases "active_reliability admission")
      case None
      with Inr show ?thesis by (simp add: dispatch_run_def dispatch_admitted_def served_by_def)
    next
      case (Some reliability)
      obtain lp' e where run: "candidate_loop ge worlds admission native reliability lifetime candidates 0 None ?lp
          = (lp', e)" by fastforce
      from candidate_loop_sound [OF run start] obtain rows where
        rows: "gw_attempts (lp_gateway lp') = gw_attempts gw @ rows" "row_candidate ` set rows \<subseteq> set candidates"
        and kept: "record_kept (set candidates) ?lp lp' e"
        by (auto simp: loop_sound_def)
      from rows all have P: "list_all (\<lambda>row. P (row_candidate row)) rows" by (auto simp: list_all_iff)
      have stream: "\<exists>candidate. stream_candidate so = Some candidate \<and> P candidate"
        if "e = TargetReturned (Inr (StreamResponse so))" for so
        using kept all that by (auto simp: record_kept_def)
      have "dispatch_run ge worlds admission native lifetime logical gw = (lp_gateway lp', snd (dispatch_run ge worlds
          admission native lifetime logical gw))" and "snd (dispatch_run ge worlds admission native lifetime logical gw)
          = (case e of TargetReturned r \<Rightarrow> Some r | TargetDropped \<Rightarrow> None
             | TargetNext kind \<Rightarrow> Some (Inl (gateway_error admission
                 (if gw_now (lp_gateway lp') \<ge> precommit_at lifetime then ErrDeadlineExceeded
                  else case kind of None \<Rightarrow> ErrRouteUnavailable | Some kind \<Rightarrow> kind))))"
        using Inr Some run by (cases e; simp add: dispatch_run_def dispatch_admitted_def flip: candidates_def)+
      with rows(1) P stream show ?thesis unfolding served_by_def
        by (cases e) (force split: sum.split DownstreamResponse.split)+
    qed
  qed
qed

lemma dispatch_run_refused:
  "candidates_for_request ge admission native (fst (gw_admission gw)) = Inl e
    \<Longrightarrow> dispatch_run ge worlds admission native lifetime logical gw = (gw, Some (Inl e))"
  by (simp add: dispatch_run_def dispatch_admitted_def)

lemma candidates_for_request_refused:
  assumes "continuation_reference (intent native) = Some reference"
    and "candidates_for_request ge admission native c = Inl e"
    and "ge_get_origin ge c (org_id (ctx_organization admission)) (principal_kind_str (ctx_principal admission))
        (affinity_uuid (ctx_principal admission)) (route_id (ctx_route admission))
        (IngressProtocolFamily_as_str (req_family native)) reference = looked"
  shows "e = gateway_error admission ErrStateOriginUnavailable
    \<and> (ge_coordinator ge = None \<or> (case looked of Inl _ \<Rightarrow> True
         | Inr origin \<Rightarrow> \<forall>candidate. \<not> pinned_to admission native origin candidate))"
  using assms unfolding candidates_for_request_def pinned_to_def
  by (cases looked; cases "\<exists>origin. looked = Inr origin \<and> (\<exists>candidate.
      List.find (origin_is_candidate origin) (ctx_candidates admission) = Some candidate)")
    (auto simp: Let_def find_None_iff ok_or_def split: if_split_asm sum.split_asm option.split_asm)

text \<open>
  C23: A request that continues a conversation is only ever sent to the one candidate that holds it.
  Every attempt made for it, and the stream it is answered with, is at that candidate: one of the request's own that is
  the very target, deployment version, endpoint, credential, origin and transport the conversation was recorded
  with, and the record was made for the same organization, principal, route and protocol.  Where there is no
  coordinator, the look-up fails, or the record fits no candidate, the request is refused, and no attempt is made.
\<close>

theorem continuation_pinned:
  assumes "continuation_reference (intent native) = Some reference" "\<not> lt_recorded logical"
    and "ge_get_origin ge (fst (gw_admission gw)) (org_id (ctx_organization admission))
      (principal_kind_str (ctx_principal admission)) (affinity_uuid (ctx_principal admission))
      (route_id (ctx_route admission)) (IngressProtocolFamily_as_str (req_family native)) reference = looked"
  shows "(\<exists>origin candidate. ge_coordinator ge \<noteq> None \<and> looked = Inr origin
      \<and> pinned_to admission native origin candidate
      \<and> served_by (\<lambda>c. c = candidate) gw (dispatch_run ge worlds admission native lifetime logical gw))
    \<or> dispatch_run ge worlds admission native lifetime logical gw
        = (gw, Some (Inl (gateway_error admission ErrStateOriginUnavailable)))
      \<and> (ge_coordinator ge = None \<or> (case looked of Inl _ \<Rightarrow> True
           | Inr origin \<Rightarrow> \<forall>candidate. \<not> pinned_to admission native origin candidate))"
proof (cases "candidates_for_request ge admission native (fst (gw_admission gw))")
  case (Inl e)
  from candidates_for_request_refused [OF assms(1) Inl assms(3)] dispatch_run_refused [OF Inl] show ?thesis by blast
next
  case (Inr candidates)
  from candidates_for_request_pinned [OF assms(1) Inr] assms(3) obtain origin candidate where
    only: "candidates = [candidate]" and pinned: "pinned_to admission native origin candidate" and found: "looked = Inr origin"
    by auto
  have "ge_coordinator ge \<noteq> None"
    using Inr assms(1) by (auto simp: candidates_for_request_def Let_def split: if_split_asm)
  moreover have "served_by (\<lambda>c. c = candidate) gw (dispatch_run ge worlds admission native lifetime logical gw)"
    by (rule dispatch_run_served [OF assms(2)]) (use Inr only in simp)
  ultimately show ?thesis using pinned found by blast
qed

subsection \<open>Conversations are found again\<close>

lemma principal_kind_str_cong:
  "GatewayPrincipal_kind a = GatewayPrincipal_kind b \<Longrightarrow> principal_kind_str a = principal_kind_str b"
  by (simp add: principal_kind_str_def)

lemma find_only:
  assumes "x \<in> set xs" "P x" "\<And>y. y \<in> set xs \<Longrightarrow> P y \<Longrightarrow> y = x"
  shows "List.find P xs = Some x"
proof (cases "List.find P xs")
  case None
  with assms(1,2) show ?thesis by (simp add: find_None_iff)
next
  case (Some y)
  then have "y \<in> set xs" "P y" by (auto simp: find_Some_iff)
  with assms(3) Some show ?thesis by simp
qed

text \<open>
  A conversation is found again: the origin an attempt records for a response leads every later request
  of the same caller on the same route and protocol that continues it to the very candidate that answered, as
  long as that candidate is still among the request's, whose targets are distinct.
\<close>

theorem conversation_resumes:
  assumes "continuation_reference (intent native) = Some reference" "ge_coordinator ge \<noteq> None"
    and "ge_get_origin ge c (org_id (ctx_organization later)) (principal_kind_str (ctx_principal later))
        (affinity_uuid (ctx_principal later)) (route_id (ctx_route later))
        (IngressProtocolFamily_as_str (req_family native)) reference
      = Inr (candidate_state_origin admission candidate)"
    and "same_caller admission later" "req_family native = ingress_protocol_family (ctx_route admission)"
    and "candidate \<in> set (ctx_candidates later)"
    and "distinct (map (\<lambda>candidate. target_id (cand_target candidate)) (ctx_candidates later))"
  shows "candidates_for_request ge later native c = Inr [candidate]"
proof -
  let ?origin = "candidate_state_origin admission candidate"
  have own: "origin_is_of_request later native ?origin"
    using assms(4,5) principal_kind_str_cong [of "ctx_principal admission" "ctx_principal later"]
    by (simp add: origin_is_of_request_def candidate_state_origin_def same_caller_def Let_def)
  have "List.find (origin_is_candidate ?origin) (ctx_candidates later) = Some candidate"
  proof (rule find_only [OF assms(6)])
    show "origin_is_candidate ?origin candidate"
      by (simp add: origin_is_candidate_def candidate_state_origin_def Let_def)
    fix other
    assume other: "other \<in> set (ctx_candidates later)" "origin_is_candidate ?origin other"
    have "inj_on (\<lambda>candidate. target_id (cand_target candidate)) (set (ctx_candidates later))"
      using assms(7) by (simp add: distinct_map)
    moreover have "target_id (cand_target other) = target_id (cand_target candidate)"
      using other(2) unfolding origin_is_candidate_def candidate_state_origin_def Let_def by simp
    ultimately show "other = candidate" using other(1) assms(6) by (meson inj_onD)
  qed
  with own show ?thesis
    unfolding candidates_for_request_def assms(1) option.case Let_def assms(3) sum.case using assms(2) by simp
qed

subsection \<open>Witnesses\<close>

text \<open>A process whose upstream is always overloaded, and a request of the caller of \<^theory_text>\<open>Isolation\<close>.\<close>

definition sample_process :: "Store GatewayEnv" where
  "sample_process =
     \<lparr>ge_wire = sample_wire, ge_names = sample_names, ge_coordinator = Some sample_ops,
      ge_put_origin = (\<lambda>c _ _ _ _ _ _ _ _. (c, Inr ())),
      ge_get_origin = (\<lambda>_ _ _ _ _ _ _. Inr (candidate_state_origin (sample_context 1) sample_shared)),
      ge_injection = (\<lambda>_. InjectXApiKey ''x''), ge_http_date = (\<lambda>_. None)\<rparr>"

definition sample_attempt_world :: AttemptWorld where
  "sample_attempt_world =
     \<lparr>aw_idle = 0, aw_wall = 0, aw_unix = 0, aw_clock = (\<lambda>_. 0), aw_grant = 7, aw_epoch = 1, aw_fail_epoch = 2,
      aw_authenticate = Some (0, Some), aw_send = (\<lambda>_. Some (5, ResponseHead 503 None)), aw_chunks = (\<lambda>_. []),
      aw_draw = 0\<rparr>"

definition sample_admission_world :: AdmissionWorld where
  "sample_admission_world =
     \<lparr>dw_idle = 0, dw_wall = 0, dw_clock = (\<lambda>_. 0), dw_lease_clock = (\<lambda>_. 0), dw_rate_grant = 8, dw_fresh = 9\<rparr>"

definition sample_state :: "Store Gateway" where
  "sample_state =
     \<lparr>gw_now = 0, gw_admission = (sample_ready, LocalAdmissionState_default),
      gw_protection = TargetProtectionState_new 4 4 4 4, gw_attempts = [], gw_logical = []\<rparr>"

definition sample_request_context :: AdmissionContext where
  "sample_request_context = (sample_context 1)
     \<lparr>ctx_generation := sample_runtime\<lparr>snapshot := (snapshot sample_runtime)
        \<lparr>catalog := (catalog (snapshot sample_runtime))\<lparr>reliability_policies := [(1, sample_reliability)]\<rparr>\<rparr>\<rparr>,
      ctx_candidates := [sample_shared]\<rparr>"

definition sample_continued :: NativeRequest where
  "sample_continued = sample_keyed\<lparr>intent := sample_intent\<lparr>continuation_reference := Some ''r''\<rparr>\<rparr>"

lemma sample_active: "active_reliability sample_request_context = Some sample_reliability"
  by (simp add: active_reliability_def sample_request_context_def sample_context_def sample_served_def
      sample_route_def sample_reliability_def option_filter_def)

lemma dispatch_attempts_bounded_witness:
  "attempts_made sample_state (dispatch_run sample_process (\<lambda>_. sample_attempt_world) sample_request_context
      sample_keyed \<lparr>precommit_at = 900, terminal_at = 900\<rparr> (LogicalTelemetry_new 0) sample_state) \<le> 2"
proof -
  have "max_distinct_failover_targets (attempt_policy sample_reliability) < u8_max"
    by (simp add: sample_reliability_def u8_max_def)
  moreover have "\<not> lt_recorded (LogicalTelemetry_new 0)" by (simp add: LogicalTelemetry_new_def)
  moreover have "max_total_attempts (attempt_policy sample_reliability) = 2" by (simp add: sample_reliability_def)
  ultimately show ?thesis using dispatch_attempts_bounded [OF sample_active] by fastforce
qed

lemma conversation_resumes_witness:
  "candidates_for_request sample_process sample_request_context sample_continued sample_ready = Inr [sample_shared]"
proof (rule conversation_resumes)
  show "continuation_reference (intent sample_continued) = Some ''r''" by (simp add: sample_continued_def)
  show "ge_get_origin sample_process sample_ready (org_id (ctx_organization sample_request_context))
      (principal_kind_str (ctx_principal sample_request_context)) (affinity_uuid (ctx_principal sample_request_context))
      (route_id (ctx_route sample_request_context)) (IngressProtocolFamily_as_str (req_family sample_continued)) ''r''
    = Inr (candidate_state_origin (sample_context 1) sample_shared)"
    by (simp add: sample_process_def)
qed (simp_all add: sample_process_def same_caller_def sample_request_context_def sample_context_def
    sample_continued_def sample_keyed_def sample_served_def)

lemma continuation_pinned_witness:
  "served_by (\<lambda>c. c = sample_shared) sample_state (dispatch_run sample_process (\<lambda>_. sample_attempt_world)
    sample_request_context sample_continued \<lparr>precommit_at = 900, terminal_at = 900\<rparr> (LogicalTelemetry_new 0) sample_state)"
proof -
  let ?origin = "candidate_state_origin (sample_context 1) sample_shared"
  have ready: "ge_coordinator sample_process \<noteq> None" by (simp add: sample_process_def)
  have held: "pinned_to sample_request_context sample_continued ?origin candidate \<longleftrightarrow> candidate = sample_shared" for candidate
    by (auto simp: pinned_to_def origin_is_candidate_def origin_is_of_request_def candidate_state_origin_def Let_def
        sample_request_context_def sample_context_def sample_continued_def sample_keyed_def sample_served_def)
  have reference: "continuation_reference (intent sample_continued) = Some ''r''"
    and logical: "\<not> lt_recorded (LogicalTelemetry_new 0)"
    by (simp_all add: sample_continued_def LogicalTelemetry_new_def)
  have look: "ge_get_origin sample_process (fst (gw_admission sample_state))
      (org_id (ctx_organization sample_request_context)) (principal_kind_str (ctx_principal sample_request_context))
      (affinity_uuid (ctx_principal sample_request_context)) (route_id (ctx_route sample_request_context))
      (IngressProtocolFamily_as_str (req_family sample_continued)) ''r'' = Inr ?origin"
    by (simp add: sample_process_def)
  note pinned = continuation_pinned [OF reference logical look, where worlds = "\<lambda>_. sample_attempt_world"
      and lifetime = "\<lparr>precommit_at = 900, terminal_at = 900\<rparr>", unfolded sum.case]
  have "\<not> (\<forall>candidate. \<not> pinned_to sample_request_context sample_continued ?origin candidate)" using held by blast
  with pinned ready obtain origin candidate where "Inr ?origin = Inr origin"
    "pinned_to sample_request_context sample_continued origin candidate" and served: "served_by (\<lambda>c. c = candidate) sample_state
      (dispatch_run sample_process (\<lambda>_. sample_attempt_world) sample_request_context sample_continued
        \<lparr>precommit_at = 900, terminal_at = 900\<rparr> (LogicalTelemetry_new 0) sample_state)"
    by blast
  then have "candidate = sample_shared" using held by simp
  with served show ?thesis by simp
qed

lemma request_recorded_once_witness:
  "\<exists>outcome. logged_once sample_state (serve sample_process (\<lambda>c _ _. c) sample_admission_world
    (\<lambda>_. sample_attempt_world) 3 sample_request_context sample_keyed sample_state) outcome"
proof -
  obtain lifetime where "RequestLifetime_new sample_request_context (response_mode (intent sample_keyed))
      (gw_now sample_state) = Inr lifetime"
    by (auto simp: RequestLifetime_new_def sample_active)
  then show ?thesis by (rule request_recorded_once)
qed


definition sample_owner :: StreamOwner where
  "sample_owner =
     \<lparr>so_feed = [], so_inspection = StreamInspection_new TransportOpenaiChatCompletions 1000,
      so_settlement = ResponseSettlement_new (mark_dispatched (AttemptReservation_unconstrained None))
        (AttemptTelemetry_new sample_shared (AttemptReservation_unconstrained None) 0),
      so_permit = \<lparr>permit_domains = [], permit_tokens = [], permit_policy = circuit_policy sample_reliability,
        permit_capacity = (1, 2, 3)\<rparr>,
      so_logical = LogicalTelemetry_new 0, so_deployment = cand_deployment sample_shared, so_pinned = {},
      so_requires_origin = False, so_idle_ms = 1, so_until = 900, so_precommit = ''x''\<rparr>"

lemma stream_accounted_once_witness:
  "\<exists>row. gw_attempts (fst (run_stream sample_wire 3 sample_owner sample_state)) = [row] \<and> row_candidate row = sample_shared
    \<and> row_usage row = Some ProviderUsage_absent"
proof -
  obtain gw' out e where run: "run_stream sample_wire 3 sample_owner sample_state = (gw', out, e)" by (metis prod_cases3)
  have "stream_live sample_owner" "rs_telemetry (so_settlement sample_owner)
      = Some (AttemptTelemetry_new sample_shared (AttemptReservation_unconstrained None) 0)"
    by (simp_all add: sample_owner_def stream_live_def ResponseSettlement_new_def LogicalTelemetry_new_def)
  from stream_accounted_once [OF this run] obtain row chunks where
    row: "gw_attempts gw' = [row]" "row_candidate row = sample_shared"
    and seen: "read_by (gw_now gw') (arrivals 0 []) chunks" "row_usage row
      = Some (usage_seen sample_wire (so_inspection sample_owner) (rs_usage (so_settlement sample_owner)) chunks)"
    by (auto simp: AttemptTelemetry_new_def sample_state_def sample_owner_def)
  have "chunks = []" using seen(1) by (simp add: read_by_def)
  with row seen(2) show ?thesis
    unfolding run fst_conv by (auto simp: sample_owner_def ResponseSettlement_new_def)
qed

text \<open>A chat stream of one event, which is all that its upstream sends before it closes the connection.\<close>

definition sample_chat_wire :: WireExternals where
  "sample_chat_wire = sample_wire
     \<lparr>we_json := (\<lambda>_. Some (JObject [(''choices'', JArray [JObject [(''delta'', JObject [])]])]))\<rparr>"

definition sample_event :: string where
  "sample_event = ''data:x'' @ [CHR 0x0A, CHR 0x0A]"

lemma sample_data: "parse_sse_data sample_chat_wire ''data:x''
  = Inr (SseJson (JObject [(''choices'', JArray [JObject [(''delta'', JObject [])]])]))"
  by (simp add: parse_sse_data_def sample_chat_wire_def data_of_line_def starts_with_def List.map_filter_def byte_in_def)

definition sample_inspected :: "string \<Rightarrow> StreamCommitment \<Rightarrow> nat \<Rightarrow> nat \<Rightarrow> SseInspector" where
  "sample_inspected pending commitment bytes events =
     \<lparr>si_pending = pending, observed_state_ids = {}, si_latest_usage = None, si_terminal = None,
      si_commitment = commitment, si_failure_class = None, precommit_bytes = bytes, precommit_events = events\<rparr>"

definition sample_value :: json where
  "sample_value = JObject [(''choices'', JArray [JObject [(''delta'', JObject [])]])]"

lemma sample_observed:
  "accept_frame sample_chat_wire TransportOpenaiChatCompletions 2 (sample_inspected sample_event CommitmentPending 8 1)
    = Inr (sample_inspected [] CommitmentReady 8 1, sample_event, [sample_value])"
  by (simp add: accept_frame_def sample_data sample_inspected_def sample_event_def sample_value_def foreign_state_id_def
      response_state_id_def observe_json_def Let_def stream_terminal_outcome_def json_str_def option_filter_def
      commitment_of_def stream_establishes_response_def elements_at_def json_is_object_def anthropic_transports_def
      responses_transports_def chat_transports_def gemini_transports_def merge_usage_def extract_json_usage_def
      openai_chat_usage_def ProviderUsage_absent_def)

lemma sample_counted:
  "count_byte b (sample_inspected pending CommitmentPending n e)
    = sample_inspected (pending @ [b]) CommitmentPending (saturating_add u64_max n 1) e"
  "count_event (sample_inspected pending CommitmentPending n e)
    = sample_inspected pending CommitmentPending n (saturating_add u64_max e 1)"
  "si_pending (sample_inspected pending commitment n e) = pending"
  by (simp_all add: count_byte_def count_event_def sample_inspected_def)

lemma sample_line:
  "\<lbrakk>CHR 0x0A \<notin> set line; length pending + length line \<le> MAX_SSE_EVENT_BYTES; n + length line \<le> u64_max\<rbrakk>
    \<Longrightarrow> push_loop we transport (line @ bytes) (sample_inspected pending CommitmentPending n e) batch
      = push_loop we transport bytes
          (sample_inspected (pending @ line) CommitmentPending (n + length line) e) batch"
proof (induction line arbitrary: pending n)
  case (Cons b line)
  then have "frame_delimiter (pending @ [b]) = None"
    by (auto simp: frame_delimiter_def starts_with_def take_Suc_conv_app_nth)
  with Cons show ?case
    by (simp add: sample_counted saturating_add_def)
qed simp

lemma sample_frames:
  "push_frames sample_chat_wire TransportOpenaiChatCompletions sample_event (sample_inspected [] CommitmentPending 0 0)
    = (sample_inspected [] CommitmentReady 8 1,
       \<lparr>sse_bytes = sample_event, sse_values = [sample_value], sse_error = None\<rparr>)"
proof -
  have small: "8 \<le> u64_max" "8 \<le> MAX_SSE_EVENT_BYTES" by (simp_all add: u64_max_def MAX_SSE_EVENT_BYTES_def)
  have one: "frame_delimiter (''data:x'' @ [CHR 0x0A]) = None"
    and two: "frame_delimiter (''data:x'' @ [CHR 0x0A, CHR 0x0A]) = Some 2"
    by (simp_all add: frame_delimiter_def starts_with_def)
  have six: "0 + length ''data:x'' = 6" by simp
  have "push_loop sample_chat_wire TransportOpenaiChatCompletions (''data:x'' @ [CHR 0x0A, CHR 0x0A])
      (sample_inspected [] CommitmentPending 0 0) empty_batch
    = push_loop sample_chat_wire TransportOpenaiChatCompletions [CHR 0x0A, CHR 0x0A]
        (sample_inspected ([] @ ''data:x'') CommitmentPending (0 + length ''data:x'') 0) empty_batch"
    by (rule sample_line) (use small in \<open>simp_all add: u64_max_def MAX_SSE_EVENT_BYTES_def\<close>)
  note line = this [unfolded six append_Nil]
  have first: "push_loop sample_chat_wire TransportOpenaiChatCompletions [CHR 0x0A, CHR 0x0A]
        (sample_inspected ''data:x'' CommitmentPending 6 0) empty_batch
     = push_loop sample_chat_wire TransportOpenaiChatCompletions [CHR 0x0A]
        (sample_inspected (''data:x'' @ [CHR 0x0A]) CommitmentPending 7 0) empty_batch"
    using small one
    by (subst push_loop.simps) (simp add: sample_counted saturating_add_def del: push_loop.simps)
  have second: "push_loop sample_chat_wire TransportOpenaiChatCompletions [CHR 0x0A]
        (sample_inspected (''data:x'' @ [CHR 0x0A]) CommitmentPending 7 0) empty_batch
     = (sample_inspected [] CommitmentReady 8 1,
       \<lparr>sse_bytes = sample_event, sse_values = [sample_value], sse_error = None\<rparr>)"
    using small two sample_observed
    by (simp add: sample_counted saturating_add_def sample_event_def empty_batch_def)
  show ?thesis unfolding push_frames_def sample_event_def line first by (simp only: second sample_event_def)
qed

definition sample_feed :: chunk_feed where
  "sample_feed = [(1, ChunkData sample_event), (1, ChunkEnd)]"

definition sample_chat :: Candidate where
  "sample_chat = sample_shared\<lparr>cand_deployment := (cand_deployment sample_shared)
     \<lparr>dep_transport_kind := TransportOpenaiChatCompletions\<rparr>\<rparr>"

definition sample_chat_process :: "Store GatewayEnv" where
  "sample_chat_process = sample_process\<lparr>ge_wire := sample_chat_wire\<rparr>"

definition sample_inspection :: StreamInspection where
  "sample_inspection =
     \<lparr>ins_transport = TransportOpenaiChatCompletions, ins_event_stream = None,
      ins_inspector = sample_inspected [] CommitmentReady 8 1, ins_failed = False, ins_remaining_bytes = 92\<rparr>"

lemma sample_pushed:
  "StreamInspection_push sample_chat_wire sample_event (StreamInspection_new TransportOpenaiChatCompletions 100)
    = (sample_inspection, Some sample_event)"
proof -
  have new: "SseInspector_default = sample_inspected [] CommitmentPending 0 0"
    by (simp add: SseInspector_default_def sample_inspected_def)
  have len: "length sample_event = 8" by (simp add: sample_event_def)
  show ?thesis
    by (simp add: StreamInspection_push_def StreamInspection_new_def decoded_output_def new len sample_frames)
      (simp add: sample_inspection_def sample_inspected_def)
qed

lemma sample_committed:
  assumes "completeness (rs_usage s) = UsageAbsent"
  shows "precommit_loop sample_chat_wire (commitment_policy sample_reliability) 100 False (cand_deployment sample_chat)
      900 900 sample_feed 0
      \<lparr>pre_feed = sample_feed, pre_inspection = StreamInspection_new TransportOpenaiChatCompletions 100,
       pre_bytes = [], pre_settlement = s, pre_logical = l\<rparr>
    = (1, \<lparr>pre_feed = [(1, ChunkEnd)], pre_inspection = sample_inspection, pre_bytes = sample_event,
           pre_settlement = s, pre_logical = l\<rparr>, PrecommitReady)"
proof -
  have "sample_event \<noteq> []" by (simp add: sample_event_def)
  with assms show ?thesis
    by (subst precommit_loop.simps)
      (simp add: sample_feed_def wait_for_def precommit_chunk_def sample_pushed sample_inspection_def sample_inspected_def
        inspector_usage_def settlement_observe_def logical_observe_def ProviderUsage_absent_def
        precommit_oversized_def sample_reliability_def)
qed

definition sample_committing :: "Store Attempted" where
  "sample_committing =
     streaming_response sample_chat_process sample_attempt_world sample_feed
       (sample_client\<lparr>client_max_response_body_bytes := 100\<rparr>) sample_request_context sample_chat sample_reliability
       \<lparr>precommit_at = 900, terminal_at = 900\<rparr> (AttemptReservation_unconstrained None)
       \<lparr>permit_domains = [], permit_tokens = [], permit_policy = circuit_policy sample_reliability,
         permit_capacity = (1, 2, 3)\<rparr>
       (AttemptTelemetry_new sample_chat (AttemptReservation_unconstrained None) 0) (LogicalTelemetry_new 0) sample_state"

lemma sample_stream: "\<exists>so. ad_result sample_committing = AttemptResponse (StreamResponse so)"
proof -
  have transport: "dep_transport_kind (cand_deployment sample_chat) = TransportOpenaiChatCompletions"
    by (simp add: sample_chat_def)
  have wire: "ge_wire sample_chat_process = sample_chat_wire" by (simp add: sample_chat_process_def)
  have limit: "response_limit (sample_client\<lparr>client_max_response_body_bytes := 100\<rparr>) sample_request_context = 100"
    by (simp add: response_limit_def sample_request_context_def sample_context_def RouteRequestPolicy_default_def
        default_max_response_body_bytes_def)
  have start: "gw_now sample_state = 0" by (simp add: sample_state_def)
  have limits: "min (stream_precommit_buffer_bytes (commitment_policy sample_reliability)) 100 = 100"
    "min 900 (duration_from_millis (pre_commit_classification_timeout_ms (deadline_policy sample_reliability))) = 900"
    by (simp_all add: sample_reliability_def duration_from_millis_def)
  have absent: "completeness (rs_usage (ResponseSettlement_new r t)) = UsageAbsent" for r t
    by (simp add: ResponseSettlement_new_def ProviderUsage_absent_def)
  show ?thesis
    by (simp add: sample_committing_def streaming_response_def Let_def transport wire limit start limits
        requires_state_origin_def sample_committed [OF absent] attempted_def sample_inspection_def sample_inspected_def)
qed

lemma stream_forwards_upstream_witness:
  "\<exists>so out e. ad_result sample_committing = AttemptResponse (StreamResponse so)
    \<and> snd (run_stream sample_wire 3 so sample_state) = (out, e) \<and> forwarded (feed_data sample_feed) (concat out) e"
proof -
  obtain so where so: "ad_result sample_committing = AttemptResponse (StreamResponse so)" using sample_stream by blast
  obtain gw out e where run: "run_stream sample_wire 3 so sample_state = (gw, out, e)" by (metis prod_cases3)
  have "dep_transport_kind (cand_deployment sample_chat) \<noteq> TransportAnthropicMessagesBedrock"
    by (simp add: sample_chat_def)
  from stream_forwards_upstream [OF so [unfolded sample_committing_def] this run] so run
  show ?thesis by auto
qed
end
