(* ===== verification/Usage.thy ===== *)
theory Usage
  imports Exchange
begin

section \<open>Recording usage\<close>

text \<open>
  \<open>gateway/usage.rs\<close>: facts of requests and attempts are added up in memory by hour and by their
  dimensions, sealed into numbered batches, and flushed to the database in transactions that a receipt makes
  idempotent.  A time is a number of nanoseconds.  \<open>digest\<close> is the SHA-256 of the serialized facts.
  The maps of the aggregates are association lists, drained in their order.  The state's lock is never
  poisoned; metrics and log lines are left out.
\<close>

type_synonym utc = int

definition MAX_NUMERIC_38 :: nat where "MAX_NUMERIC_38 = 10 ^ 38 - 1"

definition i64_max :: nat where "i64_max = 2 ^ 63 - 1"

definition i32_max :: nat where "i32_max = 2 ^ 31 - 1"

subsection \<open>Keys and facts\<close>

record PrincipalDimensions =
  pd_kind :: string
  pd_gateway_api_key_id :: "uuid option"
  pd_user_id :: "uuid option"
  pd_membership_id :: "uuid option"

record LogicalUsageKey =
  lk_bucket_start :: utc
  lk_organization_id :: uuid
  lk_principal :: PrincipalDimensions
  lk_route_id :: uuid
  lk_route_grant_identity_id :: "uuid option"
  lk_ingress_protocol_family :: string
  lk_outcome_class :: string

record LogicalUsageDelta =
  ld_request_count :: nat
  ld_input_units :: nat
  ld_output_units :: nat
  ld_cached_input_units :: nat
  ld_cost_nanos :: "nat option"
  ld_unknown_cost_count :: nat
  ld_duration_millis :: nat

record BudgetDimensions =
  bd_key_policy_id :: "uuid option"
  bd_key_version_id :: "uuid option"
  bd_key_generation :: "nat option"
  bd_key_epoch :: "string option"
  bd_origin_policy_id :: "uuid option"
  bd_origin_version_id :: "uuid option"
  bd_origin_generation :: "nat option"
  bd_origin_epoch :: "string option"

record AttemptUsageKey =
  ak_bucket_start :: utc
  ak_organization_id :: uuid
  ak_principal :: PrincipalDimensions
  ak_route_id :: uuid
  ak_route_grant_identity_id :: "uuid option"
  ak_target_id :: uuid
  ak_deployment_id :: uuid
  ak_endpoint_id :: uuid
  ak_endpoint_config_version :: int
  ak_credential_id :: uuid
  ak_credential_secret_version :: int
  ak_credential_state_identity_version :: nat
  ak_origin :: string
  ak_pricing_policy_version_id :: "uuid option"
  ak_budgets :: BudgetDimensions
  ak_terminal_class :: string

record AttemptUsageDelta =
  ad_attempt_count :: nat
  ad_input_units :: nat
  ad_output_units :: nat
  ad_cached_input_units :: nat
  ad_estimated_cost_nanos :: "nat option"
  ad_unknown_estimate_count :: nat
  ad_actual_cost_nanos :: "nat option"
  ad_unknown_cost_count :: nat
  ad_duration_millis :: nat

datatype UsageFacts =
  FactsLogical "(LogicalUsageKey \<times> LogicalUsageDelta) list"
| FactsAttempts "(AttemptUsageKey \<times> AttemptUsageDelta) list"

fun UsageFacts_family :: "UsageFacts \<Rightarrow> string" where
  "UsageFacts_family (FactsLogical _) = ''logical_hourly''"
| "UsageFacts_family (FactsAttempts _) = ''attempt_hourly''"

fun UsageFacts_len :: "UsageFacts \<Rightarrow> nat" where
  "UsageFacts_len (FactsLogical facts) = length facts"
| "UsageFacts_len (FactsAttempts facts) = length facts"

record UsageBatch =
  ub_sequence :: nat
  ub_digest :: "byte list"
  ub_facts :: UsageFacts

record UsageConfig =
  max_aggregate_keys :: nat
  max_pending_batches :: nat

record UsageState =
  next_batch_sequence :: nat
  us_logical :: "(LogicalUsageKey \<times> LogicalUsageDelta) list"
  us_attempts :: "(AttemptUsageKey \<times> AttemptUsageDelta) list"
  us_pending :: "UsageBatch list"
  lost_logical_facts :: nat
  lost_attempt_facts :: nat
  last_flush_error :: "string option"
  last_retention_error :: "string option"
  retained_rows_deleted :: nat

definition UsageState_default :: UsageState where
  "UsageState_default =
     \<lparr>next_batch_sequence = 0, us_logical = [], us_attempts = [], us_pending = [], lost_logical_facts = 0,
      lost_attempt_facts = 0, last_flush_error = None, last_retention_error = None, retained_rows_deleted = 0\<rparr>"

record UsageStatus =
  st_active_logical_keys :: nat
  st_active_attempt_keys :: nat
  st_pending_batches :: nat
  st_unconfirmed_logical_facts :: nat
  st_unconfirmed_attempt_facts :: nat
  st_lost_logical_facts :: nat
  st_lost_attempt_facts :: nat
  st_last_flush_error :: "string option"
  st_last_retention_error :: "string option"
  st_retained_rows_deleted :: nat

subsection \<open>What is known of a fact\<close>

definition hour_nanos :: int where "hour_nanos = 3600 * 1000000000"

definition day_nanos :: int where "day_nanos = 24 * hour_nanos"

definition current_hour :: "utc \<Rightarrow> utc" where
  "current_hour now = now - now mod hour_nanos"

definition day_bucket :: "utc \<Rightarrow> utc" where
  "day_bucket v = v - v mod day_nanos"

definition principal_dimensions :: "GatewayPrincipal \<Rightarrow> PrincipalDimensions" where
  "principal_dimensions caller =
     (case caller of
        GatewayKeyPrincipal key_id _ \<Rightarrow>
          \<lparr>pd_kind = ''gateway_api_key'', pd_gateway_api_key_id = Some key_id, pd_user_id = None,
           pd_membership_id = None\<rparr>
      | LocalUserPrincipal user \<Rightarrow>
          \<lparr>pd_kind = ''external_jwt'', pd_gateway_api_key_id = None, pd_user_id = Some (lu_user_id user),
           pd_membership_id = Some (membership_id (lu_membership user))\<rparr>)"

definition budget_dimensions :: "AdmissionContext \<Rightarrow> Candidate \<Rightarrow> BudgetDimensions" where
  "budget_dimensions admission candidate =
     (case ctx_principal admission of
        LocalUserPrincipal _ \<Rightarrow>
          \<lparr>bd_key_policy_id = None, bd_key_version_id = None, bd_key_generation = None, bd_key_epoch = None,
           bd_origin_policy_id = None, bd_origin_version_id = None, bd_origin_generation = None,
           bd_origin_epoch = None\<rparr>
      | GatewayKeyPrincipal _ verifier \<Rightarrow>
          let key_policy = aget (key_budget_policies (catalog (snapshot (ctx_generation admission))))
                (gk_budget_policy_id verifier);
              key_version = Option.bind key_policy bp_active_version;
              origin_policy = aget (origin_budgets (ctx_organization admission))
                (dep_origin (cand_deployment candidate));
              origin_version = Option.bind origin_policy bp_active_version in
          \<lparr>bd_key_policy_id = Some (gk_budget_policy_id verifier),
           bd_key_version_id = map_option bv_id key_version,
           bd_key_generation = map_option bv_generation key_version,
           bd_key_epoch = map_option bv_epoch key_version,
           bd_origin_policy_id = map_option bp_id origin_policy,
           bd_origin_version_id = map_option bv_id origin_version,
           bd_origin_generation = map_option bv_generation origin_version,
           bd_origin_epoch = map_option bv_epoch origin_version\<rparr>)"

definition route_grant_identity :: "AdmissionContext \<Rightarrow> uuid option" where
  "route_grant_identity admission =
     map_option srg_identity_id (aget (system_route_grants (ctx_organization admission))
       (route_id (ctx_route admission)))"

definition usage_dimension :: "ProviderUsage \<Rightarrow> string \<Rightarrow> string \<Rightarrow> nat" where
  "usage_dimension usage primary alternate =
     (case aget (dimensions usage) primary of
        Some n \<Rightarrow> n
      | None \<Rightarrow> (case aget (dimensions usage) alternate of None \<Rightarrow> 0 | Some n \<Rightarrow> n))"

definition usage_dimensions :: "ProviderUsage option \<Rightarrow> nat \<times> nat \<times> nat" where
  "usage_dimensions usage =
     (case usage of
        None \<Rightarrow> (0, 0, 0)
      | Some usage \<Rightarrow>
          (usage_dimension usage ''input_tokens'' ''input_units'',
           usage_dimension usage ''output_tokens'' ''output_units'',
           usage_dimension usage ''cached_input_tokens'' ''cached_input_units''))"

definition priced_usage :: "ProviderUsage option \<Rightarrow> DeploymentSnapshot option \<Rightarrow> nat option \<times> nat" where
  "priced_usage usage deployment =
     (case option_filter (\<lambda>usage. completeness usage = UsageComplete) usage of
        None \<Rightarrow> (None, 1)
      | Some usage \<Rightarrow>
          (case Option.bind deployment (\<lambda>deployment. ProviderUsage_price usage deployment) of
             Some (Some (Known cost_nanos)) \<Rightarrow>
               if cost_nanos \<le> MAX_NUMERIC_38 then (Some cost_nanos, 0) else (None, 1)
           | _ \<Rightarrow> (None, 1)))"

subsection \<open>Adding up\<close>

text \<open>An addition that does not fit leaves its target alone and is \<open>None\<close>.\<close>

definition add_u64 :: "nat \<Rightarrow> nat \<Rightarrow> nat option" where
  "add_u64 target value = checked_add u64_max target value"

definition add_numeric :: "nat \<Rightarrow> nat \<Rightarrow> nat option" where
  "add_numeric target value = option_filter (\<lambda>n. n \<le> MAX_NUMERIC_38) (checked_add u128_max target value)"

definition add_optional_numeric :: "nat option \<Rightarrow> nat option \<Rightarrow> nat option option" where
  "add_optional_numeric target value =
     (case value of
        None \<Rightarrow> Some target
      | Some value \<Rightarrow>
          (case target of
             Some target \<Rightarrow> map_option Some (add_numeric target value)
           | None \<Rightarrow> if value \<le> MAX_NUMERIC_38 then Some (Some value) else None))"

definition LogicalUsageDelta_default :: LogicalUsageDelta where
  "LogicalUsageDelta_default =
     \<lparr>ld_request_count = 0, ld_input_units = 0, ld_output_units = 0, ld_cached_input_units = 0,
      ld_cost_nanos = None, ld_unknown_cost_count = 0, ld_duration_millis = 0\<rparr>"

definition AttemptUsageDelta_default :: AttemptUsageDelta where
  "AttemptUsageDelta_default =
     \<lparr>ad_attempt_count = 0, ad_input_units = 0, ad_output_units = 0, ad_cached_input_units = 0,
      ad_estimated_cost_nanos = None, ad_unknown_estimate_count = 0, ad_actual_cost_nanos = None,
      ad_unknown_cost_count = 0, ad_duration_millis = 0\<rparr>"

definition merge_logical :: "LogicalUsageDelta \<Rightarrow> LogicalUsageDelta \<Rightarrow> LogicalUsageDelta option" where
  "merge_logical target delta =
     (case (add_u64 (ld_request_count target) (ld_request_count delta),
            add_numeric (ld_input_units target) (ld_input_units delta),
            add_numeric (ld_output_units target) (ld_output_units delta),
            add_numeric (ld_cached_input_units target) (ld_cached_input_units delta),
            add_optional_numeric (ld_cost_nanos target) (ld_cost_nanos delta),
            add_u64 (ld_unknown_cost_count target) (ld_unknown_cost_count delta),
            add_numeric (ld_duration_millis target) (ld_duration_millis delta)) of
        (Some events, Some input, Some output, Some cached, Some cost, Some unknown, Some duration) \<Rightarrow>
          Some \<lparr>ld_request_count = events, ld_input_units = input, ld_output_units = output,
            ld_cached_input_units = cached, ld_cost_nanos = cost, ld_unknown_cost_count = unknown,
            ld_duration_millis = duration\<rparr>
      | _ \<Rightarrow> None)"

definition merge_attempt :: "AttemptUsageDelta \<Rightarrow> AttemptUsageDelta \<Rightarrow> AttemptUsageDelta option" where
  "merge_attempt target delta =
     (case (add_u64 (ad_attempt_count target) (ad_attempt_count delta),
            add_numeric (ad_input_units target) (ad_input_units delta),
            add_numeric (ad_output_units target) (ad_output_units delta),
            add_numeric (ad_cached_input_units target) (ad_cached_input_units delta),
            add_optional_numeric (ad_estimated_cost_nanos target) (ad_estimated_cost_nanos delta),
            add_u64 (ad_unknown_estimate_count target) (ad_unknown_estimate_count delta),
            add_optional_numeric (ad_actual_cost_nanos target) (ad_actual_cost_nanos delta),
            add_u64 (ad_unknown_cost_count target) (ad_unknown_cost_count delta),
            add_numeric (ad_duration_millis target) (ad_duration_millis delta)) of
        (Some events, Some input, Some output, Some cached, Some estimate, Some unestimated, Some actual,
         Some unknown, Some duration) \<Rightarrow>
          Some \<lparr>ad_attempt_count = events, ad_input_units = input, ad_output_units = output,
            ad_cached_input_units = cached, ad_estimated_cost_nanos = estimate,
            ad_unknown_estimate_count = unestimated, ad_actual_cost_nanos = actual,
            ad_unknown_cost_count = unknown, ad_duration_millis = duration\<rparr>
      | _ \<Rightarrow> None)"

subsection \<open>Sealing\<close>

definition push_batch :: "(UsageFacts \<Rightarrow> byte list) \<Rightarrow> UsageFacts \<Rightarrow> UsageState \<Rightarrow> UsageState" where
  "push_batch digest facts state =
     state\<lparr>next_batch_sequence := saturating_add u64_max (next_batch_sequence state) 1,
       us_pending := us_pending state
         @ [\<lparr>ub_sequence = next_batch_sequence state, ub_digest = digest facts, ub_facts = facts\<rparr>]\<rparr>"

definition seal_logical :: "(UsageFacts \<Rightarrow> byte list) \<Rightarrow> nat \<Rightarrow> UsageState \<Rightarrow> UsageState \<times> bool" where
  "seal_logical digest maximum_pending state =
     (if us_logical state = [] then (state, True)
      else if length (us_pending state) \<ge> maximum_pending then (state, False)
      else (push_batch digest (FactsLogical (us_logical state)) (state\<lparr>us_logical := []\<rparr>), True))"

definition seal_attempts :: "(UsageFacts \<Rightarrow> byte list) \<Rightarrow> nat \<Rightarrow> UsageState \<Rightarrow> UsageState \<times> bool" where
  "seal_attempts digest maximum_pending state =
     (if us_attempts state = [] then (state, True)
      else if length (us_pending state) \<ge> maximum_pending then (state, False)
      else (push_batch digest (FactsAttempts (us_attempts state)) (state\<lparr>us_attempts := []\<rparr>), True))"

subsection \<open>Recording a fact\<close>

definition add_logical_fact ::
    "LogicalUsageKey \<Rightarrow> LogicalUsageDelta \<Rightarrow> UsageState \<Rightarrow> UsageState" where
  "add_logical_fact key delta state =
     (let target = (case aget (us_logical state) key of None \<Rightarrow> LogicalUsageDelta_default | Some d \<Rightarrow> d) in
      case merge_logical target delta of
        Some merged \<Rightarrow> state\<lparr>us_logical := aput key merged (us_logical state)\<rparr>
      | None \<Rightarrow> state\<lparr>us_logical := aput key target (us_logical state),
          lost_logical_facts := saturating_add u64_max (lost_logical_facts state) 1\<rparr>)"

definition record_logical_fact ::
    "(UsageFacts \<Rightarrow> byte list) \<Rightarrow> UsageConfig \<Rightarrow> LogicalUsageKey \<Rightarrow> LogicalUsageDelta \<Rightarrow> UsageState \<Rightarrow> UsageState" where
  "record_logical_fact digest config key delta state =
     (if aget (us_logical state) key = None \<and> length (us_logical state) \<ge> max_aggregate_keys config
      then (case seal_logical digest (max_pending_batches config) state of
          (state, False) \<Rightarrow> state\<lparr>lost_logical_facts := saturating_add u64_max (lost_logical_facts state) 1\<rparr>
        | (state, True) \<Rightarrow> add_logical_fact key delta state)
      else add_logical_fact key delta state)"

definition logical_usage_key :: "utc \<Rightarrow> AdmissionContext \<Rightarrow> string \<Rightarrow> LogicalUsageKey" where
  "logical_usage_key now admission outcome_class =
     \<lparr>lk_bucket_start = current_hour now, lk_organization_id = org_id (ctx_organization admission),
      lk_principal = principal_dimensions (ctx_principal admission), lk_route_id = route_id (ctx_route admission),
      lk_route_grant_identity_id = route_grant_identity admission,
      lk_ingress_protocol_family = IngressProtocolFamily_as_str (ingress_protocol_family (ctx_route admission)),
      lk_outcome_class = outcome_class\<rparr>"

definition logical_usage_delta ::
    "ProviderUsage option \<Rightarrow> DeploymentSnapshot option \<Rightarrow> nat \<Rightarrow> LogicalUsageDelta" where
  "logical_usage_delta usage deployment elapsed_millis =
     (let (input, output, cached) = usage_dimensions usage;
          (cost_nanos, unknown_cost_count) = priced_usage usage deployment in
      \<lparr>ld_request_count = 1, ld_input_units = input, ld_output_units = output, ld_cached_input_units = cached,
       ld_cost_nanos = cost_nanos, ld_unknown_cost_count = unknown_cost_count,
       ld_duration_millis = elapsed_millis\<rparr>)"

definition aggregate_logical ::
    "(UsageFacts \<Rightarrow> byte list) \<Rightarrow> UsageConfig \<Rightarrow> utc \<Rightarrow> AdmissionContext \<Rightarrow> string \<Rightarrow> ProviderUsage option
      \<Rightarrow> DeploymentSnapshot option \<Rightarrow> nat \<Rightarrow> UsageState \<Rightarrow> UsageState" where
  "aggregate_logical digest config now admission outcome_class usage deployment elapsed_millis =
     record_logical_fact digest config (logical_usage_key now admission outcome_class)
       (logical_usage_delta usage deployment elapsed_millis)"

definition add_attempt_fact ::
    "AttemptUsageKey \<Rightarrow> AttemptUsageDelta \<Rightarrow> UsageState \<Rightarrow> UsageState" where
  "add_attempt_fact key delta state =
     (let target = (case aget (us_attempts state) key of None \<Rightarrow> AttemptUsageDelta_default | Some d \<Rightarrow> d) in
      case merge_attempt target delta of
        Some merged \<Rightarrow> state\<lparr>us_attempts := aput key merged (us_attempts state)\<rparr>
      | None \<Rightarrow> state\<lparr>us_attempts := aput key target (us_attempts state),
          lost_attempt_facts := saturating_add u64_max (lost_attempt_facts state) 1\<rparr>)"

definition record_attempt_fact ::
    "(UsageFacts \<Rightarrow> byte list) \<Rightarrow> UsageConfig \<Rightarrow> AttemptUsageKey \<Rightarrow> AttemptUsageDelta \<Rightarrow> UsageState \<Rightarrow> UsageState" where
  "record_attempt_fact digest config key delta state =
     (if aget (us_attempts state) key = None \<and> length (us_attempts state) \<ge> max_aggregate_keys config
      then (case seal_attempts digest (max_pending_batches config) state of
          (state, False) \<Rightarrow> state\<lparr>lost_attempt_facts := saturating_add u64_max (lost_attempt_facts state) 1\<rparr>
        | (state, True) \<Rightarrow> add_attempt_fact key delta state)
      else add_attempt_fact key delta state)"

definition usage_terminal_class :: "AttemptTerminalClass \<Rightarrow> nat option \<Rightarrow> nat option \<Rightarrow> string" where
  "usage_terminal_class terminal_class actual estimate =
     (if terminal_class = ClassActual
         \<and> (case (actual, estimate) of (Some a, Some e) \<Rightarrow> a > e | _ \<Rightarrow> False)
      then ''actual_above_estimate'' else AttemptTerminalClass_as_str terminal_class)"

definition attempt_usage_key :: "utc \<Rightarrow> AdmissionContext \<Rightarrow> Candidate \<Rightarrow> string \<Rightarrow> AttemptUsageKey" where
  "attempt_usage_key now admission candidate terminal_class =
     (let d = cand_deployment candidate in
      \<lparr>ak_bucket_start = current_hour now, ak_organization_id = org_id (ctx_organization admission),
       ak_principal = principal_dimensions (ctx_principal admission), ak_route_id = route_id (ctx_route admission),
       ak_route_grant_identity_id = route_grant_identity admission,
       ak_target_id = target_id (cand_target candidate), ak_deployment_id = dep_id d,
       ak_endpoint_id = dep_endpoint_id d, ak_endpoint_config_version = dep_endpoint_config_version d,
       ak_credential_id = dep_credential_id d, ak_credential_secret_version = dep_credential_secret_version d,
       ak_credential_state_identity_version = dep_credential_state_identity_version d,
       ak_origin = accounting_origin_str (dep_origin d),
       ak_pricing_policy_version_id = pricing_policy_version_id d,
       ak_budgets = budget_dimensions admission candidate, ak_terminal_class = terminal_class\<rparr>)"

definition attempt_usage_delta ::
    "nat option \<Rightarrow> ProviderUsage option \<Rightarrow> DeploymentSnapshot \<Rightarrow> nat \<Rightarrow> AttemptUsageDelta" where
  "attempt_usage_delta estimate usage deployment elapsed_millis =
     (let (input, output, cached) = usage_dimensions usage;
          (actual_cost_nanos, unknown_cost_count) = priced_usage usage (Some deployment);
          known = option_filter (\<lambda>n. n \<le> MAX_NUMERIC_38) estimate in
      \<lparr>ad_attempt_count = 1, ad_input_units = input, ad_output_units = output, ad_cached_input_units = cached,
       ad_estimated_cost_nanos = known, ad_unknown_estimate_count = (if known = None then 1 else 0),
       ad_actual_cost_nanos = actual_cost_nanos, ad_unknown_cost_count = unknown_cost_count,
       ad_duration_millis = elapsed_millis\<rparr>)"

definition aggregate_attempt ::
    "(UsageFacts \<Rightarrow> byte list) \<Rightarrow> UsageConfig \<Rightarrow> utc \<Rightarrow> AdmissionContext \<Rightarrow> Candidate \<Rightarrow> AttemptTerminalClass
      \<Rightarrow> nat option \<Rightarrow> ProviderUsage option \<Rightarrow> nat \<Rightarrow> UsageState \<Rightarrow> UsageState" where
  "aggregate_attempt digest config now admission candidate terminal_class estimate usage elapsed_millis =
     (let delta = attempt_usage_delta estimate usage (cand_deployment candidate) elapsed_millis in
      record_attempt_fact digest config
        (attempt_usage_key now admission candidate
          (usage_terminal_class terminal_class (ad_actual_cost_nanos delta) estimate))
        delta)"

subsection \<open>The status\<close>

text \<open>What a batch counts, of either family.\<close>

definition count_logical :: "UsageFacts \<Rightarrow> nat \<Rightarrow> nat" where
  "count_logical facts n =
     (case facts of
        FactsLogical facts \<Rightarrow> fold (\<lambda>(_, d) n. saturating_add u64_max n (ld_request_count d)) facts n
      | FactsAttempts _ \<Rightarrow> n)"

definition count_attempts :: "UsageFacts \<Rightarrow> nat \<Rightarrow> nat" where
  "count_attempts facts n =
     (case facts of
        FactsLogical _ \<Rightarrow> n
      | FactsAttempts facts \<Rightarrow> fold (\<lambda>(_, d) n. saturating_add u64_max n (ad_attempt_count d)) facts n)"

definition usage_status :: "UsageState \<Rightarrow> UsageStatus" where
  "usage_status state =
     \<lparr>st_active_logical_keys = length (us_logical state), st_active_attempt_keys = length (us_attempts state),
      st_pending_batches = length (us_pending state),
      st_unconfirmed_logical_facts = fold (\<lambda>b. count_logical (ub_facts b)) (us_pending state)
        (count_logical (FactsLogical (us_logical state)) 0),
      st_unconfirmed_attempt_facts = fold (\<lambda>b. count_attempts (ub_facts b)) (us_pending state)
        (count_attempts (FactsAttempts (us_attempts state)) 0),
      st_lost_logical_facts = lost_logical_facts state, st_lost_attempt_facts = lost_attempt_facts state,
      st_last_flush_error = last_flush_error state, st_last_retention_error = last_retention_error state,
      st_retained_rows_deleted = retained_rows_deleted state\<rparr>"

subsection \<open>The database\<close>

text \<open>
  The tables of a flush.  A row of usage is found by its key but for the identity of a route grant, which the
  organization and the route determine; \<open>bigint\<close> and \<open>numeric(38,0)\<close> columns fail when a sum does not fit,
  and a failure (\<open>None\<close>) rolls the transaction back.
\<close>

record UsageReceipt =
  rc_digest :: "byte list"
  rc_fact_count :: nat
  rc_flushed_at :: utc

record UsageDb =
  db_receipts :: "((uuid \<times> nat \<times> string) \<times> UsageReceipt) list"
  db_logical_hourly :: "(LogicalUsageKey \<times> LogicalUsageDelta) list"
  db_logical_daily :: "(LogicalUsageKey \<times> LogicalUsageDelta) list"
  db_attempt_hourly :: "(AttemptUsageKey \<times> AttemptUsageDelta) list"
  db_attempt_daily :: "(AttemptUsageKey \<times> AttemptUsageDelta) list"

definition add_bigint :: "nat \<Rightarrow> nat \<Rightarrow> nat option" where
  "add_bigint target value = checked_add i64_max target (min value i64_max)"

definition sum_numeric :: "nat \<Rightarrow> nat \<Rightarrow> nat option" where
  "sum_numeric target value = checked_add MAX_NUMERIC_38 target value"

definition sum_optional_numeric :: "nat option \<Rightarrow> nat option \<Rightarrow> nat option option" where
  "sum_optional_numeric target value =
     (case (target, value) of
        (None, None) \<Rightarrow> Some None
      | _ \<Rightarrow> map_option Some (sum_numeric (case target of None \<Rightarrow> 0 | Some n \<Rightarrow> n)
               (case value of None \<Rightarrow> 0 | Some n \<Rightarrow> n)))"

definition logical_row_key :: "bool \<Rightarrow> LogicalUsageKey \<Rightarrow> LogicalUsageKey" where
  "logical_row_key daily key =
     key\<lparr>lk_bucket_start := (if daily then day_bucket (lk_bucket_start key) else lk_bucket_start key),
       lk_route_grant_identity_id := None\<rparr>"

definition attempt_row_key :: "bool \<Rightarrow> AttemptUsageKey \<Rightarrow> AttemptUsageKey" where
  "attempt_row_key daily key =
     key\<lparr>ak_bucket_start := (if daily then day_bucket (ak_bucket_start key) else ak_bucket_start key),
       ak_route_grant_identity_id := None\<rparr>"

definition upsert_logical ::
    "bool \<Rightarrow> LogicalUsageKey \<Rightarrow> LogicalUsageDelta \<Rightarrow> (LogicalUsageKey \<times> LogicalUsageDelta) list
      \<Rightarrow> (LogicalUsageKey \<times> LogicalUsageDelta) list option" where
  "upsert_logical daily key delta rows =
     (let row = logical_row_key daily key;
          old = (case aget rows row of None \<Rightarrow> LogicalUsageDelta_default | Some d \<Rightarrow> d) in
      case (add_bigint (ld_request_count old) (ld_request_count delta),
            sum_numeric (ld_input_units old) (ld_input_units delta),
            sum_numeric (ld_output_units old) (ld_output_units delta),
            sum_numeric (ld_cached_input_units old) (ld_cached_input_units delta),
            sum_optional_numeric (ld_cost_nanos old) (ld_cost_nanos delta),
            add_bigint (ld_unknown_cost_count old) (ld_unknown_cost_count delta),
            sum_numeric (ld_duration_millis old) (ld_duration_millis delta)) of
        (Some events, Some input, Some output, Some cached, Some cost, Some unknown, Some duration) \<Rightarrow>
          Some (aput row \<lparr>ld_request_count = events, ld_input_units = input, ld_output_units = output,
            ld_cached_input_units = cached, ld_cost_nanos = cost, ld_unknown_cost_count = unknown,
            ld_duration_millis = duration\<rparr> rows)
      | _ \<Rightarrow> None)"

definition upsert_attempt ::
    "bool \<Rightarrow> AttemptUsageKey \<Rightarrow> AttemptUsageDelta \<Rightarrow> (AttemptUsageKey \<times> AttemptUsageDelta) list
      \<Rightarrow> (AttemptUsageKey \<times> AttemptUsageDelta) list option" where
  "upsert_attempt daily key delta rows =
     (let row = attempt_row_key daily key;
          old = (case aget rows row of None \<Rightarrow> AttemptUsageDelta_default | Some d \<Rightarrow> d) in
      case (add_bigint (ad_attempt_count old) (ad_attempt_count delta),
            sum_numeric (ad_input_units old) (ad_input_units delta),
            sum_numeric (ad_output_units old) (ad_output_units delta),
            sum_numeric (ad_cached_input_units old) (ad_cached_input_units delta),
            sum_optional_numeric (ad_estimated_cost_nanos old) (ad_estimated_cost_nanos delta),
            add_bigint (ad_unknown_estimate_count old) (ad_unknown_estimate_count delta),
            sum_optional_numeric (ad_actual_cost_nanos old) (ad_actual_cost_nanos delta),
            add_bigint (ad_unknown_cost_count old) (ad_unknown_cost_count delta),
            sum_numeric (ad_duration_millis old) (ad_duration_millis delta)) of
        (Some events, Some input, Some output, Some cached, Some estimate, Some unestimated, Some actual,
         Some unknown, Some duration) \<Rightarrow>
          Some (aput row \<lparr>ad_attempt_count = events, ad_input_units = input, ad_output_units = output,
            ad_cached_input_units = cached, ad_estimated_cost_nanos = estimate,
            ad_unknown_estimate_count = unestimated, ad_actual_cost_nanos = actual,
            ad_unknown_cost_count = unknown, ad_duration_millis = duration\<rparr> rows)
      | _ \<Rightarrow> None)"

subsection \<open>Flushing\<close>

datatype FlushOutcome = FlushPersisted | FlushExpired | FlushFutureBucket

definition facts_buckets :: "UsageFacts \<Rightarrow> utc list" where
  "facts_buckets facts =
     (case facts of
        FactsLogical facts \<Rightarrow> map (\<lambda>(key, _). lk_bucket_start key) facts
      | FactsAttempts facts \<Rightarrow> map (\<lambda>(key, _). ak_bucket_start key) facts)"

fun upsert_logical_facts :: "(LogicalUsageKey \<times> LogicalUsageDelta) list \<Rightarrow> UsageDb \<Rightarrow> UsageDb option" where
  "upsert_logical_facts [] db = Some db"
| "upsert_logical_facts ((key, delta) # facts) db =
     Option.bind (upsert_logical False key delta (db_logical_hourly db)) (\<lambda>hourly.
     Option.bind (upsert_logical True key delta (db_logical_daily db)) (\<lambda>daily.
     upsert_logical_facts facts (db\<lparr>db_logical_hourly := hourly, db_logical_daily := daily\<rparr>)))"

fun upsert_attempt_facts :: "(AttemptUsageKey \<times> AttemptUsageDelta) list \<Rightarrow> UsageDb \<Rightarrow> UsageDb option" where
  "upsert_attempt_facts [] db = Some db"
| "upsert_attempt_facts ((key, delta) # facts) db =
     Option.bind (upsert_attempt False key delta (db_attempt_hourly db)) (\<lambda>hourly.
     Option.bind (upsert_attempt True key delta (db_attempt_daily db)) (\<lambda>daily.
     upsert_attempt_facts facts (db\<lparr>db_attempt_hourly := hourly, db_attempt_daily := daily\<rparr>)))"

definition upsert_facts :: "UsageFacts \<Rightarrow> UsageDb \<Rightarrow> UsageDb option" where
  "upsert_facts facts =
     (case facts of
        FactsLogical facts \<Rightarrow> upsert_logical_facts facts
      | FactsAttempts facts \<Rightarrow> upsert_attempt_facts facts)"

definition receipt_key :: "uuid \<Rightarrow> UsageBatch \<Rightarrow> uuid \<times> nat \<times> string" where
  "receipt_key source_epoch batch =
     (source_epoch, min (ub_sequence batch) i64_max, UsageFacts_family (ub_facts batch))"

definition receipt_count :: "UsageBatch \<Rightarrow> nat" where
  "receipt_count batch = min (UsageFacts_len (ub_facts batch)) i32_max"

text \<open>The transaction at the database's time \<open>now\<close>; \<open>None\<close> is an error, which leaves no trace.\<close>

definition flush_batch :: "utc \<Rightarrow> uuid \<Rightarrow> UsageBatch \<Rightarrow> UsageDb \<Rightarrow> (UsageDb \<times> FlushOutcome) option" where
  "flush_batch now source_epoch batch db =
     (let buckets = facts_buckets (ub_facts batch); key = receipt_key source_epoch batch in
      if buckets \<noteq> [] \<and> Min (set buckets) < now - 7 * day_nanos then Some (db, FlushExpired)
      else if buckets \<noteq> [] \<and> Max (set buckets) > now then Some (db, FlushFutureBucket)
      else case aget (db_receipts db) key of
        Some receipt \<Rightarrow>
          if rc_digest receipt \<noteq> ub_digest batch \<or> rc_fact_count receipt \<noteq> receipt_count batch then None
          else Some (db, FlushPersisted)
      | None \<Rightarrow>
          map_option (\<lambda>db. (db, FlushPersisted)) (upsert_facts (ub_facts batch)
            (db\<lparr>db_receipts := aput key \<lparr>rc_digest = ub_digest batch, rc_fact_count = receipt_count batch,
               rc_flushed_at = now\<rparr> (db_receipts db)\<rparr>)))"

text \<open>
  \<open>flush_once\<close> under its lock: what is sealed and picked before the database is asked, and what becomes of
  the batch with its answer; no answer is an error or the timeout.
\<close>

definition flush_begin ::
    "(UsageFacts \<Rightarrow> byte list) \<Rightarrow> UsageConfig \<Rightarrow> UsageState \<Rightarrow> UsageState \<times> UsageBatch option" where
  "flush_begin digest config state =
     (let maximum = max_pending_batches config;
          state = (if length (us_pending state) < maximum then fst (seal_logical digest maximum state) else state);
          state = (if length (us_pending state) < maximum then fst (seal_attempts digest maximum state) else state) in
      (state, case us_pending state of [] \<Rightarrow> None | batch # _ \<Rightarrow> Some batch))"

definition count_lost :: "UsageFacts \<Rightarrow> UsageState \<Rightarrow> UsageState" where
  "count_lost facts state =
     state\<lparr>lost_logical_facts := count_logical facts (lost_logical_facts state),
       lost_attempt_facts := count_attempts facts (lost_attempt_facts state)\<rparr>"

definition flush_acknowledge :: "UsageBatch \<Rightarrow> FlushOutcome \<Rightarrow> UsageState \<Rightarrow> UsageState" where
  "flush_acknowledge batch outcome state =
     (let state = (case us_pending state of
            [] \<Rightarrow> state
          | front # pending \<Rightarrow>
              if ub_sequence front = ub_sequence batch
              then (let state = state\<lparr>us_pending := pending\<rparr> in
                    if outcome = FlushExpired then count_lost (ub_facts batch) state else state)
              else state) in
      state\<lparr>last_flush_error := None\<rparr>)"

definition flush_end :: "UsageBatch \<Rightarrow> FlushOutcome option \<Rightarrow> UsageState \<Rightarrow> UsageState" where
  "flush_end batch answer state =
     (case answer of
        Some FlushFutureBucket \<Rightarrow>
          state\<lparr>last_flush_error := Some ''aggregate_bucket_ahead_of_database_clock''\<rparr>
      | Some outcome \<Rightarrow> flush_acknowledge batch outcome state
      | None \<Rightarrow> state\<lparr>last_flush_error := Some ''aggregate_store_unavailable_or_timeout''\<rparr>)"

text \<open>The same without interleavings, \<open>store\<close> being what the database answers to a batch.\<close>

definition flush_once ::
    "(UsageFacts \<Rightarrow> byte list) \<Rightarrow> UsageConfig \<Rightarrow> (UsageBatch \<Rightarrow> 'd \<Rightarrow> 'd \<times> FlushOutcome option) \<Rightarrow> UsageState \<times> 'd
      \<Rightarrow> UsageState \<times> 'd" where
  "flush_once digest config store = (\<lambda>(state, db).
     (case flush_begin digest config state of
        (state, None) \<Rightarrow> (state, db)
      | (state, Some batch) \<Rightarrow>
          let (db, answer) = store batch db in (flush_end batch answer state, db)))"

definition flush_finished :: "UsageState \<Rightarrow> bool" where
  "flush_finished state \<longleftrightarrow> us_pending state = [] \<and> us_logical state = [] \<and> us_attempts state = []"

definition flush_stuck :: "UsageState \<Rightarrow> UsageState \<Rightarrow> bool" where
  "flush_stuck before after \<longleftrightarrow>
     length (us_pending after) \<ge> length (us_pending before)
     \<and> length (us_logical after) \<ge> length (us_logical before)
     \<and> length (us_attempts after) \<ge> length (us_attempts before)"

lemma push_batch_fields [simp]:
  "us_logical (push_batch digest facts state) = us_logical state"
  "us_attempts (push_batch digest facts state) = us_attempts state"
  "lost_logical_facts (push_batch digest facts state) = lost_logical_facts state"
  "lost_attempt_facts (push_batch digest facts state) = lost_attempt_facts state"
  "us_pending (push_batch digest facts state) = us_pending state
     @ [\<lparr>ub_sequence = next_batch_sequence state, ub_digest = digest facts, ub_facts = facts\<rparr>]"
  "next_batch_sequence (push_batch digest facts state) = saturating_add u64_max (next_batch_sequence state) 1"
  by (simp_all add: push_batch_def)

lemma count_lost_fields [simp]:
  "us_logical (count_lost facts state) = us_logical state"
  "us_attempts (count_lost facts state) = us_attempts state"
  "us_pending (count_lost facts state) = us_pending state"
  "next_batch_sequence (count_lost facts state) = next_batch_sequence state"
  by (simp_all add: count_lost_def)

text \<open>What is still to do: the batches, and two for every family that is not sealed.\<close>

definition flush_work :: "UsageState \<Rightarrow> nat" where
  "flush_work state =
     length (us_pending state) + (if us_logical state = [] then 0 else 2) + (if us_attempts state = [] then 0 else 2)"

lemma flush_begin_cases:
  assumes "flush_begin digest config state = (state', batch)"
  shows "flush_work state' \<le> flush_work state"
    and "us_logical state' = us_logical state \<or> us_logical state' = [] \<and> flush_work state' < flush_work state"
    and "us_attempts state' = us_attempts state \<or> us_attempts state' = [] \<and> flush_work state' < flush_work state"
    and "length (us_pending state) \<le> length (us_pending state')"
  using assms
  by (auto simp: flush_begin_def Let_def seal_logical_def seal_attempts_def flush_work_def split: if_splits)

lemma flush_end_cases:
  "us_logical (flush_end batch answer state) = us_logical state"
  "us_attempts (flush_end batch answer state) = us_attempts state"
  "length (us_pending (flush_end batch answer state)) \<le> length (us_pending state)"
  by (auto simp: flush_end_def flush_acknowledge_def Let_def split: option.splits FlushOutcome.splits list.splits)

lemma flush_once_progress:
  assumes once: "flush_once digest config store (before, db) = (after, db')"
    and moving: "\<not> flush_stuck before after"
  shows "flush_work after < flush_work before"
proof -
  obtain mid batch where begun: "flush_begin digest config before = (mid, batch)" by fastforce
  note cases = flush_begin_cases [OF begun]
  have same: "us_logical after = us_logical mid" "us_attempts after = us_attempts mid"
    "length (us_pending after) \<le> length (us_pending mid)"
    using once begun flush_end_cases by (auto simp: flush_once_def split: option.split_asm prod.split_asm)
  then have after: "flush_work after + length (us_pending mid) = flush_work mid + length (us_pending after)"
    by (simp add: flush_work_def)
  show ?thesis
  proof (cases "flush_work mid < flush_work before")
    case True
    then show ?thesis using after same(3) by linarith
  next
    case False
    with cases have "us_logical mid = us_logical before" "us_attempts mid = us_attempts before" by blast+
    with moving same have "length (us_pending after) < length (us_pending before)" by (simp add: flush_stuck_def)
    then show ?thesis using after cases(1,4) by linarith
  qed
qed

function flush_all ::
    "(UsageFacts \<Rightarrow> byte list) \<Rightarrow> UsageConfig \<Rightarrow> (UsageBatch \<Rightarrow> 'd \<Rightarrow> 'd \<times> FlushOutcome option) \<Rightarrow> UsageState \<times> 'd
      \<Rightarrow> UsageState \<times> 'd" where
  "flush_all digest config store before =
     (let after = flush_once digest config store before in
      if flush_finished (fst after) \<or> flush_stuck (fst before) (fst after) then after
      else flush_all digest config store after)"
  by pat_completeness auto
termination
proof (relation "measure (\<lambda>(digest, config, store, before). flush_work (fst before))")
  fix digest config and store :: "UsageBatch \<Rightarrow> 'd \<Rightarrow> 'd \<times> FlushOutcome option" and before x
  assume "x = flush_once digest config store before" "\<not> (flush_finished (fst x) \<or> flush_stuck (fst before) (fst x))"
  then show "((digest, config, store, x), digest, config, store, before)
      \<in> measure (\<lambda>(digest, config, store, before). flush_work (fst before))"
    using flush_once_progress [of digest config store "fst before" "snd before" "fst x" "snd x"] by simp
qed simp

declare flush_all.simps [simp del]

text \<open>
  The retention task, with the number of rows it deleted; a receipt goes only when it is older than the
  window in which its batch can still be flushed.
\<close>

definition prune_receipts :: "utc \<Rightarrow> (uuid \<times> nat \<times> string) set \<Rightarrow> UsageDb \<Rightarrow> UsageDb" where
  "prune_receipts now chosen db =
     db\<lparr>db_receipts := filter (\<lambda>(key, receipt). \<not> (key \<in> chosen \<and> rc_flushed_at receipt < now - 8 * day_nanos))
       (db_receipts db)\<rparr>"

definition retention_end :: "nat option \<Rightarrow> UsageState \<Rightarrow> UsageState" where
  "retention_end result state =
     (case result of
        Some deleted \<Rightarrow> state\<lparr>retained_rows_deleted := saturating_add u64_max (retained_rows_deleted state) deleted,
          last_retention_error := None\<rparr>
      | None \<Rightarrow> state\<lparr>last_retention_error := Some ''retention_unavailable_or_timeout''\<rparr>)"

end
