(* ===== verification/UsageLaws.thy ===== *)
theory UsageLaws
  imports Usage
begin

section \<open>Every fact is counted once\<close>

text \<open>
  The facts of a process from their recording to the tables, for every interleaving of recordings, flushes whose
  answers may be lost, the retention of receipts, and the writes of other processes.
\<close>

subsection \<open>Counts\<close>

abbreviation logical_total :: "('k \<times> LogicalUsageDelta) list \<Rightarrow> int" where
  "logical_total rows \<equiv> asum (\<lambda>_ d. int (ld_request_count d)) rows"

abbreviation attempt_total :: "('k \<times> AttemptUsageDelta) list \<Rightarrow> int" where
  "attempt_total rows \<equiv> asum (\<lambda>_ d. int (ad_attempt_count d)) rows"

text \<open>What belongs to one family of facts: requests when \<open>requests\<close> holds, attempts otherwise.\<close>

definition facts_total :: "bool \<Rightarrow> UsageFacts \<Rightarrow> int" where
  "facts_total requests facts =
     (case facts of
        FactsLogical facts \<Rightarrow> if requests then logical_total facts else 0
      | FactsAttempts facts \<Rightarrow> if requests then 0 else attempt_total facts)"

definition active_total :: "bool \<Rightarrow> UsageState \<Rightarrow> int" where
  "active_total requests state =
     (if requests then logical_total (us_logical state) else attempt_total (us_attempts state))"

definition lost_total :: "bool \<Rightarrow> UsageState \<Rightarrow> int" where
  "lost_total requests state =
     int (if requests then lost_logical_facts state else lost_attempt_facts state)"

definition batches_total :: "bool \<Rightarrow> UsageBatch list \<Rightarrow> int" where
  "batches_total requests batches = (\<Sum>b \<leftarrow> batches. facts_total requests (ub_facts b))"

definition hourly_total :: "bool \<Rightarrow> UsageDb \<Rightarrow> int" where
  "hourly_total requests db =
     (if requests then logical_total (db_logical_hourly db) else attempt_total (db_attempt_hourly db))"

definition daily_total :: "bool \<Rightarrow> UsageDb \<Rightarrow> int" where
  "daily_total requests db =
     (if requests then logical_total (db_logical_daily db) else attempt_total (db_attempt_daily db))"

lemma batches_total_simps [simp]:
  "batches_total r [] = 0"
  "batches_total r (b # bs) = facts_total r (ub_facts b) + batches_total r bs"
  "batches_total r (bs @ cs) = batches_total r bs + batches_total r cs"
  by (simp_all add: batches_total_def)

lemma asum_nonneg: "(\<And>k v. 0 \<le> f k v) \<Longrightarrow> 0 \<le> asum f rows"
  by (induction rows) auto

lemma facts_total_nonneg [simp]: "0 \<le> facts_total r facts"
  by (auto simp: facts_total_def intro!: asum_nonneg split: UsageFacts.split)

lemma active_total_nonneg [simp]: "0 \<le> active_total r state"
  by (auto simp: active_total_def intro!: asum_nonneg)

lemma lost_total_nonneg [simp]: "0 \<le> lost_total r state"
  by (simp add: lost_total_def)

lemma batches_total_nonneg [simp]: "0 \<le> batches_total r bs"
  by (induction bs) (simp_all add: add_nonneg_nonneg)

lemma batches_total_subset:
  assumes "distinct bs" "set bs \<subseteq> set cs" "distinct cs"
  shows "batches_total r bs \<le> batches_total r cs"
  using assms by (simp add: batches_total_def sum_list_distinct_conv_sum_set sum_mono2)

lemma fold_count:
  assumes "int n + asum (\<lambda>_ d. int (f d)) rows \<le> int u64_max"
  shows "int (fold (\<lambda>(_, d) n. saturating_add u64_max n (f d)) rows n) = int n + asum (\<lambda>_ d. int (f d)) rows"
  using assms
proof (induction rows arbitrary: n)
  case (Cons a rows)
  obtain k d where a: "a = (k, d)" by fastforce
  have "0 \<le> asum (\<lambda>_ d. int (f d)) rows" by (rule asum_nonneg) simp
  with Cons.prems a have "saturating_add u64_max n (f d) = n + f d" by (simp add: saturating_add_def)
  with Cons a show ?case by simp
qed simp

lemma count_lost_total:
  assumes "lost_total True state + facts_total True facts \<le> int u64_max"
    and "lost_total False state + facts_total False facts \<le> int u64_max"
  shows "lost_total r (count_lost facts state) = lost_total r state + facts_total r facts"
  using assms
  by (cases facts; cases r)
    (simp_all add: count_lost_def lost_total_def facts_total_def count_logical_def count_attempts_def fold_count)

subsection \<open>What the database adds\<close>

lemma upsert_logical_total:
  assumes "upsert_logical daily key delta rows = Some rows'" "ld_request_count delta \<le> i64_max"
  shows "logical_total rows' = logical_total rows + int (ld_request_count delta)"
  using assms
  by (auto simp: upsert_logical_def Let_def add_bigint_def asum_aput LogicalUsageDelta_default_def
      split: option.split_asm)

lemma upsert_attempt_total:
  assumes "upsert_attempt daily key delta rows = Some rows'" "ad_attempt_count delta \<le> i64_max"
  shows "attempt_total rows' = attempt_total rows + int (ad_attempt_count delta)"
  using assms
  by (auto simp: upsert_attempt_def Let_def add_bigint_def asum_aput AttemptUsageDelta_default_def
      split: option.split_asm)

lemma upsert_logical_facts_total:
  assumes "upsert_logical_facts facts db = Some db'" "logical_total facts \<le> int i64_max"
  shows "logical_total (db_logical_hourly db') = logical_total (db_logical_hourly db) + logical_total facts"
    and "logical_total (db_logical_daily db') = logical_total (db_logical_daily db) + logical_total facts"
    and "db_attempt_hourly db' = db_attempt_hourly db" "db_attempt_daily db' = db_attempt_daily db"
    and "db_receipts db' = db_receipts db"
  using assms
proof (induction facts arbitrary: db)
  case (Cons a facts)
  obtain key delta where a: "a = (key, delta)" by fastforce
  have rest: "0 \<le> logical_total facts" by (rule asum_nonneg) simp
  { case 1
    with a rest show ?case using Cons.IH(1) upsert_logical_total by (auto simp: bind_eq_Some_conv) }
  { case 2
    with a rest show ?case using Cons.IH(2) upsert_logical_total by (auto simp: bind_eq_Some_conv) }
  { case 3 with a rest show ?case using Cons.IH(3) by (fastforce simp: bind_eq_Some_conv) }
  { case 4 with a rest show ?case using Cons.IH(4) by (fastforce simp: bind_eq_Some_conv) }
  { case 5 with a rest show ?case using Cons.IH(5) by (fastforce simp: bind_eq_Some_conv) }
qed simp_all

lemma upsert_attempt_facts_total:
  assumes "upsert_attempt_facts facts db = Some db'" "attempt_total facts \<le> int i64_max"
  shows "attempt_total (db_attempt_hourly db') = attempt_total (db_attempt_hourly db) + attempt_total facts"
    and "attempt_total (db_attempt_daily db') = attempt_total (db_attempt_daily db) + attempt_total facts"
    and "db_logical_hourly db' = db_logical_hourly db" "db_logical_daily db' = db_logical_daily db"
    and "db_receipts db' = db_receipts db"
  using assms
proof (induction facts arbitrary: db)
  case (Cons a facts)
  obtain key delta where a: "a = (key, delta)" by fastforce
  have rest: "0 \<le> attempt_total facts" by (rule asum_nonneg) simp
  { case 1
    with a rest show ?case using Cons.IH(1) upsert_attempt_total by (auto simp: bind_eq_Some_conv) }
  { case 2
    with a rest show ?case using Cons.IH(2) upsert_attempt_total by (auto simp: bind_eq_Some_conv) }
  { case 3 with a rest show ?case using Cons.IH(3) by (fastforce simp: bind_eq_Some_conv) }
  { case 4 with a rest show ?case using Cons.IH(4) by (fastforce simp: bind_eq_Some_conv) }
  { case 5 with a rest show ?case using Cons.IH(5) by (fastforce simp: bind_eq_Some_conv) }
qed simp_all

definition facts_small :: "UsageFacts \<Rightarrow> bool" where
  "facts_small facts \<longleftrightarrow> facts_total True facts \<le> int i64_max \<and> facts_total False facts \<le> int i64_max"

lemma upsert_facts_total:
  assumes "upsert_facts facts db = Some db'" "facts_small facts"
  shows "hourly_total r db' = hourly_total r db + facts_total r facts"
    and "daily_total r db' = daily_total r db + facts_total r facts"
    and "db_receipts db' = db_receipts db"
  using assms upsert_logical_facts_total upsert_attempt_facts_total
  by (cases facts; cases r; auto simp: upsert_facts_def facts_small_def facts_total_def hourly_total_def
      daily_total_def)+

subsection \<open>Runs\<close>

record UsageWorld =
  uw_state :: UsageState
  uw_db :: UsageDb
  uw_now :: utc
  uw_flush :: "UsageBatch option"
  uw_requests :: nat
  uw_attempts :: nat
  uw_persisted :: "bool \<Rightarrow> int"

text \<open>
  The last three only observe: how many requests and attempts were recorded, and by how much this process's
  transactions have raised the hourly tables.  Other processes and the retention task may change every table, but
  keep the receipts of this process until they are eight days old.
\<close>

definition usage_start :: "UsageDb \<Rightarrow> utc \<Rightarrow> UsageWorld" where
  "usage_start db now =
     \<lparr>uw_state = UsageState_default, uw_db = db, uw_now = now, uw_flush = None, uw_requests = 0, uw_attempts = 0,
      uw_persisted = (\<lambda>_. 0)\<rparr>"

definition persisted_by :: "UsageDb \<Rightarrow> UsageDb \<Rightarrow> (bool \<Rightarrow> int) \<Rightarrow> bool \<Rightarrow> int" where
  "persisted_by db db' persisted requests = persisted requests + (hourly_total requests db' - hourly_total requests db)"

definition receipts_kept :: "uuid \<Rightarrow> utc \<Rightarrow> UsageDb \<Rightarrow> UsageDb \<Rightarrow> bool" where
  "receipts_kept source_epoch now db db' \<longleftrightarrow>
     (\<forall>key receipt. fst key = source_epoch \<and> aget (db_receipts db') key = Some receipt
        \<longrightarrow> aget (db_receipts db) key = Some receipt)
     \<and> (\<forall>key receipt. fst key = source_epoch \<and> aget (db_receipts db) key = Some receipt
          \<and> rc_flushed_at receipt \<ge> now - 8 * day_nanos \<longrightarrow> aget (db_receipts db') key = Some receipt)"

inductive usage_step ::
    "(UsageFacts \<Rightarrow> byte list) \<Rightarrow> UsageConfig \<Rightarrow> uuid \<Rightarrow> UsageWorld \<Rightarrow> UsageWorld \<Rightarrow> bool"
  for digest :: "UsageFacts \<Rightarrow> byte list" and config :: UsageConfig and source_epoch :: uuid where
  step_logical: "usage_step digest config source_epoch w
    (w\<lparr>uw_state := aggregate_logical digest config now admission outcome usage deployment millis (uw_state w),
      uw_requests := Suc (uw_requests w)\<rparr>)"
| step_attempt: "usage_step digest config source_epoch w
    (w\<lparr>uw_state := aggregate_attempt digest config now admission candidate terminal estimate usage millis (uw_state w),
      uw_attempts := Suc (uw_attempts w)\<rparr>)"
| step_begin: "\<lbrakk>uw_flush w = None; flush_begin digest config (uw_state w) = (state, batch)\<rbrakk>
    \<Longrightarrow> usage_step digest config source_epoch w (w\<lparr>uw_state := state, uw_flush := batch\<rparr>)"
| step_answered: "\<lbrakk>uw_flush w = Some batch; flush_batch (uw_now w) source_epoch batch (uw_db w) = Some (db, outcome)\<rbrakk>
    \<Longrightarrow> usage_step digest config source_epoch w
      (w\<lparr>uw_db := db, uw_persisted := persisted_by (uw_db w) db (uw_persisted w),
        uw_state := flush_end batch (Some outcome) (uw_state w), uw_flush := None\<rparr>)"
| step_answer_lost: "\<lbrakk>uw_flush w = Some batch; flush_batch (uw_now w) source_epoch batch (uw_db w) = Some (db, outcome)\<rbrakk>
    \<Longrightarrow> usage_step digest config source_epoch w
      (w\<lparr>uw_db := db, uw_persisted := persisted_by (uw_db w) db (uw_persisted w),
        uw_state := flush_end batch None (uw_state w), uw_flush := None\<rparr>)"
| step_failed: "uw_flush w = Some batch
    \<Longrightarrow> usage_step digest config source_epoch w
      (w\<lparr>uw_state := flush_end batch None (uw_state w), uw_flush := None\<rparr>)"
| step_retention: "usage_step digest config source_epoch w
    (w\<lparr>uw_state := retention_end result (uw_state w)\<rparr>)"
| step_database: "\<lbrakk>receipts_kept source_epoch (uw_now w) (uw_db w) db; uw_now w \<le> now\<rbrakk>
    \<Longrightarrow> usage_step digest config source_epoch w (w\<lparr>uw_db := db, uw_now := now\<rparr>)"

inductive usage_run ::
    "(UsageFacts \<Rightarrow> byte list) \<Rightarrow> UsageConfig \<Rightarrow> uuid \<Rightarrow> UsageWorld \<Rightarrow> UsageWorld \<Rightarrow> bool"
  for digest :: "UsageFacts \<Rightarrow> byte list" and config :: UsageConfig and source_epoch :: uuid and start :: UsageWorld
  where
  run_start: "usage_run digest config source_epoch start start"
| run_step: "\<lbrakk>usage_run digest config source_epoch start w; usage_step digest config source_epoch w w'\<rbrakk>
    \<Longrightarrow> usage_run digest config source_epoch start w'"

lemma pruning_keeps_receipts:
  assumes "adistinct (db_receipts db)"
  shows "receipts_kept source_epoch now db (prune_receipts now chosen db)"
  using assms by (auto simp: receipts_kept_def prune_receipts_def aget_filter)

subsection \<open>The ledger\<close>

definition recorded :: "bool \<Rightarrow> UsageWorld \<Rightarrow> int" where
  "recorded requests w = int (if requests then uw_requests w else uw_attempts w)"

definition unconfirmed :: "bool \<Rightarrow> UsageState \<Rightarrow> int" where
  "unconfirmed requests state = active_total requests state + batches_total requests (us_pending state)"

text \<open>A committed batch that the process still holds cannot be committed again.\<close>

definition sealed_twice :: "utc \<Rightarrow> uuid \<Rightarrow> UsageDb \<Rightarrow> UsageBatch \<Rightarrow> bool" where
  "sealed_twice now source_epoch db batch \<longleftrightarrow>
     (\<exists>receipt. aget (db_receipts db) (receipt_key source_epoch batch) = Some receipt
        \<and> rc_digest receipt = ub_digest batch \<and> rc_fact_count receipt = receipt_count batch
        \<and> (\<forall>bucket \<in> set (facts_buckets (ub_facts batch)). bucket \<le> rc_flushed_at receipt))
     \<or> (\<exists>bucket \<in> set (facts_buckets (ub_facts batch)). bucket < now - 7 * day_nanos)"

text \<open>The batches that were acknowledged, given up, and committed.\<close>

record UsageHistory =
  uh_acknowledged :: "UsageBatch list"
  uh_expired :: "UsageBatch list"
  uh_committed :: "UsageBatch list"

definition all_batches :: "UsageState \<Rightarrow> UsageHistory \<Rightarrow> UsageBatch list" where
  "all_batches state h = us_pending state @ uh_acknowledged h @ uh_expired h"

definition history_ordered :: "UsageState \<Rightarrow> UsageHistory \<Rightarrow> bool" where
  "history_ordered state h \<longleftrightarrow>
     distinct (map ub_sequence (all_batches state h))
     \<and> (\<forall>b \<in> set (all_batches state h). ub_sequence b < next_batch_sequence state \<and> facts_buckets (ub_facts b) \<noteq> [])
     \<and> distinct (uh_committed h) \<and> set (uh_acknowledged h) \<subseteq> set (uh_committed h)
     \<and> set (uh_committed h) \<subseteq> set (all_batches state h)"

definition history_counted :: "UsageWorld \<Rightarrow> UsageHistory \<Rightarrow> bool" where
  "history_counted w h \<longleftrightarrow>
     (\<forall>r. unconfirmed r (uw_state w) + batches_total r (uh_acknowledged h) + lost_total r (uw_state w) = recorded r w
        \<and> batches_total r (uh_expired h) \<le> lost_total r (uw_state w)
        \<and> uw_persisted w r = batches_total r (uh_committed h))
     \<and> int (next_batch_sequence (uw_state w)) + int (length (us_logical (uw_state w)))
         + int (length (us_attempts (uw_state w))) \<le> recorded True w + recorded False w"

definition history_receipted :: "uuid \<Rightarrow> UsageWorld \<Rightarrow> UsageHistory \<Rightarrow> bool" where
  "history_receipted source_epoch w h \<longleftrightarrow>
     (\<forall>key receipt. fst key = source_epoch \<and> aget (db_receipts (uw_db w)) key = Some receipt
        \<longrightarrow> (\<exists>b \<in> set (uh_committed h). key = receipt_key source_epoch b))
     \<and> (\<forall>b \<in> set (uh_committed h) \<inter> set (us_pending (uw_state w)). sealed_twice (uw_now w) source_epoch (uw_db w) b)"

definition flush_front :: "UsageWorld \<Rightarrow> bool" where
  "flush_front w \<longleftrightarrow>
     (case uw_flush w of None \<Rightarrow> True | Some b \<Rightarrow> (\<exists>rest. us_pending (uw_state w) = b # rest))"

definition usage_ledger :: "uuid \<Rightarrow> UsageWorld \<Rightarrow> UsageHistory \<Rightarrow> bool" where
  "usage_ledger source_epoch w h \<longleftrightarrow>
     history_ordered (uw_state w) h \<and> history_counted w h \<and> history_receipted source_epoch w h \<and> flush_front w"

definition in_bounds :: "UsageWorld \<Rightarrow> bool" where
  "in_bounds w \<longleftrightarrow> recorded True w + recorded False w \<le> int i64_max"

lemma recorded_update [simp]:
  "recorded r (w\<lparr>uw_state := state\<rparr>) = recorded r w" "recorded r (w\<lparr>uw_db := db\<rparr>) = recorded r w"
  "recorded r (w\<lparr>uw_flush := batch\<rparr>) = recorded r w" "recorded r (w\<lparr>uw_persisted := persisted\<rparr>) = recorded r w"
  "recorded r (w\<lparr>uw_now := now\<rparr>) = recorded r w"
  by (simp_all add: recorded_def)

lemmas history_defs = history_ordered_def history_counted_def history_receipted_def flush_front_def usage_ledger_def

text \<open>What the two operations on the aggregates do to the totals.\<close>

lemma merge_logical_count: "merge_logical target delta = Some d \<Longrightarrow> ld_request_count d = ld_request_count target + ld_request_count delta"
  by (auto simp: merge_logical_def add_u64_def split: option.split_asm)

lemma merge_attempt_count: "merge_attempt target delta = Some d \<Longrightarrow> ad_attempt_count d = ad_attempt_count target + ad_attempt_count delta"
  by (auto simp: merge_attempt_def add_u64_def split: option.split_asm)

lemma length_aput: "length (aput k v m) \<le> Suc (length m)"
  by (induction m) auto

lemma lost_one: "int n < int u64_max \<Longrightarrow> saturating_add u64_max n 1 = Suc n"
  by (simp add: saturating_add_def)

lemma add_logical_fact_totals:
  assumes "ld_request_count delta = 1" "lost_total True state < int u64_max"
  shows "active_total True (add_logical_fact key delta state) + lost_total True (add_logical_fact key delta state)
      = active_total True state + lost_total True state + 1"
    and "lost_total True state \<le> lost_total True (add_logical_fact key delta state)"
    and "us_attempts (add_logical_fact key delta state) = us_attempts state"
    and "lost_attempt_facts (add_logical_fact key delta state) = lost_attempt_facts state"
    and "us_pending (add_logical_fact key delta state) = us_pending state"
    and "next_batch_sequence (add_logical_fact key delta state) = next_batch_sequence state"
    and "length (us_logical (add_logical_fact key delta state)) \<le> Suc (length (us_logical state))"
  using assms
  by (auto simp: add_logical_fact_def Let_def active_total_def lost_total_def asum_aput lost_one length_aput
      LogicalUsageDelta_default_def dest!: merge_logical_count split: option.splits)

lemma add_attempt_fact_totals:
  assumes "ad_attempt_count delta = 1" "lost_total False state < int u64_max"
  shows "active_total False (add_attempt_fact key delta state) + lost_total False (add_attempt_fact key delta state)
      = active_total False state + lost_total False state + 1"
    and "lost_total False state \<le> lost_total False (add_attempt_fact key delta state)"
    and "us_logical (add_attempt_fact key delta state) = us_logical state"
    and "lost_logical_facts (add_attempt_fact key delta state) = lost_logical_facts state"
    and "us_pending (add_attempt_fact key delta state) = us_pending state"
    and "next_batch_sequence (add_attempt_fact key delta state) = next_batch_sequence state"
    and "length (us_attempts (add_attempt_fact key delta state)) \<le> Suc (length (us_attempts state))"
  using assms
  by (auto simp: add_attempt_fact_def Let_def active_total_def lost_total_def asum_aput lost_one length_aput
      AttemptUsageDelta_default_def dest!: merge_attempt_count split: option.splits)

subsection \<open>The ledger is kept\<close>

lemma seal_keeps:
  assumes keeps: "usage_ledger source_epoch w h" and bounds: "in_bounds w"
    and sealed: "state' = push_batch digest facts (state\<lparr>us_logical := logical, us_attempts := attempts\<rparr>)"
    and state: "state = uw_state w"
    and moved: "facts = FactsLogical (us_logical state) \<and> logical = [] \<and> attempts = us_attempts state \<and> us_logical state \<noteq> []
      \<or> facts = FactsAttempts (us_attempts state) \<and> attempts = [] \<and> logical = us_logical state \<and> us_attempts state \<noteq> []"
  shows "usage_ledger source_epoch (w\<lparr>uw_state := state'\<rparr>) h"
proof -
  let ?b = "\<lparr>ub_sequence = next_batch_sequence state, ub_digest = digest facts, ub_facts = facts\<rparr>"
  have counted: "int (next_batch_sequence state) + int (length (us_logical state)) + int (length (us_attempts state))
      \<le> int i64_max"
    using keeps bounds unfolding history_defs in_bounds_def state by linarith
  then have nx: "next_batch_sequence state' = Suc (next_batch_sequence state)"
    by (simp add: sealed saturating_add_def u64_max_def i64_max_def)
  have pending: "us_pending state' = us_pending state @ [?b]" by (simp add: sealed)
  have buckets: "facts_buckets facts \<noteq> []" using moved by (auto simp: facts_buckets_def)
  have ordered: "history_ordered state h" using keeps by (simp add: usage_ledger_def state)
  then have below: "\<forall>c \<in> set (all_batches state h). ub_sequence c < next_batch_sequence state"
    by (simp add: history_ordered_def)
  then have fresh: "?b \<notin> set (all_batches state h)" by auto
  have split: "all_batches state' h = us_pending state @ ?b # uh_acknowledged h @ uh_expired h"
    by (simp add: all_batches_def pending)
  then have "mset (all_batches state' h) = mset (?b # all_batches state h)" by (simp add: all_batches_def)
  then have same: "set (all_batches state' h) = insert ?b (set (all_batches state h))"
    and sequences: "mset (map ub_sequence (all_batches state' h)) = mset (next_batch_sequence state # map ub_sequence (all_batches state h))"
    by (metis mset_eq_setD list.set(2), simp)
  from sequences have "distinct (map ub_sequence (all_batches state' h))
      \<longleftrightarrow> distinct (next_batch_sequence state # map ub_sequence (all_batches state h))"
    by (rule mset_eq_imp_distinct_iff)
  then have "history_ordered state' h"
    using ordered below buckets by (auto simp: history_ordered_def same nx less_Suc_eq)
  moreover have "history_counted (w\<lparr>uw_state := state'\<rparr>) h"
  proof -
    have "unconfirmed r state' = unconfirmed r state" "lost_total r state' = lost_total r state" for r
      using moved by (auto simp: unconfirmed_def pending active_total_def facts_total_def sealed lost_total_def)
    moreover have "Suc (length logical + length attempts) \<le> length (us_logical state) + length (us_attempts state)"
      using moved by (auto simp: Suc_le_eq)
    moreover have "us_logical state' = logical" "us_attempts state' = attempts" by (simp_all add: sealed)
    moreover have "history_counted w h" using keeps by (simp add: usage_ledger_def)
    ultimately show ?thesis by (simp add: history_counted_def state [symmetric] nx)
  qed
  moreover have "history_receipted source_epoch (w\<lparr>uw_state := state'\<rparr>) h"
    using keeps fresh by (auto simp: history_defs pending state [symmetric])
  moreover have "flush_front (w\<lparr>uw_state := state'\<rparr>)"
    using keeps by (auto simp: history_defs pending state [symmetric] split: option.splits)
  ultimately show ?thesis by (simp add: usage_ledger_def)
qed

lemma seal_logical_keeps:
  assumes "usage_ledger source_epoch w h" "in_bounds w"
  shows "usage_ledger source_epoch (w\<lparr>uw_state := fst (seal_logical digest maximum (uw_state w))\<rparr>) h"
  using assms seal_keeps [OF assms refl refl, where logical = "[]" and attempts = "us_attempts (uw_state w)"
      and facts = "FactsLogical (us_logical (uw_state w))" and digest = digest]
  by (auto simp: seal_logical_def)

lemma seal_attempts_keeps:
  assumes "usage_ledger source_epoch w h" "in_bounds w"
  shows "usage_ledger source_epoch (w\<lparr>uw_state := fst (seal_attempts digest maximum (uw_state w))\<rparr>) h"
  using assms seal_keeps [OF assms refl refl, where attempts = "[]" and logical = "us_logical (uw_state w)"
      and facts = "FactsAttempts (us_attempts (uw_state w))" and digest = digest]
  by (auto simp: seal_attempts_def)

lemma ledger_fact:
  assumes keeps: "usage_ledger source_epoch w h"
    and totals: "\<And>r. active_total r state + lost_total r state
        = active_total r (uw_state w) + lost_total r (uw_state w) + (if r = requests then 1 else 0)"
      "\<And>r. lost_total r (uw_state w) \<le> lost_total r state"
    and same: "us_pending state = us_pending (uw_state w)"
      "next_batch_sequence state = next_batch_sequence (uw_state w)"
    and keys: "length (us_logical state) + length (us_attempts state)
      \<le> Suc (length (us_logical (uw_state w)) + length (us_attempts (uw_state w)))"
    and w': "w' = w\<lparr>uw_state := state, uw_requests := uw_requests w + (if requests then 1 else 0),
      uw_attempts := uw_attempts w + (if requests then 0 else 1)\<rparr>"
  shows "usage_ledger source_epoch w' h"
proof -
  have fields: "uw_state w' = state" "uw_db w' = uw_db w" "uw_now w' = uw_now w" "uw_flush w' = uw_flush w"
    "uw_persisted w' = uw_persisted w" by (simp_all add: w')
  have rec: "recorded r w' = recorded r w + (if r = requests then 1 else 0)" for r by (simp add: recorded_def w')
  have counted: "history_counted w h" using keeps by (simp add: usage_ledger_def)
  then have now: "unconfirmed r (uw_state w) + batches_total r (uh_acknowledged h) + lost_total r (uw_state w)
      = recorded r w" for r by (simp add: history_counted_def)
  have "history_counted w' h"
    unfolding history_counted_def fields
  proof (intro conjI allI)
    fix r
    show "unconfirmed r state + batches_total r (uh_acknowledged h) + lost_total r state = recorded r w'"
      using now [of r] totals(1) [of r] unfolding unconfirmed_def same rec by linarith
    show "batches_total r (uh_expired h) \<le> lost_total r state"
      using counted totals(2) [of r] by (auto simp: history_counted_def intro: order_trans)
    show "uw_persisted w r = batches_total r (uh_committed h)" using counted by (simp add: history_counted_def)
  next
    show "int (next_batch_sequence state) + int (length (us_logical state)) + int (length (us_attempts state))
        \<le> recorded True w' + recorded False w'"
      using counted keys unfolding history_counted_def same by (cases requests) (simp_all add: rec)
  qed
  moreover have "history_ordered state h" "history_receipted source_epoch w' h" "flush_front w'"
    using keeps by (simp_all add: usage_ledger_def history_ordered_def history_receipted_def flush_front_def
        all_batches_def same fields split: option.splits)
  ultimately show ?thesis by (simp add: usage_ledger_def fields)
qed

lemma ledger_lost:
  assumes "usage_ledger source_epoch w h"
  shows "lost_total r (uw_state w) \<le> recorded r w"
proof -
  have "unconfirmed r (uw_state w) + batches_total r (uh_acknowledged h) + lost_total r (uw_state w) = recorded r w"
    using assms by (simp add: usage_ledger_def history_counted_def)
  moreover have "0 \<le> unconfirmed r (uw_state w)" by (simp add: unconfirmed_def)
  ultimately show ?thesis using batches_total_nonneg [of r "uh_acknowledged h"] by linarith
qed

lemma bounds_room:
  assumes "usage_ledger source_epoch w h" "in_bounds w"
  shows "lost_total r (uw_state w) < int u64_max"
proof -
  have "recorded r w \<le> int i64_max" using assms(2) by (cases r) (simp_all add: in_bounds_def recorded_def)
  also have "\<dots> < int u64_max" by (simp add: i64_max_def u64_max_def)
  finally show ?thesis using ledger_lost [OF assms(1), of r] by linarith
qed

lemma lose_one_totals:
  assumes "lost_total True state < int u64_max"
  shows "lost_total r (state\<lparr>lost_logical_facts := saturating_add u64_max (lost_logical_facts state) 1\<rparr>)
    = lost_total r state + (if r then 1 else 0)"
  using assms by (simp add: lost_total_def lost_one)

lemma lose_one_attempt_totals:
  assumes "lost_total False state < int u64_max"
  shows "lost_total r (state\<lparr>lost_attempt_facts := saturating_add u64_max (lost_attempt_facts state) 1\<rparr>)
    = lost_total r state + (if r then 0 else 1)"
  using assms by (simp add: lost_total_def lost_one)

lemma add_logical_keeps:
  assumes "usage_ledger source_epoch w h" "in_bounds w" "ld_request_count delta = 1"
  shows "usage_ledger source_epoch
    (w\<lparr>uw_state := add_logical_fact key delta (uw_state w), uw_requests := Suc (uw_requests w)\<rparr>) h"
proof (rule ledger_fact [OF assms(1), where requests = True and state = "add_logical_fact key delta (uw_state w)"])
  note add = add_logical_fact_totals [OF assms(3) bounds_room [OF assms(1,2), of True], of key]
  show "active_total r (add_logical_fact key delta (uw_state w)) + lost_total r (add_logical_fact key delta (uw_state w))
      = active_total r (uw_state w) + lost_total r (uw_state w) + (if r = True then 1 else 0)" for r
    using add by (cases r) (simp_all add: active_total_def lost_total_def)
  show "lost_total r (uw_state w) \<le> lost_total r (add_logical_fact key delta (uw_state w))" for r
    using add by (cases r) (simp_all add: lost_total_def)
qed (use add_logical_fact_totals [OF assms(3) bounds_room [OF assms(1,2), of True], of key] in simp_all)

lemma add_attempt_keeps:
  assumes "usage_ledger source_epoch w h" "in_bounds w" "ad_attempt_count delta = 1"
  shows "usage_ledger source_epoch
    (w\<lparr>uw_state := add_attempt_fact key delta (uw_state w), uw_attempts := Suc (uw_attempts w)\<rparr>) h"
proof (rule ledger_fact [OF assms(1), where requests = False and state = "add_attempt_fact key delta (uw_state w)"])
  note add = add_attempt_fact_totals [OF assms(3) bounds_room [OF assms(1,2), of False], of key]
  show "active_total r (add_attempt_fact key delta (uw_state w)) + lost_total r (add_attempt_fact key delta (uw_state w))
      = active_total r (uw_state w) + lost_total r (uw_state w) + (if r = False then 1 else 0)" for r
    using add by (cases r) (simp_all add: active_total_def lost_total_def)
  show "lost_total r (uw_state w) \<le> lost_total r (add_attempt_fact key delta (uw_state w))" for r
    using add by (cases r) (simp_all add: lost_total_def)
qed (use add_attempt_fact_totals [OF assms(3) bounds_room [OF assms(1,2), of False], of key] in simp_all)

lemma record_logical_keeps:
  assumes keeps: "usage_ledger source_epoch w h" and bounds: "in_bounds w" and one: "ld_request_count delta = 1"
  shows "usage_ledger source_epoch
    (w\<lparr>uw_state := record_logical_fact digest config key delta (uw_state w), uw_requests := Suc (uw_requests w)\<rparr>) h"
proof -
  let ?sealed = "seal_logical digest (max_pending_batches config) (uw_state w)"
  let ?lost = "(uw_state w)\<lparr>lost_logical_facts := saturating_add u64_max (lost_logical_facts (uw_state w)) 1\<rparr>"
  have kept: "usage_ledger source_epoch (w\<lparr>uw_state := fst ?sealed\<rparr>) h"
    using keeps bounds by (rule seal_logical_keeps)
  have add: "usage_ledger source_epoch
      (w\<lparr>uw_state := add_logical_fact key delta (fst ?sealed), uw_requests := Suc (uw_requests w)\<rparr>) h"
    using add_logical_keeps [OF kept, of delta key] bounds one by (simp add: in_bounds_def)
  have refused: "snd ?sealed \<or> fst ?sealed = uw_state w" by (simp add: seal_logical_def)
  have lost: "usage_ledger source_epoch (w\<lparr>uw_state := ?lost, uw_requests := Suc (uw_requests w)\<rparr>) h"
  proof (rule ledger_fact [OF keeps, where requests = True and state = ?lost])
    note one_lost = lose_one_totals [OF bounds_room [OF keeps bounds, of True]]
    show "active_total r ?lost + lost_total r ?lost
        = active_total r (uw_state w) + lost_total r (uw_state w) + (if r = True then 1 else 0)" for r
      unfolding one_lost by (simp add: active_total_def)
    show "lost_total r (uw_state w) \<le> lost_total r ?lost" for r unfolding one_lost by simp
  qed simp_all
  show ?thesis
    using add_logical_keeps [OF keeps bounds one] add lost refused
    by (auto simp: record_logical_fact_def split: prod.splits bool.splits)
qed

lemma record_attempt_keeps:
  assumes keeps: "usage_ledger source_epoch w h" and bounds: "in_bounds w" and one: "ad_attempt_count delta = 1"
  shows "usage_ledger source_epoch
    (w\<lparr>uw_state := record_attempt_fact digest config key delta (uw_state w), uw_attempts := Suc (uw_attempts w)\<rparr>) h"
proof -
  let ?sealed = "seal_attempts digest (max_pending_batches config) (uw_state w)"
  let ?lost = "(uw_state w)\<lparr>lost_attempt_facts := saturating_add u64_max (lost_attempt_facts (uw_state w)) 1\<rparr>"
  have kept: "usage_ledger source_epoch (w\<lparr>uw_state := fst ?sealed\<rparr>) h"
    using keeps bounds by (rule seal_attempts_keeps)
  have add: "usage_ledger source_epoch
      (w\<lparr>uw_state := add_attempt_fact key delta (fst ?sealed), uw_attempts := Suc (uw_attempts w)\<rparr>) h"
    using add_attempt_keeps [OF kept, of delta key] bounds one by (simp add: in_bounds_def)
  have refused: "snd ?sealed \<or> fst ?sealed = uw_state w" by (simp add: seal_attempts_def)
  have lost: "usage_ledger source_epoch (w\<lparr>uw_state := ?lost, uw_attempts := Suc (uw_attempts w)\<rparr>) h"
  proof (rule ledger_fact [OF keeps, where requests = False and state = ?lost])
    note one_lost = lose_one_attempt_totals [OF bounds_room [OF keeps bounds, of False]]
    show "active_total r ?lost + lost_total r ?lost
        = active_total r (uw_state w) + lost_total r (uw_state w) + (if r = False then 1 else 0)" for r
      unfolding one_lost by (simp add: active_total_def)
    show "lost_total r (uw_state w) \<le> lost_total r ?lost" for r unfolding one_lost by simp
  qed simp_all
  show ?thesis
    using add_attempt_keeps [OF keeps bounds one] add lost refused
    by (auto simp: record_attempt_fact_def split: prod.splits bool.splits)
qed

subsection \<open>Flushes keep the ledger\<close>

text \<open>The ledger reads only these parts of a world.\<close>

lemma ledger_cong:
  assumes "usage_ledger source_epoch w h"
    and "us_pending (uw_state w') = us_pending (uw_state w)" "us_logical (uw_state w') = us_logical (uw_state w)"
      "us_attempts (uw_state w') = us_attempts (uw_state w)"
      "lost_logical_facts (uw_state w') = lost_logical_facts (uw_state w)"
      "lost_attempt_facts (uw_state w') = lost_attempt_facts (uw_state w)"
      "next_batch_sequence (uw_state w') = next_batch_sequence (uw_state w)"
    and "uw_db w' = uw_db w" "uw_now w' = uw_now w" "uw_requests w' = uw_requests w"
      "uw_attempts w' = uw_attempts w" "uw_persisted w' = uw_persisted w"
    and "uw_flush w' = None \<or> uw_flush w' = uw_flush w"
  shows "usage_ledger source_epoch w' h"
proof -
  have "history_ordered (uw_state w') h" "history_receipted source_epoch w' h" "flush_front w'"
    using assms by (auto simp: usage_ledger_def history_ordered_def history_receipted_def flush_front_def
        all_batches_def split: option.splits)
  moreover have "active_total r (uw_state w') = active_total r (uw_state w)"
    "lost_total r (uw_state w') = lost_total r (uw_state w)" "recorded r w' = recorded r w" for r
    using assms(2-12) by (simp_all add: active_total_def lost_total_def recorded_def)
  ultimately show ?thesis
    using assms by (simp add: usage_ledger_def history_counted_def unconfirmed_def)
qed

lemma begin_keeps:
  assumes keeps: "usage_ledger source_epoch w h" and bounds: "in_bounds w"
    and begun: "flush_begin digest config (uw_state w) = (state, batch)"
  shows "usage_ledger source_epoch (w\<lparr>uw_state := state, uw_flush := batch\<rparr>) h"
proof -
  let ?m = "max_pending_batches config"
  define s1 where "s1 = (if length (us_pending (uw_state w)) < ?m then fst (seal_logical digest ?m (uw_state w))
    else uw_state w)"
  have one: "usage_ledger source_epoch (w\<lparr>uw_state := s1\<rparr>) h"
    using keeps seal_logical_keeps [OF keeps bounds] by (simp add: s1_def)
  have "state = (if length (us_pending s1) < ?m then fst (seal_attempts digest ?m s1) else s1)"
    and batch: "batch = (case us_pending state of [] \<Rightarrow> None | b # _ \<Rightarrow> Some b)"
    using begun unfolding flush_begin_def Let_def s1_def [symmetric] by auto
  then have "usage_ledger source_epoch (w\<lparr>uw_state := state\<rparr>) h"
    using one seal_attempts_keeps [OF one, of digest ?m] bounds by (simp add: in_bounds_def)
  then show ?thesis
    by (auto simp: usage_ledger_def history_counted_def history_receipted_def flush_front_def recorded_def batch
        split: list.split)
qed

lemma within_Min: "\<not> Min (set xs) < (a :: int) \<Longrightarrow> x \<in> set xs \<Longrightarrow> a \<le> x"
  using Min_le [OF finite_set, of x xs] by linarith

lemma within_Max: "\<not> (a :: int) < Max (set xs) \<Longrightarrow> x \<in> set xs \<Longrightarrow> x \<le> a"
  using Max_ge [OF finite_set, of x xs] by linarith

lemma flush_batch_cases:
  assumes "flush_batch now source_epoch batch db = Some (db', outcome)"
  obtains "outcome = FlushExpired" "db' = db"
  | "outcome = FlushFutureBucket" "db' = db"
  | receipt where "outcome = FlushPersisted" "db' = db"
      "aget (db_receipts db) (receipt_key source_epoch batch) = Some receipt"
  | "outcome = FlushPersisted" "aget (db_receipts db) (receipt_key source_epoch batch) = None"
      "\<forall>bucket \<in> set (facts_buckets (ub_facts batch)). now - 7 * day_nanos \<le> bucket \<and> bucket \<le> now"
      "upsert_facts (ub_facts batch) (db\<lparr>db_receipts := aput (receipt_key source_epoch batch)
         \<lparr>rc_digest = ub_digest batch, rc_fact_count = receipt_count batch, rc_flushed_at = now\<rparr> (db_receipts db)\<rparr>)
       = Some db'"
  using assms
  unfolding flush_batch_def Let_def
  by (auto split: if_split_asm option.split_asm intro: that within_Min within_Max)

lemma ledger_pending_small:
  assumes keeps: "usage_ledger source_epoch w h" and bounds: "in_bounds w" and b: "b \<in> set (us_pending (uw_state w))"
  shows "facts_small (ub_facts b)"
    and "lost_total r (uw_state w) + facts_total r (ub_facts b) \<le> int u64_max"
proof -
  have each: "lost_total r (uw_state w) + facts_total r (ub_facts b) \<le> int i64_max" for r
  proof -
    obtain xs ys where split: "us_pending (uw_state w) = xs @ b # ys" using b by (meson split_list)
    have "facts_total r (ub_facts b) \<le> batches_total r (us_pending (uw_state w))" unfolding split by simp
    moreover have "unconfirmed r (uw_state w) + batches_total r (uh_acknowledged h) + lost_total r (uw_state w)
        = recorded r w" using keeps by (simp add: usage_ledger_def history_counted_def)
    moreover have "recorded r w \<le> int i64_max" using bounds by (cases r) (simp_all add: in_bounds_def recorded_def)
    moreover note batches_total_nonneg [of r "uh_acknowledged h"] active_total_nonneg [of r "uw_state w"]
    ultimately show ?thesis unfolding unconfirmed_def by linarith
  qed
  have "facts_total r (ub_facts b) \<le> int i64_max" for r using each [of r] lost_total_nonneg [of r "uw_state w"] by linarith
  then show "facts_small (ub_facts b)" by (simp add: facts_small_def)
  have "int i64_max \<le> int u64_max" by (simp add: i64_max_def u64_max_def)
  then show "lost_total r (uw_state w) + facts_total r (ub_facts b) \<le> int u64_max" using each [of r] by linarith
qed

lemma commit_keeps:
  assumes keeps: "usage_ledger source_epoch w h" and bounds: "in_bounds w"
    and front: "us_pending (uw_state w) = b # rest"
    and fresh: "aget (db_receipts (uw_db w)) (receipt_key source_epoch b) = None"
    and buckets: "\<forall>bucket \<in> set (facts_buckets (ub_facts b)). uw_now w - 7 * day_nanos \<le> bucket \<and> bucket \<le> uw_now w"
    and added: "upsert_facts (ub_facts b) ((uw_db w)\<lparr>db_receipts := aput (receipt_key source_epoch b)
         \<lparr>rc_digest = ub_digest b, rc_fact_count = receipt_count b, rc_flushed_at = uw_now w\<rparr> (db_receipts (uw_db w))\<rparr>)
       = Some db"
  shows "usage_ledger source_epoch (w\<lparr>uw_db := db, uw_persisted := persisted_by (uw_db w) db (uw_persisted w)\<rparr>)
      (h\<lparr>uh_committed := b # uh_committed h\<rparr>)"
    (is "usage_ledger _ ?w ?h")
proof -
  have pending: "b \<in> set (us_pending (uw_state w))" by (simp add: front)
  note total = upsert_facts_total [OF added ledger_pending_small(1) [OF keeps bounds pending]]
  have receipts: "aget (db_receipts db) key = (if key = receipt_key source_epoch b
      then Some \<lparr>rc_digest = ub_digest b, rc_fact_count = receipt_count b, rc_flushed_at = uw_now w\<rparr>
      else aget (db_receipts (uw_db w)) key)" for key
    unfolding total(3) by (simp add: aget_aput)
  have new: "b \<notin> set (uh_committed h)"
  proof
    assume "b \<in> set (uh_committed h)"
    then have "sealed_twice (uw_now w) source_epoch (uw_db w) b"
      using keeps pending by (simp add: usage_ledger_def history_receipted_def)
    then show False using fresh buckets by (fastforce simp: sealed_twice_def)
  qed
  have "history_ordered (uw_state ?w) ?h"
    using keeps new pending by (auto simp: usage_ledger_def history_ordered_def all_batches_def)
  moreover have "history_counted ?w ?h"
    using keeps total(1) by (simp add: usage_ledger_def history_counted_def persisted_by_def hourly_total_def)
  moreover have "sealed_twice (uw_now w) source_epoch db c"
    if "c = b \<or> c \<in> set (uh_committed h) \<and> c \<in> set (us_pending (uw_state w))" for c
  proof (cases "receipt_key source_epoch c = receipt_key source_epoch b")
    case True
    show ?thesis
    proof (cases "c = b")
      case True
      then show ?thesis using buckets by (auto simp: sealed_twice_def receipts)
    next
      case False
      then have "sealed_twice (uw_now w) source_epoch (uw_db w) c"
        using that keeps by (auto simp: usage_ledger_def history_receipted_def)
      then show ?thesis using True fresh by (auto simp: sealed_twice_def)
    qed
  next
    case False
    then have "sealed_twice (uw_now w) source_epoch (uw_db w) c"
      using that keeps by (auto simp: usage_ledger_def history_receipted_def)
    then show ?thesis using False by (auto simp: sealed_twice_def receipts)
  qed
  then have "history_receipted source_epoch ?w ?h"
    using keeps by (auto simp: usage_ledger_def history_receipted_def receipts)
  moreover have "flush_front ?w" using keeps by (simp add: usage_ledger_def flush_front_def split: option.splits)
  ultimately show ?thesis by (simp add: usage_ledger_def)
qed

lemma pop_keeps:
  assumes keeps: "usage_ledger source_epoch w h" and bounds: "in_bounds w"
    and front: "us_pending (uw_state w) = b # rest"
    and expired: "outcome = FlushExpired \<or> outcome = FlushPersisted \<and> b \<in> set (uh_committed h)"
  shows "\<exists>h'. usage_ledger source_epoch
    (w\<lparr>uw_state := flush_end b (Some outcome) (uw_state w), uw_flush := None\<rparr>) h'"
proof -
  let ?gone = "outcome = FlushExpired"
  define s where "s = flush_end b (Some outcome) (uw_state w)"
  let ?h = "if ?gone then h\<lparr>uh_expired := b # uh_expired h\<rparr> else h\<lparr>uh_acknowledged := b # uh_acknowledged h\<rparr>"
  have b: "b \<in> set (us_pending (uw_state w))" by (simp add: front)
  have s: "us_pending s = rest" "us_logical s = us_logical (uw_state w)" "us_attempts s = us_attempts (uw_state w)"
    "next_batch_sequence s = next_batch_sequence (uw_state w)"
    using expired by (auto simp: s_def flush_end_def flush_acknowledge_def front Let_def)
  have lost: "lost_total r s = lost_total r (uw_state w) + (if ?gone then facts_total r (ub_facts b) else 0)" for r
  proof -
    have "lost_total r s = lost_total r (if ?gone then count_lost (ub_facts b) (uw_state w) else uw_state w)"
      using expired by (auto simp: s_def flush_end_def flush_acknowledge_def front Let_def lost_total_def count_lost_def)
    then show ?thesis
      using count_lost_total ledger_pending_small(2) [OF keeps bounds b] by simp
  qed
  have all: "all_batches (uw_state w) h = b # rest @ uh_acknowledged h @ uh_expired h"
    by (simp add: all_batches_def front)
  have "mset (all_batches s ?h) = mset (all_batches (uw_state w) h)" by (simp add: all_batches_def s front)
  then have same: "set (all_batches s ?h) = set (all_batches (uw_state w) h)"
    and sequences: "mset (map ub_sequence (all_batches s ?h)) = mset (map ub_sequence (all_batches (uw_state w) h))"
    by (metis mset_eq_setD, metis mset_map)
  from mset_eq_imp_distinct_iff [OF sequences]
  have "history_ordered s ?h"
    using keeps expired by (auto simp: usage_ledger_def history_ordered_def same s)
  moreover have "history_counted (w\<lparr>uw_state := s, uw_flush := None\<rparr>) ?h"
  proof -
    have counted: "history_counted w h" using keeps by (simp add: usage_ledger_def)
    have active: "active_total r s = active_total r (uw_state w)" for r by (simp add: active_total_def s)
    have now: "active_total r (uw_state w) + (facts_total r (ub_facts b) + batches_total r rest)
        + batches_total r (uh_acknowledged h) + lost_total r (uw_state w) = recorded r w"
      and old: "batches_total r (uh_expired h) \<le> lost_total r (uw_state w)" for r
      using counted by (simp_all add: history_counted_def unconfirmed_def front)
    show ?thesis
      unfolding history_counted_def
    proof (intro conjI allI)
      fix r
      show "unconfirmed r (uw_state (w\<lparr>uw_state := s, uw_flush := None\<rparr>)) + batches_total r (uh_acknowledged ?h)
          + lost_total r (uw_state (w\<lparr>uw_state := s, uw_flush := None\<rparr>))
        = recorded r (w\<lparr>uw_state := s, uw_flush := None\<rparr>)"
        using now [of r] by (simp add: unconfirmed_def s active lost)
      show "batches_total r (uh_expired ?h) \<le> lost_total r (uw_state (w\<lparr>uw_state := s, uw_flush := None\<rparr>))"
        using old [of r] by (simp add: lost)
    qed (use counted in \<open>simp_all add: history_counted_def s\<close>)
  qed
  moreover have "history_receipted source_epoch (w\<lparr>uw_state := s, uw_flush := None\<rparr>) ?h"
    using keeps by (auto simp: usage_ledger_def history_receipted_def s front)
  moreover have "flush_front (w\<lparr>uw_state := s, uw_flush := None\<rparr>)" by (simp add: flush_front_def)
  ultimately show ?thesis unfolding s_def usage_ledger_def by auto
qed

lemma unanswered_keeps:
  assumes "usage_ledger source_epoch w h"
  shows "usage_ledger source_epoch (w\<lparr>uw_state := flush_end b None (uw_state w), uw_flush := None\<rparr>) h"
    and "usage_ledger source_epoch
      (w\<lparr>uw_state := flush_end b (Some FlushFutureBucket) (uw_state w), uw_flush := None\<rparr>) h"
  by (rule ledger_cong [OF assms]; simp add: flush_end_def)+

text \<open>The transaction, before its answer arrives.\<close>

lemma flush_keeps:
  assumes keeps: "usage_ledger source_epoch w h" and bounds: "in_bounds w" and flush: "uw_flush w = Some b"
    and batch: "flush_batch (uw_now w) source_epoch b (uw_db w) = Some (db, outcome)"
  obtains h' where
    "usage_ledger source_epoch (w\<lparr>uw_db := db, uw_persisted := persisted_by (uw_db w) db (uw_persisted w)\<rparr>) h'"
    "outcome = FlushPersisted \<Longrightarrow> b \<in> set (uh_committed h')"
proof -
  from keeps flush obtain rest where front: "us_pending (uw_state w) = b # rest"
    by (auto simp: usage_ledger_def flush_front_def)
  have idle: "usage_ledger source_epoch (w\<lparr>uw_db := db, uw_persisted := persisted_by (uw_db w) db (uw_persisted w)\<rparr>) h"
    if "db = uw_db w"
    by (rule ledger_cong [OF keeps]) (simp_all add: that persisted_by_def fun_eq_iff)
  from batch show ?thesis
  proof (cases rule: flush_batch_cases)
    case 1 then show ?thesis using idle that by blast
  next
    case 2 then show ?thesis using idle that by blast
  next
    case (3 receipt)
    then obtain c where c: "c \<in> set (uh_committed h)" "receipt_key source_epoch b = receipt_key source_epoch c"
      using keeps by (fastforce simp: usage_ledger_def history_receipted_def receipt_key_def)
    have small: "ub_sequence x < i64_max \<and> x \<in> set (all_batches (uw_state w) h)"
      if "x \<in> {b, c}" for x
    proof -
      have "x \<in> set (all_batches (uw_state w) h)"
        using that c(1) keeps by (auto simp: usage_ledger_def history_ordered_def all_batches_def front)
      moreover have "int (next_batch_sequence (uw_state w)) \<le> int i64_max"
        using keeps bounds unfolding usage_ledger_def history_counted_def in_bounds_def by linarith
      ultimately show ?thesis using keeps by (fastforce simp: usage_ledger_def history_ordered_def)
    qed
    then have "ub_sequence b < i64_max" "ub_sequence c < i64_max" by blast+
    then have "ub_sequence b = ub_sequence c" using c(2) by (simp add: receipt_key_def)
    moreover have "inj_on ub_sequence (set (all_batches (uw_state w) h))"
      using keeps by (simp add: usage_ledger_def history_ordered_def distinct_map)
    ultimately have "b = c" using small by (blast dest: inj_onD)
    then show ?thesis using idle [OF 3(2)] c(1) that by blast
  next
    case 4
    from commit_keeps [OF keeps bounds front 4(2-4)] show ?thesis by (rule that) simp
  qed
qed

lemma database_keeps:
  assumes keeps: "usage_ledger source_epoch w h" and kept: "receipts_kept source_epoch (uw_now w) (uw_db w) db"
    and later: "uw_now w \<le> now"
  shows "usage_ledger source_epoch (w\<lparr>uw_db := db, uw_now := now\<rparr>) h"
proof -
  have "sealed_twice now source_epoch db b"
    if b: "b \<in> set (uh_committed h)" "b \<in> set (us_pending (uw_state w))" for b
  proof -
    have sealed: "sealed_twice (uw_now w) source_epoch (uw_db w) b" and some: "facts_buckets (ub_facts b) \<noteq> []"
      using keeps b by (auto simp: usage_ledger_def history_receipted_def history_ordered_def all_batches_def)
    from sealed show ?thesis
      unfolding sealed_twice_def
    proof (elim disjE exE conjE)
      fix receipt
      assume receipt: "aget (db_receipts (uw_db w)) (receipt_key source_epoch b) = Some receipt"
        "rc_digest receipt = ub_digest b" "rc_fact_count receipt = receipt_count b"
        "\<forall>bucket \<in> set (facts_buckets (ub_facts b)). bucket \<le> rc_flushed_at receipt"
      show "(\<exists>receipt. aget (db_receipts db) (receipt_key source_epoch b) = Some receipt
          \<and> rc_digest receipt = ub_digest b \<and> rc_fact_count receipt = receipt_count b
          \<and> (\<forall>bucket \<in> set (facts_buckets (ub_facts b)). bucket \<le> rc_flushed_at receipt))
        \<or> (\<exists>bucket \<in> set (facts_buckets (ub_facts b)). bucket < now - 7 * day_nanos)"
      proof (cases "rc_flushed_at receipt \<ge> uw_now w - 8 * day_nanos")
        case True
        have "aget (db_receipts db) (receipt_key source_epoch b) = Some receipt"
          using kept [unfolded receipts_kept_def, THEN conjunct2, rule_format,
              of "receipt_key source_epoch b" receipt] receipt(1) True by (simp add: receipt_key_def)
        with receipt show ?thesis by blast
      next
        case False
        from some obtain bucket where bucket: "bucket \<in> set (facts_buckets (ub_facts b))"
          by (meson list.set_sel(1))
        then have "bucket \<le> rc_flushed_at receipt" using receipt(4) by blast
        moreover have "0 < day_nanos" by (simp add: day_nanos_def hour_nanos_def)
        ultimately have "bucket < now - 7 * day_nanos" using False later by linarith
        then show ?thesis using bucket by blast
      qed
    next
      assume "\<exists>bucket \<in> set (facts_buckets (ub_facts b)). bucket < uw_now w - 7 * day_nanos"
      then obtain bucket where bucket: "bucket \<in> set (facts_buckets (ub_facts b))" "bucket < uw_now w - 7 * day_nanos"
        by blast
      have "bucket < now - 7 * day_nanos" using bucket(2) later by linarith
      with bucket(1) show "(\<exists>receipt. aget (db_receipts db) (receipt_key source_epoch b) = Some receipt
          \<and> rc_digest receipt = ub_digest b \<and> rc_fact_count receipt = receipt_count b
          \<and> (\<forall>bucket \<in> set (facts_buckets (ub_facts b)). bucket \<le> rc_flushed_at receipt))
        \<or> (\<exists>bucket \<in> set (facts_buckets (ub_facts b)). bucket < now - 7 * day_nanos)" by blast
    qed
  qed
  moreover have "\<exists>b \<in> set (uh_committed h). key = receipt_key source_epoch b"
    if "fst key = source_epoch" "aget (db_receipts db) key = Some receipt" for key receipt
    using that keeps kept unfolding usage_ledger_def history_receipted_def receipts_kept_def by blast
  ultimately have "history_receipted source_epoch (w\<lparr>uw_db := db, uw_now := now\<rparr>) h"
    by (auto simp: history_receipted_def)
  moreover have "history_counted (w\<lparr>uw_db := db, uw_now := now\<rparr>) h"
    "flush_front (w\<lparr>uw_db := db, uw_now := now\<rparr>)"
    using keeps by (simp_all add: usage_ledger_def history_counted_def flush_front_def recorded_def split: option.splits)
  ultimately show ?thesis using keeps by (simp add: usage_ledger_def)
qed

lemma one_fact:
  "ld_request_count (logical_usage_delta usage deployment millis) = 1"
  "ad_attempt_count (attempt_usage_delta estimate usage d millis) = 1"
  by (simp_all add: logical_usage_delta_def attempt_usage_delta_def Let_def split: prod.split)

lemma step_keeps:
  assumes "usage_step digest config source_epoch w w'" "usage_ledger source_epoch w h" "in_bounds w"
  shows "\<exists>h'. usage_ledger source_epoch w' h'"
  using assms(1)
proof cases
  case (step_logical now admission outcome usage deployment millis)
  then show ?thesis
    unfolding aggregate_logical_def using record_logical_keeps [OF assms(2,3) one_fact(1)] by blast
next
  case (step_attempt now admission candidate terminal estimate usage millis)
  then show ?thesis
    unfolding aggregate_attempt_def Let_def using record_attempt_keeps [OF assms(2,3) one_fact(2)] by blast
next
  case (step_begin state batch)
  then show ?thesis using begin_keeps [OF assms(2,3)] by blast
next
  case (step_answered batch db outcome)
  let ?w = "w\<lparr>uw_db := db, uw_persisted := persisted_by (uw_db w) db (uw_persisted w)\<rparr>"
  from flush_keeps [OF assms(2,3) step_answered(2,3)] obtain h1 where kept: "usage_ledger source_epoch ?w h1"
    and committed: "outcome = FlushPersisted \<Longrightarrow> batch \<in> set (uh_committed h1)" by blast
  have bounds: "in_bounds ?w" using assms(3) by (simp add: in_bounds_def)
  from assms(2) step_answered(2) obtain rest where front: "us_pending (uw_state ?w) = batch # rest"
    by (auto simp: usage_ledger_def flush_front_def)
  have "\<exists>h'. usage_ledger source_epoch
      (?w\<lparr>uw_state := flush_end batch (Some outcome) (uw_state ?w), uw_flush := None\<rparr>) h'"
  proof (cases outcome)
    case FlushFutureBucket
    then show ?thesis using unanswered_keeps(2) [OF kept] by blast
  qed (use pop_keeps [OF kept bounds front] committed in auto)
  then show ?thesis unfolding step_answered(1) by simp
next
  case (step_answer_lost batch db outcome)
  let ?w = "w\<lparr>uw_db := db, uw_persisted := persisted_by (uw_db w) db (uw_persisted w)\<rparr>"
  from flush_keeps [OF assms(2,3) step_answer_lost(2,3)] obtain h1 where kept: "usage_ledger source_epoch ?w h1" by blast
  show ?thesis using unanswered_keeps(1) [OF kept, of batch] unfolding step_answer_lost(1) by auto
next
  case (step_failed batch)
  then show ?thesis using unanswered_keeps(1) [OF assms(2)] by blast
next
  case (step_retention result)
  have "usage_ledger source_epoch (w\<lparr>uw_state := retention_end result (uw_state w)\<rparr>) h"
    by (rule ledger_cong [OF assms(2)]) (simp_all add: retention_end_def split: option.split)
  then show ?thesis using step_retention by blast
next
  case (step_database db now)
  then show ?thesis using database_keeps [OF assms(2)] by blast
qed

lemma step_recorded:
  assumes "usage_step digest config source_epoch w w'"
  shows "recorded r w \<le> recorded r w'"
  using assms by cases (simp_all add: recorded_def)

lemma start_ledger:
  assumes "\<forall>key. fst key = source_epoch \<longrightarrow> aget (db_receipts db) key = None"
  shows "usage_ledger source_epoch (usage_start db now) \<lparr>uh_acknowledged = [], uh_expired = [], uh_committed = []\<rparr>"
  using assms
  by (auto simp: usage_ledger_def history_ordered_def history_counted_def history_receipted_def flush_front_def
      all_batches_def usage_start_def UsageState_default_def unconfirmed_def active_total_def lost_total_def
      recorded_def)

lemma run_keeps:
  assumes "usage_run digest config source_epoch (usage_start db now) w" "in_bounds w"
    and "\<forall>key. fst key = source_epoch \<longrightarrow> aget (db_receipts db) key = None"
  shows "\<exists>h. usage_ledger source_epoch w h"
  using assms(1,2)
proof (induction rule: usage_run.induct)
  case run_start
  then show ?case using start_ledger [OF assms(3)] by blast
next
  case (run_step w w')
  have "in_bounds w"
    using step_recorded [OF run_step.hyps(2), of True] step_recorded [OF run_step.hyps(2), of False] run_step.prems
    unfolding in_bounds_def by linarith
  then show ?case using run_step.IH step_keeps [OF run_step.hyps(2)] by blast
qed

text \<open>
  C9: Usage is never counted twice and never lost silently.  In every interleaving of recordings, flushes
  that fail or whose answer is lost after the database committed, retries, the retention of receipts and the writes
  of other processes, what a process's flushes have added to the hourly tables is at most what it recorded, and
  whatever it recorded is in the tables, still held in memory, or counted as lost, as long as fewer than
  2^63 facts are recorded.
\<close>

theorem usage_counted_once:
  assumes run: "usage_run digest config source_epoch (usage_start db now) w"
    and bounds: "in_bounds w"
    and fresh: "\<forall>key. fst key = source_epoch \<longrightarrow> aget (db_receipts db) key = None"
  shows "uw_persisted w r \<le> recorded r w
    \<and> recorded r w \<le> uw_persisted w r + unconfirmed r (uw_state w) + lost_total r (uw_state w)"
proof -
  obtain h where ledger: "usage_ledger source_epoch w h" using run_keeps [OF run bounds fresh] by blast
  then have ordered: "history_ordered (uw_state w) h"
    and sum: "unconfirmed r (uw_state w) + batches_total r (uh_acknowledged h) + lost_total r (uw_state w) = recorded r w"
    and expired: "batches_total r (uh_expired h) \<le> lost_total r (uw_state w)"
    and persisted: "uw_persisted w r = batches_total r (uh_committed h)"
    by (simp_all add: usage_ledger_def history_counted_def)
  have all: "distinct (all_batches (uw_state w) h)"
    using ordered by (auto simp: history_ordered_def distinct_map)
  have "batches_total r (uh_committed h) \<le> batches_total r (all_batches (uw_state w) h)"
    using ordered all by (intro batches_total_subset) (simp_all add: history_ordered_def)
  moreover have "batches_total r (uh_acknowledged h) \<le> batches_total r (uh_committed h)"
    using ordered all by (intro batches_total_subset) (simp_all add: history_ordered_def all_batches_def)
  moreover have "batches_total r (all_batches (uw_state w) h) = batches_total r (us_pending (uw_state w))
      + (batches_total r (uh_acknowledged h) + batches_total r (uh_expired h))" by (simp add: all_batches_def)
  moreover note sum [unfolded unconfirmed_def] expired active_total_nonneg [of r "uw_state w"]
  ultimately show ?thesis unfolding persisted unconfirmed_def by linarith
qed

subsection \<open>A shutdown flushes everything\<close>

text \<open>The last thing a flush did: a batch was refused, stays the first that is waiting, and the reason is kept.\<close>

definition flush_refused ::
    "(UsageBatch \<Rightarrow> 'd \<Rightarrow> 'd \<times> FlushOutcome option) \<Rightarrow> UsageState \<times> 'd \<Rightarrow> bool" where
  "flush_refused store after \<longleftrightarrow>
     (\<exists>batch rest db answer. us_pending (fst after) = batch # rest \<and> store batch db = (snd after, answer)
        \<and> (answer = None \<and> last_flush_error (fst after) = Some ''aggregate_store_unavailable_or_timeout''
           \<or> answer = Some FlushFutureBucket
             \<and> last_flush_error (fst after) = Some ''aggregate_bucket_ahead_of_database_clock''))"

lemma flush_end_refused:
  "flush_end batch answer state = state'
    \<Longrightarrow> answer = None \<and> last_flush_error state' = Some ''aggregate_store_unavailable_or_timeout''
        \<and> us_pending state' = us_pending state
      \<or> answer = Some FlushFutureBucket \<and> last_flush_error state' = Some ''aggregate_bucket_ahead_of_database_clock''
        \<and> us_pending state' = us_pending state
      \<or> (\<exists>outcome. answer = Some outcome \<and> outcome \<noteq> FlushFutureBucket \<and> state' = flush_acknowledge batch outcome state)"
  by (cases answer) (auto simp: flush_end_def split: FlushOutcome.split_asm)

lemma flush_once_drains:
  assumes room: "0 < max_pending_batches config"
    and once: "flush_once digest config store (before, db) = (after, db')"
  shows "flush_finished after \<or> \<not> flush_stuck before after \<or> flush_refused store (after, db')"
proof -
  obtain mid batch where begun: "flush_begin digest config before = (mid, batch)" by fastforce
  let ?m = "max_pending_batches config"
  have sealed: "us_logical mid = (if length (us_pending before) < ?m then [] else us_logical before)"
    "us_logical before = [] \<and> us_attempts before = [] \<Longrightarrow> us_pending mid = us_pending before"
    "length (us_pending before) \<ge> ?m \<Longrightarrow> us_pending mid = us_pending before"
    "us_logical before = [] \<and> length (us_pending before) < ?m \<Longrightarrow> us_attempts mid = []"
    "batch = (case us_pending mid of [] \<Rightarrow> None | b # _ \<Rightarrow> Some b)"
    using begun by (auto simp: flush_begin_def Let_def seal_logical_def seal_attempts_def split: if_split_asm)
  show ?thesis
  proof (cases "us_pending mid")
    case Nil
    then have "after = mid" using once begun by (simp add: flush_once_def sealed(5))
    with Nil sealed room show ?thesis
      by (cases "us_logical before"; cases "us_attempts before"; cases "us_pending before")
        (auto simp: flush_stuck_def flush_finished_def)
  next
    case (Cons b rest)
    obtain answer where store: "store b db = (db', answer)" and ended: "flush_end b answer mid = after"
      using once begun by (auto simp: flush_once_def sealed(5) Cons split: prod.split_asm)
    from flush_end_refused [OF ended] consider "flush_refused store (after, db')"
      | outcome where "answer = Some outcome" "outcome \<noteq> FlushFutureBucket" "after = flush_acknowledge b outcome mid"
      using Cons store by (auto simp: flush_refused_def)
    then show ?thesis
    proof cases
      case 2
      then have after: "us_logical after = us_logical mid" "us_attempts after = us_attempts mid"
        "us_pending after = tl (us_pending mid)"
        by (auto simp: flush_acknowledge_def Let_def Cons)
      show ?thesis
      proof (cases "length (us_pending before) < ?m")
        case False
        then have "us_pending mid = us_pending before" "us_pending before \<noteq> []" using sealed(3) room by auto
        then have "length (us_pending after) < length (us_pending before)" using after(3) by simp
        then show ?thesis by (simp add: flush_stuck_def)
      next
        case True
        then show ?thesis
          using sealed after by (cases "us_logical before"; cases "us_attempts before"; cases "us_pending before")
            (auto simp: flush_stuck_def flush_finished_def)
      qed
    qed simp
  qed
qed

text \<open>
  C25: The flush at shutdown empties the aggregates, whatever was recorded, aggregated or waiting before and
  however the database answers: it returns, and either nothing is left in memory, or the last thing it did was to
  offer the batch that is now first to the database, which did not answer it or refused it as ahead of its clock; the
  batch is then still waiting, and the status says which of the two it was.
\<close>

theorem flush_all_drains:
  assumes "0 < max_pending_batches config"
  shows "flush_finished (fst (flush_all digest config store before))
    \<or> flush_refused store (flush_all digest config store before)"
  using assms
proof (induction digest config store before rule: flush_all.induct)
  case (1 digest config store before)
  let ?after = "flush_once digest config store before"
  have "flush_finished (fst ?after) \<or> \<not> flush_stuck (fst before) (fst ?after) \<or> flush_refused store ?after"
    using flush_once_drains [where store = store and config = config and digest = digest and before = "fst before"
        and db = "snd before" and after = "fst ?after" and db' = "snd ?after"] 1(2) by simp
  then show ?case
    using 1(1) [OF refl _ 1(2)] by (subst (1 2) flush_all.simps) (auto simp: Let_def)
qed

definition sample_limits :: UsageConfig where
  "sample_limits = \<lparr>max_aggregate_keys = 1, max_pending_batches = 1\<rparr>"

definition sample_db :: UsageDb where
  "sample_db = \<lparr>db_receipts = [], db_logical_hourly = [], db_logical_daily = [], db_attempt_hourly = [],
     db_attempt_daily = []\<rparr>"

definition sample_usage :: UsageWorld where
  "sample_usage = (usage_start sample_db 0)
     \<lparr>uw_state := aggregate_logical (\<lambda>_. []) sample_limits 5 (sample_context 1) ''success'' None None 7 UsageState_default,
       uw_requests := 1\<rparr>"

lemma sample_recorded: "usage_run (\<lambda>_. []) sample_limits 3 (usage_start sample_db 0) sample_usage"
proof -
  have "sample_usage = (usage_start sample_db 0)
      \<lparr>uw_state := aggregate_logical (\<lambda>_. []) sample_limits 5 (sample_context 1) ''success'' None None 7
        (uw_state (usage_start sample_db 0)), uw_requests := Suc (uw_requests (usage_start sample_db 0))\<rparr>"
    by (simp add: sample_usage_def usage_start_def)
  then show ?thesis by (metis run_start run_step step_logical)
qed

lemma usage_counted_once_witness:
  "recorded True sample_usage = 1
    \<and> uw_persisted sample_usage True + unconfirmed True (uw_state sample_usage) + lost_total True (uw_state sample_usage) \<ge> 1"
proof -
  have "in_bounds sample_usage" "recorded True sample_usage = 1"
    by (simp_all add: in_bounds_def recorded_def sample_usage_def usage_start_def i64_max_def)
  then show ?thesis
    using usage_counted_once [OF sample_recorded, of True] by (simp add: sample_db_def)
qed

lemma flush_all_drains_witness:
  "flush_finished (fst (flush_all (\<lambda>_. []) sample_limits (\<lambda>_ db. (db, Some FlushPersisted)) (uw_state sample_usage, ())))"
  using flush_all_drains [of sample_limits "\<lambda>_. []" "\<lambda>_ db. (db, Some FlushPersisted)" "(uw_state sample_usage, ())"]
  by (simp add: sample_limits_def flush_refused_def)

text \<open>
  One flush adds one batch.  A transaction that is answered either changes nothing, because the batch
  is outside the window, ahead of the database's clock or already there, or it raises the hourly and the daily tables
  by exactly what the batch counts, and from then on the same batch changes nothing any more.
\<close>

theorem flush_adds_once:
  assumes batch: "flush_batch now source_epoch b db = Some (db', outcome)" and small: "facts_small (ub_facts b)"
  shows "(db' = db \<or> outcome = FlushPersisted
      \<and> (\<forall>r. hourly_total r db' = hourly_total r db + facts_total r (ub_facts b)
           \<and> daily_total r db' = daily_total r db + facts_total r (ub_facts b)))
    \<and> (outcome = FlushPersisted \<longrightarrow> (\<forall>later db''. flush_batch later source_epoch b db' = Some db'' \<longrightarrow> fst db'' = db'))"
  using batch
proof (cases rule: flush_batch_cases)
  case (3 receipt)
  have "fst db'' = db'" if "flush_batch later source_epoch b db' = Some db''" for later db''
  proof -
    obtain final answer where db'': "db'' = (final, answer)" by fastforce
    from that [unfolded db''] show ?thesis by (cases rule: flush_batch_cases) (use 3 db'' in auto)
  qed
  with 3 show ?thesis by blast
next
  case 4
  note totals = upsert_facts_total [OF 4(4) small]
  have "fst db'' = db'" if "flush_batch later source_epoch b db' = Some db''" for later db''
  proof -
    obtain final answer where db'': "db'' = (final, answer)" by fastforce
    from that [unfolded db''] show ?thesis by (cases rule: flush_batch_cases) (use totals(3) db'' in auto)
  qed
  with 4 totals(1,2) show ?thesis by (simp add: hourly_total_def daily_total_def)
qed simp_all

lemma flush_adds_once_witness:
  "hourly_total True (fst (the (flush_batch 0 3
      \<lparr>ub_sequence = 0, ub_digest = [], ub_facts = FactsLogical [(logical_usage_key 0 (sample_context 1) ''success'',
        logical_usage_delta None None 7)]\<rparr> sample_db))) = 1"
proof -
  let ?facts = "FactsLogical [(logical_usage_key 0 (sample_context 1) ''success'', logical_usage_delta None None 7)]"
  let ?b = "\<lparr>ub_sequence = 0, ub_digest = [], ub_facts = ?facts\<rparr>"
  have some: "\<exists>db'. flush_batch 0 3 ?b sample_db = Some (db', FlushPersisted) \<and> db' \<noteq> sample_db"
    by (simp add: flush_batch_def Let_def facts_buckets_def logical_usage_key_def current_hour_def sample_db_def
        upsert_facts_def upsert_logical_def logical_usage_delta_def usage_dimensions_def priced_usage_def
        LogicalUsageDelta_default_def add_bigint_def sum_numeric_def sum_optional_numeric_def option_filter_def
        i64_max_def MAX_NUMERIC_38_def checked_add_def day_nanos_def hour_nanos_def)
  then obtain db' where db': "flush_batch 0 3 ?b sample_db = Some (db', FlushPersisted)" "db' \<noteq> sample_db" by blast
  have "facts_total True ?facts = 1" "facts_small ?facts"
    by (simp_all add: facts_total_def facts_small_def logical_usage_delta_def usage_dimensions_def priced_usage_def
        option_filter_def i64_max_def)
  with flush_adds_once [OF db'(1)] db' show ?thesis by (simp add: hourly_total_def sample_db_def)
qed

end
