(* ===== verification/Publisher.thy ===== *)
theory Publisher
  imports Runtime
begin

section \<open>Publishing runtime generations\<close>

text \<open>
  \<open>runtime/publisher.rs\<close> and the client registry of \<open>runtime/builder.rs\<close>: the process polls the revisions of
  the configuration, compiles a generation of it, and swaps it in when no security tightening has overtaken the
  compilation.  Times are naturals: milliseconds of the monotonic clock for the schedule, \<open>int\<close> for the wall clock.
  The database and the compilation of rows are parameters; one owner holds the refresh lock at a time.
\<close>

subsection \<open>The registry of clients\<close>

record CompiledGeneration =
  cg_runtime :: RuntimeGeneration
  unavailable_clients :: "(CredentialClientKey \<times> string) list"

text \<open>
  \<open>client_builds\<close> pairs each key with what its client is built from, \<open>fingerprint\<close> is
  \<open>client_build_fingerprint\<close> and \<open>build_client\<close> the construction with its secret and TLS material.
\<close>

definition shared_client ::
    "('b \<Rightarrow> byte list) \<Rightarrow> CompiledGeneration option \<Rightarrow> CredentialClientKey \<Rightarrow> 'b \<Rightarrow> CredentialClient option" where
  "shared_client fingerprint prior key build =
     option_filter (\<lambda>client. build_fingerprint client = fingerprint build)
       (Option.bind prior (\<lambda>generation. aget (credential_clients (cg_runtime generation)) key))"

fun build_clients ::
    "('b \<Rightarrow> byte list) \<Rightarrow> ('b \<Rightarrow> byte list \<Rightarrow> string + CredentialClient) \<Rightarrow> CompiledGeneration option
      \<Rightarrow> (CredentialClientKey \<times> 'b) list
      \<Rightarrow> (CredentialClientKey \<times> CredentialClient) list \<times> (CredentialClientKey \<times> string) list" where
  "build_clients fingerprint build_client prior [] = ([], [])"
| "build_clients fingerprint build_client prior ((key, build) # builds) =
     (let (clients, unavailable) = build_clients fingerprint build_client prior builds in
      case (case shared_client fingerprint prior key build of
              Some client \<Rightarrow> Inr client
            | None \<Rightarrow> build_client build (fingerprint build)) of
        Inr client \<Rightarrow> (aput key client clients, unavailable)
      | Inl reason \<Rightarrow> (clients, aput key reason unavailable))"

definition disable_unserved ::
    "(CredentialClientKey \<times> CredentialClient) list \<Rightarrow> (uuid \<times> DeploymentSnapshot) list
      \<Rightarrow> (uuid \<times> DeploymentSnapshot) list" where
  "disable_unserved clients =
     map (\<lambda>(i, d). (i, if operational d \<and> aget clients (client_key d) = None then d\<lparr>operational := False\<rparr> else d))"

definition build_credential_clients ::
    "('b \<Rightarrow> byte list) \<Rightarrow> ('b \<Rightarrow> byte list \<Rightarrow> string + CredentialClient) \<Rightarrow> CompiledGeneration option
      \<Rightarrow> (CredentialClientKey \<times> 'b) list \<Rightarrow> RuntimeGeneration \<Rightarrow> CompiledGeneration" where
  "build_credential_clients fingerprint build_client prior builds captured =
     (let (clients, unavailable) = build_clients fingerprint build_client prior builds;
          served = disable_unserved clients (deployments (catalog (snapshot captured))) in
      \<lparr>cg_runtime = captured\<lparr>credential_clients := clients,
         snapshot := (snapshot captured)\<lparr>catalog := (catalog (snapshot captured))\<lparr>deployments := served\<rparr>\<rparr>\<rparr>,
       unavailable_clients = unavailable\<rparr>)"

subsection \<open>What is published\<close>

record PublicationStatus =
  ps_database_revision :: int
  ps_database_security_revision :: int
  ps_applied_revision :: int
  ps_build_id :: uuid
  ps_built_at :: int
  ps_confirmed_at :: int
  ps_last_error :: "string option"

record PublishedRuntime =
  pub_generation :: CompiledGeneration
  pub_status :: PublicationStatus

record RefreshSchedule =
  observed_revision :: "int option"
  retry_at :: nat
  retry_delay :: nat

definition RefreshSchedule_default :: "nat \<Rightarrow> RefreshSchedule" where
  "RefreshSchedule_default now = \<lparr>observed_revision = None, retry_at = now, retry_delay = 1000\<rparr>"

definition schedule_observe :: "int \<Rightarrow> nat \<Rightarrow> RefreshSchedule \<Rightarrow> RefreshSchedule" where
  "schedule_observe latest now self =
     (if observed_revision self \<noteq> Some latest
      then self\<lparr>observed_revision := Some latest, retry_at := now, retry_delay := 1000\<rparr> else self)"

definition retry_later :: "nat \<Rightarrow> RefreshSchedule \<Rightarrow> RefreshSchedule" where
  "retry_later now self =
     self\<lparr>retry_at := now + retry_delay self, retry_delay := min (retry_delay self * 2) 30000\<rparr>"

text \<open>
  \<open>published\<close> holds every value that was stored, the current one first, so that what any reader may have seen
  can be stated; \<open>pub_now\<close> is the monotonic clock.
\<close>

record Publisher =
  published :: "PublishedRuntime list"
  pub_schedule :: RefreshSchedule
  pub_now :: nat

definition current :: "Publisher \<Rightarrow> PublishedRuntime" where
  "current p = hd (published p)"

definition store_published :: "PublishedRuntime \<Rightarrow> Publisher \<Rightarrow> Publisher" where
  "store_published v p = p\<lparr>published := v # published p\<rparr>"

definition generation_revision :: "CompiledGeneration \<Rightarrow> int" where
  "generation_revision g = revision (snapshot (cg_runtime g))"

definition generation_security :: "CompiledGeneration \<Rightarrow> int" where
  "generation_security g = security_revision (snapshot (cg_runtime g))"

definition security_revision_is_current :: "int \<Rightarrow> PublicationStatus \<Rightarrow> int \<Rightarrow> nat \<Rightarrow> bool" where
  "security_revision_is_current applied status now max_security_age \<longleftrightarrow>
     ps_database_security_revision status \<le> applied
     \<and> 0 \<le> now - ps_confirmed_at status \<and> now - ps_confirmed_at status \<le> int max_security_age"

definition capture_for_authority :: "int \<Rightarrow> nat \<Rightarrow> PublishedRuntime \<Rightarrow> CompiledGeneration option" where
  "capture_for_authority now max_security_age v =
     (if security_revision_is_current (generation_security (pub_generation v)) (pub_status v) now max_security_age
      then Some (pub_generation v) else None)"

text \<open>The second look of \<open>capture_after_refresh\<close>, with what is published when the refresh lock is free in time.\<close>

definition capture_after_refresh ::
    "int \<Rightarrow> nat \<Rightarrow> PublishedRuntime \<Rightarrow> (int \<times> PublishedRuntime) option \<Rightarrow> CompiledGeneration option" where
  "capture_after_refresh now max_security_age v refreshed =
     (case capture_for_authority now max_security_age v of
        Some generation \<Rightarrow> Some generation
      | None \<Rightarrow>
          Option.bind refreshed (\<lambda>(later, v'). capture_for_authority later max_security_age v'))"

subsection \<open>One reconciliation\<close>

text \<open>
  What the database answers: \<open>px_revisions n\<close> is the answer to the \<open>n\<close>-th query of the revisions with
  the wall clock read after it, \<open>px_compile n prior\<close> what the \<open>n\<close>-th compilation gives, \<open>px_elapsed\<close> the time that
  passes before each reading of the monotonic clock, and \<open>px_error\<close> the text of an error of the store.
\<close>

record PublisherInput =
  px_revisions :: "nat \<Rightarrow> (int \<times> int) option \<times> int"
  px_compile :: "nat \<Rightarrow> CompiledGeneration option \<Rightarrow> CompiledGeneration option"
  px_elapsed :: "nat \<Rightarrow> nat"
  px_error :: string

definition observe_revisions :: "PublisherInput \<Rightarrow> nat \<Rightarrow> Publisher \<Rightarrow> Publisher \<times> (string + int \<times> int)" where
  "observe_revisions px n p =
     (case px_revisions px n of
        (None, _) \<Rightarrow> (p, Inl (px_error px))
      | (Some (latest, security), now) \<Rightarrow>
          let status = pub_status (current p);
              latest = max latest (ps_database_revision status);
              security = max security (ps_database_security_revision status) in
          (store_published ((current p)\<lparr>pub_status := status\<lparr>ps_database_revision := latest,
             ps_database_security_revision := security, ps_confirmed_at := now\<rparr>\<rparr>) p, Inr (latest, security)))"

text \<open>
  \<open>compile_fenced_generation\<close>: at most \<open>attempts\<close> compilations, each confirmed by an observation that
  follows it.
\<close>

fun compile_fenced ::
    "PublisherInput \<Rightarrow> (nat \<Rightarrow> 's \<Rightarrow> 's \<times> (string + int \<times> int)) \<Rightarrow> CompiledGeneration option \<Rightarrow> nat \<Rightarrow> nat \<Rightarrow> 's
      \<Rightarrow> 's \<times> (string + CompiledGeneration \<times> (int \<times> int))" where
  "compile_fenced px observe prior n 0 s = (s, Inl ''runtime candidate was overtaken by a security tightening'')"
| "compile_fenced px observe prior n (Suc attempts) s =
     (case px_compile px n prior of
        None \<Rightarrow> (s, Inl (px_error px))
      | Some candidate \<Rightarrow>
          (case observe n s of
             (s, Inl e) \<Rightarrow> (s, Inl e)
           | (s, Inr revisions) \<Rightarrow>
               if snd revisions \<le> generation_security candidate then (s, Inr (candidate, revisions))
               else compile_fenced px observe (Some candidate) (Suc n) attempts s))"

definition pass :: "nat \<Rightarrow> Publisher \<Rightarrow> Publisher" where
  "pass t p = p\<lparr>pub_now := pub_now p + t\<rparr>"

definition set_error :: "string option \<Rightarrow> Publisher \<Rightarrow> Publisher" where
  "set_error e p = store_published ((current p)\<lparr>pub_status := (pub_status (current p))\<lparr>ps_last_error := e\<rparr>\<rparr>) p"

definition published_status :: "CompiledGeneration \<Rightarrow> PublicationStatus \<Rightarrow> PublicationStatus" where
  "published_status candidate observation =
     \<lparr>ps_database_revision = ps_database_revision observation,
      ps_database_security_revision = ps_database_security_revision observation,
      ps_applied_revision = generation_revision candidate, ps_build_id = build_id (cg_runtime candidate),
      ps_built_at = built_at (snapshot (cg_runtime candidate)), ps_confirmed_at = ps_confirmed_at observation,
      ps_last_error = None\<rparr>"

definition publish_candidate :: "PublisherInput \<Rightarrow> CompiledGeneration \<Rightarrow> CompiledGeneration \<Rightarrow> Publisher
    \<Rightarrow> Publisher \<times> (string + int)" where
  "publish_candidate px prior candidate p =
     (if generation_revision candidate < generation_revision prior
      then (p, Inl ''runtime revision cannot regress'')
      else
        let p = pass (px_elapsed px 2) p;
            schedule = (if unavailable_clients candidate = []
              then (pub_schedule p)\<lparr>retry_delay := 1000, retry_at := pub_now p\<rparr>
              else retry_later (pub_now p) (pub_schedule p)) in
        (store_published \<lparr>pub_generation = candidate,
           pub_status = published_status candidate (pub_status (current p))\<rparr> (p\<lparr>pub_schedule := schedule\<rparr>),
         Inr (generation_revision candidate)))"

definition reconcile_locked :: "PublisherInput \<Rightarrow> bool \<Rightarrow> Publisher \<Rightarrow> Publisher \<times> (string + int)" where
  "reconcile_locked px force p =
     (case observe_revisions px 0 p of
        (p, Inl e) \<Rightarrow> (p, Inl e)
      | (p, Inr (latest, _)) \<Rightarrow>
          let p = pass (px_elapsed px 0) p;
              p = p\<lparr>pub_schedule := schedule_observe latest (pub_now p) (pub_schedule p)\<rparr>;
              prior = pub_generation (current p);
              needs_rebuild = (latest > generation_revision prior \<or> unavailable_clients prior \<noteq> []) in
          if \<not> force \<and> \<not> needs_rebuild
          then (if ps_last_error (pub_status (current p)) \<noteq> None then set_error None p else p,
                Inr (generation_revision prior))
          else
            let p = pass (px_elapsed px 1) p in
            if \<not> force \<and> pub_now p < retry_at (pub_schedule p) then (p, Inr (generation_revision prior))
            else
              (case compile_fenced px (observe_revisions px) (Some prior) 1 3 p of
                 (p, Inl e) \<Rightarrow> (p, Inl e)
               | (p, Inr (candidate, _)) \<Rightarrow> publish_candidate px prior candidate p))"

definition reconcile :: "PublisherInput \<Rightarrow> bool \<Rightarrow> Publisher \<Rightarrow> Publisher \<times> (string + int)" where
  "reconcile px force p =
     (case reconcile_locked px force p of
        (p, Inr latest) \<Rightarrow> (p, Inr latest)
      | (p, Inl e) \<Rightarrow>
          let p = pass (px_elapsed px 3) (set_error (Some e) p) in
          (p\<lparr>pub_schedule := retry_later (pub_now p) (pub_schedule p)\<rparr>, Inl e))"

text \<open>The start observes without a publisher; the status is that of the last observation.\<close>

definition start_observe :: "PublisherInput \<Rightarrow> nat \<Rightarrow> unit \<Rightarrow> unit \<times> (string + int \<times> int)" where
  "start_observe px n s = (s, case fst (px_revisions px n) of None \<Rightarrow> Inl (px_error px) | Some revisions \<Rightarrow> Inr revisions)"

definition start_publisher :: "PublisherInput \<Rightarrow> int \<Rightarrow> nat \<Rightarrow> string + Publisher" where
  "start_publisher px confirmed now =
     (case compile_fenced px (start_observe px) None 0 3 () of
        (_, Inl e) \<Rightarrow> Inl e
      | (_, Inr (initial, (latest, security))) \<Rightarrow>
          Inr \<lparr>published = [\<lparr>pub_generation = initial,
                 pub_status = \<lparr>ps_database_revision = latest, ps_database_security_revision = security,
                   ps_applied_revision = generation_revision initial, ps_build_id = build_id (cg_runtime initial),
                   ps_built_at = built_at (snapshot (cg_runtime initial)), ps_confirmed_at = confirmed,
                   ps_last_error = None\<rparr>\<rparr>],
               pub_schedule = RefreshSchedule_default now, pub_now = now\<rparr>)"

end
