(* ===== verification/PublisherLaws.thy ===== *)
theory PublisherLaws
  imports Publisher Routing
begin

section \<open>What a published generation guarantees\<close>

text \<open>
  For every sequence of reconciliations, whatever the database answers and whatever fails: revisions never go back,
  a failure leaves the served generation alone, and authority is only taken from a generation that no recent
  tightening has overtaken.
\<close>

subsection \<open>Only served deployments are operational\<close>

lemma disable_unserved_map:
  "aget (disable_unserved clients ds) i
    = map_option (\<lambda>d. if operational d \<and> aget clients (client_key d) = None then d\<lparr>operational := False\<rparr> else d) (aget ds i)"
  by (induction ds) (auto simp: disable_unserved_def)

lemma client_key_operational [simp]: "client_key (d\<lparr>operational := b\<rparr>) = client_key d"
  by (simp add: client_key_def)

lemma disable_unserved_operational:
  assumes "aget (disable_unserved clients ds) i = Some d" "operational d"
  shows "aget clients (client_key d) \<noteq> None"
proof -
  obtain d0 where d: "d = (if operational d0 \<and> aget clients (client_key d0) = None then d0\<lparr>operational := False\<rparr> else d0)"
    using assms(1) unfolding disable_unserved_map by blast
  show ?thesis
  proof (cases "operational d0 \<and> aget clients (client_key d0) = None")
    case True
    then have "d = d0\<lparr>operational := False\<rparr>" unfolding d by (rule if_P)
    then have "operational d = operational (d0\<lparr>operational := False\<rparr>)" by (rule arg_cong)
    then show ?thesis using assms(2) by simp
  next
    case False
    have "d = d0" unfolding d using False by (rule if_not_P)
    show ?thesis using False assms(2) unfolding \<open>d = d0\<close> by simp
  qed
qed

lemma build_clients_fingerprint:
  assumes "build_clients fingerprint build_client prior builds = (clients, unavailable)"
    and "distinct (map fst builds)" "aget clients key = Some client"
    and fresh: "\<And>build client. build_client build (fingerprint build) = Inr client \<Longrightarrow> build_fingerprint client = fingerprint build"
  shows "\<exists>build. aget builds key = Some build \<and> build_fingerprint client = fingerprint build"
  using assms(1-3)
proof (induction builds arbitrary: clients unavailable)
  case (Cons entry builds)
  obtain k build where entry: "entry = (k, build)" by fastforce
  obtain cs us where rest: "build_clients fingerprint build_client prior builds = (cs, us)" by fastforce
  define chosen where "chosen = (case shared_client fingerprint prior k build of
      Some client \<Rightarrow> Inr client | None \<Rightarrow> build_client build (fingerprint build))"
  have step: "(clients, unavailable) = (case chosen of Inr client \<Rightarrow> (aput k client cs, us)
      | Inl reason \<Rightarrow> (cs, aput k reason us))"
    using Cons.prems(1) by (simp add: entry rest chosen_def)
  have chosen: "build_fingerprint c = fingerprint build" if "chosen = Inr c" for c
    using that fresh [of build c] by (auto simp: chosen_def shared_client_def split: option.split_asm)
  have old: "\<exists>build. aget builds key = Some build \<and> build_fingerprint client = fingerprint build"
    if "aget cs key = Some client"
    using Cons.IH [OF rest] Cons.prems(2) that by (simp add: entry)
  show ?case
  proof (cases "key = k")
    case True
    have "aget cs key \<noteq> Some client"
      using old Cons.prems(2) True map_of_SomeD [of builds k] by (force simp: entry)
    then show ?thesis
      using step Cons.prems(3) chosen True by (auto simp: entry split: sum.split_asm)
  next
    case False
    then have "aget cs key = Some client" using step Cons.prems(3) by (auto split: sum.split_asm)
    then show ?thesis using old False by (simp add: entry)
  qed
qed simp

text \<open>
  C26: A deployment that a compiled generation calls operational can be reached: its client was built or
  taken over, and a client is taken over from the prior generation only when it was built from the same fingerprint.
\<close>

theorem operational_has_client:
  assumes built: "build_credential_clients fingerprint build_client prior builds captured = g"
    and d: "aget (deployments (catalog (snapshot (cg_runtime g)))) i = Some d" "operational d"
    and keys: "distinct (map fst builds)"
    and fresh: "\<And>build client. build_client build (fingerprint build) = Inr client \<Longrightarrow> build_fingerprint client = fingerprint build"
  shows "\<exists>client build. aget (credential_clients (cg_runtime g)) (client_key d) = Some client
    \<and> aget builds (client_key d) = Some build \<and> build_fingerprint client = fingerprint build"
proof -
  obtain clients unavailable where clients: "build_clients fingerprint build_client prior builds = (clients, unavailable)"
    by fastforce
  have g: "credential_clients (cg_runtime g) = clients"
    "deployments (catalog (snapshot (cg_runtime g))) = disable_unserved clients (deployments (catalog (snapshot captured)))"
    unfolding built [symmetric] build_credential_clients_def clients by simp_all
  have "aget clients (client_key d) \<noteq> None"
    by (rule disable_unserved_operational [OF d(1) [unfolded g(2)] d(2)])
  then obtain client where client: "aget clients (client_key d) = Some client" by blast
  have "\<exists>build. aget builds (client_key d) = Some build \<and> build_fingerprint client = fingerprint build"
    by (rule build_clients_fingerprint [OF clients keys client]) (rule fresh)
  then show ?thesis unfolding g using client by blast
qed

subsection \<open>Stored values\<close>

text \<open>What one value may be followed by.\<close>

definition follows :: "PublishedRuntime \<Rightarrow> PublishedRuntime \<Rightarrow> bool" where
  "follows newer older \<longleftrightarrow>
     generation_revision (pub_generation older) \<le> generation_revision (pub_generation newer)
     \<and> ps_database_revision (pub_status older) \<le> ps_database_revision (pub_status newer)
     \<and> ps_database_security_revision (pub_status older) \<le> ps_database_security_revision (pub_status newer)"

text \<open>The database's latest tightening when the revisions were read, at most \<open>latency\<close> before the confirmation.\<close>

definition evidence :: "(int \<Rightarrow> int) \<Rightarrow> nat \<Rightarrow> PublishedRuntime \<Rightarrow> bool" where
  "evidence db latency v \<longleftrightarrow>
     (\<exists>t. ps_confirmed_at (pub_status v) - int latency \<le> t \<and> t \<le> ps_confirmed_at (pub_status v)
        \<and> db t \<le> ps_database_security_revision (pub_status v))"

definition honest_input :: "(int \<Rightarrow> int) \<Rightarrow> nat \<Rightarrow> PublisherInput \<Rightarrow> bool" where
  "honest_input db latency px \<longleftrightarrow>
     (\<forall>n latest security now. px_revisions px n = (Some (latest, security), now)
        \<longrightarrow> (\<exists>t. now - int latency \<le> t \<and> t \<le> now \<and> security = db t))"

definition publisher_ok :: "(int \<Rightarrow> int) \<Rightarrow> nat \<Rightarrow> Publisher \<Rightarrow> bool" where
  "publisher_ok db latency p \<longleftrightarrow>
     published p \<noteq> [] \<and> sorted_wrt follows (published p) \<and> (\<forall>v \<in> set (published p). evidence db latency v)
     \<and> 1000 \<le> retry_delay (pub_schedule p) \<and> retry_delay (pub_schedule p) \<le> 30000"

lemma follows_refl [simp]: "follows v v"
  by (simp add: follows_def)

lemma follows_trans: "follows c b \<Longrightarrow> follows b a \<Longrightarrow> follows c a"
  by (auto simp: follows_def)

lemma store_ok:
  assumes ok: "publisher_ok db latency p" and v: "follows v (current p)" "evidence db latency v"
  shows "publisher_ok db latency (store_published v p)"
proof -
  from ok obtain u us where us: "published p = u # us" by (cases "published p") (auto simp: publisher_ok_def)
  then have "follows v u" using v(1) by (simp add: current_def)
  then have "\<forall>w \<in> set (published p). follows v w"
    using ok us follows_trans [of v u] by (auto simp: publisher_ok_def)
  then show ?thesis using ok v(2) by (simp add: publisher_ok_def store_published_def)
qed

lemma current_store [simp]:
  "current (store_published v p) = v" "pub_schedule (store_published v p) = pub_schedule p"
  "pub_now (store_published v p) = pub_now p"
  by (simp_all add: current_def store_published_def)

lemma current_pass [simp]:
  "current (pass t p) = current p" "pub_schedule (pass t p) = pub_schedule p"
  "publisher_ok db latency (pass t p) = publisher_ok db latency p"
  by (simp_all add: current_def pass_def publisher_ok_def)

lemma current_schedule [simp]: "current (p\<lparr>pub_schedule := s\<rparr>) = current p"
  by (simp add: current_def)

lemma evidence_current: "publisher_ok db latency p \<Longrightarrow> evidence db latency (current p)"
  by (simp add: publisher_ok_def current_def)

lemma schedule_ok:
  assumes "publisher_ok db latency p"
  shows "publisher_ok db latency (p\<lparr>pub_schedule := schedule_observe latest now (pub_schedule p)\<rparr>)"
    and "publisher_ok db latency (p\<lparr>pub_schedule := retry_later now (pub_schedule p)\<rparr>)"
    and "publisher_ok db latency (p\<lparr>pub_schedule := (pub_schedule p)\<lparr>retry_delay := 1000, retry_at := now\<rparr>\<rparr>)"
  using assms by (auto simp: publisher_ok_def schedule_observe_def retry_later_def)

lemma set_error_ok:
  assumes "publisher_ok db latency p"
  shows "publisher_ok db latency (set_error e p)"
    and "pub_generation (current (set_error e p)) = pub_generation (current p)"
    and "ps_last_error (pub_status (current (set_error e p))) = e"
proof -
  show "publisher_ok db latency (set_error e p)"
    unfolding set_error_def
    by (rule store_ok [OF assms]) (use evidence_current [OF assms] in \<open>simp_all add: follows_def evidence_def\<close>)
qed (simp_all add: set_error_def)

lemma observe_ok:
  assumes ok: "publisher_ok db latency p" and honest: "honest_input db latency px"
    and observed: "observe_revisions px n p = (p', answer)"
  shows "publisher_ok db latency p'" and "pub_generation (current p') = pub_generation (current p)"
    and "answer = Inr (latest, security) \<Longrightarrow> security = ps_database_security_revision (pub_status (current p'))"
proof -
  have "publisher_ok db latency p' \<and> pub_generation (current p') = pub_generation (current p)
    \<and> (\<forall>latest security. answer = Inr (latest, security)
        \<longrightarrow> security = ps_database_security_revision (pub_status (current p')))"
  proof (cases "px_revisions px n")
    case (Pair a now)
    show ?thesis
    proof (cases a)
      case None
      then show ?thesis using observed ok Pair by (auto simp: observe_revisions_def)
    next
      case (Some revisions)
      obtain latest security where revisions: "revisions = (latest, security)" by fastforce
      let ?status = "(pub_status (current p))\<lparr>ps_database_revision := max latest (ps_database_revision (pub_status (current p))),
        ps_database_security_revision := max security (ps_database_security_revision (pub_status (current p))),
        ps_confirmed_at := now\<rparr>"
      have p': "p' = store_published ((current p)\<lparr>pub_status := ?status\<rparr>) p"
        and answer: "answer = Inr (ps_database_revision ?status, ps_database_security_revision ?status)"
        using observed Pair Some revisions by (auto simp: observe_revisions_def Let_def)
      have "px_revisions px n = (Some (latest, security), now)" using Pair Some revisions by simp
      then obtain t where "now - int latency \<le> t" "t \<le> now" "security = db t"
        using honest unfolding honest_input_def by blast
      then have "evidence db latency ((current p)\<lparr>pub_status := ?status\<rparr>)" by (auto simp: evidence_def)
      then have "publisher_ok db latency p'" unfolding p' by (intro store_ok [OF ok]) (simp_all add: follows_def)
      then show ?thesis using answer by (simp add: p')
    qed
  qed
  then show "publisher_ok db latency p'" "pub_generation (current p') = pub_generation (current p)"
    "answer = Inr (latest, security) \<Longrightarrow> security = ps_database_security_revision (pub_status (current p'))"
    by blast+
qed

lemma compile_fenced_ok:
  assumes "publisher_ok db latency p" "honest_input db latency px"
    and "compile_fenced px (observe_revisions px) prior n attempts p = (p', answer)"
  shows "publisher_ok db latency p' \<and> pub_generation (current p') = pub_generation (current p)
    \<and> (\<forall>candidate revisions. answer = Inr (candidate, revisions)
        \<longrightarrow> ps_database_security_revision (pub_status (current p')) \<le> generation_security candidate)"
  using assms
proof (induction attempts arbitrary: n prior p)
  case (Suc attempts)
  show ?case
  proof (cases "px_compile px n prior")
    case None
    then show ?thesis using Suc.prems by auto
  next
    case (Some candidate)
    obtain p1 observed where obs: "observe_revisions px n p = (p1, observed)" by fastforce
    note kept = observe_ok [OF Suc.prems(1,2) obs]
    show ?thesis
    proof (cases observed)
      case (Inl e)
      then show ?thesis using Suc.prems(3) Some obs kept(1,2) by auto
    next
      case (Inr revisions)
      obtain latest security where r: "revisions = (latest, security)" by fastforce
      show ?thesis
      proof (cases "security \<le> generation_security candidate")
        case True
        then show ?thesis using Suc.prems(3) Some obs kept Inr r by auto
      next
        case False
        then show ?thesis
          using Suc.IH [OF kept(1) Suc.prems(2), of "Some candidate" "Suc n"] Suc.prems(3) Some obs kept(2) Inr r by auto
      qed
    qed
  qed
qed auto


lemma publish_candidate_ok:
  assumes ok: "publisher_ok db latency p"
    and published: "publish_candidate px prior candidate p = (p', answer)" "prior = pub_generation (current p)"
  shows "publisher_ok db latency p'" and "answer = Inl e \<Longrightarrow> p' = p"
proof -
  show "answer = Inl e \<Longrightarrow> p' = p"
    using published(1) by (auto simp: publish_candidate_def Let_def split: if_splits)
  show "publisher_ok db latency p'"
  proof (cases "generation_revision candidate < generation_revision prior")
    case True
    then show ?thesis using published(1) ok by (simp add: publish_candidate_def)
  next
    case False
    define p1 where "p1 = pass (px_elapsed px 2) p"
    define p2 where "p2 = p1\<lparr>pub_schedule := (if unavailable_clients candidate = []
        then (pub_schedule p1)\<lparr>retry_delay := 1000, retry_at := pub_now p1\<rparr>
        else retry_later (pub_now p1) (pub_schedule p1))\<rparr>"
    define v where "v = \<lparr>pub_generation = candidate, pub_status = published_status candidate (pub_status (current p1))\<rparr>"
    have same: "current p2 = current p" by (simp add: p1_def p2_def)
    have "publisher_ok db latency p1" using ok by (simp add: p1_def)
    then have "publisher_ok db latency p2"
      unfolding p2_def by (cases "unavailable_clients candidate = []") (simp_all add: schedule_ok)
    moreover have "evidence db latency v" "follows v (current p2)"
      using evidence_current [OF ok] False published(2)
      unfolding same by (simp_all add: v_def p1_def published_status_def evidence_def follows_def)
    ultimately have "publisher_ok db latency (store_published v p2)" by (intro store_ok)
    moreover have "p' = store_published v p2"
      using published(1) False
      by (cases "unavailable_clients candidate = []") (simp_all add: publish_candidate_def Let_def v_def p2_def p1_def)
    ultimately show ?thesis by simp
  qed
qed

lemma reconcile_locked_ok:
  assumes ok: "publisher_ok db latency p" and honest: "honest_input db latency px"
    and locked: "reconcile_locked px force p = (p', answer)"
  shows "publisher_ok db latency p'
    \<and> (\<forall>e. answer = Inl e \<longrightarrow> pub_generation (current p') = pub_generation (current p))"
proof -
  obtain p1 observed where obs: "observe_revisions px 0 p = (p1, observed)" by fastforce
  note kept = observe_ok [OF ok honest obs]
  show ?thesis
  proof (cases observed)
    case (Inl e)
    then show ?thesis using locked obs kept(1,2) by (auto simp: reconcile_locked_def)
  next
    case (Inr revisions)
    obtain latest security where r: "revisions = (latest, security)" by fastforce
    define p2 where "p2 = (pass (px_elapsed px 0) p1)\<lparr>pub_schedule :=
        schedule_observe latest (pub_now (pass (px_elapsed px 0) p1)) (pub_schedule (pass (px_elapsed px 0) p1))\<rparr>"
    define p3 where "p3 = pass (px_elapsed px 1) p2"
    define prior where "prior = pub_generation (current p2)"
    have ok2: "publisher_ok db latency p2" and g2: "prior = pub_generation (current p)"
      using kept(1,2) schedule_ok(1) [of db latency "pass (px_elapsed px 0) p1"] by (simp_all add: p2_def prior_def)
    have ok3: "publisher_ok db latency p3" and g3: "pub_generation (current p3) = prior"
      using ok2 by (simp_all add: p3_def prior_def)
    obtain p4 compiled where comp: "compile_fenced px (observe_revisions px) (Some prior) 1 3 p3 = (p4, compiled)" by fastforce
    note kept4 = compile_fenced_ok [OF ok3 honest comp]
    note step = locked [unfolded reconcile_locked_def, simplified obs Inr r prod.case sum.case Let_def,
        folded p2_def, folded p3_def prior_def, unfolded comp prod.case]
    show ?thesis
    proof (cases "\<not> force \<and> \<not> (latest > generation_revision prior \<or> unavailable_clients prior \<noteq> [])
        \<or> \<not> force \<and> pub_now p3 < retry_at (pub_schedule p3)")
      case True
      then show ?thesis using step ok2 ok3 set_error_ok(1) [OF ok2]
        by (auto split: if_splits)
    next
      case False
      show ?thesis
      proof (cases compiled)
        case (Inl e)
        then show ?thesis using step False kept4 g3 g2 by (auto split: if_splits)
      next
        case (Inr result)
        obtain candidate rs where cr: "result = (candidate, rs)" by (rule prod.exhaust)
        have final: "publish_candidate px prior candidate p4 = (p', answer)"
          using step False Inr cr by (auto split: if_splits)
        have "prior = pub_generation (current p4)" using kept4 g3 by simp
        from publish_candidate_ok [OF _ final this] show ?thesis using kept4 g3 g2 by auto
      qed
    qed
  qed
qed

lemma reconcile_ok:
  assumes "publisher_ok db latency p" "honest_input db latency px" and result: "reconcile px force p = (p', answer)"
  shows "publisher_ok db latency p'
    \<and> (\<forall>e. answer = Inl e \<longrightarrow> pub_generation (current p') = pub_generation (current p)
         \<and> ps_last_error (pub_status (current p')) = Some e)"
proof -
  obtain p1 locked where l: "reconcile_locked px force p = (p1, locked)" by fastforce
  note kept = reconcile_locked_ok [OF assms(1,2) l]
  show ?thesis
  proof (cases locked)
    case (Inl e)
    define p2 where "p2 = pass (px_elapsed px 3) (set_error (Some e) p1)"
    have "publisher_ok db latency p2" "pub_generation (current p2) = pub_generation (current p)"
      "ps_last_error (pub_status (current p2)) = Some e"
      using set_error_ok [of db latency p1 "Some e"] kept Inl by (simp_all add: p2_def)
    moreover have "p' = p2\<lparr>pub_schedule := retry_later (pub_now p2) (pub_schedule p2)\<rparr>" "answer = Inl e"
      using result l Inl by (simp_all add: reconcile_def Let_def p2_def)
    ultimately show ?thesis using schedule_ok(2) by simp
  next
    case (Inr latest)
    then show ?thesis using result l kept by (auto simp: reconcile_def)
  qed
qed

subsection \<open>Every run of the publisher\<close>

text \<open>
  A run starts and reconciles, forced or not, any number of times; every reading of the revisions is at most
  \<open>latency\<close> older than the wall clock read after it.
\<close>

inductive publisher_run :: "(int \<Rightarrow> int) \<Rightarrow> nat \<Rightarrow> Publisher \<Rightarrow> bool" for db latency where
  run_start: "start_publisher px confirmed now = Inr p
    \<Longrightarrow> honest_input db latency (px\<lparr>px_revisions := \<lambda>n. (fst (px_revisions px n), confirmed)\<rparr>)
    \<Longrightarrow> publisher_run db latency p"
| run_reconcile: "publisher_run db latency p \<Longrightarrow> honest_input db latency px
    \<Longrightarrow> publisher_run db latency (fst (reconcile px force p))"

lemma start_fenced:
  "compile_fenced px (start_observe px) prior n attempts () = (s, Inr (candidate, revisions))
    \<Longrightarrow> \<exists>k. fst (px_revisions px k) = Some revisions"
  by (induction attempts arbitrary: n prior)
    (force simp: start_observe_def split: option.split_asm sum.split_asm if_split_asm)+

lemma start_ok:
  assumes start: "start_publisher px confirmed now = Inr p"
    and honest: "honest_input db latency (px\<lparr>px_revisions := \<lambda>n. (fst (px_revisions px n), confirmed)\<rparr>)"
  shows "publisher_ok db latency p"
proof -
  obtain s result where comp: "compile_fenced px (start_observe px) None 0 3 () = (s, result)" by (rule prod.exhaust)
  show ?thesis
  proof (cases result)
    case (Inl e)
    then show ?thesis using start comp by (simp add: start_publisher_def)
  next
    case (Inr found)
    obtain initial latest security where found: "found = (initial, latest, security)" by (rule prod_cases3)
    obtain k where "fst (px_revisions px k) = Some (latest, security)"
      using start_fenced comp Inr found by blast
    then obtain t where t: "confirmed - int latency \<le> t" "t \<le> confirmed" "security = db t"
      using honest unfolding honest_input_def by force
    then show ?thesis using start comp Inr found
      by (auto simp: start_publisher_def publisher_ok_def evidence_def RefreshSchedule_default_def)
  qed
qed

lemma publisher_run_ok: "publisher_run db latency p \<Longrightarrow> publisher_ok db latency p"
proof (induction rule: publisher_run.induct)
  case (run_reconcile p px force)
  then show ?case using reconcile_ok [of db latency p px force] by (metis prod.collapse)
qed (rule start_ok)

definition sample_generation :: "int \<Rightarrow> int \<Rightarrow> CompiledGeneration" where
  "sample_generation r s =
     \<lparr>cg_runtime = sample_runtime\<lparr>snapshot := (snapshot sample_runtime)\<lparr>revision := r, security_revision := s\<rparr>\<rparr>,
      unavailable_clients = []\<rparr>"

definition sample_publisher_input :: "int \<Rightarrow> int \<Rightarrow> int \<Rightarrow> int \<Rightarrow> PublisherInput" where
  "sample_publisher_input r s now compiled =
     \<lparr>px_revisions = (\<lambda>_. (Some (r, s), now)), px_compile = (\<lambda>_ _. Some (sample_generation compiled s)),
      px_elapsed = (\<lambda>_. 5), px_error = ''store''\<rparr>"

definition sample_started :: Publisher where
  "sample_started =
     \<lparr>published = [\<lparr>pub_generation = sample_generation 1 1,
        pub_status = \<lparr>ps_database_revision = 1, ps_database_security_revision = 1, ps_applied_revision = 1,
          ps_build_id = 1, ps_built_at = 0, ps_confirmed_at = 100, ps_last_error = None\<rparr>\<rparr>],
      pub_schedule = RefreshSchedule_default 0, pub_now = 0\<rparr>"

lemma sample_revisions [simp]:
  "generation_revision (sample_generation r s) = r" "generation_security (sample_generation r s) = s"
  "unavailable_clients (sample_generation r s) = []" "build_id (cg_runtime (sample_generation r s)) = 1"
  "built_at (snapshot (cg_runtime (sample_generation r s))) = 0"
  by (simp_all add: sample_generation_def generation_revision_def generation_security_def sample_runtime_def)

lemma sample_start: "start_publisher (sample_publisher_input 1 1 100 1) 100 0 = Inr sample_started"
  by (simp add: sample_started_def start_publisher_def sample_publisher_input_def start_observe_def numeral_3_eq_3)

lemma honest_inputI:
  assumes "\<And>n latest security now. px_revisions px n = (Some (latest, security), now) \<Longrightarrow> security = db now"
  shows "honest_input db latency px"
proof -
  have "\<exists>t. now - int latency \<le> t \<and> t \<le> now \<and> security = db t"
    if "px_revisions px n = (Some (latest, security), now)" for n latest security now
    by (rule exI [of _ now]) (use assms [OF that] in simp)
  then show ?thesis unfolding honest_input_def by blast
qed

lemma sample_input_honest:
  "honest_input (\<lambda>t. if t < 150 then 1 else 4) 10
     ((sample_publisher_input 1 1 100 1)\<lparr>px_revisions := \<lambda>n. (fst (px_revisions (sample_publisher_input 1 1 100 1) n), 100)\<rparr>)"
  "honest_input (\<lambda>t. if t < 150 then 1 else 4) 10 (sample_publisher_input 4 4 200 compiled)"
  by (rule honest_inputI, simp add: sample_publisher_input_def)+

definition sample_republished :: Publisher where
  "sample_republished = fst (reconcile (sample_publisher_input 4 4 200 4) False sample_started)"

lemma sample_run:
  "publisher_run (\<lambda>t. if t < 150 then 1 else 4) 10 sample_started"
  "publisher_run (\<lambda>t. if t < 150 then 1 else 4) 10 sample_republished"
  unfolding sample_republished_def
  by (rule run_start [OF sample_start sample_input_honest(1)])
    (rule run_reconcile [OF run_start [OF sample_start sample_input_honest(1)] sample_input_honest(2)])

text \<open>
  C12: In every run of the publisher the values it stores never go back: the generation served, the revision
  and the tightening known of the database only grow, however answers, compilations and failures interleave; and
  the delay between attempts stays between one and thirty seconds.
\<close>

theorem published_never_regresses:
  assumes "publisher_run db latency p"
  shows "published p \<noteq> [] \<and> sorted_wrt follows (published p)
    \<and> 1000 \<le> retry_delay (pub_schedule p) \<and> retry_delay (pub_schedule p) \<le> 30000"
  using publisher_run_ok [OF assms] by (simp add: publisher_ok_def)

theorem published_never_regresses_witness:
  "publisher_run (\<lambda>t. if t < 150 then 1 else 4) 10 sample_republished \<and> sorted_wrt follows (published sample_republished)"
  using sample_run(2) published_never_regresses [OF sample_run(2)] by blast

text \<open>
  C13: Whoever captures a generation for authority, from any value the publisher ever stored, acts on
  every tightening the database had recorded up to \<open>max_security_age\<close> and the latency of one reading ago.
\<close>

theorem authority_recent:
  assumes run: "publisher_run db latency p" and v: "v \<in> set (published p)"
    and captured: "capture_for_authority now max_security_age v = Some g" and mono: "mono db"
  shows "g = pub_generation v \<and> db (now - int max_security_age - int latency) \<le> generation_security g"
proof -
  have current: "security_revision_is_current (generation_security g) (pub_status v) now max_security_age"
    and g: "g = pub_generation v"
    using captured by (auto simp: capture_for_authority_def split: if_split_asm)
  obtain t where t: "ps_confirmed_at (pub_status v) - int latency \<le> t" "db t \<le> ps_database_security_revision (pub_status v)"
    using publisher_run_ok [OF run] v unfolding publisher_ok_def evidence_def by blast
  have "now - int max_security_age - int latency \<le> t"
    using t(1) current by (simp add: security_revision_is_current_def)
  then have "db (now - int max_security_age - int latency) \<le> db t" by (rule monoD [OF mono])
  then show ?thesis using t(2) current g by (simp add: security_revision_is_current_def)
qed

text \<open>
  A failed reconciliation leaves the served generation in place, records its error where the
  status is read, and schedules the next attempt between one and thirty seconds later.
\<close>

theorem failed_reconcile_keeps:
  assumes "publisher_run db latency p" "honest_input db latency px" and failed: "reconcile px force p = (p', Inl e)"
  shows "pub_generation (current p') = pub_generation (current p) \<and> ps_last_error (pub_status (current p')) = Some e
    \<and> pub_now p' + 1000 \<le> retry_at (pub_schedule p') \<and> retry_at (pub_schedule p') \<le> pub_now p' + 30000"
proof -
  obtain p1 where l: "reconcile_locked px force p = (p1, Inl e)"
    using failed by (cases "reconcile_locked px force p") (auto simp: reconcile_def Let_def split: sum.split_asm)
  have "publisher_ok db latency p1"
    using reconcile_locked_ok [OF publisher_run_ok [OF assms(1)] assms(2) l] by blast
  then have "1000 \<le> retry_delay (pub_schedule p1) \<and> retry_delay (pub_schedule p1) \<le> 30000"
    by (simp add: publisher_ok_def)
  moreover have "pub_schedule (set_error (Some e) p1) = pub_schedule p1" by (simp add: set_error_def)
  ultimately show ?thesis
    using reconcile_ok [OF publisher_run_ok [OF assms(1)] assms(2) failed] failed l
    by (auto simp: reconcile_def Let_def retry_later_def)
qed

text \<open>A failing store: the served generation stays, with its error.\<close>

definition sample_failing :: PublisherInput where
  "sample_failing = (sample_publisher_input 4 4 200 4)\<lparr>px_revisions := \<lambda>_. (None, 200)\<rparr>"

lemma sample_failed:
  "reconcile sample_failing False sample_started
     = (fst (reconcile sample_failing False sample_started), Inl ''store'')"
  by (simp add: reconcile_def reconcile_locked_def observe_revisions_def sample_failing_def sample_publisher_input_def Let_def)

lemma sample_failing_honest: "honest_input (\<lambda>t. if t < 150 then 1 else 4) 10 sample_failing"
  by (rule honest_inputI) (simp add: sample_failing_def)

theorem failed_reconcile_keeps_witness:
  "ps_last_error (pub_status (current (fst (reconcile sample_failing False sample_started)))) = Some ''store''"
  using failed_reconcile_keeps [OF sample_run(1) sample_failing_honest sample_failed] by blast

lemma sample_captured: "capture_for_authority 105 10 (current sample_started) = Some (sample_generation 1 1)"
  by (simp add: capture_for_authority_def security_revision_is_current_def current_def sample_started_def)

theorem authority_recent_witness:
  "capture_for_authority 105 10 (current sample_started) = Some (sample_generation 1 1)
   \<and> (if 105 - int 10 - int 10 < 150 then 1 else 4) \<le> generation_security (sample_generation 1 1)"
proof -
  have v: "current sample_started \<in> set (published sample_started)" by (simp add: current_def sample_started_def)
  have m: "mono (\<lambda>t::int. if t < 150 then 1 else 4::int)" by (rule monoI) auto
  show ?thesis by (rule conjI [OF sample_captured conjunct2 [OF authority_recent [OF sample_run(1) v sample_captured m]]])
qed

subsection \<open>A deployment with its client\<close>

definition sample_build_client :: "unit \<Rightarrow> byte list \<Rightarrow> string + CredentialClient" where
  "sample_build_client _ fingerprint = Inr (sample_client\<lparr>build_fingerprint := fingerprint\<rparr>)"

theorem operational_has_client_witness:
  "\<exists>client. aget (credential_clients (cg_runtime (build_credential_clients (\<lambda>_. []) sample_build_client None
      [(client_key (cand_deployment sample_probed), ())] sample_runtime))) (client_key (cand_deployment sample_probed)) = Some client
    \<and> build_fingerprint client = []"
proof -
  let ?k = "client_key (cand_deployment sample_probed)"
  let ?g = "build_credential_clients (\<lambda>_. []) sample_build_client None [(?k, ())] sample_runtime"
  have d: "aget (deployments (catalog (snapshot (cg_runtime ?g)))) 3 = Some (cand_deployment sample_probed)"
    by (simp add: build_credential_clients_def sample_build_client_def shared_client_def disable_unserved_map
        sample_runtime_def)
  have o: "operational (cand_deployment sample_probed)" by (simp add: sample_probed_def)
  show ?thesis
    using operational_has_client [OF refl d o] by (simp add: sample_build_client_def)
qed

end
