(* ===== verification/Egress.thy ===== *)
theory Egress
  imports Catalog "HOL-Library.Word"
begin

section \<open>Where the process connects to\<close>

text \<open>
  The network policy of provider endpoints (\<open>runtime/builder.rs\<close>) and that of identity endpoints
  (\<open>application/identity_egress.rs\<close>): which addresses a name may resolve to and which URLs are accepted.
  Addresses are the standard library's, as words.  The packages the code calls are parameters: \<open>ipnet\<close> (a parsed
  network, what it contains), \<open>url\<close> (the text of a host) and the resolver of the system.
\<close>

subsection \<open>Addresses, URLs and the packages\<close>

datatype IpAddr = V4 "32 word" | V6 "128 word"

type_synonym SocketAddr = "IpAddr \<times> nat"

datatype Host = HostDomain string | HostIpv4 "32 word" | HostIpv6 "128 word"

record EndpointUrl =
  url_scheme :: string
  url_host :: "Host option"
  url_username :: string
  url_password :: "string option"
  url_fragment :: "string option"
  url_port_or_known_default :: "nat option"

record 'n NetworkExternals =
  nx_parse_net :: "string \<Rightarrow> 'n option"
  nx_contains :: "'n \<Rightarrow> IpAddr \<Rightarrow> bool"
  nx_host_str :: "Host \<Rightarrow> string"
  nx_parse_ip :: "string \<Rightarrow> IpAddr option"
  nx_lookup_host :: "string \<Rightarrow> SocketAddr list option"

definition ascii_lower :: "char \<Rightarrow> char" where
  "ascii_lower c = (if 65 \<le> (of_char c :: nat) \<and> (of_char c :: nat) \<le> 90 then char_of ((of_char c :: nat) + 32) else c)"

definition to_ascii_lowercase :: "string \<Rightarrow> string" where
  "to_ascii_lowercase = map ascii_lower"

definition ends_with :: "string \<Rightarrow> string \<Rightarrow> bool" where
  "ends_with suffix s \<longleftrightarrow> length suffix \<le> length s \<and> drop (length s - length suffix) s = suffix"

subsection \<open>Classes of addresses\<close>

datatype AddressClass = Public | Private | Loopback | LinkLocal | Metadata | Prohibited

fun AddressClass_is_allowed :: "AddressClass \<Rightarrow> EgressAddressPolicy \<Rightarrow> bool" where
  "AddressClass_is_allowed Public p = True"
| "AddressClass_is_allowed Private p = allow_private p"
| "AddressClass_is_allowed Loopback p = allow_loopback p"
| "AddressClass_is_allowed LinkLocal p = allow_link_local p"
| "AddressClass_is_allowed Metadata p = allow_metadata p"
| "AddressClass_is_allowed Prohibited p = False"

definition METADATA_NETWORKS :: "string list" where
  "METADATA_NETWORKS = [''169.254.169.254/32'', ''fd00:ec2::254/128'']"

definition LOOPBACK_NETWORKS :: "string list" where
  "LOOPBACK_NETWORKS = [''127.0.0.0/8'', ''::1/128'']"

definition LINK_LOCAL_NETWORKS :: "string list" where
  "LINK_LOCAL_NETWORKS = [''169.254.0.0/16'', ''fe80::/10'']"

definition PRIVATE_NETWORKS :: "string list" where
  "PRIVATE_NETWORKS = [''10.0.0.0/8'', ''100.64.0.0/10'', ''172.16.0.0/12'', ''192.168.0.0/16'', ''fc00::/7'']"

definition PROHIBITED_NETWORKS :: "string list" where
  "PROHIBITED_NETWORKS =
     [''0.0.0.0/8'', ''192.0.0.0/24'', ''192.0.2.0/24'', ''192.88.99.0/24'', ''198.18.0.0/15'', ''198.51.100.0/24'',
      ''203.0.113.0/24'', ''224.0.0.0/4'', ''240.0.0.0/4'', ''::/128'', ''::ffff:0:0/96'', ''64:ff9b::/96'',
      ''64:ff9b:1::/48'', ''100::/64'', ''2001::/32'', ''2001:2::/48'', ''2001:10::/28'', ''2001:db8::/32'',
      ''2002::/16'', ''3ffe::/16'', ''ff00::/8'']"

text \<open>
  The static sets are parsed on their first use; a text that does not parse would panic there, so membership is
  None then.
\<close>

definition network_set :: "'n NetworkExternals \<Rightarrow> string list \<Rightarrow> 'n list option" where
  "network_set nx texts = those (map (nx_parse_net nx) texts)"

definition in_networks :: "'n NetworkExternals \<Rightarrow> string list \<Rightarrow> IpAddr \<Rightarrow> bool option" where
  "in_networks nx texts address =
     map_option (list_ex (\<lambda>network. nx_contains nx network address)) (network_set nx texts)"

fun first_class ::
    "'n NetworkExternals \<Rightarrow> (string list \<times> AddressClass) list \<Rightarrow> IpAddr \<Rightarrow> AddressClass option" where
  "first_class nx [] address = Some Public"
| "first_class nx ((texts, class) # rest) address =
     (case in_networks nx texts address of
        None \<Rightarrow> None
      | Some True \<Rightarrow> Some class
      | Some False \<Rightarrow> first_class nx rest address)"

definition classify_address :: "'n NetworkExternals \<Rightarrow> IpAddr \<Rightarrow> AddressClass option" where
  "classify_address nx =
     first_class nx [(METADATA_NETWORKS, Metadata), (LOOPBACK_NETWORKS, Loopback),
       (LINK_LOCAL_NETWORKS, LinkLocal), (PRIVATE_NETWORKS, Private), (PROHIBITED_NETWORKS, Prohibited)]"

subsection \<open>The resolver of provider endpoints\<close>

record 'n EgressResolver =
  er_allowed_cidrs :: "'n list"
  er_denied_cidrs :: "'n list"
  er_address_policy :: EgressAddressPolicy
  er_max_resolved_addresses :: nat
  er_overrides :: "(string \<times> SocketAddr) list"

definition EgressResolver_new ::
    "'n NetworkExternals \<Rightarrow> EgressNetworkConfiguration \<Rightarrow> (string \<times> SocketAddr) list \<Rightarrow> string + 'n EgressResolver" where
  "EgressResolver_new nx configuration overrides =
     (case network_set nx (allowed_cidrs (egress_address configuration)) of
        None \<Rightarrow> Inl ''egress_policy_invalid''
      | Some allowed \<Rightarrow>
          (case network_set nx (denied_cidrs (egress_address configuration)) of
             None \<Rightarrow> Inl ''egress_policy_invalid''
           | Some denied \<Rightarrow>
               Inr \<lparr>er_allowed_cidrs = allowed, er_denied_cidrs = denied,
                    er_address_policy = egress_address configuration,
                    er_max_resolved_addresses = max_resolved_addresses (egress_dns configuration),
                    er_overrides = overrides\<rparr>))"

text \<open>None where \<open>classify_address\<close> panics.\<close>

definition EgressResolver_allows :: "'n NetworkExternals \<Rightarrow> 'n EgressResolver \<Rightarrow> IpAddr \<Rightarrow> bool option" where
  "EgressResolver_allows nx self address =
     (if list_ex (\<lambda>network. nx_contains nx network address) (er_denied_cidrs self) then Some False
      else if list_ex (\<lambda>network. nx_contains nx network address) (er_allowed_cidrs self) then Some True
      else map_option (\<lambda>class. AddressClass_is_allowed class (er_address_policy self)) (classify_address nx address))"

definition EgressResolver_resolve :: "'n NetworkExternals \<Rightarrow> 'n EgressResolver \<Rightarrow> string \<Rightarrow> string + SocketAddr set" where
  "EgressResolver_resolve nx self host =
     (case (case aget (er_overrides self) (to_ascii_lowercase host) of
              Some address \<Rightarrow> Some {address}
            | None \<Rightarrow> map_option set (nx_lookup_host nx host)) of
        None \<Rightarrow> Inl ''lookup failed''
      | Some addresses \<Rightarrow>
          if addresses = {} \<or> card addresses > er_max_resolved_addresses self
             \<or> (\<exists>address \<in> addresses. EgressResolver_allows nx self (fst address) \<noteq> Some True)
          then Inl ''egress address policy rejected resolution'' else Inr addresses)"

subsection \<open>Accepted configurations and endpoints\<close>

definition validate_network_configuration ::
    "'n NetworkExternals \<Rightarrow> EgressNetworkConfiguration \<Rightarrow> string + unit" where
  "validate_network_configuration nx configuration =
     (let dns = egress_dns configuration; tls = egress_tls configuration;
          connection = egress_connection configuration; body = egress_body configuration;
          address = egress_address configuration in
      if \<not> revalidate_on_connect dns \<or> max_resolved_addresses dns = 0 \<or> max_resolved_addresses dns > 32
         \<or> \<not> verify_hostname tls \<or> \<not> verify_certificate tls
         \<or> minimum_version tls \<notin> {''1.2'', ''1.3''}
         \<or> max_redirects (egress_redirect configuration) \<noteq> 0
         \<or> \<not> (100 \<le> egress_connect_timeout_ms connection \<and> egress_connect_timeout_ms connection \<le> 60000)
         \<or> \<not> (1000 \<le> egress_request_timeout_ms connection \<and> egress_request_timeout_ms connection \<le> 600000)
         \<or> \<not> (1000 \<le> pool_idle_timeout_ms connection \<and> pool_idle_timeout_ms connection \<le> 600000)
         \<or> \<not> (1 \<le> max_idle_connections_per_host connection \<and> max_idle_connections_per_host connection \<le> 256)
         \<or> \<not> (1 \<le> egress_max_request_body_bytes body \<and> egress_max_request_body_bytes body \<le> 64 * 1024 * 1024)
         \<or> \<not> (1 \<le> egress_max_response_body_bytes body \<and> egress_max_response_body_bytes body \<le> 512 * 1024 * 1024)
      then Inl ''egress_policy_unsupported_or_unsafe''
      else if length (allowed_cidrs address) > 64 \<or> length (denied_cidrs address) > 64
         \<or> list_ex (\<lambda>network. nx_parse_net nx network = None) (allowed_cidrs address @ denied_cidrs address)
      then Inl ''egress_address_policy_invalid''
      else if egress_proxy_url configuration \<noteq> None then Inl ''egress_proxy_target_enforcement_unavailable''
      else Inr ())"

definition local_name :: "string \<Rightarrow> bool" where
  "local_name host \<longleftrightarrow>
     to_ascii_lowercase host = ''localhost'' \<or> ends_with ''.localhost'' (to_ascii_lowercase host)"

definition validate_endpoint_for_network_policy ::
    "'n NetworkExternals \<Rightarrow> EndpointUrl \<Rightarrow> EgressNetworkConfiguration \<Rightarrow> string + unit" where
  "validate_endpoint_for_network_policy nx endpoint configuration =
     (if url_scheme endpoint \<noteq> ''https'' \<or> url_host endpoint = None \<or> url_username endpoint \<noteq> []
         \<or> url_password endpoint \<noteq> None \<or> url_fragment endpoint \<noteq> None
      then Inl ''endpoint_url_unsafe''
      else case map_option (nx_host_str nx) (url_host endpoint) of
        None \<Rightarrow> Inr ()
      | Some host \<Rightarrow>
          if local_name host then Inl ''endpoint_url_unsafe''
          else case nx_parse_ip nx host of
            None \<Rightarrow> Inr ()
          | Some address \<Rightarrow>
              (case EgressResolver_new nx configuration [] of
                 Inl e \<Rightarrow> Inl e
               | Inr resolver \<Rightarrow>
                   if EgressResolver_allows nx resolver address \<noteq> Some True
                   then Inl ''endpoint_address_prohibited'' else Inr ()))"

subsection \<open>Identity endpoints\<close>

definition MAX_RESOLVED_ADDRESSES :: nat where
  "MAX_RESOLVED_ADDRESSES = 16"

definition DENIED_NETWORKS :: "string list" where
  "DENIED_NETWORKS =
     [''0.0.0.0/8'', ''10.0.0.0/8'', ''100.64.0.0/10'', ''127.0.0.0/8'', ''169.254.0.0/16'', ''172.16.0.0/12'',
      ''192.0.0.0/24'', ''192.0.2.0/24'', ''192.88.99.0/24'', ''192.168.0.0/16'', ''198.18.0.0/15'',
      ''198.51.100.0/24'', ''203.0.113.0/24'', ''224.0.0.0/4'', ''240.0.0.0/4'', ''::/128'', ''::1/128'',
      ''::ffff:0:0/96'', ''64:ff9b::/96'', ''64:ff9b:1::/48'', ''100::/64'', ''2001::/32'', ''2001:2::/48'',
      ''2001:10::/28'', ''2001:db8::/32'', ''2002::/16'', ''3ffe::/16'', ''fc00::/7'', ''fec0::/10'', ''fe80::/10'',
      ''ff00::/8'']"

definition is_public_address :: "'n NetworkExternals \<Rightarrow> IpAddr \<Rightarrow> bool" where
  "is_public_address nx address \<longleftrightarrow> in_networks nx DENIED_NETWORKS address = Some False"

datatype IdentityEndpointError = EndpointShape | EndpointHostProhibited | EndpointAddressProhibited | EndpointHostMissing
  | EndpointResolvesProhibited | EndpointUnavailable

definition validate_identity_endpoint :: "'n NetworkExternals \<Rightarrow> EndpointUrl \<Rightarrow> IdentityEndpointError + unit" where
  "validate_identity_endpoint nx endpoint =
     (if url_scheme endpoint \<noteq> ''https'' \<or> url_port_or_known_default endpoint \<noteq> Some 443
         \<or> url_username endpoint \<noteq> [] \<or> url_password endpoint \<noteq> None \<or> url_fragment endpoint \<noteq> None
      then Inl EndpointShape
      else case url_host endpoint of
        Some (HostDomain host) \<Rightarrow>
          if host = [] \<or> ends_with ''.'' host \<or> local_name host then Inl EndpointHostProhibited else Inr ()
      | Some (HostIpv4 address) \<Rightarrow>
          if \<not> is_public_address nx (V4 address) then Inl EndpointAddressProhibited else Inr ()
      | Some (HostIpv6 address) \<Rightarrow>
          if \<not> is_public_address nx (V6 address) then Inl EndpointAddressProhibited else Inr ()
      | None \<Rightarrow> Inl EndpointHostMissing)"

definition resolve_identity_endpoint ::
    "'n NetworkExternals \<Rightarrow> EndpointUrl \<Rightarrow> IdentityEndpointError + string \<times> SocketAddr set" where
  "resolve_identity_endpoint nx endpoint =
     result_bind (validate_identity_endpoint nx endpoint) (\<lambda>_.
       case map_option (nx_host_str nx) (url_host endpoint) of
         None \<Rightarrow> Inl EndpointHostMissing
       | Some text \<Rightarrow>
           let host = to_ascii_lowercase text in
           case nx_lookup_host nx host of
             None \<Rightarrow> Inl EndpointUnavailable
           | Some found \<Rightarrow>
               let addresses = set found in
               if addresses = {} \<or> card addresses > MAX_RESOLVED_ADDRESSES then Inl EndpointUnavailable
               else if \<exists>address \<in> addresses. \<not> is_public_address nx (fst address)
               then Inl EndpointResolvesProhibited else Inr (host, addresses))"

text \<open>
  \<open>read_bounded_response\<close>: the declared length and the chunks that arrive; a chunk is None when the connection
  fails, and the list ends where the response does.
\<close>

fun read_chunks :: "'b list option list \<Rightarrow> nat \<Rightarrow> 'b list \<Rightarrow> IdentityEndpointError + 'b list" where
  "read_chunks [] limit body = Inr body"
| "read_chunks (None # chunks) limit body = Inl EndpointUnavailable"
| "read_chunks (Some chunk # chunks) limit body =
     (if saturating_add u64_max (length body) (length chunk) > limit then Inl EndpointUnavailable
      else read_chunks chunks limit (body @ chunk))"

definition read_bounded_response ::
    "nat option \<Rightarrow> 'b list option list \<Rightarrow> nat \<Rightarrow> IdentityEndpointError + 'b list" where
  "read_bounded_response content_length chunks limit =
     (if (case content_length of Some declared \<Rightarrow> declared > limit | None \<Rightarrow> False) then Inl EndpointUnavailable
      else read_chunks chunks limit [])"

end
