(* ===== verification/EgressLaws.thy ===== *)
theory EgressLaws
  imports Egress
begin

section \<open>Only public addresses, except literal ones\<close>

text \<open>
  What the two network policies promise of the addresses a connection may reach.  The hypotheses say what the
  packages document: a network \<open>base/prefix\<close> contains the addresses of its family with the same leading bits,
  and the text of an IPv6 host is enclosed in brackets, which is not the text of an address.
\<close>

subsection \<open>Networks as prefixes\<close>

datatype IpNet = Net4 "32 word" nat | Net6 "128 word" nat

fun net_has :: "IpNet \<Rightarrow> IpAddr \<Rightarrow> bool" where
  "net_has (Net4 base prefix) (V4 a) \<longleftrightarrow> drop_bit (32 - prefix) a = drop_bit (32 - prefix) base"
| "net_has (Net6 base prefix) (V6 a) \<longleftrightarrow> drop_bit (128 - prefix) a = drop_bit (128 - prefix) base"
| "net_has _ _ \<longleftrightarrow> False"

definition CIDR_TABLE :: "(string \<times> IpNet) list" where
  "CIDR_TABLE =
     [(''0.0.0.0/8'', Net4 0 8), (''10.0.0.0/8'', Net4 0x0a000000 8), (''100.64.0.0/10'', Net4 0x64400000 10),
      (''127.0.0.0/8'', Net4 0x7f000000 8), (''169.254.0.0/16'', Net4 0xa9fe0000 16),
      (''169.254.169.254/32'', Net4 0xa9fea9fe 32), (''172.16.0.0/12'', Net4 0xac100000 12),
      (''192.0.0.0/24'', Net4 0xc0000000 24), (''192.0.2.0/24'', Net4 0xc0000200 24),
      (''192.88.99.0/24'', Net4 0xc0586300 24), (''192.168.0.0/16'', Net4 0xc0a80000 16),
      (''198.18.0.0/15'', Net4 0xc6120000 15), (''198.51.100.0/24'', Net4 0xc6336400 24),
      (''203.0.113.0/24'', Net4 0xcb007100 24), (''224.0.0.0/4'', Net4 0xe0000000 4),
      (''240.0.0.0/4'', Net4 0xf0000000 4),
      (''::/128'', Net6 0 128), (''::1/128'', Net6 1 128), (''::ffff:0:0/96'', Net6 0xffff00000000 96),
      (''64:ff9b::/96'', Net6 0x0064ff9b000000000000000000000000 96),
      (''64:ff9b:1::/48'', Net6 0x0064ff9b000100000000000000000000 48),
      (''100::/64'', Net6 0x01000000000000000000000000000000 64),
      (''2001::/32'', Net6 0x20010000000000000000000000000000 32),
      (''2001:2::/48'', Net6 0x20010002000000000000000000000000 48),
      (''2001:10::/28'', Net6 0x20010010000000000000000000000000 28),
      (''2001:db8::/32'', Net6 0x20010db8000000000000000000000000 32),
      (''2002::/16'', Net6 0x20020000000000000000000000000000 16),
      (''3ffe::/16'', Net6 0x3ffe0000000000000000000000000000 16),
      (''fc00::/7'', Net6 0xfc000000000000000000000000000000 7),
      (''fd00:ec2::254/128'', Net6 0xfd000ec2000000000000000000000254 128),
      (''fe80::/10'', Net6 0xfe800000000000000000000000000000 10),
      (''fec0::/10'', Net6 0xfec00000000000000000000000000000 10),
      (''ff00::/8'', Net6 0xff000000000000000000000000000000 8)]"

definition reads_cidr :: "'n NetworkExternals \<Rightarrow> string \<Rightarrow> IpNet \<Rightarrow> bool" where
  "reads_cidr nx text net \<longleftrightarrow> (\<exists>n. nx_parse_net nx text = Some n \<and> nx_contains nx n = net_has net)"

definition documented_networks :: "'n NetworkExternals \<Rightarrow> bool" where
  "documented_networks nx \<longleftrightarrow> (\<forall>(text, net) \<in> set CIDR_TABLE. reads_cidr nx text net)"

lemma in_networks_cidr:
  assumes "list_all2 (reads_cidr nx) texts nets"
  shows "in_networks nx texts address = Some (list_ex (\<lambda>net. net_has net address) nets)"
proof -
  have "\<exists>ns. those (map (nx_parse_net nx) texts) = Some ns
    \<and> list_ex (\<lambda>n. nx_contains nx n address) ns = list_ex (\<lambda>net. net_has net address) nets"
    using assms by (induction rule: list_all2_induct) (auto simp: reads_cidr_def)
  then show ?thesis by (auto simp: in_networks_def network_set_def)
qed

lemma documented_networks_read:
  assumes doc: "documented_networks nx" and known: "list_all (\<lambda>text. map_of CIDR_TABLE text \<noteq> None) texts"
  shows "list_all2 (reads_cidr nx) texts (map (\<lambda>text. the (map_of CIDR_TABLE text)) texts)"
proof -
  have "reads_cidr nx t (the (map_of CIDR_TABLE t))" if t: "t \<in> set texts" for t
  proof -
    obtain net where net: "map_of CIDR_TABLE t = Some net"
      using known [unfolded list_all_iff, rule_format, OF t] unfolding not_None_eq by (rule exE)
    then have "(t, net) \<in> set CIDR_TABLE" by (rule map_of_SomeD)
    then show ?thesis using doc net unfolding documented_networks_def by fastforce
  qed
  then show ?thesis by (simp add: list_all2_conv_all_nth)
qed

definition networks_of :: "string list \<Rightarrow> IpNet list" where
  "networks_of texts = map (\<lambda>text. the (map_of CIDR_TABLE text)) texts"

lemma in_networks_known:
  assumes "documented_networks nx" "list_all (\<lambda>text. map_of CIDR_TABLE text \<noteq> None) texts"
  shows "in_networks nx texts address = Some (list_ex (\<lambda>net. net_has net address) (networks_of texts))"
  using in_networks_cidr [OF documented_networks_read [OF assms]] by (simp add: networks_of_def)

lemma static_networks_known:
  "list_all (\<lambda>text. map_of CIDR_TABLE text \<noteq> None) METADATA_NETWORKS"
  "list_all (\<lambda>text. map_of CIDR_TABLE text \<noteq> None) LOOPBACK_NETWORKS"
  "list_all (\<lambda>text. map_of CIDR_TABLE text \<noteq> None) LINK_LOCAL_NETWORKS"
  "list_all (\<lambda>text. map_of CIDR_TABLE text \<noteq> None) PRIVATE_NETWORKS"
  "list_all (\<lambda>text. map_of CIDR_TABLE text \<noteq> None) PROHIBITED_NETWORKS"
  "list_all (\<lambda>text. map_of CIDR_TABLE text \<noteq> None) DENIED_NETWORKS"
  by code_simp+

lemmas static_in_networks = static_networks_known [THEN in_networks_known [rotated]]

text \<open>Every network the provider policy knows by name.\<close>

definition special_networks :: "IpNet list" where
  "special_networks = networks_of (METADATA_NETWORKS @ LOOPBACK_NETWORKS @ LINK_LOCAL_NETWORKS @ PRIVATE_NETWORKS
     @ PROHIBITED_NETWORKS)"

lemma first_class_known:
  assumes "\<forall>(texts, cls) \<in> set classes. in_networks nx texts address = Some (list_ex (\<lambda>net. net_has net address) (nets texts))
    \<and> cls \<noteq> Public"
  shows "first_class nx classes address \<noteq> None
    \<and> (first_class nx classes address = Some Public
       \<longleftrightarrow> (\<forall>net \<in> set (concat (map (nets \<circ> fst) classes)). \<not> net_has net address))"
  using assms
proof (induction classes)
  case (Cons entry classes)
  obtain texts cls where entry: "entry = (texts, cls)" by fastforce
  show ?case
    using Cons by (cases "list_ex (\<lambda>net. net_has net address) (nets texts)") (auto simp: entry list_ex_iff)
qed simp

lemma classify_known:
  assumes "documented_networks nx"
  shows "classify_address nx address \<noteq> None
    \<and> (classify_address nx address = Some Public \<longleftrightarrow> (\<forall>net \<in> set special_networks. \<not> net_has net address))"
proof -
  have same: "special_networks = concat (map (networks_of \<circ> fst)
      [(METADATA_NETWORKS, Metadata), (LOOPBACK_NETWORKS, Loopback), (LINK_LOCAL_NETWORKS, LinkLocal),
       (PRIVATE_NETWORKS, Private), (PROHIBITED_NETWORKS, Prohibited)])"
    by (simp add: special_networks_def networks_of_def)
  show ?thesis unfolding classify_address_def same
    by (rule first_class_known) (simp add: static_in_networks [OF assms])
qed

lemmas classify_total = classify_known [THEN conjunct1]
lemmas classify_public = classify_known [THEN conjunct2]

lemma named_networks:
  "the (map_of CIDR_TABLE ''169.254.169.254/32'') = Net4 0xa9fea9fe 32"
  "the (map_of CIDR_TABLE ''fd00:ec2::254/128'') = Net6 0xfd000ec2000000000000000000000254 128"
  "the (map_of CIDR_TABLE ''fec0::/10'') = Net6 0xfec00000000000000000000000000000 10"
  "the (map_of CIDR_TABLE ''169.254.0.0/16'') = Net4 0xa9fe0000 16"
  "the (map_of CIDR_TABLE ''fc00::/7'') = Net6 0xfc000000000000000000000000000000 7"
  by (simp_all add: CIDR_TABLE_def)

lemma denied_texts:
  "insert ''169.254.169.254/32'' (insert ''fd00:ec2::254/128'' (set DENIED_NETWORKS))
    = insert ''fec0::/10'' (set (METADATA_NETWORKS @ LOOPBACK_NETWORKS @ LINK_LOCAL_NETWORKS @ PRIVATE_NETWORKS
        @ PROHIBITED_NETWORKS))"
  unfolding DENIED_NETWORKS_def METADATA_NETWORKS_def LOOPBACK_NETWORKS_def LINK_LOCAL_NETWORKS_def
    PRIVATE_NETWORKS_def PROHIBITED_NETWORKS_def append.simps list.set
  by (simp only: insert_commute)

lemma denied_networks_set:
  "insert (Net4 0xa9fea9fe 32) (insert (Net6 0xfd000ec2000000000000000000000254 128) (set (networks_of DENIED_NETWORKS)))
    = insert (Net6 0xfec00000000000000000000000000000 10) (set special_networks)"
  using arg_cong [OF denied_texts, of "image (\<lambda>text. the (map_of CIDR_TABLE text))"]
  unfolding image_insert named_networks networks_of_def special_networks_def list.set_map .

lemma denied_networks_members:
  "Net4 0xa9fe0000 16 \<in> set (networks_of DENIED_NETWORKS)"
  "Net6 0xfc000000000000000000000000000000 7 \<in> set (networks_of DENIED_NETWORKS)"
  unfolding networks_of_def list.set_map named_networks(4,5) [symmetric] DENIED_NETWORKS_def
  by (rule imageI, simp)+

lemma metadata_subsumed:
  "net_has (Net4 0xa9fea9fe 32) address \<Longrightarrow> net_has (Net4 0xa9fe0000 16) address"
  "net_has (Net6 0xfd000ec2000000000000000000000254 128) address
     \<Longrightarrow> net_has (Net6 0xfc000000000000000000000000000000 7) address"
  by (cases address; simp)+

lemma subsumed_member:
  assumes same: "insert a (insert b D) = insert c S" and "P a \<Longrightarrow> \<exists>x \<in> D. P x" "P b \<Longrightarrow> \<exists>x \<in> D. P x"
  shows "(\<exists>x \<in> D. P x) \<longleftrightarrow> (\<exists>x \<in> S. P x) \<or> P c"
proof -
  have "(\<exists>x \<in> insert a (insert b D). P x) = (\<exists>x \<in> insert c S. P x)" unfolding same by (rule refl)
  then show ?thesis using assms(2,3) by auto
qed

lemma is_public_iff:
  assumes "documented_networks nx"
  shows "is_public_address nx address
    \<longleftrightarrow> classify_address nx address = Some Public \<and> \<not> net_has (Net6 0xfec00000000000000000000000000000 10) address"
proof -
  have "list_ex (\<lambda>net. net_has net address) (networks_of DENIED_NETWORKS)
    \<longleftrightarrow> (\<exists>net \<in> set special_networks. net_has net address)
        \<or> net_has (Net6 0xfec00000000000000000000000000000 10) address"
    unfolding list_ex_iff
    by (rule subsumed_member [OF denied_networks_set])
      (rule bexI [OF _ denied_networks_members(1)], rule metadata_subsumed(1), assumption,
       rule bexI [OF _ denied_networks_members(2)], rule metadata_subsumed(2), assumption)
  then show ?thesis
    unfolding is_public_address_def static_in_networks(6) [OF assms] classify_public [OF assms]
    by auto
qed

text \<open>
  C27: The two network policies agree but for one network: an identity endpoint may be at an address exactly
  when provider traffic counts it as public and it is not a site-local IPv6 address, which only the identity policy
  denies.
\<close>

theorem identity_addresses_public:
  assumes "documented_networks nx"
  shows "is_public_address nx address
    \<longleftrightarrow> classify_address nx address = Some Public \<and> \<not> net_has (Net6 0xfec00000000000000000000000000000 10) address"
  by (rule is_public_iff [OF assms])

subsection \<open>What a provider connection may reach\<close>

lemma resolve_bounded:
  assumes "EgressResolver_resolve nx r host = Inr addresses"
  shows "addresses \<noteq> {} \<and> card addresses \<le> er_max_resolved_addresses r
    \<and> (\<forall>address \<in> addresses. EgressResolver_allows nx r (fst address) = Some True)"
  using assms by (auto simp: EgressResolver_resolve_def Let_def not_less split: option.split_asm if_split_asm)

lemma validated_parses:
  assumes "validate_network_configuration nx c = Inr ()"
  shows "\<exists>r. EgressResolver_new nx c overrides = Inr r \<and> er_max_resolved_addresses r \<le> 32
    \<and> er_address_policy r = egress_address c
    \<and> network_set nx (allowed_cidrs (egress_address c)) = Some (er_allowed_cidrs r)
    \<and> network_set nx (denied_cidrs (egress_address c)) = Some (er_denied_cidrs r)"
proof -
  have known: "network_set nx texts \<noteq> None" if "\<not> list_ex (\<lambda>network. nx_parse_net nx network = None) texts" for texts
    using that by (induction texts) (auto simp: network_set_def)
  have ok: "\<not> list_ex (\<lambda>network. nx_parse_net nx network = None) (allowed_cidrs (egress_address c))"
    "\<not> list_ex (\<lambda>network. nx_parse_net nx network = None) (denied_cidrs (egress_address c))"
    "max_resolved_addresses (egress_dns c) \<le> 32"
    using assms by (simp_all add: validate_network_configuration_def Let_def split: if_split_asm)
  obtain allowed where a: "network_set nx (allowed_cidrs (egress_address c)) = Some allowed"
    using known [OF ok(1)] unfolding not_None_eq by (rule exE)
  obtain denied where d: "network_set nx (denied_cidrs (egress_address c)) = Some denied"
    using known [OF ok(2)] unfolding not_None_eq by (rule exE)
  show ?thesis using a d ok(3) by (simp add: EgressResolver_new_def)
qed

text \<open>
  C14: A configuration that passes validation has a resolver, which answers at most 32 addresses; none is in
  a denied network, and one outside the allowed networks is public or of a class the policy opens.  Under the
  default address policy no answered address is in any of the special networks that the classes other than public
  list, metadata services included.
\<close>

theorem egress_resolution_policy:
  assumes doc: "documented_networks nx" and valid: "validate_network_configuration nx c = Inr ()"
  shows "\<exists>r. EgressResolver_new nx c overrides = Inr r
    \<and> (\<forall>host addresses. EgressResolver_resolve nx r host = Inr addresses \<longrightarrow>
         addresses \<noteq> {} \<and> card addresses \<le> 32
         \<and> (\<forall>(address, port) \<in> addresses.
              in_networks nx (denied_cidrs (egress_address c)) address = Some False
              \<and> (in_networks nx (allowed_cidrs (egress_address c)) address = Some True
                 \<or> (\<exists>class. classify_address nx address = Some class \<and> AddressClass_is_allowed class (egress_address c)))
              \<and> (egress_address c = EgressAddressPolicy_default
                 \<longrightarrow> (\<forall>net \<in> set special_networks. \<not> net_has net address))))"
proof -
  obtain r where r: "EgressResolver_new nx c overrides = Inr r" "er_max_resolved_addresses r \<le> 32"
    "er_address_policy r = egress_address c"
    "network_set nx (allowed_cidrs (egress_address c)) = Some (er_allowed_cidrs r)"
    "network_set nx (denied_cidrs (egress_address c)) = Some (er_denied_cidrs r)"
    using validated_parses [OF valid] by blast
  have allowed: "in_networks nx (denied_cidrs (egress_address c)) a = Some False
      \<and> (in_networks nx (allowed_cidrs (egress_address c)) a = Some True
         \<or> (\<exists>class. classify_address nx a = Some class \<and> AddressClass_is_allowed class (egress_address c)))"
    if "EgressResolver_allows nx r a = Some True" for a
    using that by (auto simp: EgressResolver_allows_def in_networks_def r split: if_split_asm)
  have public: "\<forall>net \<in> set special_networks. \<not> net_has net a"
    if ok: "EgressResolver_allows nx r a = Some True" and default: "egress_address c = EgressAddressPolicy_default" for a
  proof -
    have "in_networks nx (allowed_cidrs (egress_address c)) a \<noteq> Some True"
      using default by (simp add: in_networks_def network_set_def EgressAddressPolicy_default_def)
    then obtain cls where "classify_address nx a = Some cls" "AddressClass_is_allowed cls (egress_address c)"
      using allowed [OF ok] by blast
    then have "classify_address nx a = Some Public"
      using default by (cases cls) (simp_all add: EgressAddressPolicy_default_def)
    then show ?thesis by (simp add: classify_public [OF doc])
  qed
  have "addresses \<noteq> {} \<and> card addresses \<le> 32 \<and> (\<forall>(address, port) \<in> addresses.
      in_networks nx (denied_cidrs (egress_address c)) address = Some False
      \<and> (in_networks nx (allowed_cidrs (egress_address c)) address = Some True
         \<or> (\<exists>class. classify_address nx address = Some class \<and> AddressClass_is_allowed class (egress_address c)))
      \<and> (egress_address c = EgressAddressPolicy_default \<longrightarrow> (\<forall>net \<in> set special_networks. \<not> net_has net address)))"
    if resolved: "EgressResolver_resolve nx r host = Inr addresses" for host addresses
  proof -
    have "addresses \<noteq> {}" "card addresses \<le> 32"
      "\<forall>address \<in> addresses. EgressResolver_allows nx r (fst address) = Some True"
      using resolve_bounded [OF resolved] r(2) by auto
    then show ?thesis using allowed public by fastforce
  qed
  then show ?thesis using r(1) by blast
qed

subsection \<open>Literal addresses in URLs\<close>

definition documented_hosts :: "'n NetworkExternals \<Rightarrow> bool" where
  "documented_hosts nx \<longleftrightarrow>
     (\<forall>a. \<exists>t. nx_host_str nx (HostIpv6 a) = ''['' @ t @ '']'') \<and> (\<forall>t. nx_parse_ip nx (''['' @ t) = None)"

lemma bracketed_not_local: "\<not> local_name (''['' @ t @ '']'')"
proof -
  have "last (to_ascii_lowercase (''['' @ t @ '']'')) = CHR '']''"
    by (simp add: to_ascii_lowercase_def ascii_lower_def)
  moreover have "last s = CHR ''t''" if "ends_with ''.localhost'' s" for s
  proof -
    have "drop (length s - length ''.localhost'') s = ''.localhost''" using that unfolding ends_with_def by (rule conjunct2)
    then have "s = take (length s - length ''.localhost'') s @ ''.localhost''" by (metis append_take_drop_id)
    then have "last s = last (take (length s - length ''.localhost'') s @ ''.localhost'')" by (rule arg_cong)
    then show ?thesis by simp
  qed
  ultimately show ?thesis
    by (force simp: local_name_def to_ascii_lowercase_def ascii_lower_def)
qed

text \<open>
  C28: The literal-address check of provider endpoints never sees an IPv6 literal: whatever the policy denies, an
  https URL whose host is any IPv6 address passes, where the identity policy refuses the same host unless it is
  public.  The text of the host, brackets included, does not parse as an address, and the resolver that would
  apply the policy is asked for names only.
\<close>

theorem ipv6_literal_unchecked:
  assumes hosts: "documented_hosts nx" and doc: "documented_networks nx"
    and endpoint: "url_scheme endpoint = ''https''" "url_host endpoint = Some (HostIpv6 a)"
      "url_username endpoint = []" "url_password endpoint = None" "url_fragment endpoint = None"
  shows "validate_endpoint_for_network_policy nx endpoint c = Inr ()
    \<and> (classify_address nx (V6 a) \<noteq> Some Public
       \<longrightarrow> (\<exists>e. validate_identity_endpoint nx endpoint = Inl e))"
proof -
  obtain t where t: "nx_host_str nx (HostIpv6 a) = ''['' @ t @ '']''"
    using hosts unfolding documented_hosts_def by blast
  have "nx_parse_ip nx (''['' @ t @ '']'') = None" using hosts unfolding documented_hosts_def by blast
  then have "validate_endpoint_for_network_policy nx endpoint c = Inr ()"
    using endpoint t bracketed_not_local [of t] by (simp add: validate_endpoint_for_network_policy_def)
  moreover have "\<not> is_public_address nx (V6 a)" if "classify_address nx (V6 a) \<noteq> Some Public"
    using that unfolding is_public_iff [OF doc] by blast
  ultimately show ?thesis using endpoint by (auto simp: validate_identity_endpoint_def)
qed

subsection \<open>Concrete inputs\<close>

definition sample_networks :: "IpNet NetworkExternals" where
  "sample_networks =
     \<lparr>nx_parse_net = map_of CIDR_TABLE, nx_contains = net_has,
      nx_host_str = (\<lambda>host. case host of HostDomain name \<Rightarrow> name | HostIpv4 _ \<Rightarrow> ''10.0.0.1'' | HostIpv6 _ \<Rightarrow> ''[::1]''),
      nx_parse_ip = (\<lambda>t. if t = ''10.0.0.1'' then Some (V4 0x0a000001) else None),
      nx_lookup_host = (\<lambda>_. Some [(V4 0x08080808, 0)])\<rparr>"

definition sample_egress :: EgressNetworkConfiguration where
  "sample_egress =
     \<lparr>egress_dns = EgressDnsPolicy_default, egress_address = EgressAddressPolicy_default, egress_proxy_url = None,
      egress_tls = EgressTlsPolicy_default, egress_redirect = \<lparr>max_redirects = 0\<rparr>,
      egress_connection = EgressConnectionPolicy_default, egress_body = EgressBodyPolicy_default,
      custom_ca_secret_id = None, custom_ca_generation = 0, egress_config_version = 1\<rparr>"

definition sample_endpoint :: EndpointUrl where
  "sample_endpoint =
     \<lparr>url_scheme = ''https'', url_host = Some (HostIpv6 1), url_username = [], url_password = None,
      url_fragment = None, url_port_or_known_default = Some 443\<rparr>"

lemma cidr_texts_distinct: "distinct (map fst CIDR_TABLE)"
  by (simp add: CIDR_TABLE_def)

lemma sample_documented: "documented_networks sample_networks"
  using cidr_texts_distinct by (auto simp: documented_networks_def reads_cidr_def sample_networks_def)

lemma sample_hosts: "documented_hosts sample_networks"
  by (simp add: documented_hosts_def sample_networks_def)

lemma sample_egress_valid: "validate_network_configuration sample_networks sample_egress = Inr ()"
  by (simp add: validate_network_configuration_def sample_egress_def EgressDnsPolicy_default_def
      EgressAddressPolicy_default_def EgressTlsPolicy_default_def EgressConnectionPolicy_default_def
      EgressBodyPolicy_default_def default_max_request_body_bytes_def default_max_response_body_bytes_def)

lemma networks_of_table:
  assumes "list_all (\<lambda>text. map_of CIDR_TABLE text \<noteq> None) texts"
  shows "set (networks_of texts) \<subseteq> snd ` set CIDR_TABLE"
proof -
  have "the (map_of CIDR_TABLE t) \<in> snd ` set CIDR_TABLE" if t: "t \<in> set texts" for t
  proof -
    obtain net where "map_of CIDR_TABLE t = Some net"
      using assms [unfolded list_all_iff, rule_format, OF t] unfolding not_None_eq by (rule exE)
    then show ?thesis by (force dest: map_of_SomeD)
  qed
  then show ?thesis by (auto simp: networks_of_def)
qed

lemma sample_outside: "\<forall>net \<in> snd ` set CIDR_TABLE. \<not> net_has net (V4 0x08080808)"
  by (simp add: CIDR_TABLE_def)

lemma sample_public: "classify_address sample_networks (V4 0x08080808) = Some Public"
proof -
  have "set special_networks \<subseteq> snd ` set CIDR_TABLE"
    unfolding special_networks_def by (rule networks_of_table) (use static_networks_known in simp)
  then show ?thesis unfolding classify_public [OF sample_documented] using sample_outside by blast
qed

theorem identity_addresses_public_witness:
  "is_public_address sample_networks (V4 0x08080808)"
  unfolding identity_addresses_public [OF sample_documented] using sample_public by simp

lemma sample_resolver:
  "EgressResolver_new sample_networks sample_egress [] = Inr \<lparr>er_allowed_cidrs = [], er_denied_cidrs = [],
     er_address_policy = EgressAddressPolicy_default, er_max_resolved_addresses = 16, er_overrides = []\<rparr>"
  by (simp add: EgressResolver_new_def sample_egress_def EgressAddressPolicy_default_def network_set_def
      EgressDnsPolicy_default_def)

lemma sample_resolved:
  "EgressResolver_resolve sample_networks \<lparr>er_allowed_cidrs = [], er_denied_cidrs = [],
     er_address_policy = EgressAddressPolicy_default, er_max_resolved_addresses = 16, er_overrides = []\<rparr> ''a''
     = Inr {(V4 0x08080808, 0)}"
proof -
  have "nx_lookup_host sample_networks ''a'' = Some [(V4 0x08080808, 0)]" by (simp add: sample_networks_def)
  then show ?thesis by (simp add: EgressResolver_resolve_def EgressResolver_allows_def sample_public)
qed

theorem egress_resolution_policy_witness:
  "EgressResolver_resolve sample_networks \<lparr>er_allowed_cidrs = [], er_denied_cidrs = [],
     er_address_policy = EgressAddressPolicy_default, er_max_resolved_addresses = 16, er_overrides = []\<rparr> ''a''
     = Inr {(V4 0x08080808, 0)}
   \<and> in_networks sample_networks (denied_cidrs (egress_address sample_egress)) (V4 0x08080808) = Some False"
  using egress_resolution_policy [OF sample_documented sample_egress_valid, of "[]"] sample_resolver sample_resolved
  by fastforce

theorem ipv6_literal_unchecked_witness:
  "validate_endpoint_for_network_policy sample_networks sample_endpoint sample_egress = Inr ()"
  using ipv6_literal_unchecked [OF sample_hosts sample_documented, of sample_endpoint 1 sample_egress]
  by (simp add: sample_endpoint_def)

subsection \<open>Bounded responses\<close>

lemma read_chunks_bounded:
  "read_chunks chunks limit body = Inr result \<Longrightarrow> length body \<le> limit \<Longrightarrow> limit < u64_max
    \<Longrightarrow> length result \<le> limit \<and> (\<exists>parts. chunks = map Some parts \<and> result = body @ concat parts)"
proof (induction chunks arbitrary: body)
  case (Cons chunk chunks)
  show ?case
  proof (cases chunk)
    case None
    then show ?thesis using Cons.prems by simp
  next
    case (Some c)
    have fits: "saturating_add u64_max (length body) (length c) \<le> limit"
      using Cons.prems(1) Some by (simp split: if_split_asm)
    then have "length (body @ c) \<le> limit" using Cons.prems(3) by (simp add: saturating_add_def)
    with Cons.IH [of "body @ c"] Cons.prems Some fits
    obtain parts where "length result \<le> limit" "chunks = map Some parts" "result = (body @ c) @ concat parts"
      by auto
    then show ?thesis using Some by (intro conjI exI [of _ "c # parts"]) simp_all
  qed
qed simp

end
