(* ===== verification/Authority.thy ===== *)
theory Authority
  imports Runtime KeyMaterial Protocols
begin

section \<open>Authority over the management interface\<close>

text \<open>
  \<open>application/authentication.rs\<close>, \<open>application/auth.rs\<close> and the login limiter of
  \<open>application/service.rs\<close>: management keys, sessions created from them or from an external identity, what
  a session still allows when it is used, and the decision whether an identity may act on a target.  Base64url,
  SHA-256 and the random source are parameters.  The database keeps the rows of \<open>web_sessions\<close> and the audit
  log; what is stored as JSON and read back as the same type is stored as that type, except the capability ceiling,
  which the code reads in two ways.  Times are in milliseconds, with a new reading wherever the code takes one.
\<close>

datatype ApplicationError =
  AppAuthenticationRequired | AppInvalidCredential | AppCredentialInactive | AppForbidden | AppNotFound
| AppPreconditionRequired | AppStale "string option" | AppValidation string | AppConflict string | AppRateLimited
| AppIdempotencyConflict | AppDependencyUnavailable | AppInternal

record RequestIdentity =
  ri_principal :: AuthenticatedPrincipal
  ri_generation :: RuntimeGeneration
  ri_request_id :: string
  csrf_validated :: bool

datatype AuthorizationTarget =
  TargetCurrentPrincipal
| TargetSystem Capability
| TargetOrganization uuid Capability
| TargetOperations bool

record AuthorityExternals =
  ax_sha :: "byte list \<Rightarrow> byte list"
  ax_encode :: "byte list \<Rightarrow> string"
  ax_decode :: "string \<Rightarrow> byte list option"

subsection \<open>Capabilities in JSON and of roles\<close>

definition value_has_capability :: "json \<Rightarrow> Capability \<Rightarrow> bool" where
  "value_has_capability v capability =
     (case json_as_array v of
        None \<Rightarrow> False
      | Some items \<Rightarrow> list_ex (\<lambda>item. json_as_str item = Some (Capability_as_str capability)
          \<or> json_as_str item = Some ''system_administration'') items)"

fun capability_values :: "json list \<Rightarrow> Capability set \<Rightarrow> ApplicationError + Capability set" where
  "capability_values [] capabilities = Inr capabilities"
| "capability_values (v # vs) capabilities =
     (case json_as_str v of
        None \<Rightarrow> Inl AppInternal
      | Some name \<Rightarrow>
          if name = ''system_administration'' then capability_values vs (capabilities \<union> set Capability_ALL)
          else (case Capability_from_str name of
                  Inl _ \<Rightarrow> Inl AppInternal
                | Inr c \<Rightarrow> capability_values vs (insert c capabilities)))"

definition capabilities_from_value :: "json \<Rightarrow> ApplicationError + Capability set" where
  "capabilities_from_value v =
     (case json_as_array v of None \<Rightarrow> Inl AppInternal | Some values \<Rightarrow> capability_values values {})"

text \<open>The JSON of a set of capabilities: their names in the order of the type.\<close>

definition capabilities_to_value :: "Capability set \<Rightarrow> json" where
  "capabilities_to_value capabilities =
     JArray (map (\<lambda>c. JString (Capability_as_str c)) (filter (\<lambda>c. c \<in> capabilities) Capability_ALL))"

definition role_allows :: "OrganizationRole \<Rightarrow> Capability \<Rightarrow> bool" where
  "role_allows role capability =
     (if capability = ManageOwners then role = Owner
      else if capability \<in> {UpdateOrganization, ManageMembers, CreateManagementKeys, ManageManagementKeys,
        UpdateApiKeyPolicy, CreateGatewayKeys, ManageGatewayKeys, ManageByok, ConfigureRoutes, ConfigureBudgets}
      then role = Owner \<or> role = Admin
      else capability \<in> {ReadOrganization, ReadMembers, ReadManagementKeys, ReadGatewayKeys, ReadUsage, ReadAudit})"

subsection \<open>What a local user may do\<close>

definition organization_is_active :: "IdentitySnapshot \<Rightarrow> uuid \<Rightarrow> bool" where
  "organization_is_active ids organization = (aget (active_organizations ids) organization = Some True)"

definition member_entry ::
    "IdentitySnapshot \<Rightarrow> uuid \<Rightarrow> Capability set \<Rightarrow> uuid list option \<Rightarrow> (uuid \<times> uuid) \<times> MembershipSnapshot
      \<Rightarrow> (uuid \<times> Capability set) option" where
  "member_entry ids user_id capability_ceiling organization_ceiling entry =
     (let organization = fst (fst entry);
          capabilities = {c \<in> capability_ceiling. role_allows (member_role (snd entry)) c} in
      if snd (fst entry) \<noteq> user_id \<or> \<not> organization_is_active ids organization
         \<or> (case organization_ceiling of None \<Rightarrow> False | Some ceiling \<Rightarrow> organization \<notin> set ceiling)
      then None
      else if capabilities \<noteq> {} then Some (organization, capabilities) else None)"

definition local_user_authority ::
    "RuntimeGeneration \<Rightarrow> uuid \<Rightarrow> Capability set \<Rightarrow> uuid list option \<Rightarrow> bool \<times> (uuid \<times> Capability set) list" where
  "local_user_authority generation user_id capability_ceiling organization_ceiling =
     (let ids = identity (snapshot generation) in
      (SystemAdministration \<in> capability_ceiling \<and> aget (system_administrator_users ids) user_id = Some True,
       List.map_filter (member_entry ids user_id capability_ceiling organization_ceiling) (memberships ids)))"

definition intersect_organization_ceilings :: "uuid list option \<Rightarrow> uuid list option \<Rightarrow> uuid list option" where
  "intersect_organization_ceilings captured current_ceiling =
     (case (captured, current_ceiling) of
        (None, None) \<Rightarrow> None
      | (Some vs, None) \<Rightarrow> Some vs
      | (None, Some vs) \<Rightarrow> Some vs
      | (Some a, Some b) \<Rightarrow> Some (filter (\<lambda>organization. organization \<in> set b) a))"

definition intersect_organization_capability_maps ::
    "(uuid \<times> Capability set) list \<Rightarrow> (uuid \<times> Capability set) list \<Rightarrow> (uuid \<times> Capability set) list" where
  "intersect_organization_capability_maps captured current_map =
     List.map_filter (\<lambda>(organization, a).
       case aget current_map organization of
         None \<Rightarrow> None
       | Some b \<Rightarrow> if a \<inter> b \<noteq> {} then Some (organization, a \<inter> b) else None) captured"

subsection \<open>Decisions\<close>

fun principal_key_id :: "Principal \<Rightarrow> uuid option" where
  "principal_key_id (DeploymentManagementApiKey key_id) = Some key_id"
| "principal_key_id (OrganizationManagementApiKey _ key_id) = Some key_id"
| "principal_key_id _ = None"

definition is_system_administrator :: "RequestIdentity \<Rightarrow> bool" where
  "is_system_administrator self = ap_effective_system_administrator (ri_principal self)"

definition principal_capability_allows :: "RequestIdentity \<Rightarrow> Capability \<Rightarrow> bool" where
  "principal_capability_allows self capability =
     (let who = ri_principal self in
      if capability \<notin> ap_credential_capability_ceiling who then False
      else case ap_principal who of
        SeedAdmin \<Rightarrow> True
      | LocalUser _ \<Rightarrow> True
      | OrganizationGatewayApiKey _ _ \<Rightarrow> False
      | p \<Rightarrow> (case Option.bind (principal_key_id p)
                 (aget (management_keys_by_id (identity (snapshot (ri_generation self))))) of
               None \<Rightarrow> False
             | Some key \<Rightarrow> value_has_capability (mk_capability_ceiling key) capability))"

definition principal_scope_allows_organization :: "AuthenticatedPrincipal \<Rightarrow> uuid \<Rightarrow> bool" where
  "principal_scope_allows_organization who organization =
     (case ap_resource_scope who of
        ResourceDeployment \<Rightarrow>
          (case ap_management_organization_ceiling who of
             None \<Rightarrow> True | Some ceiling \<Rightarrow> organization \<in> set ceiling)
      | ResourceOrganization bound \<Rightarrow> bound = organization)"

definition organization_capability_allows :: "RequestIdentity \<Rightarrow> uuid \<Rightarrow> Capability \<Rightarrow> bool" where
  "organization_capability_allows self organization capability =
     (let who = ri_principal self in
      if \<not> organization_is_active (identity (snapshot (ri_generation self))) organization then False
      else if is_system_administrator self \<and> principal_scope_allows_organization who organization
      then principal_capability_allows self capability
      else case ap_principal who of
        LocalUser _ \<Rightarrow>
          principal_scope_allows_organization who organization
          \<and> (case aget (ap_effective_organization_capabilities who) organization of
               None \<Rightarrow> False | Some capabilities \<Rightarrow> capability \<in> capabilities)
      | OrganizationManagementApiKey bound _ \<Rightarrow> bound = organization \<and> principal_capability_allows self capability
      | _ \<Rightarrow> False)"

definition authorize :: "RequestIdentity \<Rightarrow> ManagementScope list \<Rightarrow> AuthorizationTarget \<Rightarrow> ApplicationError + unit" where
  "authorize self needed target =
     (let scopes = ap_effective_management_scopes (ri_principal self) in
      if list_ex (\<lambda>scope. \<not> ManagementScopeSet_contains scopes scope) needed then Inl AppForbidden
      else if (case target of
          TargetCurrentPrincipal \<Rightarrow> True
        | TargetSystem capability \<Rightarrow> is_system_administrator self \<and> principal_capability_allows self capability
        | TargetOrganization organization capability \<Rightarrow> organization_capability_allows self organization capability
        | TargetOperations write \<Rightarrow>
            ManagementScopeSet_contains scopes MgmtOperations
            \<and> ManagementScopeSet_contains scopes (if write then MgmtWrite else MgmtRead)
            \<and> is_system_administrator self
            \<and> principal_capability_allows self (if write then RecoverOperations else ReadOperations))
      then Inr () else Inl AppForbidden)"

definition required_scope :: "AuthorizationTarget \<Rightarrow> ManagementScope" where
  "required_scope self = (case self of TargetOperations True \<Rightarrow> MgmtWrite | _ \<Rightarrow> MgmtRead)"

definition organization_capability_names :: "RequestIdentity \<Rightarrow> uuid \<Rightarrow> string list" where
  "organization_capability_names self organization =
     map Capability_as_str (filter (organization_capability_allows self organization) Capability_ALL)"

subsection \<open>Management keys\<close>

definition overlap_accepted :: "ManagementKeyVerifier \<Rightarrow> byte list \<Rightarrow> int \<Rightarrow> bool" where
  "overlap_accepted verifier digest now =
     (case mk_overlap_digest verifier of
        None \<Rightarrow> False
      | Some overlap \<Rightarrow>
          (case mk_overlap_until verifier of None \<Rightarrow> False | Some until \<Rightarrow> until > now) \<and> digest_matches digest overlap)"

definition accepted_version :: "ManagementKeyVerifier \<Rightarrow> byte list \<Rightarrow> int \<Rightarrow> ApplicationError + string" where
  "accepted_version verifier digest now =
     (if digest_matches digest (mk_current_digest verifier) then Inr (accepted_version_id verifier)
      else if overlap_accepted verifier digest now then ok_or AppInvalidCredential (overlap_version_id verifier)
      else Inl AppInvalidCredential)"

definition key_usable :: "ManagementKeyVerifier \<Rightarrow> int \<Rightarrow> bool" where
  "key_usable verifier now \<longleftrightarrow>
     mk_active verifier \<and> (case mk_expires_at verifier of None \<Rightarrow> True | Some expiry \<Rightarrow> expiry > now)"

definition scope_active :: "IdentitySnapshot \<Rightarrow> ResourceScope \<Rightarrow> bool" where
  "scope_active ids scope =
     (case scope of ResourceDeployment \<Rightarrow> True | ResourceOrganization organization \<Rightarrow> organization_is_active ids organization)"

definition seed_identity :: "AuthorityExternals \<Rightarrow> byte list \<Rightarrow> RuntimeGeneration \<Rightarrow> string \<Rightarrow> RequestIdentity" where
  "seed_identity ax presented generation request =
     \<lparr>ri_principal =
        \<lparr>ap_principal = SeedAdmin, ap_authentication_method = MethodManagementApiKey,
         ap_effective_management_scopes = UNIV, ap_credential_capability_ceiling = set Capability_ALL,
         ap_effective_system_administrator = True, ap_effective_organization_capabilities = [],
         ap_resource_scope = ResourceDeployment, ap_session_id = None,
         ap_accepted_key_version_id = Some (ax_encode ax presented), ap_external_issuer_id = None,
         ap_external_subject = None, ap_management_organization_ceiling = None\<rparr>,
      ri_generation = generation, ri_request_id = request, csrf_validated = True\<rparr>"

definition authenticate_management_key ::
    "AuthorityExternals \<Rightarrow> byte list option \<Rightarrow> RuntimeGeneration option \<Rightarrow> int \<Rightarrow> string \<Rightarrow> string
      \<Rightarrow> ApplicationError + RequestIdentity" where
  "authenticate_management_key ax seed_version captured now raw_key request =
     (case ManagementKeyMaterial_parse (ax_decode ax) (ax_encode ax) raw_key of
        Inl _ \<Rightarrow> Inl AppInvalidCredential
      | Inr material \<Rightarrow>
     (case captured of
        None \<Rightarrow> Inl AppDependencyUnavailable
      | Some generation \<Rightarrow>
          let presented = seed_admin_key_version_id (ax_sha ax) material;
              ids = identity (snapshot generation) in
          if (case seed_version of None \<Rightarrow> False | Some expected \<Rightarrow> digest_matches expected presented)
          then Inr (seed_identity ax presented generation request)
          else
     (case aget (management_keys ids) (ManagementKeyMaterial_lookup_text (ax_encode ax) material) of
        None \<Rightarrow> Inl AppInvalidCredential
      | Some verifier \<Rightarrow>
     (case accepted_version verifier (management_key_digest (ax_sha ax) material) now of
        Inl e \<Rightarrow> Inl e
      | Inr version \<Rightarrow>
          if \<not> key_usable verifier now then Inl AppCredentialInactive
          else if \<not> scope_active ids (mk_resource_scope verifier) then Inl AppCredentialInactive
          else
     (case capabilities_from_value (mk_capability_ceiling verifier) of
        Inl e \<Rightarrow> Inl e
      | Inr ceiling \<Rightarrow>
          Inr \<lparr>ri_principal =
            \<lparr>ap_principal = (case mk_resource_scope verifier of
               ResourceDeployment \<Rightarrow> DeploymentManagementApiKey (mk_key_id verifier)
             | ResourceOrganization organization \<Rightarrow> OrganizationManagementApiKey organization (mk_key_id verifier)),
             ap_authentication_method = MethodManagementApiKey,
             ap_effective_management_scopes = mk_scopes verifier, ap_credential_capability_ceiling = ceiling,
             ap_effective_system_administrator = (mk_resource_scope verifier = ResourceDeployment
               \<and> aget (system_administrator_keys ids) (mk_key_id verifier) = Some True),
             ap_effective_organization_capabilities = [], ap_resource_scope = mk_resource_scope verifier,
             ap_session_id = None, ap_accepted_key_version_id = Some version, ap_external_issuer_id = None,
             ap_external_subject = None,
             ap_management_organization_ceiling = (case mk_resource_scope verifier of
               ResourceDeployment \<Rightarrow> None | ResourceOrganization organization \<Rightarrow> Some [organization])\<rparr>,
           ri_generation = generation, ri_request_id = request, csrf_validated = True\<rparr>)))))"

subsection \<open>Tokens\<close>

definition SESSION_COOKIE_PREFIX :: string where "SESSION_COOKIE_PREFIX = ''owlrora_session_v1''"
definition CSRF_PREFIX :: string where "CSRF_PREFIX = ''owlrora_csrf_v1''"

definition u64_to_be_bytes :: "nat \<Rightarrow> byte list" where
  "u64_to_be_bytes n = map (\<lambda>i. of_nat (n div 256 ^ (7 - i))) [0..<8]"

definition digest_bytes :: "AuthorityExternals \<Rightarrow> string \<Rightarrow> string \<Rightarrow> byte list" where
  "digest_bytes ax domain t =
     ax_sha ax (ascii ''owlrora/nonrecoverable/v1'' @ [0] @ u64_to_be_bytes (length domain) @ ascii domain @ ascii t)"

definition generate_token :: "AuthorityExternals \<Rightarrow> byte list \<Rightarrow> string \<Rightarrow> string \<Rightarrow> string \<times> byte list" where
  "generate_token ax random prefix domain =
     (let raw = prefix @ ''.'' @ ax_encode ax random in (raw, digest_bytes ax domain raw))"

text \<open>\<open>split_once\<close> on the first dot.\<close>

definition split_once :: "char \<Rightarrow> string \<Rightarrow> (string \<times> string) option" where
  "split_once c s =
     (if c \<in> set s then Some (takeWhile (\<lambda>x. x \<noteq> c) s, tl (dropWhile (\<lambda>x. x \<noteq> c) s)) else None)"

definition parse_and_digest_token ::
    "AuthorityExternals \<Rightarrow> string \<Rightarrow> string \<Rightarrow> string \<Rightarrow> ApplicationError + byte list" where
  "parse_and_digest_token ax raw prefix domain =
     (case split_once CHR ''.'' raw of
        None \<Rightarrow> Inl AppInvalidCredential
      | Some (actual_prefix, encoded) \<Rightarrow>
          if actual_prefix \<noteq> prefix \<or> CHR ''='' \<in> set encoded then Inl AppInvalidCredential
          else case ax_decode ax encoded of
            None \<Rightarrow> Inl AppInvalidCredential
          | Some bytes \<Rightarrow>
              if length bytes \<noteq> 32 \<or> ax_encode ax bytes \<noteq> encoded then Inl AppInvalidCredential
              else Inr (digest_bytes ax domain raw))"

subsection \<open>Sessions\<close>

text \<open>A row of \<open>web_sessions\<close>, and what the store keeps of the authentication commands.\<close>

record WebSession =
  ws_session_digest :: "byte list"
  ws_csrf_digest :: "byte list"
  ws_principal :: Principal
  ws_authentication_method :: string
  ws_management_api_key_id :: "uuid option"
  ws_accepted_key_version_id :: "string option"
  ws_external_issuer_id :: "uuid option"
  ws_external_subject :: "string option"
  ws_captured_management_scopes :: ManagementScopeSet
  ws_captured_resource_scope :: ResourceScope
  ws_captured_capability_ceiling :: json
  ws_captured_system_administrator :: bool
  ws_captured_organization_capabilities :: "(uuid \<times> Capability set) list"
  ws_captured_organization_ceiling :: "uuid list option"
  ws_status :: string
  ws_expires_at :: int

record AuditRecord =
  audit_actor :: "Actor option"
  audit_organization_id :: "uuid option"
  audit_resource_kind :: string
  audit_resource_id :: "uuid option"
  audit_operation_id :: string
  audit_outcome :: string
  audit_request_id :: string
  audit_changed_fields :: "string list"

record SessionStore =
  web_sessions :: "(uuid \<times> WebSession) list"
  session_audit :: "AuditRecord list"

definition organization_from_scope :: "ResourceScope \<Rightarrow> uuid option" where
  "organization_from_scope scope = (case scope of ResourceDeployment \<Rightarrow> None | ResourceOrganization organization \<Rightarrow> Some organization)"

definition session_audit_record :: "RequestIdentity \<Rightarrow> uuid option \<Rightarrow> uuid \<Rightarrow> string \<Rightarrow> string \<Rightarrow> AuditRecord" where
  "session_audit_record self organization session_id operation field =
     \<lparr>audit_actor = Some (Actor_from (ri_principal self)), audit_organization_id = organization,
      audit_resource_kind = ''web_session'', audit_resource_id = Some session_id, audit_operation_id = operation,
      audit_outcome = ''accepted'', audit_request_id = ri_request_id self, audit_changed_fields = [field]\<rparr>"

text \<open>
  The row of a new session; \<open>ceiling\<close> is \<open>captured_capability_ceiling\<close>.  The insert fails when its id or digest is
  already taken, and \<open>committed\<close> says whether the transaction reached its commit.
\<close>

definition new_session ::
    "RequestIdentity \<Rightarrow> string \<Rightarrow> byte list \<Rightarrow> byte list \<Rightarrow> json \<Rightarrow> int \<Rightarrow> WebSession" where
  "new_session self auth_method session_digest csrf_digest ceiling expires_at =
     (let p = ri_principal self in
      \<lparr>ws_session_digest = session_digest, ws_csrf_digest = csrf_digest, ws_principal = ap_principal p,
       ws_authentication_method = auth_method,
       ws_management_api_key_id = (if auth_method = ''external_session'' then None else principal_key_id (ap_principal p)),
       ws_accepted_key_version_id = (if auth_method = ''external_session'' then None else ap_accepted_key_version_id p),
       ws_external_issuer_id = (if auth_method = ''external_session'' then ap_external_issuer_id p else None),
       ws_external_subject = (if auth_method = ''external_session'' then ap_external_subject p else None),
       ws_captured_management_scopes = ap_effective_management_scopes p,
       ws_captured_resource_scope = ap_resource_scope p, ws_captured_capability_ceiling = ceiling,
       ws_captured_system_administrator = ap_effective_system_administrator p,
       ws_captured_organization_capabilities = ap_effective_organization_capabilities p,
       ws_captured_organization_ceiling = ap_management_organization_ceiling p,
       ws_status = ''active'', ws_expires_at = expires_at\<rparr>)"

definition insert_session ::
    "bool \<Rightarrow> uuid \<Rightarrow> WebSession \<Rightarrow> AuditRecord \<Rightarrow> SessionStore \<Rightarrow> (ApplicationError + unit) \<times> SessionStore" where
  "insert_session committed session_id row audit store =
     (if \<not> committed \<or> aget (web_sessions store) session_id \<noteq> None
         \<or> list_ex (\<lambda>(_, r). ws_session_digest r = ws_session_digest row) (web_sessions store)
      then (Inl AppDependencyUnavailable, store)
      else (Inr (), store\<lparr>web_sessions := web_sessions store @ [(session_id, row)],
              session_audit := session_audit store @ [audit]\<rparr>))"

record SessionRandom =
  sr_session :: "byte list"
  sr_csrf :: "byte list"
  sr_id :: uuid

definition captured_key_ceiling :: "RequestIdentity \<Rightarrow> ApplicationError + json" where
  "captured_key_ceiling self =
     (case ap_principal (ri_principal self) of
        SeedAdmin \<Rightarrow> Inr (JArray [JString ''system_administration''])
      | LocalUser _ \<Rightarrow> Inl AppInvalidCredential
      | OrganizationGatewayApiKey _ _ \<Rightarrow> Inl AppInvalidCredential
      | p \<Rightarrow> ok_or AppCredentialInactive (map_option mk_capability_ceiling
               (Option.bind (principal_key_id p)
                 (aget (management_keys_by_id (identity (snapshot (ri_generation self))))))))"

definition create_key_session ::
    "AuthorityExternals \<Rightarrow> SessionRandom \<Rightarrow> nat \<Rightarrow> bool \<Rightarrow> int \<Rightarrow> RequestIdentity \<Rightarrow> SessionStore
      \<Rightarrow> (ApplicationError + string \<times> string) \<times> SessionStore" where
  "create_key_session ax random lifetime committed now self store =
     (if ap_authentication_method (ri_principal self) \<noteq> MethodManagementApiKey then (Inl AppInvalidCredential, store)
      else
        let (raw_session, session_digest) = generate_token ax (sr_session random) SESSION_COOKIE_PREFIX ''session'';
            (csrf_token, csrf_digest) = generate_token ax (sr_csrf random) CSRF_PREFIX ''csrf'' in
        case captured_key_ceiling self of
          Inl e \<Rightarrow> (Inl e, store)
        | Inr ceiling \<Rightarrow>
            (case insert_session committed (sr_id random)
                    (new_session self ''management_api_key_session'' session_digest csrf_digest ceiling (now + int lifetime))
                    (session_audit_record self (organization_from_scope (ap_resource_scope (ri_principal self)))
                       (sr_id random) ''auth.management_key_session.create'' ''session'') store of
               (Inl e, store) \<Rightarrow> (Inl e, store)
             | (Inr _, store) \<Rightarrow> (Inr (raw_session, csrf_token), store)))"

definition create_external_session ::
    "AuthorityExternals \<Rightarrow> SessionRandom \<Rightarrow> nat \<Rightarrow> bool \<Rightarrow> int \<Rightarrow> RequestIdentity \<Rightarrow> SessionStore
      \<Rightarrow> (ApplicationError + string \<times> string) \<times> SessionStore" where
  "create_external_session ax random lifetime committed now self store =
     (let p = ri_principal self in
      if ap_authentication_method p \<noteq> MethodExternalJwt \<or> (case ap_principal p of LocalUser _ \<Rightarrow> False | _ \<Rightarrow> True)
         \<or> ap_external_issuer_id p = None \<or> ap_external_subject p = None
      then (Inl AppInvalidCredential, store)
      else
        let (raw_session, session_digest) = generate_token ax (sr_session random) SESSION_COOKIE_PREFIX ''session'';
            (csrf_token, csrf_digest) = generate_token ax (sr_csrf random) CSRF_PREFIX ''csrf'' in
        (case insert_session committed (sr_id random)
                (new_session self ''external_session'' session_digest csrf_digest
                   (capabilities_to_value (ap_credential_capability_ceiling p)) (now + int lifetime))
                (session_audit_record self None (sr_id random) ''auth.external_session.create'' ''session'') store of
           (Inl e, store) \<Rightarrow> (Inl e, store)
         | (Inr _, store) \<Rightarrow> (Inr (raw_session, csrf_token), store)))"

text \<open>What a session still allows: the captured authority cut down to that of the generation.\<close>

record SessionAuthority =
  sa_scopes :: ManagementScopeSet
  sa_capabilities :: "Capability set"
  sa_system_administrator :: bool
  sa_organization_capabilities :: "(uuid \<times> Capability set) list"
  sa_organizations :: "uuid list option"

definition version_valid :: "ManagementKeyVerifier \<Rightarrow> string option \<Rightarrow> int \<Rightarrow> bool" where
  "version_valid verifier accepted now \<longleftrightarrow>
     accepted = Some (accepted_version_id verifier)
     \<or> accepted = overlap_version_id verifier
       \<and> (case mk_overlap_until verifier of None \<Rightarrow> False | Some until \<Rightarrow> until > now)"

definition validate_key_session ::
    "RuntimeGeneration \<Rightarrow> int \<Rightarrow> WebSession \<Rightarrow> Capability set \<Rightarrow> uuid \<Rightarrow> bool \<Rightarrow> ApplicationError + SessionAuthority" where
  "validate_key_session generation now row captured_capabilities key_id deployment =
     (let ids = identity (snapshot generation) in
      case aget (management_keys_by_id ids) key_id of
        None \<Rightarrow> Inl AppCredentialInactive
      | Some verifier \<Rightarrow>
          if \<not> key_usable verifier now \<or> mk_resource_scope verifier \<noteq> ws_captured_resource_scope row
          then Inl AppCredentialInactive
          else if \<not> version_valid verifier (ws_accepted_key_version_id row) now then Inl AppCredentialInactive
          else if \<not> scope_active ids (ws_captured_resource_scope row) then Inl AppCredentialInactive
          else
            (case capabilities_from_value (mk_capability_ceiling verifier) of
               Inl e \<Rightarrow> Inl e
             | Inr now_capabilities \<Rightarrow>
                 Inr \<lparr>sa_scopes = ManagementScopeSet_intersection (ws_captured_management_scopes row) (mk_scopes verifier),
                      sa_capabilities = captured_capabilities \<inter> now_capabilities,
                      sa_system_administrator = (ws_captured_system_administrator row \<and> deployment
                        \<and> aget (system_administrator_keys ids) key_id = Some True),
                      sa_organization_capabilities = [],
                      sa_organizations = ws_captured_organization_ceiling row\<rparr>))"

definition validate_user_session ::
    "RuntimeGeneration \<Rightarrow> WebSession \<Rightarrow> Capability set \<Rightarrow> uuid \<Rightarrow> ApplicationError + SessionAuthority" where
  "validate_user_session generation row captured_capabilities user_id =
     (let ids = identity (snapshot generation) in
      if aget (active_users ids) user_id \<noteq> Some True then Inl AppCredentialInactive
      else case ws_external_issuer_id row of
        None \<Rightarrow> Inl AppCredentialInactive
      | Some issuer_key \<Rightarrow>
     (case option_filter issuer_active (aget (external_issuers_by_id ids) issuer_key) of
        None \<Rightarrow> Inl AppCredentialInactive
      | Some issuer \<Rightarrow>
     (case ws_external_subject row of
        None \<Rightarrow> Inl AppCredentialInactive
      | Some subject \<Rightarrow>
          if aget (external_bindings ids) (issuer_key, subject) \<noteq> Some user_id then Inl AppCredentialInactive
          else
            let organizations = intersect_organization_ceilings (ws_captured_organization_ceiling row)
                  (ManagementOrganizationCeiling_as_optional_vec (management_organization_ceiling issuer));
                capabilities = captured_capabilities \<inter> issuer_management_capabilities issuer;
                (administrator, organization_capabilities) =
                  local_user_authority generation user_id capabilities organizations in
            Inr \<lparr>sa_scopes = ManagementScopeSet_intersection (ws_captured_management_scopes row)
                   (issuer_management_scopes issuer),
                 sa_capabilities = capabilities,
                 sa_system_administrator = (ws_captured_system_administrator row \<and> administrator),
                 sa_organization_capabilities = intersect_organization_capability_maps
                   (ws_captured_organization_capabilities row) organization_capabilities,
                 sa_organizations = organizations\<rparr>)))"

definition validate_session_principal ::
    "AuthorityExternals \<Rightarrow> byte list option \<Rightarrow> RuntimeGeneration \<Rightarrow> int \<Rightarrow> WebSession \<Rightarrow> Capability set
      \<Rightarrow> ApplicationError + SessionAuthority" where
  "validate_session_principal ax seed_version generation now row captured_capabilities =
     (case ws_principal row of
        SeedAdmin \<Rightarrow>
          if map_option (ax_encode ax) seed_version \<noteq> ws_accepted_key_version_id row then Inl AppCredentialInactive
          else Inr \<lparr>sa_scopes = ManagementScopeSet_intersection (ws_captured_management_scopes row) UNIV,
                    sa_capabilities = captured_capabilities,
                    sa_system_administrator = ws_captured_system_administrator row,
                    sa_organization_capabilities = ws_captured_organization_capabilities row,
                    sa_organizations = ws_captured_organization_ceiling row\<rparr>
      | DeploymentManagementApiKey key_id \<Rightarrow>
          validate_key_session generation now row captured_capabilities key_id True
      | OrganizationManagementApiKey _ key_id \<Rightarrow>
          validate_key_session generation now row captured_capabilities key_id False
      | LocalUser user_id \<Rightarrow> validate_user_session generation row captured_capabilities user_id
      | OrganizationGatewayApiKey _ _ \<Rightarrow> Inl AppInvalidCredential)"

fun session_method :: "string \<Rightarrow> ApplicationError + AuthenticationMethod" where
  "session_method m =
     (if m = ''management_api_key_session'' then Inr MethodManagementApiKeySession
      else if m = ''external_session'' then Inr MethodExternalSession else Inl AppInternal)"

definition csrf_matches :: "AuthorityExternals \<Rightarrow> string option \<Rightarrow> WebSession \<Rightarrow> bool" where
  "csrf_matches ax token row =
     (case token of None \<Rightarrow> False | Some t \<Rightarrow> digest_matches (digest_bytes ax ''csrf'' t) (ws_csrf_digest row))"

definition find_session :: "SessionStore \<Rightarrow> byte list \<Rightarrow> (uuid \<times> WebSession) option" where
  "find_session store digest = find (\<lambda>(_, row). ws_session_digest row = digest) (web_sessions store)"

definition authenticate_session ::
    "AuthorityExternals \<Rightarrow> byte list option \<Rightarrow> RuntimeGeneration option \<Rightarrow> int \<Rightarrow> int \<Rightarrow> string \<Rightarrow> string option \<Rightarrow> string
      \<Rightarrow> SessionStore \<Rightarrow> ApplicationError + RequestIdentity" where
  "authenticate_session ax seed_version captured now later raw_session csrf_token request store =
     (case captured of
        None \<Rightarrow> Inl AppDependencyUnavailable
      | Some generation \<Rightarrow>
     (case parse_and_digest_token ax raw_session SESSION_COOKIE_PREFIX ''session'' of
        Inl e \<Rightarrow> Inl e
      | Inr digest \<Rightarrow>
     (case find_session store digest of
        None \<Rightarrow> Inl AppInvalidCredential
      | Some (session_id, row) \<Rightarrow>
          if ws_status row \<noteq> ''active'' \<or> ws_expires_at row \<le> now then Inl AppCredentialInactive
          else
     (case capabilities_from_value (ws_captured_capability_ceiling row) of
        Inl e \<Rightarrow> Inl e
      | Inr captured_capabilities \<Rightarrow>
     (case validate_session_principal ax seed_version generation later row captured_capabilities of
        Inl e \<Rightarrow> Inl e
      | Inr authority \<Rightarrow>
     (case session_method (ws_authentication_method row) of
        Inl e \<Rightarrow> Inl e
      | Inr auth_method \<Rightarrow>
          Inr \<lparr>ri_principal =
            \<lparr>ap_principal = ws_principal row, ap_authentication_method = auth_method,
             ap_effective_management_scopes = sa_scopes authority,
             ap_credential_capability_ceiling = sa_capabilities authority,
             ap_effective_system_administrator = sa_system_administrator authority,
             ap_effective_organization_capabilities = sa_organization_capabilities authority,
             ap_resource_scope = ws_captured_resource_scope row, ap_session_id = Some session_id,
             ap_accepted_key_version_id = ws_accepted_key_version_id row,
             ap_external_issuer_id = ws_external_issuer_id row, ap_external_subject = ws_external_subject row,
             ap_management_organization_ceiling = sa_organizations authority\<rparr>,
           ri_generation = generation, ri_request_id = request,
           csrf_validated = csrf_matches ax csrf_token row\<rparr>))))))"

definition logout :: "bool \<Rightarrow> RequestIdentity \<Rightarrow> SessionStore \<Rightarrow> (ApplicationError + unit) \<times> SessionStore" where
  "logout committed self store =
     (case ap_session_id (ri_principal self) of
        None \<Rightarrow> (Inl AppInvalidCredential, store)
      | Some session_id \<Rightarrow>
     (case option_filter (\<lambda>row. ws_status row = ''active'') (aget (web_sessions store) session_id) of
        None \<Rightarrow> (Inl AppCredentialInactive, store)
      | Some row \<Rightarrow>
          if \<not> committed then (Inl AppDependencyUnavailable, store)
          else (Inr (), store\<lparr>web_sessions := aput session_id (row\<lparr>ws_status := ''revoked''\<rparr>) (web_sessions store),
                  session_audit := session_audit store @ [session_audit_record self
                    (organization_from_scope (ap_resource_scope (ri_principal self))) session_id
                    ''session.logout'' ''status'']\<rparr>)))"

subsection \<open>The limit on logins\<close>

record RateWindow =
  started_at :: nat
  window_count :: nat

record OidcLoginRateState =
  rate_deployment :: "RateWindow option"
  rate_issuers :: "(string \<times> RateWindow) list"
  rate_sources :: "((string \<times> string) \<times> RateWindow) list"

definition check_window :: "RateWindow \<Rightarrow> nat \<Rightarrow> nat \<Rightarrow> nat \<Rightarrow> RateWindow \<times> bool" where
  "check_window window now duration maximum =
     (let w = (if now - started_at window \<ge> duration then \<lparr>started_at = now, window_count = 0\<rparr> else window) in
      if window_count w \<ge> maximum then (w, False) else (w\<lparr>window_count := window_count w + 1\<rparr>, True))"

definition window_or_new :: "RateWindow option \<Rightarrow> nat \<Rightarrow> RateWindow" where
  "window_or_new w now = (case w of None \<Rightarrow> \<lparr>started_at = now, window_count = 0\<rparr> | Some w \<Rightarrow> w)"

definition retain_windows :: "nat \<Rightarrow> ('k \<times> RateWindow) list \<Rightarrow> ('k \<times> RateWindow) list" where
  "retain_windows now = filter (\<lambda>(_, w). now - started_at w < 60000)"

definition OidcLoginRateState_check ::
    "OidcLoginRateState \<Rightarrow> nat \<Rightarrow> string \<Rightarrow> string \<Rightarrow> (ApplicationError + unit) \<times> OidcLoginRateState" where
  "OidcLoginRateState_check self now source issuer =
     (let self = self\<lparr>rate_issuers := retain_windows now (rate_issuers self),
            rate_sources := retain_windows now (rate_sources self)\<rparr>;
          (deployment, allowed) = check_window (window_or_new (rate_deployment self) now) now 60000 600;
          self = self\<lparr>rate_deployment := Some deployment\<rparr> in
      if \<not> allowed then (Inl AppRateLimited, self)
      else
        let (w, allowed) = check_window (window_or_new (aget (rate_issuers self) issuer) now) now 60000 120;
            self = self\<lparr>rate_issuers := aput issuer w (rate_issuers self)\<rparr> in
        if \<not> allowed then (Inl AppRateLimited, self)
        else if length (rate_sources self) \<ge> 10000 \<and> aget (rate_sources self) (source, issuer) = None
        then (Inl AppRateLimited, self)
        else
          let (w, allowed) = check_window (window_or_new (aget (rate_sources self) (source, issuer)) now) now 60000 10;
              self = self\<lparr>rate_sources := aput (source, issuer) w (rate_sources self)\<rparr> in
          (if allowed then Inr () else Inl AppRateLimited, self))"

end
