(* ===== verification/AuthorityLaws.thy ===== *)
theory AuthorityLaws
  imports Authority Routing
begin

section \<open>A session never outgrows its credential\<close>

text \<open>
  What management authority rests on: the capabilities of a role, what a session may still do when the
  configuration behind it has been tightened, what logging out ends, and how many logins one source may start.
\<close>

subsection \<open>Roles\<close>

lemma role_allows_mono:
  "role_allows Member c \<Longrightarrow> role_allows Admin c"
  "role_allows Admin c \<Longrightarrow> role_allows Owner c"
  by (cases c; simp add: role_allows_def)+

subsection \<open>Lists filtered into maps\<close>

lemma map_filter_member:
  "(k, v) \<in> set (List.map_filter f xs) \<Longrightarrow> \<exists>x \<in> set xs. f x = Some (k, v)"
  by (auto simp: List.map_filter_def)

lemma member_entry_Some:
  "member_entry ids u ceiling orgs entry = Some (o', a) \<longleftrightarrow>
     fst (fst entry) = o' \<and> snd (fst entry) = u \<and> organization_is_active ids o'
     \<and> (case orgs of None \<Rightarrow> True | Some v \<Rightarrow> o' \<in> set v)
     \<and> a = {c \<in> ceiling. role_allows (member_role (snd entry)) c} \<and> a \<noteq> {}"
  unfolding member_entry_def Let_def by (auto split: if_splits option.splits)

lemma local_authority_member:
  assumes authority: "local_user_authority generation u ceiling orgs = (administrator, caps)" and caps: "(o', a) \<in> set caps"
  shows "organization_is_active (identity (snapshot generation)) o'
    \<and> (\<exists>m. ((o', u), m) \<in> set (memberships (identity (snapshot generation)))
         \<and> a = {c \<in> ceiling. role_allows (member_role m) c})
    \<and> (case orgs of None \<Rightarrow> True | Some v \<Rightarrow> o' \<in> set v)"
proof -
  have "(o', a) \<in> set (List.map_filter (member_entry (identity (snapshot generation)) u ceiling orgs)
      (memberships (identity (snapshot generation))))"
    using authority caps by (simp add: local_user_authority_def Let_def)
  then obtain entry where x: "entry \<in> set (memberships (identity (snapshot generation)))"
    and kept: "member_entry (identity (snapshot generation)) u ceiling orgs entry = Some (o', a)"
    by (blast dest: map_filter_member)
  obtain organization member m where entry: "entry = ((organization, member), m)" by (metis surj_pair)
  show ?thesis using x kept unfolding member_entry_Some entry fst_conv snd_conv by blast
qed

lemma capability_maps_member:
  assumes "aget (intersect_organization_capability_maps captured now_map) o' = Some a"
  shows "\<exists>x y. (o', x) \<in> set captured \<and> aget now_map o' = Some y \<and> a = x \<inter> y"
proof -
  have "(o', a) \<in> set (intersect_organization_capability_maps captured now_map)"
    using assms by (rule map_of_SomeD)
  then show ?thesis
    unfolding intersect_organization_capability_maps_def
    by (auto dest!: map_filter_member split: option.split_asm if_split_asm)
qed

lemma ceilings_member:
  assumes "case intersect_organization_ceilings captured now_ceiling of None \<Rightarrow> True | Some v \<Rightarrow> o' \<in> set v"
  shows "(case captured of None \<Rightarrow> True | Some v \<Rightarrow> o' \<in> set v) \<and> (case now_ceiling of None \<Rightarrow> True | Some v \<Rightarrow> o' \<in> set v)"
  using assms by (auto simp: intersect_organization_ceilings_def split: option.splits)

subsection \<open>Sessions\<close>

lemma authenticate_session_cases:
  assumes "authenticate_session ax seed captured now later raw csrf request store = Inr self"
  obtains generation digest session_id row capabilities authority auth_method where
    "captured = Some generation" "parse_and_digest_token ax raw SESSION_COOKIE_PREFIX ''session'' = Inr digest"
    "find_session store digest = Some (session_id, row)" "ws_status row = ''active''" "now < ws_expires_at row"
    "capabilities_from_value (ws_captured_capability_ceiling row) = Inr capabilities"
    "validate_session_principal ax seed generation later row capabilities = Inr authority"
    "session_method (ws_authentication_method row) = Inr auth_method"
    "self = \<lparr>ri_principal =
            \<lparr>ap_principal = ws_principal row, ap_authentication_method = auth_method,
             ap_effective_management_scopes = sa_scopes authority,
             ap_credential_capability_ceiling = sa_capabilities authority,
             ap_effective_system_administrator = sa_system_administrator authority,
             ap_effective_organization_capabilities = sa_organization_capabilities authority,
             ap_resource_scope = ws_captured_resource_scope row, ap_session_id = Some session_id,
             ap_accepted_key_version_id = ws_accepted_key_version_id row,
             ap_external_issuer_id = ws_external_issuer_id row, ap_external_subject = ws_external_subject row,
             ap_management_organization_ceiling = sa_organizations authority\<rparr>,
           ri_generation = generation, ri_request_id = request, csrf_validated = csrf_matches ax csrf row\<rparr>"
  using assms unfolding authenticate_session_def
  by (simp split: option.split_asm sum.split_asm if_split_asm prod.split_asm del: session_method.simps)

text \<open>The parts of a validated session, by kind of principal.\<close>

lemma validate_key_session_InrD:
  assumes "validate_key_session generation now row captured key_id deployment = Inr authority"
  shows "\<exists>verifier current_caps. aget (management_keys_by_id (identity (snapshot generation))) key_id = Some verifier
    \<and> key_usable verifier now \<and> version_valid verifier (ws_accepted_key_version_id row) now
    \<and> mk_resource_scope verifier = ws_captured_resource_scope row
    \<and> scope_active (identity (snapshot generation)) (ws_captured_resource_scope row)
    \<and> capabilities_from_value (mk_capability_ceiling verifier) = Inr current_caps
    \<and> sa_scopes authority = ws_captured_management_scopes row \<inter> mk_scopes verifier
    \<and> sa_capabilities authority = captured \<inter> current_caps
    \<and> (sa_system_administrator authority = (ws_captured_system_administrator row \<and> deployment
         \<and> aget (system_administrator_keys (identity (snapshot generation))) key_id = Some True))
    \<and> sa_organization_capabilities authority = [] \<and> sa_organizations authority = ws_captured_organization_ceiling row"
  using assms unfolding validate_key_session_def
  by (auto simp: Let_def ManagementScopeSet_intersection_def split: option.split_asm if_split_asm sum.split_asm)

lemma validate_user_session_InrD:
  assumes "validate_user_session generation row captured u = Inr authority"
  shows "\<exists>issuer_key issuer subject administrator organization_capabilities.
    aget (active_users (identity (snapshot generation))) u = Some True
    \<and> ws_external_issuer_id row = Some issuer_key \<and> ws_external_subject row = Some subject
    \<and> aget (external_issuers_by_id (identity (snapshot generation))) issuer_key = Some issuer \<and> issuer_active issuer
    \<and> aget (external_bindings (identity (snapshot generation))) (issuer_key, subject) = Some u
    \<and> sa_organizations authority = intersect_organization_ceilings (ws_captured_organization_ceiling row)
         (ManagementOrganizationCeiling_as_optional_vec (management_organization_ceiling issuer))
    \<and> sa_capabilities authority = captured \<inter> issuer_management_capabilities issuer
    \<and> local_user_authority generation u (sa_capabilities authority) (sa_organizations authority)
         = (administrator, organization_capabilities)
    \<and> sa_scopes authority = ws_captured_management_scopes row \<inter> issuer_management_scopes issuer
    \<and> (sa_system_administrator authority = (ws_captured_system_administrator row \<and> administrator))
    \<and> sa_organization_capabilities authority
        = intersect_organization_capability_maps (ws_captured_organization_capabilities row) organization_capabilities"
  using assms unfolding validate_user_session_def
  by (auto simp: Let_def ManagementScopeSet_intersection_def option_filter_def
      split: option.split_asm if_split_asm prod.split_asm)

text \<open>What bounds the authority of a session: what its row captured when it was created, \<dots>\<close>

definition captured_bound :: "WebSession \<Rightarrow> RequestIdentity \<Rightarrow> bool" where
  "captured_bound row self \<longleftrightarrow> (let who = ri_principal self in
     ap_effective_management_scopes who \<subseteq> ws_captured_management_scopes row
     \<and> (\<exists>captured. capabilities_from_value (ws_captured_capability_ceiling row) = Inr captured
          \<and> ap_credential_capability_ceiling who \<subseteq> captured)
     \<and> (ap_effective_system_administrator who \<longrightarrow> ws_captured_system_administrator row)
     \<and> ap_resource_scope who = ws_captured_resource_scope row
     \<and> (\<forall>v. ws_captured_organization_ceiling row = Some v \<longrightarrow>
          (\<exists>w. ap_management_organization_ceiling who = Some w \<and> set w \<subseteq> set v))
     \<and> (\<forall>org caps. aget (ap_effective_organization_capabilities who) org = Some caps \<longrightarrow>
          (\<exists>captured. (org, captured) \<in> set (ws_captured_organization_capabilities row) \<and> caps \<subseteq> captured)))"

text \<open>\<dots> what the generation gives its management key now, \<dots>\<close>

definition key_bound :: "IdentitySnapshot \<Rightarrow> int \<Rightarrow> WebSession \<Rightarrow> uuid \<Rightarrow> RequestIdentity \<Rightarrow> bool" where
  "key_bound ids now row key_id self \<longleftrightarrow> (let who = ri_principal self in
     \<exists>verifier caps. aget (management_keys_by_id ids) key_id = Some verifier
       \<and> mk_active verifier \<and> (\<forall>t. mk_expires_at verifier = Some t \<longrightarrow> now < t)
       \<and> (ws_accepted_key_version_id row = Some (accepted_version_id verifier)
          \<or> ws_accepted_key_version_id row = overlap_version_id verifier
            \<and> (\<exists>t. mk_overlap_until verifier = Some t \<and> now < t))
       \<and> mk_resource_scope verifier = ws_captured_resource_scope row
       \<and> (\<forall>org. ws_captured_resource_scope row = ResourceOrganization org \<longrightarrow> aget (active_organizations ids) org = Some True)
       \<and> capabilities_from_value (mk_capability_ceiling verifier) = Inr caps
       \<and> ap_effective_management_scopes who \<subseteq> mk_scopes verifier \<and> ap_credential_capability_ceiling who \<subseteq> caps
       \<and> (ap_effective_system_administrator who \<longrightarrow> ws_principal row = DeploymentManagementApiKey key_id
            \<and> aget (system_administrator_keys ids) key_id = Some True)
       \<and> ap_effective_organization_capabilities who = [])"

text \<open>\<dots> or what it gives its user now, through the issuer and the subject the session was created for.\<close>

definition within_ceiling :: "uuid list option \<Rightarrow> uuid \<Rightarrow> bool" where
  "within_ceiling ceiling org \<longleftrightarrow> (\<forall>v. ceiling = Some v \<longrightarrow> org \<in> set v)"

definition user_bound :: "IdentitySnapshot \<Rightarrow> WebSession \<Rightarrow> uuid \<Rightarrow> ExternalIssuerSnapshot \<Rightarrow> RequestIdentity \<Rightarrow> bool" where
  "user_bound ids row u issuer self \<longleftrightarrow> (let who = ri_principal self in
     aget (active_users ids) u = Some True
     \<and> (\<exists>issuer_key subject. ws_external_issuer_id row = Some issuer_key \<and> ws_external_subject row = Some subject
          \<and> aget (external_issuers_by_id ids) issuer_key = Some issuer \<and> issuer_active issuer
          \<and> aget (external_bindings ids) (issuer_key, subject) = Some u)
     \<and> ap_effective_management_scopes who \<subseteq> issuer_management_scopes issuer
     \<and> ap_credential_capability_ceiling who \<subseteq> issuer_management_capabilities issuer
     \<and> (\<forall>v. ManagementOrganizationCeiling_as_optional_vec (management_organization_ceiling issuer) = Some v \<longrightarrow>
          (\<exists>w. ap_management_organization_ceiling who = Some w \<and> set w \<subseteq> set v))
     \<and> (ap_effective_system_administrator who \<longrightarrow> SystemAdministration \<in> ap_credential_capability_ceiling who
          \<and> aget (system_administrator_users ids) u = Some True)
     \<and> (\<forall>org caps. aget (ap_effective_organization_capabilities who) org = Some caps \<longrightarrow>
          aget (active_organizations ids) org = Some True \<and> within_ceiling (ap_management_organization_ceiling who) org
          \<and> caps \<subseteq> ap_credential_capability_ceiling who
          \<and> (\<exists>m. ((org, u), m) \<in> set (memberships ids) \<and> (\<forall>c \<in> caps. role_allows (member_role m) c))))"

definition session_bound :: "AuthorityExternals \<Rightarrow> byte list option \<Rightarrow> IdentitySnapshot \<Rightarrow> int \<Rightarrow> WebSession \<Rightarrow> RequestIdentity \<Rightarrow> bool" where
  "session_bound ax seed ids now row self \<longleftrightarrow>
     captured_bound row self
     \<and> (case ws_principal row of
          SeedAdmin \<Rightarrow> ws_accepted_key_version_id row = map_option (ax_encode ax) seed
        | DeploymentManagementApiKey key_id \<Rightarrow> key_bound ids now row key_id self
        | OrganizationManagementApiKey _ key_id \<Rightarrow> key_bound ids now row key_id self
        | LocalUser u \<Rightarrow> (\<exists>issuer. user_bound ids row u issuer self)
        | OrganizationGatewayApiKey _ _ \<Rightarrow> False)"

text \<open>An identity with the authority that was found for a row.\<close>

definition identity_of :: "WebSession \<Rightarrow> SessionAuthority \<Rightarrow> RequestIdentity \<Rightarrow> bool" where
  "identity_of row authority self \<longleftrightarrow> (let who = ri_principal self in
     ap_effective_management_scopes who = sa_scopes authority
     \<and> ap_credential_capability_ceiling who = sa_capabilities authority
     \<and> ap_effective_system_administrator who = sa_system_administrator authority
     \<and> ap_effective_organization_capabilities who = sa_organization_capabilities authority
     \<and> ap_resource_scope who = ws_captured_resource_scope row
     \<and> ap_management_organization_ceiling who = sa_organizations authority)"

lemma ceilings_narrow:
  "captured = Some v \<or> now_ceiling = Some v
    \<Longrightarrow> \<exists>w. intersect_organization_ceilings captured now_ceiling = Some w \<and> set w \<subseteq> set v"
  by (auto simp: intersect_organization_ceilings_def split: option.splits)

lemma key_session_bound:
  assumes valid: "validate_key_session generation now row captured key_id deployment = Inr authority"
    and self: "identity_of row authority self" and ceiling: "capabilities_from_value (ws_captured_capability_ceiling row) = Inr captured"
    and principal: "deployment \<longrightarrow> ws_principal row = DeploymentManagementApiKey key_id"
  shows "captured_bound row self \<and> key_bound (identity (snapshot generation)) now row key_id self"
proof -
  let ?ids = "identity (snapshot generation)"
  obtain verifier caps where v: "aget (management_keys_by_id ?ids) key_id = Some verifier"
    "key_usable verifier now" "version_valid verifier (ws_accepted_key_version_id row) now"
    "mk_resource_scope verifier = ws_captured_resource_scope row" "scope_active ?ids (ws_captured_resource_scope row)"
    "capabilities_from_value (mk_capability_ceiling verifier) = Inr caps"
    "sa_scopes authority = ws_captured_management_scopes row \<inter> mk_scopes verifier"
    "sa_capabilities authority = captured \<inter> caps"
    "sa_system_administrator authority = (ws_captured_system_administrator row \<and> deployment
       \<and> aget (system_administrator_keys ?ids) key_id = Some True)"
    "sa_organization_capabilities authority = []" "sa_organizations authority = ws_captured_organization_ceiling row"
    using validate_key_session_InrD [OF valid] by blast
  have "captured_bound row self"
    using self ceiling v(7-11) by (simp add: captured_bound_def identity_of_def Let_def)
  moreover have "key_bound ?ids now row key_id self"
    unfolding key_bound_def Let_def
    by (rule exI [of _ verifier], rule exI [of _ caps])
      (use self v principal in \<open>auto simp: identity_of_def Let_def key_usable_def version_valid_def scope_active_def
        organization_is_active_def split: option.split_asm\<close>)
  ultimately show ?thesis ..
qed

lemma user_session_bound:
  assumes valid: "validate_user_session generation row captured u = Inr authority"
    and self: "identity_of row authority self" and ceiling: "capabilities_from_value (ws_captured_capability_ceiling row) = Inr captured"
  shows "captured_bound row self \<and> (\<exists>issuer. user_bound (identity (snapshot generation)) row u issuer self)"
proof -
  let ?ids = "identity (snapshot generation)"
  obtain issuer_key issuer subject administrator now_map where
    found: "aget (active_users ?ids) u = Some True"
      "ws_external_issuer_id row = Some issuer_key" "ws_external_subject row = Some subject"
      "aget (external_issuers_by_id ?ids) issuer_key = Some issuer" "issuer_active issuer"
      "aget (external_bindings ?ids) (issuer_key, subject) = Some u"
    and orgs: "sa_organizations authority = intersect_organization_ceilings (ws_captured_organization_ceiling row)
       (ManagementOrganizationCeiling_as_optional_vec (management_organization_ceiling issuer))"
    and capable: "sa_capabilities authority = captured \<inter> issuer_management_capabilities issuer"
    and local: "local_user_authority generation u (sa_capabilities authority) (sa_organizations authority) = (administrator, now_map)"
    and scopes: "sa_scopes authority = ws_captured_management_scopes row \<inter> issuer_management_scopes issuer"
    and admin: "sa_system_administrator authority = (ws_captured_system_administrator row \<and> administrator)"
    and map: "sa_organization_capabilities authority
      = intersect_organization_capability_maps (ws_captured_organization_capabilities row) now_map"
    using validate_user_session_InrD [OF valid] by blast
  have administrator: "administrator \<longrightarrow> SystemAdministration \<in> sa_capabilities authority
      \<and> aget (system_administrator_users ?ids) u = Some True"
    using local by (auto simp: local_user_authority_def Let_def)
  have member: "(\<exists>c. (org, c) \<in> set (ws_captured_organization_capabilities row) \<and> caps \<subseteq> c)
      \<and> aget (active_organizations ?ids) org = Some True \<and> within_ceiling (sa_organizations authority) org
      \<and> caps \<subseteq> sa_capabilities authority
      \<and> (\<exists>m. ((org, u), m) \<in> set (memberships ?ids) \<and> (\<forall>c \<in> caps. role_allows (member_role m) c))"
    if entry: "aget (sa_organization_capabilities authority) org = Some caps" for org caps
  proof -
    obtain x y where xy: "(org, x) \<in> set (ws_captured_organization_capabilities row)" "aget now_map org = Some y" "caps = x \<inter> y"
      using capability_maps_member [of "ws_captured_organization_capabilities row" now_map org caps] entry map by auto
    have here: "organization_is_active ?ids org
        \<and> (\<exists>m. ((org, u), m) \<in> set (memberships ?ids) \<and> y = {c \<in> sa_capabilities authority. role_allows (member_role m) c})
        \<and> (case sa_organizations authority of None \<Rightarrow> True | Some v \<Rightarrow> org \<in> set v)"
      by (rule local_authority_member [OF local map_of_SomeD [OF xy(2)]])
    then have "within_ceiling (sa_organizations authority) org" by (auto simp: within_ceiling_def)
    with here xy show ?thesis by (auto simp: organization_is_active_def)
  qed
  note narrow = ceilings_narrow [of "ws_captured_organization_ceiling row" _
      "ManagementOrganizationCeiling_as_optional_vec (management_organization_ceiling issuer)", folded orgs]
  have row_narrow: "\<forall>v. ws_captured_organization_ceiling row = Some v \<longrightarrow> (\<exists>w. sa_organizations authority = Some w \<and> set w \<subseteq> set v)"
    and issuer_narrow: "\<forall>v. ManagementOrganizationCeiling_as_optional_vec (management_organization_ceiling issuer) = Some v
      \<longrightarrow> (\<exists>w. sa_organizations authority = Some w \<and> set w \<subseteq> set v)"
    using narrow by blast+
  have held: "sa_scopes authority \<subseteq> ws_captured_management_scopes row" "sa_scopes authority \<subseteq> issuer_management_scopes issuer"
    "sa_capabilities authority \<subseteq> captured" "sa_capabilities authority \<subseteq> issuer_management_capabilities issuer"
    using scopes capable by auto
  note who = self [unfolded identity_of_def Let_def]
  have "captured_bound row self"
    unfolding captured_bound_def Let_def using who ceiling held row_narrow admin member by metis
  moreover have "user_bound ?ids row u issuer self"
    unfolding user_bound_def Let_def using who found held issuer_narrow admin administrator member by metis
  ultimately show ?thesis by blast
qed

lemma session_bounds:
  assumes auth: "authenticate_session ax seed (Some generation) now later raw csrf request store = Inr self"
  obtains session_id row where "(session_id, row) \<in> set (web_sessions store)"
    "ap_session_id (ri_principal self) = Some session_id" "ws_status row = ''active''" "now < ws_expires_at row"
    "ap_principal (ri_principal self) = ws_principal row" "ri_generation self = generation"
    "session_bound ax seed (identity (snapshot generation)) later row self"
  using auth
proof (cases rule: authenticate_session_cases)
  case (1 g digest session_id row capabilities authority auth_method)
  have g: "g = generation" using 1(1) by simp
  have member: "(session_id, row) \<in> set (web_sessions store)"
    using 1(3) by (auto simp: find_session_def find_Some_iff in_set_conv_nth)
  have self: "identity_of row authority self" by (simp add: 1(9) identity_of_def)
  note valid = 1(7) [unfolded validate_session_principal_def g]
  have "session_bound ax seed (identity (snapshot generation)) later row self"
  proof (cases "ws_principal row")
    case SeedAdmin
    have "captured_bound row self \<and> ws_accepted_key_version_id row = map_option (ax_encode ax) seed"
      using valid self 1(6) SeedAdmin
      by (auto simp: captured_bound_def identity_of_def Let_def ManagementScopeSet_intersection_def
        dest!: map_of_SomeD split: if_split_asm)
    then show ?thesis by (simp add: session_bound_def SeedAdmin)
  next
    case (LocalUser u)
    then show ?thesis using valid user_session_bound [OF _ self 1(6)] by (simp add: session_bound_def)
  next
    case (DeploymentManagementApiKey k)
    then show ?thesis using valid key_session_bound [OF _ self 1(6)] by (simp add: session_bound_def)
  next
    case (OrganizationManagementApiKey b k)
    then show ?thesis using valid key_session_bound [OF _ self 1(6), of generation later k False] by (simp add: session_bound_def)
  qed (use valid in simp)
  then show ?thesis using that member 1(4,5,9) g by simp
qed

text \<open>
  C10: Whatever a session is used for is bounded twice.  It must be active and unexpired, and its scopes, its
  capability ceiling, its administration, its resource scope, its organization ceiling and its capabilities in
  each organization are at most those captured when it was created.  They are also at most what its credential
  has now: for a management key, which must be active, unexpired, in the same scope and hold the version the session was
  created with, the scopes, capabilities and administration of the key; for a user, who must be active and bound
  to the subject of the active issuer the session was created for, those of the issuer, its organizations, and the
  user's own administration and memberships; a seed session needs the seed key it was created with.
\<close>

theorem session_never_widens:
  assumes "authenticate_session ax seed (Some generation) now later raw csrf request store = Inr self"
  shows "\<exists>session_id row. (session_id, row) \<in> set (web_sessions store)
    \<and> ap_session_id (ri_principal self) = Some session_id \<and> ws_status row = ''active'' \<and> now < ws_expires_at row
    \<and> ap_principal (ri_principal self) = ws_principal row
    \<and> session_bound ax seed (identity (snapshot generation)) later row self"
  using session_bounds [OF assms] by blast

lemma within_narrower:
  "\<forall>v. ceiling = Some v \<longrightarrow> (\<exists>w. narrow = Some w \<and> set w \<subseteq> set v) \<Longrightarrow> within_ceiling narrow org \<Longrightarrow> within_ceiling ceiling org"
  by (auto simp: within_ceiling_def)

lemma scope_allows_cases:
  "principal_scope_allows_organization who org \<Longrightarrow>
     ap_resource_scope who = ResourceOrganization org
     \<or> ap_resource_scope who = ResourceDeployment \<and> within_ceiling (ap_management_organization_ceiling who) org"
  by (auto simp: principal_scope_allows_organization_def within_ceiling_def split: ResourceScope.split_asm)

definition user_inside :: "WebSession \<Rightarrow> ExternalIssuerSnapshot \<Rightarrow> uuid \<Rightarrow> bool" where
  "user_inside row issuer org \<longleftrightarrow> within_ceiling (ws_captured_organization_ceiling row) org
     \<and> within_ceiling (ManagementOrganizationCeiling_as_optional_vec (management_organization_ceiling issuer)) org"

lemma user_organization_way:
  assumes captured: "captured_bound row self" and bound: "user_bound (identity (snapshot (ri_generation self))) row u issuer self"
    and user: "ap_principal (ri_principal self) = LocalUser u" and decided: "organization_capability_allows self org c"
  shows "aget (active_organizations (identity (snapshot (ri_generation self)))) org = Some True
    \<and> c \<in> ap_credential_capability_ceiling (ri_principal self)
    \<and> (user_inside row issuer org \<and> (\<exists>m. ((org, u), m) \<in> set (memberships (identity (snapshot (ri_generation self)))) \<and> role_allows (member_role m) c)
         \<and> (\<exists>x. (org, x) \<in> set (ws_captured_organization_capabilities row) \<and> c \<in> x)
       \<or> (ws_captured_resource_scope row = ResourceOrganization org \<or> ws_captured_resource_scope row = ResourceDeployment \<and> user_inside row issuer org)
         \<and> ws_captured_system_administrator row \<and> aget (system_administrator_users (identity (snapshot (ri_generation self)))) u = Some True)"
proof -
  let ?ids = "identity (snapshot (ri_generation self))" and ?who = "ri_principal self"
  have narrower: "\<forall>v. ws_captured_organization_ceiling row = Some v
      \<longrightarrow> (\<exists>w. ap_management_organization_ceiling ?who = Some w \<and> set w \<subseteq> set v)"
    "\<forall>v. ManagementOrganizationCeiling_as_optional_vec (management_organization_ceiling issuer) = Some v
      \<longrightarrow> (\<exists>w. ap_management_organization_ceiling ?who = Some w \<and> set w \<subseteq> set v)"
    using captured bound by (simp_all add: captured_bound_def user_bound_def Let_def)
  have inside: "user_inside row issuer org" if "within_ceiling (ap_management_organization_ceiling ?who) org"
    using within_narrower [OF narrower(1) that] within_narrower [OF narrower(2) that] by (simp add: user_inside_def)
  have active: "aget (active_organizations ?ids) org = Some True"
    using decided by (simp add: organization_capability_allows_def organization_is_active_def Let_def split: if_split_asm)
  have way: "c \<in> ap_credential_capability_ceiling ?who
    \<and> (user_inside row issuer org \<and> (\<exists>m. ((org, u), m) \<in> set (memberships ?ids) \<and> role_allows (member_role m) c)
         \<and> (\<exists>x. (org, x) \<in> set (ws_captured_organization_capabilities row) \<and> c \<in> x)
       \<or> (ws_captured_resource_scope row = ResourceOrganization org \<or> ws_captured_resource_scope row = ResourceDeployment \<and> user_inside row issuer org)
         \<and> ws_captured_system_administrator row \<and> aget (system_administrator_users ?ids) u = Some True)"
  proof (cases "is_system_administrator self \<and> principal_scope_allows_organization ?who org")
    case True
    then have "c \<in> ap_credential_capability_ceiling ?who"
      using decided user
      by (simp add: organization_capability_allows_def principal_capability_allows_def Let_def split: if_split_asm)
    moreover have "ws_captured_system_administrator row \<and> aget (system_administrator_users ?ids) u = Some True"
      "ap_resource_scope ?who = ws_captured_resource_scope row"
      using True captured bound by (simp_all add: is_system_administrator_def captured_bound_def user_bound_def Let_def)
    ultimately show ?thesis using inside scope_allows_cases [of ?who org] True by metis
  next
    case False
    then obtain a where a: "aget (ap_effective_organization_capabilities ?who) org = Some a" "c \<in> a"
      using decided user by (auto simp: organization_capability_allows_def Let_def split: if_split_asm option.split_asm)
    obtain x where x: "(org, x) \<in> set (ws_captured_organization_capabilities row)" "a \<subseteq> x"
      using captured a(1) unfolding captured_bound_def Let_def by blast
    have now: "within_ceiling (ap_management_organization_ceiling ?who) org" "a \<subseteq> ap_credential_capability_ceiling ?who"
      "\<exists>m. ((org, u), m) \<in> set (memberships ?ids) \<and> (\<forall>c \<in> a. role_allows (member_role m) c)"
      using bound a(1) by (simp_all add: user_bound_def Let_def)
    show ?thesis using inside [OF now(1)] now(2,3) x a(2) by blast
  qed
  show ?thesis using active way by blast
qed

text \<open>
  C11: A user who is let act on an organization through a session has the authority now, and had it when the
  session was created.  The organization is active; the issuer the session was created for is still active and still
  binds the session's subject to that user, who is active; issuer and row have the scopes asked for, and the issuer the
  capability; and the user either is a member whose role has the capability, of an organization inside the ceilings
  of issuer and row and with the capability captured, or an administrator of the system, captured as one, in the
  organization the session is bound to or inside both ceilings.
\<close>

theorem user_session_authority:
  assumes auth: "authenticate_session ax seed (Some generation) now later raw csrf request store = Inr self"
    and user: "ap_principal (ri_principal self) = LocalUser u"
    and allowed: "authorize self needed (TargetOrganization org c) = Inr ()"
  shows "let ids = identity (snapshot generation) in
    \<exists>session_id row issuer_key issuer subject. (session_id, row) \<in> set (web_sessions store)
    \<and> ap_session_id (ri_principal self) = Some session_id \<and> ws_principal row = LocalUser u
    \<and> aget (active_organizations ids) org = Some True \<and> aget (active_users ids) u = Some True
    \<and> ws_external_issuer_id row = Some issuer_key \<and> ws_external_subject row = Some subject
    \<and> aget (external_issuers_by_id ids) issuer_key = Some issuer \<and> issuer_active issuer
    \<and> aget (external_bindings ids) (issuer_key, subject) = Some u
    \<and> set needed \<subseteq> ws_captured_management_scopes row \<inter> issuer_management_scopes issuer
    \<and> c \<in> issuer_management_capabilities issuer
    \<and> (user_inside row issuer org \<and> (\<exists>m. ((org, u), m) \<in> set (memberships ids) \<and> role_allows (member_role m) c)
           \<and> (\<exists>captured. (org, captured) \<in> set (ws_captured_organization_capabilities row) \<and> c \<in> captured)
         \<or> (ws_captured_resource_scope row = ResourceOrganization org \<or> ws_captured_resource_scope row = ResourceDeployment \<and> user_inside row issuer org)
           \<and> ws_captured_system_administrator row \<and> aget (system_administrator_users ids) u = Some True)"
proof -
  let ?ids = "identity (snapshot generation)" and ?who = "ri_principal self"
  obtain session_id row where row: "(session_id, row) \<in> set (web_sessions store)" "ap_session_id ?who = Some session_id"
    "ap_principal ?who = ws_principal row" "ri_generation self = generation" "session_bound ax seed ?ids later row self"
    by (rule session_bounds [OF auth])
  have principal: "ws_principal row = LocalUser u" using row(3) user by simp
  obtain issuer where captured: "captured_bound row self" and bound: "user_bound ?ids row u issuer self"
    using row(5) by (auto simp: session_bound_def principal)
  obtain issuer_key subject where issuer: "ws_external_issuer_id row = Some issuer_key" "ws_external_subject row = Some subject"
    "aget (external_issuers_by_id ?ids) issuer_key = Some issuer" "issuer_active issuer"
    "aget (external_bindings ?ids) (issuer_key, subject) = Some u" "aget (active_users ?ids) u = Some True"
    using bound by (auto simp: user_bound_def Let_def)
  have needed: "set needed \<subseteq> ap_effective_management_scopes ?who" and decided: "organization_capability_allows self org c"
    using allowed by (auto simp: authorize_def Let_def ManagementScopeSet_contains_def list_ex_iff split: if_split_asm)
  note way = user_organization_way [OF captured bound [folded row(4)] user decided, unfolded row(4)]
  have scopes: "set needed \<subseteq> ws_captured_management_scopes row \<inter> issuer_management_scopes issuer"
    using needed captured bound by (auto simp: captured_bound_def user_bound_def Let_def)
  have "c \<in> issuer_management_capabilities issuer"
    using way bound by (auto simp: user_bound_def Let_def)
  then show ?thesis
    unfolding Let_def using row(1,2) principal issuer scopes way
    by (intro exI [of _ session_id] exI [of _ row] exI [of _ issuer_key] exI [of _ issuer] exI [of _ subject]) blast
qed

subsection \<open>Tokens\<close>

definition token_codec :: "AuthorityExternals \<Rightarrow> bool" where
  "token_codec ax \<longleftrightarrow>
     (\<forall>b. ax_decode ax (ax_encode ax b) = Some b \<and> CHR ''.'' \<notin> set (ax_encode ax b) \<and> CHR ''='' \<notin> set (ax_encode ax b))"

lemma split_once_prefix: "c \<notin> set p \<Longrightarrow> split_once c (p @ c # q) = Some (p, q)"
  by (induction p) (auto simp: split_once_def)

lemma token_read:
  assumes codec: "token_codec ax" and size: "length random = 32"
    and prefix: "prefix = SESSION_COOKIE_PREFIX \<or> prefix = CSRF_PREFIX"
    and token: "generate_token ax random prefix domain = (raw, digest)"
  shows "parse_and_digest_token ax raw prefix domain = Inr digest
    \<and> (\<forall>other. other \<noteq> prefix \<longrightarrow> parse_and_digest_token ax raw other domain = Inl AppInvalidCredential)"
proof -
  have raw: "raw = prefix @ CHR ''.'' # ax_encode ax random" "digest = digest_bytes ax domain raw"
    using token by (auto simp: generate_token_def Let_def)
  have "CHR ''.'' \<notin> set prefix" using prefix by (auto simp: SESSION_COOKIE_PREFIX_def CSRF_PREFIX_def)
  then have split: "split_once CHR ''.'' raw = Some (prefix, ax_encode ax random)"
    unfolding raw(1) by (rule split_once_prefix)
  have code: "ax_decode ax (ax_encode ax random) = Some random" "CHR ''='' \<notin> set (ax_encode ax random)"
    using codec by (simp_all add: token_codec_def)
  show ?thesis by (simp add: parse_and_digest_token_def split code size raw(2))
qed

text \<open>
  A generated token is read back with the digest it was issued with, and a token of one kind is refused
  where the other is expected.
\<close>

theorem token_roundtrip:
  assumes codec: "token_codec ax" and size: "length random = 32"
    and prefix: "prefix = SESSION_COOKIE_PREFIX \<or> prefix = CSRF_PREFIX"
    and token: "generate_token ax random prefix domain = (raw, digest)"
  shows "parse_and_digest_token ax raw prefix domain = Inr digest
    \<and> (\<forall>other. other \<noteq> prefix \<longrightarrow> parse_and_digest_token ax raw other domain = Inl AppInvalidCredential)"
  by (rule token_read [OF assms])

subsection \<open>The table of sessions\<close>

definition sessions_ok :: "SessionStore \<Rightarrow> bool" where
  "sessions_ok store \<longleftrightarrow>
     adistinct (web_sessions store)
     \<and> (\<forall>i j r s. aget (web_sessions store) i = Some r \<and> aget (web_sessions store) j = Some s
          \<and> ws_session_digest r = ws_session_digest s \<longrightarrow> i = j)"

inductive session_step :: "AuthorityExternals \<Rightarrow> SessionStore \<Rightarrow> SessionStore \<Rightarrow> bool" for ax where
  step_key: "session_step ax store (snd (create_key_session ax random lifetime committed now self store))"
| step_external: "session_step ax store (snd (create_external_session ax random lifetime committed now self store))"
| step_logout: "session_step ax store (snd (logout committed self store))"

lemma insert_session_cases:
  "snd (insert_session committed i row audit store) = store
   \<or> aget (web_sessions store) i = None \<and> (\<forall>(_, r) \<in> set (web_sessions store). ws_session_digest r \<noteq> ws_session_digest row)
     \<and> web_sessions (snd (insert_session committed i row audit store)) = web_sessions store @ [(i, row)]"
  by (auto simp: insert_session_def list_ex_iff)

lemma snd_outcome: "snd (case x of (Inl e, st) \<Rightarrow> (Inl e, st) | (Inr u, st) \<Rightarrow> (Inr v, st)) = snd x"
  by (cases x rule: prod.exhaust) (simp split: sum.split)

lemma if_inserts:
  "(if b then store else snd (insert_session committed i0 row0 audit0 store)) = store
   \<or> (\<exists>i row audit. (if b then store else snd (insert_session committed i0 row0 audit0 store))
        = snd (insert_session committed i row audit store))"
  by (cases b) auto

lemma create_session_inserts:
  "snd (create_key_session ax random lifetime committed now self store) = store
    \<or> (\<exists>i row audit. snd (create_key_session ax random lifetime committed now self store)
         = snd (insert_session committed i row audit store))"
  "snd (create_external_session ax random lifetime committed now self store) = store
    \<or> (\<exists>i row audit. snd (create_external_session ax random lifetime committed now self store)
         = snd (insert_session committed i row audit store))"
proof -
  obtain raw digest where t1: "generate_token ax (sr_session random) SESSION_COOKIE_PREFIX ''session'' = (raw, digest)"
    by (rule prod.exhaust)
  obtain csrf csrf_digest where t2: "generate_token ax (sr_csrf random) CSRF_PREFIX ''csrf'' = (csrf, csrf_digest)"
    by (rule prod.exhaust)
  show "snd (create_key_session ax random lifetime committed now self store) = store
    \<or> (\<exists>i row audit. snd (create_key_session ax random lifetime committed now self store)
         = snd (insert_session committed i row audit store))"
    unfolding create_key_session_def t1 t2 Let_def prod.case
    by (cases "captured_key_ceiling self";
        cases "ap_authentication_method (ri_principal self) \<noteq> MethodManagementApiKey")
      (simp only: sum.case if_True if_False snd_conv snd_outcome simp_thms, blast?)+
  show "snd (create_external_session ax random lifetime committed now self store) = store
    \<or> (\<exists>i row audit. snd (create_external_session ax random lifetime committed now self store)
         = snd (insert_session committed i row audit store))"
    unfolding create_external_session_def t1 t2 Let_def prod.case if_distrib [of snd] snd_outcome snd_conv
    by (rule if_inserts)
qed

lemma session_step_cases:
  assumes "session_step ax store store'"
  shows "web_sessions store' = web_sessions store
   \<or> (\<exists>i row. aget (web_sessions store) i = None
        \<and> (\<forall>(_, r) \<in> set (web_sessions store). ws_session_digest r \<noteq> ws_session_digest row)
        \<and> web_sessions store' = web_sessions store @ [(i, row)])
   \<or> (\<exists>i row. aget (web_sessions store) i = Some row
        \<and> web_sessions store' = aput i (row\<lparr>ws_status := ''revoked''\<rparr>) (web_sessions store))"
  using assms
proof (cases rule: session_step.cases)
  case (step_key random lifetime committed now self)
  then show ?thesis
    using create_session_inserts(1) [of ax random lifetime committed now self store] insert_session_cases by metis
next
  case (step_external random lifetime committed now self)
  then show ?thesis
    using create_session_inserts(2) [of ax random lifetime committed now self store] insert_session_cases by metis
next
  case (step_logout committed self)
  show ?thesis unfolding step_logout(1)
    by (auto simp: logout_def split: option.split)
qed

lemma sessions_ok_step:
  assumes ok: "sessions_ok store" and step: "session_step ax store store'"
  shows "sessions_ok store'"
    and "aget (web_sessions store) i = Some row \<Longrightarrow> \<exists>row'. aget (web_sessions store') i = Some row'
      \<and> ws_session_digest row' = ws_session_digest row \<and> (ws_status row = ''revoked'' \<longrightarrow> ws_status row' = ''revoked'')"
proof -
  consider (same) "web_sessions store' = web_sessions store"
    | (added) j r where "aget (web_sessions store) j = None"
        "\<forall>(_, s) \<in> set (web_sessions store). ws_session_digest s \<noteq> ws_session_digest r"
        "web_sessions store' = web_sessions store @ [(j, r)]"
    | (revoked) j r where "aget (web_sessions store) j = Some r"
        "web_sessions store' = aput j (r\<lparr>ws_status := ''revoked''\<rparr>) (web_sessions store)"
    using session_step_cases [OF step] by blast
  then show "sessions_ok store'"
  proof cases
    case same
    then show ?thesis using ok by (simp add: sessions_ok_def)
  next
    case (added j r)
    have look: "aget (web_sessions store') k = (case aget (web_sessions store) k of None \<Rightarrow> if k = j then Some r else None | Some s \<Rightarrow> Some s)" for k
      by (simp add: added(3) map_of_append map_add_def split: option.split)
    have other: "ws_session_digest s \<noteq> ws_session_digest r" if "aget (web_sessions store) k = Some s" for k s
      using added(2) map_of_SomeD [OF that] by fastforce
    have "j \<notin> fst ` set (web_sessions store)" using added(1) by (simp add: map_of_eq_None_iff)
    then have "adistinct (web_sessions store')"
      using ok by (auto simp: sessions_ok_def added(3) adistinct_def)
    then show ?thesis using ok other unfolding sessions_ok_def look
      by (auto split: option.split_asm if_split_asm) (metis+)?
  next
    case (revoked j r)
    have look: "aget (web_sessions store') k = (if k = j then Some (r\<lparr>ws_status := ''revoked''\<rparr>) else aget (web_sessions store) k)" for k
      by (simp add: revoked(2) aget_aput)
    have "adistinct (web_sessions store')" using ok by (simp add: sessions_ok_def revoked(2))
    moreover have "k = l" if s: "aget (web_sessions store') k = Some s" and t: "aget (web_sessions store') l = Some t"
      and same: "ws_session_digest s = ws_session_digest t" for k l s t
    proof -
      obtain s' where "aget (web_sessions store) k = Some s'" "ws_session_digest s' = ws_session_digest s"
        using s revoked(1) unfolding look by (auto split: if_split_asm)
      moreover obtain t' where "aget (web_sessions store) l = Some t'" "ws_session_digest t' = ws_session_digest t"
        using t revoked(1) unfolding look by (auto split: if_split_asm)
      ultimately show ?thesis using ok same unfolding sessions_ok_def by metis
    qed
    ultimately show ?thesis unfolding sessions_ok_def by blast
  qed
  show "aget (web_sessions store) i = Some row \<Longrightarrow> \<exists>row'. aget (web_sessions store') i = Some row'
      \<and> ws_session_digest row' = ws_session_digest row \<and> (ws_status row = ''revoked'' \<longrightarrow> ws_status row' = ''revoked'')"
    using session_step_cases [OF step] by (auto simp: map_of_append map_add_def aget_aput)
qed

lemma session_run_keeps:
  assumes "(session_step ax)\<^sup>*\<^sup>* store store'" "sessions_ok store"
  shows "sessions_ok store'
    \<and> (\<forall>i row. aget (web_sessions store) i = Some row \<longrightarrow> (\<exists>row'. aget (web_sessions store') i = Some row'
         \<and> ws_session_digest row' = ws_session_digest row \<and> (ws_status row = ''revoked'' \<longrightarrow> ws_status row' = ''revoked'')))"
  using assms
proof (induction rule: rtranclp_induct)
  case base
  then show ?case by blast
next
  case (step mid final)
  have mid: "sessions_ok mid" using step.IH step.prems by blast
  note now = sessions_ok_step [OF mid step.hyps(2)]
  show ?case
  proof (intro conjI allI impI)
    fix i row assume "aget (web_sessions store) i = Some row"
    then obtain row1 where row1: "aget (web_sessions mid) i = Some row1" "ws_session_digest row1 = ws_session_digest row"
      "ws_status row = ''revoked'' \<longrightarrow> ws_status row1 = ''revoked''"
      using step.IH step.prems by blast
    from now(2) [OF row1(1)] row1(2,3) show "\<exists>row'. aget (web_sessions final) i = Some row'
        \<and> ws_session_digest row' = ws_session_digest row \<and> (ws_status row = ''revoked'' \<longrightarrow> ws_status row' = ''revoked'')"
      by auto
  qed (rule now(1))
qed

lemma find_session_iff:
  assumes "sessions_ok store"
  shows "find_session store digest = Some (i, row) \<longleftrightarrow>
    aget (web_sessions store) i = Some row \<and> ws_session_digest row = digest"
proof -
  have found: "aget (web_sessions store) j = Some r \<and> ws_session_digest r = digest"
    if "find_session store digest = Some (j, r)" for j r
  proof -
    have "(j, r) \<in> set (web_sessions store)" "ws_session_digest r = digest"
      using that by (auto simp: find_session_def find_Some_iff in_set_conv_nth)
    then show ?thesis using assms by (simp add: sessions_ok_def adistinct_def)
  qed
  show ?thesis
  proof
    assume here: "aget (web_sessions store) i = Some row \<and> ws_session_digest row = digest"
    then have "find_session store digest \<noteq> None"
      by (auto simp: find_session_def find_None_iff dest!: map_of_SomeD)
    then obtain j r where j: "find_session store digest = Some (j, r)" by fastforce
    have "j = i" using found [OF j] here assms unfolding sessions_ok_def by metis
    then show "find_session store digest = Some (i, row)" using j found [OF j] here by simp
  qed (rule found)
qed

text \<open>
  C29: Logging out ends a session for good: after a logout that is confirmed, whatever sessions are created or
  ended later, under any generation and at any time, the token of the session is refused.
\<close>

theorem logout_ends_session:
  assumes reached: "(session_step ax)\<^sup>*\<^sup>* \<lparr>web_sessions = [], session_audit = []\<rparr> store"
    and auth: "authenticate_session ax seed (Some generation) now later raw csrf request store = Inr self"
    and out: "logout committed self store = (Inr (), store1)" and after: "(session_step ax)\<^sup>*\<^sup>* store1 store2"
  shows "authenticate_session ax seed' (Some generation') now' later' raw csrf' request' store2 = Inl AppCredentialInactive"
  using auth
proof (cases rule: authenticate_session_cases)
  case (1 g digest session_id row capabilities authority auth_method)
  have ok: "sessions_ok store" using session_run_keeps [OF reached] by (simp add: sessions_ok_def)
  have here: "aget (web_sessions store) session_id = Some row" "ws_session_digest row = digest"
    using find_session_iff [OF ok] 1(3) by blast+
  have store1: "web_sessions store1 = aput session_id (row\<lparr>ws_status := ''revoked''\<rparr>) (web_sessions store)"
    using out 1(9,4) here(1) by (auto simp: logout_def split: option.split_asm if_split_asm)
  have "session_step ax store store1" using step_logout [of ax store committed self] out by simp
  then have ok1: "sessions_ok store1" by (rule sessions_ok_step(1) [OF ok])
  have "aget (web_sessions store1) session_id = Some (row\<lparr>ws_status := ''revoked''\<rparr>)" by (simp add: store1)
  then obtain row2 where row2: "aget (web_sessions store2) session_id = Some row2" "ws_session_digest row2 = digest"
    "ws_status row2 = ''revoked''"
    using session_run_keeps [OF after ok1] here(2) by fastforce
  have "find_session store2 digest = Some (session_id, row2)"
    using find_session_iff session_run_keeps [OF after ok1] row2 by blast
  then show ?thesis using 1(2) row2(3) by (simp add: authenticate_session_def)
qed

subsection \<open>A session of a key carries the key's authority\<close>

definition keys_indexed :: "IdentitySnapshot \<Rightarrow> bool" where
  "keys_indexed ids \<longleftrightarrow>
     (\<forall>k v. aget (management_keys ids) k = Some v \<longrightarrow> aget (management_keys_by_id ids) (mk_key_id v) = Some v)"

lemma create_key_session_InrD:
  assumes "create_key_session ax random lifetime committed now self store = (Inr (raw, csrf), store')"
  shows "\<exists>digest csrf_digest ceiling row. generate_token ax (sr_session random) SESSION_COOKIE_PREFIX ''session'' = (raw, digest)
    \<and> generate_token ax (sr_csrf random) CSRF_PREFIX ''csrf'' = (csrf, csrf_digest)
    \<and> captured_key_ceiling self = Inr ceiling
    \<and> row = new_session self ''management_api_key_session'' digest csrf_digest ceiling (now + int lifetime)
    \<and> aget (web_sessions store) (sr_id random) = None
    \<and> web_sessions store' = web_sessions store @ [(sr_id random, row)]"
proof -
  obtain raw' digest where t1: "generate_token ax (sr_session random) SESSION_COOKIE_PREFIX ''session'' = (raw', digest)"
    by (rule prod.exhaust)
  obtain csrf' csrf_digest where t2: "generate_token ax (sr_csrf random) CSRF_PREFIX ''csrf'' = (csrf', csrf_digest)"
    by (rule prod.exhaust)
  show ?thesis
    using assms
    by (auto simp: create_key_session_def t1 t2 Let_def insert_session_def split: if_split_asm sum.split_asm)
qed

lemma seed_or_key:
  assumes "authenticate_management_key ax seed (Some generation) now raw_key request = Inr direct"
  obtains (seed) presented where "seed = Some presented" "direct = seed_identity ax presented generation request"
  | (key) verifier version ceiling k where
    "aget (management_keys (identity (snapshot generation))) k = Some verifier"
    "version_valid verifier (Some version) now" "key_usable verifier now"
    "scope_active (identity (snapshot generation)) (mk_resource_scope verifier)"
    "capabilities_from_value (mk_capability_ceiling verifier) = Inr ceiling"
    "ap_principal (ri_principal direct) = (case mk_resource_scope verifier of
               ResourceDeployment \<Rightarrow> DeploymentManagementApiKey (mk_key_id verifier)
             | ResourceOrganization organization \<Rightarrow> OrganizationManagementApiKey organization (mk_key_id verifier))"
    "ap_effective_management_scopes (ri_principal direct) = mk_scopes verifier"
    "ap_credential_capability_ceiling (ri_principal direct) = ceiling"
    "ap_effective_system_administrator (ri_principal direct) = (mk_resource_scope verifier = ResourceDeployment
               \<and> aget (system_administrator_keys (identity (snapshot generation))) (mk_key_id verifier) = Some True)"
    "ap_resource_scope (ri_principal direct) = mk_resource_scope verifier"
    "ap_accepted_key_version_id (ri_principal direct) = Some version" "ri_generation direct = generation"
proof -
  obtain material where m: "ManagementKeyMaterial_parse (ax_decode ax) (ax_encode ax) raw_key = Inr material"
    using assms by (auto simp: authenticate_management_key_def split: sum.split_asm)
  let ?p = "seed_admin_key_version_id (ax_sha ax) material"
  let ?ids = "identity (snapshot generation)"
  show thesis
  proof (cases "seed = Some ?p")
    case True
    then show thesis using assms m seed [of ?p] by (simp add: authenticate_management_key_def Let_def digest_matches_def)
  next
    case False
    then have no_seed: "\<not> (case seed of None \<Rightarrow> False | Some expected \<Rightarrow> digest_matches expected ?p)"
      by (auto simp: digest_matches_def split: option.split)
    obtain verifier where v: "aget (management_keys ?ids) (ManagementKeyMaterial_lookup_text (ax_encode ax) material) = Some verifier"
      using assms m no_seed by (auto simp: authenticate_management_key_def Let_def split: option.split_asm)
    obtain version where version: "accepted_version verifier (management_key_digest (ax_sha ax) material) now = Inr version"
      using assms m no_seed v by (auto simp: authenticate_management_key_def Let_def split: sum.split_asm)
    have ok: "key_usable verifier now" "scope_active ?ids (mk_resource_scope verifier)"
      using assms m no_seed v version by (auto simp: authenticate_management_key_def Let_def split: if_split_asm)
    obtain ceiling where c: "capabilities_from_value (mk_capability_ceiling verifier) = Inr ceiling"
      using assms m no_seed v version ok by (auto simp: authenticate_management_key_def Let_def split: sum.split_asm)
    have "version_valid verifier (Some version) now"
      using version by (auto simp: accepted_version_def version_valid_def overlap_accepted_def ok_or_def
          split: if_split_asm option.split_asm)
    then show thesis
      using assms m no_seed v version ok c key [of _ verifier version ceiling]
      by (auto simp: authenticate_management_key_def Let_def)
  qed
qed

lemma seed_capabilities: "capabilities_from_value (JArray [JString ''system_administration'']) = Inr (set Capability_ALL)"
  by (simp add: capabilities_from_value_def)

lemma key_session_works:
  assumes direct: "authenticate_management_key ax seed (Some generation) now raw_key request = Inr direct"
    and indexed: "keys_indexed (identity (snapshot generation))" and codec: "token_codec ax" "length (sr_session random) = 32"
    and store: "sessions_ok store" and lifetime: "0 < lifetime"
    and created: "create_key_session ax random lifetime committed now direct store = (Inr (raw, csrf), store')"
  shows "\<exists>self. authenticate_session ax seed (Some generation) now now raw (Some csrf) request' store' = Inr self
    \<and> ap_principal (ri_principal self) = ap_principal (ri_principal direct)
    \<and> ap_effective_management_scopes (ri_principal self) = ap_effective_management_scopes (ri_principal direct)
    \<and> ap_credential_capability_ceiling (ri_principal self) = ap_credential_capability_ceiling (ri_principal direct)
    \<and> ap_effective_system_administrator (ri_principal self) = ap_effective_system_administrator (ri_principal direct)
    \<and> ap_resource_scope (ri_principal self) = ap_resource_scope (ri_principal direct) \<and> csrf_validated self"
proof -
  let ?ids = "identity (snapshot generation)"
  obtain digest csrf_digest ceiling row where
    t: "generate_token ax (sr_session random) SESSION_COOKIE_PREFIX ''session'' = (raw, digest)"
    "generate_token ax (sr_csrf random) CSRF_PREFIX ''csrf'' = (csrf, csrf_digest)"
    and ceiling: "captured_key_ceiling direct = Inr ceiling"
    and row: "row = new_session direct ''management_api_key_session'' digest csrf_digest ceiling (now + int lifetime)"
    and fresh: "aget (web_sessions store) (sr_id random) = None"
    and store': "web_sessions store' = web_sessions store @ [(sr_id random, row)]"
    using create_key_session_InrD [OF created] by blast
  have parsed: "parse_and_digest_token ax raw SESSION_COOKIE_PREFIX ''session'' = Inr digest"
    using token_read [OF codec disjI1 [OF refl] t(1)] by blast
  have "session_step ax store store'" using step_key [of ax store random lifetime committed now direct] created by simp
  then have "sessions_ok store'" by (rule sessions_ok_step(1) [OF store])
  moreover have "aget (web_sessions store') (sr_id random) = Some row"
    using fresh by (simp add: store' map_of_append map_add_def)
  moreover have "ws_session_digest row = digest" by (simp add: row new_session_def Let_def)
  ultimately have found: "find_session store' digest = Some (sr_id random, row)" using find_session_iff by blast
  have csrf: "csrf_matches ax (Some csrf) row"
    using t(2) by (auto simp: csrf_matches_def digest_matches_def row new_session_def Let_def generate_token_def)
  have "\<exists>capabilities authority. capabilities_from_value ceiling = Inr capabilities
    \<and> validate_session_principal ax seed generation now row capabilities = Inr authority
    \<and> sa_scopes authority = ap_effective_management_scopes (ri_principal direct)
    \<and> sa_capabilities authority = ap_credential_capability_ceiling (ri_principal direct)
    \<and> sa_system_administrator authority = ap_effective_system_administrator (ri_principal direct)"
  proof (cases rule: seed_or_key [OF direct])
    case (1 presented)
    then have "ceiling = JArray [JString ''system_administration'']"
      using ceiling by (simp add: captured_key_ceiling_def seed_identity_def)
    then show ?thesis
      using 1 by (simp add: seed_capabilities validate_session_principal_def row new_session_def seed_identity_def
          Let_def ManagementScopeSet_intersection_def)
  next
    case (2 verifier version capabilities k)
    have by_id: "aget (management_keys_by_id ?ids) (mk_key_id verifier) = Some verifier"
      using indexed 2(1) unfolding keys_indexed_def by blast
    have "ceiling = mk_capability_ceiling verifier"
      using ceiling 2(6,12) by_id
      by (cases "mk_resource_scope verifier") (auto simp: captured_key_ceiling_def ok_or_def)
    then show ?thesis
      using 2 by_id
      by (cases "mk_resource_scope verifier")
        (auto simp: validate_session_principal_def validate_key_session_def row new_session_def Let_def
          ManagementScopeSet_intersection_def)
  qed
  then obtain capabilities authority where
    auth: "capabilities_from_value ceiling = Inr capabilities"
    "validate_session_principal ax seed generation now row capabilities = Inr authority"
    "sa_scopes authority = ap_effective_management_scopes (ri_principal direct)"
    "sa_capabilities authority = ap_credential_capability_ceiling (ri_principal direct)"
    "sa_system_administrator authority = ap_effective_system_administrator (ri_principal direct)"
    by blast
  have fields: "ws_status row = ''active''" "\<not> ws_expires_at row \<le> now" "ws_captured_capability_ceiling row = ceiling"
    "ws_authentication_method row = ''management_api_key_session''" "ws_principal row = ap_principal (ri_principal direct)"
    "ws_captured_resource_scope row = ap_resource_scope (ri_principal direct)"
    using lifetime by (simp_all add: row new_session_def Let_def)
  show ?thesis
    unfolding authenticate_session_def
    by (simp add: parsed found fields auth csrf)
qed

text \<open>
  C30: A session created from a management key, used at once, has exactly the authority of the key: its
  scopes, capabilities, scope and administration, and its anti-forgery token validates.
\<close>

theorem key_session_roundtrip:
  assumes direct: "authenticate_management_key ax seed (Some generation) now raw_key request = Inr direct"
    and indexed: "keys_indexed (identity (snapshot generation))" and codec: "token_codec ax" "length (sr_session random) = 32"
    and store: "sessions_ok store" and lifetime: "0 < lifetime"
    and created: "create_key_session ax random lifetime committed now direct store = (Inr (raw, csrf), store')"
  shows "\<exists>self. authenticate_session ax seed (Some generation) now now raw (Some csrf) request' store' = Inr self
    \<and> ap_principal (ri_principal self) = ap_principal (ri_principal direct)
    \<and> ap_effective_management_scopes (ri_principal self) = ap_effective_management_scopes (ri_principal direct)
    \<and> ap_credential_capability_ceiling (ri_principal self) = ap_credential_capability_ceiling (ri_principal direct)
    \<and> ap_effective_system_administrator (ri_principal self) = ap_effective_system_administrator (ri_principal direct)
    \<and> ap_resource_scope (ri_principal self) = ap_resource_scope (ri_principal direct) \<and> csrf_validated self"
  by (rule key_session_works [OF assms])

subsection \<open>The limit on logins\<close>

text \<open>
  \<open>budget_left\<close> is how often a fixed window can still say yes to requests in the period from \<open>start\<close> of the length of
  the window: at most once more than the window is it renewed.
\<close>

definition budget_left :: "nat \<Rightarrow> nat \<Rightarrow> RateWindow option \<Rightarrow> nat" where
  "budget_left start maximum w =
     (case w of None \<Rightarrow> maximum
      | Some w \<Rightarrow> if start \<le> started_at w then maximum - window_count w else (maximum - window_count w) + maximum)"

lemma check_window_budget:
  assumes "check_window (window_or_new w now) now duration maximum = (w', allowed)"
    and "start \<le> now" "now < start + duration"
  shows "(if allowed then 1 else 0) + budget_left start maximum (Some w') \<le> budget_left start maximum w"
  using assms
  by (cases w) (auto simp: check_window_def window_or_new_def budget_left_def Let_def split: if_split_asm)

definition live_window :: "nat \<Rightarrow> RateWindow option \<Rightarrow> RateWindow option" where
  "live_window now = option_filter (\<lambda>w. now - started_at w < 60000)"

lemma live_window_budget:
  "start \<le> now \<Longrightarrow> now < start + 60000 \<Longrightarrow> budget_left start maximum (live_window now w) \<le> budget_left start maximum w"
  by (cases w) (auto simp: live_window_def budget_left_def option_filter_def)

lemma aget_retain: "adistinct ws \<Longrightarrow> aget (retain_windows now ws) k = live_window now (aget ws k)"
  unfolding retain_windows_def live_window_def option_filter_def adistinct_def
  by (induction ws) (auto simp: map_of_eq_None_iff split: option.split)

fun logins :: "OidcLoginRateState \<Rightarrow> (nat \<times> string \<times> string) list \<Rightarrow> (string \<times> string) list \<times> OidcLoginRateState" where
  "logins s [] = ([], s)"
| "logins s ((now, source, issuer) # rest) =
     (let (answer, s') = OidcLoginRateState_check s now source issuer;
          (accepted, final) = logins s' rest in
      (if answer = Inr () then (source, issuer) # accepted else accepted, final))"

lemma check_steps:
  assumes "OidcLoginRateState_check s now source issuer = (answer, s')" "adistinct (rate_sources s)"
    and time: "start \<le> now" "now < start + 60000"
  shows "adistinct (rate_sources s')"
    and "(if answer = Inr () then 1 else 0) + budget_left start 600 (rate_deployment s') \<le> budget_left start 600 (rate_deployment s)"
    and "(if answer = Inr () \<and> (source, issuer) = pair then 1 else 0) + budget_left start 10 (aget (rate_sources s') pair)
      \<le> budget_left start 10 (aget (rate_sources s) pair)"
proof -
  obtain d allowed where d: "check_window (window_or_new (rate_deployment s) now) now 60000 600 = (d, allowed)"
    by (rule prod.exhaust)
  obtain w allowed2 where w: "check_window (window_or_new (aget (retain_windows now (rate_issuers s)) issuer) now) now 60000 120
      = (w, allowed2)" by (rule prod.exhaust)
  obtain v allowed3 where v: "check_window (window_or_new (aget (retain_windows now (rate_sources s)) (source, issuer)) now) now 60000 10
      = (v, allowed3)" by (rule prod.exhaust)
  have run: "(answer, s') = (let s1 = s\<lparr>rate_issuers := retain_windows now (rate_issuers s),
        rate_sources := retain_windows now (rate_sources s), rate_deployment := Some d\<rparr> in
      if \<not> allowed then (Inl AppRateLimited, s1)
      else let s2 = s1\<lparr>rate_issuers := aput issuer w (rate_issuers s1)\<rparr> in
        if \<not> allowed2 then (Inl AppRateLimited, s2)
        else if length (rate_sources s2) \<ge> 10000 \<and> aget (rate_sources s2) (source, issuer) = None
        then (Inl AppRateLimited, s2)
        else (if allowed3 then Inr () else Inl AppRateLimited, s2\<lparr>rate_sources := aput (source, issuer) v (rate_sources s2)\<rparr>))"
    unfolding assms(1) [symmetric] OidcLoginRateState_check_def Let_def
    by (simp add: d w v split: prod.split)
  have sources: "rate_sources s' = retain_windows now (rate_sources s) \<and> answer \<noteq> Inr ()
      \<or> rate_sources s' = aput (source, issuer) v (retain_windows now (rate_sources s)) \<and> (answer = Inr () \<longleftrightarrow> allowed3)"
    and deployment: "rate_deployment s' = Some d" "answer = Inr () \<Longrightarrow> allowed"
    using run by (simp_all add: Let_def split: if_split_asm)
  have kept: "adistinct (retain_windows now (rate_sources s))" using assms(2) by (simp add: retain_windows_def)
  then show "adistinct (rate_sources s')" using sources by auto
  show "(if answer = Inr () then 1 else 0) + budget_left start 600 (rate_deployment s') \<le> budget_left start 600 (rate_deployment s)"
    using check_window_budget [OF d time] deployment by (auto split: if_splits)
  note live = live_window_budget [OF time, of 10 "aget (rate_sources s) pair"] aget_retain [OF assms(2), of now pair]
  show "(if answer = Inr () \<and> (source, issuer) = pair then 1 else 0) + budget_left start 10 (aget (rate_sources s') pair)
      \<le> budget_left start 10 (aget (rate_sources s) pair)"
  proof (cases "rate_sources s' = retain_windows now (rate_sources s) \<and> answer \<noteq> Inr ()")
    case True
    then show ?thesis using live by simp
  next
    case False
    then have put: "rate_sources s' = aput (source, issuer) v (retain_windows now (rate_sources s))"
      "answer = Inr () \<longleftrightarrow> allowed3" using sources by blast+
    show ?thesis
    proof (cases "(source, issuer) = pair")
      case True
      then show ?thesis using check_window_budget [OF v time] live put by (auto split: if_splits)
    next
      case False
      then show ?thesis using put live by (auto simp: aget_aput)
    qed
  qed
qed

lemma logins_budget:
  assumes "logins s requests = (accepted, final)" "adistinct (rate_sources s)"
    and "\<forall>(now, _, _) \<in> set requests. start \<le> now \<and> now < start + 60000"
  shows "length accepted \<le> budget_left start 600 (rate_deployment s)
    \<and> length (filter ((=) pair) accepted) \<le> budget_left start 10 (aget (rate_sources s) pair)
    \<and> adistinct (rate_sources final)"
  using assms
proof (induction requests arbitrary: s accepted)
  case (Cons request requests)
  obtain now source issuer where r: "request = (now, source, issuer)" by (rule prod_cases3)
  obtain answer s' where c: "OidcLoginRateState_check s now source issuer = (answer, s')" by (rule prod.exhaust)
  obtain rest where l: "logins s' requests = (rest, final)" and accepted: "accepted = (if answer = Inr () then (source, issuer) # rest else rest)"
    using Cons.prems(1) by (auto simp: r c split: prod.split_asm)
  have time: "start \<le> now" "now < start + 60000" using Cons.prems(3) r by auto
  note steps = check_steps(1) [OF c Cons.prems(2) time] check_steps(2) [OF c Cons.prems(2) time]
    check_steps(3) [OF c Cons.prems(2) time, of pair]
  have "\<forall>(now, _, _) \<in> set requests. start \<le> now \<and> now < start + 60000" using Cons.prems(3) by simp
  note IH = Cons.IH [OF l steps(1) this]
  show ?case using IH steps(2,3) by (auto simp: accepted split: if_splits)
qed simp

lemma logins_distinct:
  assumes "logins s requests = (accepted, final)" "adistinct (rate_sources s)"
  shows "adistinct (rate_sources final)"
  using assms
proof (induction requests arbitrary: s accepted)
  case (Cons request requests)
  obtain now source issuer where r: "request = (now, source, issuer)" by (rule prod_cases3)
  obtain answer s' where c: "OidcLoginRateState_check s now source issuer = (answer, s')" by (rule prod.exhaust)
  obtain rest where l: "logins s' requests = (rest, final)"
    using Cons.prems(1) by (auto simp: r c split: prod.split_asm)
  show ?case using Cons.IH [OF l check_steps(1) [OF c Cons.prems(2) order_refl]] by simp
qed simp

text \<open>
  C31: Whatever login requests came before, among those of any one minute at most 1,200 are let through, and at
  most 20 of one source for one issuer: a fixed window is renewed at most once in a period of its own length.
\<close>

theorem logins_bounded:
  assumes earlier: "logins \<lparr>rate_deployment = None, rate_issuers = [], rate_sources = []\<rparr> before = (passed, s)"
    and minute: "\<forall>(now, _, _) \<in> set requests. start \<le> now \<and> now < start + 60000"
    and run: "logins s requests = (accepted, final)"
  shows "length accepted \<le> 1200 \<and> length (filter ((=) (source, issuer)) accepted) \<le> 20"
proof -
  have "adistinct (rate_sources s)" using logins_distinct [OF earlier] by simp
  from logins_budget [OF run this minute, of "(source, issuer)"] show ?thesis
    by (auto simp: budget_left_def split: option.split_asm if_split_asm)
qed

subsection \<open>Concrete sessions\<close>

definition sample_authority :: AuthorityExternals where
  "sample_authority = \<lparr>ax_sha = (\<lambda>b. b), ax_encode = letters_enc, ax_decode = letters_dec\<rparr>"

definition sample_token :: "string \<times> byte list" where
  "sample_token = generate_token sample_authority (replicate 32 0) SESSION_COOKIE_PREFIX ''session''"

definition sample_manager_key :: ManagementKeyVerifier where
  "sample_manager_key =
     \<lparr>mk_key_id = 9, mk_resource_scope = ResourceOrganization 1, issuance_policy_class = ''standard'',
      mk_scopes = {MgmtRead, MgmtWrite}, mk_capability_ceiling = JArray [JString ''manage_members''],
      mk_current_digest = management_key_digest (\<lambda>b. b) \<lparr>km_lookup = replicate 16 7, km_secret = replicate 32 9\<rparr>,
      accepted_version_id = ''1'', mk_overlap_digest = None, overlap_version_id = None, mk_overlap_until = None,
      mk_expires_at = None, mk_active = True\<rparr>"

definition sample_manager :: RuntimeGeneration where
  "sample_manager = sample_runtime\<lparr>snapshot := (snapshot sample_runtime)\<lparr>identity := (identity (snapshot sample_runtime))
     \<lparr>memberships := [((1, 7), sample_membership\<lparr>member_role := Admin\<rparr>)],
      management_keys := [(letters_enc (replicate 16 7), sample_manager_key)],
      management_keys_by_id := [(9, sample_manager_key)],
      external_issuers_by_id := [(2, sample_issuer\<lparr>issuer_management_scopes := UNIV,
         issuer_management_capabilities := UNIV, management_organization_ceiling := AllAuthorized\<rparr>)]\<rparr>\<rparr>\<rparr>"

definition sample_user_row :: WebSession where
  "sample_user_row =
     \<lparr>ws_session_digest = snd sample_token, ws_csrf_digest = [], ws_principal = LocalUser 7,
      ws_authentication_method = ''external_session'', ws_management_api_key_id = None,
      ws_accepted_key_version_id = None, ws_external_issuer_id = Some 2, ws_external_subject = Some ''s'',
      ws_captured_management_scopes = {MgmtWrite}, ws_captured_resource_scope = ResourceDeployment,
      ws_captured_capability_ceiling = JArray [JString ''manage_members''], ws_captured_system_administrator = False,
      ws_captured_organization_capabilities = [(1, {ManageMembers})], ws_captured_organization_ceiling = None,
      ws_status = ''active'', ws_expires_at = 100\<rparr>"

lemma sample_codec: "token_codec sample_authority"
  using letters_dec_enc letters_enc_plain by (simp add: token_codec_def sample_authority_def)

lemma sample_parsed:
  "parse_and_digest_token sample_authority (fst sample_token) SESSION_COOKIE_PREFIX ''session'' = Inr (snd sample_token)"
  using token_read [OF sample_codec, of "replicate 32 0" SESSION_COOKIE_PREFIX "''session''" "fst sample_token" "snd sample_token"]
  by (simp add: sample_token_def)

lemma sample_capability: "capabilities_from_value (JArray [JString ''manage_members'']) = Inr {ManageMembers}"
  by (simp add: capabilities_from_value_def Capability_from_str_def Capability_ALL_def ok_or_def)

lemma sample_session_identity:
  "organization_is_active (identity (snapshot sample_manager)) 1" "aget (active_users (identity (snapshot sample_manager))) 7 = Some True"
  "aget (external_bindings (identity (snapshot sample_manager))) (2, ''s'') = Some 7"
  "memberships (identity (snapshot sample_manager)) = [((1, 7), sample_membership\<lparr>member_role := Admin\<rparr>)]"
  "aget (system_administrator_users (identity (snapshot sample_manager))) 7 = None"
  "external_issuers_by_id (identity (snapshot sample_manager)) = [(2, sample_issuer\<lparr>issuer_management_scopes := UNIV,
     issuer_management_capabilities := UNIV, management_organization_ceiling := AllAuthorized\<rparr>)]"
  "management_keys (identity (snapshot sample_manager)) = [(letters_enc (replicate 16 7), sample_manager_key)]"
  "management_keys_by_id (identity (snapshot sample_manager)) = [(9, sample_manager_key)]"
  by (simp_all add: sample_manager_def sample_runtime_def organization_is_active_def)

lemma sample_user_session:
  "\<exists>self. authenticate_session sample_authority None (Some sample_manager) 50 51 (fst sample_token) None ''r''
      \<lparr>web_sessions = [(3, sample_user_row)], session_audit = []\<rparr> = Inr self
    \<and> ap_principal (ri_principal self) = LocalUser 7
    \<and> authorize self [MgmtWrite] (TargetOrganization 1 ManageMembers) = Inr ()"
proof -
  have manages: "role_allows Admin ManageMembers" "{c. c = ManageMembers \<and> role_allows Admin c} = {ManageMembers}"
    by (auto simp: role_allows_def)
  have local: "local_user_authority sample_manager 7 {ManageMembers} None = (False, [(1, {ManageMembers})])"
    by (simp add: local_user_authority_def sample_session_identity [simplified] member_entry_def Let_def List.map_filter_def manages)
  have user: "validate_user_session sample_manager sample_user_row {ManageMembers} 7
      = Inr \<lparr>sa_scopes = {MgmtWrite}, sa_capabilities = {ManageMembers}, sa_system_administrator = False,
          sa_organization_capabilities = [(1, {ManageMembers})], sa_organizations = None\<rparr>"
    by (simp add: validate_user_session_def sample_session_identity Let_def sample_user_row_def sample_issuer_def local
        intersect_organization_ceilings_def intersect_organization_capability_maps_def List.map_filter_def
        ManagementScopeSet_intersection_def)
  have row: "ws_principal sample_user_row = LocalUser 7" "ws_status sample_user_row = ''active''"
    "ws_expires_at sample_user_row = 100" "ws_session_digest sample_user_row = snd sample_token"
    "ws_captured_capability_ceiling sample_user_row = JArray [JString ''manage_members'']"
    "ws_authentication_method sample_user_row = ''external_session''"
    by (simp_all add: sample_user_row_def)
  show ?thesis
    by (simp add: authenticate_session_def sample_parsed find_session_def row sample_capability
        validate_session_principal_def user authorize_def ManagementScopeSet_contains_def Let_def
        organization_capability_allows_def sample_session_identity [simplified] is_system_administrator_def
        principal_scope_allows_organization_def, simp add: sample_user_row_def)
qed

theorem session_never_widens_witness:
  "\<exists>self. authenticate_session sample_authority None (Some sample_manager) 50 51 (fst sample_token) None ''r''
      \<lparr>web_sessions = [(3, sample_user_row)], session_audit = []\<rparr> = Inr self
    \<and> ap_effective_management_scopes (ri_principal self) \<subseteq> {MgmtWrite} \<and> ap_session_id (ri_principal self) = Some 3"
proof -
  obtain self where self: "authenticate_session sample_authority None (Some sample_manager) 50 51 (fst sample_token) None ''r''
      \<lparr>web_sessions = [(3, sample_user_row)], session_audit = []\<rparr> = Inr self"
    using sample_user_session by blast
  from session_never_widens [OF self] have "ap_session_id (ri_principal self) = Some 3" "captured_bound sample_user_row self"
    by (auto simp: session_bound_def)
  moreover have "ws_captured_management_scopes sample_user_row = {MgmtWrite}" by (simp add: sample_user_row_def)
  ultimately show ?thesis using self by (auto simp: captured_bound_def Let_def)
qed

theorem user_session_authority_witness:
  "\<exists>m. ((1, 7), m) \<in> set (memberships (identity (snapshot sample_manager))) \<and> role_allows (member_role m) ManageMembers"
proof -
  obtain self where self: "authenticate_session sample_authority None (Some sample_manager) 50 51 (fst sample_token) None ''r''
      \<lparr>web_sessions = [(3, sample_user_row)], session_audit = []\<rparr> = Inr self"
    "ap_principal (ri_principal self) = LocalUser 7" "authorize self [MgmtWrite] (TargetOrganization 1 ManageMembers) = Inr ()"
    using sample_user_session by blast
  show ?thesis using user_session_authority [OF self] sample_session_identity(5) by (simp add: Let_def) blast
qed

theorem token_roundtrip_witness:
  "parse_and_digest_token sample_authority (fst sample_token) SESSION_COOKIE_PREFIX ''session'' = Inr (snd sample_token)"
proof -
  have "generate_token sample_authority (replicate 32 0) SESSION_COOKIE_PREFIX ''session'' = (fst sample_token, snd sample_token)"
    by (simp add: sample_token_def)
  then show ?thesis using token_roundtrip [OF sample_codec, of "replicate 32 0"] by simp
qed

theorem logins_bounded_witness:
  "length (fst (logins \<lparr>rate_deployment = None, rate_issuers = [], rate_sources = []\<rparr> [(5, ''a'', ''i''), (6, ''a'', ''i'')])) \<le> 1200"
  using logins_bounded [of "[]" "[]" "\<lparr>rate_deployment = None, rate_issuers = [], rate_sources = []\<rparr>"
      "[(5, ''a'', ''i''), (6, ''a'', ''i'')]" 0
      "fst (logins \<lparr>rate_deployment = None, rate_issuers = [], rate_sources = []\<rparr> [(5, ''a'', ''i''), (6, ''a'', ''i'')])"
      "snd (logins \<lparr>rate_deployment = None, rate_issuers = [], rate_sources = []\<rparr> [(5, ''a'', ''i''), (6, ''a'', ''i'')])"]
  by simp

text \<open>A key of the organization, its direct use and the session made of it.\<close>

definition sample_raw_key :: string where
  "sample_raw_key = ManagementKeyMaterial_expose_once letters_enc \<lparr>km_lookup = replicate 16 7, km_secret = replicate 32 9\<rparr>"

definition sample_random :: SessionRandom where
  "sample_random = \<lparr>sr_session = replicate 32 0, sr_csrf = replicate 32 1, sr_id = 3\<rparr>"

definition no_sessions :: SessionStore where
  "no_sessions = \<lparr>web_sessions = [], session_audit = []\<rparr>"

lemma sample_key_parsed:
  "ManagementKeyMaterial_parse letters_dec letters_enc sample_raw_key
     = Inr \<lparr>km_lookup = replicate 16 7, km_secret = replicate 32 9\<rparr>"
  unfolding ManagementKeyMaterial_parse_def ManagementKeyMaterial_expose_once_def sample_raw_key_def
  by (rule key_parse_expose [OF prefix_no_dot(2) _ letters_dec_enc letters_enc_plain])
    (simp add: key_bounds_ok_def key_bounds)

lemma sample_direct:
  "\<exists>direct. authenticate_management_key sample_authority None (Some sample_manager) 50 sample_raw_key ''r'' = Inr direct
    \<and> ap_principal (ri_principal direct) = OrganizationManagementApiKey 1 9
    \<and> ap_authentication_method (ri_principal direct) = MethodManagementApiKey \<and> ri_generation direct = sample_manager"
proof -
  have codec: "ax_decode sample_authority = letters_dec" "ax_encode sample_authority = letters_enc" "ax_sha sample_authority = (\<lambda>b. b)"
    by (simp_all add: sample_authority_def)
  have key: "mk_current_digest sample_manager_key = management_key_digest (\<lambda>b. b) \<lparr>km_lookup = replicate 16 7, km_secret = replicate 32 9\<rparr>"
    "mk_capability_ceiling sample_manager_key = JArray [JString ''manage_members'']"
    "mk_resource_scope sample_manager_key = ResourceOrganization 1" "key_usable sample_manager_key 50" "mk_key_id sample_manager_key = 9"
    by (simp_all add: sample_manager_key_def key_usable_def)
  show ?thesis
    by (simp add: authenticate_management_key_def codec sample_key_parsed sample_session_identity [simplified]
        ManagementKeyMaterial_lookup_text_def accepted_version_def digest_matches_def key [simplified] scope_active_def
        sample_capability Let_def)
qed

lemma sample_keys_indexed: "keys_indexed (identity (snapshot sample_manager))"
  by (simp add: keys_indexed_def sample_session_identity, simp add: sample_manager_key_def)

lemma sample_created:
  assumes "ap_principal (ri_principal direct) = OrganizationManagementApiKey 1 9"
    "ap_authentication_method (ri_principal direct) = MethodManagementApiKey" "ri_generation direct = sample_manager"
  shows "\<exists>raw csrf store'. create_key_session sample_authority sample_random 10 True 50 direct no_sessions = (Inr (raw, csrf), store')"
proof -
  have "captured_key_ceiling direct = Inr (mk_capability_ceiling sample_manager_key)"
    using assms by (simp add: captured_key_ceiling_def sample_session_identity)
  then show ?thesis
    using assms by (simp add: create_key_session_def generate_token_def Let_def insert_session_def no_sessions_def sample_random_def)
qed

lemma no_sessions_ok: "sessions_ok no_sessions"
  by (simp add: sessions_ok_def no_sessions_def)

theorem key_session_roundtrip_witness:
  "\<exists>raw csrf store' self direct. create_key_session sample_authority sample_random 10 True 50 direct no_sessions = (Inr (raw, csrf), store')
    \<and> authenticate_session sample_authority None (Some sample_manager) 50 50 raw (Some csrf) ''s'' store' = Inr self
    \<and> csrf_validated self"
proof -
  obtain direct where d: "authenticate_management_key sample_authority None (Some sample_manager) 50 sample_raw_key ''r'' = Inr direct"
    "ap_principal (ri_principal direct) = OrganizationManagementApiKey 1 9"
    "ap_authentication_method (ri_principal direct) = MethodManagementApiKey" "ri_generation direct = sample_manager"
    using sample_direct by blast
  obtain raw csrf store' where c: "create_key_session sample_authority sample_random 10 True 50 direct no_sessions = (Inr (raw, csrf), store')"
    using sample_created [OF d(2-4)] by blast
  have "length (sr_session sample_random) = 32" by (simp add: sample_random_def)
  from key_session_roundtrip [OF d(1) sample_keys_indexed sample_codec this no_sessions_ok _ c, of "''s''"] c show ?thesis
    by (simp, blast)
qed

theorem logout_ends_session_witness:
  "\<exists>raw store2. authenticate_session sample_authority None (Some sample_manager) 51 51 raw None ''t'' store2
     = Inl AppCredentialInactive \<and> length (web_sessions store2) = 1"
proof -
  obtain direct where d: "authenticate_management_key sample_authority None (Some sample_manager) 50 sample_raw_key ''r'' = Inr direct"
    "ap_principal (ri_principal direct) = OrganizationManagementApiKey 1 9"
    "ap_authentication_method (ri_principal direct) = MethodManagementApiKey" "ri_generation direct = sample_manager"
    using sample_direct by blast
  obtain raw csrf store where c: "create_key_session sample_authority sample_random 10 True 50 direct no_sessions = (Inr (raw, csrf), store)"
    using sample_created [OF d(2-4)] by blast
  have "length (sr_session sample_random) = 32" by (simp add: sample_random_def)
  from key_session_works [OF d(1) sample_keys_indexed sample_codec this no_sessions_ok _ c, of "''s''"]
  obtain self where self: "authenticate_session sample_authority None (Some sample_manager) 50 50 raw (Some csrf) ''s'' store = Inr self"
    by (simp, blast)
  have "session_step sample_authority no_sessions store"
    using step_key [of sample_authority no_sessions sample_random 10 True 50 direct] c by simp
  then have reached: "(session_step sample_authority)\<^sup>*\<^sup>* \<lparr>web_sessions = [], session_audit = []\<rparr> store"
    unfolding no_sessions_def by (rule r_into_rtranclp)
  from create_key_session_InrD [OF c] obtain row where
    rows: "web_sessions store = [(sr_id sample_random, row)]" by (auto simp: no_sessions_def)
  from self have id: "ap_session_id (ri_principal self) = Some (sr_id sample_random)" and active: "ws_status row = ''active''"
    by (cases rule: authenticate_session_cases; simp add: find_session_def rows split: if_split_asm)+
  define store1 where "store1 = snd (logout True self store)"
  have out: "logout True self store = (Inr (), store1)" by (simp add: store1_def logout_def id rows active)
  have "web_sessions store1 = [(sr_id sample_random, row\<lparr>ws_status := ''revoked''\<rparr>)]"
    by (simp add: store1_def logout_def id rows active)
  then show ?thesis
    using logout_ends_session [OF reached self out rtranclp.rtrancl_refl, of None sample_manager 51 51 None "''t''"]
    by (intro exI [of _ raw] exI [of _ store1]) simp
qed

end
