(* ===== verification/Idempotency.thy ===== *)
theory Idempotency
  imports Authority
begin

section \<open>Idempotency keys and entity tags\<close>

text \<open>
  \<open>application/idempotency.rs\<close> and \<open>application/etag.rs\<close>.  The table \<open>idempotency_records\<close> is an association list
  over its primary key; an operation on it is a statement of the transaction it runs in, so a command that does not
  commit leaves the table as it was.  SHA-256, HKDF, base64url and the JSON texts of an actor, a scope and a request
  are parameters.  No other transaction holds rows locked while the cleanup runs.
\<close>

record IdempotencyExternals =
  ix_sha :: "byte list \<Rightarrow> byte list"
  ix_encode :: "byte list \<Rightarrow> string"
  ix_mac :: "byte list \<Rightarrow> byte list \<Rightarrow> byte list"
  ix_mac_key :: "byte list option"
  ix_actor_json :: "Actor \<Rightarrow> byte list option"
  ix_scope_json :: "ResourceScope \<Rightarrow> byte list option"
  ix_uuid_bytes :: "uuid \<Rightarrow> byte list"

subsection \<open>Entity tags and update fields\<close>

type_synonym EntityTag = string

definition EntityTag_for_resource :: "IdempotencyExternals \<Rightarrow> string \<Rightarrow> uuid \<Rightarrow> uuid \<Rightarrow> EntityTag" where
  "EntityTag_for_resource ix kind i token =
     CHR 0x22 # ix_encode ix (ix_sha ix (ascii ''owlrora/http-etag/v1'' @ [0] @ u64_to_be_bytes (length kind) @ ascii kind
       @ ix_uuid_bytes ix i @ ix_uuid_bytes ix token)) @ [CHR 0x22]"

definition EntityTag_from_header :: "string \<Rightarrow> EntityTag option" where
  "EntityTag_from_header v =
     (if v \<noteq> [] \<and> hd v = CHR 0x22 \<and> last v = CHR 0x22 \<and> length v = 45 \<and> CHR '','' \<notin> set v \<and> v \<noteq> ''*''
      then Some v else None)"

definition EntityTag_matches :: "EntityTag \<Rightarrow> string \<Rightarrow> bool" where
  "EntityTag_matches self v = (EntityTag_from_header v = Some self)"

datatype 'a UpdateField = Omitted | FieldNull | FieldValue 'a

definition UpdateField_deserialize :: "'a option \<Rightarrow> 'a UpdateField" where
  "UpdateField_deserialize v = (case v of Some x \<Rightarrow> FieldValue x | None \<Rightarrow> FieldNull)"

fun UpdateField_is_omitted :: "'a UpdateField \<Rightarrow> bool" where
  "UpdateField_is_omitted Omitted = True"
| "UpdateField_is_omitted _ = False"

subsection \<open>Records of commands\<close>

definition IDEMPOTENCY_TTL_HOURS :: int where
  "IDEMPOTENCY_TTL_HOURS = 24"

record IdempotencyHandle =
  actor_fingerprint :: string
  scope_fingerprint :: string
  handle_operation_id :: string
  handle_key :: string
  request_fingerprint :: "byte list"

record IdempotencyReplay =
  replay_status :: nat
  replay_body :: json
  replay_etag :: "string option"

datatype 'a IdempotentCommand = Executed 'a | CommandReplay IdempotencyReplay

datatype IdempotencyDecision = Execute "IdempotencyHandle option" | DecisionReplay IdempotencyReplay

record IdempotencyRecord =
  rec_request_fingerprint :: "byte list"
  rec_state :: string
  rec_response_status :: "int option"
  rec_response_body :: "json option"
  rec_expires_at :: int

type_synonym IdempotencyTable = "((string \<times> string \<times> string \<times> string) \<times> IdempotencyRecord) list"

definition record_key :: "IdempotencyHandle \<Rightarrow> string \<times> string \<times> string \<times> string" where
  "record_key handle =
     (actor_fingerprint handle, scope_fingerprint handle, handle_operation_id handle, handle_key handle)"

definition fingerprint :: "IdempotencyExternals \<Rightarrow> string \<Rightarrow> byte list \<Rightarrow> byte list" where
  "fingerprint ix domain v = ix_sha ix (ascii domain @ [0] @ v)"

definition fingerprint_text :: "IdempotencyExternals \<Rightarrow> string \<Rightarrow> byte list \<Rightarrow> string" where
  "fingerprint_text ix domain v = ix_encode ix (fingerprint ix domain v)"

definition keyed_request_fingerprint :: "IdempotencyExternals \<Rightarrow> byte list \<Rightarrow> byte list \<Rightarrow> byte list" where
  "keyed_request_fingerprint ix key request = ix_mac ix key request"

definition fingerprints_match :: "byte list \<Rightarrow> byte list \<Rightarrow> bool" where
  "fingerprints_match stored expected \<longleftrightarrow> length stored = length expected \<and> stored = expected"

definition validate_idempotency_key :: "string \<Rightarrow> ApplicationError + unit" where
  "validate_idempotency_key v =
     (if v = [] \<or> length v > 200
         \<or> list_ex (\<lambda>c. (of_char c :: nat) \<ge> 128 \<or> (of_char c :: nat) < 32 \<or> (of_char c :: nat) = 127 \<or> c = CHR '' '') v
      then Inl (AppValidation ''Idempotency-Key must contain 1 to 200 visible ASCII characters without spaces'')
      else Inr ())"

definition idempotency_handle_with_fingerprint ::
    "IdempotencyExternals \<Rightarrow> RequestIdentity \<Rightarrow> ResourceScope \<Rightarrow> string \<Rightarrow> string \<Rightarrow> byte list
      \<Rightarrow> ApplicationError + IdempotencyHandle" where
  "idempotency_handle_with_fingerprint ix self scope operation key request =
     result_bind (validate_idempotency_key key) (\<lambda>_.
     result_bind (ok_or AppInternal (ix_actor_json ix (Actor_from (ri_principal self)))) (\<lambda>actor.
     result_bind (ok_or AppInternal (ix_scope_json ix scope)) (\<lambda>scope_bytes.
       Inr \<lparr>actor_fingerprint = fingerprint_text ix ''owlrora:idempotency:actor:v1'' actor,
            scope_fingerprint = fingerprint_text ix ''owlrora:idempotency:scope:v1'' scope_bytes,
            handle_operation_id = operation, handle_key = key, request_fingerprint = request\<rparr>)))"

definition replay_from_row :: "IdempotencyRecord \<Rightarrow> IdempotencyHandle \<Rightarrow> ApplicationError + IdempotencyReplay" where
  "replay_from_row row handle =
     (if \<not> fingerprints_match (rec_request_fingerprint row) (request_fingerprint handle) then Inl AppIdempotencyConflict
      else if rec_state row \<noteq> ''completed'' then Inl AppInternal
      else
     result_bind (ok_or AppInternal (option_filter (\<lambda>s. 0 \<le> s \<and> s < 65536) (rec_response_status row))) (\<lambda>status.
     result_bind (ok_or AppInternal (rec_response_body row)) (\<lambda>stored.
     result_bind (ok_or AppInternal (json_get stored ''body'')) (\<lambda>body.
       Inr \<lparr>replay_status = nat status, replay_body = body,
            replay_etag = Option.bind (json_get stored ''etag'') json_as_str\<rparr>))))"

definition begin_idempotent_command_with_fingerprint ::
    "IdempotencyExternals \<Rightarrow> RequestIdentity \<Rightarrow> ResourceScope \<Rightarrow> string \<Rightarrow> string \<Rightarrow> byte list \<Rightarrow> int \<Rightarrow> IdempotencyTable
      \<Rightarrow> (ApplicationError + IdempotencyDecision) \<times> IdempotencyTable" where
  "begin_idempotent_command_with_fingerprint ix self scope operation key request now table =
     (case idempotency_handle_with_fingerprint ix self scope operation key request of
        Inl e \<Rightarrow> (Inl e, table)
      | Inr handle \<Rightarrow>
          (case aget table (record_key handle) of
             None \<Rightarrow>
               (Inr (Execute (Some handle)),
                aput (record_key handle)
                  \<lparr>rec_request_fingerprint = request_fingerprint handle, rec_state = ''in_progress'',
                   rec_response_status = None, rec_response_body = None,
                   rec_expires_at = now + IDEMPOTENCY_TTL_HOURS * 3600000\<rparr> table)
           | Some row \<Rightarrow>
               ((case replay_from_row row handle of Inl e \<Rightarrow> Inl e | Inr replay \<Rightarrow> Inr (DecisionReplay replay)), table)))"

definition begin_idempotent_command ::
    "IdempotencyExternals \<Rightarrow> RequestIdentity \<Rightarrow> ResourceScope \<Rightarrow> string \<Rightarrow> string option \<Rightarrow> byte list \<Rightarrow> int \<Rightarrow> IdempotencyTable
      \<Rightarrow> (ApplicationError + IdempotencyDecision) \<times> IdempotencyTable" where
  "begin_idempotent_command ix self scope operation idempotency_key request now table =
     (case idempotency_key of
        None \<Rightarrow> (Inr (Execute None), table)
      | Some key \<Rightarrow> begin_idempotent_command_with_fingerprint ix self scope operation key
          (fingerprint ix ''owlrora:idempotency:request:v1'' request) now table)"

definition begin_secret_idempotent_command ::
    "IdempotencyExternals \<Rightarrow> RequestIdentity \<Rightarrow> ResourceScope \<Rightarrow> string \<Rightarrow> string option \<Rightarrow> byte list \<Rightarrow> int \<Rightarrow> IdempotencyTable
      \<Rightarrow> (ApplicationError + IdempotencyDecision) \<times> IdempotencyTable" where
  "begin_secret_idempotent_command ix self scope operation idempotency_key request now table =
     (case idempotency_key of
        None \<Rightarrow> (Inr (Execute None), table)
      | Some key \<Rightarrow>
          (case ix_mac_key ix of
             None \<Rightarrow> (Inl AppInternal, table)
           | Some mac \<Rightarrow> begin_idempotent_command_with_fingerprint ix self scope operation key
               (keyed_request_fingerprint ix mac request) now table))"

definition load_completed_idempotency_replay ::
    "IdempotencyHandle \<Rightarrow> IdempotencyTable \<Rightarrow> ApplicationError + IdempotencyReplay option" where
  "load_completed_idempotency_replay handle table =
     (case aget table (record_key handle) of
        None \<Rightarrow> Inr None
      | Some row \<Rightarrow>
          if \<not> fingerprints_match (rec_request_fingerprint row) (request_fingerprint handle) then Inl AppIdempotencyConflict
          else if rec_state row \<noteq> ''completed'' then Inr None
          else result_bind (replay_from_row row handle) (\<lambda>replay. Inr (Some replay)))"

definition replay_completed_idempotent_command ::
    "IdempotencyExternals \<Rightarrow> RequestIdentity \<Rightarrow> ResourceScope \<Rightarrow> string \<Rightarrow> string option \<Rightarrow> byte list \<Rightarrow> IdempotencyTable
      \<Rightarrow> ApplicationError + IdempotencyReplay option" where
  "replay_completed_idempotent_command ix self scope operation idempotency_key request table =
     (case idempotency_key of
        None \<Rightarrow> Inr None
      | Some key \<Rightarrow>
          result_bind (idempotency_handle_with_fingerprint ix self scope operation key
              (fingerprint ix ''owlrora:idempotency:request:v1'' request))
            (\<lambda>handle. load_completed_idempotency_replay handle table))"

definition replay_completed_secret_idempotent_command ::
    "IdempotencyExternals \<Rightarrow> RequestIdentity \<Rightarrow> ResourceScope \<Rightarrow> string \<Rightarrow> string option \<Rightarrow> byte list \<Rightarrow> IdempotencyTable
      \<Rightarrow> ApplicationError + IdempotencyReplay option" where
  "replay_completed_secret_idempotent_command ix self scope operation idempotency_key request table =
     (case idempotency_key of
        None \<Rightarrow> Inr None
      | Some key \<Rightarrow>
          result_bind (ok_or AppInternal (ix_mac_key ix)) (\<lambda>mac.
          result_bind (idempotency_handle_with_fingerprint ix self scope operation key
              (keyed_request_fingerprint ix mac request))
            (\<lambda>handle. load_completed_idempotency_replay handle table)))"

definition stored_response :: "json \<Rightarrow> string option \<Rightarrow> json" where
  "stored_response body etag =
     JObject [(''body'', body), (''etag'', case etag of None \<Rightarrow> JNull | Some t \<Rightarrow> JString t)]"

definition complete_idempotent_command ::
    "IdempotencyHandle option \<Rightarrow> nat \<Rightarrow> json \<Rightarrow> string option \<Rightarrow> IdempotencyTable
      \<Rightarrow> (ApplicationError + unit) \<times> IdempotencyTable" where
  "complete_idempotent_command handle status body etag table =
     (case handle of
        None \<Rightarrow> (Inr (), table)
      | Some handle \<Rightarrow>
          (case option_filter (\<lambda>row. rec_request_fingerprint row = request_fingerprint handle \<and> rec_state row = ''in_progress'')
                  (aget table (record_key handle)) of
             None \<Rightarrow> (Inl AppInternal, table)
           | Some row \<Rightarrow>
               (Inr (), aput (record_key handle)
                  (row\<lparr>rec_state := ''completed'', rec_response_status := Some (int status),
                       rec_response_body := Some (stored_response body etag)\<rparr>) table)))"

subsection \<open>Cleaning up\<close>

definition record_expired :: "int \<Rightarrow> IdempotencyRecord \<Rightarrow> bool" where
  "record_expired now row \<longleftrightarrow> rec_state row = ''completed'' \<and> rec_expires_at row < now"

definition expired_batch :: "int \<Rightarrow> IdempotencyTable \<Rightarrow> (string \<times> string \<times> string \<times> string) set" where
  "expired_batch now table =
     fst ` set (take 1000 (sort_key (\<lambda>(_, row). rec_expires_at row) (filter (\<lambda>(_, row). record_expired now row) table)))"

definition delete_batch :: "int \<Rightarrow> IdempotencyTable \<Rightarrow> nat \<times> IdempotencyTable" where
  "delete_batch now table =
     (let kept = filter (\<lambda>(k, _). k \<notin> expired_batch now table) table in (length table - length kept, kept))"

text \<open>Two readings of the clock may differ; the batches of one cleanup see the times of a function of their number.\<close>

function cleanup_expired_idempotency_records ::
    "(nat \<Rightarrow> int) \<Rightarrow> nat \<Rightarrow> nat \<Rightarrow> IdempotencyTable \<Rightarrow> (ApplicationError + nat) \<times> IdempotencyTable" where
  "cleanup_expired_idempotency_records clock n so_far table =
     (let (deleted, table') = delete_batch (clock n) table in
      case checked_add u64_max so_far deleted of
        None \<Rightarrow> (Inl AppInternal, table')
      | Some so_far \<Rightarrow>
          if deleted < 1000 then (Inr so_far, table')
          else cleanup_expired_idempotency_records clock (Suc n) so_far table')"
  by pat_completeness auto
termination
  by (relation "measure (\<lambda>(_, _, _, table). length table)") (auto simp: delete_batch_def Let_def)

declare cleanup_expired_idempotency_records.simps [simp del]

end
