(* ===== verification/IdempotencyLaws.thy ===== *)
theory IdempotencyLaws
  imports Idempotency
begin

section \<open>A command runs at most once per key\<close>

lemma etag_matches_only_itself: "EntityTag_matches tag v \<Longrightarrow> v = tag"
  by (simp add: EntityTag_matches_def EntityTag_from_header_def split: if_split_asm)

lemma begin_execute:
  assumes "begin_idempotent_command_with_fingerprint ix self scope operation key request now table
     = (Inr (Execute (Some handle)), table')"
  shows "idempotency_handle_with_fingerprint ix self scope operation key request = Inr handle
    \<and> aget table (record_key handle) = None
    \<and> table' = aput (record_key handle) \<lparr>rec_request_fingerprint = request_fingerprint handle, rec_state = ''in_progress'',
         rec_response_status = None, rec_response_body = None, rec_expires_at = now + IDEMPOTENCY_TTL_HOURS * 3600000\<rparr> table"
  using assms unfolding begin_idempotent_command_with_fingerprint_def
  by (auto split: sum.split_asm option.split_asm)

lemma handle_with_other_request:
  assumes "idempotency_handle_with_fingerprint ix self scope operation key request = Inr handle"
  shows "idempotency_handle_with_fingerprint ix self scope operation key request'
      = Inr (handle\<lparr>request_fingerprint := request'\<rparr>) \<and> request_fingerprint handle = request"
  using assms unfolding idempotency_handle_with_fingerprint_def
  by (auto simp: ok_or_def split: sum.splits option.split_asm)

lemma complete_row:
  assumes "complete_idempotent_command (Some handle) status body etag table = (Inr (), table')"
  shows "\<exists>row. aget table' (record_key handle) = Some row \<and> rec_request_fingerprint row = request_fingerprint handle
    \<and> rec_state row = ''completed'' \<and> rec_response_status row = Some (int status)
    \<and> rec_response_body row = Some (stored_response body etag)"
  using assms by (auto simp: complete_idempotent_command_def split: option.split_asm)

lemma replay_row:
  assumes "rec_request_fingerprint row = request_fingerprint handle" "rec_state row = ''completed''"
    "rec_response_status row = Some (int status)" "rec_response_body row = Some (stored_response body etag)"
    and "status < 65536"
  shows "replay_from_row row handle = Inr \<lparr>replay_status = status, replay_body = body, replay_etag = etag\<rparr>"
  using assms by (cases etag) (simp_all add: replay_from_row_def fingerprints_match_def ok_or_def stored_response_def)

lemma begin_again:
  assumes first: "begin_idempotent_command ix self scope operation (Some key) request now table = (Inr (Execute (Some handle)), t1)"
    and row: "aget t3 (record_key handle) = Some row" "rec_request_fingerprint row = request_fingerprint handle"
      "rec_state row = ''completed''" "rec_response_status row = Some (int status)"
      "rec_response_body row = Some (stored_response body etag)" "status < 65536"
  shows "begin_idempotent_command ix self scope operation (Some key) request now' t3
      = (Inr (DecisionReplay \<lparr>replay_status = status, replay_body = body, replay_etag = etag\<rparr>), t3)"
    and "fingerprint ix ''owlrora:idempotency:request:v1'' request' \<noteq> fingerprint ix ''owlrora:idempotency:request:v1'' request
      \<Longrightarrow> begin_idempotent_command ix self scope operation (Some key) request' now' t3 = (Inl AppIdempotencyConflict, t3)"
proof -
  have handle: "idempotency_handle_with_fingerprint ix self scope operation key
      (fingerprint ix ''owlrora:idempotency:request:v1'' request) = Inr handle"
    using first begin_execute by (simp add: begin_idempotent_command_def)
  show "begin_idempotent_command ix self scope operation (Some key) request now' t3
      = (Inr (DecisionReplay \<lparr>replay_status = status, replay_body = body, replay_etag = etag\<rparr>), t3)"
    using replay_row [OF row(2-6)]
    by (simp add: begin_idempotent_command_def begin_idempotent_command_with_fingerprint_def handle row(1))
  assume other: "fingerprint ix ''owlrora:idempotency:request:v1'' request' \<noteq> fingerprint ix ''owlrora:idempotency:request:v1'' request"
  note h = handle_with_other_request [OF handle, of "fingerprint ix ''owlrora:idempotency:request:v1'' request'"]
  have "record_key (handle\<lparr>request_fingerprint := r\<rparr>) = record_key handle" for r by (simp add: record_key_def)
  then show "begin_idempotent_command ix self scope operation (Some key) request' now' t3 = (Inl AppIdempotencyConflict, t3)"
    using other h row(1,2)
    by (simp add: begin_idempotent_command_def begin_idempotent_command_with_fingerprint_def replay_from_row_def
        fingerprints_match_def)
qed

text \<open>
  C32: Once a command with a key is completed, the same request with the same key gets the recorded status,
  body and tag back and changes nothing, and a different request with that key is refused as a conflict, as long as
  the record is there.
\<close>

theorem idempotent_replay:
  assumes first: "begin_idempotent_command ix self scope operation (Some key) request now table = (Inr (Execute (Some handle)), t1)"
    and completed: "complete_idempotent_command (Some handle) status body etag t1 = (Inr (), t2)" and status: "status < 65536"
    and kept: "aget t3 (record_key handle) = aget t2 (record_key handle)"
  shows "begin_idempotent_command ix self scope operation (Some key) request now' t3
      = (Inr (DecisionReplay \<lparr>replay_status = status, replay_body = body, replay_etag = etag\<rparr>), t3)
    \<and> (fingerprint ix ''owlrora:idempotency:request:v1'' request' \<noteq> fingerprint ix ''owlrora:idempotency:request:v1'' request
       \<longrightarrow> begin_idempotent_command ix self scope operation (Some key) request' now' t3 = (Inl AppIdempotencyConflict, t3))"
proof -
  obtain row where row: "aget t2 (record_key handle) = Some row" "rec_request_fingerprint row = request_fingerprint handle"
    "rec_state row = ''completed''" "rec_response_status row = Some (int status)"
    "rec_response_body row = Some (stored_response body etag)"
    using complete_row [OF completed] by blast
  show ?thesis using begin_again [OF first _ row(2-5) status, of t3] row(1) kept by auto
qed

subsection \<open>Cleaning up\<close>

lemma length_filter_keys:
  assumes "adistinct table" "set xs \<subseteq> set table" "distinct xs"
  shows "length (filter (\<lambda>(k, _). k \<in> fst ` set xs) table) = length xs"
proof -
  note unique = map_of_is_SomeI [OF assms(1) [unfolded adistinct_def]]
  have each: "(k, v) \<in> set table \<and> k \<in> fst ` set xs \<longleftrightarrow> (k, v) \<in> set xs" for k v
  proof
    assume here: "(k, v) \<in> set table \<and> k \<in> fst ` set xs"
    then obtain w where w: "(k, w) \<in> set xs" by auto
    then have "map_of table k = Some w" using assms(2) unique by blast
    then have "w = v" using unique [of k v] here by simp
    then show "(k, v) \<in> set xs" using w by simp
  next
    assume here: "(k, v) \<in> set xs"
    then have "k \<in> fst ` set xs" by (rule image_eqI [rotated]) simp
    then show "(k, v) \<in> set table \<and> k \<in> fst ` set xs" using here assms(2) by blast
  qed
  have same: "set (filter (\<lambda>(k, _). k \<in> fst ` set xs) table) = set xs"
    unfolding set_filter using each by (intro set_eqI) (simp only: mem_Collect_eq case_prod_unfold, metis prod.collapse)
  have "distinct table" using assms(1) by (simp add: adistinct_def distinct_map)
  then have "length (filter (\<lambda>(k, _). k \<in> fst ` set xs) table) = card (set xs)"
    using same distinct_card [of "filter (\<lambda>(k, _). k \<in> fst ` set xs) table"] by simp
  then show ?thesis using assms(3) by (simp add: distinct_card)
qed

lemma delete_batch_exact:
  assumes "adistinct table" "delete_batch now table = (deleted, table')"
  shows "deleted = min 1000 (length (filter (\<lambda>(_, row). record_expired now row) table))"
    and "table' = filter (\<lambda>(k, _). k \<notin> expired_batch now table) table"
    and "filter (\<lambda>(_, row). \<not> record_expired now row) table' = filter (\<lambda>(_, row). \<not> record_expired now row) table"
    and "length (filter (\<lambda>(_, row). record_expired now row) table')
      = length (filter (\<lambda>(_, row). record_expired now row) table) - deleted"
proof -
  define expired where "expired = filter (\<lambda>(_, row). record_expired now row) table"
  define xs where "xs = take 1000 (sort_key (\<lambda>(_, row). rec_expires_at row) expired)"
  have batch: "expired_batch now table = fst ` set xs" by (simp add: expired_batch_def xs_def expired_def)
  have distinct: "distinct table" using assms(1) by (simp add: adistinct_def distinct_map)
  have xs: "set xs \<subseteq> set expired" "distinct xs" "length xs = min 1000 (length expired)"
    using distinct set_take_subset [of 1000 "sort_key (\<lambda>(_, row). rec_expires_at row) expired"]
    by (auto simp: xs_def expired_def)
  have sub: "set xs \<subseteq> set table" using xs(1) by (auto simp: expired_def)
  show table': "table' = filter (\<lambda>(k, _). k \<notin> expired_batch now table) table"
    using assms(2) by (simp add: delete_batch_def Let_def)
  have removed: "length (filter (\<lambda>(k, _). k \<in> expired_batch now table) table) = length xs"
    unfolding batch by (rule length_filter_keys [OF assms(1) sub xs(2)])
  have "length table = length table' + length xs"
    using sum_length_filter_compl [of "\<lambda>(k, _). k \<in> expired_batch now table" table] removed
    by (simp add: table' case_prod_unfold)
  then show deleted: "deleted = min 1000 (length (filter (\<lambda>(_, row). record_expired now row) table))"
    using assms(2) xs(3) table' by (simp add: delete_batch_def Let_def expired_def)
  have inj: "(k, row) \<in> set table \<Longrightarrow> k \<in> expired_batch now table \<Longrightarrow> (k, row) \<in> set xs" for k row
  proof -
    assume row: "(k, row) \<in> set table" and "k \<in> expired_batch now table"
    then obtain r where r: "(k, r) \<in> set xs" unfolding batch by force
    have "(k, r) \<in> set table" using r sub by blast
    then have "map_of table k = Some row" "map_of table k = Some r"
      using map_of_is_SomeI [OF assms(1) [unfolded adistinct_def]] row by blast+
    then show "(k, row) \<in> set xs" using r by simp
  qed
  have gone: "record_expired now row" if "(k, row) \<in> set table" "k \<in> expired_batch now table" for k row
    using inj [OF that] xs(1) by (auto simp: expired_def)
  show "filter (\<lambda>(_, row). \<not> record_expired now row) table' = filter (\<lambda>(_, row). \<not> record_expired now row) table"
    unfolding table' filter_filter by (rule filter_cong [OF refl]) (use gone in auto)
  have "length (filter (\<lambda>(_, row). record_expired now row) table')
      = length (filter (\<lambda>x. \<not> fst x \<in> expired_batch now table) expired)"
    unfolding table' expired_def filter_filter by (rule arg_cong [where f = length]) (rule filter_cong [OF refl], auto)
  moreover have "length (filter (\<lambda>x. fst x \<in> expired_batch now table) expired) = length xs"
  proof -
    have "filter (\<lambda>x. fst x \<in> expired_batch now table) expired = filter (\<lambda>(k, _). k \<in> expired_batch now table) table"
      unfolding expired_def filter_filter by (rule filter_cong [OF refl]) (use gone in auto)
    then show ?thesis using removed by simp
  qed
  ultimately show "length (filter (\<lambda>(_, row). record_expired now row) table')
      = length (filter (\<lambda>(_, row). record_expired now row) table) - deleted"
    using sum_length_filter_compl [of "\<lambda>x. fst x \<in> expired_batch now table" expired] deleted xs(3)
    by (simp add: expired_def)
qed

definition expired_records :: "int \<Rightarrow> IdempotencyTable \<Rightarrow> IdempotencyTable" where
  "expired_records now table = filter (\<lambda>(_, row). record_expired now row) table"

definition live_records :: "int \<Rightarrow> IdempotencyTable \<Rightarrow> IdempotencyTable" where
  "live_records now table = filter (\<lambda>(_, row). \<not> record_expired now row) table"

lemma record_expired_later: "record_expired now row \<Longrightarrow> now \<le> later \<Longrightarrow> record_expired later row"
  by (auto simp: record_expired_def)

lemma delete_batch_later:
  assumes "adistinct table" "delete_batch now table = (deleted, table')" "now \<le> later"
  shows "live_records later table' = live_records later table"
    and "length (expired_records later table') + deleted = length (expired_records later table)"
proof -
  note exact = delete_batch_exact [OF assms(1,2)]
  have split: "live_records later t = filter (\<lambda>(_, row). \<not> record_expired later row) (filter (\<lambda>(_, row). \<not> record_expired now row) t)"
    for t
    unfolding live_records_def filter_filter
    by (rule filter_cong [OF refl]) (use record_expired_later [OF _ assms(3)] in auto)
  show live: "live_records later table' = live_records later table"
    unfolding split exact(3) ..
  have count: "length (live_records later t) + length (expired_records later t) = length t" for t
    using sum_length_filter_compl [of "\<lambda>(_, row). record_expired later row" t]
    by (simp add: live_records_def expired_records_def case_prod_unfold)
  have "length table = length table' + deleted"
    using assms(2) by (auto simp: delete_batch_def Let_def)
  with count [of table] count [of table'] live
  show "length (expired_records later table') + deleted = length (expired_records later table)" by simp
qed

definition cleanup_result ::
    "(nat \<Rightarrow> int) \<Rightarrow> nat \<Rightarrow> nat \<Rightarrow> IdempotencyTable \<Rightarrow> (ApplicationError + nat) \<times> IdempotencyTable \<Rightarrow> bool" where
  "cleanup_result clock n so_far table result \<longleftrightarrow>
     (\<exists>last. n \<le> last \<and> last - n = length (expired_records (clock last) table) div 1000
        \<and> result = (Inr (so_far + length (expired_records (clock last) table)), live_records (clock last) table))
     \<or> u64_max < so_far + length table \<and> fst result = Inl AppInternal"

lemma cleanup_last:
  assumes "adistinct table" "delete_batch (clock n) table = (deleted, table')" "deleted < 1000"
  shows "cleanup_result clock n so_far table (Inr (so_far + deleted), table')"
proof -
  note later = delete_batch_later [OF assms(1,2) order_refl]
  have all: "length (expired_records (clock n) table) = deleted"
    using delete_batch_exact(1) [OF assms(1,2)] assms(3) by (auto simp: expired_records_def)
  then have "expired_records (clock n) table' = []" using later(2) by simp
  then have "live_records (clock n) table' = table'"
    unfolding live_records_def expired_records_def by (intro filter_True) (auto simp: filter_empty_conv)
  with later(1) all assms(3) show ?thesis
    unfolding cleanup_result_def by (intro disjI1 exI [of _ n]) simp
qed

lemma cleanup_more:
  assumes "adistinct table" "mono clock" "delete_batch (clock n) table = (1000, table')"
    and "cleanup_result clock (Suc n) (so_far + 1000) table' result"
  shows "cleanup_result clock n so_far table result"
proof -
  have size: "length table = length table' + 1000"
    using assms(3) by (auto simp: delete_batch_def Let_def)
  from assms(4) show ?thesis
    unfolding cleanup_result_def [of clock "Suc n"]
  proof
    assume "\<exists>last\<ge>Suc n. last - Suc n = length (expired_records (clock last) table') div 1000
        \<and> result = (Inr (so_far + 1000 + length (expired_records (clock last) table')), live_records (clock last) table')"
    then obtain last where last: "Suc n \<le> last" "last - Suc n = length (expired_records (clock last) table') div 1000"
      "result = (Inr (so_far + 1000 + length (expired_records (clock last) table')), live_records (clock last) table')" by blast
    have "clock n \<le> clock last" using assms(2) last(1) by (simp add: monoD)
    note later = delete_batch_later [OF assms(1,3) this]
    have "last - n = length (expired_records (clock last) table) div 1000"
      using last(1,2) by (simp flip: later(2))
    with last(1,3) show ?thesis
      unfolding cleanup_result_def by (intro disjI1 exI [of _ last]) (simp add: later(1) flip: later(2))
  qed (simp add: cleanup_result_def size)
qed


subsection \<open>Concrete commands\<close>

definition sample_ix :: IdempotencyExternals where
  "sample_ix =
     \<lparr>ix_sha = (\<lambda>b. b), ix_encode = letters_enc, ix_mac = (\<lambda>k b. k @ b), ix_mac_key = Some [1],
      ix_actor_json = (\<lambda>_. Some [1]), ix_scope_json = (\<lambda>_. Some [2]), ix_uuid_bytes = (\<lambda>i. [of_nat i])\<rparr>"

definition sample_handle :: IdempotencyHandle where
  "sample_handle =
     \<lparr>actor_fingerprint = fingerprint_text sample_ix ''owlrora:idempotency:actor:v1'' [1],
      scope_fingerprint = fingerprint_text sample_ix ''owlrora:idempotency:scope:v1'' [2],
      handle_operation_id = ''op'', handle_key = ''k'',
      request_fingerprint = fingerprint sample_ix ''owlrora:idempotency:request:v1'' [3]\<rparr>"

definition sample_begun :: IdempotencyTable where
  "sample_begun = [(record_key sample_handle,
     \<lparr>rec_request_fingerprint = request_fingerprint sample_handle, rec_state = ''in_progress'',
      rec_response_status = None, rec_response_body = None, rec_expires_at = IDEMPOTENCY_TTL_HOURS * 3600000\<rparr>)]"

lemma sample_begin:
  "begin_idempotent_command sample_ix self ResourceDeployment ''op'' (Some ''k'') [3] 0 []
     = (Inr (Execute (Some sample_handle)), sample_begun)"
proof -
  have "idempotency_handle_with_fingerprint sample_ix self ResourceDeployment ''op'' ''k''
      (fingerprint sample_ix ''owlrora:idempotency:request:v1'' [3]) = Inr sample_handle"
    by (simp add: idempotency_handle_with_fingerprint_def validate_idempotency_key_def ok_or_def sample_handle_def,
        simp add: sample_ix_def)
  then show ?thesis
    by (simp add: begin_idempotent_command_def begin_idempotent_command_with_fingerprint_def sample_begun_def)
qed

lemma sample_complete:
  "complete_idempotent_command (Some sample_handle) 200 JNull None sample_begun
     = (Inr (), snd (complete_idempotent_command (Some sample_handle) 200 JNull None sample_begun))"
  by (simp add: complete_idempotent_command_def sample_begun_def)

theorem idempotent_replay_witness:
  "\<forall>self. \<exists>table. begin_idempotent_command sample_ix self ResourceDeployment ''op'' (Some ''k'') [3] 9 table
     = (Inr (DecisionReplay \<lparr>replay_status = 200, replay_body = JNull, replay_etag = None\<rparr>), table)"
  using idempotent_replay [OF sample_begin sample_complete _ refl, where now' = 9] by fastforce

definition sample_old :: IdempotencyRecord where
  "sample_old = \<lparr>rec_request_fingerprint = [], rec_state = ''completed'', rec_response_status = Some 200,
     rec_response_body = None, rec_expires_at = 5\<rparr>"


end
