(* ===== verification/StreamRelease.thy ===== *)
theory StreamRelease
  imports Circuits DispatchLaws
begin

section \<open>A stream gives back what it holds\<close>

text \<open>
  A committed stream holds the permit of its target and the budget reservation of its attempt for as long
  as it runs.  Here the run of a stream is put in the states that the protection of targets and the local
  budgets can be in while it runs, with whatever else is alive in them.
\<close>

subsection \<open>The budget reservation\<close>

lemma locals_ok_mark [simp]:
  "locals_ok (add_mset (mark_dispatched r) live) pending used local \<longleftrightarrow> locals_ok (add_mset r live) pending used local"
proof -
  have "res_pair (mark_dispatched r) = res_pair r" "res_grant_id (mark_dispatched r) = res_grant_id r"
    "released (mark_dispatched r) = released r" "key_reserved_nanos (mark_dispatched r) = key_reserved_nanos r"
    "origin_reserved_nanos (mark_dispatched r) = origin_reserved_nanos r"
    by (simp_all add: mark_dispatched_def)
  then show ?thesis
    by (simp add: locals_ok_def grants_ok_def entry_ok_def grant_ok_def reservations_of_def reservation_backed_def)
qed

lemma settle_backed:
  assumes "locals_ok (add_mset r live) pending used local" "res_pair r = Some pair" "res_grant_id r = Some gid"
  shows "locals_ok live pending used
    (settle_budget_reservation pair gid (key_reserved_nanos r) (origin_reserved_nanos r) actual local)"
proof -
  let ?ka = "if bpk_key pair = None then 0 else actual"
  let ?oa = "if bpk_origin pair = None then 0 else actual"
  from assms obtain g where g: "find_grant pair gid local = Some g"
    and ok: "grant_ok (add_mset r (reservations_of live pair gid)) g"
    and m: "endable live pending used pair gid local g"
    by (rule modify_grant_ok)
  obtain k kd where k: "settle_budget_side (key_remaining_nanos g) (key_reserved_nanos r) ?ka = (k, kd)" by fastforce
  obtain o' od where o: "settle_budget_side (origin_remaining_nanos g) (origin_reserved_nanos r) ?oa = (o', od)"
    by fastforce
  let ?f = "\<lambda>g. g\<lparr>key_remaining_nanos := k, origin_remaining_nanos := o', in_use := in_use g - 1\<rparr>"
  have "k \<le> key_remaining_nanos g + key_reserved_nanos r" "o' \<le> origin_remaining_nanos g + origin_reserved_nanos r"
    using settle_budget_side_exact [OF k] settle_budget_side_exact [OF o] ok by (auto simp: grant_ok_def)
  then have "grant_id_of (?f g) = gid" "grant_ok (reservations_of live pair gid) (?f g)"
    using g ok by (auto simp: find_grant_def grant_ok_def dest: find_SomeD)
  then have "locals_ok live pending used (modify_grant pair gid ?f local)"
    using endableD [OF m, of ?f] by blast
  then show ?thesis
    by (simp add: settle_budget_reservation_def g k o Let_def locals_ok_def)
qed

lemma end_reservation_ok:
  assumes "locals_ok (add_mset r live) pending used local"
  shows "locals_ok live pending used (end_reservation how r local)"
proof -
  from assms have "reservation_backed (budget_grants local) r" by (simp add: locals_ok_def grants_ok_def)
  then obtain pair gid where r: "res_pair r = Some pair" "res_grant_id r = Some gid" and open_: "\<not> released r"
    by (auto simp: reservation_backed_def)
  show ?thesis
  proof (cases how)
    case Released
    with r open_ show ?thesis
      using release_ok [OF assms r refl] by (simp add: end_reservation_def definitely_not_dispatched_def)
  next
    case Abandoned
    have "snd (AttemptReservation_drop (mark_dispatched r) local) = abandon_budget_reservation pair gid local"
      using r open_ by (simp add: AttemptReservation_drop_def mark_dispatched_def)
    with Abandoned show ?thesis
      using abandon_ok [OF assms r refl] by (simp add: end_reservation_def)
  next
    case (Settled actual)
    with r open_ show ?thesis
      using settle_backed [OF assms r] by (simp add: end_reservation_def settle_actual_cost_def)
  qed
qed

subsection \<open>The permit of the target\<close>

lemma end_permit_step:
  assumes "(protection_step P)\<^sup>*\<^sup>* start (gw_protection gw, clk, add_mset permit permits)" "clk \<le> gw_now gw"
  shows "(protection_step P)\<^sup>*\<^sup>* start (gw_protection (end_permit how permit gw), gw_now gw, permits)"
proof -
  have "protection_step P (gw_protection gw, clk, add_mset permit permits)
      (gw_protection (end_permit how permit gw), gw_now gw, permits)"
    using assms(2) by (cases how) (simp_all add: end_permit_def protection_step.intros)
  with assms(1) show ?thesis by (rule rtranclp.rtrancl_into_rtrancl)
qed

lemma stream_end_closed:
  fixes gw :: "'c Gateway"
  assumes "rs_telemetry (so_settlement so) = Some tel"
    and "dispatched (rs_reservation (so_settlement so))" "\<not> released (rs_reservation (so_settlement so))"
  shows "\<exists>how permit_end. gw_protection (stream_end epoch e so gw) = gw_protection (end_permit permit_end (so_permit so) gw)
    \<and> snd (gw_admission (stream_end epoch e so gw))
      = end_reservation how (rs_reservation (so_settlement so)) (snd (gw_admission gw))"
proof -
  let ?g = "settlement_drop (so_settlement so) gw"
  obtain how where how: "snd (gw_admission ?g)
      = end_reservation how (rs_reservation (so_settlement so)) (snd (gw_admission gw))"
    using settlement_drop_closed [OF assms, of gw] by blast
  have logical: "gw_protection (snd (logical_finish outcome usage d l g)) = gw_protection g"
    "gw_admission (snd (logical_finish outcome usage d l g)) = gw_admission g"
    "gw_protection (logical_drop l g) = gw_protection g" "gw_admission (logical_drop l g) = gw_admission g"
    "gw_now (logical_drop l g) = gw_now g"
    for outcome usage d l and g :: "'c Gateway"
    by (simp_all add: logical_finish_def logical_drop_def)
  note rows = settlement_drop_rows(3,4) [OF assms(1), of gw]
  let ?ending = "case e of StreamCompleted \<Rightarrow> PermitSucceeded | StreamBroken _ \<Rightarrow> PermitFailed epoch | StreamDropped \<Rightarrow> PermitDropped"
  have "gw_protection (stream_end epoch e so gw) = gw_protection (end_permit ?ending (so_permit so) gw)"
    by (cases e) (simp_all add: stream_end_def Let_def logical rows end_permit_def)
  moreover have "gw_admission (stream_end epoch e so gw) = gw_admission ?g"
    by (cases e) (simp_all add: stream_end_def Let_def logical)
  ultimately show ?thesis using how by auto
qed

subsection \<open>Only what comes before the deadline counts\<close>

lemma stream_feed_irrelevant:
  "stream_guard (so\<lparr>so_feed := x\<rparr>) now = stream_guard so now"
  "stream_chunk we chunk (so\<lparr>so_feed := x\<rparr>) = map_prod (\<lambda>so. so\<lparr>so_feed := x\<rparr>) id (stream_chunk we chunk so)"
  "stream_end epoch e (so\<lparr>so_feed := x\<rparr>) gw = stream_end epoch e so gw"
  by (simp_all add: stream_guard_def stream_chunk_def stream_end_def Let_def split: prod.split option.split StreamEnd.split)

definition with_feed :: "chunk_feed \<Rightarrow> instant \<times> string list \<times> StreamOwner \<times> StreamEnd
    \<Rightarrow> instant \<times> string list \<times> StreamOwner \<times> StreamEnd" where
  "with_feed x r = (case r of (now, out, so, e) \<Rightarrow> (now, out, so\<lparr>so_feed := x\<rparr>, e))"

lemma stream_loop_feed: "stream_loop we feed now (so\<lparr>so_feed := x\<rparr>) = with_feed x (stream_loop we feed now so)"
proof (induction feed arbitrary: now so)
  case Nil
  show ?case
    by (subst (1 2) stream_loop.simps)
      (simp add: with_feed_def stream_feed_irrelevant Let_def left_at_yield_def split: option.split)
next
  case (Cons a feed)
  obtain t answer where a: "a = (t, answer)" by (cases a)
  show ?case
    by (subst (1 2) stream_loop.simps)
      (cases answer; simp add: a with_feed_def stream_feed_irrelevant Let_def Cons.IH split: option.split prod.split sum.split)
qed

lemma stream_loop_later:
  "feed \<noteq> [] \<Longrightarrow> so_until so \<le> now + sum_list (map fst feed)
    \<Longrightarrow> stream_loop we (feed @ further) now so = stream_loop we feed now so"
proof (induction feed arbitrary: now so)
  case (Cons a feed)
  obtain t answer where a: "a = (t, answer)" by (cases a)
  have rest: "stream_loop we (feed @ further) (now + t) so1 = stream_loop we feed (now + t) so1"
    if "so_until so1 = so_until so" "now + t < so_until so" for so1
  proof -
    have "feed \<noteq> []" using Cons.prems(2) that(2) by (auto simp: a)
    then show ?thesis using Cons.IH [of so1 "now + t"] Cons.prems(2) that by (simp add: a add.assoc)
  qed
  have chunk: "so_until so1 = so_until so" if "stream_chunk we chunk so = (so1, r)" for chunk so1 r
    using stream_chunk_owner [OF that] by (simp add: same_owner_def)
  show ?case
    by (subst (1 2) stream_loop.simps)
      (auto simp: a left_at_yield_def Let_def rest chunk split: option.split ChunkAnswer.split prod.split sum.split)
qed simp

lemma run_stream_later:
  assumes "so_feed so \<noteq> []" "so_until so \<le> gw_now gw + sum_list (map fst (so_feed so))"
  shows "run_stream we epoch (so\<lparr>so_feed := so_feed so @ further\<rparr>) gw = run_stream we epoch so gw"
proof -
  obtain now out so' e where loop: "stream_loop we (so_feed so) (gw_now gw) so = (now, out, so', e)"
    by (metis prod_cases4)
  with stream_loop_later [OF assms, of we further]
  have "stream_loop we (so_feed so @ further) (gw_now gw) so = (now, out, so', e)" by simp
  with stream_loop_feed [where feed = "so_feed so @ further" and x = "so_feed so @ further"] loop show ?thesis
    by (simp add: run_stream_def stream_feed_irrelevant with_feed_def)
qed

subsection \<open>The property\<close>

text \<open>
  C15: Every committed stream has ended by the request's deadline, at once if that has passed, whatever its
  upstream sends or fails to send, and it has then given back exactly what it held.  Out of any state of the
  protection of targets in which the stream's permit is one of the live ones, the capacities of endpoint,
  credential and deployment, and the half-open probes of every circuit, are those of the other permits.  Out of any
  state of the local budgets in which the stream's reservation is one of the live ones, the grants are in order with
  the other reservations.  Nothing that would arrive after the deadline matters, so this holds of an upstream that
  never stops sending as well.
\<close>

theorem stream_ends_by_deadline:
  assumes run: "run_stream we epoch so gw = (gw', out, e)" and "stream_live so"
    and "dispatched (rs_reservation (so_settlement so))"
    and "policies_ok b P" "clk \<le> gw_now gw"
    and "(protection_step P)\<^sup>*\<^sup>* (TargetProtectionState_new ne nc nd nb, clk0, {#})
      (gw_protection gw, clk, add_mset (so_permit so) permits)"
    and "locals_ok (add_mset (rs_reservation (so_settlement so)) live) pending used (snd (gw_admission gw))"
  shows "gw_now gw \<le> gw_now gw' \<and> gw_now gw' \<le> max (gw_now gw) (so_until so)
    \<and> capacity_in_use (cap_endpoint (gw_protection gw')) k = count (image_mset (fst \<circ> permit_capacity) permits) k
    \<and> capacity_in_use (cap_credential (gw_protection gw')) k = count (image_mset (fst \<circ> snd \<circ> permit_capacity) permits) k
    \<and> capacity_in_use (cap_deployment (gw_protection gw')) k = count (image_mset (snd \<circ> snd \<circ> permit_capacity) permits) k
    \<and> (case aget (circuits (gw_protection gw')) domain of None \<Rightarrow> True
       | Some entry \<Rightarrow> half_open_in_flight entry =
           (case open_until entry of None \<Rightarrow> 0 | Some t \<Rightarrow> count (held_tokens permits) (domain, Some t)))
    \<and> locals_ok live pending used (snd (gw_admission gw'))
    \<and> (so_feed so = [] \<or> gw_now gw + sum_list (map fst (so_feed so)) < so_until so
       \<or> run_stream we epoch (so\<lparr>so_feed := so_feed so @ further\<rparr>) gw = (gw', out, e))"
proof -
  obtain now out' so' where loop: "stream_loop we (so_feed so) (gw_now gw) so = (now, out', so', e)"
    and gw': "gw' = stream_end epoch e so' (gw\<lparr>gw_now := now\<rparr>)"
    using run by (auto simp: run_stream_def split: prod.split_asm)
  let ?r = "rs_reservation (so_settlement so)"
  have "\<not> released ?r" using assms(7) by (auto simp: locals_ok_def grants_ok_def reservation_backed_def)
  moreover obtain tel where "rs_telemetry (so_settlement so) = Some tel" using assms(2) by (auto simp: stream_live_def)
  moreover note same = stream_loop_owner [OF loop, unfolded same_owner_def]
  ultimately obtain how permit_end where
    protection: "gw_protection gw' = gw_protection (end_permit permit_end (so_permit so) (gw\<lparr>gw_now := now\<rparr>))"
    and admission: "snd (gw_admission gw') = end_reservation how ?r (snd (gw_admission gw))"
    using stream_end_closed [of so' tel epoch e "gw\<lparr>gw_now := now\<rparr>"] assms(3) by (auto simp: gw')
  have "clk \<le> now" using stream_loop_time [OF loop] assms(5) by simp
  then have "(protection_step P)\<^sup>*\<^sup>* (TargetProtectionState_new ne nc nd nb, clk0, {#}) (gw_protection gw', now, permits)"
    using end_permit_step [of P _ "gw\<lparr>gw_now := now\<rparr>" clk] assms(6) by (simp add: protection)
  from protection_reachable_inv [OF this assms(4)] have inv: "protection_inv b P (gw_protection gw', now, permits)" .
  have later: "so_feed so = [] \<or> gw_now gw + sum_list (map fst (so_feed so)) < so_until so
      \<or> run_stream we epoch (so\<lparr>so_feed := so_feed so @ further\<rparr>) gw = (gw', out, e)"
    using run_stream_later [of so gw we epoch further] run by (metis not_less)
  show ?thesis
    using run_stream_time [OF run] inv end_reservation_ok [OF assms(7), of how] later
    by (auto simp: admission protection_inv_def capacities_hold_def capacity_holds_def circuits_hold_def
        multiset.map_comp comp_assoc split: option.split)
qed

text \<open>
  A stream that holds the probe of a half-open circuit and a reservation of 40 nanos, whose upstream sends
  nothing.
\<close>

definition probing_owner :: StreamOwner where
  "probing_owner = sample_owner
     \<lparr>so_permit := Circuits.sample_permit (Some 100000000),
      so_settlement := ResponseSettlement_new (mark_dispatched BudgetRuns.sample_reservation)
        (AttemptTelemetry_new sample_shared BudgetRuns.sample_reservation 200000000),
      so_until := 200000900\<rparr>"

definition probing_state :: "Store Gateway" where
  "probing_state = sample_state
     \<lparr>gw_now := 200000000, gw_protection := sample_probing,
      gw_admission := (sample_ready, BudgetRuns.sample_local 60 1 False)\<rparr>"

lemma stream_ends_by_deadline_witness:
  "capacity_in_use (cap_credential sample_probing) 2 = 1
    \<and> capacity_in_use (cap_credential (gw_protection (fst (run_stream sample_wire 3 probing_owner probing_state)))) 2 = 0
    \<and> locals_ok {#} {#} {9} (snd (gw_admission (fst (run_stream sample_wire 3 probing_owner probing_state))))"
proof -
  obtain gw' out e where run: "run_stream sample_wire 3 probing_owner probing_state = (gw', out, e)" by (metis prod_cases3)
  have live: "stream_live probing_owner" "dispatched (rs_reservation (so_settlement probing_owner))"
    by (simp_all add: probing_owner_def sample_owner_def stream_live_def ResponseSettlement_new_def
        LogicalTelemetry_new_def mark_dispatched_def)
  have permit: "(protection_step {Circuits.sample_circuit_policy})\<^sup>*\<^sup>* (TargetProtectionState_new 4 4 4 4, 0, {#})
      (gw_protection probing_state, 200000000, add_mset (so_permit probing_owner) {#})" "200000000 \<le> gw_now probing_state"
    using Circuits.sample_reachable by (simp_all add: probing_state_def probing_owner_def)
  have budget: "locals_ok (add_mset (rs_reservation (so_settlement probing_owner)) {#}) {#} {9}
      (snd (gw_admission probing_state))"
    using budget_reachable_ok [OF BudgetRuns.sample_reach_reserved]
    by (simp add: run_ok_def BudgetRuns.sample_run_def probing_state_def probing_owner_def ResponseSettlement_new_def)
  have "capacity_in_use (cap_credential (gw_protection gw')) 2 = 0 \<and> locals_ok {#} {#} {9} (snd (gw_admission gw'))"
    using stream_ends_by_deadline [OF run live Circuits.sample_policies permit(2,1) budget, of 2] by simp
  moreover have "capacity_in_use (cap_credential sample_probing) 2 = 1"
    using protection_reachable_inv [OF Circuits.sample_reachable Circuits.sample_policies]
    by (simp add: protection_inv_def capacities_hold_def capacity_holds_def Circuits.sample_permit_def)
  ultimately show ?thesis by (simp add: run)
qed

end
