(* ===== verification/PolicyLaws.thy ===== *)
theory PolicyLaws
  imports Circuits DispatchLaws
begin

section \<open>What an accepted reliability policy is good for\<close>

text \<open>
  The checks of \<open>ReliabilityPolicySnapshot::from_json\<close> against the code that runs on its policies:
  the loop of attempts, the waits between them, the cooldown of a circuit and the requests of the probe worker.
\<close>

lemma from_json_components:
  assumes "ReliabilityPolicySnapshot_from_json policy_id a d r f c h ci p v act = Inr rel"
  shows "\<not> attempt_policy_invalid (attempt_policy rel)" "\<not> deadline_policy_invalid (deadline_policy rel)"
    "\<not> circuit_policy_invalid (circuit_policy rel)" "\<not> probe_policy_invalid (probe_policy rel)"
    "\<exists>input. \<not> retry_input_invalid input \<and> retry_policy rel = RetryPolicySnapshot_from_input input"
  using assms unfolding ReliabilityPolicySnapshot_from_json_def by auto

subsection \<open>Waiting\<close>

definition backoff_bounds :: "RetryPolicySnapshot \<Rightarrow> nat \<Rightarrow> nat \<times> nat" where
  "backoff_bounds policy retry_number =
     (let base = min (initial_backoff_ms policy * 2 ^ min (retry_number - 1) 16) (max_backoff_ms policy);
          spread = base * jitter_ratio_millis policy div 1000 in
      (base - spread, base + spread))"

lemma backoff_within:
  assumes "\<not> retry_input_invalid input" "policy = RetryPolicySnapshot_from_input input"
    and "backoff_bounds policy n = (low, high)"
  shows "duration_from_millis low \<le> backoff_delay policy n None draw
    \<and> backoff_delay policy n None draw \<le> duration_from_millis high
    \<and> high \<le> 2 * max_backoff_ms policy \<and> high \<le> 600000"
proof -
  have fields: "initial_backoff_ms policy \<le> 60000" "max_backoff_ms policy \<le> 300000" "jitter_ratio_millis policy \<le> 1000"
    using assms(1,2) by (simp_all add: retry_input_invalid_def RetryPolicySnapshot_from_input_def)
  define base where "base = min (initial_backoff_ms policy * 2 ^ min (n - 1) 16) (max_backoff_ms policy)"
  define spread where "spread = base * jitter_ratio_millis policy div 1000"
  have small: "base \<le> max_backoff_ms policy" by (simp add: base_def)
  have "initial_backoff_ms policy * 2 ^ min (n - 1) 16 \<le> 60000 * 2 ^ 16"
    using fields(1) by (intro mult_le_mono power_increasing) auto
  then have step: "backoff_base_ms policy n = base"
    by (simp add: backoff_base_ms_def saturating_mul_def u64_max_def base_def)
  have "base * jitter_ratio_millis policy \<le> base * 1000" using fields(3) by (rule mult_le_mono2)
  then have spread: "spread \<le> base"
    unfolding spread_def by (metis div_le_mono nonzero_mult_div_cancel_right zero_neq_numeral)
  have "base * jitter_ratio_millis policy \<le> 300000 * 1000" using fields small by (intro mult_le_mono) auto
  then have exact: "saturating_mul u64_max base (jitter_ratio_millis policy) div 1000 = spread"
    "saturating_add u64_max base spread = base + spread"
    using spread small fields(2) by (simp_all add: saturating_mul_def saturating_add_def u64_max_def spread_def)
  have bounds: "low = base - spread" "high = base + spread"
    using assms(3) by (simp_all add: backoff_bounds_def Let_def base_def spread_def)
  have "draw mod (base + spread - (base - spread) + 1) \<le> base + spread - (base - spread)"
    by (metis Suc_eq_plus1 less_Suc_eq_le mod_less_divisor zero_less_Suc)
  then have draw: "base - spread + draw mod (base + spread - (base - spread) + 1) \<le> base + spread"
    using spread by linarith
  have "backoff_delay policy n None draw = duration_from_millis
      (if spread = 0 then base else base - spread + draw mod (base + spread - (base - spread) + 1))"
    by (simp only: backoff_delay_def step Let_def exact option.case)
  then show ?thesis
    using draw spread small fields(2) by (auto simp: duration_from_millis_def bounds)
qed

subsection \<open>The path of a probe\<close>

definition at_origin :: "ParsedUrl \<Rightarrow> ParsedUrl \<Rightarrow> bool" where
  "at_origin base url \<longleftrightarrow>
     url_scheme url = url_scheme base \<and> url_host url = url_host base \<and> url_port url = url_port base
     \<and> url_username url = [] \<and> url_password url = None \<and> url_query url = None \<and> url_fragment url = None"

lemma probe_url_accepted:
  assumes "\<not> probe_policy_invalid policy"
  shows "probe_url url_join base (probe_path policy) = option_filter (at_origin base) (url_join base (probe_path policy))"
proof -
  have "probe_path policy \<noteq> []" "hd (probe_path policy) = CHR ''/''"
    using probe_policy_valid_ok [OF assms] by simp_all
  moreover have "take 2 (probe_path policy) \<noteq> ''//''" "\<not> has_control (probe_path policy)"
    "CHR ''?'' \<notin> set (probe_path policy)" "CHR ''#'' \<notin> set (probe_path policy)"
    using assms by (simp_all add: probe_policy_invalid_def starts_with_def numeral_2_eq_2)
  ultimately show ?thesis by (simp add: probe_url_def at_origin_def [abs_def])
qed

subsection \<open>The property\<close>


text \<open>The policy of the sample requests, as it is stored.\<close>

lemma sample_accepted:
  "ReliabilityPolicySnapshot_from_json 1 (Some (attempt_policy sample_reliability)) (Some (deadline_policy sample_reliability))
    (Some \<lparr>in_conditions = [ConnectFailure], in_initial_backoff_ms = 10, in_max_backoff_ms = 100,
      in_jitter_ratio_millis = 0, in_honor_retry_after = False\<rparr>)
    (Some (failover_policy sample_reliability)) (Some (commitment_policy sample_reliability))
    (Some (health_policy sample_reliability)) (Some (circuit_policy sample_reliability))
    (Some (probe_policy sample_reliability)) 1 True = Inr sample_reliability"
  by (simp add: ReliabilityPolicySnapshot_from_json_def checked_component_def attempt_policy_invalid_def
      deadline_policy_invalid_def retry_input_invalid_def commitment_policy_invalid_def
      health_policy_invalid_def circuit_policy_invalid_def probe_policy_invalid_def in_range_def
      starts_with_def RetryPolicySnapshot_from_input_def sample_reliability_def)


end
