(* ===== verification/RequestLaws.thy ===== *)
theory RequestLaws
  imports Exchange WireLaws
begin

section \<open>The body a provider receives\<close>

text \<open>
  What \<open>prepare_body\<close> of \<open>gateway/isolation.rs\<close> makes of the body of a request, through
  \<open>adapt_provider_body\<close> of \<open>adapters/provider/wire.rs\<close>, with the limit that
  \<open>execute_attempt\<close> gives it.
\<close>

subsection \<open>The fields that bound the output\<close>

text \<open>The fields of a protocol that bound the output, and the object they are members of.\<close>

fun bound_fields :: "IngressProtocolFamily \<Rightarrow> string list" where
  "bound_fields IngressAnthropicMessages = [''max_tokens'']"
| "bound_fields IngressOpenaiChatCompletions = [''max_completion_tokens'', ''max_tokens'']"
| "bound_fields IngressOpenaiResponses = [''max_output_tokens'']"
| "bound_fields IngressGoogleGemini = [''maxOutputTokens'']"

definition bounds_object :: "IngressProtocolFamily \<Rightarrow> json_object \<Rightarrow> json_object" where
  "bounds_object family object =
     (if family = IngressGoogleGemini
      then case Option.bind (aget object ''generationConfig'') json_as_object of None \<Rightarrow> [] | Some members \<Rightarrow> members
      else object)"

text \<open>The older field of a chat completion goes unnoticed beside the newer one.\<close>

definition bound_unnoticed :: "IngressProtocolFamily \<Rightarrow> json_object \<Rightarrow> string \<Rightarrow> bool" where
  "bound_unnoticed family object field \<longleftrightarrow>
     family = IngressOpenaiChatCompletions \<and> field = ''max_tokens'' \<and> contains_key object ''max_completion_tokens''"

text \<open>The bound of the client in a field, cut to the limit, which stands in where there is none.\<close>

definition cut_bound :: "nat \<Rightarrow> json option \<Rightarrow> json" where
  "cut_bound m value = JNat (min (case Option.bind value json_as_u64 of None \<Rightarrow> m | Some n \<Rightarrow> n) m)"

definition output_bounded :: "IngressProtocolFamily \<Rightarrow> nat \<Rightarrow> json_object \<Rightarrow> json_object \<Rightarrow> bool" where
  "output_bounded family m object sent \<longleftrightarrow>
     (let client = aget (bounds_object family object); provider = aget (bounds_object family sent) in
      (\<forall>field \<in> set (bound_fields family).
         if bound_unnoticed family object field then provider field = client field
         else provider field = Some (cut_bound m (client field)) \<or> provider field = None \<and> client field = None)
      \<and> (\<exists>field \<in> set (bound_fields family). \<not> bound_unnoticed family object field \<and> provider field \<noteq> None))"

lemma clamp_field_aget:
  "aget (clamp_field field m object) f = (if f = field then Some (cut_bound m (aget object field)) else aget object f)"
  by (simp add: clamp_field_def cut_bound_def Let_def aget_aput)

lemma enforced_bounded:
  assumes "output_bound family object = Inr bound"
  shows "output_bounded family m object (enforce_output_bound family m object)"
proof (cases family)
  case IngressGoogleGemini
  have "aget object ''generationConfig'' = None \<or> (\<exists>members. aget object ''generationConfig'' = Some (JObject members))"
    using assms by (auto simp: IngressGoogleGemini output_bound.simps elim!: json_as_object.elims split: option.split_asm)
  then show ?thesis
    by (auto simp: IngressGoogleGemini output_bounded_def bounds_object_def bound_unnoticed_def aget_aput clamp_field_aget
        enforce_output_bound.simps Let_def)
qed (auto simp: output_bounded_def bounds_object_def bound_unnoticed_def clamp_field_aget contains_key_def
    enforce_output_bound.simps Let_def)

text \<open>Only the bounds and the objects around them matter.\<close>

definition same_bounds :: "json_object \<Rightarrow> json_object \<Rightarrow> bool" where
  "same_bounds a b \<longleftrightarrow> (\<forall>field \<in> {''max_tokens'', ''max_completion_tokens'', ''max_output_tokens'', ''generationConfig''}.
     aget a field = aget b field)"

lemma same_boundsD:
  assumes "same_bounds a b"
  shows "aget a ''max_tokens'' = aget b ''max_tokens''" "aget a ''max_completion_tokens'' = aget b ''max_completion_tokens''"
    "aget a ''max_output_tokens'' = aget b ''max_output_tokens''" "aget a ''generationConfig'' = aget b ''generationConfig''"
  using assms by (simp_all add: same_bounds_def)

lemma bounds_object_same:
  assumes "same_bounds a b"
  shows "field \<in> set (bound_fields family) \<Longrightarrow> aget (bounds_object family a) field = aget (bounds_object family b) field"
    and "bound_unnoticed family a field = bound_unnoticed family b field"
  using same_boundsD [OF assms]
  by (cases family; auto simp only: bounds_object_def bound_fields.simps set_simps insert_iff empty_iff if_True if_False
      IngressProtocolFamily.distinct refl simp_thms)
    (simp add: bound_unnoticed_def contains_key_def same_boundsD [OF assms])

lemma smallest_bound_same:
  "(\<And>field. field \<in> set names \<Longrightarrow> aget a field = aget b field) \<Longrightarrow> smallest_bound a names n = smallest_bound b names n"
  by (induction names arbitrary: n) (auto split: option.split)

lemma bounds_same:
  assumes "same_bounds a b"
  shows "output_bounded family m a x = output_bounded family m b x"
    and "output_bounded family m x a = output_bounded family m x b"
    and "output_bound family a = output_bound family b"
proof -
  note same = bounds_object_same [OF assms]
  show "output_bounded family m a x = output_bounded family m b x" "output_bounded family m x a = output_bounded family m x b"
    unfolding output_bounded_def Let_def same(2) by (simp_all add: same(1) cong: ball_cong bex_cong)
  show "output_bound family a = output_bound family b"
    using same_boundsD [OF assms]
    by (cases family) (auto simp: output_bound.simps simp del: smallest_bound.simps intro!: smallest_bound_same)
qed

lemma enforced_same:
  assumes "field \<notin> {''max_tokens'', ''max_completion_tokens'', ''max_output_tokens'', ''generationConfig''}"
  shows "aget (enforce_output_bound family m object) field = aget object field"
  using assms by (cases family) (auto simp: clamp_field_aget aget_aput Let_def enforce_output_bound.simps)

subsection \<open>The other fields\<close>

definition gateway_fields :: "string set" where
  "gateway_fields = {''model'', ''stream'', ''anthropic_version'', ''instructions'', ''stream_options'',
     ''prompt_cache_key'', ''max_tokens'', ''max_completion_tokens'', ''max_output_tokens'', ''generationConfig''}"

definition model_sent :: "TransportKind \<Rightarrow> string \<Rightarrow> json_object \<Rightarrow> json_object \<Rightarrow> bool" where
  "model_sent transport model object sent \<longleftrightarrow>
     aget sent ''model'' =
       (if transport \<in> {TransportAnthropicMessagesBedrock, TransportAnthropicMessagesVertex} then None
        else if transport \<in> gemini_transports then aget object ''model''
        else Some (JString model))"

definition usage_asked :: "json_object \<Rightarrow> bool" where
  "usage_asked sent \<longleftrightarrow> (\<exists>options. aget sent ''stream_options'' = Some (JObject options)
     \<and> aget options ''include_usage'' = Some (JBool True))"

lemma model_fields_sent:
  "model_sent transport model object (model_fields transport model object)"
  "same_bounds (model_fields transport model object) object"
  "field \<notin> gateway_fields \<Longrightarrow> aget (model_fields transport model object) field = aget object field"
  by (auto simp: model_sent_def model_fields_def same_bounds_def gateway_fields_def aget_aput aget_adel)

lemma stream_usage_sent:
  assumes "request_stream_usage object = Inr sent"
  shows "usage_asked sent" "field \<noteq> ''stream_options'' \<Longrightarrow> aget sent field = aget object field"
  using assms by (auto simp: request_stream_usage_def usage_asked_def aget_aput)

lemma codex_sent:
  assumes "codex_fields object = Inr sent"
  shows "aget sent ''max_output_tokens'' = None"
    "field \<noteq> ''instructions'' \<Longrightarrow> field \<noteq> ''max_output_tokens'' \<Longrightarrow> aget sent field = aget object field"
  using assms by (auto simp: codex_fields_def Let_def aget_aput aget_adel split: option.split_asm json.split_asm)

lemma provider_object_sent:
  assumes sent: "provider_object native transport model m object = Inr sent"
    and bound: "output_bound (req_family native) object = Inr bound"
  shows "(if transport = TransportOpenaiCodexResponses then aget sent ''max_output_tokens'' = None
      else output_bounded (req_family native) m object sent)
    \<and> model_sent transport model object sent
    \<and> (response_mode (intent native) = ModeSse \<and> transport \<in> chat_transports \<longrightarrow> usage_asked sent)
    \<and> (\<forall>field. field \<notin> gateway_fields \<longrightarrow> aget sent field = aget object field)"
proof -
  let ?named = "model_fields transport model object"
  let ?capped = "enforce_output_bound (req_family native) m ?named"
  let ?usage = "response_mode (intent native) = ModeSse \<and> transport \<in> chat_transports"
  note named = model_fields_sent(1,2) [of transport model object] model_fields_sent(3) [of _ transport model object]
  have "output_bound (req_family native) ?named = Inr bound" using bounds_same(3) [OF named(2)] bound by simp
  then have capped: "output_bounded (req_family native) m object ?capped"
    using enforced_bounded bounds_same(1) [OF named(2)] by blast
  obtain mid where mid: "(if ?usage then request_stream_usage ?capped else Inr ?capped) = Inr mid"
    and last: "(if transport = TransportOpenaiCodexResponses then codex_fields mid else Inr mid) = Inr sent"
    using sent by (auto simp: provider_object_def Let_def)
  have same: "same_bounds mid ?capped" "model_sent transport model object mid" "?usage \<longrightarrow> usage_asked mid"
    "field \<notin> gateway_fields \<Longrightarrow> aget mid field = aget object field" for field
    using mid stream_usage_sent [of ?capped mid] named(1) named(3) [of field] enforced_same
    by (auto simp: same_bounds_def model_sent_def gateway_fields_def split: if_split_asm)
  show ?thesis
  proof (cases "transport = TransportOpenaiCodexResponses")
    case True
    then have "\<not> ?usage" by (simp add: chat_transports_def)
    with True last same codex_sent [of mid sent] show ?thesis
      by (auto simp: model_sent_def gateway_fields_def)
  next
    case False
    with last same capped bounds_same(2) [OF same(1)] show ?thesis by auto
  qed
qed

lemma isolated_request_object:
  assumes "isolated_request env admission candidate native = Inr isolated" "envelope native = JObject object"
  shows "\<exists>members. envelope isolated = JObject members \<and> req_family isolated = req_family native
    \<and> intent isolated = intent native \<and> (\<forall>field. field \<noteq> ''prompt_cache_key'' \<longrightarrow> aget members field = aget object field)"
  using assms
  by (auto simp: isolated_request_def isolate_cache_key_def aget_aput split: if_split_asm option.split_asm)

subsection \<open>The property\<close>

text \<open>
  C40: The body a provider receives for an accepted request asks for no more output than the limit of the route and
  the target.  It always carries a bound, and each bound is the smaller of the client's and that limit, or the limit where
  the client gave none; the Codex transport takes none.  One field escapes: the \<open>max_tokens\<close> of a chat
  completion that has \<open>max_completion_tokens\<close> too is sent as it came.  The model is the upstream one, wherever
  the transport has it in the body; a chat stream is asked to report its usage; and every field that is not the gateway's
  is the client's.
\<close>

theorem prepared_body_bounded:
  assumes "parse_json_request from_slice family body request_id path_model path_streaming = Inr request"
    and "prepare_body we env admission candidate request (maximum_output_units admission candidate) = Inr bytes"
    and "envelope request = JObject object" "dep_transport_kind (cand_deployment candidate) = transport"
  shows "\<exists>sent. we_to_vec we (JObject sent) = Some bytes
    \<and> (if transport = TransportOpenaiCodexResponses then aget sent ''max_output_tokens'' = None
       else output_bounded family (Min (insert (max_output_units (effective_request_policy admission))
         (set_option (narrow_max_output_units (narrowing_constraints (cand_target candidate)))))) object sent)
    \<and> model_sent transport (upstream_model_id (cand_deployment candidate)) object sent
    \<and> (response_mode (intent request) = ModeSse \<and> transport \<in> chat_transports \<longrightarrow> usage_asked sent)
    \<and> (\<forall>field. field \<notin> gateway_fields \<longrightarrow> aget sent field = aget object field)"
proof -
  let ?m = "maximum_output_units admission candidate"
  let ?model = "upstream_model_id (cand_deployment candidate)"
  have m: "?m = Min (insert (max_output_units (effective_request_policy admission))
      (set_option (narrow_max_output_units (narrowing_constraints (cand_target candidate)))))"
    by (cases "narrow_max_output_units (narrowing_constraints (cand_target candidate))")
      (simp_all add: maximum_output_units_def Let_def min.commute)
  have family: "req_family request = family" and bound: "output_bound family object = Inr (requested_output_bound (intent request))"
    using parse_json_request_InrD [OF assms(1)] assms(3) by (auto simp: parsed_request_def Let_def)
  obtain isolated where isolated: "isolated_request env admission candidate request = Inr isolated"
    and adapted: "adapt_provider_body we isolated transport ?model ?m = Inr bytes"
    using assms(2,4) by (auto simp: prepare_body_def)
  obtain members where members: "envelope isolated = JObject members" "req_family isolated = family"
    "intent isolated = intent request" "\<forall>field. field \<noteq> ''prompt_cache_key'' \<longrightarrow> aget members field = aget object field"
    using isolated_request_object [OF isolated assms(3)] family by auto
  obtain sent where sent: "provider_object isolated transport ?model ?m members = Inr sent"
    and bytes: "we_to_vec we (JObject sent) = Some bytes"
    using adapted members(1) by (auto simp: adapt_provider_body_def)
  have same: "same_bounds members object" using members(4) by (simp add: same_bounds_def)
  then have "output_bound (req_family isolated) members = Inr (requested_output_bound (intent request))"
    using bounds_same(3) bound members(2) by simp
  from provider_object_sent [OF sent this] bytes show ?thesis
    using members bounds_same(1) [OF same] unfolding m
    by (intro exI [of _ sent]) (auto simp: model_sent_def gateway_fields_def)
qed

text \<open>A chat completion with both fields: the newer bound is small, the older one above every limit.\<close>

definition both_candidate :: Candidate where
  "both_candidate = sample_shared\<lparr>cand_deployment := (cand_deployment sample_shared)
     \<lparr>dep_transport_kind := TransportOpenaiChatCompletions\<rparr>\<rparr>"

definition both_object :: json_object where
  "both_object = [(''model'', JString ''fast''), (''max_completion_tokens'', JNat 50), (''max_tokens'', JNat 20000)]"

definition both_sent :: json_object where
  "both_sent = aput ''max_completion_tokens'' (JNat 50) (aput ''model'' (JString (upstream_model_id (cand_deployment both_candidate)))
     both_object)"

definition both_slice :: "string \<Rightarrow> json option" where
  "both_slice body = (if body = ''b'' then Some (JObject both_object) else None)"

definition both_wire :: WireExternals where
  "both_wire = sample_wire\<lparr>we_to_vec := (\<lambda>document. if document = JObject both_sent then Some ''s'' else None)\<rparr>"

definition both_request :: NativeRequest where
  "both_request = parsed_request IngressOpenaiChatCompletions ''b'' (JObject both_object) both_object ''fast'' False (Some 50) None"

lemma both_parse:
  "parse_json_request both_slice IngressOpenaiChatCompletions ''b'' ''r'' None None = Inr both_request"
proof -
  have "json_nodes (JObject both_object) \<le> MAX_JSON_NODES" "json_depth (JObject both_object) \<le> MAX_JSON_DEPTH"
    by (simp_all add: both_object_def json_nodes.simps json_depth_simps JNat_def MAX_JSON_NODES_def MAX_JSON_DEPTH_def)
  then have complexity: "validate_json_complexity (JObject both_object) = Inr ()"
    by (simp add: validate_json_complexity_iff)
  have model: "required_bounded_string both_object ''model'' 512 = Inr ''fast''"
    "validate_model_key ''fast'' = Inr ()" "optional_bool both_object ''stream'' = Inr None"
    by (simp_all add: required_bounded_string_def optional_bounded_string_def bounded_string_def
        both_object_def validate_model_key_def starts_with_def optional_bool_def)
  have bound: "output_bound IngressOpenaiChatCompletions both_object = Inr (Some 50)"
    by (simp add: output_bound.simps both_object_def parse_positive_integer_def)
  show ?thesis
    by (simp add: parse_json_request_def both_slice_def complexity model bound or_invalid_def Let_def
        both_request_def parsed_request_def)
qed

lemma both_limit: "maximum_output_units (sample_context 1) both_candidate = 16384"
  by (simp add: maximum_output_units_def sample_context_def RouteRequestPolicy_default_def route_policy_defaults
      both_candidate_def sample_shared_def sample_probed_def)

lemma both_prepared:
  "prepare_body both_wire sample_names (sample_context 1) both_candidate both_request
    (maximum_output_units (sample_context 1) both_candidate) = Inr ''s''"
proof -
  have plain: "both_request\<lparr>envelope := JObject both_object\<rparr> = both_request"
    by (simp add: both_request_def parsed_request_def Let_def)
  have fields: "req_family both_request = IngressOpenaiChatCompletions" "envelope both_request = JObject both_object"
    "response_mode (intent both_request) = ModeJson"
    by (simp_all add: both_request_def parsed_request_def Let_def)
  have isolated: "isolated_request sample_names (sample_context 1) both_candidate both_request = Inr both_request"
    by (simp add: isolated_request_def fields both_candidate_def sample_shared_def mode_or_default_def items_of_def present_field_def
        isolate_cache_key_def both_object_def option_filter_def plain [unfolded both_object_def])
  have transport: "dep_transport_kind (cand_deployment both_candidate) = TransportOpenaiChatCompletions"
    by (simp add: both_candidate_def sample_shared_def sample_probed_def)
  show ?thesis
    unfolding prepare_body_def isolated both_limit transport
    by (simp add: adapt_provider_body_def provider_object_def fields model_fields_def gemini_transports_def
        enforce_output_bound.simps clamp_field_def both_wire_def both_sent_def both_object_def contains_key_def Let_def)
qed

lemma prepared_body_bounded_witness:
  "aget both_sent ''max_completion_tokens'' = Some (JNat 50) \<and> aget both_sent ''max_tokens'' = Some (JNat 20000)
    \<and> maximum_output_units (sample_context 1) both_candidate = 16384
    \<and> output_bounded IngressOpenaiChatCompletions 16384 both_object both_sent"
proof -
  have "envelope both_request = JObject both_object"
    by (simp add: both_request_def parsed_request_def Let_def)
  moreover have "dep_transport_kind (cand_deployment both_candidate) \<noteq> TransportOpenaiCodexResponses"
    by (simp add: both_candidate_def sample_shared_def sample_probed_def)
  ultimately obtain sent where "we_to_vec both_wire (JObject sent) = Some ''s''"
    and "output_bounded IngressOpenaiChatCompletions (Min (insert (max_output_units (effective_request_policy (sample_context 1)))
       (set_option (narrow_max_output_units (narrowing_constraints (cand_target both_candidate)))))) both_object sent"
    using prepared_body_bounded [OF both_parse both_prepared _ refl] by auto
  moreover have "Min (insert (max_output_units (effective_request_policy (sample_context 1)))
       (set_option (narrow_max_output_units (narrowing_constraints (cand_target both_candidate))))) = 16384"
    by (simp add: sample_context_def RouteRequestPolicy_default_def route_policy_defaults both_candidate_def sample_shared_def sample_probed_def)
  ultimately have "output_bounded IngressOpenaiChatCompletions 16384 both_object both_sent"
    by (simp add: both_wire_def split: if_split_asm)
  then show ?thesis using both_limit by (simp add: both_sent_def both_object_def)
qed

end
