(* ===== verification/Spec2Isabelle.thy ===== *)
theory Spec2Isabelle
  imports Circuits Slots Leases Attempts DispatchLaws UsageLaws PublisherLaws EgressLaws
    AuthorityLaws IdempotencyLaws StreamRelease PolicyLaws RequestLaws
begin

text \<open>
  A model of OwlRora, an LLM gateway (\<open>crates/owlrora-server\<close>): the domain vocabulary, the runtime
  generation a request is served from, the life of a request from its credential to the end of its
  response, the budgets and limits that replicas share through Redis, the recording of usage, and the
  authority that the management interface acts under.

  The parts, from the bottom up.  Names of files are relative to the \<open>src\<close> of the crate.

  \<^bold>\<open>Foundations.\<close>  \<^theory_text>\<open>Prelude\<close> has the bounded integers, the error results and the
  association lists that stand for hash maps.  \<^theory_text>\<open>Access\<close> and \<^theory_text>\<open>KeyMaterial\<close> model
  \<open>domain\<close>: scopes, capabilities, principals, and the API keys.  \<^theory_text>\<open>Catalog\<close> models
  \<open>domain/catalog.rs\<close>.  \<^theory_text>\<open>Pricing\<close>, \<^theory_text>\<open>Reliability\<close> and \<^theory_text>\<open>Runtime\<close> model
  \<open>runtime/generation.rs\<close>: the immutable snapshot a request sees, its price lists and its validated
  reliability policies; \<^theory_text>\<open>PolicyLaws\<close> proves what their validation means for the attempts, waits,
  circuits and probes that run on them.

  \<^bold>\<open>Publication.\<close>  \<^theory_text>\<open>Publisher\<close> models \<open>runtime/publisher.rs\<close> and the client registry of
  \<open>runtime/builder.rs\<close>: observing revisions, compiling behind the security fence, publishing, retrying, and
  capturing a generation for a decision.  \<^theory_text>\<open>PublisherLaws\<close> proves over every run that what is
  published never regresses, that a captured generation carries every tightening older than its age limit,
  that a failed reconciliation changes nothing that is served, and that an operational target has its client.
  \<^theory_text>\<open>Egress\<close> models the address policies, of \<open>runtime/builder.rs\<close> for providers and of
  \<open>application/identity_egress.rs\<close> for identity endpoints; \<^theory_text>\<open>EgressLaws\<close> proves what a
  resolution lets through, compares the two lists of networks, and shows the literal addresses that escape
  the first.

  \<^bold>\<open>Shared limits.\<close>  \<^theory_text>\<open>Policies\<close>, \<^theory_text>\<open>Budget\<close>, \<^theory_text>\<open>Limits\<close> and
  \<^theory_text>\<open>Admission\<close> model \<open>gateway/admission.rs\<close>; \<^theory_text>\<open>BudgetLedger\<close> and
  \<^theory_text>\<open>BudgetRuns\<close> prove that its local grants, reservations, debts and returns account for every nano
  the coordinator granted.  \<^theory_text>\<open>Decimal\<close>, \<^theory_text>\<open>Store\<close>, \<^theory_text>\<open>Scripts\<close> and
  \<^theory_text>\<open>Coordinator\<close> model \<open>adapters/coordinator.rs\<close>: the Lua scripts and the client that runs
  them; \<^theory_text>\<open>Lifecycle\<close>, \<^theory_text>\<open>Allowances\<close>, \<^theory_text>\<open>Leases\<close> and \<^theory_text>\<open>Slots\<close>
  prove what they guarantee: the fencing of policy changes, the exactness of budget allowances, and the
  bounds on strict leases and approximate slots for every interleaving of calls.  \<^theory_text>\<open>Attempts\<close>
  proves that an attempt's reservation over the modelled coordinator is a run of the ledger of
  \<^theory_text>\<open>BudgetRuns\<close>.

  \<^bold>\<open>Serving a request.\<close>  \<^theory_text>\<open>Protection\<close> models \<open>gateway/protection.rs\<close> and
  \<^theory_text>\<open>Circuits\<close> proves its accounting for every interleaving of attempts.  \<^theory_text>\<open>Health\<close> models
  \<open>gateway/health.rs\<close>, the probes of upstream targets and the ramp of recovering ones.
  \<^theory_text>\<open>Protocols\<close> models \<open>protocols/mod.rs\<close>, the reading of native requests, and
  \<^theory_text>\<open>Routing\<close> models \<open>gateway/mod.rs\<close>: who presents a request, what that caller may use, and the
  order of the targets it is tried on.  \<^theory_text>\<open>Wire\<close> models \<open>adapters/provider/wire.rs\<close>, the framing
  and inspection of bodies and streams; \<^theory_text>\<open>WireLaws\<close> proves that reading does not depend on how the
  bytes are cut, and that messages are reassembled.  \<^theory_text>\<open>Isolation\<close> models \<open>gateway/lifetime.rs\<close>
  and \<open>gateway/isolation.rs\<close> and proves that callers never share a prompt cache key.
  \<^theory_text>\<open>RequestLaws\<close> proves what the body sent upstream keeps of the client's and which output bounds it carries.
  \<^theory_text>\<open>Exchange\<close>, \<^theory_text>\<open>Streaming\<close> and \<^theory_text>\<open>Dispatch\<close> model
  \<open>gateway/dispatch.rs\<close>: one attempt with its answer, a committed stream up to its end, and the loops over
  targets and attempts around them.  \<^theory_text>\<open>AttemptLaws\<close> and \<^theory_text>\<open>DispatchLaws\<close> prove that every
  attempt releases what it holds and is recorded once, that a request is recorded once however it ends, that
  the attempts are bounded, and that a continuation stays with the target that holds its state;
  \<^theory_text>\<open>StreamRelease\<close> proves that a stream has given back its permit and its reservation by its deadline.

  \<^bold>\<open>Recording.\<close>  \<^theory_text>\<open>Usage\<close> models \<open>gateway/usage.rs\<close>: the buckets of facts, sealing,
  flushing and retention; \<^theory_text>\<open>UsageLaws\<close> proves that no fact is counted twice and none is dropped
  uncounted over every run, lost answers of the database included, and that a flush of everything drains
  unless the database refuses a batch.

  \<^bold>\<open>Management.\<close>  \<^theory_text>\<open>Authority\<close> models \<open>application/authentication.rs\<close> with
  \<open>application/auth.rs\<close> and the login limiter of \<open>application/service.rs\<close>; \<^theory_text>\<open>AuthorityLaws\<close>
  proves that a session never allows more than it captured nor more than its credential still has, where the
  authority of a user comes from, that a logout ends its session for good, and the bound on logins.
  \<^theory_text>\<open>Idempotency\<close> models \<open>application/idempotency.rs\<close> and \<open>application/etag.rs\<close>;
  \<^theory_text>\<open>IdempotencyLaws\<close> proves the replay of completed commands and the exactness of the cleanup.

  How the model corresponds to the code.  A struct is a record, an enum a datatype, a \<open>Result\<close> a sum with
  the error on the left, a hash map an association list with distinct keys (properties hold for every order).
  Unsigned integers are naturals; where the code saturates, checks or truncates at a width the bound is
  written out.  A function that locks a state, runs and unlocks is a function of the state.  Clock readings,
  fresh identifiers and the functions of other packages (UUID text, SHA-256, JSON codecs, base64url, CIDR
  matching, the resolution of names, the check of a JWT) are arguments; Redis is a record of its commands
  with the laws of the locale \<open>redis\<close>, and a call to it may fail before or after it took effect.  A table
  of the database is an association list over its key, and a transaction commits as a whole or not at all.
  There is no fuel: every loop of the modelled code runs over a finite list or has a termination proof, and
  the events of a stream or a run are lists of any length.

  Not modelled: cancellation inside a call to the coordinator, metrics, trace spans and response headers,
  the WebSocket bridge, the SQL of the other application services and of the reading half of the runtime
  builder, request signing and cryptography, the HTTP surface, configuration and the command line client;
  the token-bucket script, which computes with fractions in Lua doubles.  The manifest lists each part.
\<close>

end
